(* ===== verification/Prelude.thy ===== *)
theory Prelude
  imports
    Complex_Main
    "HOL-Library.Char_ord"
    "HOL-Library.List_Lexorder"
    "HOL-Library.Word"
begin

text \<open>
  The Go run time as far as the program uses it: byte strings and the functions of
  package strings, instants and durations of package time, decimal and UUID printing,
  fallible results as sums, and database transactions as functions from a database state
  to an error or to a value and the next state.  The lemma collections the component
  theories share are declared here.

  A Go string is a sequence of bytes, so it is a \<^typ>\<open>string\<close> (a list of 8-bit
  characters).  White space is Go's unicode.IsSpace, decoded from UTF-8 exactly.  The
  Unicode case tables are data of the run time and stay a parameter (record
  \<open>unicode\<close>); on ASCII strings the functions are written out.
\<close>

named_theorems tx_simps \<open>unfolding rules of transactions\<close>
named_theorems str_simps \<open>evaluation of the string functions\<close>

section \<open>Results\<close>

type_synonym ('e, 'a) result = "'e + 'a"

definition rbind :: "('e, 'a) result \<Rightarrow> ('a \<Rightarrow> ('e, 'b) result) \<Rightarrow> ('e, 'b) result" where
  "rbind m f = (case m of Inl e \<Rightarrow> Inl e | Inr x \<Rightarrow> f x)"

lemma rbind_Inl [simp]: "rbind (Inl e) f = Inl e"
  by (simp add: rbind_def)

lemma rbind_Inr [simp]: "rbind (Inr x) f = f x"
  by (simp add: rbind_def)

lemma rbind_eq_Inr: "rbind m f = Inr y \<longleftrightarrow> (\<exists>x. m = Inr x \<and> f x = Inr y)"
  by (cases m) auto

section \<open>Instants and durations\<close>

text \<open>
  An instant is its number of nanoseconds since the Unix epoch; the zero value of
  time.Time is the first of January of year 1, UTC.  A duration is a number of
  nanoseconds.
\<close>

type_synonym instant = int
type_synonym duration = int

definition second :: duration where "second = 1000000000"
definition minute :: duration where "minute = 60 * second"
definition hour :: duration where "hour = 60 * minute"

definition zero_time :: instant where
  "zero_time = - 62135596800 * second"

definition is_zero_time :: "instant \<Rightarrow> bool" where
  "is_zero_time t \<longleftrightarrow> t = zero_time"

text \<open>time.Truncate rounds down to a multiple of the duration since the zero time.\<close>

definition truncate_time :: "instant \<Rightarrow> duration \<Rightarrow> instant" where
  "truncate_time t d = (if d \<le> 0 then t else t - (t - zero_time) mod d)"

lemmas time_defs = second_def minute_def hour_def zero_time_def is_zero_time_def

lemma truncate_time_le: "truncate_time t d \<le> t"
  by (cases "d \<le> 0") (auto simp: truncate_time_def)

lemma truncate_time_window: "0 < d \<Longrightarrow> t < truncate_time t d + d"
  using pos_mod_bound [of d "t - zero_time"] by (simp add: truncate_time_def)

lemma truncate_time_same_window:
  assumes "0 < d" and "truncate_time t d \<le> u" and "u < truncate_time t d + d"
  shows "truncate_time u d = truncate_time t d"
proof -
  define s where "s = t - zero_time"
  have eq: "s - s mod d = d * (s div d)"
    by (simp add: minus_mod_eq_mult_div)
  have lo: "d * (s div d) \<le> u - zero_time" and hi: "u - zero_time < d * (s div d) + d"
    using assms unfolding truncate_time_def eq [symmetric] by (simp_all add: s_def split: if_splits)
  have "(u - zero_time) div d = s div d"
    using lo hi \<open>0 < d\<close>
    by (intro int_div_pos_eq [where r = "u - zero_time - d * (s div d)"]) auto
  then have "(u - zero_time) - (u - zero_time) mod d = s - s mod d"
    by (simp add: minus_mod_eq_mult_div)
  then show ?thesis
    using \<open>0 < d\<close> by (simp add: truncate_time_def s_def)
qed

section \<open>Strings\<close>

definition char_code :: "char \<Rightarrow> nat" where
  "char_code c = of_char c"

lemma char_code_less: "char_code c < 256"
  by (cases c) (simp add: char_code_def)

lemma char_code_inj: "char_code c = char_code d \<Longrightarrow> c = d"
  unfolding char_code_def by (rule injD [OF inj_of_char])

definition ascii_char :: "char \<Rightarrow> bool" where
  "ascii_char c \<longleftrightarrow> char_code c < 128"

definition ascii :: "string \<Rightarrow> bool" where
  "ascii s \<longleftrightarrow> list_all ascii_char s"

definition lower_char :: "char \<Rightarrow> char" where
  "lower_char c = (if 65 \<le> char_code c \<and> char_code c \<le> 90 then char_of (char_code c + 32) else c)"

definition upper_char :: "char \<Rightarrow> char" where
  "upper_char c = (if 97 \<le> char_code c \<and> char_code c \<le> 122 then char_of (char_code c - 32) else c)"

text \<open>The case tables of package unicode, used on strings with a byte above 127.\<close>

record unicode =
  u_lower :: "string \<Rightarrow> string"
  u_upper :: "string \<Rightarrow> string"
  u_fold :: "string \<Rightarrow> string \<Rightarrow> bool"

definition to_lower :: "unicode \<Rightarrow> string \<Rightarrow> string" where
  "to_lower U s = (if ascii s then map lower_char s else u_lower U s)"

definition to_upper :: "unicode \<Rightarrow> string \<Rightarrow> string" where
  "to_upper U s = (if ascii s then map upper_char s else u_upper U s)"

definition equal_fold :: "unicode \<Rightarrow> string \<Rightarrow> string \<Rightarrow> bool" where
  "equal_fold U s t =
     (if ascii s \<and> ascii t then map lower_char s = map lower_char t else u_fold U s t)"

lemma char_code_of: "n < 256 \<Longrightarrow> char_code (char_of n) = n"
  by (simp add: char_code_def of_char_of)

lemma lower_char_idem [simp]: "lower_char (lower_char c) = lower_char c"
  by (auto simp: lower_char_def char_code_of)

lemma ascii_lower_char: "ascii_char c \<Longrightarrow> ascii_char (lower_char c)"
  by (auto simp: lower_char_def ascii_char_def char_code_of)

lemma ascii_map_lower: "ascii s \<Longrightarrow> ascii (map lower_char s)"
  by (auto simp: ascii_def list_all_iff intro: ascii_lower_char)

lemma to_lower_idem_ascii: "ascii s \<Longrightarrow> to_lower U (to_lower U s) = to_lower U s"
  by (simp add: to_lower_def ascii_map_lower comp_def)

definition has_prefix :: "string \<Rightarrow> string \<Rightarrow> bool" where
  "has_prefix s p \<longleftrightarrow> take (length p) s = p"

definition has_suffix :: "string \<Rightarrow> string \<Rightarrow> bool" where
  "has_suffix s p \<longleftrightarrow> length p \<le> length s \<and> drop (length s - length p) s = p"

definition trim_prefix :: "string \<Rightarrow> string \<Rightarrow> string" where
  "trim_prefix s p = (if has_prefix s p then drop (length p) s else s)"

definition trim_suffix :: "string \<Rightarrow> string \<Rightarrow> string" where
  "trim_suffix s p = (if has_suffix s p then take (length s - length p) s else s)"

definition contains_any :: "string \<Rightarrow> string \<Rightarrow> bool" where
  "contains_any s cs \<longleftrightarrow> list_ex (\<lambda>c. c \<in> set cs) s"

lemma has_prefix_append [simp]: "has_prefix (p @ s) p"
  by (simp add: has_prefix_def)

lemma trim_prefix_append [simp]: "trim_prefix (p @ s) p = s"
  by (simp add: trim_prefix_def)

lemma has_prefix_iff: "has_prefix s p \<longleftrightarrow> (\<exists>r. s = p @ r)"
  by (metis append_take_drop_id has_prefix_append has_prefix_def)

text \<open>strings.Contains: the substring occurs at some position.\<close>

fun contains :: "string \<Rightarrow> string \<Rightarrow> bool" where
  "contains [] p = (p = [])"
| "contains (c # s) p = (has_prefix (c # s) p \<or> contains s p)"

text \<open>
  unicode.IsSpace as UTF-8 byte sequences: the ASCII blanks, U+0085, U+00A0, U+1680,
  U+2000 to U+200A, U+2028, U+2029, U+202F, U+205F and U+3000.
\<close>

definition bytes :: "nat list \<Rightarrow> string" where
  "bytes ns = map char_of ns"

definition space_tokens :: "string list" where
  "space_tokens = map bytes
     ([[9], [10], [11], [12], [13], [32], [194, 133], [194, 160], [225, 154, 128]]
      @ map (\<lambda>n. [226, 128, n]) [128, 129, 130, 131, 132, 133, 134, 135, 136, 137, 138, 168, 169, 175]
      @ [[226, 129, 159], [227, 128, 128]])"

definition space_at :: "string \<Rightarrow> nat" where
  "space_at s = (case find (has_prefix s) space_tokens of None \<Rightarrow> 0 | Some w \<Rightarrow> length w)"

definition space_at_end :: "string \<Rightarrow> nat" where
  "space_at_end s = (case find (has_suffix s) space_tokens of None \<Rightarrow> 0 | Some w \<Rightarrow> length w)"

function trim_left :: "string \<Rightarrow> string" where
  "trim_left s = (if 0 < space_at s \<and> s \<noteq> [] then trim_left (drop (space_at s) s) else s)"
  by pat_completeness auto
termination
  by (relation "measure length") auto

function trim_right :: "string \<Rightarrow> string" where
  "trim_right s =
     (if 0 < space_at_end s \<and> s \<noteq> [] then trim_right (take (length s - space_at_end s) s) else s)"
  by pat_completeness auto
termination
  by (relation "measure length") auto

declare trim_left.simps [simp del] trim_right.simps [simp del]

definition trim_space :: "string \<Rightarrow> string" where
  "trim_space s = trim_right (trim_left s)"

text \<open>White space trimming is the identity on text that neither begins nor ends with it.\<close>

lemma trim_space_id:
  assumes "space_at s = 0" and "space_at_end s = 0"
  shows "trim_space s = s"
proof -
  have "trim_left s = s" using assms(1) by (subst trim_left.simps) simp
  moreover have "trim_right s = s" using assms(2) by (subst trim_right.simps) simp
  ultimately show ?thesis by (simp add: trim_space_def)
qed

text \<open>A string that begins and ends with a visible ASCII character has nothing to trim.\<close>

definition visible :: "char \<Rightarrow> bool" where
  "visible c \<longleftrightarrow> 33 \<le> char_code c \<and> char_code c < 128"

lemma space_tokens_invisible:
  "list_all (\<lambda>t. t \<noteq> [] \<and> \<not> visible (hd t) \<and> \<not> visible (last t)) space_tokens"
  by (simp add: space_tokens_def bytes_def visible_def char_code_of)

lemma has_prefix_hd: "has_prefix s t \<Longrightarrow> t \<noteq> [] \<Longrightarrow> hd s = hd t"
  by (cases t) (auto simp: has_prefix_iff)

lemma has_suffix_last: "has_suffix s t \<Longrightarrow> t \<noteq> [] \<Longrightarrow> last s = last t"
  by (metis append_take_drop_id has_suffix_def last_appendR)

lemma trim_space_visible:
  assumes "visible (hd s)" and "visible (last s)"
  shows "trim_space s = s"
proof -
  have "\<not> has_prefix s t \<and> \<not> has_suffix s t" if "t \<in> set space_tokens" for t
    using space_tokens_invisible that assms has_prefix_hd [of s t] has_suffix_last [of s t]
    by (auto simp: list_all_iff)
  then have "find (has_prefix s) space_tokens = None" "find (has_suffix s) space_tokens = None"
    by (auto simp: find_None_iff)
  then show ?thesis by (intro trim_space_id) (simp_all add: space_at_def space_at_end_def)
qed

text \<open>strings.Fields: the maximal runs of bytes that are not white space.\<close>

function fields_from :: "string \<Rightarrow> string \<Rightarrow> string list" where
  "fields_from acc s =
     (if s = [] then (if acc = [] then [] else [rev acc])
      else if 0 < space_at s
        then (if acc = [] then [] else [rev acc]) @ fields_from [] (drop (space_at s) s)
      else fields_from (hd s # acc) (tl s))"
  by pat_completeness auto
termination
  by (relation "measure (\<lambda>(acc, s). length s)") auto

declare fields_from.simps [simp del]

definition fields :: "string \<Rightarrow> string list" where
  "fields s = fields_from [] s"

text \<open>strings.Split for a separator that is not empty.\<close>

function split_from :: "string \<Rightarrow> string \<Rightarrow> string \<Rightarrow> string list" where
  "split_from sep acc s =
     (if s = [] then [rev acc]
      else if sep \<noteq> [] \<and> has_prefix s sep
        then rev acc # split_from sep [] (drop (length sep) s)
      else split_from sep (hd s # acc) (tl s))"
  by pat_completeness auto
termination
  by (relation "measure (\<lambda>(sep, acc, s). length s)") auto

declare split_from.simps [simp del]

definition split :: "string \<Rightarrow> string \<Rightarrow> string list" where
  "split s sep = split_from sep [] s"

lemma split_from_nonempty: "split_from sep acc s \<noteq> []"
  by (induction sep acc s rule: split_from.induct) (subst split_from.simps, auto)

lemma split_nonempty [simp]: "split s sep \<noteq> []"
  by (simp add: split_def split_from_nonempty)

lemma split_absent: "c \<notin> set s \<Longrightarrow> split s [c] = [s]"
proof -
  have "split_from [c] acc s = [rev acc @ s]" if "c \<notin> set s" for acc
    using that
  proof (induction s arbitrary: acc)
    case Nil
    show ?case by (subst split_from.simps) simp
  next
    case (Cons a s)
    from Cons.prems have "split_from [c] acc (a # s) = split_from [c] (a # acc) s"
      by (subst split_from.simps) (auto simp: has_prefix_def)
    with Cons show ?case by simp
  qed
  then show "c \<notin> set s \<Longrightarrow> split s [c] = [s]" by (simp add: split_def)
qed

text \<open>strconv.Itoa.\<close>

definition digit_char :: "nat \<Rightarrow> char" where
  "digit_char d = char_of (48 + d)"

fun show_nat :: "nat \<Rightarrow> string" where
  "show_nat n = (if n < 10 then [digit_char n] else show_nat (n div 10) @ [digit_char (n mod 10)])"

declare show_nat.simps [simp del]

definition itoa :: "int \<Rightarrow> string" where
  "itoa i = (if i < 0 then ''-'' @ show_nat (nat (- i)) else show_nat (nat i))"

text \<open>
  time.Time.UTC().Format(time.RFC3339Nano): the proleptic Gregorian date, the time of day
  and the fraction of a second without trailing zeros.
\<close>

definition pad :: "nat \<Rightarrow> nat \<Rightarrow> string" where
  "pad w n = replicate (w - length (show_nat n)) (CHR ''0'') @ show_nat n"

definition civil_from_days :: "int \<Rightarrow> int \<times> int \<times> int" where
  "civil_from_days days =
     (let z = days + 719468;
          era = z div 146097;
          doe = z mod 146097;
          yoe = (doe - doe div 1460 + doe div 36524 - doe div 146096) div 365;
          doy = doe - (365 * yoe + yoe div 4 - yoe div 100);
          mp = (5 * doy + 2) div 153;
          d = doy - (153 * mp + 2) div 5 + 1;
          m = (if mp < 10 then mp + 3 else mp - 9);
          y = yoe + era * 400 + (if m \<le> 2 then 1 else 0)
      in (y, m, d))"

definition fraction_text :: "nat \<Rightarrow> string" where
  "fraction_text ns =
     (if ns = 0 then []
      else ''.'' @ rev (dropWhile (\<lambda>c. c = CHR ''0'') (rev (pad 9 ns))))"

definition rfc3339nano :: "instant \<Rightarrow> string" where
  "rfc3339nano t =
     (let secs = t div second; ns = t mod second; tod = secs mod 86400 in
      case civil_from_days (secs div 86400) of (y, m, d) \<Rightarrow>
        pad 4 (nat y) @ ''-'' @ pad 2 (nat m) @ ''-'' @ pad 2 (nat d) @ ''T''
        @ pad 2 (nat (tod div 3600)) @ '':'' @ pad 2 (nat (tod div 60 mod 60)) @ '':''
        @ pad 2 (nat (tod mod 60)) @ fraction_text (nat ns) @ ''Z'')"

lemma rfc3339nano_nonempty [simp]: "rfc3339nano t \<noteq> []"
  by (simp add: rfc3339nano_def Let_def split: prod.split)

text \<open>
  utf8.RuneCountInString: the length of the encoding at the head of a byte sequence, by
  the accept ranges of package utf8; an invalid byte counts as one rune.
\<close>

definition cont_in :: "nat \<Rightarrow> nat \<Rightarrow> string \<Rightarrow> nat \<Rightarrow> bool" where
  "cont_in lo hi s k \<longleftrightarrow> k < length s \<and> lo \<le> char_code (s ! k) \<and> char_code (s ! k) \<le> hi"

definition rune_len :: "string \<Rightarrow> nat" where
  "rune_len s =
     (case s of [] \<Rightarrow> 0
      | c # _ \<Rightarrow>
        (let b = char_code c; k = (\<lambda>i. cont_in 128 191 s i) in
         if b < 128 then 1
         else if 194 \<le> b \<and> b \<le> 223 then (if k 1 then 2 else 1)
         else if 224 \<le> b \<and> b \<le> 239 then
           (if cont_in (if b = 224 then 160 else 128) (if b = 237 then 159 else 191) s 1 \<and> k 2
            then 3 else 1)
         else if 240 \<le> b \<and> b \<le> 244 then
           (if cont_in (if b = 240 then 144 else 128) (if b = 244 then 143 else 191) s 1 \<and> k 2 \<and> k 3
            then 4 else 1)
         else 1))"

lemma rune_len_pos: "s \<noteq> [] \<Longrightarrow> 0 < rune_len s"
  by (cases s) (simp_all add: rune_len_def Let_def)

function rune_count :: "string \<Rightarrow> nat" where
  "rune_count s = (if s = [] then 0 else Suc (rune_count (drop (rune_len s) s)))"
  by pat_completeness auto
termination
  by (relation "measure length") (auto simp: rune_len_pos)

declare rune_count.simps [simp del]

lemma rune_count_le_length: "rune_count s \<le> length s"
proof (induction s rule: rune_count.induct)
  case (1 s)
  show ?case
  proof (cases "s = []")
    case True
    then show ?thesis by (simp add: rune_count.simps)
  next
    case False
    then have "0 < rune_len s" by (rule rune_len_pos)
    with False have "length (drop (rune_len s) s) < length s" by simp
    with 1 [OF False] have "Suc (rune_count (drop (rune_len s) s)) \<le> length s" by linarith
    with False show ?thesis by (simp add: rune_count.simps [of s])
  qed
qed

section \<open>UUIDs\<close>

type_synonym uuid = "128 word"

abbreviation uuid_nil :: uuid where "uuid_nil \<equiv> 0"

definition hex_char :: "nat \<Rightarrow> char" where
  "hex_char d = (if d < 10 then char_of (48 + d) else char_of (87 + d))"

text \<open>uuid.UUID.String: 32 lower-case hexadecimal digits in groups of 8-4-4-4-12.\<close>

definition uuid_digits :: "uuid \<Rightarrow> string" where
  "uuid_digits u = map (\<lambda>k. hex_char (unat u div 16 ^ (31 - k) mod 16)) [0..<32]"

definition uuid_string :: "uuid \<Rightarrow> string" where
  "uuid_string u =
     (let h = uuid_digits u in
      take 8 h @ ''-'' @ take 4 (drop 8 h) @ ''-'' @ take 4 (drop 12 h) @ ''-''
      @ take 4 (drop 16 h) @ ''-'' @ drop 20 h)"

section \<open>Transactions\<close>

text \<open>
  A transaction body reads and updates the database state or stops with an error.  The
  driver may refuse any statement: \<open>stmt flt k m\<close> is the k-th statement of a call and
  fails when the fault pattern \<open>flt\<close> says so.  \<open>run_tx\<close> is Begin, the body and
  Commit; every error path of the source leaves through the deferred Rollback, which
  restores the state before Begin.
\<close>

type_synonym ('e, 's, 'a) tx = "'s \<Rightarrow> ('e, 'a \<times> 's) result"
type_synonym faults = "nat \<Rightarrow> bool"

definition tx_return :: "'a \<Rightarrow> ('e, 's, 'a) tx" where
  "tx_return x = (\<lambda>s. Inr (x, s))"

definition tx_fail :: "'e \<Rightarrow> ('e, 's, 'a) tx" where
  "tx_fail e = (\<lambda>s. Inl e)"

definition tx_bind :: "('e, 's, 'a) tx \<Rightarrow> ('a \<Rightarrow> ('e, 's, 'b) tx) \<Rightarrow> ('e, 's, 'b) tx" where
  "tx_bind m f = (\<lambda>s. case m s of Inl e \<Rightarrow> Inl e | Inr (x, t) \<Rightarrow> f x t)"

definition tx_read :: "('s \<Rightarrow> 'a) \<Rightarrow> ('e, 's, 'a) tx" where
  "tx_read f = (\<lambda>s. Inr (f s, s))"

definition tx_write :: "('s \<Rightarrow> 's) \<Rightarrow> ('e, 's, unit) tx" where
  "tx_write f = (\<lambda>s. Inr ((), f s))"

definition run_tx :: "('e, 's, 'a) tx \<Rightarrow> 's \<Rightarrow> ('e, 'a) result \<times> 's" where
  "run_tx m s = (case m s of Inl e \<Rightarrow> (Inl e, s) | Inr (x, t) \<Rightarrow> (Inr x, t))"

lemmas tx_defs = tx_return_def tx_fail_def tx_bind_def tx_read_def tx_write_def

lemma run_tx_error: "fst (run_tx m s) = Inl e \<Longrightarrow> snd (run_tx m s) = s"
  by (auto simp: run_tx_def split: sum.splits)

lemma run_tx_Inr: "run_tx m s = (Inr x, t) \<longleftrightarrow> m s = Inr (x, t)"
  by (auto simp: run_tx_def split: sum.splits)

lemma tx_bind_Inr:
  "tx_bind m f s = Inr (y, u) \<longleftrightarrow> (\<exists>x t. m s = Inr (x, t) \<and> f x t = Inr (y, u))"
  by (auto simp: tx_bind_def split: sum.splits)

lemma tx_return_Inr: "tx_return x s = Inr (y, t) \<longleftrightarrow> x = y \<and> s = t"
  by (simp add: tx_return_def)

lemma tx_fail_Inr: "tx_fail e s = Inr r \<longleftrightarrow> False"
  by (simp add: tx_fail_def)

lemma tx_read_Inr: "tx_read f s = Inr (y, t) \<longleftrightarrow> y = f s \<and> t = s"
  by (auto simp: tx_read_def)

lemma tx_write_Inr: "tx_write f s = Inr (y, t) \<longleftrightarrow> t = f s"
  by (auto simp: tx_write_def)

lemmas tx_Inr [tx_simps] =
  tx_bind_Inr tx_return_Inr tx_fail_Inr tx_read_Inr tx_write_Inr

text \<open>The contract every store call shares: an error leaves the state as it was.\<close>

locale atomic_call =
  fixes call :: "'s \<Rightarrow> ('e, 'a) result \<times> 's"
  assumes rollback: "fst (call s) = Inl e \<Longrightarrow> snd (call s) = s"
begin

lemma changed_means_committed:
  assumes "snd (call s) \<noteq> s"
  obtains x where "fst (call s) = Inr x"
  using assms rollback by (cases "fst (call s)") auto

end

interpretation tx_call: atomic_call "run_tx m"
  by unfold_locales (rule run_tx_error)

end
