(* ===== verification/Json.thy ===== *)
theory Json
  imports Prelude
begin

text \<open>
  The values package encoding/json decodes into and marshals from.  A number is the exact
  value of the decoded float64; an object is the list of its members in document order, and
  decoding into a Go map keeps the last member of a repeated name.
\<close>

datatype json =
    JNull
  | JBool bool
  | JNum rat
  | JStr string
  | JArr "json list"
  | JObj "(string \<times> json) list"

definition json_int :: "int \<Rightarrow> json" where
  "json_int i = JNum (of_int i)"

text \<open>A struct field with omitempty is left out when it holds the zero value.\<close>

definition omit_str :: "string \<Rightarrow> string \<Rightarrow> (string \<times> json) list" where
  "omit_str k v = (if v = [] then [] else [(k, JStr v)])"

definition omit_int :: "string \<Rightarrow> int \<Rightarrow> (string \<times> json) list" where
  "omit_int k v = (if v = 0 then [] else [(k, json_int v)])"

lemma json_int_inj [simp]: "json_int i = json_int j \<longleftrightarrow> i = j"
  by (simp add: json_int_def)

text \<open>A Go map[string]any: the last member of a name wins.\<close>

definition obj_map :: "(string \<times> json) list \<Rightarrow> string \<Rightarrow> json option" where
  "obj_map ms = map_of (rev ms)"

lemma obj_map_Nil [simp]: "obj_map [] k = None"
  by (simp add: obj_map_def)

lemma obj_map_last: "obj_map (ms @ [(k, v)]) k = Some v"
  by (simp add: obj_map_def)

end
