(* ===== verification/AuditRegistry.thy ===== *)
theory AuditRegistry
  imports Prelude Json
begin

text \<open>
  Package internal/audit: the registry of audit facts, the sealed detail payloads, the
  validation of an event against its registry entry, the stable event key, and the
  append-only insert with its idempotent retry (Write).

  An event type is one of the named constants; \<open>EventOther s\<close> is any other string.
  SHA-256 is a function parameter \<open>H\<close>; the identifier the database generates for a new
  row is the argument \<open>gid\<close>.
\<close>

section \<open>Registered vocabulary\<close>

datatype actor = ActorSystem | ActorAnonymous | ActorOwner | ActorOther string

datatype outcome = OutcomeSucceeded | OutcomeFailed | OutcomeDenied | OutcomeOther string

datatype (plugins only: size) event_type =
    OwnerCreated | OwnerReset | LoginSucceeded | LoginFailed
  | RecoveryCodeUsed | SessionRotated | SessionRevoked | MotherAccountCreated
  | MotherAccountUpdated | WorkspaceCreated | WorkspaceUpdated | BindingCreated
  | ManualVerified | TaskStarted | TaskEnded | TaskRejected
  | TaskInterrupted | TargetProbeStarted | TargetProbeEnded | TargetProbeRejected
  | TargetProbeInterrupted | TargetAccountProbed | TargetAccountCreated | TargetAccountUpdated
  | TargetCredentialsUpdated | BatchCreated | BatchUpdated | JoinOperationAuthorized
  | JoinTargetPreflight | JoinTargetSucceeded | JoinTargetFailed | JoinTargetUnknown
  | JoinReconciliationQueued | JoinReconciliationDone | RotationRemovalStarted | RotationRemovalRequested
  | RotationRemovalVerified | RotationRemovalStopped | ExpiryRotationAuthorized | ExpiryRotationRevoked
  | RemoveOperationAuthorized | RemoveTargetAttempted | RemoveTargetConfirmed | RemoveTargetBlocked
  | RemoveTargetUnknown | RemoveReconciliationDone | BatchServiceEnded | DeliveryAttemptStarted
  | DeliveryAttemptSettled | DeliveryPublished | OwnerDeliveryReclaimAuthorized | CardActivated
  | OwnerCardRevoked | PublicOrderCreated | PublicOrderRestored | PublicClaimDenied
  | PublicRestoreDenied | PublicStatusChecked | PublicStatusChanged | PublicStateRead
  | PublicRecordsRead | PublicTokenIssued | PublicDownloadAuthorized | PublicDownloadDenied
  | PublicReclaimRequested | PublicReclaimUpdated | PublicReclaimDenied | OwnerMutationRejected
  | RetentionCleanupCompleted | RecoveryGateOpened | OwnerAuditExported
  | EventOther string

primrec event_name :: "event_type \<Rightarrow> string" where
    "event_name OwnerCreated = ''owner.created''"
  | "event_name OwnerReset = ''owner.reset''"
  | "event_name LoginSucceeded = ''owner.login_succeeded''"
  | "event_name LoginFailed = ''owner.login_failed''"
  | "event_name RecoveryCodeUsed = ''owner.recovery_code_used''"
  | "event_name SessionRotated = ''owner.session_rotated''"
  | "event_name SessionRevoked = ''owner.session_revoked''"
  | "event_name MotherAccountCreated = ''mother_account.created''"
  | "event_name MotherAccountUpdated = ''mother_account.updated''"
  | "event_name WorkspaceCreated = ''workspace.created''"
  | "event_name WorkspaceUpdated = ''workspace.updated''"
  | "event_name BindingCreated = ''workspace.binding_created''"
  | "event_name ManualVerified = ''workspace.manual_verified''"
  | "event_name TaskStarted = ''task.started''"
  | "event_name TaskEnded = ''task.ended''"
  | "event_name TaskRejected = ''task.rejected''"
  | "event_name TaskInterrupted = ''task.interrupted''"
  | "event_name TargetProbeStarted = ''target_probe.started''"
  | "event_name TargetProbeEnded = ''target_probe.ended''"
  | "event_name TargetProbeRejected = ''target_probe.rejected''"
  | "event_name TargetProbeInterrupted = ''target_probe.interrupted''"
  | "event_name TargetAccountProbed = ''target_account.probed''"
  | "event_name TargetAccountCreated = ''target_account.created''"
  | "event_name TargetAccountUpdated = ''target_account.updated''"
  | "event_name TargetCredentialsUpdated = ''target_credentials.updated''"
  | "event_name BatchCreated = ''batch.created''"
  | "event_name BatchUpdated = ''batch.updated''"
  | "event_name JoinOperationAuthorized = ''join.operation_authorized''"
  | "event_name JoinTargetPreflight = ''join.target_preflight''"
  | "event_name JoinTargetSucceeded = ''join.target_succeeded''"
  | "event_name JoinTargetFailed = ''join.target_failed''"
  | "event_name JoinTargetUnknown = ''join.target_unknown''"
  | "event_name JoinReconciliationQueued = ''join.reconciliation_queued''"
  | "event_name JoinReconciliationDone = ''join.reconciliation_done''"
  | "event_name RotationRemovalStarted = ''rotation_removal.started''"
  | "event_name RotationRemovalRequested = ''rotation_removal.requested''"
  | "event_name RotationRemovalVerified = ''rotation_removal.verified''"
  | "event_name RotationRemovalStopped = ''rotation_removal.stopped''"
  | "event_name ExpiryRotationAuthorized = ''expiry_rotation.authorized''"
  | "event_name ExpiryRotationRevoked = ''expiry_rotation.revoked''"
  | "event_name RemoveOperationAuthorized = ''remove.operation_authorized''"
  | "event_name RemoveTargetAttempted = ''remove.target_attempted''"
  | "event_name RemoveTargetConfirmed = ''remove.target_confirmed''"
  | "event_name RemoveTargetBlocked = ''remove.target_blocked''"
  | "event_name RemoveTargetUnknown = ''remove.target_unknown''"
  | "event_name RemoveReconciliationDone = ''remove.reconciliation_done''"
  | "event_name BatchServiceEnded = ''batch.service_ended''"
  | "event_name DeliveryAttemptStarted = ''oauth.attempt_started''"
  | "event_name DeliveryAttemptSettled = ''oauth.attempt_settled''"
  | "event_name DeliveryPublished = ''oauth.delivery_published''"
  | "event_name OwnerDeliveryReclaimAuthorized = ''oauth.reclaim_authorized''"
  | "event_name CardActivated = ''card.activated''"
  | "event_name OwnerCardRevoked = ''owner.card_revoked''"
  | "event_name PublicOrderCreated = ''public.order_created''"
  | "event_name PublicOrderRestored = ''public.order_restored''"
  | "event_name PublicClaimDenied = ''public.claim_denied''"
  | "event_name PublicRestoreDenied = ''public.restore_denied''"
  | "event_name PublicStatusChecked = ''public.status_checked''"
  | "event_name PublicStatusChanged = ''public.status_changed''"
  | "event_name PublicStateRead = ''public.state_read''"
  | "event_name PublicRecordsRead = ''public.records_read''"
  | "event_name PublicTokenIssued = ''public.token_issued''"
  | "event_name PublicDownloadAuthorized = ''public.download_authorized''"
  | "event_name PublicDownloadDenied = ''public.download_denied''"
  | "event_name PublicReclaimRequested = ''public.reclaim_requested''"
  | "event_name PublicReclaimUpdated = ''public.reclaim_updated''"
  | "event_name PublicReclaimDenied = ''public.reclaim_denied''"
  | "event_name OwnerMutationRejected = ''owner.mutation_rejected''"
  | "event_name RetentionCleanupCompleted = ''retention.cleanup_completed''"
  | "event_name RecoveryGateOpened = ''retention.recovery_gate_opened''"
  | "event_name OwnerAuditExported = ''owner.audit_exported''"
  | "event_name (EventOther s) = s"


definition owner_security_scope :: string where
  "owner_security_scope = ''owner_security''"

record spec =
  sp_actor :: actor
  sp_entity :: string
  sp_outcomes :: "outcome list"
  sp_details :: string
  sp_scope :: string

definition spec_of :: "actor \<Rightarrow> string \<Rightarrow> outcome list \<Rightarrow> string \<Rightarrow> string \<Rightarrow> spec option" where
  "spec_of a e os d s =
     Some \<lparr>sp_actor = a, sp_entity = e, sp_outcomes = os, sp_details = d, sp_scope = s\<rparr>"

primrec registry :: "event_type \<Rightarrow> spec option" where
    "registry OwnerCreated = spec_of ActorSystem ''owner'' [OutcomeSucceeded] ''auth_version'' owner_security_scope"
  | "registry OwnerReset = spec_of ActorSystem ''owner'' [OutcomeSucceeded] ''auth_version'' owner_security_scope"
  | "registry LoginSucceeded = spec_of ActorAnonymous ''owner_session'' [OutcomeSucceeded] ''login'' owner_security_scope"
  | "registry LoginFailed = spec_of ActorAnonymous ''owner'' [OutcomeFailed, OutcomeDenied] ''login_failure'' owner_security_scope"
  | "registry RecoveryCodeUsed = spec_of ActorAnonymous ''owner_session'' [OutcomeSucceeded] ''none'' owner_security_scope"
  | "registry SessionRotated = spec_of ActorOwner ''owner_session'' [OutcomeSucceeded] ''session'' owner_security_scope"
  | "registry SessionRevoked = spec_of ActorOwner ''owner_session'' [OutcomeSucceeded] ''session'' owner_security_scope"
  | "registry MotherAccountCreated = spec_of ActorOwner ''mother_account'' [OutcomeSucceeded] ''workspace'' owner_security_scope"
  | "registry MotherAccountUpdated = spec_of ActorOwner ''mother_account'' [OutcomeSucceeded] ''workspace'' owner_security_scope"
  | "registry WorkspaceCreated = spec_of ActorOwner ''workspace'' [OutcomeSucceeded] ''workspace'' ''workspace''"
  | "registry WorkspaceUpdated = spec_of ActorOwner ''workspace'' [OutcomeSucceeded] ''workspace'' ''workspace''"
  | "registry BindingCreated = spec_of ActorOwner ''workspace_binding'' [OutcomeSucceeded] ''workspace'' ''workspace''"
  | "registry ManualVerified = spec_of ActorOwner ''workspace'' [OutcomeSucceeded] ''manual_verification'' ''workspace''"
  | "registry TaskStarted = spec_of ActorSystem ''task'' [OutcomeSucceeded] ''task'' ''workspace''"
  | "registry TaskEnded = spec_of ActorSystem ''task'' [OutcomeSucceeded, OutcomeFailed] ''task'' ''workspace''"
  | "registry TaskRejected = spec_of ActorSystem ''task'' [OutcomeDenied, OutcomeFailed] ''task'' ''workspace''"
  | "registry TaskInterrupted = spec_of ActorSystem ''task'' [OutcomeFailed] ''task'' ''workspace''"
  | "registry TargetProbeStarted = spec_of ActorSystem ''task'' [OutcomeSucceeded] ''task'' ''target_account''"
  | "registry TargetProbeEnded = spec_of ActorSystem ''task'' [OutcomeSucceeded, OutcomeFailed] ''task'' ''target_account''"
  | "registry TargetProbeRejected = spec_of ActorSystem ''task'' [OutcomeDenied, OutcomeFailed] ''task'' ''target_account''"
  | "registry TargetProbeInterrupted = spec_of ActorSystem ''task'' [OutcomeFailed] ''task'' ''target_account''"
  | "registry TargetAccountProbed = spec_of ActorSystem ''target_account'' [OutcomeSucceeded, OutcomeFailed] ''target_probe'' ''target_account''"
  | "registry TargetAccountCreated = spec_of ActorOwner ''target_account'' [OutcomeSucceeded] ''target'' ''target_account''"
  | "registry TargetAccountUpdated = spec_of ActorOwner ''target_account'' [OutcomeSucceeded] ''target'' ''target_account''"
  | "registry TargetCredentialsUpdated = spec_of ActorOwner ''target_account'' [OutcomeSucceeded] ''target'' ''target_account''"
  | "registry BatchCreated = spec_of ActorOwner ''batch'' [OutcomeSucceeded] ''batch'' ''workspace''"
  | "registry BatchUpdated = spec_of ActorOwner ''batch'' [OutcomeSucceeded] ''batch'' ''workspace''"
  | "registry JoinOperationAuthorized = spec_of ActorOwner ''operation'' [OutcomeSucceeded] ''operation'' ''workspace''"
  | "registry JoinTargetPreflight = spec_of ActorSystem ''operation_target'' [OutcomeSucceeded, OutcomeFailed] ''join_target'' ''workspace''"
  | "registry JoinTargetSucceeded = spec_of ActorSystem ''operation_target'' [OutcomeSucceeded] ''join_target'' ''workspace''"
  | "registry JoinTargetFailed = spec_of ActorSystem ''operation_target'' [OutcomeFailed] ''join_target'' ''workspace''"
  | "registry JoinTargetUnknown = spec_of ActorSystem ''operation_target'' [OutcomeFailed] ''join_target'' ''workspace''"
  | "registry JoinReconciliationQueued = spec_of ActorSystem ''task'' [OutcomeSucceeded] ''task'' ''workspace''"
  | "registry JoinReconciliationDone = spec_of ActorSystem ''task'' [OutcomeSucceeded, OutcomeFailed] ''task'' ''workspace''"
  | "registry RotationRemovalStarted = spec_of ActorOwner ''rotation_removal'' [OutcomeSucceeded] ''rotation_removal'' ''workspace''"
  | "registry RotationRemovalRequested = spec_of ActorOwner ''rotation_slot'' [OutcomeSucceeded] ''rotation_removal'' ''workspace''"
  | "registry RotationRemovalVerified = spec_of ActorOwner ''rotation_slot'' [OutcomeSucceeded] ''rotation_removal'' ''workspace''"
  | "registry RotationRemovalStopped = spec_of ActorOwner ''rotation_removal'' [OutcomeSucceeded] ''rotation_removal'' ''workspace''"
  | "registry ExpiryRotationAuthorized = spec_of ActorOwner ''expiry_rotation_preview'' [OutcomeSucceeded] ''expiry_rotation'' ''workspace''"
  | "registry ExpiryRotationRevoked = spec_of ActorOwner ''expiry_rotation_preview'' [OutcomeSucceeded] ''expiry_rotation'' ''workspace''"
  | "registry RemoveOperationAuthorized = spec_of ActorOwner ''operation'' [OutcomeSucceeded] ''operation'' ''workspace''"
  | "registry RemoveTargetAttempted = spec_of ActorSystem ''operation_target'' [OutcomeSucceeded] ''remove_target'' ''workspace''"
  | "registry RemoveTargetConfirmed = spec_of ActorSystem ''operation_target'' [OutcomeSucceeded] ''remove_target'' ''workspace''"
  | "registry RemoveTargetBlocked = spec_of ActorSystem ''operation_target'' [OutcomeFailed] ''remove_target'' ''workspace''"
  | "registry RemoveTargetUnknown = spec_of ActorSystem ''operation_target'' [OutcomeFailed] ''remove_target'' ''workspace''"
  | "registry RemoveReconciliationDone = spec_of ActorSystem ''task'' [OutcomeSucceeded, OutcomeFailed] ''remove_target'' ''workspace''"
  | "registry BatchServiceEnded = spec_of ActorSystem ''batch'' [OutcomeSucceeded] ''batch'' ''workspace''"
  | "registry DeliveryAttemptStarted = spec_of ActorSystem ''oauth_attempt'' [OutcomeSucceeded] ''oauth'' ''workspace''"
  | "registry DeliveryAttemptSettled = spec_of ActorSystem ''oauth_attempt'' [OutcomeSucceeded, OutcomeFailed] ''oauth'' ''workspace''"
  | "registry DeliveryPublished = spec_of ActorSystem ''oauth_asset'' [OutcomeSucceeded] ''oauth'' ''workspace''"
  | "registry OwnerDeliveryReclaimAuthorized = spec_of ActorOwner ''oauth_asset'' [OutcomeSucceeded] ''delivery_reclaim_authorization'' ''workspace''"
  | "registry CardActivated = spec_of ActorOwner ''card'' [OutcomeSucceeded] ''card'' ''workspace''"
  | "registry OwnerCardRevoked = spec_of ActorOwner ''card'' [OutcomeSucceeded] ''card_revocation'' ''card''"
  | "registry PublicOrderCreated = spec_of ActorAnonymous ''order'' [OutcomeSucceeded, OutcomeDenied] ''public_access'' ''card''"
  | "registry PublicOrderRestored = spec_of ActorAnonymous ''order'' [OutcomeSucceeded, OutcomeDenied] ''public_access'' ''card''"
  | "registry PublicClaimDenied = spec_of ActorAnonymous ''card'' [OutcomeDenied] ''public_access'' ''card''"
  | "registry PublicRestoreDenied = spec_of ActorAnonymous ''card'' [OutcomeDenied] ''public_access'' ''card''"
  | "registry PublicStatusChecked = spec_of ActorAnonymous ''card'' [OutcomeSucceeded, OutcomeDenied] ''public_access'' ''card''"
  | "registry PublicStatusChanged = spec_of ActorSystem ''card'' [OutcomeSucceeded, OutcomeFailed] ''public_access'' ''card''"
  | "registry PublicStateRead = spec_of ActorAnonymous ''order'' [OutcomeSucceeded, OutcomeDenied] ''public_access'' ''card''"
  | "registry PublicRecordsRead = spec_of ActorAnonymous ''order'' [OutcomeSucceeded, OutcomeDenied] ''public_access'' ''card''"
  | "registry PublicTokenIssued = spec_of ActorAnonymous ''public_token'' [OutcomeSucceeded, OutcomeDenied] ''public_access'' ''card''"
  | "registry PublicDownloadAuthorized = spec_of ActorAnonymous ''public_token'' [OutcomeSucceeded] ''public_access'' ''card''"
  | "registry PublicDownloadDenied = spec_of ActorAnonymous ''public_token'' [OutcomeDenied] ''public_access'' ''card''"
  | "registry PublicReclaimRequested = spec_of ActorAnonymous ''card'' [OutcomeSucceeded, OutcomeDenied] ''public_access'' ''card''"
  | "registry PublicReclaimUpdated = spec_of ActorSystem ''card'' [OutcomeSucceeded, OutcomeFailed] ''public_access'' ''card''"
  | "registry PublicReclaimDenied = spec_of ActorAnonymous ''card'' [OutcomeDenied] ''public_access'' ''card''"
  | "registry OwnerMutationRejected = spec_of ActorOwner ''owner'' [OutcomeDenied] ''owner_mutation_rejection'' owner_security_scope"
  | "registry RetentionCleanupCompleted = spec_of ActorSystem ''task'' [OutcomeSucceeded, OutcomeFailed] ''task'' ''retention''"
  | "registry RecoveryGateOpened = spec_of ActorOwner ''owner'' [OutcomeSucceeded] ''recovery_gate'' owner_security_scope"
  | "registry OwnerAuditExported = spec_of ActorOwner ''owner'' [OutcomeSucceeded] ''audit_export'' owner_security_scope"
  | "registry (EventOther s) = None"

definition registered_events :: "event_type list" where
  "registered_events =
    [OwnerCreated, OwnerReset, LoginSucceeded, LoginFailed,
     RecoveryCodeUsed, SessionRotated, SessionRevoked, MotherAccountCreated,
     MotherAccountUpdated, WorkspaceCreated, WorkspaceUpdated, BindingCreated,
     ManualVerified, TaskStarted, TaskEnded, TaskRejected,
     TaskInterrupted, TargetProbeStarted, TargetProbeEnded, TargetProbeRejected,
     TargetProbeInterrupted, TargetAccountProbed, TargetAccountCreated, TargetAccountUpdated,
     TargetCredentialsUpdated, BatchCreated, BatchUpdated, JoinOperationAuthorized,
     JoinTargetPreflight, JoinTargetSucceeded, JoinTargetFailed, JoinTargetUnknown,
     JoinReconciliationQueued, JoinReconciliationDone, RotationRemovalStarted, RotationRemovalRequested,
     RotationRemovalVerified, RotationRemovalStopped, ExpiryRotationAuthorized, ExpiryRotationRevoked,
     RemoveOperationAuthorized, RemoveTargetAttempted, RemoveTargetConfirmed, RemoveTargetBlocked,
     RemoveTargetUnknown, RemoveReconciliationDone, BatchServiceEnded, DeliveryAttemptStarted,
     DeliveryAttemptSettled, DeliveryPublished, OwnerDeliveryReclaimAuthorized, CardActivated,
     OwnerCardRevoked, PublicOrderCreated, PublicOrderRestored, PublicClaimDenied,
     PublicRestoreDenied, PublicStatusChecked, PublicStatusChanged, PublicStateRead,
     PublicRecordsRead, PublicTokenIssued, PublicDownloadAuthorized, PublicDownloadDenied,
     PublicReclaimRequested, PublicReclaimUpdated, PublicReclaimDenied, OwnerMutationRejected,
     RetentionCleanupCompleted, RecoveryGateOpened, OwnerAuditExported]"

definition is_registered_event_type :: "string \<Rightarrow> bool" where
  "is_registered_event_type v \<longleftrightarrow> list_ex (\<lambda>e. event_name e = v) registered_events"

section \<open>Detail payloads\<close>

text \<open>One constructor per detail struct, with the fields in the struct's order.\<close>

datatype details =
    NoDetails
  | AuthVersionDetails int
  | LoginDetails string
  | LoginFailureDetails string string
  | SessionDetails string
  | WorkspaceDetails string
  | BatchDetails string
  | OperationDetails string string string
  | JoinTargetDetails string string string string
  | RemovalTargetDetails string string string int
  | TargetProbeDetails string string string int string string
  | DeliveryAttemptDetails int int string string string int string
  | DeliveryReclaimAuthorizationDetails string string
  | CardDetails string int string
  | ExpiryRotationDetails string string
  | RotationRemovalDetails string int bool
  | CardRevocationDetails string string int
  | PublicAccessDetails string string string string
  | ManualVerificationDetails string string string string
  | TaskDetails int string string string string string string
  | OwnerMutationRejectionDetails string string
  | RecoveryGateDetails string
  | AuditExportDetails string string

text \<open>json.Marshal on the payloads: the tags of the struct fields, with omitempty.\<close>

primrec details_json :: "details \<Rightarrow> json" where
  "details_json NoDetails = JObj []"
| "details_json (AuthVersionDetails v) = JObj [(''auth_version'', json_int v)]"
| "details_json (LoginDetails f) = JObj [(''factor'', JStr f)]"
| "details_json (LoginFailureDetails f k) =
     JObj ([(''factor'', JStr f)] @ omit_str ''rate_limit_kind'' k)"
| "details_json (SessionDetails r) = JObj [(''reason'', JStr r)]"
| "details_json (WorkspaceDetails r) = JObj [(''result'', JStr r)]"
| "details_json (BatchDetails r) = JObj [(''result'', JStr r)]"
| "details_json (OperationDetails p r t) =
     JObj ([(''operation'', JStr p), (''result'', JStr r)] @ omit_str ''target_id'' t)"
| "details_json (JoinTargetDetails s r g d) =
     JObj ([(''status'', JStr s), (''result'', JStr r), (''stage'', JStr g)]
           @ omit_str ''diagnostic_code'' d)"
| "details_json (RemovalTargetDetails s r g n) =
     JObj [(''status'', JStr s), (''result'', JStr r), (''stage'', JStr g), (''attempt_no'', json_int n)]"
| "details_json (TargetProbeDetails s e p h c t) =
     JObj ([(''status'', JStr s), (''endpoint'', JStr e), (''origin'', JStr p)]
           @ omit_int ''http_status'' h @ omit_str ''error_code'' c @ [(''observed_at'', JStr t)])"
| "details_json (DeliveryAttemptDetails g n r st s h c) =
     JObj ([(''generation'', json_int g), (''attempt_no'', json_int n), (''result'', JStr r),
            (''stage'', JStr st), (''status'', JStr s)]
           @ omit_int ''http_status'' h @ omit_str ''error_code'' c)"
| "details_json (DeliveryReclaimAuthorizationDetails a r) =
     JObj [(''action'', JStr a), (''result'', JStr r)]"
| "details_json (CardDetails r k d) =
     JObj [(''result'', JStr r), (''key_version'', json_int k), (''display_suffix'', JStr d)]"
| "details_json (ExpiryRotationDetails d a) = JObj [(''digest'', JStr d), (''action'', JStr a)]"
| "details_json (RotationRemovalDetails d e a) =
     JObj [(''digest'', JStr d), (''lease_epoch'', json_int e), (''absent'', JBool a)]"
| "details_json (CardRevocationDetails a r n) =
     JObj [(''action'', JStr a), (''result'', JStr r), (''revoked_token_count'', json_int n)]"
| "details_json (PublicAccessDetails a r s x) =
     JObj ([(''action'', JStr a), (''result'', JStr r)] @ omit_str ''status'' s @ omit_str ''reason'' x)"
| "details_json (ManualVerificationDetails c s t u) =
     JObj ([(''conclusion'', JStr c), (''source'', JStr s), (''observed_at'', JStr t)]
           @ omit_str ''active_until'' u)"
| "details_json (TaskDetails n r g m p k t) =
     JObj ([(''attempt_no'', json_int n), (''result'', JStr r), (''stage'', JStr g)]
           @ omit_str ''route_mode'' m @ omit_str ''proxy_scheme'' p
           @ omit_str ''egress_key_version'' k @ omit_str ''proxy_verified_at'' t)"
| "details_json (OwnerMutationRejectionDetails p r) =
     JObj [(''operation'', JStr p), (''reason'', JStr r)]"
| "details_json (RecoveryGateDetails t) = JObj [(''restored_at'', JStr t)]"
| "details_json (AuditExportDetails f r) = JObj [(''format'', JStr f), (''result'', JStr r)]"

record event =
  ev_type :: event_type
  ev_actor :: actor
  ev_owner_id :: string
  ev_scope_id :: string
  ev_entity_type :: string
  ev_entity_id :: string
  ev_outcome :: outcome
  ev_correlation :: string
  ev_source_fp :: string
  ev_details :: details
  ev_idem_key :: string
  ev_occurred_at :: instant

section \<open>Validation\<close>

definition valid_public_action :: "string \<Rightarrow> bool" where
  "valid_public_action v \<longleftrightarrow> v \<in> set
     [''preview'', ''first_claim'', ''order_restore'', ''status_check'', ''state_read'', ''records_read'',
      ''token_issued'', ''download_authorized'', ''download_denied'', ''reclaim_request'', ''reclaim_status'']"

definition valid_public_result :: "string \<Rightarrow> bool" where
  "valid_public_result v \<longleftrightarrow> v \<in> set
     [''accepted'', ''denied'', ''queued'', ''checking'', ''restored'', ''unrecoverable'', ''healthy'',
      ''need_reclaim'', ''cannot_reclaim'', ''unknown'']"

definition valid_join_target_status :: "string \<Rightarrow> bool" where
  "valid_join_target_status v \<longleftrightarrow> v \<in> set
     [''pending'', ''available'', ''credential_invalid'', ''account_problem'', ''definitely_unavailable'',
      ''transient_failure'', ''unknown'', ''succeeded'', ''failed'', ''blocked'']"

definition valid_removal_target_status :: "string \<Rightarrow> bool" where
  "valid_removal_target_status v \<longleftrightarrow> v \<in> set
     [''running'', ''queued'', ''succeeded'', ''blocked'', ''unknown'']"

definition valid_probe_status :: "string \<Rightarrow> bool" where
  "valid_probe_status v \<longleftrightarrow> v \<in> set
     [''available'', ''credential_invalid'', ''account_problem'', ''definitely_unavailable'',
      ''transient_failure'', ''unknown'']"

definition valid_delivery_liveness_status :: "string \<Rightarrow> bool" where
  "valid_delivery_liveness_status v \<longleftrightarrow> v \<in> set
     [''ok'', ''auth_error'', ''deactivated_workspace'', ''rate_limited'', ''transient_failure'',
      ''unknown'', ''pending'']"

definition valid_factor :: "string \<Rightarrow> bool" where
  "valid_factor v \<longleftrightarrow> v = ''password'' \<or> v = ''totp'' \<or> v = ''recovery_code''"

definition valid_rate_limit_kind :: "string \<Rightarrow> bool" where
  "valid_rate_limit_kind v \<longleftrightarrow> v = [] \<or> v = ''login'' \<or> v = ''recovery''"

definition valid_session_reason :: "event_type \<Rightarrow> string \<Rightarrow> bool" where
  "valid_session_reason e v =
     (if e = SessionRotated
      then v = ''session_revocation'' \<or> v = ''workspace_manual_verification'' \<or> v = ''mother_personal_refresh''
      else v = ''logout'' \<or> v = ''owner_request'' \<or> v = ''rotation'')"

definition valid_owner_mutation_operation :: "string \<Rightarrow> bool" where
  "valid_owner_mutation_operation v \<longleftrightarrow> v \<in> set
     [''child_material.import'', ''child_material.export'', ''mother_account.create'',
      ''mother_account.update'', ''workspace.create'', ''workspace.update'', ''binding.create'',
      ''workspace_read.create'', ''manual_verification.create'', ''target_account.create'',
      ''target_account.import'', ''target_account.update'', ''target_probe.create'', ''batch.create'',
      ''batch.update'', ''join.create'', ''join.reconcile'', ''remove.create'', ''remove.reconcile'',
      ''card.activate'', ''delivery.reclaim_authorize'', ''delivery.card_revoke'',
      ''delivery_destination.create'', ''delivery_destination.update'', ''delivery_destination.test'',
      ''delivery_destination.select'']"

definition valid_owner_mutation_reason :: "string \<Rightarrow> bool" where
  "valid_owner_mutation_reason v \<longleftrightarrow> v \<in> set
     [''invalid_request'', ''version_mismatch'', ''conflict'', ''idempotency_conflict'',
      ''workspace_not_found'', ''target_not_found'', ''batch_not_found'', ''join_not_ready'',
      ''join_target_not_in_batch'', ''join_confirmation_required'', ''remove_not_ready'',
      ''remove_confirmation_required'', ''delivery_not_reclaimable'']"

definition valid_proxy_scheme :: "string \<Rightarrow> bool" where
  "valid_proxy_scheme v \<longleftrightarrow> v = ''http'' \<or> v = ''https'' \<or> v = ''socks5'' \<or> v = ''socks5h''"

fun allowed_outcome :: "outcome \<Rightarrow> outcome list \<Rightarrow> bool" where
  "allowed_outcome v [] = False"
| "allowed_outcome v (c # cs) = (if v = c then True else allowed_outcome v cs)"

lemma allowed_outcome_iff [simp]: "allowed_outcome v cs \<longleftrightarrow> v \<in> set cs"
  by (induction cs) auto

text \<open>The route fields of task details: absent, direct, or a fully described proxy.\<close>

definition valid_task_route :: "string \<Rightarrow> string \<Rightarrow> string \<Rightarrow> string \<Rightarrow> bool" where
  "valid_task_route m p k t \<longleftrightarrow>
     (m = [] \<and> p = [] \<and> k = [] \<and> t = []) \<or>
     (m = ''direct'' \<and> p = [] \<and> k = [] \<and> t = []) \<or>
     (m = ''required'' \<and> valid_proxy_scheme p \<and> k \<noteq> [] \<and> t \<noteq> [])"

text \<open>
  The switch on the registry's detail kind.  Each arm is the type assertion on the payload
  followed by the arm's conditions; a payload of another struct fails the assertion.
\<close>

definition details_ok :: "event_type \<Rightarrow> string \<Rightarrow> details \<Rightarrow> bool" where
  "details_ok ty kind d =
    (if kind = ''none'' then d = NoDetails
     else if kind = ''auth_version'' then (case d of AuthVersionDetails v \<Rightarrow> 0 < v | _ \<Rightarrow> False)
     else if kind = ''login'' then (case d of LoginDetails f \<Rightarrow> valid_factor f | _ \<Rightarrow> False)
     else if kind = ''login_failure'' then
       (case d of LoginFailureDetails f k \<Rightarrow> valid_factor f \<and> valid_rate_limit_kind k | _ \<Rightarrow> False)
     else if kind = ''session'' then
       (case d of SessionDetails r \<Rightarrow> valid_session_reason ty r | _ \<Rightarrow> False)
     else if kind = ''workspace'' then
       (case d of WorkspaceDetails r \<Rightarrow> r = ''created'' \<or> r = ''updated'' \<or> r = ''bound'' | _ \<Rightarrow> False)
     else if kind = ''target'' then
       (case d of WorkspaceDetails r \<Rightarrow> r = ''created'' \<or> r = ''updated'' \<or> r = ''credentials_updated''
        | _ \<Rightarrow> False)
     else if kind = ''batch'' then
       (case d of BatchDetails r \<Rightarrow> r = ''created'' \<or> r = ''updated'' \<or> r = ''service_ended'' | _ \<Rightarrow> False)
     else if kind = ''operation'' then
       (case d of OperationDetails p r t \<Rightarrow> (p = ''join'' \<or> p = ''remove'') \<and> r = ''authorized'' | _ \<Rightarrow> False)
     else if kind = ''join_target'' then
       (case d of JoinTargetDetails s r g c \<Rightarrow> valid_join_target_status s \<and> r \<noteq> [] \<and> g \<noteq> [] | _ \<Rightarrow> False)
     else if kind = ''remove_target'' then
       (case d of RemovalTargetDetails s r g n \<Rightarrow>
          valid_removal_target_status s \<and> r \<noteq> [] \<and> g \<noteq> [] \<and> 0 < n | _ \<Rightarrow> False)
     else if kind = ''target_probe'' then
       (case d of TargetProbeDetails s e p h c t \<Rightarrow>
          valid_probe_status s \<and> e = ''account_usage'' \<and> (p = ''worker'' \<or> p = ''owner'') \<and> t \<noteq> []
          \<and> 0 \<le> h \<and> h \<le> 599 | _ \<Rightarrow> False)
     else if kind = ''oauth'' then
       (case d of DeliveryAttemptDetails g n r st s h c \<Rightarrow>
          0 < g \<and> 0 < n \<and> r \<noteq> [] \<and> st \<noteq> [] \<and> valid_delivery_liveness_status s \<and> 0 \<le> h \<and> h \<le> 599
        | _ \<Rightarrow> False)
     else if kind = ''card'' then
       (case d of CardDetails r k x \<Rightarrow> r = ''activated'' \<and> 0 < k \<and> 4 \<le> length x \<and> length x \<le> 12 | _ \<Rightarrow> False)
     else if kind = ''rotation_removal'' then
       (case d of RotationRemovalDetails g e a \<Rightarrow> length g = 64 \<and> 0 \<le> e | _ \<Rightarrow> False)
     else if kind = ''expiry_rotation'' then
       (case d of ExpiryRotationDetails g a \<Rightarrow>
          length g = 64 \<and> (ty = ExpiryRotationAuthorized \<and> a = ''authorized''
                            \<or> ty = ExpiryRotationRevoked \<and> a = ''revoked'') | _ \<Rightarrow> False)
     else if kind = ''card_revocation'' then
       (case d of CardRevocationDetails a r n \<Rightarrow> a = ''owner_revoked'' \<and> r = ''revoked'' \<and> 0 \<le> n | _ \<Rightarrow> False)
     else if kind = ''public_access'' then
       (case d of PublicAccessDetails a r s x \<Rightarrow>
          valid_public_action a \<and> valid_public_result r \<and> length x \<le> 128 | _ \<Rightarrow> False)
     else if kind = ''manual_verification'' then
       (case d of ManualVerificationDetails c s t u \<Rightarrow>
          ((c = ''deactivated'' \<or> c = ''recovered'') \<and> u = [] \<or> c = ''expiration_corrected'' \<and> u \<noteq> [])
          \<and> s \<noteq> [] \<and> t \<noteq> [] | _ \<Rightarrow> False)
     else if kind = ''task'' then
       (case d of TaskDetails n r g m p k t \<Rightarrow> 0 < n \<and> r \<noteq> [] \<and> g \<noteq> [] \<and> valid_task_route m p k t | _ \<Rightarrow> False)
     else if kind = ''delivery_reclaim_authorization'' then
       (case d of DeliveryReclaimAuthorizationDetails a r \<Rightarrow> a = ''owner_reauthorization'' \<and> r = ''queued''
        | _ \<Rightarrow> False)
     else if kind = ''owner_mutation_rejection'' then
       (case d of OwnerMutationRejectionDetails p r \<Rightarrow>
          valid_owner_mutation_operation p \<and> valid_owner_mutation_reason r | _ \<Rightarrow> False)
     else if kind = ''recovery_gate'' then (case d of RecoveryGateDetails t \<Rightarrow> t \<noteq> [] | _ \<Rightarrow> False)
     else if kind = ''audit_export'' then
       (case d of AuditExportDetails f r \<Rightarrow> (f = ''json'' \<or> f = ''csv'') \<and> r = ''downloaded'' | _ \<Rightarrow> False)
     else False)"

datatype audit_error =
    UnregisteredEvent
  | RegistryMismatch
  | InvalidFingerprint
  | DetailsMismatch
  | AuditConflict
  | AuditDriver

definition validate :: "event \<Rightarrow> (audit_error, json \<times> spec) result" where
  "validate ev =
    (case registry (ev_type ev) of
       None \<Rightarrow> Inl UnregisteredEvent
     | Some sp \<Rightarrow>
        if ev_actor ev \<noteq> sp_actor sp \<or> ev_entity_type ev \<noteq> sp_entity sp
           \<or> \<not> allowed_outcome (ev_outcome ev) (sp_outcomes sp)
           \<or> ev_entity_id ev = [] \<or> ev_correlation ev = [] \<or> ev_idem_key ev = []
        then Inl RegistryMismatch
        else if (ev_actor ev = ActorOwner \<and> ev_owner_id ev = [])
           \<or> (sp_scope sp = ''workspace'' \<and> ev_scope_id ev = [])
           \<or> (sp_scope sp = ''target_account'' \<and> ev_scope_id ev = [])
           \<or> (sp_scope sp = ''retention'' \<and> ev_scope_id ev = [])
           \<or> (sp_scope sp = owner_security_scope \<and> ev_owner_id ev = [])
        then Inl RegistryMismatch
        else if length (ev_source_fp ev) \<noteq> 0 \<and> length (ev_source_fp ev) \<noteq> 32
        then Inl InvalidFingerprint
        else if \<not> details_ok (ev_type ev) (sp_details sp) (ev_details ev)
        then Inl DetailsMismatch
        else Inr (details_json (ev_details ev), sp))"

section \<open>The stable event key\<close>

definition be32 :: "nat \<Rightarrow> string" where
  "be32 n = map (\<lambda>k. char_of (n div 256 ^ k mod 256)) [3, 2, 1, 0]"

text \<open>A field is written as the big-endian uint32 of its length and its bytes.\<close>

definition write_field :: "string \<Rightarrow> string" where
  "write_field v = be32 (length v mod 2 ^ 32) @ v"

definition stable_preimage :: "event \<Rightarrow> string" where
  "stable_preimage ev =
     write_field ''teamseatwatch:audit:event:v1''
     @ concat (map write_field [event_name (ev_type ev), ev_owner_id ev, ev_idem_key ev])
     @ (if ev_scope_id ev \<noteq> [] then write_field (ev_scope_id ev) else [])"

definition stable_key :: "(string \<Rightarrow> string) \<Rightarrow> event \<Rightarrow> string" where
  "stable_key H ev = H (stable_preimage ev)"

section \<open>Write\<close>

record audit_row =
  au_id :: string
  au_key :: string
  au_scope_type :: string
  au_scope_id :: string
  au_actor :: actor
  au_owner :: "string option"
  au_type :: event_type
  au_entity_type :: string
  au_entity_id :: string
  au_outcome :: outcome
  au_correlation :: string
  au_source_fp :: "string option"
  au_details :: json
  au_occurred_at :: instant
  au_expires_at :: instant

record audit_db =
  audit_events :: "audit_row list"

definition null_string :: "string \<Rightarrow> string option" where
  "null_string v = (if v = [] then None else Some v)"

definition null_bytes :: "string \<Rightarrow> string option" where
  "null_bytes v = (if v = [] then None else Some v)"

definition null_time :: "instant \<Rightarrow> instant option" where
  "null_time t = (if is_zero_time t then None else Some t)"

definition event_row ::
  "(string \<Rightarrow> string) \<Rightarrow> string \<Rightarrow> instant \<Rightarrow> event \<Rightarrow> json \<Rightarrow> spec \<Rightarrow> audit_row" where
  "event_row H gid now ev d sp =
    (let occ = (case null_time (ev_occurred_at ev) of None \<Rightarrow> now | Some t \<Rightarrow> t) in
     \<lparr>au_id = gid, au_key = stable_key H ev, au_scope_type = sp_scope sp,
      au_scope_id = (if ev_scope_id ev = [] then ev_owner_id ev else ev_scope_id ev),
      au_actor = ev_actor ev, au_owner = null_string (ev_owner_id ev), au_type = ev_type ev,
      au_entity_type = ev_entity_type ev, au_entity_id = ev_entity_id ev, au_outcome = ev_outcome ev,
      au_correlation = ev_correlation ev, au_source_fp = null_bytes (ev_source_fp ev),
      au_details = d, au_occurred_at = occ, au_expires_at = occ + 7 * 24 * hour\<rparr>)"

text \<open>
  The follow-up read after a key conflict: the stored row must agree on every column of
  the conclusion (the correlation, the fingerprint and the times are not compared).
\<close>

definition same_conclusion :: "audit_row \<Rightarrow> audit_row \<Rightarrow> bool" where
  "same_conclusion r s \<longleftrightarrow>
     au_key r = au_key s \<and> au_scope_type r = au_scope_type s \<and> au_scope_id r = au_scope_id s
     \<and> au_actor r = au_actor s \<and> au_owner r = au_owner s \<and> au_type r = au_type s
     \<and> au_entity_type r = au_entity_type s \<and> au_entity_id r = au_entity_id s
     \<and> au_outcome r = au_outcome s \<and> au_details r = au_details s"

definition audit_write ::
  "(string \<Rightarrow> string) \<Rightarrow> faults \<Rightarrow> string \<Rightarrow> instant \<Rightarrow> event
    \<Rightarrow> (audit_error, ('z) audit_db_scheme, string) tx" where
  "audit_write H flt gid now ev = (\<lambda>db.
    case validate ev of
      Inl e \<Rightarrow> Inl e
    | Inr (d, sp) \<Rightarrow>
       (let row = event_row H gid now ev d sp in
        if flt 0 then Inl AuditDriver
        else if list_all (\<lambda>r. au_key r \<noteq> au_key row) (audit_events db)
        then Inr (gid, db\<lparr>audit_events := audit_events db @ [row]\<rparr>)
        else if flt 1 then Inl AuditDriver
        else case find (same_conclusion row) (audit_events db) of
               None \<Rightarrow> Inl AuditConflict
             | Some r \<Rightarrow> Inr (au_id r, db)))"

end
