(* ===== verification/StoreDb.thy ===== *)
theory StoreDb
  imports AuditRegistry "HOL-Library.Product_Lexorder"
begin

text \<open>
  The tables the task store reads and writes, as lists of rows, with the columns its
  statements name, and the SQL forms those statements use: UPDATE with a WHERE clause and
  its affected row count, and the first row of an ORDER BY ... LIMIT 1.
  A nullable column is an option.  The database clock now() is constant within a
  transaction and is an argument of each call; so are the UUID a statement generates and
  the set \<open>lk\<close> of rows other transactions have locked, which SKIP LOCKED leaves out.
\<close>

section \<open>Rows\<close>

datatype task_type =
    WorkspaceRead | WorkspaceFactCleanup | RetentionCleanup | TargetAccountProbe
  | Join | JoinReconcile | OAuthGenerate | OAuthProbe | OAuthReclaim | Remove | RemoveReconcile

datatype task_status = Queued | Running | RetryWait | Succeeded | Failed | Interrupted

record task_row =
  tk_id :: string
  tk_type :: task_type
  tk_workspace :: "string option"
  tk_target :: "string option"
  tk_op_target :: "string option"
  tk_membership :: "string option"
  tk_asset :: "string option"
  tk_parent :: "string option"
  tk_dedupe :: string
  tk_status :: task_status
  tk_priority :: int
  tk_available_at :: instant
  tk_lease_owner :: "string option"
  tk_lease_token :: "uuid option"
  tk_lease_expires :: "instant option"
  tk_attempts :: int
  tk_max_attempts :: int
  tk_correlation :: string
  tk_finished_at :: "instant option"
  tk_created_at :: instant
  tk_updated_at :: instant
  tk_version :: int
  tk_reclaim_tier :: "string option"
  tk_reclaim_result :: "string option"
  tk_reclaim_probe :: "string option"
  tk_reclaim_http :: "int option"
  tk_reclaim_stage :: "string option"

record attempt_row =
  at_task :: string
  at_no :: int
  at_token :: uuid
  at_mode :: string
  at_scheme :: "string option"
  at_key_version :: "string option"
  at_fingerprint :: "string option"
  at_verified_at :: "instant option"
  at_stage :: "string option"

record op_target_row =
  ot_id :: string
  ot_operation :: string
  ot_target :: "string option"
  ot_membership :: "string option"
  ot_ordinal :: int
  ot_status :: string
  ot_preflight :: string
  ot_preflight_http :: "int option"
  ot_preflight_error :: "string option"
  ot_preflight_origin :: "string option"
  ot_preflight_at :: "instant option"
  ot_outcome :: "string option"
  ot_diagnostic :: "string option"
  ot_may_have_reached :: bool
  ot_stage :: "string option"
  ot_started_at :: "instant option"
  ot_last_attempt :: "instant option"
  ot_remove_attempts :: int
  ot_live_member :: "string option"
  ot_completed_at :: "instant option"
  ot_updated_at :: instant
  ot_version :: int

record operation_row =
  op_id :: string
  op_batch :: string
  op_workspace :: string
  op_type :: string
  op_status :: string
  op_completed_at :: "instant option"
  op_lease_owner :: "string option"
  op_lease_token :: "uuid option"
  op_lease_expires :: "instant option"
  op_created_at :: instant
  op_updated_at :: instant
  op_version :: int

record batch_row =
  ba_id :: string
  ba_status :: string
  ba_service_started :: "instant option"
  ba_service_ended :: "instant option"
  ba_blocking :: "string option"
  ba_updated_at :: instant
  ba_version :: int

record membership_row =
  mb_id :: string
  mb_batch :: string
  mb_target :: string
  mb_join_target :: string
  mb_member_id :: "string option"
  mb_state :: string
  mb_joined_at :: instant
  mb_removed_at :: "instant option"
  mb_service_ended :: "instant option"
  mb_retention_due :: "instant option"
  mb_updated_at :: instant
  mb_version :: int

record oauth_attempt_row =
  oa_id :: string
  oa_asset :: string
  oa_task :: string
  oa_generation :: int
  oa_no :: int
  oa_kind :: string
  oa_state :: string
  oa_outcome :: "string option"
  oa_published :: "string option"
  oa_order :: "string option"
  oa_finished_at :: "instant option"

record asset_row =
  as_id :: string
  as_membership :: string
  as_status :: string
  as_generation :: int
  as_attempt :: "string option"
  as_delivery :: "string option"
  as_subject :: "string option"
  as_liveness :: "string option"
  as_http :: "int option"
  as_error :: "string option"
  as_origin :: "string option"
  as_probed_at :: "instant option"
  as_unavailable_reason :: "string option"
  as_updated_at :: instant
  as_version :: int

record order_row =
  od_id :: string
  od_membership :: string
  od_asset :: string
  od_card :: string
  od_delivery :: string
  od_updated_at :: instant
  od_version :: int

record credential_row =
  cr_target :: string
  cr_status :: string
  cr_http :: "int option"
  cr_error :: "string option"
  cr_endpoint :: string
  cr_origin :: string
  cr_probed_at :: "instant option"
  cr_verified_at :: "instant option"
  cr_version :: int

record store_db = audit_db +
  tasks :: "task_row list"
  task_attempts :: "attempt_row list"
  op_targets :: "op_target_row list"
  operations :: "operation_row list"
  batches :: "batch_row list"
  memberships :: "membership_row list"
  oauth_attempts :: "oauth_attempt_row list"
  assets :: "asset_row list"
  orders :: "order_row list"
  credentials :: "credential_row list"

section \<open>SQL forms\<close>

definition update_where :: "('r \<Rightarrow> bool) \<Rightarrow> ('r \<Rightarrow> 'r) \<Rightarrow> 'r list \<Rightarrow> 'r list" where
  "update_where P f rs = map (\<lambda>r. if P r then f r else r) rs"

definition affected :: "('r \<Rightarrow> bool) \<Rightarrow> 'r list \<Rightarrow> nat" where
  "affected P rs = length (filter P rs)"

fun first_by :: "('r \<Rightarrow> 'k::linorder) \<Rightarrow> 'r list \<Rightarrow> 'r option" where
  "first_by k [] = None"
| "first_by k (r # rs) =
     (case first_by k rs of
        None \<Rightarrow> Some r
      | Some s \<Rightarrow> if k r \<le> k s then Some r else Some s)"

lemma first_by_None [simp]: "first_by k rs = None \<longleftrightarrow> rs = []"
  by (cases rs) (auto split: option.splits)

lemma first_by_Some: "first_by k rs = Some r \<Longrightarrow> r \<in> set rs \<and> (\<forall>s\<in>set rs. k r \<le> k s)"
proof (induction rs arbitrary: r)
  case Nil
  then show ?case by simp
next
  case (Cons a rs)
  then show ?case
    by (cases "first_by k rs") (auto split: if_splits)
qed

lemma update_where_length [simp]: "length (update_where P f rs) = length rs"
  by (simp add: update_where_def)

lemma map_update_where:
  "(\<And>r. g (f r) = g r) \<Longrightarrow> map g (update_where P f rs) = map g rs"
  by (simp add: update_where_def)

lemma affected_pos: "0 < affected P rs \<longleftrightarrow> (\<exists>r\<in>set rs. P r)"
  by (auto simp: affected_def filter_empty_conv length_greater_0_conv)

lemma affected_0: "affected P rs = 0 \<longleftrightarrow> (\<forall>r\<in>set rs. \<not> P r)"
  by (auto simp: affected_def filter_empty_conv)

lemma in_update_where:
  "r \<in> set (update_where P f rs) \<longleftrightarrow> (\<exists>s\<in>set rs. r = (if P s then f s else s))"
  by (auto simp: update_where_def)

definition opt_str :: "string option \<Rightarrow> string" where
  "opt_str v = (case v of None \<Rightarrow> [] | Some s \<Rightarrow> s)"

section \<open>Errors of the store\<close>

datatype store_error =
    ErrDriver
  | ErrNoRows
  | ErrLeaseLost
  | ErrIdempotencyConflict
  | ErrConstraint
  | ErrInvalid
  | ErrSuperseded
  | ErrNullScan
  | ErrAudit audit_error

definition lift_audit ::
  "(audit_error, 's, 'a) tx \<Rightarrow> (store_error, 's, 'a) tx" where
  "lift_audit m = (\<lambda>s. case m s of Inl e \<Rightarrow> Inl (ErrAudit e) | Inr r \<Rightarrow> Inr r)"

text \<open>The k-th statement of a call; the driver refuses it when the fault pattern says so.\<close>

definition stmt :: "faults \<Rightarrow> nat \<Rightarrow> (store_error, 's, 'a) tx \<Rightarrow> (store_error, 's, 'a) tx" where
  "stmt flt k m = (\<lambda>s. if flt k then Inl ErrDriver else m s)"

text \<open>Begin is statement 0 of a call and Commit its last one.\<close>

definition in_tx ::
  "faults \<Rightarrow> nat \<Rightarrow> (store_error, 's, 'a) tx \<Rightarrow> 's \<Rightarrow> (store_error, 'a) result \<times> 's" where
  "in_tx flt c m = run_tx (stmt flt 0 (tx_bind m (\<lambda>x. stmt flt c (tx_return x))))"

lemma stmt_Inr [tx_simps]: "stmt flt k m s = Inr r \<longleftrightarrow> \<not> flt k \<and> m s = Inr r"
  by (simp add: stmt_def)

lemma lift_audit_Inr [tx_simps]: "lift_audit m s = Inr r \<longleftrightarrow> m s = Inr r"
  by (auto simp: lift_audit_def split: sum.splits)

lemma in_tx_Inr [tx_simps]:
  "in_tx flt c m s = (Inr x, t) \<longleftrightarrow> \<not> flt 0 \<and> \<not> flt c \<and> m s = Inr (x, t)"
  by (auto simp: in_tx_def run_tx_Inr stmt_Inr tx_bind_Inr tx_return_Inr)

lemma in_tx_error: "fst (in_tx flt c m s) = Inl e \<Longrightarrow> snd (in_tx flt c m s) = s"
  unfolding in_tx_def by (rule run_tx_error)

lemma in_tx_rollback: "in_tx flt c m s = (Inl e, t) \<Longrightarrow> t = s"
  by (metis in_tx_error fst_conv snd_conv)

lemma in_tx_cases:
  obtains (error) e where "in_tx flt c m s = (Inl e, s)"
    | (commit) x t where "in_tx flt c m s = (Inr x, t)" and "m s = Inr (x, t)"
      and "\<not> flt 0" and "\<not> flt c"
proof (cases "fst (in_tx flt c m s)")
  case (Inl e)
  then have "in_tx flt c m s = (Inl e, s)"
    by (metis in_tx_error prod.collapse)
  then show thesis by (rule error)
next
  case (Inr x)
  then obtain t where "in_tx flt c m s = (Inr x, t)"
    by (metis prod.collapse)
  then show thesis by (intro commit) (auto simp: in_tx_Inr)
qed

text \<open>
  A single statement whose condition is on the affected row count: the source returns an
  error unless exactly one row was changed.
\<close>

definition exactly_one ::
  "('s \<Rightarrow> nat) \<Rightarrow> ('s \<Rightarrow> 's) \<Rightarrow> store_error \<Rightarrow> (store_error, 's, unit) tx" where
  "exactly_one n f e = (\<lambda>s. if n s = 1 then Inr ((), f s) else Inl e)"

lemma exactly_one_Inr [tx_simps]:
  "exactly_one n f e s = Inr (x, t) \<longleftrightarrow> n s = 1 \<and> t = f s"
  by (auto simp: exactly_one_def)

text \<open>A SELECT that must return a row.\<close>

definition select_row :: "('s \<Rightarrow> 'r option) \<Rightarrow> store_error \<Rightarrow> (store_error, 's, 'r) tx" where
  "select_row q e = (\<lambda>s. case q s of None \<Rightarrow> Inl e | Some r \<Rightarrow> Inr (r, s))"

lemma select_row_Inr [tx_simps]: "select_row q e s = Inr (r, t) \<longleftrightarrow> q s = Some r \<and> t = s"
  by (auto simp: select_row_def split: option.splits)

section \<open>What every transaction keeps\<close>

text \<open>
  A relation between the states before and after: it is kept by a transaction when every
  successful run relates them.  For a preorder it is enough that the statements keep it.
\<close>

definition keeps :: "('s \<Rightarrow> 's \<Rightarrow> bool) \<Rightarrow> ('e, 's, 'a) tx \<Rightarrow> bool" where
  "keeps R m \<longleftrightarrow> (\<forall>s x t. m s = Inr (x, t) \<longrightarrow> R s t)"

locale transition_order =
  fixes R :: "'s \<Rightarrow> 's \<Rightarrow> bool"
  assumes stays: "R s s" and follows: "R s t \<Longrightarrow> R t u \<Longrightarrow> R s u"
begin

lemma keeps_bind: "keeps R m \<Longrightarrow> (\<And>x. keeps R (f x)) \<Longrightarrow> keeps R (tx_bind m f)"
  unfolding keeps_def tx_bind_Inr by (meson follows)

lemma keeps_return: "keeps R (tx_return x)"
  by (simp add: keeps_def tx_return_Inr stays)

lemma keeps_fail: "keeps R (tx_fail e)"
  by (simp add: keeps_def tx_fail_Inr)

lemma keeps_stmt: "keeps R m \<Longrightarrow> keeps R (stmt flt k m)"
  by (simp add: keeps_def stmt_Inr)

lemma keeps_select: "keeps R (select_row q e)"
  by (simp add: keeps_def select_row_Inr stays)

lemma keeps_run: "keeps R m \<Longrightarrow> R s (snd (run_tx m s))"
  by (auto simp: keeps_def run_tx_def stays split: sum.splits)

lemma keeps_in_tx: "keeps R m \<Longrightarrow> R s (snd (in_tx flt c m s))"
  unfolding in_tx_def by (intro keeps_run keeps_stmt keeps_bind keeps_return)

end

section \<open>Table constraints\<close>

text \<open>The CHECK constraints of tsw_tasks (subject, lease, completion, attempts, version).\<close>

definition task_subject_ok :: "task_row \<Rightarrow> bool" where
  "task_subject_ok t \<longleftrightarrow>
    (let w = tk_workspace t \<noteq> None; a = tk_target t \<noteq> None; o' = tk_op_target t \<noteq> None;
         m = tk_membership t \<noteq> None; s = tk_asset t \<noteq> None in
     case tk_type t of
       WorkspaceRead \<Rightarrow> w \<and> \<not> a \<and> \<not> o' \<and> \<not> m \<and> \<not> s
     | WorkspaceFactCleanup \<Rightarrow> w \<and> \<not> a \<and> \<not> o' \<and> \<not> m \<and> \<not> s
     | RetentionCleanup \<Rightarrow> \<not> w \<and> \<not> a \<and> \<not> o' \<and> \<not> m \<and> \<not> s
     | TargetAccountProbe \<Rightarrow> \<not> w \<and> a \<and> \<not> o' \<and> \<not> m \<and> \<not> s
     | Join \<Rightarrow> w \<and> a \<and> o' \<and> \<not> m \<and> \<not> s
     | JoinReconcile \<Rightarrow> w \<and> a \<and> o' \<and> \<not> m \<and> \<not> s
     | OAuthGenerate \<Rightarrow> w \<and> \<not> a \<and> \<not> o' \<and> m \<and> s
     | OAuthProbe \<Rightarrow> w \<and> \<not> a \<and> \<not> o' \<and> m \<and> s
     | OAuthReclaim \<Rightarrow> w \<and> \<not> a \<and> \<not> o' \<and> m \<and> s
     | Remove \<Rightarrow> w \<and> \<not> a \<and> o' \<and> m \<and> \<not> s
     | RemoveReconcile \<Rightarrow> w \<and> \<not> a \<and> o' \<and> m \<and> \<not> s)"

definition terminal :: "task_status \<Rightarrow> bool" where
  "terminal s \<longleftrightarrow> s = Succeeded \<or> s = Failed \<or> s = Interrupted"

definition task_ok :: "task_row \<Rightarrow> bool" where
  "task_ok t \<longleftrightarrow> task_subject_ok t
     \<and> (if tk_status t = Running
        then tk_lease_owner t \<noteq> None \<and> tk_lease_token t \<noteq> None \<and> tk_lease_expires t \<noteq> None
             \<and> tk_finished_at t = None
        else tk_lease_owner t = None \<and> tk_lease_token t = None \<and> tk_lease_expires t = None)
     \<and> (terminal (tk_status t) \<longleftrightarrow> tk_finished_at t \<noteq> None)
     \<and> 0 \<le> tk_attempts t \<and> tk_attempts t \<le> tk_max_attempts t \<and> 0 < tk_version t"

definition tasks_ok :: "'z store_db_scheme \<Rightarrow> bool" where
  "tasks_ok db \<longleftrightarrow> list_all task_ok (tasks db) \<and> distinct (map tk_id (tasks db))
     \<and> distinct (map (\<lambda>t. (tk_type t, tk_dedupe t)) (tasks db))"

text \<open>The CHECK constraint on the route columns of tsw_task_attempts and its unique key.\<close>

definition attempt_ok :: "attempt_row \<Rightarrow> bool" where
  "attempt_ok a \<longleftrightarrow> 0 < at_no a \<and>
    ((at_mode a = ''direct'' \<and> at_scheme a = None \<and> at_key_version a = None
      \<and> at_fingerprint a = None \<and> at_verified_at a = None \<and> at_stage a = None) \<or>
     (at_mode a = ''required'' \<and> at_scheme a \<noteq> None \<and> at_key_version a \<noteq> None
      \<and> at_fingerprint a \<noteq> None \<and> at_verified_at a \<noteq> None \<and> at_stage a \<noteq> None))"

definition attempt_insertable :: "'z store_db_scheme \<Rightarrow> attempt_row \<Rightarrow> bool" where
  "attempt_insertable db a \<longleftrightarrow> attempt_ok a
     \<and> list_all (\<lambda>b. (at_task b, at_no b) \<noteq> (at_task a, at_no a)) (task_attempts db)"

end
