(* ===== verification/TaskStore.thy ===== *)
theory TaskStore
  imports StoreDb
begin

text \<open>
  Package internal/task, file task.go: the durable queue.  A worker claims one runnable
  task under a lease (token and expiry), renews the lease, and settles the task in the
  transaction that publishes its result and its audit fact.  Every operation is a call
  \<open>db \<Rightarrow> (error or value) \<times> db\<close>; \<open>flt\<close> is the pattern of statements the driver
  refuses, \<open>now\<close> the transaction's now(), \<open>lk\<close> the rows locked by other
  transactions, \<open>tok\<close> the generated lease token, \<open>H\<close> SHA-256 and \<open>gid\<close> the
  identifiers of new audit rows.
\<close>

section \<open>Values\<close>

record task_item =
  it_id :: string
  it_type :: task_type
  it_workspace :: string
  it_target :: string
  it_op_target :: string
  it_membership :: string
  it_asset :: string
  it_dedupe :: string
  it_status :: task_status
  it_token :: uuid
  it_attempt :: int
  it_correlation :: string

record attempt_route =
  rt_mode :: string
  rt_scheme :: "string option"
  rt_key_version :: "string option"
  rt_fingerprint :: string
  rt_verified_at :: "instant option"
  rt_stage :: "string option"

definition direct_route :: attempt_route where
  "direct_route = \<lparr>rt_mode = ''direct'', rt_scheme = None, rt_key_version = None,
     rt_fingerprint = [], rt_verified_at = None, rt_stage = None\<rparr>"

definition string_value :: "string option \<Rightarrow> string" where
  "string_value v = (case v of None \<Rightarrow> [] | Some s \<Rightarrow> s)"

definition time_value :: "instant option \<Rightarrow> string" where
  "time_value v = (case v of None \<Rightarrow> [] | Some t \<Rightarrow> rfc3339nano t)"

definition nullable_bytes :: "string \<Rightarrow> string option" where
  "nullable_bytes v = (if length v = 0 then None else Some v)"

text \<open>The RETURNING clause of the claiming statements, with its COALESCE to the empty text.\<close>

definition returned_item :: "task_row \<Rightarrow> task_item" where
  "returned_item t =
     \<lparr>it_id = tk_id t, it_type = tk_type t, it_workspace = opt_str (tk_workspace t),
      it_target = opt_str (tk_target t), it_op_target = opt_str (tk_op_target t),
      it_membership = opt_str (tk_membership t), it_asset = opt_str (tk_asset t),
      it_dedupe = tk_dedupe t, it_status = tk_status t,
      it_token = (case tk_lease_token t of None \<Rightarrow> uuid_nil | Some u \<Rightarrow> u),
      it_attempt = tk_attempts t, it_correlation = tk_correlation t\<rparr>"

definition write_audit ::
  "(string \<Rightarrow> string) \<Rightarrow> faults \<Rightarrow> nat \<Rightarrow> string \<Rightarrow> instant \<Rightarrow> event
     \<Rightarrow> (store_error, 'z store_db_scheme, string) tx" where
  "write_audit H flt k gid now ev = lift_audit (audit_write H (\<lambda>i. flt (k + i)) gid now ev)"

text \<open>The system facts about a task share every field but type, scope, outcome, details and key.\<close>

definition task_event ::
  "event_type \<Rightarrow> string \<Rightarrow> task_item \<Rightarrow> outcome \<Rightarrow> details \<Rightarrow> string \<Rightarrow> event" where
  "task_event ty scope item oc d key =
     \<lparr>ev_type = ty, ev_actor = ActorSystem, ev_owner_id = [], ev_scope_id = scope,
      ev_entity_type = ''task'', ev_entity_id = it_id item, ev_outcome = oc,
      ev_correlation = it_correlation item, ev_source_fp = [], ev_details = d,
      ev_idem_key = key, ev_occurred_at = zero_time\<rparr>"

definition task_details :: "int \<Rightarrow> string \<Rightarrow> string \<Rightarrow> details" where
  "task_details n r g = TaskDetails n r g [] [] [] []"

section \<open>Claiming\<close>

definition expired :: "instant \<Rightarrow> task_row \<Rightarrow> bool" where
  "expired now t \<longleftrightarrow> (case tk_lease_expires t of None \<Rightarrow> False | Some e \<Rightarrow> e \<le> now)"

definition runnable :: "instant \<Rightarrow> task_row \<Rightarrow> bool" where
  "runnable now t \<longleftrightarrow>
     ((tk_status t = Queued \<or> tk_status t = RetryWait) \<and> tk_available_at t \<le> now)
     \<or> (tk_status t = Running \<and> expired now t)"

definition mutation_in_doubt :: "instant \<Rightarrow> task_row \<Rightarrow> bool" where
  "mutation_in_doubt now t \<longleftrightarrow>
     (tk_type t = Join \<or> tk_type t = Remove) \<and> tk_status t = Running \<and> expired now t"

text \<open>
  The canary rule: a removal task runs when it is a reconciliation, when its target is
  the first of the operation, or when the first target has succeeded.
\<close>

definition canary_open :: "'z store_db_scheme \<Rightarrow> task_row \<Rightarrow> bool" where
  "canary_open db t \<longleftrightarrow>
     list_ex (\<lambda>rt. Some (ot_id rt) = tk_op_target t \<and>
        (tk_type t = RemoveReconcile \<or> ot_ordinal rt = 1 \<or>
         list_ex (\<lambda>c. ot_operation c = ot_operation rt \<and> ot_ordinal c = 1 \<and> ot_status c = ''succeeded'')
           (op_targets db)))
       (op_targets db)"

definition candidate ::
  "'z store_db_scheme \<Rightarrow> instant \<Rightarrow> (string \<Rightarrow> bool) \<Rightarrow> task_type \<Rightarrow> task_row \<Rightarrow> bool" where
  "candidate db now lk ty t \<longleftrightarrow>
     tk_type t = ty \<and> runnable now t \<and> \<not> mutation_in_doubt now t
     \<and> ((ty \<noteq> Remove \<and> ty \<noteq> RemoveReconcile) \<or> canary_open db t)
     \<and> tk_attempts t < tk_max_attempts t \<and> \<not> lk (tk_id t)"

definition claim_order :: "task_row \<Rightarrow> int \<times> int \<times> int" where
  "claim_order t = (- tk_priority t, tk_available_at t, tk_created_at t)"

definition leased :: "string \<Rightarrow> uuid \<Rightarrow> instant \<Rightarrow> duration \<Rightarrow> task_row \<Rightarrow> task_row" where
  "leased worker tok now dur t =
     t\<lparr>tk_status := Running, tk_lease_owner := Some worker, tk_lease_token := Some tok,
       tk_lease_expires := Some (now + dur), tk_attempts := tk_attempts t + 1,
       tk_updated_at := now, tk_version := tk_version t + 1\<rparr>"

definition take_lease ::
  "(string \<Rightarrow> bool) \<Rightarrow> uuid \<Rightarrow> string \<Rightarrow> duration \<Rightarrow> instant \<Rightarrow> task_type
     \<Rightarrow> (store_error, 'z store_db_scheme, task_item) tx" where
  "take_lease lk tok worker dur now ty = (\<lambda>db.
     case first_by claim_order (filter (candidate db now lk ty) (tasks db)) of
       None \<Rightarrow> Inl ErrNoRows
     | Some t \<Rightarrow> Inr (returned_item (leased worker tok now dur t),
         db\<lparr>tasks := update_where (\<lambda>r. tk_id r = tk_id t) (leased worker tok now dur) (tasks db)\<rparr>))"

definition insert_attempt ::
  "task_item \<Rightarrow> attempt_route \<Rightarrow> (store_error, 'z store_db_scheme, unit) tx" where
  "insert_attempt item route = (\<lambda>db.
     let a = \<lparr>at_task = it_id item, at_no = it_attempt item, at_token = it_token item,
              at_mode = rt_mode route, at_scheme = rt_scheme route,
              at_key_version = rt_key_version route,
              at_fingerprint = nullable_bytes (rt_fingerprint route),
              at_verified_at = rt_verified_at route, at_stage = rt_stage route\<rparr> in
     if attempt_insertable db a then Inr ((), db\<lparr>task_attempts := task_attempts db @ [a]\<rparr>)
     else Inl ErrConstraint)"

definition start_event :: "task_type \<Rightarrow> task_item \<Rightarrow> attempt_route \<Rightarrow> event" where
  "start_event ty item route =
     (let stage = (if ty = WorkspaceFactCleanup then ''before_retention_cleanup''
                   else ''before_platform_request'');
          es = (if ty = WorkspaceFactCleanup then (TaskStarted, it_workspace item)
                else if ty = TargetAccountProbe then (TargetProbeStarted, it_target item)
                else (TaskStarted, it_workspace item))
      in task_event (fst es) (snd es) item OutcomeSucceeded
           (TaskDetails (it_attempt item) ''started'' stage (rt_mode route)
              (string_value (rt_scheme route)) (string_value (rt_key_version route))
              (time_value (rt_verified_at route)))
           (it_id item @ '':task.started:'' @ itoa (it_attempt item)))"

definition claim ::
  "(string \<Rightarrow> string) \<Rightarrow> faults \<Rightarrow> (string \<Rightarrow> bool) \<Rightarrow> uuid \<Rightarrow> string \<Rightarrow> instant
     \<Rightarrow> string \<Rightarrow> duration \<Rightarrow> task_type \<Rightarrow> attempt_route
     \<Rightarrow> 'z store_db_scheme \<Rightarrow> (store_error, task_item) result \<times> 'z store_db_scheme" where
  "claim H flt lk tok gid now worker dur ty route =
     in_tx flt 9
       (tx_bind (stmt flt 1 (take_lease lk tok worker dur now ty)) (\<lambda>item.
        tx_bind (stmt flt 2 (insert_attempt item route)) (\<lambda>_.
        tx_bind (write_audit H flt 3 gid now (start_event ty item route)) (\<lambda>_.
        tx_return item))))"

text \<open>The exported claims: one queue per task type; the cleanups run on the direct route.\<close>

definition delivery_type :: "task_type \<Rightarrow> bool" where
  "delivery_type ty \<longleftrightarrow> ty = OAuthGenerate \<or> ty = OAuthProbe \<or> ty = OAuthReclaim"

definition claim_delivery where
  "claim_delivery H flt lk tok gid now worker dur ty route =
     (if \<not> delivery_type ty
      then (\<lambda>db. (Inl ErrInvalid, db))
      else claim H flt lk tok gid now worker dur ty route)"

definition claim_cleanup where
  "claim_cleanup H flt lk tok gid now worker dur =
     claim H flt lk tok gid now worker dur WorkspaceFactCleanup direct_route"

definition claim_retention_cleanup where
  "claim_retention_cleanup H flt lk tok gid now worker dur =
     claim H flt lk tok gid now worker dur RetentionCleanup direct_route"

text \<open>claimRejected: a lease with no attempt row and no start fact.\<close>

definition claim_rejected ::
  "faults \<Rightarrow> (string \<Rightarrow> bool) \<Rightarrow> uuid \<Rightarrow> instant \<Rightarrow> string \<Rightarrow> duration \<Rightarrow> task_type
     \<Rightarrow> 'z store_db_scheme \<Rightarrow> (store_error, task_item) result \<times> 'z store_db_scheme" where
  "claim_rejected flt lk tok now worker dur ty =
     run_tx (stmt flt 0 (take_lease lk tok worker dur now ty))"

text \<open>NextNetworkTaskType: the type at the head of the network queue.\<close>

definition network_type :: "task_type \<Rightarrow> bool" where
  "network_type ty \<longleftrightarrow> ty \<noteq> WorkspaceFactCleanup \<and> ty \<noteq> RetentionCleanup"

definition network_candidate :: "'z store_db_scheme \<Rightarrow> instant \<Rightarrow> task_row \<Rightarrow> bool" where
  "network_candidate db now t \<longleftrightarrow>
     network_type (tk_type t)
     \<and> (((tk_status t = Queued \<or> tk_status t = RetryWait) \<and> tk_available_at t \<le> now)
        \<or> (tk_status t = Running \<and> expired now t \<and> tk_type t \<noteq> Join \<and> tk_type t \<noteq> Remove))
     \<and> ((tk_type t \<noteq> Remove \<and> tk_type t \<noteq> RemoveReconcile) \<or> canary_open db t)
     \<and> tk_attempts t < tk_max_attempts t"

definition next_network_task_type ::
  "faults \<Rightarrow> instant \<Rightarrow> 'z store_db_scheme \<Rightarrow> (store_error, task_type) result" where
  "next_network_task_type flt now db =
     (if flt 0 then Inl ErrDriver
      else case first_by claim_order (filter (network_candidate db now) (tasks db)) of
             None \<Rightarrow> Inl ErrNoRows | Some t \<Rightarrow> Inr (tk_type t))"

section \<open>The lease fence\<close>

definition fenced :: "string \<Rightarrow> uuid \<Rightarrow> instant \<Rightarrow> task_row \<Rightarrow> bool" where
  "fenced i tok now t \<longleftrightarrow>
     tk_id t = i \<and> tk_lease_token t = Some tok \<and> tk_status t = Running
     \<and> (case tk_lease_expires t of None \<Rightarrow> False | Some e \<Rightarrow> now < e)"

definition released :: "task_status \<Rightarrow> instant \<Rightarrow> task_row \<Rightarrow> task_row" where
  "released st now t =
     t\<lparr>tk_status := st, tk_lease_owner := None, tk_lease_token := None,
       tk_lease_expires := None, tk_finished_at := Some now, tk_updated_at := now,
       tk_version := tk_version t + 1\<rparr>"

definition update_one ::
  "(task_row \<Rightarrow> bool) \<Rightarrow> (task_row \<Rightarrow> task_row) \<Rightarrow> (store_error, 'z store_db_scheme, unit) tx" where
  "update_one P f =
     exactly_one (\<lambda>db. affected P (tasks db)) (\<lambda>db. db\<lparr>tasks := update_where P f (tasks db)\<rparr>) ErrLeaseLost"

definition find_task :: "(task_row \<Rightarrow> bool) \<Rightarrow> 'z store_db_scheme \<Rightarrow> task_row option" where
  "find_task P db = find P (tasks db)"

definition renew ::
  "faults \<Rightarrow> instant \<Rightarrow> string \<Rightarrow> uuid \<Rightarrow> duration
     \<Rightarrow> 'z store_db_scheme \<Rightarrow> (store_error, unit) result \<times> 'z store_db_scheme" where
  "renew flt now i tok dur =
     run_tx (stmt flt 0 (update_one (fenced i tok now)
       (\<lambda>t. t\<lparr>tk_lease_expires := Some (now + dur), tk_updated_at := now,
              tk_version := tk_version t + 1\<rparr>)))"

text \<open>
  The publication boundary: the fence is read under a row lock, the caller's publication
  runs, the task is settled through the fence again, and the audit fact is written; all
  in one transaction.  The publication is an argument, as in the source.
\<close>

definition complete_task ::
  "(string \<Rightarrow> string) \<Rightarrow> faults \<Rightarrow> string \<Rightarrow> instant \<Rightarrow> task_item \<Rightarrow> string \<Rightarrow> string
     \<Rightarrow> (string \<Rightarrow> (store_error, 'z store_db_scheme, unit) tx)
     \<Rightarrow> 'z store_db_scheme \<Rightarrow> (store_error, unit) result \<times> 'z store_db_scheme" where
  "complete_task H flt gid now item code stage publish =
     in_tx flt 9
       (tx_bind (stmt flt 1 (select_row (find_task (fenced (it_id item) (it_token item) now)) ErrLeaseLost)) (\<lambda>t.
        tx_bind (publish (opt_str (tk_workspace t))) (\<lambda>_.
        tx_bind (stmt flt 2 (update_one (fenced (it_id item) (it_token item) now) (released Succeeded now))) (\<lambda>_.
        tx_bind (write_audit H flt 3 gid now
           (task_event TaskEnded (opt_str (tk_workspace t)) item OutcomeSucceeded
             (task_details (it_attempt item) code stage)
             (it_id item @ '':task.ended:'' @ itoa (it_attempt item)))) (\<lambda>_.
        tx_return ())))))"

definition complete_workspace_read where
  "complete_workspace_read H flt gid now item publish =
     complete_task H flt gid now item ''workspace_read_complete'' ''publish'' publish"

definition complete_cleanup where
  "complete_cleanup H flt gid now item cleanup =
     complete_task H flt gid now item ''workspace_fact_cleanup_complete'' ''retention_cleanup'' cleanup"

definition complete_retention_cleanup ::
  "(string \<Rightarrow> string) \<Rightarrow> faults \<Rightarrow> string \<Rightarrow> instant \<Rightarrow> task_item
     \<Rightarrow> (store_error, 'z store_db_scheme, unit) tx
     \<Rightarrow> 'z store_db_scheme \<Rightarrow> (store_error, unit) result \<times> 'z store_db_scheme" where
  "complete_retention_cleanup H flt gid now item cleanup =
     in_tx flt 9
       (tx_bind (stmt flt 1 (select_row (find_task (\<lambda>t. fenced (it_id item) (it_token item) now t
                                             \<and> tk_type t = RetentionCleanup)) ErrLeaseLost)) (\<lambda>_.
        tx_bind cleanup (\<lambda>_.
        tx_bind (stmt flt 2 (update_one (fenced (it_id item) (it_token item) now) (released Succeeded now))) (\<lambda>_.
        tx_bind (write_audit H flt 3 gid now
           (task_event RetentionCleanupCompleted (it_id item) item OutcomeSucceeded
             (task_details (it_attempt item) ''retention_cleanup_complete'' ''retention_cleanup'')
             (it_id item @ '':retention.completed''))) (\<lambda>_.
        tx_return ())))))"

definition complete_target_probe ::
  "(string \<Rightarrow> string) \<Rightarrow> faults \<Rightarrow> string \<Rightarrow> instant \<Rightarrow> task_item
     \<Rightarrow> (string \<Rightarrow> (store_error, 'z store_db_scheme, unit) tx)
     \<Rightarrow> 'z store_db_scheme \<Rightarrow> (store_error, unit) result \<times> 'z store_db_scheme" where
  "complete_target_probe H flt gid now item publish =
     in_tx flt 9
       (tx_bind (stmt flt 1 (select_row (find_task (\<lambda>t. fenced (it_id item) (it_token item) now t
                                             \<and> tk_type t = TargetAccountProbe)) ErrLeaseLost)) (\<lambda>t.
        tx_bind (publish (opt_str (tk_target t))) (\<lambda>_.
        tx_bind (stmt flt 2 (update_one (fenced (it_id item) (it_token item) now) (released Succeeded now))) (\<lambda>_.
        tx_bind (write_audit H flt 3 gid now
           (task_event TargetProbeEnded (opt_str (tk_target t)) item OutcomeSucceeded
             (task_details (it_attempt item) ''target_probe_complete'' ''publish'')
             (it_id item @ '':target-probe.ended:'' @ itoa (it_attempt item)))) (\<lambda>_.
        tx_return ())))))"

definition reject_target_probe ::
  "(string \<Rightarrow> string) \<Rightarrow> faults \<Rightarrow> string \<Rightarrow> instant \<Rightarrow> task_item \<Rightarrow> string \<Rightarrow> string
     \<Rightarrow> (string \<Rightarrow> (store_error, 'z store_db_scheme, unit) tx)
     \<Rightarrow> 'z store_db_scheme \<Rightarrow> (store_error, unit) result \<times> 'z store_db_scheme" where
  "reject_target_probe H flt gid now item code stage publish =
     in_tx flt 9
       (tx_bind (stmt flt 1 (update_one (\<lambda>t. fenced (it_id item) (it_token item) now t
                                \<and> tk_type t = TargetAccountProbe) (released Failed now))) (\<lambda>_.
        tx_bind (publish (it_target item)) (\<lambda>_.
        tx_bind (write_audit H flt 2 gid now
           (task_event TargetProbeRejected (it_target item) item OutcomeFailed
             (task_details (it_attempt item) code stage)
             (it_id item @ '':target-probe.rejected:'' @ itoa (it_attempt item)))) (\<lambda>_.
        tx_return ()))))"

text \<open>Settle takes its terminal status and its event type as text.\<close>

definition terminal_status :: "string \<Rightarrow> task_status option" where
  "terminal_status s =
     (if s = ''succeeded'' then Some Succeeded
      else if s = ''failed'' then Some Failed
      else if s = ''interrupted'' then Some Interrupted else None)"

definition settle_event_type :: "task_type \<Rightarrow> string \<Rightarrow> event_type" where
  "settle_event_type ty e =
     (let probe = (ty = TargetAccountProbe) in
      if e = ''task.rejected'' then (if probe then TargetProbeRejected else TaskRejected)
      else if e = ''task.interrupted'' then (if probe then TargetProbeInterrupted else TaskInterrupted)
      else (if probe then TargetProbeEnded else TaskEnded))"

definition settle_outcome :: "string \<Rightarrow> outcome" where
  "settle_outcome s =
     (if s = ''failed'' then OutcomeFailed else if s = ''denied'' then OutcomeDenied else OutcomeSucceeded)"

definition settle ::
  "(string \<Rightarrow> string) \<Rightarrow> faults \<Rightarrow> string \<Rightarrow> instant \<Rightarrow> task_item
     \<Rightarrow> string \<Rightarrow> string \<Rightarrow> string \<Rightarrow> string \<Rightarrow> string
     \<Rightarrow> 'z store_db_scheme \<Rightarrow> (store_error, unit) result \<times> 'z store_db_scheme" where
  "settle H flt gid now item status event_type outcome code stage =
     (case terminal_status status of
        None \<Rightarrow> (\<lambda>db. (Inl ErrInvalid, db))
      | Some st \<Rightarrow>
         in_tx flt 9
           (tx_bind (stmt flt 1 (update_one (fenced (it_id item) (it_token item) now) (released st now))) (\<lambda>_.
            tx_bind (write_audit H flt 2 gid now
               (task_event (settle_event_type (it_type item) event_type)
                 (if it_type item = TargetAccountProbe then it_target item else it_workspace item)
                 item (settle_outcome outcome) (task_details (it_attempt item) code stage)
                 (it_id item @ '':'' @ event_type @ '':'' @ itoa (it_attempt item)))) (\<lambda>_.
            tx_return ()))))"

definition interruption_subject :: "task_item \<Rightarrow> event_type \<times> string" where
  "interruption_subject item =
     (if it_type item = RetentionCleanup then (RetentionCleanupCompleted, it_id item)
      else if it_type item = TargetAccountProbe then (TargetProbeInterrupted, it_target item)
      else (TaskInterrupted, it_workspace item))"

definition record_interruption ::
  "(string \<Rightarrow> string) \<Rightarrow> faults \<Rightarrow> string \<Rightarrow> instant \<Rightarrow> task_item \<Rightarrow> string \<Rightarrow> string
     \<Rightarrow> 'z store_db_scheme \<Rightarrow> (store_error, unit) result \<times> 'z store_db_scheme" where
  "record_interruption H flt gid now item code stage =
     in_tx flt 9
       (tx_bind (write_audit H flt 1 gid now
          (task_event (fst (interruption_subject item)) (snd (interruption_subject item)) item
            OutcomeFailed (task_details (it_attempt item) code stage)
            (it_id item @ '':task.interrupted:'' @ itoa (it_attempt item) @ '':'' @ stage))) (\<lambda>_.
        tx_return ()))"

section \<open>Queueing\<close>

definition queued_task ::
  "string \<Rightarrow> instant \<Rightarrow> task_type \<Rightarrow> string option \<Rightarrow> string option \<Rightarrow> string \<Rightarrow> string \<Rightarrow> int \<Rightarrow> task_row" where
  "queued_task i now ty ws tg dedupe corr mx =
     \<lparr>tk_id = i, tk_type = ty, tk_workspace = ws, tk_target = tg, tk_op_target = None,
      tk_membership = None, tk_asset = None, tk_parent = None, tk_dedupe = dedupe,
      tk_status = Queued, tk_priority = 0, tk_available_at = now, tk_lease_owner = None,
      tk_lease_token = None, tk_lease_expires = None, tk_attempts = 0, tk_max_attempts = mx,
      tk_correlation = corr, tk_finished_at = None, tk_created_at = now, tk_updated_at = now,
      tk_version = 1, tk_reclaim_tier = None, tk_reclaim_result = None,
      tk_reclaim_probe = None, tk_reclaim_http = None, tk_reclaim_stage = None\<rparr>"

definition same_key :: "task_row \<Rightarrow> task_row \<Rightarrow> bool" where
  "same_key a b \<longleftrightarrow> tk_type a = tk_type b \<and> tk_dedupe a = tk_dedupe b"

text \<open>
  INSERT ... ON CONFLICT (task_type, dedupe_key) DO NOTHING, and on conflict the read of
  the stored row, whose subject must be the requested one.  max_attempts defaults to 3.
\<close>

definition create_subject_task ::
  "(task_row \<Rightarrow> string option) \<Rightarrow> faults \<Rightarrow> task_row \<Rightarrow> string
     \<Rightarrow> 'z store_db_scheme \<Rightarrow> (store_error, task_row \<times> bool) result \<times> 'z store_db_scheme" where
  "create_subject_task subject flt row wanted db =
     (if flt 0 then (Inl ErrDriver, db)
      else case find (same_key row) (tasks db) of
        None \<Rightarrow> (Inr (row, True), db\<lparr>tasks := tasks db @ [row]\<rparr>)
      | Some t \<Rightarrow>
          if flt 1 then (Inl ErrDriver, db)
          else if opt_str (subject t) \<noteq> wanted then (Inl ErrIdempotencyConflict, db)
          else (Inr (t, False), db))"

definition create_workspace_read where
  "create_workspace_read flt i now ws dedupe corr =
     create_subject_task tk_workspace flt (queued_task i now WorkspaceRead (Some ws) None dedupe corr 3) ws"

definition create_target_probe where
  "create_target_probe flt i now tg dedupe corr =
     create_subject_task tk_target flt (queued_task i now TargetAccountProbe None (Some tg) dedupe corr 3) tg"

definition enqueue_retention_cleanup ::
  "faults \<Rightarrow> string \<Rightarrow> instant \<Rightarrow> string
     \<Rightarrow> 'z store_db_scheme \<Rightarrow> (store_error, bool) result \<times> 'z store_db_scheme" where
  "enqueue_retention_cleanup flt i now period db =
     (if period = [] \<or> 32 < length period then (Inl ErrInvalid, db)
      else if flt 0 then (Inl ErrDriver, db)
      else
        (let key = ''retention-cleanup:'' @ period;
             row = queued_task i now RetentionCleanup None None key key 5 in
         if list_ex (same_key row) (tasks db) then (Inr False, db)
         else (Inr True, db\<lparr>tasks := tasks db @ [row]\<rparr>)))"

end
