(* ===== verification/TaskOps.thy ===== *)
theory TaskOps
  imports TaskStore
begin

text \<open>
  What the join and the removal files of package internal/task share: the statements they
  execute on the operation tables, the insertion of follow-up tasks, the reconciliation of
  an operation and its batch with the results of its targets (settleJoinAggregate,
  settleRemovalAggregate), and QueueDeliveryGenerationTx of oauth.go.
  A text status of the tables stays a text.  \<open>gid\<close> numbers the UUIDs a call generates,
  audit row identifiers included.
\<close>

section \<open>Statements\<close>

fun tx_seq :: "('e, 's, unit) tx list \<Rightarrow> ('e, 's, unit) tx" where
  "tx_seq [] = tx_return ()"
| "tx_seq (m # ms) = tx_bind m (\<lambda>_. tx_seq ms)"

text \<open>UPDATE statements whose row count the source does not look at.\<close>

definition exec_targets ::
  "(op_target_row \<Rightarrow> bool) \<Rightarrow> (op_target_row \<Rightarrow> op_target_row) \<Rightarrow> (store_error, 'z store_db_scheme, unit) tx" where
  "exec_targets P f = (\<lambda>db. Inr ((), db\<lparr>op_targets := update_where P f (op_targets db)\<rparr>))"

definition exec_operations ::
  "('z store_db_scheme \<Rightarrow> operation_row \<Rightarrow> bool) \<Rightarrow> ('z store_db_scheme \<Rightarrow> operation_row \<Rightarrow> operation_row)
     \<Rightarrow> (store_error, 'z store_db_scheme, unit) tx" where
  "exec_operations P f = (\<lambda>db. Inr ((), db\<lparr>operations := update_where (P db) (f db) (operations db)\<rparr>))"

definition exec_batches ::
  "('z store_db_scheme \<Rightarrow> batch_row \<Rightarrow> bool) \<Rightarrow> ('z store_db_scheme \<Rightarrow> batch_row \<Rightarrow> batch_row)
     \<Rightarrow> (store_error, 'z store_db_scheme, unit) tx" where
  "exec_batches P f = (\<lambda>db. Inr ((), db\<lparr>batches := update_where (P db) (f db) (batches db)\<rparr>))"

definition exec_tasks ::
  "('z store_db_scheme \<Rightarrow> task_row \<Rightarrow> bool) \<Rightarrow> (task_row \<Rightarrow> task_row) \<Rightarrow> (store_error, 'z store_db_scheme, unit) tx" where
  "exec_tasks P f = (\<lambda>db. Inr ((), db\<lparr>tasks := update_where (P db) f (tasks db)\<rparr>))"

definition one_target ::
  "(op_target_row \<Rightarrow> bool) \<Rightarrow> (op_target_row \<Rightarrow> op_target_row) \<Rightarrow> (store_error, 'z store_db_scheme, unit) tx" where
  "one_target P f = exactly_one (\<lambda>db. affected P (op_targets db))
     (\<lambda>db. db\<lparr>op_targets := update_where P f (op_targets db)\<rparr>) ErrLeaseLost"

definition one_operation ::
  "(operation_row \<Rightarrow> bool) \<Rightarrow> (operation_row \<Rightarrow> operation_row) \<Rightarrow> (store_error, 'z store_db_scheme, unit) tx" where
  "one_operation P f = exactly_one (\<lambda>db. affected P (operations db))
     (\<lambda>db. db\<lparr>operations := update_where P f (operations db)\<rparr>) ErrLeaseLost"

definition nullif :: "'a \<Rightarrow> 'a \<Rightarrow> 'a option" where
  "nullif x v = (if v = x then None else Some v)"

definition coalesce :: "'a option \<Rightarrow> 'a \<Rightarrow> 'a option" where
  "coalesce v d = (case v of None \<Rightarrow> Some d | Some x \<Rightarrow> Some x)"

text \<open>The common part of the target updates: a conclusion, with the clock and the version.\<close>

definition concluded ::
  "string \<Rightarrow> string option \<Rightarrow> string option \<Rightarrow> instant option \<Rightarrow> instant \<Rightarrow> op_target_row \<Rightarrow> op_target_row" where
  "concluded st outcome diagnostic completed now r =
     r\<lparr>ot_status := st, ot_outcome := outcome, ot_diagnostic := diagnostic,
       ot_completed_at := completed, ot_updated_at := now, ot_version := ot_version r + 1\<rparr>"

definition undoubted :: "op_target_row \<Rightarrow> op_target_row" where
  "undoubted r = r\<lparr>ot_may_have_reached := False, ot_stage := None, ot_started_at := None\<rparr>"

text \<open>The mutation lease of a workspace lives on its operation.\<close>

definition unleased :: "instant \<Rightarrow> operation_row \<Rightarrow> operation_row" where
  "unleased now o' =
     o'\<lparr>op_lease_owner := None, op_lease_token := None, op_lease_expires := None,
        op_updated_at := now, op_version := op_version o' + 1\<rparr>"

definition lease_free :: "uuid \<Rightarrow> instant \<Rightarrow> operation_row \<Rightarrow> bool" where
  "lease_free tok now o' \<longleftrightarrow>
     op_lease_token o' = None
     \<or> (case op_lease_expires o' of None \<Rightarrow> False | Some e \<Rightarrow> e \<le> now)
     \<or> op_lease_token o' = Some tok"

definition op_leased :: "string \<Rightarrow> uuid \<Rightarrow> instant \<Rightarrow> operation_row \<Rightarrow> operation_row" where
  "op_leased i tok now o' =
     o'\<lparr>op_lease_owner := Some i, op_lease_token := Some tok,
        op_lease_expires := Some (now + 10 * minute), op_updated_at := now,
        op_version := op_version o' + 1\<rparr>"

section \<open>Follow-up tasks\<close>

text \<open>
  An INSERT into tsw_tasks fails when the row violates the constraints of the table or
  reuses a primary key.  ON CONFLICT (task_type, dedupe_key) either touches the stored row
  (DO UPDATE SET updated_at=now() RETURNING id) or does nothing; in the second case the
  result says whether the row was inserted.
\<close>

definition upsert_task :: "task_row \<Rightarrow> (store_error, 'z store_db_scheme, string) tx" where
  "upsert_task row = (\<lambda>db.
     if \<not> task_ok row then Inl ErrConstraint
     else case find (same_key row) (tasks db) of
       None \<Rightarrow>
         if tk_id row \<in> tk_id ` set (tasks db) then Inl ErrConstraint
         else Inr (tk_id row, db\<lparr>tasks := tasks db @ [row]\<rparr>)
     | Some t \<Rightarrow> Inr (tk_id t, db\<lparr>tasks :=
         update_where (same_key row) (\<lambda>r. r\<lparr>tk_updated_at := tk_created_at row\<rparr>) (tasks db)\<rparr>))"

definition insert_task :: "task_row \<Rightarrow> (store_error, 'z store_db_scheme, bool) tx" where
  "insert_task row = (\<lambda>db.
     if \<not> task_ok row then Inl ErrConstraint
     else if list_ex (same_key row) (tasks db) then Inr (False, db)
     else if tk_id row \<in> tk_id ` set (tasks db) then Inl ErrConstraint
     else Inr (True, db\<lparr>tasks := tasks db @ [row]\<rparr>))"

definition join_reconcile_task ::
  "string \<Rightarrow> instant \<Rightarrow> string \<Rightarrow> string \<Rightarrow> string \<Rightarrow> string option \<Rightarrow> string \<Rightarrow> string \<Rightarrow> task_row" where
  "join_reconcile_task i now ot ws tg parent dedupe corr =
     (queued_task i now JoinReconcile (Some ws) (Some tg) dedupe corr 3)
       \<lparr>tk_op_target := Some ot, tk_parent := parent\<rparr>"

definition removal_task ::
  "string \<Rightarrow> instant \<Rightarrow> task_type \<Rightarrow> string \<Rightarrow> string \<Rightarrow> string \<Rightarrow> string option \<Rightarrow> string \<Rightarrow> string \<Rightarrow> int \<Rightarrow> task_row" where
  "removal_task i now ty ot mb ws parent dedupe corr mx =
     (queued_task i now ty (Some ws) None dedupe corr mx)
       \<lparr>tk_op_target := Some ot, tk_membership := Some mb, tk_parent := parent\<rparr>"

definition delivery_task ::
  "string \<Rightarrow> instant \<Rightarrow> task_type \<Rightarrow> string \<Rightarrow> string \<Rightarrow> string \<Rightarrow> string \<Rightarrow> string \<Rightarrow> task_row" where
  "delivery_task i now ty mb asset ws dedupe corr =
     (queued_task i now ty (Some ws) None dedupe corr 3)
       \<lparr>tk_membership := Some mb, tk_asset := Some asset\<rparr>"

text \<open>QueueDeliveryGenerationTx: the asset of the membership, and its generation task.\<close>

definition upsert_asset :: "string \<Rightarrow> instant \<Rightarrow> string \<Rightarrow> (store_error, 'z store_db_scheme, string) tx" where
  "upsert_asset i now mb = (\<lambda>db.
     case find (\<lambda>a. as_membership a = mb) (assets db) of
       None \<Rightarrow> Inr (i, db\<lparr>assets := assets db @
         [\<lparr>as_id = i, as_membership = mb, as_status = ''pending'', as_generation = 0, as_attempt = None,
           as_delivery = None, as_subject = None, as_liveness = None, as_http = None, as_error = None,
           as_origin = None, as_probed_at = None, as_unavailable_reason = None, as_updated_at = now, as_version = 1\<rparr>]\<rparr>)
     | Some a \<Rightarrow> Inr (as_id a, db\<lparr>assets :=
         update_where (\<lambda>a. as_membership a = mb) (\<lambda>a. a\<lparr>as_updated_at := now\<rparr>) (assets db)\<rparr>))"

definition queue_delivery_generation ::
  "faults \<Rightarrow> nat \<Rightarrow> (nat \<Rightarrow> string) \<Rightarrow> instant \<Rightarrow> string \<Rightarrow> string \<Rightarrow> string
     \<Rightarrow> (store_error, 'z store_db_scheme, unit) tx" where
  "queue_delivery_generation flt k gid now ws mb corr =
     tx_bind (stmt flt k (upsert_asset (gid k) now mb)) (\<lambda>asset.
     tx_bind (stmt flt (k + 1) (insert_task
       (delivery_task (gid (k + 1)) now OAuthGenerate mb asset ws (''oauth-generate:'' @ asset) corr))) (\<lambda>_.
     tx_return ()))"

section \<open>Audit facts about targets\<close>

definition target_event ::
  "event_type \<Rightarrow> string \<Rightarrow> string \<Rightarrow> string \<Rightarrow> outcome \<Rightarrow> details \<Rightarrow> string \<Rightarrow> event" where
  "target_event ty scope ot corr oc d key =
     \<lparr>ev_type = ty, ev_actor = ActorSystem, ev_owner_id = [], ev_scope_id = scope,
      ev_entity_type = ''operation_target'', ev_entity_id = ot, ev_outcome = oc,
      ev_correlation = corr, ev_source_fp = [], ev_details = d,
      ev_idem_key = key, ev_occurred_at = zero_time\<rparr>"

text \<open>A write whose returned identifier is not used.\<close>

definition audit_fact ::
  "(string \<Rightarrow> string) \<Rightarrow> faults \<Rightarrow> nat \<Rightarrow> string \<Rightarrow> instant \<Rightarrow> event \<Rightarrow> (store_error, 'z store_db_scheme, unit) tx" where
  "audit_fact H flt k gid now ev = tx_bind (write_audit H flt k gid now ev) (\<lambda>_. tx_return ())"

section \<open>The result of an operation\<close>

definition settled_target :: "op_target_row \<Rightarrow> bool" where
  "settled_target r \<longleftrightarrow> ot_status r \<in> {''succeeded'', ''failed'', ''blocked'', ''unknown''}"

definition unresolved_target :: "op_target_row \<Rightarrow> bool" where
  "unresolved_target r \<longleftrightarrow> ot_status r = ''blocked'' \<or> ot_status r = ''unknown''"

definition targets_of :: "string \<Rightarrow> 'z store_db_scheme \<Rightarrow> op_target_row list" where
  "targets_of i db = filter (\<lambda>r. ot_operation r = i) (op_targets db)"

definition join_status :: "op_target_row list \<Rightarrow> string" where
  "join_status rs =
     (if list_all settled_target rs then
        if list_ex unresolved_target rs then ''blocked''
        else if list_ex (\<lambda>r. ot_status r = ''failed'') rs then ''failed''
        else ''succeeded''
      else ''running'')"

definition removal_status :: "op_target_row list \<Rightarrow> string" where
  "removal_status rs =
     (if list_all (\<lambda>r. ot_status r = ''succeeded'') rs then ''succeeded''
      else if list_ex (\<lambda>r. ot_status r \<in> {''blocked'', ''unknown'', ''failed''}) rs then ''blocked''
      else ''running'')"

definition op_concluded :: "string \<Rightarrow> instant \<Rightarrow> operation_row \<Rightarrow> operation_row" where
  "op_concluded st now o' =
     o'\<lparr>op_status := st, op_completed_at := (if st = ''running'' then None else Some now),
        op_updated_at := now, op_version := op_version o' + 1\<rparr>"

definition refresh_join :: "string \<Rightarrow> instant \<Rightarrow> (store_error, 'z store_db_scheme, unit) tx" where
  "refresh_join i now =
     exec_operations (\<lambda>_ o'. op_id o' = i) (\<lambda>db. op_concluded (join_status (targets_of i db)) now)"

definition stored_status :: "string \<Rightarrow> 'z store_db_scheme \<Rightarrow> string option" where
  "stored_status i db = map_option op_status (find (\<lambda>o'. op_id o' = i) (operations db))"

definition settle_join_aggregate ::
  "faults \<Rightarrow> nat \<Rightarrow> instant \<Rightarrow> string \<Rightarrow> string \<Rightarrow> (store_error, 'z store_db_scheme, unit) tx" where
  "settle_join_aggregate flt k now operation batch =
     tx_seq
       [stmt flt k (refresh_join operation now),
        stmt flt (k + 1) (exec_batches (\<lambda>_ b. ba_id b = batch)
          (\<lambda>db b. b\<lparr>ba_status := (if stored_status operation db = Some ''succeeded'' then ''serving'' else ''joining''),
             ba_service_started := (if stored_status operation db = Some ''succeeded''
               then coalesce (ba_service_started b) now else ba_service_started b),
             ba_blocking := (if stored_status operation db = Some ''blocked''
               then Some ''join_target_unresolved'' else None),
             ba_updated_at := now, ba_version := ba_version b + 1\<rparr>))]"

text \<open>
  A removal that succeeded on every membership of the batch ends the service: the running
  generation attempts are superseded and the delivery tasks of the batch interrupted.
\<close>

definition batch_member :: "string \<Rightarrow> 'z store_db_scheme \<Rightarrow> string option \<Rightarrow> bool" where
  "batch_member batch db mb \<longleftrightarrow> list_ex (\<lambda>m. mb = Some (mb_id m) \<and> mb_batch m = batch) (memberships db)"

definition all_removed :: "string \<Rightarrow> 'z store_db_scheme \<Rightarrow> bool" where
  "all_removed batch db \<longleftrightarrow> list_all (\<lambda>m. mb_batch m = batch \<longrightarrow> mb_state m = ''removed'') (memberships db)"

definition supersede_attempts :: "string \<Rightarrow> instant \<Rightarrow> (store_error, 'z store_db_scheme, unit) tx" where
  "supersede_attempts batch now = (\<lambda>db. Inr ((), db\<lparr>oauth_attempts := update_where
     (\<lambda>a. oa_state a = ''running'' \<and>
        list_ex (\<lambda>t. tk_id t = oa_task a \<and> batch_member batch db (tk_membership t)) (tasks db))
     (\<lambda>a. a\<lparr>oa_state := ''superseded'', oa_outcome := Some ''service_ended'', oa_finished_at := Some now\<rparr>)
     (oauth_attempts db)\<rparr>))"

definition returned_operation :: "string \<Rightarrow> instant \<Rightarrow> (store_error, 'z store_db_scheme, string) tx" where
  "returned_operation i now = (\<lambda>db.
     let st = removal_status (targets_of i db) in
     if affected (\<lambda>o'. op_id o' = i) (operations db) = 0 then Inl ErrNoRows
     else Inr (st, db\<lparr>operations := update_where (\<lambda>o'. op_id o' = i) (op_concluded st now) (operations db)\<rparr>))"

definition returned_batch :: "string \<Rightarrow> string \<Rightarrow> instant \<Rightarrow> (store_error, 'z store_db_scheme, bool) tx" where
  "returned_batch batch st now = (\<lambda>db.
     let ended = (st = ''succeeded'' \<and> all_removed batch db) in
     if affected (\<lambda>b. ba_id b = batch) (batches db) = 0 then Inl ErrNoRows
     else Inr (ended, db\<lparr>batches := update_where (\<lambda>b. ba_id b = batch)
       (\<lambda>b. b\<lparr>ba_status := (if ended then ''ended'' else ''removing''),
          ba_service_ended := (if ended then coalesce (ba_service_ended b) now else ba_service_ended b),
          ba_blocking := (if st = ''blocked'' then Some ''remove_target_unresolved'' else None),
          ba_updated_at := now, ba_version := ba_version b + 1\<rparr>) (batches db)\<rparr>))"

definition settle_removal_aggregate ::
  "faults \<Rightarrow> nat \<Rightarrow> instant \<Rightarrow> string \<Rightarrow> string \<Rightarrow> (store_error, 'z store_db_scheme, bool) tx" where
  "settle_removal_aggregate flt k now operation batch =
     tx_bind (stmt flt k (returned_operation operation now)) (\<lambda>st.
     tx_bind (stmt flt (k + 1) (returned_batch batch st now)) (\<lambda>ended.
     if \<not> ended then tx_return False
     else tx_bind (tx_seq
       [stmt flt (k + 2) (supersede_attempts batch now),
        stmt flt (k + 3) (exec_tasks (\<lambda>db t. batch_member batch db (tk_membership t)
            \<and> delivery_type (tk_type t)
            \<and> (tk_status t = Queued \<or> tk_status t = Running \<or> tk_status t = RetryWait))
          (released Interrupted now))]) (\<lambda>_. tx_return True)))"

end
