(* ===== verification/AuditLaws.thy ===== *)
theory AuditLaws
  imports AuditRegistry
begin

text \<open>
  What package internal/audit promises: the registry vocabulary, the injectivity of the
  stable event key, and the idempotent, append-only, conflict-detecting Write.
\<close>

section \<open>Laws of the registry\<close>

lemma registered_iff: "registry e \<noteq> None \<longleftrightarrow> e \<in> set registered_events"
  by (cases e) (simp_all add: registered_events_def spec_of_def)

lemma validate_Inr:
  "validate ev = Inr (d, sp) \<longleftrightarrow>
     registry (ev_type ev) = Some sp \<and> d = details_json (ev_details ev)
     \<and> ev_actor ev = sp_actor sp \<and> ev_entity_type ev = sp_entity sp
     \<and> ev_outcome ev \<in> set (sp_outcomes sp)
     \<and> ev_entity_id ev \<noteq> [] \<and> ev_correlation ev \<noteq> [] \<and> ev_idem_key ev \<noteq> []
     \<and> (ev_actor ev = ActorOwner \<longrightarrow> ev_owner_id ev \<noteq> [])
     \<and> (sp_scope sp \<in> {''workspace'', ''target_account'', ''retention''} \<longrightarrow> ev_scope_id ev \<noteq> [])
     \<and> (sp_scope sp = owner_security_scope \<longrightarrow> ev_owner_id ev \<noteq> [])
     \<and> length (ev_source_fp ev) \<in> {0, 32}
     \<and> details_ok (ev_type ev) (sp_details sp) (ev_details ev)"
  unfolding validate_def by (cases "registry (ev_type ev)") auto

section \<open>Laws of the stable key\<close>

lemma be32_length [simp]: "length (be32 n) = 4"
  by (simp add: be32_def)

lemma be32_inj:
  assumes "be32 m = be32 n" and "m < 2 ^ 32" and "n < 2 ^ 32"
  shows "m = n"
proof -
  have d: "k div 65536 = k div 256 div 256" "k div 16777216 = k div 256 div 256 div 256" for k :: nat
    by (simp_all add: div_mult2_eq [symmetric])
  have "k mod 256 = l mod 256" if "char_of k = (char_of l :: char)" for k l :: nat
    using that by simp
  then have q3: "m div 256 div 256 div 256 mod 256 = n div 256 div 256 div 256 mod 256"
    and q2: "m div 256 div 256 mod 256 = n div 256 div 256 mod 256"
    and q1: "m div 256 mod 256 = n div 256 mod 256" and q0: "m mod 256 = n mod 256"
    using assms(1) by (simp_all add: be32_def d)
  have "m div 256 div 256 div 256 < 256" "n div 256 div 256 div 256 < 256"
    using assms(2,3) by (simp_all add: div_mult2_eq [symmetric] less_mult_imp_div_less)
  with q3 have "m div 256 div 256 div 256 = n div 256 div 256 div 256" by simp
  with q2 have "m div 256 div 256 = n div 256 div 256" by (metis mult_div_mod_eq)
  with q1 have "m div 256 = n div 256" by (metis mult_div_mod_eq)
  with q0 show ?thesis by (metis mult_div_mod_eq)
qed

lemma write_field_append_inj:
  assumes "write_field u @ r = write_field v @ s"
    and "length u < 2 ^ 32" and "length v < 2 ^ 32"
  shows "u = v" and "r = s"
proof -
  have "be32 (length u) = be32 (length v)" and rest: "u @ r = v @ s"
    using assms by (simp_all add: write_field_def)
  then have "length u = length v"
    using assms(2,3) by (intro be32_inj)
  with rest show "u = v" and "r = s" by auto
qed

lemma write_field_nonempty [simp]: "write_field v \<noteq> []" "[] \<noteq> write_field v"
  by (metis append_is_Nil_conv be32_length list.size(3) write_field_def zero_neq_numeral)+

definition key_fields_short :: "event \<Rightarrow> bool" where
  "key_fields_short ev \<longleftrightarrow>
     list_all (\<lambda>v. length v < 2 ^ 32)
       [event_name (ev_type ev), ev_owner_id ev, ev_idem_key ev, ev_scope_id ev]"

text \<open>
  C15: the stable audit key hashes an unambiguous encoding.  Two events whose key
  pre-images agree have the same event type name, owner, idempotency key and retention
  scope, whatever bytes those fields hold (each shorter than 4 GiB): no choice of field
  contents can move bytes from one field into another, so distinct audit facts collide
  only if SHA-256 does.
\<close>

theorem stable_preimage_injective:
  assumes eq: "stable_preimage a = stable_preimage b"
    and a: "key_fields_short a" and b: "key_fields_short b"
  shows "event_name (ev_type a) = event_name (ev_type b) \<and> ev_owner_id a = ev_owner_id b
    \<and> ev_idem_key a = ev_idem_key b \<and> ev_scope_id a = ev_scope_id b"
proof -
  let ?tail = "\<lambda>e. if ev_scope_id e \<noteq> [] then write_field (ev_scope_id e) else []"
  have "write_field (event_name (ev_type a)) @ write_field (ev_owner_id a) @ write_field (ev_idem_key a) @ ?tail a
      = write_field (event_name (ev_type b)) @ write_field (ev_owner_id b) @ write_field (ev_idem_key b) @ ?tail b"
    using eq by (simp add: stable_preimage_def split del: if_split)
  moreover have "length (event_name (ev_type a)) < 2 ^ 32" "length (event_name (ev_type b)) < 2 ^ 32"
    "length (ev_owner_id a) < 2 ^ 32" "length (ev_owner_id b) < 2 ^ 32"
    "length (ev_idem_key a) < 2 ^ 32" "length (ev_idem_key b) < 2 ^ 32"
    "length (ev_scope_id a) < 2 ^ 32" "length (ev_scope_id b) < 2 ^ 32"
    using a b by (simp_all add: key_fields_short_def)
  ultimately have "event_name (ev_type a) = event_name (ev_type b)" "ev_owner_id a = ev_owner_id b"
    "ev_idem_key a = ev_idem_key b" and tl: "?tail a = ?tail b"
    by (blast dest: write_field_append_inj)+
  moreover have "ev_scope_id a = ev_scope_id b"
    using tl write_field_append_inj(1) [of "ev_scope_id a" "[]" "ev_scope_id b" "[]"] a b
    by (cases "ev_scope_id a = []"; cases "ev_scope_id b = []") (simp_all add: key_fields_short_def)
  ultimately show ?thesis by simp
qed

definition sample_event :: event where
  "sample_event =
     \<lparr>ev_type = TaskStarted, ev_actor = ActorSystem, ev_owner_id = [], ev_scope_id = ''w1'',
      ev_entity_type = ''task'', ev_entity_id = ''t1'', ev_outcome = OutcomeSucceeded,
      ev_correlation = ''c1'', ev_source_fp = [],
      ev_details = TaskDetails 1 ''started'' ''before_platform_request'' ''direct'' [] [] [],
      ev_idem_key = ''t1:task.started:1'', ev_occurred_at = zero_time\<rparr>"

theorem stable_preimage_injective_witness:
  "key_fields_short sample_event
   \<and> stable_preimage sample_event = stable_preimage (sample_event\<lparr>ev_correlation := ''c2''\<rparr>)
   \<and> ev_scope_id sample_event = ev_scope_id (sample_event\<lparr>ev_correlation := ''c2''\<rparr>)"
proof -
  let ?b = "sample_event\<lparr>ev_correlation := ''c2''\<rparr>"
  have s: "key_fields_short sample_event" and s': "key_fields_short ?b"
    by (simp_all add: key_fields_short_def sample_event_def)
  have e: "stable_preimage sample_event = stable_preimage ?b"
    by (simp add: stable_preimage_def)
  show ?thesis
    using s e stable_preimage_injective [OF e s s'] by blast
qed

lemma validate_sample:
  "validate sample_event = Inr (details_json (ev_details sample_event), the (registry TaskStarted))"
  by (simp add: validate_Inr sample_event_def spec_of_def details_ok_def valid_task_route_def
      owner_security_scope_def)

section \<open>Laws of Write\<close>

lemma find_append: "find P (xs @ ys) = (case find P xs of None \<Rightarrow> find P ys | Some x \<Rightarrow> Some x)"
  by (induction xs) auto

definition audit_keys_unique :: "'z audit_db_scheme \<Rightarrow> bool" where
  "audit_keys_unique db \<longleftrightarrow> distinct (map au_key (audit_events db))"

lemma audit_write_cases:
  assumes "audit_write H flt gid now ev db = Inr (i, db')"
  obtains (fresh) d sp where "validate ev = Inr (d, sp)" and "i = gid"
      and "stable_key H ev \<notin> au_key ` set (audit_events db)"
      and "db' = db\<lparr>audit_events := audit_events db @ [event_row H gid now ev d sp]\<rparr>"
    | (replay) r d sp where "validate ev = Inr (d, sp)" and "r \<in> set (audit_events db)" and "i = au_id r"
      and "same_conclusion (event_row H gid now ev d sp) r" and "db' = db"
proof -
  obtain d sp where v: "validate ev = Inr (d, sp)"
    using assms by (cases "validate ev") (auto simp: audit_write_def)
  let ?row = "event_row H gid now ev d sp"
  have key: "au_key ?row = stable_key H ev" by (simp add: event_row_def Let_def)
  show thesis
  proof (cases "list_all (\<lambda>r. au_key r \<noteq> stable_key H ev) (audit_events db)")
    case True
    with assms show thesis
      by (intro fresh [OF v])
         (auto simp: audit_write_def v Let_def key list_all_iff image_iff split: if_splits)
  next
    case False
    with assms obtain r where "find (same_conclusion ?row) (audit_events db) = Some r"
      and "i = au_id r" and "db' = db"
      by (auto simp: audit_write_def v Let_def key split: if_splits option.splits)
    then show thesis
      using v by (intro replay) (auto simp: find_Some_iff)
  qed
qed

lemma audit_write_ok_event:
  "audit_write H flt gid now ev db = Inr (i, db') \<Longrightarrow> \<exists>d sp. validate ev = Inr (d, sp)"
  by (auto elim: audit_write_cases)

lemma audit_write_frame:
  "audit_write H flt gid now ev db = Inr (i, db') \<Longrightarrow>
     \<exists>es. db' = db\<lparr>audit_events := audit_events db @ es\<rparr> \<and> length es \<le> 1"
  by (erule audit_write_cases) (force, intro exI [of _ "[]"], simp)

lemma audit_write_more:
  "audit_write H flt gid now ev db = Inr (i, db') \<Longrightarrow> more db' = more db"
  by (erule audit_write_cases) simp_all

lemma event_row_key [simp]: "au_key (event_row H gid now ev d sp) = stable_key H ev"
  by (simp add: event_row_def Let_def)

lemma audit_write_keys_unique:
  assumes "audit_write H flt gid now ev db = Inr (i, db')" and "audit_keys_unique db"
  shows "audit_keys_unique db'"
  using assms(1)
proof (cases rule: audit_write_cases)
  case (fresh d sp)
  with assms(2) show ?thesis by (auto simp: audit_keys_unique_def)
next
  case (replay r d sp)
  with assms(2) show ?thesis by simp
qed

lemma same_conclusion_refl [simp]: "same_conclusion r r"
  by (simp add: same_conclusion_def)

lemma same_conclusion_event_row [simp]:
  "same_conclusion (event_row H g t ev d sp) (event_row H g' t' ev d sp)"
  by (simp add: same_conclusion_def event_row_def Let_def)

text \<open>
  an audit write is idempotent and append-only.  After a successful write, writing the
  same event again (later, with another row identifier on offer, the driver accepting the
  statements) succeeds, returns the identifier of the stored row and leaves the journal as
  it is; and the first write kept every earlier row in place, adding at most one.
\<close>

theorem audit_write_idempotent:
  assumes "audit_write H flt gid now ev db = Inr (i, db1)" and "audit_keys_unique db"
    and "\<not> flt' 0" and "\<not> flt' 1"
  shows "audit_write H flt' gid' now' ev db1 = Inr (i, db1)
    \<and> take (length (audit_events db)) (audit_events db1) = audit_events db
    \<and> length (audit_events db1) \<le> Suc (length (audit_events db))"
  using assms(1)
proof (cases rule: audit_write_cases)
  case (fresh d sp)
  let ?es = "audit_events db" and ?row = "event_row H gid now ev d sp"
  have "find (same_conclusion (event_row H gid' now' ev d sp)) ?es = None"
    using fresh(3) by (force simp: find_None_iff same_conclusion_def event_row_def Let_def)
  then have "find (same_conclusion (event_row H gid' now' ev d sp)) (?es @ [?row]) = Some ?row"
    by (simp add: find_append)
  then have "audit_write H flt' gid' now' ev db1 = Inr (gid, db1)"
    using fresh assms(3,4) by (auto simp: audit_write_def Let_def) (simp add: event_row_def Let_def)
  with fresh show ?thesis by simp
next
  case (replay r d sp)
  let ?row = "event_row H gid' now' ev d sp"
  have r: "same_conclusion ?row r"
    using replay(4) by (simp add: same_conclusion_def event_row_def Let_def)
  then have key: "au_key r = stable_key H ev" by (simp add: same_conclusion_def)
  have one: "s = r" if "s \<in> set (audit_events db)" "same_conclusion ?row s" for s
  proof -
    have "au_key s = au_key r" using that(2) key by (simp add: same_conclusion_def)
    then show ?thesis
      using assms(2) that(1) replay(2) by (auto simp: audit_keys_unique_def distinct_map dest: inj_onD)
  qed
  have "find (same_conclusion ?row) (audit_events db) = Some r"
    using one r replay(2)
    by (metis find_None_iff find_Some_iff not_Some_eq nth_mem)
  then show ?thesis
    using replay key assms(3,4) by (auto simp: audit_write_def Let_def list_all_iff) 
qed

theorem audit_write_idempotent_witness:
  "audit_write (\<lambda>s. s) (\<lambda>_. False) ''b'' 7 sample_event
     \<lparr>audit_events = [event_row (\<lambda>s. s) ''a'' 5 sample_event (details_json (ev_details sample_event))
        (the (registry TaskStarted))]\<rparr>
   = Inr (''a'', \<lparr>audit_events = [event_row (\<lambda>s. s) ''a'' 5 sample_event
        (details_json (ev_details sample_event)) (the (registry TaskStarted))]\<rparr>)"
proof -
  have v: "validate sample_event = Inr (details_json (ev_details sample_event), the (registry TaskStarted))"
    by (rule validate_sample)
  have "audit_write (\<lambda>s. s) (\<lambda>_. False) ''a'' 5 sample_event \<lparr>audit_events = []\<rparr>
    = Inr (''a'', \<lparr>audit_events = [event_row (\<lambda>s. s) ''a'' 5 sample_event
        (details_json (ev_details sample_event)) (the (registry TaskStarted))]\<rparr>)"
    by (simp add: audit_write_def v Let_def)
  from audit_write_idempotent [OF this, of "\<lambda>_. False" "''b''" 7]
  show ?thesis by (simp add: audit_keys_unique_def)
qed

text \<open>
  a stored audit key is never reused for another conclusion.  Writing a valid event
  whose key is already stored with a different conclusion fails with the idempotency
  conflict, and no error of Write adds, changes or removes a row.
\<close>

theorem audit_write_conflict:
  assumes "validate ev = Inr (d, sp)" and "r \<in> set (audit_events db)"
    and "audit_keys_unique db" and "au_key r = stable_key H ev"
    and "\<not> same_conclusion (event_row H gid now ev d sp) r" and "\<not> flt 0" and "\<not> flt 1"
  shows "run_tx (audit_write H flt gid now ev) db = (Inl AuditConflict, db)"
proof -
  have "\<not> same_conclusion (event_row H gid now ev d sp) s" if "s \<in> set (audit_events db)" for s
  proof
    assume c: "same_conclusion (event_row H gid now ev d sp) s"
    then have "au_key s = au_key r" using assms(4) by (simp add: same_conclusion_def)
    then have "s = r"
      using assms(2,3) that by (auto simp: audit_keys_unique_def distinct_map dest: inj_onD)
    with c assms(5) show False by simp
  qed
  then have "find (same_conclusion (event_row H gid now ev d sp)) (audit_events db) = None"
    by (simp add: find_None_iff)
  moreover have "\<not> list_all (\<lambda>q. au_key q \<noteq> stable_key H ev) (audit_events db)"
    using assms(2,4) by (auto simp: list_all_iff)
  ultimately show ?thesis
    using assms(1,6,7) by (simp add: run_tx_def audit_write_def Let_def)
qed

theorem audit_write_conflict_witness:
  "\<exists>r (db :: audit_db). audit_events db = [r] \<and>
     run_tx (audit_write (\<lambda>s. s) (\<lambda>_. False) ''b'' 7 sample_event) db = (Inl AuditConflict, db)"
proof -
  let ?d = "details_json (ev_details sample_event)" and ?sp = "the (registry TaskStarted)"
  have v: "validate sample_event = Inr (?d, ?sp)"
    by (rule validate_sample)
  let ?r = "(event_row (\<lambda>s. s) ''a'' 5 sample_event ?d ?sp)\<lparr>au_outcome := OutcomeFailed\<rparr>"
  have k: "au_key ?r = stable_key (\<lambda>s. s) sample_event"
    by (simp add: event_row_def Let_def)
  have n: "\<not> same_conclusion (event_row (\<lambda>s. s) ''b'' 7 sample_event ?d ?sp) ?r"
    by (simp add: same_conclusion_def event_row_def Let_def sample_event_def)
  have "run_tx (audit_write (\<lambda>s. s) (\<lambda>_. False) ''b'' 7 sample_event) \<lparr>audit_events = [?r]\<rparr>
    = (Inl AuditConflict, \<lparr>audit_events = [?r]\<rparr>)"
    by (rule audit_write_conflict [OF v, of ?r]) (use k n in \<open>simp_all add: audit_keys_unique_def\<close>)
  then show ?thesis
    by (intro exI [of _ ?r] exI [of _ "\<lparr>audit_events = [?r]\<rparr>"] conjI) (rule audit_db.select_convs(1))
qed

text \<open>
  The export and filter vocabulary is the registry.  A string is a registered event
  type exactly when it is the name of an event type with a registry entry, and every row
  that Write stores for an event with a workspace, target account, retention or owner
  scope names a non-empty retention scope.
\<close>

theorem registered_names_and_scopes:
  "(is_registered_event_type v \<longleftrightarrow> (\<exists>e. registry e \<noteq> None \<and> event_name e = v))
   \<and> (validate ev = Inr (d, sp) \<and> sp_scope sp \<noteq> ''card''
      \<longrightarrow> au_scope_id (event_row H gid now ev d sp) \<noteq> [])"
proof -
  have "sp_scope sp \<in> {''workspace'', ''target_account'', ''retention'', owner_security_scope, ''card''}"
    if "registry e = Some sp" for e
    using that by (cases e) (auto simp: spec_of_def)
  then have "au_scope_id (event_row H gid now ev d sp) \<noteq> []"
    if "validate ev = Inr (d, sp)" and "sp_scope sp \<noteq> ''card''"
    using that by (auto simp: validate_Inr event_row_def Let_def)
  moreover have "is_registered_event_type v \<longleftrightarrow> (\<exists>e. registry e \<noteq> None \<and> event_name e = v)"
    unfolding is_registered_event_type_def list_ex_iff registered_iff by blast
  ultimately show ?thesis by blast
qed

theorem registered_names_and_scopes_witness:
  "validate sample_event = Inr (details_json (ev_details sample_event), the (registry TaskStarted))
   \<and> au_scope_id (event_row (\<lambda>s. s) ''a'' 5 sample_event (details_json (ev_details sample_event))
       (the (registry TaskStarted))) \<noteq> []"
proof -
  have v: "validate sample_event = Inr (details_json (ev_details sample_event), the (registry TaskStarted))"
    by (rule validate_sample)
  moreover have "sp_scope (the (registry TaskStarted)) \<noteq> ''card''"
    by (simp add: spec_of_def)
  ultimately show ?thesis
    using registered_names_and_scopes [of "[]" sample_event] by blast
qed

end
