(* ===== verification/TaskLaws.thy ===== *)
theory TaskLaws
  imports TaskStore AuditLaws
begin

text \<open>
  The laws of the task queue.  \<open>safe\<close> is what every transaction of the store promises:
  the table constraints hold afterwards, a settled task is never touched again, tasks and
  attempts are never lost, attempt counters never go down, and the audit journal only
  grows.  It is a preorder, so the promise of a call follows from that of its statements.
  The locale \<open>publisher\<close> is the contract of the publication callbacks, and
  \<open>lease_guarded\<close> that of the operations that work under a lease.
\<close>

section \<open>Safe transitions\<close>

definition attempts_ok :: "'z store_db_scheme \<Rightarrow> bool" where
  "attempts_ok db \<longleftrightarrow>
     distinct (map (\<lambda>a. (at_task a, at_no a)) (task_attempts db))
     \<and> (\<forall>a\<in>set (task_attempts db). \<exists>t\<in>set (tasks db). tk_id t = at_task a \<and> at_no a \<le> tk_attempts t)"

text \<open>A settled row changes at most in its time stamp and in the notes of a reclaim.\<close>

definition settled_same :: "task_row \<Rightarrow> task_row \<Rightarrow> bool" where
  "settled_same t u \<longleftrightarrow> u = t\<lparr>tk_updated_at := tk_updated_at u, tk_reclaim_tier := tk_reclaim_tier u,
     tk_reclaim_result := tk_reclaim_result u, tk_reclaim_probe := tk_reclaim_probe u,
     tk_reclaim_http := tk_reclaim_http u,
     tk_reclaim_stage := tk_reclaim_stage u\<rparr>"

text \<open>
  A waiting task without attempts left; the delivery tasks are left out, since the end of a
  batch interrupts those.
\<close>

definition spent :: "task_row \<Rightarrow> bool" where
  "spent t \<longleftrightarrow> (tk_status t = Queued \<or> tk_status t = RetryWait) \<and> tk_max_attempts t \<le> tk_attempts t
     \<and> \<not> delivery_type (tk_type t)"

lemma running_unspent [simp]: "tk_status t = Running \<Longrightarrow> \<not> spent t"
  by (simp add: spent_def)

lemma delivery_unspent [simp]: "delivery_type (tk_type t) \<Longrightarrow> \<not> spent t"
  by (simp add: spent_def)

definition row_follows :: "task_row \<Rightarrow> task_row \<Rightarrow> bool" where
  "row_follows t u \<longleftrightarrow> tk_id u = tk_id t \<and> tk_type u = tk_type t \<and> tk_dedupe u = tk_dedupe t
     \<and> tk_op_target u = tk_op_target t \<and> tk_max_attempts u = tk_max_attempts t
     \<and> (spent t \<longrightarrow> tk_status u = tk_status t) \<and> tk_attempts t \<le> tk_attempts u \<and> tk_version t \<le> tk_version u
     \<and> (terminal (tk_status t) \<longrightarrow> settled_same t u)"

definition tasks_follow :: "task_row list \<Rightarrow> task_row list \<Rightarrow> bool" where
  "tasks_follow ts us \<longleftrightarrow> (\<forall>t\<in>set ts. \<exists>u\<in>set us. row_follows t u)"

definition journal_extends :: "'z store_db_scheme \<Rightarrow> 'z store_db_scheme \<Rightarrow> bool" where
  "journal_extends db db' \<longleftrightarrow>
     (\<exists>es. audit_events db' = audit_events db @ es) \<and> (\<exists>xs. task_attempts db' = task_attempts db @ xs)"

definition queue_ok :: "'z store_db_scheme \<Rightarrow> bool" where
  "queue_ok db \<longleftrightarrow> tasks_ok db \<and> attempts_ok db"

definition safe :: "'z store_db_scheme \<Rightarrow> 'z store_db_scheme \<Rightarrow> bool" where
  "safe db db' \<longleftrightarrow> journal_extends db db'
     \<and> (queue_ok db \<longrightarrow> queue_ok db' \<and> tasks_follow (tasks db) (tasks db'))"

abbreviation safe_tx :: "('e, 'z store_db_scheme, 'a) tx \<Rightarrow> bool" where
  "safe_tx \<equiv> keeps safe"


lemma settled_same_refl [simp]: "settled_same t t"
  by (simp add: settled_same_def)

lemma row_follows_refl [simp]: "row_follows t t"
  by (simp add: row_follows_def)

lemma settled_same_trans: "settled_same t u \<Longrightarrow> settled_same u v \<Longrightarrow> settled_same t v"
  unfolding settled_same_def by (cases t, cases u, cases v) simp

lemma settled_same_status: "settled_same t u \<Longrightarrow> tk_status u = tk_status t"
  unfolding settled_same_def by (cases t, cases u) simp

lemma row_follows_trans: "row_follows t u \<Longrightarrow> row_follows u v \<Longrightarrow> row_follows t v"
  unfolding row_follows_def spent_def
  by (auto dest: settled_same_status intro: settled_same_trans)

lemma tasks_follow_refl [simp]: "tasks_follow ts ts"
  by (auto simp: tasks_follow_def intro: row_follows_refl)

lemma tasks_follow_trans: "tasks_follow a b \<Longrightarrow> tasks_follow b c \<Longrightarrow> tasks_follow a c"
  unfolding tasks_follow_def by (meson row_follows_trans)

lemma journal_extends_refl [simp]: "journal_extends db db"
  by (simp add: journal_extends_def)

lemma journal_extends_trans: "journal_extends a b \<Longrightarrow> journal_extends b c \<Longrightarrow> journal_extends a c"
  by (auto simp: journal_extends_def)

lemma safe_refl [simp]: "safe db db"
  by (simp add: safe_def)

lemma safe_trans: "safe a b \<Longrightarrow> safe b c \<Longrightarrow> safe a c"
  unfolding safe_def by (meson journal_extends_trans tasks_follow_trans)

interpretation safety: transition_order safe
  by unfold_locales (auto intro: safe_trans)

lemma safe_same_queue:
  "tasks db' = tasks db \<Longrightarrow> task_attempts db' = task_attempts db \<Longrightarrow>
   \<exists>es. audit_events db' = audit_events db @ es \<Longrightarrow> safe db db'"
  by (simp add: safe_def journal_extends_def queue_ok_def tasks_ok_def attempts_ok_def)

lemma write_audit_Inr:
  "write_audit H flt k gid now ev db = Inr (i, db') \<Longrightarrow>
     \<exists>es. db' = db\<lparr>audit_events := audit_events db @ es\<rparr>"
  unfolding write_audit_def lift_audit_Inr using audit_write_frame by blast

lemma safe_tx_audit: "safe_tx (write_audit H flt k gid now ev)"
  unfolding keeps_def by (auto dest!: write_audit_Inr intro!: safe_same_queue)

lemmas safe_run_tx = safety.keeps_run
lemmas safe_in_tx = safety.keeps_in_tx
lemmas safe_tx_stmt = safety.keeps_stmt

text \<open>
  Updating rows that are not settled, by a change that keeps the row constraints and the
  identity of the task, is safe.
\<close>

definition row_step :: "(task_row \<Rightarrow> task_row) \<Rightarrow> task_row \<Rightarrow> bool" where
  "row_step f t \<longleftrightarrow> (task_ok t \<longrightarrow> task_ok (f t)
       \<and> (terminal (tk_status t) \<longrightarrow> settled_same t (f t))) \<and> tk_id (f t) = tk_id t
     \<and> tk_type (f t) = tk_type t \<and> tk_dedupe (f t) = tk_dedupe t
     \<and> tk_op_target (f t) = tk_op_target t \<and> tk_max_attempts (f t) = tk_max_attempts t
     \<and> (spent t \<longrightarrow> tk_status (f t) = tk_status t) \<and> tk_attempts t \<le> tk_attempts (f t) \<and> tk_version t \<le> tk_version (f t)"

lemma safe_update:
  assumes step: "\<And>t. t \<in> set (tasks db) \<Longrightarrow> P t \<Longrightarrow> row_step f t"
  shows "safe db (db\<lparr>tasks := update_where P f (tasks db)\<rparr>)"
proof -
  let ?us = "update_where P f (tasks db)"
  have keep: "map g ?us = map g (tasks db)" if "\<And>t. t \<in> set (tasks db) \<Longrightarrow> P t \<Longrightarrow> g (f t) = g t"
    for g :: "task_row \<Rightarrow> 'k"
    unfolding update_where_def using that by auto
  have follow: "tasks_follow (tasks db) ?us" if "list_all task_ok (tasks db)"
  proof -
    have "row_follows t (if P t then f t else t)" if "t \<in> set (tasks db)" for t
      using step [OF that] \<open>list_all task_ok (tasks db)\<close> that
      by (auto simp: row_follows_def row_step_def list_all_iff)
    moreover have "(if P t then f t else t) \<in> set ?us" if "t \<in> set (tasks db)" for t
      using that by (auto simp: update_where_def)
    ultimately show ?thesis unfolding tasks_follow_def by (intro ballI bexI)
  qed
  moreover have "tasks_ok (db\<lparr>tasks := ?us\<rparr>)" if ok: "tasks_ok db"
  proof -
    have "map tk_id ?us = map tk_id (tasks db)"
      by (rule keep) (auto dest: step simp: row_step_def)
    moreover have "map (\<lambda>t. (tk_type t, tk_dedupe t)) ?us = map (\<lambda>t. (tk_type t, tk_dedupe t)) (tasks db)"
      by (rule keep) (auto dest: step simp: row_step_def)
    moreover have "list_all task_ok ?us"
      using step ok by (auto simp: list_all_iff in_update_where tasks_ok_def row_step_def)
    ultimately show ?thesis using ok by (simp add: tasks_ok_def)
  qed
  moreover have "attempts_ok (db\<lparr>tasks := ?us\<rparr>)" if "attempts_ok db" "tasks_follow (tasks db) ?us"
    using that by (fastforce simp: attempts_ok_def tasks_follow_def row_follows_def)
  ultimately show ?thesis
    by (auto simp: safe_def queue_ok_def journal_extends_def tasks_ok_def)
qed

lemma safe_tx_update_one:
  assumes "\<And>t. P t \<Longrightarrow> row_step f t"
  shows "safe_tx (update_one P f)"
  unfolding keeps_def update_one_def exactly_one_Inr using assms by (auto intro!: safe_update)

lemma fenced_running: "fenced i tok now t \<Longrightarrow> tk_status t = Running"
  by (simp add: fenced_def)

lemma fenced_unsettled: "fenced i tok now t \<Longrightarrow> \<not> terminal (tk_status t)"
    and fenced_unspent: "fenced i tok now t \<Longrightarrow> \<not> spent t"
  by (simp_all add: fenced_def terminal_def spent_def)

lemma released_step:
  assumes "terminal st" and "\<not> terminal (tk_status t)" and "\<not> spent t"
  shows "row_step (released st now) t"
  using assms
  by (auto simp: row_step_def released_def task_ok_def task_subject_ok_def terminal_def Let_def
      split: task_type.splits)

lemma renewed_step:
  assumes "tk_status t = Running"
  shows "row_step (\<lambda>t. t\<lparr>tk_lease_expires := Some e, tk_updated_at := now, tk_version := tk_version t + 1\<rparr>) t"
  using assms
  by (auto simp: row_step_def spent_def task_ok_def task_subject_ok_def terminal_def Let_def split: task_type.splits)

lemma terminal_simps [simp]:
  "terminal Succeeded" "terminal Failed" "terminal Interrupted"
  "\<not> terminal Running" "\<not> terminal Queued" "\<not> terminal RetryWait"
  by (simp_all add: terminal_def)

lemma leased_step:
  assumes "runnable now t" and "tk_attempts t < tk_max_attempts t"
  shows "row_step (leased w tok now dur) t"
  using assms
  by (auto simp: row_step_def spent_def leased_def task_ok_def task_subject_ok_def runnable_def Let_def
      split: task_type.splits)

lemma terminal_status_terminal: "terminal_status s = Some st \<Longrightarrow> terminal st"
  by (auto simp: terminal_status_def split: if_splits)

lemmas safe_intros =
  safety.keeps_bind safety.keeps_return safety.keeps_fail safety.keeps_stmt safety.keeps_select safe_tx_audit safe_tx_update_one released_step

section \<open>Claims\<close>

lemma take_lease_Inr:
  assumes "take_lease lk tok w dur now ty db = Inr (item, db1)"
  obtains t where "t \<in> set (tasks db)" and "candidate db now lk ty t"
    and "\<And>u. u \<in> set (tasks db) \<Longrightarrow> candidate db now lk ty u \<Longrightarrow> claim_order t \<le> claim_order u"
    and "item = returned_item (leased w tok now dur t)"
    and "db1 = db\<lparr>tasks := update_where (\<lambda>r. tk_id r = tk_id t) (leased w tok now dur) (tasks db)\<rparr>"
proof -
  obtain t where t: "first_by claim_order (filter (candidate db now lk ty) (tasks db)) = Some t"
    and r: "item = returned_item (leased w tok now dur t)"
      "db1 = db\<lparr>tasks := update_where (\<lambda>r. tk_id r = tk_id t) (leased w tok now dur) (tasks db)\<rparr>"
    using assms by (auto simp: take_lease_def split: option.splits)
  from first_by_Some [OF t] have "t \<in> set (tasks db)" "candidate db now lk ty t"
    "\<And>u. u \<in> set (tasks db) \<Longrightarrow> candidate db now lk ty u \<Longrightarrow> claim_order t \<le> claim_order u"
    by auto
  then show thesis using r by (rule that)
qed

lemma unique_row:
  "tasks_ok db \<Longrightarrow> t \<in> set (tasks db) \<Longrightarrow> u \<in> set (tasks db) \<Longrightarrow> tk_id t = tk_id u \<Longrightarrow> t = u"
  by (auto simp: tasks_ok_def distinct_map dest: inj_onD)

lemma safe_journal: "safe db db' \<Longrightarrow> \<not> queue_ok db \<Longrightarrow> journal_extends db db'"
  by (simp add: safe_def)

lemma safe_row_update:
  assumes "t \<in> set (tasks db)" and "row_step f t"
  shows "safe db (db\<lparr>tasks := update_where (\<lambda>u. tk_id u = tk_id t) f (tasks db)\<rparr>)"
proof (cases "tasks_ok db")
  case True
  have "row_step f u" if "u \<in> set (tasks db)" "tk_id u = tk_id t" for u
    using unique_row [OF True that(1) assms(1) that(2)] assms(2) by simp
  then show ?thesis by (intro safe_update) auto
next
  case False
  then show ?thesis by (simp add: safe_def queue_ok_def journal_extends_def)
qed

lemma take_lease_safe: "safe_tx (take_lease lk tok w dur now ty)"
  unfolding keeps_def
proof (intro allI impI)
  fix db :: "'z store_db_scheme" and item db1
  assume "take_lease lk tok w dur now ty db = Inr (item, db1)"
  then obtain t where t: "t \<in> set (tasks db)" "candidate db now lk ty t"
    and db1: "db1 = db\<lparr>tasks := update_where (\<lambda>r. tk_id r = tk_id t) (leased w tok now dur) (tasks db)\<rparr>"
    by (rule take_lease_Inr) auto
  show "safe db db1"
    unfolding db1 using t by (intro safe_row_update) (auto simp: candidate_def intro: leased_step)
qed

text \<open>
  What a lease gives the next statement: the item is the leased row of the new state, its
  attempt number is above that of every recorded attempt of the task.
\<close>

lemma take_lease_item:
  assumes "take_lease lk tok w dur now ty db = Inr (item, db1)"
  obtains t where "t \<in> set (tasks db1)" and "item = returned_item t" and "tk_lease_token t = Some tok"
    and "task_attempts db1 = task_attempts db"
    and "queue_ok db \<Longrightarrow>
      \<forall>a\<in>set (task_attempts db). at_task a = tk_id t \<longrightarrow> at_no a < tk_attempts t"
proof -
  obtain t where t: "t \<in> set (tasks db)" "item = returned_item (leased w tok now dur t)"
    and db1: "db1 = db\<lparr>tasks := update_where (\<lambda>r. tk_id r = tk_id t) (leased w tok now dur) (tasks db)\<rparr>"
    using assms by (rule take_lease_Inr) auto
  let ?u = "leased w tok now dur t"
  have "?u \<in> set (tasks db1)" using t(1) by (auto simp: db1 in_update_where)
  moreover have "at_no a < tk_attempts ?u"
    if ok: "queue_ok db" and a: "a \<in> set (task_attempts db)" "at_task a = tk_id ?u" for a
  proof -
    obtain s where s: "s \<in> set (tasks db)" "tk_id s = at_task a" "at_no a \<le> tk_attempts s"
      using ok a(1) by (auto simp: queue_ok_def attempts_ok_def)
    have "s = t" using ok s a t(1) by (intro unique_row [of db]) (auto simp: queue_ok_def leased_def)
    with s show ?thesis by (simp add: leased_def)
  qed
  ultimately show thesis
    using t(2) by (intro that [of ?u]) (simp_all add: db1 leased_def)
qed

lemma insert_attempt_Inr:
  assumes "insert_attempt item route db = Inr (x, db1)"
  obtains a where "db1 = db\<lparr>task_attempts := task_attempts db @ [a]\<rparr>" and "attempt_insertable db a"
    and "at_task a = it_id item" and "at_no a = it_attempt item" and "at_token a = it_token item"
  using assms by (auto simp: insert_attempt_def Let_def split: if_splits)

lemma insert_attempt_safe:
  assumes "insert_attempt (returned_item t) route db = Inr (x, db1)" and "t \<in> set (tasks db)"
  shows "safe db db1"
proof -
  obtain a where db1: "db1 = db\<lparr>task_attempts := task_attempts db @ [a]\<rparr>"
    and ins: "attempt_insertable db a" and a: "at_task a = tk_id t" "at_no a = tk_attempts t"
    using assms(1) by (rule insert_attempt_Inr) (auto simp: returned_item_def)
  have "attempts_ok db1" if "attempts_ok db"
    using that ins a assms(2)
    by (auto simp: db1 attempts_ok_def attempt_insertable_def list_all_iff)
  then show ?thesis
    by (auto simp: db1 safe_def queue_ok_def tasks_ok_def journal_extends_def)
qed

lemma lease_and_attempt_safe:
  "safe_tx (tx_bind (stmt flt 1 (take_lease lk tok w dur now ty))
     (\<lambda>item. tx_bind (stmt flt 2 (insert_attempt item route))
     (\<lambda>_. tx_bind (write_audit H flt 3 gid now (start_event ty item route)) (\<lambda>_. tx_return item))))"
  unfolding keeps_def tx_bind_Inr stmt_Inr tx_return_Inr
proof (intro allI impI, elim exE conjE)
  fix db :: "'z store_db_scheme" and y db' item db1 u db2 v db3
  assume a: "take_lease lk tok w dur now ty db = Inr (item, db1)"
    and b: "insert_attempt item route db1 = Inr (u, db2)"
    and c: "write_audit H flt 3 gid now (start_event ty item route) db2 = Inr (v, db3)"
    and d: "db3 = db'"
  obtain t where "t \<in> set (tasks db1)" "item = returned_item t"
    using a by (rule take_lease_item) auto
  with b have "safe db1 db2" by (auto intro: insert_attempt_safe)
  moreover have "safe db db1" using take_lease_safe a unfolding keeps_def by blast
  moreover have "safe db2 db'" using safe_tx_audit c d unfolding keeps_def by blast
  ultimately show "safe db db'" using safe_trans by blast
qed

section \<open>Every operation is safe\<close>

lemma claim_safe: "safe db (snd (claim H flt lk tok gid now w dur ty route db))"
  unfolding claim_def by (intro safe_in_tx lease_and_attempt_safe)

lemma claim_delivery_safe: "safe db (snd (claim_delivery H flt lk tok gid now w dur ty route db))"
  by (simp add: claim_delivery_def claim_safe)

lemma claim_rejected_safe: "safe db (snd (claim_rejected flt lk tok now w dur ty db))"
  unfolding claim_rejected_def by (intro safe_run_tx safe_tx_stmt take_lease_safe)

lemma renew_safe: "safe db (snd (renew flt now i tok dur db))"
  unfolding renew_def
  by (intro safe_run_tx safe_tx_stmt safe_tx_update_one renewed_step) (rule fenced_running)

lemma settle_safe: "safe db (snd (settle H flt gid now item status ety oc code stage db))"
proof (cases "terminal_status status")
  case None
  then show ?thesis by (simp add: settle_def)
next
  case (Some st)
  then show ?thesis
    by (auto simp: settle_def intro!: safe_in_tx safe_intros terminal_status_terminal dest: fenced_unsettled fenced_unspent)
qed

lemma record_interruption_safe: "safe db (snd (record_interruption H flt gid now item code stage db))"
  unfolding record_interruption_def by (intro safe_in_tx safe_intros)

text \<open>The contract of a publication callback: it leaves the queue alone.\<close>

locale publisher =
  fixes publish :: "string \<Rightarrow> (store_error, 'z store_db_scheme, unit) tx"
  assumes publish_safe: "safe_tx (publish subject)"
begin

lemma complete_task_safe: "safe db (snd (complete_task H flt gid now item code stage publish db))"
  unfolding complete_task_def
  by (intro safe_in_tx safe_intros publish_safe) (auto dest: fenced_unsettled fenced_unspent)

lemma complete_target_probe_safe:
  "safe db (snd (complete_target_probe H flt gid now item publish db))"
  unfolding complete_target_probe_def
  by (intro safe_in_tx safe_intros publish_safe) (auto dest: fenced_unsettled fenced_unspent)

lemma reject_target_probe_safe:
  "safe db (snd (reject_target_probe H flt gid now item code stage publish db))"
  unfolding reject_target_probe_def
  by (intro safe_in_tx safe_intros publish_safe) (auto dest: fenced_unsettled fenced_unspent)

lemma complete_retention_cleanup_safe:
  "safe db (snd (complete_retention_cleanup H flt gid now item (publish []) db))"
  unfolding complete_retention_cleanup_def
  by (intro safe_in_tx safe_intros publish_safe) (auto dest: fenced_unsettled fenced_unspent)

end

text \<open>Queueing appends one row or none.\<close>

lemma append_safe:
  assumes "task_ok r" and "tk_id r \<notin> tk_id ` set (tasks db)" and "\<not> list_ex (same_key r) (tasks db)"
  shows "safe db (db\<lparr>tasks := tasks db @ [r]\<rparr>)"
proof -
  have "tasks_ok (db\<lparr>tasks := tasks db @ [r]\<rparr>)" if "tasks_ok db"
    using assms that by (auto simp: tasks_ok_def list_ex_iff same_key_def)
  moreover have "tasks_follow (tasks db) (tasks db @ [r])"
    by (auto simp: tasks_follow_def intro: row_follows_refl)
  ultimately show ?thesis
    by (auto simp: safe_def queue_ok_def journal_extends_def attempts_ok_def)
qed

lemma create_subject_task_safe:
  assumes "task_ok r" and "tk_id r \<notin> tk_id ` set (tasks db)"
  shows "safe db (snd (create_subject_task subject flt r wanted db))"
  using append_safe [OF assms]
  by (auto simp: create_subject_task_def find_None_iff list_ex_iff split: option.splits)

lemma queued_task_ok:
  "task_ok (queued_task i now WorkspaceRead (Some ws) None d c 3)"
  "task_ok (queued_task i now TargetAccountProbe None (Some tg) d c 3)"
  "task_ok (queued_task i now RetentionCleanup None None d c 5)"
  by (simp_all add: queued_task_def task_ok_def task_subject_ok_def)

lemma queued_task_id [simp]: "tk_id (queued_task i now ty ws tg d c m) = i"
  by (simp add: queued_task_def)

lemma create_workspace_read_safe:
  "i \<notin> tk_id ` set (tasks db) \<Longrightarrow> safe db (snd (create_workspace_read flt i now ws d c db))"
  unfolding create_workspace_read_def by (rule create_subject_task_safe) (simp_all add: queued_task_ok)

lemma create_target_probe_safe:
  "i \<notin> tk_id ` set (tasks db) \<Longrightarrow> safe db (snd (create_target_probe flt i now tg d c db))"
  unfolding create_target_probe_def by (rule create_subject_task_safe) (simp_all add: queued_task_ok)

lemma enqueue_retention_cleanup_safe:
  "i \<notin> tk_id ` set (tasks db) \<Longrightarrow> safe db (snd (enqueue_retention_cleanup flt i now period db))"
  by (auto simp: enqueue_retention_cleanup_def Let_def queued_task_ok intro!: append_safe)

section \<open>Working under a lease\<close>

text \<open>
  The contract of the operations a worker calls while it holds a task: without a running
  row under that token whose lease is still valid, the call fails and changes nothing.
\<close>

locale lease_guarded =
  fixes call :: "string \<Rightarrow> uuid \<Rightarrow> instant \<Rightarrow> 'z store_db_scheme
    \<Rightarrow> (store_error, 'a) result \<times> 'z store_db_scheme"
  assumes no_lease:
    "\<not> list_ex (fenced i tok now) (tasks db) \<Longrightarrow> \<exists>e. call i tok now db = (Inl e, db)"
begin

lemma success_needs_lease:
  assumes "fst (call i tok now db) = Inr x"
  obtains t where "t \<in> set (tasks db)" and "tk_id t = i" and "tk_lease_token t = Some tok"
    and "tk_status t = Running"
proof -
  have "list_ex (fenced i tok now) (tasks db)"
    using no_lease [of i tok now db] assms by fastforce
  then show thesis by (auto simp: list_ex_iff fenced_def intro: that)
qed

lemma expired_lease_fails:
  assumes "\<And>t. t \<in> set (tasks db) \<Longrightarrow> tk_id t = i \<Longrightarrow> expired now t \<or> tk_lease_expires t = None"
  shows "\<exists>e. call i tok now db = (Inl e, db)"
  by (rule no_lease) (use assms in \<open>fastforce simp: list_ex_iff fenced_def expired_def split: option.splits\<close>)

lemma settled_task_fails:
  assumes "\<And>t. t \<in> set (tasks db) \<Longrightarrow> tk_id t = i \<Longrightarrow> terminal (tk_status t)"
  shows "\<exists>e. call i tok now db = (Inl e, db)"
  by (rule no_lease) (use assms in \<open>force simp: list_ex_iff fenced_def\<close>)

end

lemma in_tx_Inl: "stmt flt 0 m db = Inl e \<Longrightarrow> in_tx flt c m db = (Inl e, db)"
  by (auto simp: in_tx_def run_tx_def stmt_def tx_bind_def split: if_splits)

lemma in_tx_first_fails:
  assumes "m db = Inl e"
  shows "\<exists>e'. in_tx flt c (tx_bind (stmt flt k m) f) db = (Inl e', db)"
  by (rule exI, rule in_tx_Inl [of _ _ _ "if flt 0 \<or> flt k then ErrDriver else e"])
     (simp add: stmt_def tx_bind_def assms)

lemma update_one_none:
  "\<not> list_ex P (tasks db) \<Longrightarrow> update_one P f db = Inl ErrLeaseLost"
  by (auto simp: update_one_def exactly_one_def affected_def list_ex_iff filter_empty_conv
      dest!: length_Suc_conv [THEN iffD1] simp flip: filter_empty_conv)

lemma select_none: "\<not> list_ex P (tasks db) \<Longrightarrow> select_row (find_task P) e db = Inl e"
  by (auto simp: select_row_def find_task_def list_ex_iff find_None_iff split: option.splits
      dest: find_Some_iff [THEN iffD1])

lemma not_ex_conj: "\<not> list_ex P xs \<Longrightarrow> \<not> list_ex (\<lambda>x. P x \<and> Q x) xs"
  by (auto simp: list_ex_iff)

abbreviation holding :: "task_item \<Rightarrow> string \<Rightarrow> uuid \<Rightarrow> task_item" where
  "holding item i tok \<equiv> item\<lparr>it_id := i, it_token := tok\<rparr>"

interpretation renewal: lease_guarded "\<lambda>i tok now. renew flt now i tok dur"
  by unfold_locales (auto simp: renew_def run_tx_def stmt_def update_one_none)

interpretation completion: lease_guarded
  "\<lambda>i tok now. complete_task H flt gid now (holding item i tok) code stage publish"
  by unfold_locales (simp add: complete_task_def in_tx_first_fails [OF select_none])

interpretation retention: lease_guarded
  "\<lambda>i tok now. complete_retention_cleanup H flt gid now (holding item i tok) cleanup"
  by unfold_locales
     (simp add: complete_retention_cleanup_def in_tx_first_fails [OF select_none] not_ex_conj)

interpretation probe: lease_guarded
  "\<lambda>i tok now. complete_target_probe H flt gid now (holding item i tok) publish"
  by unfold_locales
     (simp add: complete_target_probe_def in_tx_first_fails [OF select_none] not_ex_conj)

interpretation rejection: lease_guarded
  "\<lambda>i tok now. reject_target_probe H flt gid now (holding item i tok) code stage publish"
  by unfold_locales
     (simp add: reject_target_probe_def in_tx_first_fails [OF update_one_none] not_ex_conj)

interpretation settlement: lease_guarded
  "\<lambda>i tok now. settle H flt gid now (holding item i tok) status ety oc code stage"
  by unfold_locales
     (auto simp: settle_def in_tx_first_fails [OF update_one_none] split: option.splits)

section \<open>Properties\<close>

definition empty_store :: store_db where
  "empty_store = \<lparr>audit_events = [], tasks = [], task_attempts = [], op_targets = [], operations = [],
     batches = [], memberships = [], oauth_attempts = [], assets = [], orders = [], credentials = []\<rparr>"

lemma queue_ok_empty: "queue_ok empty_store"
  by (simp add: queue_ok_def tasks_ok_def attempts_ok_def empty_store_def)


definition sample_read :: task_row where
  "sample_read = queued_task ''t1'' 0 WorkspaceRead (Some ''w1'') None ''d1'' ''c1'' 3"

definition sample_store :: store_db where
  "sample_store = empty_store\<lparr>tasks := [sample_read]\<rparr>"

lemmas sample_defs = sample_store_def sample_read_def empty_store_def queued_task_def

lemma queue_ok_sample: "queue_ok sample_store"
  by (simp add: sample_defs queue_ok_def tasks_ok_def attempts_ok_def task_ok_def task_subject_ok_def)


lemma claim_Inr:
  assumes "claim H flt lk tok gid now w dur ty route db = (Inr item, db')"
  obtains db1 db2 u i where "take_lease lk tok w dur now ty db = Inr (item, db1)"
    and "insert_attempt item route db1 = Inr (u, db2)"
    and "write_audit H flt 3 gid now (start_event ty item route) db2 = Inr (i, db')"
  using assms unfolding claim_def by (auto simp: tx_simps)

lemma write_audit_records:
  assumes "write_audit H flt k gid now ev db = Inr (i, db')"
  shows "stable_key H ev \<in> au_key ` set (audit_events db')"
  using assms unfolding write_audit_def lift_audit_Inr
  by (cases rule: audit_write_cases) (auto simp: same_conclusion_def event_row_def Let_def image_iff)

text \<open>
  C13: what a claim does.  It takes a task of the requested type that may run, with
  attempts left, never a join or removal whose earlier attempt may still have an effect,
  and a removal only past the canary; no other such task comes earlier in the queue.  The
  returned item is the leased row; no other task changes; exactly one attempt is recorded,
  under the new number and token; and the start fact is in the journal.
\<close>

theorem claim_takes_the_head:
  assumes c: "claim H flt lk tok gid now w dur ty route db = (Inr item, db')" and ok: "tasks_ok db"
  shows "\<exists>t\<in>set (tasks db). tk_type t = ty \<and> runnable now t \<and> \<not> mutation_in_doubt now t
    \<and> tk_attempts t < tk_max_attempts t \<and> \<not> lk (tk_id t)
    \<and> (ty = Remove \<or> ty = RemoveReconcile \<longrightarrow> canary_open db t)
    \<and> (\<forall>u\<in>set (tasks db). candidate db now lk ty u \<longrightarrow> claim_order t \<le> claim_order u)
    \<and> item = returned_item (leased w tok now dur t)
    \<and> tasks db' = map (\<lambda>r. if r = t then leased w tok now dur t else r) (tasks db)
    \<and> (\<exists>a. task_attempts db' = task_attempts db @ [a] \<and> at_task a = tk_id t
         \<and> at_no a = tk_attempts t + 1 \<and> at_token a = tok)
    \<and> stable_key H (start_event ty item route) \<in> au_key ` set (audit_events db')"
proof -
  obtain db1 db2 u i where a: "take_lease lk tok w dur now ty db = Inr (item, db1)"
    and b: "insert_attempt item route db1 = Inr (u, db2)"
    and d: "write_audit H flt 3 gid now (start_event ty item route) db2 = Inr (i, db')"
    using c by (rule claim_Inr)
  from a obtain t where t: "t \<in> set (tasks db)" "candidate db now lk ty t"
      "\<And>u. u \<in> set (tasks db) \<Longrightarrow> candidate db now lk ty u \<Longrightarrow> claim_order t \<le> claim_order u"
    and item: "item = returned_item (leased w tok now dur t)"
    and db1: "db1 = db\<lparr>tasks := update_where (\<lambda>r. tk_id r = tk_id t) (leased w tok now dur) (tasks db)\<rparr>"
    by (rule take_lease_Inr) blast
  from b obtain at' where at': "db2 = db1\<lparr>task_attempts := task_attempts db1 @ [at']\<rparr>"
      "at_task at' = it_id item" "at_no at' = it_attempt item" "at_token at' = it_token item"
    by (rule insert_attempt_Inr)
  from write_audit_Inr [OF d] obtain es where es: "db' = db2\<lparr>audit_events := audit_events db2 @ es\<rparr>"
    by blast
  have "tasks db' = map (\<lambda>r. if tk_id r = tk_id t then leased w tok now dur r else r) (tasks db)"
    by (simp add: es at'(1) db1 update_where_def)
  also have "\<dots> = map (\<lambda>r. if r = t then leased w tok now dur t else r) (tasks db)"
    using unique_row [OF ok _ t(1)] by (intro map_cong) auto
  finally have "tasks db' = map (\<lambda>r. if r = t then leased w tok now dur t else r) (tasks db)" .
  moreover have "task_attempts db' = task_attempts db @ [at']" by (simp add: es at'(1) db1)
  moreover have "at_task at' = tk_id t" "at_no at' = tk_attempts t + 1" "at_token at' = tok"
    by (simp_all add: at' item returned_item_def leased_def)
  moreover note write_audit_records [OF d]
  ultimately show ?thesis
    using t item by (intro bexI [OF _ t(1)] conjI exI [of _ at']) (auto simp: candidate_def)
qed

text \<open>A claim on the sample queue, evaluated.\<close>

lemma validate_start_read:
  "validate (start_event WorkspaceRead (returned_item (leased ''w'' tok now dur sample_read)) direct_route)
   = Inr (details_json (ev_details (start_event WorkspaceRead
       (returned_item (leased ''w'' tok now dur sample_read)) direct_route)), the (registry TaskStarted))"
  by (simp add: validate_Inr start_event_def task_event_def spec_of_def details_ok_def
      valid_task_route_def owner_security_scope_def returned_item_def leased_def sample_defs
      direct_route_def string_value_def time_value_def opt_str_def Let_def)

definition sample_claim :: "(store_error, task_item) result \<times> store_db" where
  "sample_claim = claim (\<lambda>s. s) (\<lambda>_. False) (\<lambda>_. False) 7 ''g'' 20 ''w'' 10 WorkspaceRead direct_route sample_store"

lemma sample_claim_ok:
  "fst sample_claim = Inr (returned_item (leased ''w'' 7 20 10 sample_read))
   \<and> tasks (snd sample_claim) = [leased ''w'' 7 20 10 sample_read]"
proof -
  have lease: "take_lease (\<lambda>_. False) 7 ''w'' 10 20 WorkspaceRead sample_store
    = Inr (returned_item (leased ''w'' 7 20 10 sample_read), sample_store\<lparr>tasks := [leased ''w'' 7 20 10 sample_read]\<rparr>)"
    by (simp add: take_lease_def candidate_def runnable_def mutation_in_doubt_def update_where_def sample_defs)
  let ?item = "returned_item (leased ''w'' 7 20 10 sample_read)"
  obtain a where att: "insert_attempt ?item direct_route (sample_store\<lparr>tasks := [leased ''w'' 7 20 10 sample_read]\<rparr>)
    = Inr ((), sample_store\<lparr>tasks := [leased ''w'' 7 20 10 sample_read], task_attempts := [a]\<rparr>)"
    by (simp add: insert_attempt_def attempt_insertable_def attempt_ok_def direct_route_def
        nullable_bytes_def returned_item_def leased_def sample_defs Let_def)
  show ?thesis
    by (simp add: sample_claim_def claim_def in_tx_def run_tx_def stmt_def tx_bind_def lease att
        tx_return_def write_audit_def lift_audit_def audit_write_def validate_start_read Let_def)
       (simp add: sample_defs)
qed

theorem claim_takes_the_head_witness:
  "\<exists>t\<in>set (tasks sample_store). runnable 20 t
     \<and> fst sample_claim = Inr (returned_item (leased ''w'' 7 20 10 t))"
proof -
  let ?item = "returned_item (leased ''w'' 7 20 10 sample_read)"
  have "claim (\<lambda>s. s) (\<lambda>_. False) (\<lambda>_. False) 7 ''g'' 20 ''w'' 10 WorkspaceRead direct_route sample_store
    = (Inr ?item, snd sample_claim)"
    using sample_claim_ok unfolding sample_claim_def by (metis prod.collapse)
  then have "\<exists>t\<in>set (tasks sample_store). runnable 20 t \<and> ?item = returned_item (leased ''w'' 7 20 10 t)"
    by (drule_tac claim_takes_the_head) (use queue_ok_sample in \<open>auto simp: queue_ok_def\<close>)
  then show ?thesis using sample_claim_ok by simp
qed

lemma claim_unique_row:
  assumes c: "claim H flt lk tok gid now w dur ty route db = (Inr item, db')" and ok: "tasks_ok db"
  obtains t where "leased w tok now dur t \<in> set (tasks db')" and "it_id item = tk_id t"
    and "\<And>u. u \<in> set (tasks db') \<Longrightarrow> tk_id u = tk_id t \<Longrightarrow> u = leased w tok now dur t"
proof -
  obtain db1 db2 u i where a: "take_lease lk tok w dur now ty db = Inr (item, db1)"
    and b: "insert_attempt item route db1 = Inr (u, db2)"
    and d: "write_audit H flt 3 gid now (start_event ty item route) db2 = Inr (i, db')"
    using c by (rule claim_Inr)
  from a obtain t where t: "t \<in> set (tasks db)" "item = returned_item (leased w tok now dur t)"
    and db1: "db1 = db\<lparr>tasks := update_where (\<lambda>r. tk_id r = tk_id t) (leased w tok now dur) (tasks db)\<rparr>"
    by (rule take_lease_Inr) blast
  have same: "tasks db' = tasks db1"
    using b write_audit_Inr [OF d] by (auto elim!: insert_attempt_Inr)
  show thesis
  proof (rule that [of t])
    show "leased w tok now dur t \<in> set (tasks db')"
      unfolding same db1 using t(1) by (auto simp: in_update_where)
    show "it_id item = tk_id t" by (simp add: t(2) returned_item_def leased_def)
    fix u assume "u \<in> set (tasks db')" "tk_id u = tk_id t"
    then show "u = leased w tok now dur t"
      unfolding same db1 using unique_row [OF ok _ t(1)]
      by (auto simp: in_update_where leased_def split: if_splits)
  qed
qed

text \<open>
  Mutual exclusion by lease.  Until the lease it was given expires, the claimed task
  is fenced for the claiming worker's token and for no other, and no further claim, of
  whatever type and clock before the expiry, can pick it; from the expiry on, the worker's
  own token no longer passes the fence.
\<close>

theorem claim_excludes_others:
  assumes c: "claim H flt lk tok gid now w dur ty route db = (Inr item, db')" and ok: "tasks_ok db"
  shows "(later < now + dur \<longrightarrow> list_ex (fenced (it_id item) tok later) (tasks db'))
    \<and> (list_ex (fenced (it_id item) tok' later) (tasks db') \<longrightarrow> tok' = tok \<and> later < now + dur)
    \<and> (\<forall>u\<in>set (tasks db'). tk_id u = it_id item \<and> later < now + dur \<longrightarrow> \<not> candidate db' later lk' ty' u)"
proof -
  obtain t where t: "leased w tok now dur t \<in> set (tasks db')" "it_id item = tk_id t"
    and one: "\<And>u. u \<in> set (tasks db') \<Longrightarrow> tk_id u = tk_id t \<Longrightarrow> u = leased w tok now dur t"
    using c ok by (rule claim_unique_row) blast
  have "fenced (tk_id t) tok' later (leased w tok now dur t) \<longleftrightarrow> tok' = tok \<and> later < now + dur" for tok'
    by (auto simp: fenced_def leased_def)
  moreover have "\<not> candidate db' later lk' ty' (leased w tok now dur t)" if "later < now + dur"
    using that by (simp add: candidate_def runnable_def leased_def expired_def)
  ultimately show ?thesis
    using t one unfolding list_ex_iff by (metis fenced_def)
qed

theorem claim_excludes_others_witness:
  "list_ex (fenced ''t1'' 7 25) (tasks (snd sample_claim))
   \<and> \<not> list_ex (fenced ''t1'' 7 30) (tasks (snd sample_claim))"
proof -
  let ?item = "returned_item (leased ''w'' 7 20 10 sample_read)"
  have c: "claim (\<lambda>s. s) (\<lambda>_. False) (\<lambda>_. False) 7 ''g'' 20 ''w'' 10 WorkspaceRead direct_route sample_store
    = (Inr ?item, snd sample_claim)"
    using sample_claim_ok unfolding sample_claim_def by (metis prod.collapse)
  have ok: "tasks_ok sample_store" using queue_ok_sample by (simp add: queue_ok_def)
  have i: "it_id ?item = ''t1''" by (simp add: returned_item_def leased_def sample_defs)
  show ?thesis
    using claim_excludes_others [OF c ok, of 25] claim_excludes_others [OF c ok, of 30 7]
    unfolding i by simp
qed

lemma retention_start_refused:
  assumes "it_workspace item = []"
  shows "\<exists>e. validate (start_event RetentionCleanup item route) = Inl e"
proof (rule ccontr)
  assume "\<nexists>e. validate (start_event RetentionCleanup item route) = Inl e"
  then obtain d sp where "validate (start_event RetentionCleanup item route) = Inr (d, sp)"
    by (cases "validate (start_event RetentionCleanup item route)") auto
  then show False
    using assms by (auto simp: validate_Inr start_event_def task_event_def spec_of_def Let_def)
qed

lemma retention_claim_fails:
  assumes "tasks_ok db"
  shows "\<exists>e. claim H flt lk tok gid now w dur RetentionCleanup direct_route db = (Inl e, db)"
proof -
  let ?r = "claim H flt lk tok gid now w dur RetentionCleanup direct_route db"
  have "fst ?r \<noteq> Inr item" for item
  proof
    assume "fst ?r = Inr item"
    then obtain db' where c: "?r = (Inr item, db')" by (metis prod.collapse)
    obtain db1 db2 u i where a: "take_lease lk tok w dur now RetentionCleanup db = Inr (item, db1)"
      and d: "write_audit H flt 3 gid now (start_event RetentionCleanup item direct_route) db2 = Inr (i, db')"
      using c by (rule claim_Inr)
    from a obtain t where t: "t \<in> set (tasks db)" "tk_type t = RetentionCleanup"
      and item: "item = returned_item (leased w tok now dur t)"
      by (rule take_lease_Inr) (auto simp: candidate_def)
    have "task_ok t" using assms t(1) by (simp add: tasks_ok_def list_all_iff)
    then have "tk_workspace t = None" using t(2) by (simp add: task_ok_def task_subject_ok_def)
    then have "it_workspace item = []" by (simp add: item returned_item_def leased_def opt_str_def)
    moreover obtain dt sp where "validate (start_event RetentionCleanup item direct_route) = Inr (dt, sp)"
      using d unfolding write_audit_def lift_audit_Inr by (blast dest: audit_write_ok_event)
    ultimately show False using retention_start_refused [of item direct_route] by simp
  qed
  then obtain e where "fst ?r = Inl e" by (cases "fst ?r") auto
  moreover from this have "snd ?r = db" unfolding claim_def by (rule in_tx_error)
  ultimately show ?thesis by (metis prod.collapse)
qed

text \<open>
  retention cleanups cannot be claimed.  The rows of this type have no workspace
  (the subject constraint of the table), the claim writes a task.started fact whose scope
  is the workspace of the row, and the registry refuses an empty scope: whatever the
  queue, the clock and the driver do, the claim fails and the task stays queued.
\<close>

theorem retention_cleanup_is_never_claimed:
  assumes "tasks_ok db"
  shows "\<exists>e. claim_retention_cleanup H flt lk tok gid now w dur db = (Inl e, db)"
  unfolding claim_retention_cleanup_def using assms by (rule retention_claim_fails)

theorem retention_cleanup_is_never_claimed_witness:
  "\<exists>e. claim_retention_cleanup (\<lambda>s. s) (\<lambda>_. False) (\<lambda>_. False) 7 ''g'' 20 ''w'' 10
      (empty_store\<lparr>tasks := [queued_task ''t1'' 0 RetentionCleanup None None ''k'' ''k'' 5]\<rparr>)
    = (Inl e, empty_store\<lparr>tasks := [queued_task ''t1'' 0 RetentionCleanup None None ''k'' ''k'' 5]\<rparr>)"
  by (rule retention_cleanup_is_never_claimed)
     (simp add: tasks_ok_def empty_store_def queued_task_ok)

text \<open>
  Progress: with a working driver, a task that may run, a route the attempts table
  accepts and a start fact the registry accepts, the claim succeeds.
\<close>

definition route_storable :: "attempt_route \<Rightarrow> bool" where
  "route_storable r \<longleftrightarrow>
     (rt_mode r = ''direct'' \<and> rt_scheme r = None \<and> rt_key_version r = None
      \<and> rt_fingerprint r = [] \<and> rt_verified_at r = None \<and> rt_stage r = None) \<or>
     (rt_mode r = ''required'' \<and> rt_scheme r \<noteq> None \<and> rt_key_version r \<noteq> None
      \<and> rt_fingerprint r \<noteq> [] \<and> rt_verified_at r \<noteq> None \<and> rt_stage r \<noteq> None)"

definition startable ::
  "(string \<Rightarrow> string) \<Rightarrow> 'z store_db_scheme \<Rightarrow> task_type \<Rightarrow> attempt_route \<Rightarrow> task_item \<Rightarrow> bool" where
  "startable H db ty route item \<longleftrightarrow>
     (\<exists>d sp. validate (start_event ty item route) = Inr (d, sp))
     \<and> stable_key H (start_event ty item route) \<notin> au_key ` set (audit_events db)"

lemma insert_attempt_succeeds:
  assumes "take_lease lk tok w dur now ty db = Inr (item, db1)" and "queue_ok db" and "route_storable route"
  shows "\<exists>db2. insert_attempt item route db1 = Inr ((), db2) \<and> audit_events db2 = audit_events db1"
proof -
  obtain t where t: "t \<in> set (tasks db1)" "item = returned_item t"
    and att: "task_attempts db1 = task_attempts db"
    and nos: "\<forall>a\<in>set (task_attempts db). at_task a = tk_id t \<longrightarrow> at_no a < tk_attempts t"
    using assms(1) by (rule take_lease_item) (use assms(2) in blast)
  have "0 < it_attempt item"
  proof -
    obtain s where "s \<in> set (tasks db)" "it_attempt item = tk_attempts s + 1"
      using assms(1) by (rule take_lease_Inr) (auto simp: returned_item_def leased_def)
    with assms(2) show ?thesis by (auto simp: queue_ok_def tasks_ok_def list_all_iff task_ok_def)
  qed
  moreover have "(at_task b, at_no b) \<noteq> (it_id item, it_attempt item)" if "b \<in> set (task_attempts db1)" for b
    using nos that by (auto simp: att t(2) returned_item_def)
  ultimately show ?thesis
    using assms(3)
    by (auto simp: insert_attempt_def attempt_insertable_def attempt_ok_def route_storable_def
        nullable_bytes_def list_all_iff Let_def)
qed

text \<open>
  C14: progress of the queue.  If some task of the type may be claimed, the driver accepts
  every statement, the route satisfies the columns' constraint and the start facts of the
  claimable tasks are accepted and new, the claim returns a task: in particular, the key
  of its attempt row never collides with an earlier attempt, not even one that was
  interrupted or rejected.
\<close>

theorem claim_makes_progress:
  assumes "queue_ok db" and "t \<in> set (tasks db)" and "candidate db now lk ty t"
    and "route_storable route"
    and "\<forall>u\<in>set (tasks db). candidate db now lk ty u
           \<longrightarrow> startable H db ty route (returned_item (leased w tok now dur u))"
  shows "\<exists>item db'. claim H (\<lambda>_. False) lk tok gid now w dur ty route db = (Inr item, db')"
proof -
  obtain item db1 where a: "take_lease lk tok w dur now ty db = Inr (item, db1)"
    using assms(2,3) by (fastforce simp: take_lease_def filter_empty_conv split: option.splits)
  then obtain u where u: "u \<in> set (tasks db)" "candidate db now lk ty u"
      "item = returned_item (leased w tok now dur u)" and same: "audit_events db1 = audit_events db"
    by (rule take_lease_Inr) auto
  obtain db2 where b: "insert_attempt item route db1 = Inr ((), db2)" "audit_events db2 = audit_events db1"
    using insert_attempt_succeeds [OF a assms(1,4)] by blast
  have "startable H db ty route item" using assms(5) u by blast
  then obtain d sp where v: "validate (start_event ty item route) = Inr (d, sp)"
    and fresh: "stable_key H (start_event ty item route) \<notin> au_key ` set (audit_events db2)"
    unfolding startable_def b(2) same by blast
  have "list_all (\<lambda>r. au_key r \<noteq> stable_key H (start_event ty item route)) (audit_events db2)"
    using fresh unfolding list_all_iff image_iff by metis
  then obtain r where "audit_write H (\<lambda>_. False) gid now (start_event ty item route) db2 = Inr r"
    by (simp add: audit_write_def v Let_def)
  then show ?thesis
    by (cases r) (simp add: claim_def in_tx_def run_tx_def stmt_def tx_bind_def a b
        write_audit_def lift_audit_def tx_return_def)
qed

theorem claim_makes_progress_witness:
  "\<exists>item db'. claim (\<lambda>s. s) (\<lambda>_. False) (\<lambda>_. False) 7 ''g'' 20 ''w'' 10 WorkspaceRead direct_route sample_store
     = (Inr item, db')"
proof (rule claim_makes_progress)
  show "queue_ok sample_store" by (rule queue_ok_sample)
  show "sample_read \<in> set (tasks sample_store)" by (simp add: sample_store_def)
  show "candidate sample_store 20 (\<lambda>_. False) WorkspaceRead sample_read"
    by (simp add: candidate_def runnable_def mutation_in_doubt_def sample_defs)
  show "route_storable direct_route" by (simp add: route_storable_def direct_route_def)
  show "\<forall>u\<in>set (tasks sample_store). candidate sample_store 20 (\<lambda>_. False) WorkspaceRead u
    \<longrightarrow> startable (\<lambda>s. s) sample_store WorkspaceRead direct_route (returned_item (leased ''w'' 7 20 10 u))"
    by (simp add: startable_def validate_start_read sample_store_def empty_store_def)
qed

text \<open>
  Creating a probe or read task is idempotent.  The first call under a key stores a
  queued row; a repeated call with the same subject returns that row, creates nothing and
  says so; a call under the key with another subject is refused as a conflict.
\<close>

theorem create_task_idempotent:
  assumes "\<not> list_ex (same_key r) (tasks db)" and "same_key r' r" and "\<not> flt' 0" and "\<not> flt' 1"
    and "create_subject_task subject flt r wanted db = (Inr (t, True), db')"
  shows "t = r \<and> db' = db\<lparr>tasks := tasks db @ [r]\<rparr>
    \<and> create_subject_task subject flt' r' (opt_str (subject r)) db' = (Inr (r, False), db')
    \<and> (other \<noteq> opt_str (subject r) \<longrightarrow>
         create_subject_task subject flt' r' other db' = (Inl ErrIdempotencyConflict, db'))"
proof -
  have sym: "same_key r' = same_key r" using assms(2) by (auto simp: same_key_def fun_eq_iff)
  have none: "find (same_key r) (tasks db) = None"
    using assms(1) by (auto simp: find_None_iff list_ex_iff)
  have "t = r \<and> db' = db\<lparr>tasks := tasks db @ [r]\<rparr>"
    using assms(5) none by (auto simp: create_subject_task_def split: if_splits)
  moreover from this have "find (same_key r') (tasks db') = Some r"
    using none by (simp add: sym find_append same_key_def)
  ultimately show ?thesis
    using assms(3,4) by (auto simp: create_subject_task_def)
qed

theorem create_task_idempotent_witness:
  "create_workspace_read (\<lambda>_. False) ''t2'' 9 ''w1'' ''d1'' ''c2'' sample_store
     = (Inr (sample_read, False), sample_store)
   \<and> create_workspace_read (\<lambda>_. False) ''t2'' 9 ''w2'' ''d1'' ''c2'' sample_store
     = (Inl ErrIdempotencyConflict, sample_store)"
proof -
  let ?r' = "\<lambda>ws. queued_task ''t2'' 9 WorkspaceRead (Some ws) None ''d1'' ''c2'' 3"
  have a: "\<not> list_ex (same_key sample_read) (tasks empty_store)" by (simp add: empty_store_def)
  have b: "same_key (?r' ws) sample_read" for ws by (simp add: same_key_def sample_defs)
  have c: "create_subject_task tk_workspace (\<lambda>_. False) sample_read ''w1'' empty_store
      = (Inr (sample_read, True), sample_store)"
    by (simp add: create_subject_task_def sample_store_def empty_store_def)
  have s: "opt_str (tk_workspace sample_read) = ''w1''" by (simp add: sample_defs opt_str_def)
  show ?thesis
    using create_task_idempotent [OF a b _ _ c, of "\<lambda>_. False" "''w1''" "''w2''"]
      create_task_idempotent [OF a b _ _ c, of "\<lambda>_. False" "''w2''" "''w2''"]
    unfolding create_workspace_read_def s by simp
qed
end
