(* ===== verification/PlatformOutcomes.thy ===== *)
theory PlatformOutcomes
  imports Json
begin

text \<open>
  Package internal/platform: the classification of transport evidence into the bounded
  outcome vocabularies (platform.go, target.go, personal_probe.go), and the reduction of
  upstream error codes and diagnostics to fixed word lists (join.go).

  A response body is its bytes; \<open>J\<close> is the JSON syntax analysis of encoding/json, which
  yields the value or nothing when the text is not JSON.  \<open>U\<close> holds the Unicode tables.
  The transport error of a request is classified by errors.Is, so it is one of the two
  context errors or another one.
\<close>

datatype transport_error = DeadlineExceeded | Canceled | OtherError

type_synonym json_syntax = "string \<Rightarrow> json option"

text \<open>Decoding into map[string]any: an object, or null as the nil map.\<close>

definition decode_map :: "json_syntax \<Rightarrow> string \<Rightarrow> (string \<Rightarrow> json option) option" where
  "decode_map J body =
     (case J body of
        Some (JObj ms) \<Rightarrow> Some (obj_map ms)
      | Some JNull \<Rightarrow> Some (\<lambda>_. None)
      | _ \<Rightarrow> None)"

definition as_string :: "json option \<Rightarrow> string option" where
  "as_string v = (case v of Some (JStr s) \<Rightarrow> Some s | _ \<Rightarrow> None)"

definition as_object :: "json option \<Rightarrow> (string \<Rightarrow> json option) option" where
  "as_object v = (case v of Some (JObj ms) \<Rightarrow> Some (obj_map ms) | _ \<Rightarrow> None)"

definition success_status :: "int \<Rightarrow> bool" where
  "success_status s \<longleftrightarrow> 200 \<le> s \<and> s < 300"

section \<open>Workspace reads: Classify\<close>

datatype read_outcome =
    Operational | Deactivated | WorkspaceNotFound | Unauthorized | Forbidden
  | RateLimited | ServerError | Timeout | NetworkError | Incomplete

definition classify :: "int \<Rightarrow> string \<Rightarrow> transport_error option \<Rightarrow> read_outcome" where
  "classify status code err =
     (case err of
        Some e \<Rightarrow> (if e = DeadlineExceeded then Timeout else NetworkError)
      | None \<Rightarrow>
          if status = 402 \<and> code = ''deactivated_workspace'' then Deactivated
          else if status = 404 \<and> code = ''workspace_not_found'' then WorkspaceNotFound
          else if success_status status then Operational
          else if status = 401 then Unauthorized
          else if status = 403 then Forbidden
          else if status = 429 then RateLimited
          else if 500 \<le> status then ServerError
          else Incomplete)"

definition terminal_outcome :: "read_outcome \<Rightarrow> bool" where
  "terminal_outcome r \<longleftrightarrow> r = Deactivated \<or> r = WorkspaceNotFound"

section \<open>Target account probes\<close>

datatype target_status =
    TargetAvailable | TargetCredentialInvalid | TargetAccountProblem
  | TargetDefinitelyUnavailable | TargetTransientFailure | TargetUnknown

primrec target_status_text :: "target_status \<Rightarrow> string" where
  "target_status_text TargetAvailable = ''available''"
| "target_status_text TargetCredentialInvalid = ''credential_invalid''"
| "target_status_text TargetAccountProblem = ''account_problem''"
| "target_status_text TargetDefinitelyUnavailable = ''definitely_unavailable''"
| "target_status_text TargetTransientFailure = ''transient_failure''"
| "target_status_text TargetUnknown = ''unknown''"

definition classify_target_probe ::
  "unicode \<Rightarrow> int \<Rightarrow> string \<Rightarrow> transport_error option \<Rightarrow> bool \<Rightarrow> target_status" where
  "classify_target_probe U status code err malformed =
     (if err \<noteq> None then TargetTransientFailure
      else if status = 403 \<and> equal_fold U code ''account_deactivated'' then TargetDefinitelyUnavailable
      else if status = 401 then TargetCredentialInvalid
      else if status = 403 then TargetAccountProblem
      else if malformed then TargetUnknown
      else if success_status status then TargetAvailable
      else if status = 429 \<or> 500 \<le> status then TargetTransientFailure
      else TargetUnknown)"

section \<open>Personal probes\<close>

record personal_evidence =
  pe_generation :: string
  pe_revision :: int
  pe_http :: int
  pe_code :: string
  pe_deactivated :: bool
  pe_usage :: bool
  pe_transport :: "transport_error option"
  pe_malformed :: bool

datatype personal_outcome =
    PersonalAvailable | PersonalMissingCredential | PersonalCredentialInvalid
  | PersonalForbidden | PersonalBanned | PersonalNetworkError | PersonalUnknown

definition classify_personal_probe :: "personal_evidence \<Rightarrow> personal_outcome" where
  "classify_personal_probe e =
     (case pe_transport e of
        Some t \<Rightarrow> (if t = Canceled then PersonalUnknown else PersonalNetworkError)
      | None \<Rightarrow>
          if pe_http e = 401 then PersonalCredentialInvalid
          else if pe_http e = 403 then
            (if \<not> pe_malformed e \<and> pe_deactivated e \<and> pe_code e = ''account_deactivated''
             then PersonalBanned else PersonalForbidden)
          else if success_status (pe_http e) \<and> \<not> pe_malformed e \<and> pe_usage e then PersonalAvailable
          else PersonalUnknown)"

section \<open>Upstream codes and diagnostics\<close>

text \<open>strings.NewReplacer with the two pairs (hyphen, underscore) and (space, underscore).\<close>

definition underscored :: "string \<Rightarrow> string" where
  "underscored s = map (\<lambda>c. if c = CHR ''-'' \<or> c = CHR '' '' then CHR ''_'' else c) s"

definition upstream_codes :: "string list" where
  "upstream_codes =
     [''account_deactivated'', ''auth_error'', ''deactivated_workspace'', ''domain_restricted'',
      ''invalid_request'', ''rate_limit'', ''token_invalidated'', ''workspace_not_found'']"

definition bounded_upstream_code :: "unicode \<Rightarrow> string \<Rightarrow> string" where
  "bounded_upstream_code U raw =
     (let v = to_lower U (trim_space (underscored raw)) in
      if v \<in> set upstream_codes then v else if v = [] then [] else ''upstream_other'')"

fun first_string :: "(string \<Rightarrow> json option) \<Rightarrow> string list \<Rightarrow> string option" where
  "first_string m [] = None"
| "first_string m (k # ks) =
     (case as_string (m k) of Some s \<Rightarrow> Some s | None \<Rightarrow> first_string m ks)"

definition upstream_code :: "unicode \<Rightarrow> json_syntax \<Rightarrow> string \<Rightarrow> string" where
  "upstream_code U J body =
     (case decode_map J body of
        None \<Rightarrow> []
      | Some m \<Rightarrow>
         (case first_string m [''code'', ''error_code'', ''status''] of
            Some c \<Rightarrow> bounded_upstream_code U c
          | None \<Rightarrow>
             (case as_object (m ''detail'') of
                None \<Rightarrow> []
              | Some d \<Rightarrow> (case as_string (d ''code'') of Some c \<Rightarrow> bounded_upstream_code U c | None \<Rightarrow> []))))"

fun first_nested_code :: "(string \<Rightarrow> json option) \<Rightarrow> string list \<Rightarrow> string option" where
  "first_nested_code m [] = None"
| "first_nested_code m (k # ks) =
     (case as_object (m k) of
        None \<Rightarrow> first_nested_code m ks
      | Some n \<Rightarrow> (case as_string (n ''code'') of Some c \<Rightarrow> Some c | None \<Rightarrow> first_nested_code m ks))"

definition target_probe_error_code :: "unicode \<Rightarrow> json_syntax \<Rightarrow> string \<Rightarrow> string" where
  "target_probe_error_code U J body =
     (case decode_map J body of
        None \<Rightarrow> []
      | Some m \<Rightarrow>
         (case first_nested_code m [''error'', ''detail''] of
            Some c \<Rightarrow> bounded_upstream_code U c
          | None \<Rightarrow>
             (case first_string m [''code'', ''error_code''] of
                Some c \<Rightarrow> bounded_upstream_code U c | None \<Rightarrow> [])))"

definition diagnostics :: "string list" where
  "diagnostics =
     [[], ''available'', ''credential_invalid'', ''account_problem'', ''definitely_unavailable'',
      ''transient_failure'', ''unknown'', ''account_deactivated'', ''auth_error'',
      ''deactivated_workspace'', ''domain_restricted'', ''invalid_request'', ''rate_limit'',
      ''token_invalidated'', ''workspace_not_found'', ''upstream_other'', ''transport_failure'',
      ''incomplete_response'', ''invalid_response'', ''request_invalid'',
      ''preflight_transport_failure'', ''platform_configuration_invalid'',
      ''platform_credential_unavailable'', ''join_request_failed'', ''join_request_rejected'',
      ''accept_uncertain'', ''membership_unknown'', ''incomplete_membership_fact'',
      ''member_not_confirmed'', ''member_confirmed'', ''remove_confirmed'', ''remove_rejected'',
      ''remove_retry_scheduled'', ''remove_attempts_exhausted'', ''remove_transport_unknown'',
      ''membership_snapshot_incomplete'', ''owner_missing'', ''target_is_owner'',
      ''target_identity_ambiguous'', ''reconciled_present'', ''proxy_egress_drift'',
      ''proxy_capacity_exhausted'', ''attempts_exhausted'', ''lease_lost'', ''publication_fenced'',
      ''reconcile_absent'', ''reconciliation_attempts_exhausted'', ''platform_unknown'']"

definition normalize_diagnostic :: "unicode \<Rightarrow> string \<Rightarrow> string" where
  "normalize_diagnostic U value =
     (let v = to_lower U (trim_space value) in
      if v \<in> set diagnostics then v else ''diagnostic_other'')"

section \<open>Side effects of a mutation request\<close>

definition request_terminates :: "string \<Rightarrow> bool" where
  "request_terminates code \<longleftrightarrow>
     trim_space code \<in> {''domain_restricted'', ''workspace_not_found'', ''deactivated_workspace''}"

definition request_may_have_side_effect :: "int \<Rightarrow> bool \<Rightarrow> string \<Rightarrow> bool" where
  "request_may_have_side_effect status success code =
     (if success \<or> status = 0 \<or> success_status status then True
      else if request_terminates code then False
      else status = 409 \<or> status = 403 \<or> status = 429 \<or> 500 \<le> status)"

definition semantic_words :: "string list" where
  "semantic_words =
     [''accepted'', ''account_deactivated'', ''already_accepted'', ''already_pending'', ''auth_error'',
      ''deactivated_workspace'', ''domain_restricted'', ''error'', ''invite_pending'',
      ''invalid_request'', ''ok'', ''pending'', ''rate_limit'', ''success'', ''token_invalidated'',
      ''workspace_not_found'']"

definition semantic_field :: "unicode \<Rightarrow> string \<Rightarrow> string \<Rightarrow> string" where
  "semantic_field U kind raw =
     (let v = to_lower U (trim_space (underscored raw)) in
      if v \<in> set semantic_words then kind @ ''_'' @ v else kind @ ''_other'')"

definition membership_semantic :: "unicode \<Rightarrow> json_syntax \<Rightarrow> string \<Rightarrow> string" where
  "membership_semantic U J body =
     (if trim_space body = [] then ''empty''
      else case J body of
        None \<Rightarrow> ''text''
      | Some (JObj ms) \<Rightarrow>
         (let m = obj_map ms in
          case m ''success'' of
            Some (JBool b) \<Rightarrow> (if b then ''success_true'' else ''success_false'')
          | _ \<Rightarrow>
             (case as_string (m ''status'') of
                Some s \<Rightarrow> semantic_field U ''status'' s
              | None \<Rightarrow>
                 (case as_string (m ''code'') of
                    Some s \<Rightarrow> semantic_field U ''code'' s
                  | None \<Rightarrow>
                     (case as_object (m ''detail'') of
                        None \<Rightarrow> ''json_object''
                      | Some d \<Rightarrow> (case as_string (d ''code'') of
                            Some s \<Rightarrow> semantic_field U ''code'' s | None \<Rightarrow> ''json_object'')))))
      | Some (JArr xs) \<Rightarrow> ''json_array''
      | Some x \<Rightarrow> ''json_scalar'')"

section \<open>Laws\<close>

lemma bounded_upstream_code_vocabulary:
  "bounded_upstream_code U raw \<in> set ([] # ''upstream_other'' # upstream_codes)"
  by (simp add: bounded_upstream_code_def Let_def)

lemma normalize_diagnostic_vocabulary:
  "normalize_diagnostic U v \<in> set (''diagnostic_other'' # diagnostics)"
  by (simp add: normalize_diagnostic_def Let_def)

text \<open>Words over the lower-case letters and the underscore are their own normal form.\<close>

definition word_chars :: "char list" where
  "word_chars = ''abcdefghijklmnopqrstuvwxyz_''"

definition simple_word :: "string \<Rightarrow> bool" where
  "simple_word s \<longleftrightarrow> s \<noteq> [] \<and> list_all (\<lambda>c. c \<in> set word_chars) s"

lemma word_chars_lower: "list_all (\<lambda>c. ascii_char c \<and> visible c \<and> lower_char c = c) word_chars"
  by (simp add: word_chars_def ascii_char_def visible_def lower_char_def char_code_def)

lemma simple_word_normal:
  assumes "simple_word s"
  shows "to_lower U (trim_space s) = s"
proof -
  have ok: "\<forall>c\<in>set s. ascii_char c \<and> visible c \<and> lower_char c = c" and "s \<noteq> []"
    using assms word_chars_lower by (auto simp: simple_word_def list_all_iff)
  then have "ascii s" and "map lower_char s = s" by (simp_all add: ascii_def list_all_iff map_idI)
  moreover have "trim_space s = s" using ok \<open>s \<noteq> []\<close> by (intro trim_space_visible) simp_all
  ultimately show ?thesis by (simp add: to_lower_def)
qed

lemma diagnostics_simple:
  "list_all (\<lambda>s. s = [] \<or> simple_word s) (''diagnostic_other'' # diagnostics)"
  by code_simp

lemma empty_normal: "to_lower U (trim_space []) = []"
  by (simp add: trim_space_def trim_left.simps trim_right.simps to_lower_def ascii_def)

lemma outcome_words_bounded: "list_all (\<lambda>s. length s \<le> 128) (''diagnostic_other'' # diagnostics)"
  by (simp add: diagnostics_def)

text \<open>
  the persistence boundary for diagnostics.  Whatever text the platform or the worker
  produces, the stored diagnostic is one of the fixed words, at most 128 bytes long (the
  column's limit), and normalising a stored diagnostic again does not change it.
\<close>

theorem normalize_diagnostic_closed:
  "normalize_diagnostic U v \<in> set (''diagnostic_other'' # diagnostics)
   \<and> length (normalize_diagnostic U v) \<le> 128
   \<and> normalize_diagnostic U (normalize_diagnostic U v) = normalize_diagnostic U v"
proof -
  let ?n = "normalize_diagnostic U v"
  have n: "?n \<in> set (''diagnostic_other'' # diagnostics)"
    by (rule normalize_diagnostic_vocabulary)
  then have w: "?n = [] \<or> simple_word ?n" and "length ?n \<le> 128"
    using diagnostics_simple outcome_words_bounded unfolding list_all_iff by blast+
  from w have "to_lower U (trim_space ?n) = ?n"
    using simple_word_normal empty_normal by metis
  then have "normalize_diagnostic U ?n = ?n"
    using n unfolding normalize_diagnostic_def [of U ?n] Let_def set_simps insert_iff
    by (metis (full_types))
  moreover note \<open>length ?n \<le> 128\<close>
  ultimately show ?thesis using n by blast
qed

text \<open>
  A workspace is concluded deactivated or missing only on exact evidence: an HTTP
  answer (no transport error) with status 402 and the code deactivated_workspace, or 404
  and workspace_not_found.  A success status is never terminal, and every transport
  failure is a timeout or a network error.
\<close>

theorem classify_terminal_iff:
  "(terminal_outcome (classify s c e) \<longleftrightarrow>
      e = None \<and> (s = 402 \<and> c = ''deactivated_workspace'' \<or> s = 404 \<and> c = ''workspace_not_found''))
   \<and> (classify s c e = Operational \<longleftrightarrow> e = None \<and> success_status s)
   \<and> (e \<noteq> None \<longleftrightarrow> classify s c e \<in> {Timeout, NetworkError})"
  by (cases e) (auto simp: classify_def terminal_outcome_def success_status_def)

text \<open>
  an account is declared banned or definitely unavailable only on verified evidence,
  and never on a transport failure: the personal classifier answers banned exactly for a
  well-formed 403 whose verified structured code is account_deactivated and available
  exactly for a well-formed success with verified usage; the target classifier answers
  definitely unavailable only for a 403 with that code and available only for a
  well-formed success.
\<close>

theorem probe_verdicts_need_evidence:
  "(classify_personal_probe p = PersonalBanned \<longleftrightarrow>
      pe_transport p = None \<and> pe_http p = 403 \<and> \<not> pe_malformed p \<and> pe_deactivated p
      \<and> pe_code p = ''account_deactivated'')
   \<and> (classify_personal_probe p = PersonalAvailable \<longleftrightarrow>
      pe_transport p = None \<and> success_status (pe_http p) \<and> \<not> pe_malformed p \<and> pe_usage p)
   \<and> (classify_target_probe U s c e m = TargetDefinitelyUnavailable \<longleftrightarrow>
      e = None \<and> s = 403 \<and> equal_fold U c ''account_deactivated'')
   \<and> (classify_target_probe U s c e m = TargetAvailable \<longleftrightarrow> e = None \<and> success_status s \<and> \<not> m)"
  by (cases "pe_transport p"; cases e)
     (auto simp: classify_personal_probe_def classify_target_probe_def success_status_def)

text \<open>
  A mutation is reported as certainly without effect only on a definite refusal.  When
  requestMayHaveSideEffect answers no, the platform did answer (the status is not 0), the
  status is not a success, and either the bounded code is one of the three terminal
  refusals or the status is below 500 and none of 403, 409 and 429.
\<close>

theorem no_side_effect_is_definite:
  "\<not> request_may_have_side_effect s ok c \<longleftrightarrow>
     \<not> ok \<and> s \<noteq> 0 \<and> \<not> success_status s
     \<and> (request_terminates c \<or> (s < 500 \<and> s \<noteq> 403 \<and> s \<noteq> 409 \<and> s \<noteq> 429))"
  by (auto simp: request_may_have_side_effect_def)

end
