(* ===== verification/PlatformReads.thy ===== *)
theory PlatformReads
  imports PlatformOutcomes
begin

text \<open>
  Package internal/platform, files http.go, join.go, removal.go and target.go: the requests the
  adapter sends with the credentials of one account and how it reduces their answers.
  One request is answered by the network: it could not be built, its transport failed, or a
  response arrived whose body was read (or not, None).  \<open>net\<close> answers the requests of one
  call, \<open>clock\<close> is time.Now(), and record \<open>decoders\<close> holds what encoding/json yields for a
  body: its syntax and the two structs the package decodes into (None is an error).
\<close>

section \<open>Requests\<close>

record http_request =
  rq_method :: string
  rq_path :: string
  rq_login :: string
  rq_password :: string
  rq_body :: "string option"

datatype http_reply = NotSent | TransportFailed transport_error | Replied int "string option"

datatype request_error = RequestInvalid | Transport transport_error | ResponseIncomplete | SnapshotInexact

record platform_login =
  pl_login :: string
  pl_password :: string

definition max_response_body :: nat where
  "max_response_body = 1048576"

text \<open>io.LimitReader lets one byte more than the limit through; a longer body is refused.\<close>

definition read_body :: "string option \<Rightarrow> string option" where
  "read_body b = (case b of None \<Rightarrow> None | Some s \<Rightarrow> if max_response_body < length s then None else Some s)"

text \<open>url.PathEscape: everything but letters, digits and a few marks as upper-case hexadecimal.\<close>

definition path_marks :: "char list" where
  "path_marks = ''-_.~$&+:=@''"

definition path_plain :: "char \<Rightarrow> bool" where
  "path_plain c \<longleftrightarrow>
     (let n = char_code c in
      (48 \<le> n \<and> n \<le> 57) \<or> (65 \<le> n \<and> n \<le> 90) \<or> (97 \<le> n \<and> n \<le> 122) \<or> c \<in> set path_marks)"

definition hex_digit :: "nat \<Rightarrow> char" where
  "hex_digit d = (if d < 10 then char_of (48 + d) else char_of (55 + d))"

definition path_escape :: "string \<Rightarrow> string" where
  "path_escape s =
     concat (map (\<lambda>c. if path_plain c then [c]
                       else [CHR ''%'', hex_digit (char_code c div 16), hex_digit (char_code c mod 16)]) s)"

definition do_json ::
  "platform_login \<Rightarrow> (http_request \<Rightarrow> http_reply) \<Rightarrow> string \<Rightarrow> string \<Rightarrow> string option
     \<Rightarrow> (request_error, int \<times> string) result" where
  "do_json c net meth path body =
    (case net \<lparr>rq_method = meth, rq_path = path, rq_login = pl_login c, rq_password = pl_password c, rq_body = body\<rparr> of
       NotSent \<Rightarrow> Inl RequestInvalid
     | TransportFailed e \<Rightarrow> Inl (Transport e)
     | Replied st b \<Rightarrow> (case read_body b of None \<Rightarrow> Inl ResponseIncomplete | Some s \<Rightarrow> Inr (st, s)))"

section \<open>Workspace reads\<close>

datatype read_endpoint =
    EndpointExchange | EndpointSubscription | EndpointCapacity | EndpointJoin | EndpointMembers
  | EndpointPendingInvite

primrec endpoint_text :: "read_endpoint \<Rightarrow> string" where
  "endpoint_text EndpointExchange = ''workspace_exchange''"
| "endpoint_text EndpointSubscription = ''workspace_subscription''"
| "endpoint_text EndpointCapacity = ''seat_counter''"
| "endpoint_text EndpointJoin = ''workspace_join''"
| "endpoint_text EndpointMembers = ''workspace_members''"
| "endpoint_text EndpointPendingInvite = ''pending_invites''"

datatype completeness = Complete | Partial | CompletenessUnknown

record member =
  pm_kind :: string
  pm_id :: string
  pm_account_user :: string
  pm_identifier :: string
  pm_status :: string
  pm_role :: string
  pm_seat_type :: string

record wire_response =
  wi_error_code :: string
  wi_active_until :: "instant option"
  wi_seat_limit :: "int option"
  wi_member_count :: "int option"
  wi_pending :: "int option"
  wi_complete :: "bool option"
  wi_members :: "member list"

record decoders =
  dc_syntax :: json_syntax
  dc_wire :: "string \<Rightarrow> wire_response option"
  dc_members :: "string \<Rightarrow> (bool option \<times> member list) option"

record read_result =
  rr_endpoint :: read_endpoint
  rr_outcome :: "read_outcome option"
  rr_http :: int
  rr_observed_at :: instant
  rr_active_until :: "instant option"
  rr_seat_limit :: "int option"
  rr_member_count :: "int option"
  rr_pending :: "int option"
  rr_completeness :: completeness
  rr_members :: "member list"

definition member_ok :: "member \<Rightarrow> bool" where
  "member_ok m \<longleftrightarrow>
     ((pm_kind m = ''member'' \<and> pm_id m \<noteq> []) \<or> (pm_kind m = ''pending_invite'' \<and> pm_id m = []))
     \<and> 1 \<le> rune_count (pm_identifier m) \<and> rune_count (pm_identifier m) \<le> 254
     \<and> 1 \<le> rune_count (pm_status m) \<and> rune_count (pm_status m) \<le> 64
     \<and> rune_count (pm_role m) \<le> 64"

definition valid_members :: "member list \<Rightarrow> member list \<times> bool" where
  "valid_members ms = (filter member_ok ms, list_all member_ok ms)"

text \<open>The outcome of a decoded response: an operational answer without its datum is incomplete.\<close>

definition missing_datum :: "read_endpoint \<Rightarrow> wire_response \<Rightarrow> bool" where
  "missing_datum ep w \<longleftrightarrow>
     (ep = EndpointSubscription \<and> wi_active_until w = None)
     \<or> (ep = EndpointCapacity \<and> (wi_seat_limit w = None \<or> wi_member_count w = None))
     \<or> (ep = EndpointPendingInvite \<and> wi_pending w = None)
     \<or> (ep = EndpointMembers \<and> wi_complete w = None)"

definition decoded_result :: "read_endpoint \<Rightarrow> instant \<Rightarrow> int \<Rightarrow> wire_response \<Rightarrow> read_result" where
  "decoded_result ep clock st w =
    (let oc1 = classify st (wi_error_code w) None;
         oc2 = (if oc1 = Operational \<and> missing_datum ep w then Incomplete else oc1);
         done1 = (case wi_complete w of None \<Rightarrow> CompletenessUnknown | Some b \<Rightarrow> if b then Complete else Partial);
         bad = (ep = EndpointMembers \<and> \<not> snd (valid_members (wi_members w)));
         oc3 = (if bad then Incomplete else oc2);
         oc = (if ep = EndpointMembers \<and> oc3 = Operational \<and> wi_complete w = None then Incomplete else oc3);
         hide = (oc \<noteq> Operational \<and> ep \<noteq> EndpointMembers) in
     \<lparr>rr_endpoint = ep, rr_outcome = Some oc, rr_http = st, rr_observed_at = clock,
      rr_active_until = (if hide then None else wi_active_until w),
      rr_seat_limit = (if hide then None else wi_seat_limit w),
      rr_member_count = (if hide then None else wi_member_count w),
      rr_pending = (if hide then None else wi_pending w),
      rr_completeness = (if bad then Partial else done1),
      rr_members = (if ep = EndpointMembers then fst (valid_members (wi_members w)) else wi_members w)\<rparr>)"

definition empty_result :: "read_endpoint \<Rightarrow> instant \<Rightarrow> int \<Rightarrow> read_outcome option \<Rightarrow> read_result" where
  "empty_result ep clock st oc =
     \<lparr>rr_endpoint = ep, rr_outcome = oc, rr_http = st, rr_observed_at = clock, rr_active_until = None,
      rr_seat_limit = None, rr_member_count = None, rr_pending = None,
      rr_completeness = CompletenessUnknown, rr_members = []\<rparr>"

definition read_workspace ::
  "decoders \<Rightarrow> platform_login \<Rightarrow> (http_request \<Rightarrow> http_reply) \<Rightarrow> instant \<Rightarrow> string \<Rightarrow> read_endpoint
     \<Rightarrow> request_error option \<times> read_result" where
  "read_workspace D c net clock workspace ep =
    (case net \<lparr>rq_method = ''GET'', rq_path = ''/workspaces/'' @ path_escape workspace @ ''/'' @ endpoint_text ep,
               rq_login = pl_login c, rq_password = pl_password c, rq_body = None\<rparr> of
       NotSent \<Rightarrow> (Some RequestInvalid, empty_result ep clock 0 None)
     | TransportFailed e \<Rightarrow> (Some (Transport e), empty_result ep clock 0 (Some (classify 0 [] (Some e))))
     | Replied st b \<Rightarrow>
        (case read_body b of
           None \<Rightarrow> (None, empty_result ep clock st (Some Incomplete))
         | Some s \<Rightarrow>
            (case if s = [] then None else dc_wire D s of
               None \<Rightarrow> (None, empty_result ep clock st (Some Incomplete))
             | Some w \<Rightarrow> (None, decoded_result ep clock st w))))"

definition read_members where
  "read_members D c net clock workspace = read_workspace D c net clock workspace EndpointMembers"

section \<open>Joining\<close>

record join_attempt =
  ja_http :: int
  ja_error :: string
  ja_semantic :: string
  ja_sent :: bool
  ja_may_have_effect :: bool
  ja_success :: bool

record membership_result =
  mr_present :: bool
  mr_complete :: bool
  mr_http :: int
  mr_error :: string
  mr_member_id :: string
  mr_observed_at :: instant

definition join_request ::
  "unicode \<Rightarrow> decoders \<Rightarrow> platform_login \<Rightarrow> (http_request \<Rightarrow> http_reply) \<Rightarrow> string \<Rightarrow> string
     \<Rightarrow> (request_error, int \<times> string \<times> string) result" where
  "join_request U D c net workspace suffix =
     rbind (do_json c net ''POST''
         (''/backend-api/accounts/'' @ path_escape (trim_space workspace) @ suffix) (Some ''{}''))
       (\<lambda>(st, body). Inr (st, upstream_code U (dc_syntax D) body, membership_semantic U (dc_syntax D) body))"

definition join_stage ::
  "unicode \<Rightarrow> decoders \<Rightarrow> platform_login \<Rightarrow> (http_request \<Rightarrow> http_reply) \<Rightarrow> string \<Rightarrow> string
     \<Rightarrow> request_error option \<times> join_attempt" where
  "join_stage U D c net workspace suffix =
    (case join_request U D c net workspace suffix of
       Inl e \<Rightarrow> (Some e, \<lparr>ja_http = 0, ja_error = [], ja_semantic = [], ja_sent = True,
                     ja_may_have_effect = True, ja_success = False\<rparr>)
     | Inr (st, code, sem) \<Rightarrow>
        (None, \<lparr>ja_http = st, ja_error = code, ja_semantic = sem, ja_sent = True,
           ja_may_have_effect = request_may_have_side_effect st (success_status st) code,
           ja_success = success_status st\<rparr>))"

definition request_join where
  "request_join U D c net workspace = join_stage U D c net workspace ''/invites/request''"

definition accept_join where
  "accept_join U D c net workspace = join_stage U D c net workspace ''/invites/accept''"

definition join_workspace ::
  "unicode \<Rightarrow> decoders \<Rightarrow> platform_login \<Rightarrow> (http_request \<Rightarrow> http_reply) \<Rightarrow> (http_request \<Rightarrow> http_reply)
     \<Rightarrow> string \<Rightarrow> request_error option \<times> join_attempt" where
  "join_workspace U D c net1 net2 workspace =
    (let (e, r) = request_join U D c net1 workspace in
     if e \<noteq> None \<or> request_terminates (ja_error r) \<or> \<not> ja_may_have_effect r then (e, r)
     else accept_join U D c net2 workspace)"

definition member_named :: "unicode \<Rightarrow> string \<Rightarrow> member \<Rightarrow> bool" where
  "member_named U identifier m \<longleftrightarrow>
     pm_kind m = ''member'' \<and> equal_fold U (trim_space (pm_identifier m)) (trim_space identifier)"

definition verify_membership ::
  "unicode \<Rightarrow> decoders \<Rightarrow> platform_login \<Rightarrow> (http_request \<Rightarrow> http_reply) \<Rightarrow> instant \<Rightarrow> string \<Rightarrow> string
     \<Rightarrow> request_error option \<times> membership_result" where
  "verify_membership U D c net clock workspace identifier =
    (let nothing = \<lparr>mr_present = False, mr_complete = False, mr_http = 0, mr_error = [],
                    mr_member_id = [], mr_observed_at = clock\<rparr> in
     case do_json c net ''GET'' (''/workspaces/'' @ path_escape (trim_space workspace) @ ''/members'') None of
       Inl e \<Rightarrow> (Some e, nothing)
     | Inr (st, body) \<Rightarrow>
        if \<not> success_status st
        then (None, nothing\<lparr>mr_http := st, mr_error := upstream_code U (dc_syntax D) body\<rparr>)
        else
          (case if body = [] then None else dc_members D body of
             Some (Some flag, ms) \<Rightarrow>
              (let whole = (flag \<and> snd (valid_members ms));
                   seen = nothing\<lparr>mr_http := st, mr_complete := whole\<rparr> in
               case find (member_named U identifier) (fst (valid_members ms)) of
                 Some m \<Rightarrow> (None, seen\<lparr>mr_present := True, mr_member_id := pm_id m\<rparr>)
               | None \<Rightarrow> (None, if whole then seen else seen\<lparr>mr_error := ''incomplete_membership_fact''\<rparr>))
           | _ \<Rightarrow> (None, nothing\<lparr>mr_http := st, mr_error := ''incomplete_response''\<rparr>)))"

section \<open>Removing\<close>

record removal_answer =
  ra_http :: int
  ra_error :: string
  ra_accepted :: bool
  ra_retryable :: bool
  ra_may_have_effect :: bool

definition live_members :: "member list \<Rightarrow> member list" where
  "live_members ms = filter (\<lambda>m. pm_kind m = ''member'') ms"

definition snapshot_members ::
  "decoders \<Rightarrow> platform_login \<Rightarrow> (http_request \<Rightarrow> http_reply) \<Rightarrow> instant \<Rightarrow> string
     \<Rightarrow> (request_error, read_result) result" where
  "snapshot_members D c net clock workspace =
    (case read_members D c net clock workspace of
       (Some e, _) \<Rightarrow> Inl e
     | (None, r) \<Rightarrow>
        if rr_outcome r = Some Operational \<and> rr_completeness r = Complete
           \<and> rr_member_count r = Some (int (length (live_members (rr_members r))))
        then Inr r else Inl SnapshotInexact)"

definition remove_member ::
  "unicode \<Rightarrow> decoders \<Rightarrow> platform_login \<Rightarrow> (http_request \<Rightarrow> http_reply) \<Rightarrow> string \<Rightarrow> string
     \<Rightarrow> request_error option \<times> removal_answer" where
  "remove_member U D c net workspace live =
    (let ws = trim_space workspace; i = trim_space live in
     if ws = [] \<or> i = []
     then (Some RequestInvalid, \<lparr>ra_http = 0, ra_error = [], ra_accepted = False, ra_retryable = False,
             ra_may_have_effect = False\<rparr>)
     else
       (case do_json c net ''DELETE''
           (''/backend-api/accounts/'' @ path_escape ws @ ''/users/'' @ path_escape i) None of
          Inl e \<Rightarrow> (Some e, \<lparr>ra_http = 0, ra_error = [], ra_accepted = False, ra_retryable = True,
                       ra_may_have_effect = True\<rparr>)
        | Inr (st, body) \<Rightarrow>
           (let code = upstream_code U (dc_syntax D) body in
            (None, \<lparr>ra_http = st, ra_error = code, ra_accepted = success_status st,
               ra_retryable = (st = 408 \<or> st = 429 \<or> 500 \<le> st),
               ra_may_have_effect = request_may_have_side_effect st (success_status st) code\<rparr>))))"

section \<open>Probing an account\<close>

record probe_result =
  pr_status :: string
  pr_endpoint :: string
  pr_origin :: string
  pr_http :: int
  pr_error :: string
  pr_observed_at :: instant

definition probe_target ::
  "unicode \<Rightarrow> decoders \<Rightarrow> platform_login \<Rightarrow> (http_request \<Rightarrow> http_reply) \<Rightarrow> instant
     \<Rightarrow> request_error option \<times> probe_result" where
  "probe_target U D c net clock =
    (let p = (\<lambda>st http code. \<lparr>pr_status = target_status_text st, pr_endpoint = ''account_usage'',
                pr_origin = ''worker'', pr_http = http, pr_error = code, pr_observed_at = clock\<rparr>) in
     case net \<lparr>rq_method = ''GET'', rq_path = ''/backend-api/wham/usage'', rq_login = pl_login c,
               rq_password = pl_password c, rq_body = None\<rparr> of
       NotSent \<Rightarrow> (Some RequestInvalid, p TargetUnknown 0 ''request_invalid'')
     | TransportFailed e \<Rightarrow>
         (Some (Transport e), p (classify_target_probe U 0 [] (Some e) False) 0 ''transport_failure'')
     | Replied st b \<Rightarrow>
        (case read_body b of
           None \<Rightarrow> (None, p (classify_target_probe U st [] None True) st ''incomplete_response'')
         | Some s \<Rightarrow>
            (let malformed = (s = [] \<or> decode_map (dc_syntax D) s = None);
                 found = target_probe_error_code U (dc_syntax D) s;
                 code = (if malformed \<and> found = [] then ''invalid_response'' else found) in
             (None, p (classify_target_probe U st code None malformed) st code))))"

section \<open>Laws\<close>

lemma classify_operational [simp]: "classify st code None = Operational \<longleftrightarrow> success_status st"
  by (auto simp: classify_def success_status_def)

lemma member_ok_id: "member_ok m \<Longrightarrow> pm_kind m = ''member'' \<Longrightarrow> pm_id m \<noteq> []"
  by (auto simp: member_ok_def)

text \<open>A whole member list is the one that was sent, and its outcome decides nothing else.\<close>

lemma read_members_complete:
  assumes "read_members D c net clock ws = (None, r)"
    and "rr_outcome r = Some Operational" and "rr_completeness r = Complete"
  obtains st s w where
    "net \<lparr>rq_method = ''GET'', rq_path = ''/workspaces/'' @ path_escape ws @ ''/workspace_members'',
         rq_login = pl_login c, rq_password = pl_password c, rq_body = None\<rparr> = Replied st (Some s)"
    and "length s \<le> max_response_body" and "success_status st" and "dc_wire D s = Some w"
    and "wi_complete w = Some True" and "list_all member_ok (wi_members w)" and "r = decoded_result EndpointMembers clock st w"
proof -
  obtain st b where net: "net \<lparr>rq_method = ''GET'', rq_path = ''/workspaces/'' @ path_escape ws @ ''/workspace_members'',
         rq_login = pl_login c, rq_password = pl_password c, rq_body = None\<rparr> = Replied st b"
    using assms(1) by (auto simp: read_members_def read_workspace_def split: http_reply.splits)
  obtain s where b: "b = Some s" and le: "length s \<le> max_response_body" and s: "read_body b = Some s"
    using assms(1,2) net
    by (auto simp: read_members_def read_workspace_def read_body_def empty_result_def split: option.splits if_splits)
  obtain w where w: "dc_wire D s = Some w" and r: "r = decoded_result EndpointMembers clock st w"
    using assms(1,2) net s
    by (auto simp: read_members_def read_workspace_def empty_result_def split: option.splits if_splits)
  have "snd (valid_members (wi_members w))" "success_status st"
    using assms(2) by (auto simp: r decoded_result_def Let_def split: if_splits)
  moreover have "wi_complete w = Some True"
    using assms(3) by (auto simp: r decoded_result_def Let_def split: if_splits option.splits)
  ultimately show thesis
    using that net le w r unfolding b valid_members_def snd_conv by metis
qed

text \<open>
  The removal worker only ever sees an exact member list: when SnapshotMembers returns a
  snapshot, the platform answered the membership request with a success status and a body of
  bounded size that declared itself complete, every listed entry is well formed, none was
  dropped, and the declared number of members is the number of member entries.
\<close>

theorem snapshot_is_exact:
  assumes "snapshot_members D c net clock ws = Inr r"
  shows "\<exists>st s w. net \<lparr>rq_method = ''GET'', rq_path = ''/workspaces/'' @ path_escape ws @ ''/workspace_members'',
           rq_login = pl_login c, rq_password = pl_password c, rq_body = None\<rparr> = Replied st (Some s)
         \<and> 200 \<le> st \<and> st < 300 \<and> length s \<le> 1048576
         \<and> dc_wire D s = Some w \<and> wi_complete w = Some True \<and> list_all member_ok (wi_members w)
         \<and> rr_members r = wi_members w
         \<and> wi_member_count w = Some (int (length (live_members (wi_members w))))"
proof -
  have rd: "read_members D c net clock ws = (None, r)" and oc: "rr_outcome r = Some Operational"
    and cm: "rr_completeness r = Complete"
    and n: "rr_member_count r = Some (int (length (live_members (rr_members r))))"
    using assms by (auto simp: snapshot_members_def split: prod.splits option.splits if_splits)
  from read_members_complete [OF rd oc cm] obtain st s w where
    net: "net \<lparr>rq_method = ''GET'', rq_path = ''/workspaces/'' @ path_escape ws @ ''/workspace_members'',
         rq_login = pl_login c, rq_password = pl_password c, rq_body = None\<rparr> = Replied st (Some s)"
    and rest: "length s \<le> max_response_body" "success_status st" "dc_wire D s = Some w"
      "wi_complete w = Some True" "list_all member_ok (wi_members w)"
    and r: "r = decoded_result EndpointMembers clock st w" .
  have ms: "rr_members r = wi_members w"
    using rest(5) by (auto simp: r decoded_result_def valid_members_def Let_def list_all_iff)
  moreover have "rr_member_count r = wi_member_count w"
    by (simp add: r decoded_result_def Let_def)
  ultimately show ?thesis
    using net rest n by (auto simp: success_status_def max_response_body_def)
qed

definition sample_member :: "string \<Rightarrow> string \<Rightarrow> string \<Rightarrow> member" where
  "sample_member i ident role =
     \<lparr>pm_kind = ''member'', pm_id = i, pm_account_user = [], pm_identifier = ident, pm_status = ''active'',
      pm_role = role, pm_seat_type = []\<rparr>"

definition sample_wire :: wire_response where
  "sample_wire = \<lparr>wi_error_code = [], wi_active_until = None, wi_seat_limit = None, wi_member_count = Some 1,
     wi_pending = None, wi_complete = Some True, wi_members = [sample_member ''m1'' ''o'' ''owner'']\<rparr>"

definition sample_decoders :: decoders where
  "sample_decoders = \<lparr>dc_syntax = (\<lambda>_. None), dc_wire = (\<lambda>_. Some sample_wire), dc_members = (\<lambda>_. None)\<rparr>"

lemma rune_count_singleton [simp]: "rune_count [c] = 1"
  by (subst rune_count.simps) (simp add: rune_count.simps Suc_le_eq rune_len_pos)

theorem snapshot_is_exact_witness:
  "snapshot_members sample_decoders \<lparr>pl_login = ''l'', pl_password = ''p''\<rparr> (\<lambda>_. Replied 200 (Some ''{}'')) 0 ''w''
     = Inr (decoded_result EndpointMembers 0 200 sample_wire)
   \<and> (\<exists>s w. dc_wire sample_decoders s = Some w \<and> list_all member_ok (wi_members w))"
proof -
  have ok: "member_ok (sample_member ''m1'' ''o'' ''owner'')"
    using rune_count_le_length [of "''active''"] rune_count_le_length [of "''owner''"]
    by (simp add: member_ok_def sample_member_def rune_count.simps [of "''active''"])
  have "snapshot_members sample_decoders \<lparr>pl_login = ''l'', pl_password = ''p''\<rparr> (\<lambda>_. Replied 200 (Some ''{}'')) 0 ''w''
     = Inr (decoded_result EndpointMembers 0 200 sample_wire)"
    using ok
    by (simp add: snapshot_members_def read_members_def read_workspace_def read_body_def max_response_body_def
        sample_decoders_def sample_wire_def decoded_result_def valid_members_def live_members_def success_status_def
        missing_datum_def sample_member_def Let_def)
  from snapshot_is_exact [OF this] this show ?thesis by blast
qed

end
