(* ===== verification/TargetService.thy ===== *)
theory TargetService
  imports TaskLaws PlatformReads
begin

text \<open>
  Package internal/target, file service.go: the publication of a target account probe.  It
  runs inside the transaction that settles the probe task: it normalises the diagnostic,
  fills in the defaults of the observation, updates the one credential row and writes the
  audit fact.  It is the publication callback of the task store, so it is interpreted as a
  \<open>publisher\<close> here.
\<close>

definition or_default :: "string \<Rightarrow> string \<Rightarrow> string" where
  "or_default v d = (if v = [] then d else v)"

definition probed_row ::
  "string \<Rightarrow> int option \<Rightarrow> string option \<Rightarrow> string \<Rightarrow> string \<Rightarrow> instant \<Rightarrow> credential_row \<Rightarrow> credential_row" where
  "probed_row status http code endpoint origin observed r =
     r\<lparr>cr_status := status, cr_http := http, cr_error := code, cr_endpoint := endpoint,
       cr_origin := origin, cr_probed_at := Some observed,
       cr_verified_at := (if status = ''available'' then Some observed else cr_verified_at r),
       cr_version := cr_version r + 1\<rparr>"

definition probe_event ::
  "string \<Rightarrow> string \<Rightarrow> string \<Rightarrow> string \<Rightarrow> string \<Rightarrow> string \<Rightarrow> int \<Rightarrow> string \<Rightarrow> instant \<Rightarrow> event" where
  "probe_event target corr key status endpoint origin http diagnostic observed =
     \<lparr>ev_type = TargetAccountProbed, ev_actor = ActorSystem, ev_owner_id = [], ev_scope_id = target,
      ev_entity_type = ''target_account'', ev_entity_id = target, ev_outcome = OutcomeSucceeded,
      ev_correlation = corr, ev_source_fp = [],
      ev_details = TargetProbeDetails status endpoint origin http diagnostic (rfc3339nano observed),
      ev_idem_key = key, ev_occurred_at = zero_time\<rparr>"

lemma probed_row_simps [simp]:
  "cr_target (probed_row st ht cd ep og obs r) = cr_target r"
  "cr_status (probed_row st ht cd ep og obs r) = st"
  "cr_error (probed_row st ht cd ep og obs r) = cd"
  by (simp_all add: probed_row_def)

text \<open>\<open>clock\<close> is time.Now() of the process, \<open>now\<close> the transaction's clock.\<close>

definition publish_probe ::
  "unicode \<Rightarrow> (string \<Rightarrow> string) \<Rightarrow> faults \<Rightarrow> string \<Rightarrow> instant \<Rightarrow> instant
    \<Rightarrow> probe_result \<Rightarrow> string \<Rightarrow> string \<Rightarrow> string \<Rightarrow> (store_error, 'z store_db_scheme, unit) tx" where
  "publish_probe U H flt gid now clock res corr key target =
    (let observed = (if is_zero_time (pr_observed_at res) then clock else pr_observed_at res);
         http = (if 0 < pr_http res then Some (pr_http res) else None);
         diagnostic = normalize_diagnostic U (pr_error res);
         code = (if diagnostic \<noteq> [] then Some diagnostic else None);
         status = or_default (pr_status res) (target_status_text TargetUnknown);
         endpoint = or_default (pr_endpoint res) ''account_usage'';
         origin = or_default (pr_origin res) ''worker'' in
     tx_bind (stmt flt 10 (exactly_one (\<lambda>db. affected (\<lambda>r. cr_target r = target) (credentials db))
        (\<lambda>db. db\<lparr>credentials := update_where (\<lambda>r. cr_target r = target)
                   (probed_row status http code endpoint origin observed) (credentials db)\<rparr>)
        ErrNoRows)) (\<lambda>_.
     tx_bind (write_audit H flt 11 gid now
       (probe_event target corr key status endpoint origin (pr_http res) diagnostic observed)) (\<lambda>_.
     tx_return ())))"

lemma publish_probe_safe: "safe_tx (publish_probe U H flt gid now clock res corr key target)"
proof -
  have "safe_tx (exactly_one n (\<lambda>db :: 'z store_db_scheme. db\<lparr>credentials := f db\<rparr>) e)" for n f e
    unfolding keeps_def exactly_one_Inr by (auto intro!: safe_same_queue)
  then show ?thesis unfolding publish_probe_def Let_def by (intro safe_intros)
qed

interpretation probe_publisher: publisher "publish_probe U H flt gid now clock res corr key"
  by unfold_locales (rule publish_probe_safe)

text \<open>What a probe publication stores, whatever the task does around it.\<close>

lemma publish_probe_Inr:
  assumes "publish_probe U H flt gid now clock res corr key target db = Inr (u, db')"
  obtains st ht cd ep og obs where
    "credentials db' = update_where (\<lambda>r. cr_target r = target)
       (probed_row st ht cd ep og obs) (credentials db)"
    and "affected (\<lambda>r. cr_target r = target) (credentials db) = 1"
    and "tasks db' = tasks db" and "valid_probe_status st" and "st = or_default (pr_status res) ''unknown''"
    and "cd \<in> (\<lambda>d. if d = [] then None else Some d) ` set (''diagnostic_other'' # diagnostics)"
proof -
  let ?st = "or_default (pr_status res) ''unknown''"
  let ?d = "normalize_diagnostic U (pr_error res)"
  let ?obs = "if is_zero_time (pr_observed_at res) then clock else pr_observed_at res"
  let ?f = "probed_row ?st (if 0 < pr_http res then Some (pr_http res) else None)
     (if ?d \<noteq> [] then Some ?d else None) (or_default (pr_endpoint res) ''account_usage'')
     (or_default (pr_origin res) ''worker'') ?obs"
  let ?ev = "probe_event target corr key ?st (or_default (pr_endpoint res) ''account_usage'')
     (or_default (pr_origin res) ''worker'') (pr_http res) ?d ?obs"
  have facts: "affected (\<lambda>r. cr_target r = target) (credentials db) = 1 \<and> (\<exists>i. write_audit H flt 11 gid now ?ev
       (db\<lparr>credentials := update_where (\<lambda>r. cr_target r = target) ?f (credentials db)\<rparr>) = Inr (i, db'))"
    using assms unfolding publish_probe_def Let_def tx_bind_Inr stmt_Inr exactly_one_Inr tx_return_Inr
      target_status_text.simps by blast
  then have one: "affected (\<lambda>r. cr_target r = target) (credentials db) = 1" ..
  from facts obtain i where w: "write_audit H flt 11 gid now ?ev
       (db\<lparr>credentials := update_where (\<lambda>r. cr_target r = target) ?f (credentials db)\<rparr>) = Inr (i, db')"
    by blast
  from write_audit_Inr [OF w] obtain es where db': "db' = db\<lparr>credentials :=
      update_where (\<lambda>r. cr_target r = target) ?f (credentials db), audit_events := audit_events db @ es\<rparr>"
    by auto
  obtain d sp where v: "validate ?ev = Inr (d, sp)"
    using w unfolding write_audit_def lift_audit_Inr by (blast dest: audit_write_ok_event)
  then have "valid_probe_status ?st"
    by (auto simp: validate_Inr probe_event_def spec_of_def details_ok_def)
  moreover have "(if ?d \<noteq> [] then Some ?d else None)
      \<in> (\<lambda>d. if d = [] then None else Some d) ` set (''diagnostic_other'' # diagnostics)"
    using normalize_diagnostic_vocabulary [of U "pr_error res"] by (intro image_eqI) auto
  ultimately show thesis
    using one by (intro that [of ?st]) (auto simp: db')
qed

text \<open>
  Publishing a probe.  When completing a probe task with the service's publication
  succeeds, the task was held under a valid lease and is now settled as succeeded, the one
  credential row of the task's target carries a status of the closed vocabulary and a
  diagnostic of the fixed list or none, its verification time moves only for an available
  account, and no other credential row changes.  When it fails, nothing changes at all.
\<close>

theorem probe_publication:
  assumes "complete_target_probe H flt gid now item
     (publish_probe U H flt' gid' now clock res corr key) db = (r, db')"
  shows "case r of
     Inl e \<Rightarrow> db' = db
   | Inr _ \<Rightarrow> \<exists>t\<in>set (tasks db). fenced (it_id item) (it_token item) now t \<and> tk_type t = TargetAccountProbe
       \<and> released Succeeded now t \<in> set (tasks db')
       \<and> (\<forall>c\<in>set (credentials db'). cr_target c = opt_str (tk_target t) \<longrightarrow>
            valid_probe_status (cr_status c)
            \<and> (case cr_error c of None \<Rightarrow> True | Some d \<Rightarrow> d \<in> set (''diagnostic_other'' # diagnostics)))
       \<and> (\<forall>c\<in>set (credentials db). cr_target c \<noteq> opt_str (tk_target t) \<longrightarrow> c \<in> set (credentials db'))
       \<and> (cr_verified_at ` set (credentials db') \<subseteq> cr_verified_at ` set (credentials db)
          \<or> or_default (pr_status res) ''unknown'' = ''available'')"
proof (cases r)
  case (Inl e)
  then have "db' = db"
    using assms unfolding complete_target_probe_def by (blast dest: in_tx_rollback)
  with Inl show ?thesis by simp
next
  case (Inr u)
  let ?P = "fenced (it_id item) (it_token item) now"
  have "\<exists>t db1 x y i. find_task (\<lambda>t. ?P t \<and> tk_type t = TargetAccountProbe) db = Some t
      \<and> publish_probe U H flt' gid' now clock res corr key (opt_str (tk_target t)) db = Inr (x, db1)
      \<and> write_audit H flt 3 gid now y
           (db1\<lparr>tasks := update_where ?P (released Succeeded now) (tasks db1)\<rparr>) = Inr (i, db')"
    using assms unfolding complete_target_probe_def Inr in_tx_Inr tx_bind_Inr stmt_Inr tx_return_Inr
      select_row_Inr update_one_def exactly_one_Inr
    by - (elim exE conjE, hypsubst, intro exI conjI, assumption+)
  then obtain t db1 x y i where sel: "find_task (\<lambda>t. ?P t \<and> tk_type t = TargetAccountProbe) db = Some t"
    and pub: "publish_probe U H flt' gid' now clock res corr key (opt_str (tk_target t)) db = Inr (x, db1)"
    and aud: "write_audit H flt 3 gid now y
       (db1\<lparr>tasks := update_where ?P (released Succeeded now) (tasks db1)\<rparr>) = Inr (i, db')"
    by blast
  have t: "t \<in> set (tasks db)" "?P t" "tk_type t = TargetAccountProbe"
    using sel by (auto simp: find_task_def find_Some_iff)
  from pub obtain st ht cd ep og obs where
    c: "credentials db1 = update_where (\<lambda>r. cr_target r = opt_str (tk_target t))
         (probed_row st ht cd ep og obs) (credentials db)"
    and same: "tasks db1 = tasks db" and v: "valid_probe_status st" "st = or_default (pr_status res) ''unknown''"
      "cd \<in> (\<lambda>d. if d = [] then None else Some d) ` set (''diagnostic_other'' # diagnostics)"
    by (rule publish_probe_Inr)
  have db': "tasks db' = update_where ?P (released Succeeded now) (tasks db)"
      "credentials db' = credentials db1"
    using write_audit_Inr [OF aud] by (auto simp: same)
  have rel: "released Succeeded now t \<in> set (tasks db')"
    using t(1,2) by (auto simp: db' in_update_where)
  have cd: "case cd of None \<Rightarrow> True | Some d \<Rightarrow> d \<in> set (''diagnostic_other'' # diagnostics)"
    using v(3) by (auto split: if_splits)
  have vals: "valid_probe_status (cr_status c) \<and>
      (case cr_error c of None \<Rightarrow> True | Some d \<Rightarrow> d \<in> set (''diagnostic_other'' # diagnostics))"
    if "c \<in> set (credentials db')" "cr_target c = opt_str (tk_target t)" for c
  proof -
    obtain s where "c = (if cr_target s = opt_str (tk_target t) then probed_row st ht cd ep og obs s else s)"
      using \<open>c \<in> set (credentials db')\<close> unfolding db'(2) c in_update_where by blast
    then show ?thesis using \<open>cr_target c = _\<close> v(1) cd by (cases "cr_target s = opt_str (tk_target t)") simp_all
  qed
  have frame: "c \<in> set (credentials db')" if "c \<in> set (credentials db)" "cr_target c \<noteq> opt_str (tk_target t)" for c
    using that unfolding db'(2) c in_update_where by force
  have ver: "cr_verified_at ` set (credentials db') \<subseteq> cr_verified_at ` set (credentials db)" if "st \<noteq> ''available''"
  proof -
    have "cr_verified_at (probed_row st ht cd ep og obs r) = cr_verified_at r" for r
      using that by (simp add: probed_row_def)
    then show ?thesis unfolding db'(2) c by (auto simp: update_where_def)
  qed
  have a: "\<forall>c\<in>set (credentials db'). cr_target c = opt_str (tk_target t) \<longrightarrow> valid_probe_status (cr_status c)
      \<and> (case cr_error c of None \<Rightarrow> True | Some d \<Rightarrow> d \<in> set (''diagnostic_other'' # diagnostics))"
    by (intro ballI impI) (rule vals)
  have b: "\<forall>c\<in>set (credentials db). cr_target c \<noteq> opt_str (tk_target t) \<longrightarrow> c \<in> set (credentials db')"
    by (intro ballI impI) (rule frame)
  have d: "cr_verified_at ` set (credentials db') \<subseteq> cr_verified_at ` set (credentials db)
      \<or> or_default (pr_status res) ''unknown'' = ''available''"
    unfolding v(2) [symmetric] using ver by argo
  show ?thesis
    unfolding Inr sum.case by (rule bexI [OF _ t(1)]) (intro conjI t(2,3) rel a b d)
qed

text \<open>A store with one leased probe task and its credential row.\<close>

definition probe_task :: task_row where
  "probe_task = leased ''w'' 7 0 10
     (queued_task ''t1'' 0 TargetAccountProbe None (Some ''a1'') ''d1'' ''c1'' 3)"

definition probe_store :: store_db where
  "probe_store = empty_store\<lparr>tasks := [probe_task], credentials :=
     [\<lparr>cr_target = ''a1'', cr_status = ''unknown'', cr_http = None, cr_error = None,
       cr_endpoint = [], cr_origin = [], cr_probed_at = None, cr_verified_at = None, cr_version = 1\<rparr>]\<rparr>"

definition available_result :: probe_result where
  "available_result = \<lparr>pr_status = ''available'', pr_endpoint = [], pr_origin = [], pr_http = 200,
     pr_error = [], pr_observed_at = 3\<rparr>"

definition probe_run :: "(store_error, unit) result \<times> store_db" where
  "probe_run = complete_target_probe (\<lambda>s. s) (\<lambda>_. False) ''g'' 5 (returned_item probe_task)
     (publish_probe \<lparr>u_lower = id, u_upper = id, u_fold = (=)\<rparr> (\<lambda>s. s) (\<lambda>_. False) ''h'' 5 5
        available_result ''c1'' ''k1'') probe_store"

lemma publish_sample:
  "\<exists>es. publish_probe U (\<lambda>s. s) (\<lambda>_. False) ''h'' 5 5 available_result ''c1'' ''k1'' ''a1'' probe_store
     = Inr ((), probe_store\<lparr>credentials := [probed_row ''available'' (Some 200) None ''account_usage'' ''worker'' 3
         (hd (credentials probe_store))], audit_events := [es]\<rparr>)
     \<and> au_key es = stable_preimage (probe_event ''a1'' ''c1'' ''k1'' ''available'' ''account_usage'' ''worker'' 200 [] 3)"
proof -
  have d: "normalize_diagnostic U [] = []"
    by (simp add: normalize_diagnostic_def empty_normal diagnostics_def)
  let ?ev = "probe_event ''a1'' ''c1'' ''k1'' ''available'' ''account_usage'' ''worker'' 200 [] 3"
  have v: "validate ?ev = Inr (details_json (ev_details ?ev), the (registry TargetAccountProbed))"
    by (simp add: validate_Inr probe_event_def spec_of_def details_ok_def valid_probe_status_def
        owner_security_scope_def)
  show ?thesis
    by (simp add: publish_probe_def available_result_def d or_default_def is_zero_time_def time_defs
        tx_bind_def stmt_def exactly_one_def affected_def update_where_def write_audit_def
        lift_audit_def audit_write_def v tx_return_def probe_store_def empty_store_def Let_def)
       (simp add: stable_key_def)
qed

definition probe_end :: event where
  "probe_end = task_event TargetProbeEnded ''a1'' (returned_item probe_task) OutcomeSucceeded
     (task_details 1 ''target_probe_complete'' ''publish'') (''t1'' @ '':target-probe.ended:'' @ itoa 1)"

lemma validate_probe_end:
  "validate probe_end = Inr (details_json (ev_details probe_end), the (registry TargetProbeEnded))"
  by (simp add: validate_Inr probe_end_def task_event_def task_details_def spec_of_def details_ok_def
      valid_task_route_def owner_security_scope_def returned_item_def probe_task_def leased_def queued_task_def)

lemma different_types_different_keys:
  assumes "event_name (ev_type a) \<noteq> event_name (ev_type b)"
    and "length (event_name (ev_type a)) < 2 ^ 32" and "length (event_name (ev_type b)) < 2 ^ 32"
  shows "stable_preimage a \<noteq> stable_preimage b"
  using assms write_field_append_inj(1) [of "event_name (ev_type a)" _ "event_name (ev_type b)"]
  by (auto simp: stable_preimage_def)

lemma complete_target_probe_intro:
  assumes "select_row (find_task (\<lambda>t. fenced (it_id item) (it_token item) now t \<and> tk_type t = TargetAccountProbe))
      ErrLeaseLost db = Inr (t, db)"
    and "publish (opt_str (tk_target t)) db = Inr ((), db1)"
    and "update_one (fenced (it_id item) (it_token item) now) (released Succeeded now) db1 = Inr ((), db2)"
    and "write_audit H (\<lambda>_. False) 3 gid now
        (task_event TargetProbeEnded (opt_str (tk_target t)) item OutcomeSucceeded
          (task_details (it_attempt item) ''target_probe_complete'' ''publish'')
          (it_id item @ '':target-probe.ended:'' @ itoa (it_attempt item))) db2 = Inr (i, db3)"
  shows "complete_target_probe H (\<lambda>_. False) gid now item publish db = (Inr (), db3)"
  unfolding complete_target_probe_def in_tx_Inr tx_bind_Inr stmt_Inr tx_return_Inr
  using assms by blast

lemma complete_sample:
  "\<exists>db'. probe_run = (Inr (), db') \<and> map cr_target (credentials db') = [''a1'']"
proof -
  let ?U = "\<lparr>u_lower = id, u_upper = id, u_fold = (=)\<rparr>"
  obtain es where p: "publish_probe ?U (\<lambda>s. s) (\<lambda>_. False) ''h'' 5 5 available_result ''c1'' ''k1'' ''a1'' probe_store
     = Inr ((), probe_store\<lparr>credentials := [probed_row ''available'' (Some 200) None ''account_usage'' ''worker'' 3
         (hd (credentials probe_store))], audit_events := [es]\<rparr>)" (is "_ = Inr ((), ?db1)")
    and key: "au_key es = stable_preimage (probe_event ''a1'' ''c1'' ''k1'' ''available'' ''account_usage'' ''worker'' 200 [] 3)"
    using publish_sample by blast
  have item: "it_id (returned_item probe_task) = ''t1''" "it_token (returned_item probe_task) = 7"
      "it_attempt (returned_item probe_task) = 1" "tk_target probe_task = Some ''a1''"
    by (simp_all add: returned_item_def probe_task_def leased_def queued_task_def)
  have sel: "select_row (find_task (\<lambda>t. fenced ''t1'' 7 5 t \<and> tk_type t = TargetAccountProbe)) ErrLeaseLost probe_store
      = Inr (probe_task, probe_store)"
    by (simp add: select_row_def find_task_def probe_store_def fenced_def probe_task_def leased_def queued_task_def)
  have upd: "update_one (fenced ''t1'' 7 5) (released Succeeded 5) ?db1
      = Inr ((), ?db1\<lparr>tasks := [released Succeeded 5 probe_task]\<rparr>)"
    by (simp add: update_one_def exactly_one_def affected_def update_where_def fenced_def probe_store_def
        probe_task_def leased_def queued_task_def)
  have "au_key es \<noteq> stable_preimage probe_end"
    unfolding key by (rule different_types_different_keys) (simp_all add: probe_event_def probe_end_def task_event_def)
  then obtain row where aud: "write_audit (\<lambda>s. s) (\<lambda>_. False) 3 ''g'' 5 probe_end
      (?db1\<lparr>tasks := [released Succeeded 5 probe_task]\<rparr>)
    = Inr (''g'', ?db1\<lparr>tasks := [released Succeeded 5 probe_task], audit_events := [es] @ [row]\<rparr>)"
    by (simp add: write_audit_def lift_audit_def audit_write_def validate_probe_end stable_key_def Let_def
        del: registry.simps)
  have tgt: "opt_str (Some ''a1'') = ''a1''" by (simp add: opt_str_def)
  have "complete_target_probe (\<lambda>s. s) (\<lambda>_. False) ''g'' 5 (returned_item probe_task)
     (publish_probe ?U (\<lambda>s. s) (\<lambda>_. False) ''h'' 5 5 available_result ''c1'' ''k1'') probe_store
    = (Inr (), ?db1\<lparr>tasks := [released Succeeded 5 probe_task], audit_events := [es] @ [row]\<rparr>)"
    using aud unfolding probe_end_def
    by (intro complete_target_probe_intro [where t = probe_task and item = "returned_item probe_task"
          and now = 5 and publish = "publish_probe ?U (\<lambda>s. s) (\<lambda>_. False) ''h'' 5 5 available_result ''c1'' ''k1''",
          unfolded item tgt, OF sel p upd])
  then show ?thesis by (simp add: probe_run_def probe_store_def)
qed

theorem probe_publication_witness:
  "\<exists>t\<in>set (tasks probe_store). tk_type t = TargetAccountProbe
     \<and> released Succeeded 5 t \<in> set (tasks (snd probe_run))
     \<and> list_all (\<lambda>c. valid_probe_status (cr_status c)) (credentials (snd probe_run))"
proof -
  obtain db' where r: "probe_run = (Inr (), db')" "map cr_target (credentials db') = [''a1'']"
    using complete_sample by (elim exE conjE)
  obtain t where t: "t \<in> set (tasks probe_store)" "tk_type t = TargetAccountProbe"
      "released Succeeded 5 t \<in> set (tasks db')"
    and c: "\<forall>c\<in>set (credentials db'). cr_target c = opt_str (tk_target t) \<longrightarrow> valid_probe_status (cr_status c)"
    by (rule bexE [OF probe_publication [OF r(1) [unfolded probe_run_def], unfolded sum.case]])
       (elim conjE, rule that, assumption+, auto)
  have "opt_str (tk_target t) = ''a1''"
    using t(1) by (simp add: probe_store_def probe_task_def leased_def queued_task_def opt_str_def)
  moreover have "\<forall>c\<in>set (credentials db'). cr_target c = ''a1''"
    using r(2) by (auto simp flip: set_map)
  ultimately have "list_all (\<lambda>c. valid_probe_status (cr_status c)) (credentials db')"
    using c by (simp add: list_all_iff)
  moreover have "snd probe_run = db'" by (simp add: r(1))
  ultimately show ?thesis using t by (intro bexI [of _ t]) simp_all
qed

end
