(* ===== verification/TaskJoin.thy ===== *)
theory TaskJoin
  imports TaskOps TargetService
begin

text \<open>
  Package internal/task, file join.go: the durable boundary of a join.  A side effect on
  the platform is announced in the database before it is sent, the conclusion of an attempt
  is stored together with the operation, the batch, the audit facts and the follow-up
  tasks, and a join whose worker vanished becomes a read-only reconciliation task.
  \<open>accounts\<close> and \<open>workspaces\<close> are the tables of target accounts (the identifier and the
  opened password of an active account with complete material) and of workspaces (the
  platform's identifier), which the store only reads here.
\<close>

section \<open>Values\<close>

record join_target =
  jt_operation :: string
  jt_batch :: string
  jt_workspace :: string
  jt_target :: string
  jt_identifier :: string
  jt_password :: string
  jt_platform_workspace :: string
  jt_may_have_reached :: bool
  jt_stage :: string
  jt_started_at :: "instant option"

definition claim_join where
  "claim_join H flt lk tok gid now worker dur route = claim H flt lk tok gid now worker dur Join route"

definition claim_join_reconcile where
  "claim_join_reconcile H flt lk tok gid now worker dur route =
     claim H flt lk tok gid now worker dur JoinReconcile route"

text \<open>The rows a task of an operation belongs to; None when one of the inner joins is empty.\<close>

definition operation_rows ::
  "'z store_db_scheme \<Rightarrow> task_row \<Rightarrow> (op_target_row \<times> operation_row) option" where
  "operation_rows db t =
     (case find (\<lambda>r. Some (ot_id r) = tk_op_target t) (op_targets db) of
        None \<Rightarrow> None
      | Some r \<Rightarrow>
         (case find (\<lambda>o'. op_id o' = ot_operation r) (operations db) of
            None \<Rightarrow> None
          | Some o' \<Rightarrow> Some (r, o')))"

definition read_join_target ::
  "faults \<Rightarrow> (string \<Rightarrow> (string \<times> string) option) \<Rightarrow> (string \<Rightarrow> string option) \<Rightarrow> string
     \<Rightarrow> 'z store_db_scheme \<Rightarrow> (store_error, join_target) result" where
  "read_join_target flt accounts workspaces i db =
    (if flt 0 then Inl ErrDriver
     else case find (\<lambda>t. tk_id t = i \<and> (tk_type t = Join \<or> tk_type t = JoinReconcile)) (tasks db) of
       None \<Rightarrow> Inl ErrNoRows
     | Some t \<Rightarrow>
        (case operation_rows db t of
           None \<Rightarrow> Inl ErrNoRows
         | Some (r, o') \<Rightarrow>
            (case (accounts (opt_str (tk_target t)), workspaces (op_workspace o')) of
               (Some (ident, password), Some pw) \<Rightarrow>
                 if \<not> list_ex (\<lambda>b. ba_id b = op_batch o') (batches db) then Inl ErrNoRows
                 else Inr \<lparr>jt_operation = op_id o', jt_batch = op_batch o', jt_workspace = op_workspace o',
                   jt_target = opt_str (tk_target t), jt_identifier = ident, jt_password = password,
                   jt_platform_workspace = pw, jt_may_have_reached = ot_may_have_reached r,
                   jt_stage = opt_str (ot_stage r), jt_started_at = ot_started_at r\<rparr>
             | _ \<Rightarrow> Inl ErrNoRows)))"

definition join_fenced :: "task_item \<Rightarrow> instant \<Rightarrow> task_row \<Rightarrow> bool" where
  "join_fenced item now t \<longleftrightarrow>
     fenced (it_id item) (it_token item) now t \<and> (tk_type t = Join \<or> tk_type t = JoinReconcile)"

definition lock_join_task ::
  "faults \<Rightarrow> instant \<Rightarrow> task_item \<Rightarrow> (store_error, 'z store_db_scheme, unit) tx" where
  "lock_join_task flt now item =
     tx_bind (stmt flt 1 (select_row (find_task (join_fenced item now)) ErrLeaseLost)) (\<lambda>_. tx_return ())"

section \<open>Announcing a side effect\<close>

definition target_operation :: "string \<Rightarrow> 'z store_db_scheme \<Rightarrow> operation_row \<Rightarrow> bool" where
  "target_operation i db o' \<longleftrightarrow>
     map_option ot_operation (find (\<lambda>r. ot_id r = i) (op_targets db)) = Some (op_id o')"

definition join_started :: "string \<Rightarrow> instant \<Rightarrow> op_target_row \<Rightarrow> op_target_row" where
  "join_started stage now r =
     r\<lparr>ot_may_have_reached := True, ot_stage := Some stage,
       ot_started_at := coalesce (ot_started_at r) now, ot_status := ''running'',
       ot_last_attempt := Some now, ot_updated_at := now, ot_version := ot_version r + 1\<rparr>"

definition mark_join_side_effect_started ::
  "faults \<Rightarrow> instant \<Rightarrow> task_item \<Rightarrow> string
     \<Rightarrow> 'z store_db_scheme \<Rightarrow> (store_error, unit) result \<times> 'z store_db_scheme" where
  "mark_join_side_effect_started flt now item stage =
    (if stage \<noteq> ''request_join'' \<and> stage \<noteq> ''accept_join'' then (\<lambda>db. (Inl ErrInvalid, db))
     else in_tx flt 9 (tx_seq
       [lock_join_task flt now item,
        stmt flt 2 (\<lambda>db. one_operation
          (\<lambda>o'. target_operation (it_op_target item) db o' \<and> lease_free (it_token item) now o')
          (op_leased (it_id item) (it_token item) now) db),
        stmt flt 3 (one_target (\<lambda>r. ot_id r = it_op_target item) (join_started stage now))]))"

section \<open>Preflight\<close>

definition preflight_row ::
  "string \<Rightarrow> int \<Rightarrow> string \<Rightarrow> instant \<Rightarrow> instant \<Rightarrow> op_target_row \<Rightarrow> op_target_row" where
  "preflight_row status http diagnostic observed now r =
     r\<lparr>ot_status := ''running'', ot_preflight := status, ot_preflight_http := nullif 0 http,
       ot_preflight_error := nullif [] diagnostic, ot_preflight_origin := Some ''worker'',
       ot_preflight_at := Some observed, ot_updated_at := now, ot_version := ot_version r + 1\<rparr>"

definition record_join_preflight ::
  "unicode \<Rightarrow> (string \<Rightarrow> string) \<Rightarrow> faults \<Rightarrow> (nat \<Rightarrow> string) \<Rightarrow> instant \<Rightarrow> task_item \<Rightarrow> probe_result
     \<Rightarrow> 'z store_db_scheme \<Rightarrow> (store_error, unit) result \<times> 'z store_db_scheme" where
  "record_join_preflight U H flt gid now item res =
    (let status = or_default (pr_status res) (target_status_text TargetUnknown);
         diagnostic = normalize_diagnostic U (pr_error res);
         oc = (if status \<noteq> target_status_text TargetAvailable then OutcomeFailed else OutcomeSucceeded)
     in in_tx flt 9 (tx_seq
       [lock_join_task flt now item,
        stmt flt 2 (exec_targets (\<lambda>r. ot_id r = it_op_target item)
          (preflight_row status (pr_http res) diagnostic (pr_observed_at res) now)),
        audit_fact H flt 3 (gid 3) now
          (target_event JoinTargetPreflight (it_workspace item) (it_op_target item) (it_correlation item) oc
            (JoinTargetDetails status status ''preflight'' diagnostic)
            (it_id item @ '':join.preflight:'' @ rfc3339nano (pr_observed_at res)))]))"

section \<open>Conclusions\<close>

text \<open>INSERT of the membership, ON CONFLICT (batch, target) only its updated_at.\<close>

definition upsert_membership ::
  "string \<Rightarrow> instant \<Rightarrow> string \<Rightarrow> string \<Rightarrow> string \<Rightarrow> string \<Rightarrow> (store_error, 'z store_db_scheme, string) tx" where
  "upsert_membership i now batch target ot member = (\<lambda>db.
     case find (\<lambda>m. mb_batch m = batch \<and> mb_target m = target) (memberships db) of
       None \<Rightarrow> Inr (i, db\<lparr>memberships := memberships db @
         [\<lparr>mb_id = i, mb_batch = batch, mb_target = target, mb_join_target = ot,
           mb_member_id = nullif [] member, mb_state = ''active'', mb_joined_at = now,
           mb_removed_at = None, mb_service_ended = None, mb_retention_due = None,
           mb_updated_at = now, mb_version = 1\<rparr>]\<rparr>)
     | Some m \<Rightarrow> Inr (mb_id m, db\<lparr>memberships :=
         update_where (\<lambda>m. mb_batch m = batch \<and> mb_target m = target)
           (\<lambda>m. m\<lparr>mb_updated_at := now\<rparr>) (memberships db)\<rparr>))"

definition joined :: "string \<Rightarrow> op_target_row \<Rightarrow> op_target_row" where
  "joined mb r = r\<lparr>ot_target := None, ot_membership := Some mb\<rparr>"

definition finish_target ::
  "faults \<Rightarrow> (nat \<Rightarrow> string) \<Rightarrow> instant \<Rightarrow> task_item \<Rightarrow> join_target \<Rightarrow> string \<Rightarrow> string \<Rightarrow> string
     \<Rightarrow> membership_result option \<Rightarrow> (store_error, 'z store_db_scheme, unit) tx" where
  "finish_target flt gid now item target status outcome diagnostic member =
    (if status = ''succeeded'' then
       tx_bind (stmt flt 2 (upsert_membership (gid 2) now (jt_batch target) (jt_target target)
         (it_op_target item) (case member of None \<Rightarrow> [] | Some m \<Rightarrow> mr_member_id m))) (\<lambda>mb.
       tx_seq
         [stmt flt 3 (exec_targets (\<lambda>r. ot_id r = it_op_target item)
            (\<lambda>r. (joined mb (concluded status (Some outcome) (nullif [] diagnostic) (Some now) now r))
                   \<lparr>ot_last_attempt := Some now\<rparr>)),
          queue_delivery_generation flt 4 gid now (jt_workspace target) mb (it_correlation item)])
     else stmt flt 2 (exec_targets (\<lambda>r. ot_id r = it_op_target item)
       (\<lambda>r. (concluded status (Some outcome) (nullif [] diagnostic) (Some now) now r)
              \<lparr>ot_last_attempt := Some now\<rparr>)))"

definition finish_batch ::
  "instant \<Rightarrow> join_target \<Rightarrow> string \<Rightarrow> string \<Rightarrow> (store_error, 'z store_db_scheme, unit) tx" where
  "finish_batch now target status reason =
    (if status = ''succeeded'' then
       exec_batches
         (\<lambda>db b. ba_id b = jt_batch target
            \<and> \<not> (list_ex (\<lambda>o'. op_id o' = jt_operation target) (operations db)
                \<and> list_ex (\<lambda>r. ot_status r \<noteq> ''succeeded'') (targets_of (jt_operation target) db)))
         (\<lambda>_ b. b\<lparr>ba_status := ''serving'', ba_service_started := coalesce (ba_service_started b) now,
            ba_blocking := None, ba_updated_at := now, ba_version := ba_version b + 1\<rparr>)
     else
       exec_batches (\<lambda>_ b. ba_id b = jt_batch target)
         (\<lambda>_ b. b\<lparr>ba_status := ''joining'', ba_blocking := nullif [] reason,
            ba_updated_at := now, ba_version := ba_version b + 1\<rparr>))"

definition drop_join_lease ::
  "instant \<Rightarrow> string \<Rightarrow> uuid \<Rightarrow> (store_error, 'z store_db_scheme, unit) tx" where
  "drop_join_lease now i tok =
     exec_operations (\<lambda>_ o'. op_id o' = i \<and> op_lease_token o' = Some tok) (\<lambda>_. unleased now)"

definition join_event :: "string \<Rightarrow> event_type \<times> outcome" where
  "join_event status =
    (if status = ''succeeded'' then (JoinTargetSucceeded, OutcomeSucceeded)
     else if status = ''blocked'' \<or> status = ''unknown'' then (JoinTargetUnknown, OutcomeFailed)
     else (JoinTargetFailed, OutcomeFailed))"

definition queue_join_reconciliation ::
  "(string \<Rightarrow> string) \<Rightarrow> faults \<Rightarrow> nat \<Rightarrow> (nat \<Rightarrow> string) \<Rightarrow> instant \<Rightarrow> task_item \<Rightarrow> task_row \<Rightarrow> string
     \<Rightarrow> (store_error, 'z store_db_scheme, unit) tx" where
  "queue_join_reconciliation H flt k gid now item row stage =
     tx_bind (stmt flt k (upsert_task row)) (\<lambda>rid.
     audit_fact H flt (k + 1) (gid (k + 1)) now
       (task_event JoinReconciliationQueued (it_workspace item) (item\<lparr>it_id := rid\<rparr>) OutcomeSucceeded
         (task_details 1 ''queued'' stage) (rid @ '':reconciliation.queued'')))"

definition finish_join ::
  "unicode \<Rightarrow> (string \<Rightarrow> string) \<Rightarrow> faults \<Rightarrow> (nat \<Rightarrow> string) \<Rightarrow> instant \<Rightarrow> task_item \<Rightarrow> join_target
     \<Rightarrow> string \<Rightarrow> string \<Rightarrow> string \<Rightarrow> string \<Rightarrow> membership_result option
     \<Rightarrow> 'z store_db_scheme \<Rightarrow> (store_error, unit) result \<times> 'z store_db_scheme" where
  "finish_join U H flt gid now item target status outcome_code diagnostic_code stage member =
    (if status \<noteq> ''succeeded'' \<and> status \<noteq> ''failed'' \<and> status \<noteq> ''blocked'' \<and> status \<noteq> ''unknown''
     then (\<lambda>db. (Inl ErrInvalid, db))
     else
       (let outcome = normalize_diagnostic U outcome_code;
            diagnostic = normalize_diagnostic U diagnostic_code;
            reason = (if status = ''succeeded'' then [] else diagnostic) in
        in_tx flt 30 (tx_seq
          [lock_join_task flt now item,
           finish_target flt gid now item target status outcome diagnostic member,
           stmt flt 6 (refresh_join (jt_operation target) now),
           stmt flt 7 (finish_batch now target status reason),
           stmt flt 8 (drop_join_lease now (jt_operation target) (it_token item)),
           audit_fact H flt 9 (gid 9) now
             (target_event (fst (join_event status)) (it_workspace item) (it_op_target item)
               (it_correlation item) (snd (join_event status))
               (JoinTargetDetails status outcome stage diagnostic)
               (it_id item @ '':join.ended:'' @ status)),
           (if (status = ''blocked'' \<or> status = ''unknown'')
               \<and> stage \<noteq> ''egress_admission'' \<and> stage \<noteq> ''before_join_request''
            then queue_join_reconciliation H flt 11 gid now item
              (join_reconcile_task (gid 11) now (it_op_target item) (jt_workspace target)
                (jt_target target) None (''join-reconcile:'' @ it_op_target item) (it_correlation item))
              ''join_unknown''
            else tx_return ()),
           stmt flt 14 (update_one (fenced (it_id item) (it_token item) now) (released Succeeded now))])))"

text \<open>
  The reconciliation of a join is read only: a missing or incomplete answer of the platform
  is retried while attempts are left; a complete answer confirms the membership or leaves
  the target unresolved.
\<close>

definition requeued :: "instant \<Rightarrow> task_row \<Rightarrow> task_row" where
  "requeued now t =
     t\<lparr>tk_status := RetryWait, tk_available_at := now + 5 * second, tk_lease_owner := None,
       tk_lease_token := None, tk_lease_expires := None, tk_finished_at := None,
       tk_updated_at := now, tk_version := tk_version t + 1\<rparr>"

definition reconciled_event :: "task_item \<Rightarrow> outcome \<Rightarrow> string \<Rightarrow> event" where
  "reconciled_event item oc result =
     task_event JoinReconciliationDone (it_workspace item) item oc
       (task_details (it_attempt item) result ''membership_reconcile'')
       (it_id item @ '':reconciliation.done:'' @ itoa (it_attempt item))"

definition reconcile_incomplete ::
  "(string \<Rightarrow> string) \<Rightarrow> faults \<Rightarrow> (nat \<Rightarrow> string) \<Rightarrow> instant \<Rightarrow> task_item \<Rightarrow> join_target \<Rightarrow> string \<Rightarrow> int
     \<Rightarrow> (store_error, 'z store_db_scheme, unit) tx" where
  "reconcile_incomplete H flt gid now item target diagnostic mx =
    (let exhausted = mx \<le> it_attempt item;
         result = (if exhausted then ''reconciliation_attempts_exhausted'' else ''membership_unknown'');
         code = (if exhausted then ''reconciliation_attempts_exhausted''
                 else or_default diagnostic ''membership_unknown'') in
     tx_seq
       [stmt flt 3 (exec_targets (\<lambda>r. ot_id r = it_op_target item)
          (concluded ''unknown'' (Some ''platform_unknown'') (Some code) (Some now) now)),
        settle_join_aggregate flt 4 now (jt_operation target) (jt_batch target),
        stmt flt 6 (update_one (fenced (it_id item) (it_token item) now)
          (if exhausted then released Failed now else requeued now)),
        audit_fact H flt 7 (gid 7) now (reconciled_event item OutcomeFailed result)])"

definition reconcile_present ::
  "faults \<Rightarrow> (nat \<Rightarrow> string) \<Rightarrow> instant \<Rightarrow> task_item \<Rightarrow> join_target \<Rightarrow> string
     \<Rightarrow> (store_error, 'z store_db_scheme, unit) tx" where
  "reconcile_present flt gid now item target member =
     tx_bind (stmt flt 3 (upsert_membership (gid 3) now (jt_batch target) (jt_target target)
       (it_op_target item) member)) (\<lambda>mb.
     tx_seq
       [stmt flt 4 (exec_targets (\<lambda>r. ot_id r = it_op_target item)
          (\<lambda>r. joined mb (concluded ''succeeded'' (Some ''member_confirmed'') None (Some now) now r))),
        queue_delivery_generation flt 5 gid now (jt_workspace target) mb (it_correlation item),
        settle_join_aggregate flt 7 now (jt_operation target) (jt_batch target)])"

definition reconcile_absent ::
  "faults \<Rightarrow> instant \<Rightarrow> task_item \<Rightarrow> join_target \<Rightarrow> (store_error, 'z store_db_scheme, unit) tx" where
  "reconcile_absent flt now item target =
     tx_seq
       [stmt flt 3 (exec_targets (\<lambda>r. ot_id r = it_op_target item)
          (concluded ''unknown'' (Some ''platform_unknown'') (Some ''member_not_confirmed'') (Some now) now)),
        settle_join_aggregate flt 7 now (jt_operation target) (jt_batch target)]"

definition finish_join_reconciliation ::
  "unicode \<Rightarrow> (string \<Rightarrow> string) \<Rightarrow> faults \<Rightarrow> (nat \<Rightarrow> string) \<Rightarrow> instant \<Rightarrow> task_item \<Rightarrow> join_target
     \<Rightarrow> membership_result
     \<Rightarrow> 'z store_db_scheme \<Rightarrow> (store_error, unit) result \<times> 'z store_db_scheme" where
  "finish_join_reconciliation U H flt gid now item target member =
     in_tx flt 30
       (tx_bind (lock_join_task flt now item) (\<lambda>_.
        tx_bind (stmt flt 2 (select_row (find_task (\<lambda>t. tk_id t = it_id item)) ErrNoRows)) (\<lambda>t.
        if \<not> mr_complete member then
          reconcile_incomplete H flt gid now item target (normalize_diagnostic U (mr_error member))
            (tk_max_attempts t)
        else
          tx_seq
            [(if mr_present member
              then reconcile_present flt gid now item target (mr_member_id member)
              else reconcile_absent flt now item target),
             stmt flt 10 (update_one (fenced (it_id item) (it_token item) now) (released Succeeded now)),
             audit_fact H flt 11 (gid 11) now
               (reconciled_event item OutcomeSucceeded
                 (if mr_present member then ''member_confirmed'' else ''member_not_confirmed''))])))"

section \<open>Recovery and the owner's refresh\<close>

definition lease_order :: "task_row \<Rightarrow> int \<times> int" where
  "lease_order t = ((case tk_lease_expires t of None \<Rightarrow> 0 | Some e \<Rightarrow> e), tk_created_at t)"

definition lost_attempt ::
  "'z store_db_scheme \<Rightarrow> instant \<Rightarrow> (string \<Rightarrow> bool) \<Rightarrow> task_type \<Rightarrow> task_row \<Rightarrow> bool" where
  "lost_attempt db now lk ty t \<longleftrightarrow>
     tk_type t = ty \<and> tk_status t = Running \<and> expired now t \<and> \<not> lk (tk_id t)
     \<and> (case operation_rows db t of None \<Rightarrow> False | Some (r, _) \<Rightarrow> \<not> lk (ot_id r))"

definition first_lost ::
  "instant \<Rightarrow> (string \<Rightarrow> bool) \<Rightarrow> task_type \<Rightarrow> 'z store_db_scheme
     \<Rightarrow> (task_row \<times> op_target_row \<times> operation_row) option" where
  "first_lost now lk ty db =
    (case first_by lease_order (filter (lost_attempt db now lk ty) (tasks db)) of
       None \<Rightarrow> None
     | Some t \<Rightarrow> map_option (\<lambda>(r, o'). (t, r, o')) (operation_rows db t))"

definition recover_expired_join ::
  "(string \<Rightarrow> string) \<Rightarrow> faults \<Rightarrow> (string \<Rightarrow> bool) \<Rightarrow> (nat \<Rightarrow> string) \<Rightarrow> instant
     \<Rightarrow> 'z store_db_scheme \<Rightarrow> (store_error, bool) result \<times> 'z store_db_scheme" where
  "recover_expired_join H flt lk gid now =
     in_tx flt 30
       (tx_bind (stmt flt 1 (\<lambda>db. Inr (first_lost now lk Join db, db))) (\<lambda>found.
        case found of
          None \<Rightarrow> tx_return False
        | Some (t, r, o') \<Rightarrow>
           (let item = returned_item t in
            tx_bind (tx_seq
              [stmt flt 2 (exec_tasks (\<lambda>_ u. tk_id u = it_id item) (released Interrupted now)),
               stmt flt 3 (exec_targets (\<lambda>x. ot_id x = it_op_target item)
                 (concluded ''unknown'' (Some ''platform_unknown'') (Some ''lease_lost'') (Some now) now)),
               stmt flt 4 (exec_operations (\<lambda>_ x. op_id x = op_id o' \<and> op_lease_owner x = Some (it_id item))
                 (\<lambda>_. unleased now)),
               settle_join_aggregate flt 5 now (op_id o') (op_batch o'),
               tx_bind (stmt flt 7 (upsert_task
                 (join_reconcile_task (gid 7) now (it_op_target item) (it_workspace item) (it_target item)
                   (Some (it_id item)) (''join-reconcile-recovery:'' @ it_id item) (it_correlation item)))) (\<lambda>rid.
               tx_seq
                 [audit_fact H flt 8 (gid 8) now
                    (target_event JoinTargetUnknown (it_workspace item) (it_op_target item)
                      (it_correlation item) OutcomeFailed
                      (JoinTargetDetails ''unknown'' ''platform_unknown'' ''crash_recovery'' ''lease_lost'')
                      (it_id item @ '':join.recovered'')),
                  audit_fact H flt 10 (gid 10) now
                    (task_event JoinReconciliationQueued (it_workspace item) (item\<lparr>it_id := rid\<rparr>)
                      OutcomeSucceeded (task_details 1 ''queued'' ''crash_recovery'')
                      (rid @ '':reconciliation.queued''))])])
              (\<lambda>_. tx_return True))))"

text \<open>
  The subject of the owner's refresh is the newest blocked join of the batch that has an
  unresolved target; the account is that of the target or of its membership.
\<close>

definition unresolved_joins :: "string \<Rightarrow> 'z store_db_scheme \<Rightarrow> (operation_row \<times> op_target_row) list" where
  "unresolved_joins batch db =
     concat (map (\<lambda>o'. map (Pair o')
         (filter (\<lambda>r. ot_operation r = op_id o' \<and> unresolved_target r) (op_targets db)))
       (filter (\<lambda>o'. op_batch o' = batch \<and> op_type o' = ''join'' \<and> op_status o' = ''blocked'') (operations db)))"

definition target_account :: "'z store_db_scheme \<Rightarrow> op_target_row \<Rightarrow> string option" where
  "target_account db r =
    (case ot_target r of
       Some a \<Rightarrow> Some a
     | None \<Rightarrow> map_option mb_target (find (\<lambda>m. Some (mb_id m) = ot_membership r) (memberships db)))"

definition enqueue_join_reconciliation ::
  "(string \<Rightarrow> string) \<Rightarrow> faults \<Rightarrow> (nat \<Rightarrow> string) \<Rightarrow> instant \<Rightarrow> string \<Rightarrow> string \<Rightarrow> string
     \<Rightarrow> 'z store_db_scheme \<Rightarrow> (store_error, task_item \<times> bool) result \<times> 'z store_db_scheme" where
  "enqueue_join_reconciliation H flt gid now batch key corr =
     in_tx flt 30
       (tx_bind (stmt flt 1 (select_row
          (\<lambda>db. first_by (\<lambda>(o', _). - op_created_at o') (unresolved_joins batch db)) ErrNoRows)) (\<lambda>(o', r).
        tx_bind (select_row (\<lambda>db. target_account db r) ErrDriver) (\<lambda>account.
        let row = join_reconcile_task (gid 2) now (ot_id r) (op_workspace o') account None
              (''join-reconcile:'' @ ot_id r @ '':'' @ key) corr in
        tx_bind (stmt flt 2 (insert_task row)) (\<lambda>created.
        tx_bind (if created then tx_return row
                 else stmt flt 3 (select_row (find_task (same_key row)) ErrNoRows)) (\<lambda>t.
        tx_bind (audit_fact H flt 4 (gid 4) now
          (task_event JoinReconciliationQueued (op_workspace o') (returned_item t)
            OutcomeSucceeded (task_details 1 ''queued'' ''owner_refresh'') (tk_id t @ '':owner-refresh''))) (\<lambda>_.
        tx_return (returned_item t, created)))))))"

end
