(* ===== verification/TaskRemoval.thy ===== *)
theory TaskRemoval
  imports TaskJoin
begin

text \<open>
  Package internal/task, file removal.go: the durable boundary of a removal.  A DELETE is
  announced on the target (at most three times), only after the first target of the
  operation, the canary, has succeeded; an attempt ends confirmed, queued again, unknown or
  blocked; a removal whose worker vanished is retried facts first.
  The publication of the member snapshot (workspace.Service.PublishReadTx) is an argument,
  as in the source; None is the nil publisher.
\<close>

section \<open>Values\<close>

definition maximum_removal_side_effects :: int where
  "maximum_removal_side_effects = 3"

record manifest_entry =
  me_membership :: string
  me_identifier :: string
  me_ordinal :: int

record removal_target =
  rm_operation :: string
  rm_batch :: string
  rm_workspace :: string
  rm_membership :: string
  rm_target :: string
  rm_identifier :: string
  rm_platform_workspace :: string
  rm_owner_identifier :: string
  rm_owner_password :: string
  rm_ordinal :: int
  rm_may_have_reached :: bool
  rm_remove_attempts :: int
  rm_manifest :: "manifest_entry list"

definition claim_removal where
  "claim_removal H flt lk tok gid now worker dur route = claim H flt lk tok gid now worker dur Remove route"

definition claim_removal_reconciliation where
  "claim_removal_reconciliation H flt lk tok gid now worker dur route =
     claim H flt lk tok gid now worker dur RemoveReconcile route"

text \<open>
  The frozen subject of a removal.  \<open>identifiers\<close> is the table of target accounts,
  \<open>owners\<close> gives for an operation the platform workspace and the owner's login and opened
  password (workspace, binding, mother account and its credentials), None when one of
  these joins is empty or the secret does not open.
\<close>

definition manifest ::
  "(string \<Rightarrow> string option) \<Rightarrow> string \<Rightarrow> 'z store_db_scheme \<Rightarrow> manifest_entry list" where
  "manifest identifiers i db =
     concat (map (\<lambda>r.
       case find (\<lambda>m. Some (mb_id m) = ot_membership r) (memberships db) of
         None \<Rightarrow> []
       | Some m \<Rightarrow>
          (case identifiers (mb_target m) of
             None \<Rightarrow> []
           | Some ident \<Rightarrow> [\<lparr>me_membership = mb_id m, me_identifier = ident, me_ordinal = ot_ordinal r\<rparr>]))
       (sort_key ot_ordinal (targets_of i db)))"

definition read_removal_target ::
  "faults \<Rightarrow> (string \<Rightarrow> string option) \<Rightarrow> (operation_row \<Rightarrow> (string \<times> string \<times> string) option) \<Rightarrow> string
     \<Rightarrow> 'z store_db_scheme \<Rightarrow> (store_error, removal_target) result" where
  "read_removal_target flt identifiers owners i db =
    (if flt 0 then Inl ErrDriver
     else case find (\<lambda>t. tk_id t = i \<and> (tk_type t = Remove \<or> tk_type t = RemoveReconcile)) (tasks db) of
       None \<Rightarrow> Inl ErrNoRows
     | Some t \<Rightarrow>
        (case operation_rows db t of
           None \<Rightarrow> Inl ErrNoRows
         | Some (r, o') \<Rightarrow>
            (case find (\<lambda>m. Some (mb_id m) = tk_membership t \<and> ot_membership r = Some (mb_id m)
                          \<and> mb_batch m = op_batch o') (memberships db) of
               None \<Rightarrow> Inl ErrNoRows
             | Some m \<Rightarrow>
                (case (identifiers (mb_target m), owners o') of
                   (Some ident, Some (pw, owner, password)) \<Rightarrow>
                     if op_type o' \<noteq> ''remove'' then Inl ErrNoRows
                     else if flt 1 then Inl ErrDriver
                     else if manifest identifiers (op_id o') db = [] then Inl ErrInvalid
                     else Inr \<lparr>rm_operation = op_id o', rm_batch = op_batch o', rm_workspace = op_workspace o',
                       rm_membership = mb_id m, rm_target = mb_target m, rm_identifier = ident,
                       rm_platform_workspace = pw, rm_owner_identifier = owner, rm_owner_password = password,
                       rm_ordinal = ot_ordinal r, rm_may_have_reached = ot_may_have_reached r,
                       rm_remove_attempts = ot_remove_attempts r,
                       rm_manifest = manifest identifiers (op_id o') db\<rparr>
                 | _ \<Rightarrow> Inl ErrNoRows))))"

definition removal_fenced :: "task_item \<Rightarrow> instant \<Rightarrow> task_row \<Rightarrow> bool" where
  "removal_fenced item now t \<longleftrightarrow>
     fenced (it_id item) (it_token item) now t \<and> (tk_type t = Remove \<or> tk_type t = RemoveReconcile)"

definition lock_removal_task ::
  "faults \<Rightarrow> instant \<Rightarrow> task_item \<Rightarrow> (store_error, 'z store_db_scheme, unit) tx" where
  "lock_removal_task flt now item =
     tx_bind (stmt flt 1 (select_row (find_task (removal_fenced item now)) ErrLeaseLost)) (\<lambda>_. tx_return ())"

section \<open>Announcing a DELETE\<close>

definition removable :: "string \<Rightarrow> 'z store_db_scheme \<Rightarrow> op_target_row option" where
  "removable i db =
    (case find (\<lambda>r. ot_id r = i) (op_targets db) of
       None \<Rightarrow> None
     | Some r \<Rightarrow>
        if ot_ordinal r = 1 \<or>
           list_ex (\<lambda>c. ot_operation c = ot_operation r \<and> ot_ordinal c = 1 \<and> ot_status c = ''succeeded'')
             (op_targets db)
        then Some r else None)"

definition removal_started :: "string \<Rightarrow> instant \<Rightarrow> op_target_row \<Rightarrow> op_target_row" where
  "removal_started member now r =
     (concluded ''running'' None None None now r)
       \<lparr>ot_may_have_reached := True, ot_stage := Some ''remove_member'', ot_started_at := Some now,
        ot_live_member := Some member, ot_remove_attempts := ot_remove_attempts r + 1,
        ot_last_attempt := Some now\<rparr>"

definition mark_removal_side_effect_started ::
  "(string \<Rightarrow> string) \<Rightarrow> faults \<Rightarrow> (nat \<Rightarrow> string) \<Rightarrow> instant \<Rightarrow> task_item \<Rightarrow> string
     \<Rightarrow> 'z store_db_scheme \<Rightarrow> (store_error, unit) result \<times> 'z store_db_scheme" where
  "mark_removal_side_effect_started H flt gid now item member =
    (if member = [] then (\<lambda>db. (Inl ErrInvalid, db))
     else in_tx flt 9
       (tx_bind (lock_removal_task flt now item) (\<lambda>_.
        tx_bind (stmt flt 2 (select_row (removable (it_op_target item)) ErrLeaseLost)) (\<lambda>r.
        if maximum_removal_side_effects \<le> ot_remove_attempts r then tx_fail ErrInvalid
        else tx_seq
          [stmt flt 3 (one_operation (\<lambda>o'. op_id o' = ot_operation r \<and> lease_free (it_token item) now o')
             (\<lambda>o'. (op_leased (it_id item) (it_token item) now o')\<lparr>op_status := ''running'', op_completed_at := None\<rparr>)),
           stmt flt 4 (one_target
             (\<lambda>x. ot_id x = it_op_target item \<and> ot_remove_attempts x < maximum_removal_side_effects)
             (removal_started member now)),
           audit_fact H flt 5 (gid 5) now
             (target_event RemoveTargetAttempted (it_workspace item) (it_op_target item) (it_correlation item)
               OutcomeSucceeded
               (RemovalTargetDetails ''running'' ''delete_started'' ''remove_member'' (ot_remove_attempts r + 1))
               (it_id item @ '':remove.started:'' @ itoa (ot_remove_attempts r + 1)))]))))"

section \<open>Settling the task and its lease\<close>

definition settle_removal_task ::
  "instant \<Rightarrow> task_item \<Rightarrow> task_status \<Rightarrow> bool \<Rightarrow> (store_error, 'z store_db_scheme, unit) tx" where
  "settle_removal_task now item st retry =
     update_one (fenced (it_id item) (it_token item) now)
       (if retry then (\<lambda>t. (requeued now t)\<lparr>tk_status := st\<rparr>) else released st now)"

definition release_removal_operation_lease ::
  "instant \<Rightarrow> string \<Rightarrow> uuid \<Rightarrow> (store_error, 'z store_db_scheme, unit) tx" where
  "release_removal_operation_lease now i tok =
     exec_operations (\<lambda>_ o'. op_id o' = i \<and> (op_lease_token o' = None \<or> op_lease_token o' = Some tok))
       (\<lambda>_. unleased now)"

definition removed_member :: "instant \<Rightarrow> membership_row \<Rightarrow> membership_row" where
  "removed_member now m =
     m\<lparr>mb_state := ''removed'', mb_removed_at := coalesce (mb_removed_at m) now,
       mb_service_ended := coalesce (mb_service_ended m) now,
       mb_retention_due := coalesce (mb_retention_due m) (now + 7 * 24 * hour),
       mb_updated_at := now, mb_version := mb_version m + 1\<rparr>"

definition exec_members ::
  "(membership_row \<Rightarrow> bool) \<Rightarrow> (membership_row \<Rightarrow> membership_row) \<Rightarrow> (store_error, 'z store_db_scheme, unit) tx" where
  "exec_members P f = (\<lambda>db. Inr ((), db\<lparr>memberships := update_where P f (memberships db)\<rparr>))"

definition run_publisher ::
  "(string \<Rightarrow> (store_error, 'z store_db_scheme, unit) tx) option \<Rightarrow> string
     \<Rightarrow> (store_error, 'z store_db_scheme, unit) tx" where
  "run_publisher pub ws = (case pub of None \<Rightarrow> tx_return () | Some p \<Rightarrow> p ws)"

definition removal_event ::
  "event_type \<Rightarrow> task_item \<Rightarrow> outcome \<Rightarrow> string \<Rightarrow> string \<Rightarrow> string \<Rightarrow> string \<Rightarrow> event" where
  "removal_event ty item oc status result stage key =
     target_event ty (it_workspace item) (it_op_target item) (it_correlation item) oc
       (RemovalTargetDetails status result stage (it_attempt item)) (it_id item @ key)"

section \<open>Conclusions\<close>

definition finish_removal_confirmed ::
  "(string \<Rightarrow> string) \<Rightarrow> faults \<Rightarrow> (nat \<Rightarrow> string) \<Rightarrow> instant \<Rightarrow> task_item \<Rightarrow> removal_target
     \<Rightarrow> (string \<Rightarrow> (store_error, 'z store_db_scheme, unit) tx) option \<Rightarrow> string
     \<Rightarrow> 'z store_db_scheme \<Rightarrow> (store_error, unit) result \<times> 'z store_db_scheme" where
  "finish_removal_confirmed H flt gid now item target pub stage =
     in_tx flt 30
       (tx_bind (tx_seq
          [lock_removal_task flt now item,
           run_publisher pub (rm_workspace target),
           stmt flt 2 (exec_members (\<lambda>m. mb_id m = rm_membership target) (removed_member now)),
           stmt flt 3 (exec_targets (\<lambda>r. ot_id r = it_op_target item)
             (\<lambda>r. undoubted (concluded ''succeeded'' (Some ''remove_confirmed'') None (Some now) now r)))]) (\<lambda>_.
        tx_bind (settle_removal_aggregate flt 4 now (rm_operation target) (rm_batch target)) (\<lambda>ended.
        tx_seq
          [stmt flt 8 (release_removal_operation_lease now (rm_operation target) (it_token item)),
           stmt flt 9 (settle_removal_task now item Succeeded False),
           audit_fact H flt 10 (gid 10) now
             (removal_event RemoveTargetConfirmed item OutcomeSucceeded ''succeeded'' ''remove_confirmed'' stage
               '':remove.confirmed''),
           (if ended then audit_fact H flt 12 (gid 12) now
              \<lparr>ev_type = BatchServiceEnded, ev_actor = ActorSystem, ev_owner_id = [],
               ev_scope_id = it_workspace item, ev_entity_type = ''batch'', ev_entity_id = rm_batch target,
               ev_outcome = OutcomeSucceeded, ev_correlation = it_correlation item, ev_source_fp = [],
               ev_details = BatchDetails ''service_ended'', ev_idem_key = rm_batch target @ '':service-ended'',
               ev_occurred_at = zero_time\<rparr>
            else tx_return ())])))"

definition unconfirmed_row ::
  "string \<Rightarrow> string \<Rightarrow> string \<Rightarrow> bool \<Rightarrow> instant \<Rightarrow> op_target_row \<Rightarrow> op_target_row" where
  "unconfirmed_row status outcome diagnostic clear now r =
    (let x = concluded status (Some outcome) (Some diagnostic)
               (if status = ''blocked'' \<or> status = ''unknown'' then Some now else None) now r
     in if clear then undoubted x else x)"

definition finish_removal_unconfirmed ::
  "unicode \<Rightarrow> (string \<Rightarrow> string) \<Rightarrow> faults \<Rightarrow> (nat \<Rightarrow> string) \<Rightarrow> instant \<Rightarrow> task_item \<Rightarrow> removal_target
     \<Rightarrow> (string \<Rightarrow> (store_error, 'z store_db_scheme, unit) tx) option \<Rightarrow> string \<Rightarrow> string \<Rightarrow> string \<Rightarrow> string
     \<Rightarrow> bool \<Rightarrow> bool
     \<Rightarrow> 'z store_db_scheme \<Rightarrow> (store_error, unit) result \<times> 'z store_db_scheme" where
  "finish_removal_unconfirmed U H flt gid now item target pub status outcome diagnostic stage retry clear =
     in_tx flt 30
       (tx_seq
          [lock_removal_task flt now item,
           run_publisher pub (rm_workspace target),
           stmt flt 2 (exec_targets (\<lambda>r. ot_id r = it_op_target item)
             (unconfirmed_row status outcome (normalize_diagnostic U diagnostic) clear now)),
           stmt flt 3 (settle_removal_task now item (if retry then RetryWait else Failed) retry),
           stmt flt 4 (release_removal_operation_lease now (rm_operation target) (it_token item)),
           tx_bind (settle_removal_aggregate flt 5 now (rm_operation target) (rm_batch target)) (\<lambda>_. tx_return ()),
           audit_fact H flt 10 (gid 10) now
             (removal_event (if status = ''unknown'' then RemoveTargetUnknown else RemoveTargetBlocked) item
               OutcomeFailed status outcome stage ('':remove.unconfirmed:'' @ itoa (it_attempt item)))])"

definition finish_removal_retry where
  "finish_removal_retry U H flt gid now item target pub diagnostic stage =
     finish_removal_unconfirmed U H flt gid now item target pub
       ''queued'' ''remove_retry_scheduled'' diagnostic stage True True"

definition finish_removal_unknown where
  "finish_removal_unknown U H flt gid now item target diagnostic stage =
     finish_removal_unconfirmed U H flt gid now item target None
       ''unknown'' ''platform_unknown'' diagnostic stage True False"

definition finish_removal_blocked where
  "finish_removal_blocked U H flt gid now item target pub diagnostic stage =
     finish_removal_unconfirmed U H flt gid now item target pub
       ''blocked'' ''remove_blocked'' diagnostic stage False False"

definition resume_removal ::
  "(nat \<Rightarrow> string) \<Rightarrow> faults \<Rightarrow> instant \<Rightarrow> task_item \<Rightarrow> removal_target \<Rightarrow> (store_error, 'z store_db_scheme, unit) tx" where
  "resume_removal gid flt now item target =
    (if rm_remove_attempts target < maximum_removal_side_effects then
       tx_bind (stmt flt 3 (insert_task
         (removal_task (gid 3) now Remove (it_op_target item) (rm_membership target) (rm_workspace target)
           (Some (it_id item)) (''remove-resume:'' @ it_op_target item @ '':'' @ it_id item)
           (it_correlation item) 6))) (\<lambda>_. tx_return ())
     else tx_return ())"

definition finish_removal_reconciliation ::
  "(string \<Rightarrow> string) \<Rightarrow> faults \<Rightarrow> (nat \<Rightarrow> string) \<Rightarrow> instant \<Rightarrow> task_item \<Rightarrow> removal_target
     \<Rightarrow> (string \<Rightarrow> (store_error, 'z store_db_scheme, unit) tx) option \<Rightarrow> bool
     \<Rightarrow> 'z store_db_scheme \<Rightarrow> (store_error, unit) result \<times> 'z store_db_scheme" where
  "finish_removal_reconciliation H flt gid now item target pub present =
    (if \<not> present then finish_removal_confirmed H flt gid now item target pub ''reconciliation''
     else in_tx flt 30
       (tx_seq
          [lock_removal_task flt now item,
           run_publisher pub (rm_workspace target),
           stmt flt 2 (exec_targets (\<lambda>r. ot_id r = it_op_target item)
             (\<lambda>r. undoubted (concluded ''queued'' (Some ''remove_retry_scheduled'') (Some ''reconciled_present'')
                    None now r))),
           (if it_type item = RemoveReconcile
            then tx_seq [resume_removal gid flt now item target,
                         stmt flt 4 (settle_removal_task now item Succeeded False)]
            else stmt flt 4 (settle_removal_task now item RetryWait True)),
           tx_bind (settle_removal_aggregate flt 5 now (rm_operation target) (rm_batch target)) (\<lambda>_. tx_return ()),
           stmt flt 9 (release_removal_operation_lease now (rm_operation target) (it_token item)),
           audit_fact H flt 10 (gid 10) now
             (task_event RemoveReconciliationDone (it_workspace item) item OutcomeFailed
               (RemovalTargetDetails ''queued'' ''reconciled_present'' ''reconciliation'' (it_attempt item))
               (it_id item @ '':remove.reconciled:'' @ itoa (it_attempt item)))]))"

section \<open>Recovery and the owner's refresh\<close>

definition recover_expired_removal ::
  "(string \<Rightarrow> string) \<Rightarrow> faults \<Rightarrow> (string \<Rightarrow> bool) \<Rightarrow> (nat \<Rightarrow> string) \<Rightarrow> instant \<Rightarrow> instant
     \<Rightarrow> 'z store_db_scheme \<Rightarrow> (store_error, bool) result \<times> 'z store_db_scheme" where
  "recover_expired_removal H flt lk gid now clock =
     in_tx flt 30
       (tx_bind (stmt flt 1 (\<lambda>db. Inr (first_lost now lk Remove db, db))) (\<lambda>found.
        case found of
          None \<Rightarrow> tx_return False
        | Some (t, r, o') \<Rightarrow>
           (let item = returned_item t;
                exhausted = (tk_max_attempts t \<le> it_attempt item);
                status = (if exhausted then ''blocked''
                          else if ot_may_have_reached r then ''unknown'' else ''queued'');
                diagnostic = (if exhausted then ''remove_attempts_exhausted'' else ''lease_lost'');
                completed = (status = ''unknown'' \<or> status = ''blocked'');
                ev = (if ot_may_have_reached r \<and> \<not> exhausted then (RemoveTargetUnknown, ''unknown'')
                      else if \<not> exhausted then (RemoveTargetBlocked, ''queued'')
                      else (RemoveTargetBlocked, ''blocked'')) in
            tx_bind (tx_seq
              [stmt flt 2 (exec_tasks (\<lambda>_ u. tk_id u = it_id item)
                 (\<lambda>u. u\<lparr>tk_status := (if exhausted then Interrupted else RetryWait), tk_available_at := now,
                    tk_lease_owner := None, tk_lease_token := None, tk_lease_expires := None,
                    tk_finished_at := (if exhausted then Some clock else None), tk_updated_at := now,
                    tk_version := tk_version u + 1\<rparr>)),
               stmt flt 3 (exec_targets (\<lambda>x. ot_id x = it_op_target item)
                 (concluded status (Some (if completed then ''platform_unknown'' else ''remove_retry_scheduled''))
                   (Some diagnostic) (if completed then Some now else None) now)),
               stmt flt 4 (exec_operations (\<lambda>_ x. op_id x = op_id o' \<and> op_lease_owner x = Some (it_id item))
                 (\<lambda>_. unleased now)),
               tx_bind (settle_removal_aggregate flt 5 now (op_id o') (op_batch o')) (\<lambda>_. tx_return ()),
               audit_fact H flt 10 (gid 10) now
                 (removal_event (fst ev) item OutcomeFailed (snd ev) diagnostic ''crash_recovery''
                   ('':remove.recovered:'' @ itoa (it_attempt item)))])
              (\<lambda>_. tx_return True))))"

fun insert_tasks :: "task_row list \<Rightarrow> (store_error, 'z store_db_scheme, nat) tx" where
  "insert_tasks [] = tx_return 0"
| "insert_tasks (row # rows) =
     tx_bind (insert_task row) (\<lambda>created.
     tx_bind (insert_tasks rows) (\<lambda>n. tx_return ((if created then 1 else 0) + n)))"

definition removal_refresh_row ::
  "(nat \<Rightarrow> string) \<Rightarrow> instant \<Rightarrow> operation_row \<Rightarrow> string \<Rightarrow> string \<Rightarrow> nat \<times> op_target_row \<Rightarrow> task_row" where
  "removal_refresh_row gid now o' key corr kr =
     (removal_task (gid (fst kr)) now RemoveReconcile (ot_id (snd kr)) [] (op_workspace o') None
        (''remove-reconcile:'' @ ot_id (snd kr) @ '':'' @ key) corr 3)\<lparr>tk_membership := ot_membership (snd kr)\<rparr>"

definition removal_refresh_rows ::
  "(nat \<Rightarrow> string) \<Rightarrow> instant \<Rightarrow> operation_row \<Rightarrow> string \<Rightarrow> string \<Rightarrow> 'z store_db_scheme \<Rightarrow> task_row list" where
  "removal_refresh_rows gid now o' key corr db =
     map (removal_refresh_row gid now o' key corr)
       (enumerate 2 (filter unresolved_target (targets_of (op_id o') db)))"

definition enqueue_removal_reconciliation ::
  "faults \<Rightarrow> (nat \<Rightarrow> string) \<Rightarrow> instant \<Rightarrow> string \<Rightarrow> string \<Rightarrow> string
     \<Rightarrow> 'z store_db_scheme \<Rightarrow> (store_error, nat) result \<times> 'z store_db_scheme" where
  "enqueue_removal_reconciliation flt gid now batch key corr =
     in_tx flt 30
       (tx_bind (stmt flt 1 (select_row
          (\<lambda>db. first_by (\<lambda>o'. - op_created_at o')
             (filter (\<lambda>o'. op_batch o' = batch \<and> op_type o' = ''remove'' \<and> op_status o' = ''blocked'')
               (operations db))) ErrNoRows)) (\<lambda>o'.
        tx_bind (stmt flt 2 (\<lambda>db. insert_tasks (removal_refresh_rows gid now o' key corr db) db)) (\<lambda>n.
        if n = 0 then tx_fail ErrNoRows else tx_return n)))"

end
