(* ===== verification/TaskRecovery.thy ===== *)
theory TaskRecovery
  imports TaskRemoval
begin

text \<open>
  Package internal/task, file task.go: SettleExhausted, which interrupts an expired task
  that has no attempts left together with everything that hangs on it, RecoveryOpen, Get and
  EnqueueExpiredCleanups.
\<close>

definition recovery_open :: "faults \<Rightarrow> string option \<Rightarrow> (store_error, bool) result" where
  "recovery_open flt gate =
     (if flt 0 then Inl ErrDriver
      else case gate of None \<Rightarrow> Inl ErrNoRows | Some s \<Rightarrow> Inr (s = ''open''))"

definition get_task :: "faults \<Rightarrow> string \<Rightarrow> 'z store_db_scheme \<Rightarrow> (store_error, task_item) result" where
  "get_task flt i db =
     (if flt 0 then Inl ErrDriver
      else case find (\<lambda>t. tk_id t = i) (tasks db) of None \<Rightarrow> Inl ErrNoRows | Some t \<Rightarrow> Inr (returned_item t))"

section \<open>SettleExhausted\<close>

definition exhausted_attempt :: "instant \<Rightarrow> (string \<Rightarrow> bool) \<Rightarrow> task_row \<Rightarrow> bool" where
  "exhausted_attempt now lk t \<longleftrightarrow>
     tk_status t = Running \<and> expired now t \<and> tk_max_attempts t \<le> tk_attempts t \<and> \<not> lk (tk_id t)"

text \<open>The LEFT JOINs to the operation, with COALESCE to the empty text.\<close>

definition operation_keys :: "'z store_db_scheme \<Rightarrow> task_row \<Rightarrow> string \<times> string" where
  "operation_keys db t =
    (case find (\<lambda>r. Some (ot_id r) = tk_op_target t) (op_targets db) of
       None \<Rightarrow> ([], [])
     | Some r \<Rightarrow>
        (ot_operation r,
         (case find (\<lambda>o'. op_id o' = ot_operation r) (operations db) of None \<Rightarrow> [] | Some o' \<Rightarrow> op_batch o')))"

definition exec_assets ::
  "(asset_row \<Rightarrow> bool) \<Rightarrow> (asset_row \<Rightarrow> asset_row) \<Rightarrow> (store_error, 'z store_db_scheme, unit) tx" where
  "exec_assets P f = (\<lambda>db. Inr ((), db\<lparr>assets := update_where P f (assets db)\<rparr>))"

definition exhausted_asset :: "instant \<Rightarrow> asset_row \<Rightarrow> asset_row" where
  "exhausted_asset now a =
     a\<lparr>as_status := ''unavailable'', as_liveness := Some ''unknown'',
       as_error := Some ''reclaim_attempts_exhausted'', as_origin := Some ''reclaim'',
       as_unavailable_reason := Some ''reclaim_attempts_exhausted'',
       as_updated_at := now, as_version := as_version a + 1\<rparr>"

definition exhausted_reclaim ::
  "(string \<Rightarrow> string) \<Rightarrow> faults \<Rightarrow> (nat \<Rightarrow> string) \<Rightarrow> instant \<Rightarrow> task_item \<Rightarrow> (store_error, 'z store_db_scheme, unit) tx" where
  "exhausted_reclaim H flt gid now item =
     tx_seq
       [stmt flt 3 (exec_assets (\<lambda>a. as_id a = it_asset item) (exhausted_asset now)),
        stmt flt 4 (exec_tasks (\<lambda>_ t. tk_id t = it_id item)
          (\<lambda>t. t\<lparr>tk_reclaim_tier := None, tk_reclaim_result := Some ''attempts_exhausted'',
             tk_reclaim_probe := Some ''unknown'', tk_reclaim_stage := Some ''crash_recovery''\<rparr>)),
        tx_bind (stmt flt 5 (\<lambda>db. Inr (find (\<lambda>d. od_asset d = it_asset item) (orders db), db))) (\<lambda>found.
        case found of
          None \<Rightarrow> tx_return ()
        | Some d \<Rightarrow>
            if od_card d = [] then tx_return ()
            else audit_fact H flt 6 (gid 6) now
              \<lparr>ev_type = PublicReclaimUpdated, ev_actor = ActorSystem, ev_owner_id = [],
               ev_scope_id = od_card d, ev_entity_type = ''card'', ev_entity_id = od_card d,
               ev_outcome = OutcomeFailed, ev_correlation = it_correlation item, ev_source_fp = [],
               ev_details = PublicAccessDetails ''reclaim_status'' ''unknown'' [] ''attempts_exhausted'',
               ev_idem_key = it_id item @ '':reclaim-attempts-exhausted'', ev_occurred_at = zero_time\<rparr>)]"

definition exhausted_join ::
  "faults \<Rightarrow> instant \<Rightarrow> task_item \<Rightarrow> string \<times> string \<Rightarrow> (store_error, 'z store_db_scheme, unit) tx" where
  "exhausted_join flt now item keys =
     tx_seq
       [stmt flt 8 (exec_targets (\<lambda>r. ot_id r = it_op_target item)
          (concluded ''unknown'' (Some ''platform_unknown'')
            (Some (if it_type item = JoinReconcile then ''reconciliation_attempts_exhausted''
                   else ''attempts_exhausted'')) (Some now) now)),
        settle_join_aggregate flt 9 now (fst keys) (snd keys)]"

definition exhausted_removal ::
  "faults \<Rightarrow> instant \<Rightarrow> task_item \<Rightarrow> string \<times> string \<Rightarrow> (store_error, 'z store_db_scheme, unit) tx" where
  "exhausted_removal flt now item keys =
     tx_seq
       [stmt flt 11 (exec_targets (\<lambda>r. ot_id r = it_op_target item)
          (concluded ''blocked'' (Some ''platform_unknown'')
            (Some (if it_type item = RemoveReconcile then ''reconciliation_attempts_exhausted''
                   else ''remove_attempts_exhausted'')) (Some now) now)),
        tx_bind (settle_removal_aggregate flt 12 now (fst keys) (snd keys)) (\<lambda>_. tx_return ())]"

definition exhausted_credential :: "instant \<Rightarrow> credential_row \<Rightarrow> credential_row" where
  "exhausted_credential clock r =
     r\<lparr>cr_status := ''unknown'', cr_http := None, cr_error := Some ''attempts_exhausted'',
       cr_endpoint := ''account_usage'', cr_origin := ''worker'', cr_probed_at := Some clock,
       cr_version := cr_version r + 1\<rparr>"

definition exhausted_probe ::
  "(string \<Rightarrow> string) \<Rightarrow> faults \<Rightarrow> (nat \<Rightarrow> string) \<Rightarrow> instant \<Rightarrow> instant \<Rightarrow> task_item
     \<Rightarrow> (store_error, 'z store_db_scheme, unit) tx" where
  "exhausted_probe H flt gid now clock item =
     tx_seq
       [stmt flt 16 (exactly_one (\<lambda>db. affected (\<lambda>r. cr_target r = it_target item) (credentials db))
          (\<lambda>db. db\<lparr>credentials := update_where (\<lambda>r. cr_target r = it_target item)
             (exhausted_credential clock) (credentials db)\<rparr>) ErrInvalid),
        audit_fact H flt 17 (gid 17) now
          \<lparr>ev_type = TargetAccountProbed, ev_actor = ActorSystem, ev_owner_id = [],
           ev_scope_id = it_target item, ev_entity_type = ''target_account'', ev_entity_id = it_target item,
           ev_outcome = OutcomeFailed, ev_correlation = it_correlation item, ev_source_fp = [],
           ev_details = TargetProbeDetails ''unknown'' ''account_usage'' ''worker'' 0 ''attempts_exhausted''
             (rfc3339nano clock),
           ev_idem_key = it_id item @ '':target-account.probed:attempts-exhausted'',
           ev_occurred_at = zero_time\<rparr>]"

definition settle_exhausted ::
  "(string \<Rightarrow> string) \<Rightarrow> faults \<Rightarrow> (string \<Rightarrow> bool) \<Rightarrow> (nat \<Rightarrow> string) \<Rightarrow> instant \<Rightarrow> instant
     \<Rightarrow> 'z store_db_scheme \<Rightarrow> (store_error, bool) result \<times> 'z store_db_scheme" where
  "settle_exhausted H flt lk gid now clock =
     in_tx flt 30
       (tx_bind (stmt flt 1 (\<lambda>db. Inr (map_option (\<lambda>t. (t, operation_keys db t))
          (first_by lease_order (filter (exhausted_attempt now lk) (tasks db))), db))) (\<lambda>found.
        case found of
          None \<Rightarrow> tx_return False
        | Some (t, keys) \<Rightarrow>
           (let item = returned_item t; ty = it_type item in
            tx_bind (tx_seq
              [stmt flt 2 (update_one (\<lambda>u. tk_id u = it_id item \<and> tk_status u = Running \<and> expired now u)
                 (released Interrupted now)),
               (if ty = OAuthReclaim then exhausted_reclaim H flt gid now item else tx_return ()),
               (if ty = Join \<or> ty = JoinReconcile then exhausted_join flt now item keys else tx_return ()),
               (if ty = Remove \<or> ty = RemoveReconcile then exhausted_removal flt now item keys else tx_return ()),
               (if ty = TargetAccountProbe then exhausted_probe H flt gid now clock item else tx_return ()),
               audit_fact H flt 19 (gid 19) now
                 (task_event (fst (interruption_subject item)) (snd (interruption_subject item)) item OutcomeFailed
                   (task_details (it_attempt item) ''attempts_exhausted'' ''crash_recovery'')
                   (it_id item @ '':task.interrupted:attempts-exhausted''))])
              (\<lambda>_. tx_return True))))"

text \<open>
  EnqueueExpiredCleanups: one cleanup task per workspace that has something expired.  The
  UNION over the retained tables is the argument \<open>retained\<close>, together with what it reads of
  the modelled tables; the batch a membership belongs to has its workspace from \<open>binding\<close>.
\<close>

definition expired_workspaces ::
  "(string \<Rightarrow> string option) \<Rightarrow> string list \<Rightarrow> instant \<Rightarrow> 'z store_db_scheme \<Rightarrow> string list" where
  "expired_workspaces binding retained now db =
     sort (remdups (retained
       @ concat (map (\<lambda>m. case (mb_retention_due m, binding (mb_batch m)) of
            (Some d, Some ws) \<Rightarrow> if d \<le> now then [ws] else [] | _ \<Rightarrow> []) (memberships db))
       @ concat (map (\<lambda>t. case (tk_workspace t, tk_finished_at t) of
            (Some ws, Some f) \<Rightarrow> if terminal (tk_status t) \<and> f \<le> now - 7 * 24 * hour then [ws] else []
          | _ \<Rightarrow> []) (tasks db))))"

definition cleanup_task :: "(nat \<Rightarrow> string) \<Rightarrow> instant \<Rightarrow> string \<Rightarrow> nat \<times> string \<Rightarrow> task_row" where
  "cleanup_task gid now period kw =
     queued_task (gid (fst kw)) now WorkspaceFactCleanup (Some (snd kw)) None
       (''workspace-cleanup:'' @ snd kw @ '':'' @ period) (''workspace-cleanup:'' @ period) 5"

definition enqueue_expired_cleanups ::
  "faults \<Rightarrow> (nat \<Rightarrow> string) \<Rightarrow> (string \<Rightarrow> string option) \<Rightarrow> string list \<Rightarrow> instant \<Rightarrow> int \<Rightarrow> string
     \<Rightarrow> 'z store_db_scheme \<Rightarrow> (store_error, nat) result \<times> 'z store_db_scheme" where
  "enqueue_expired_cleanups flt gid binding retained now limit period =
    (if limit \<le> 0 \<or> 1000 < limit \<or> period = [] \<or> 32 < length period then (\<lambda>db. (Inl ErrInvalid, db))
     else run_tx (stmt flt 0 (\<lambda>db. insert_tasks
       (map (cleanup_task gid now period)
         (enumerate 0 (take (nat limit) (expired_workspaces binding retained now db)))) db)))"

end
