(* ===== verification/TaskHistory.thy ===== *)
theory TaskHistory
  imports TaskRecovery
begin

text \<open>
  Every operation of the store, those of task.go, join.go and removal.go together, is a
  safe transition (TaskLaws): the inductive \<open>store_step\<close> is any of them with any arguments,
  and its reachable states satisfy the constraints of the queue.
\<close>

section \<open>Statements\<close>

context transition_order begin

lemma keeps_seq_Nil: "keeps R (tx_seq [])"
  by (simp add: keeps_return)

lemma keeps_seq_Cons: "keeps R m \<Longrightarrow> keeps R (tx_seq ms) \<Longrightarrow> keeps R (tx_seq (m # ms))"
  by (auto intro: keeps_bind)

text \<open>A read that decides how the transaction goes on.\<close>

lemma keeps_read:
  assumes "\<And>s y t. g (f s) s = Inr (y, t) \<Longrightarrow> R s t"
  shows "keeps R (tx_bind (stmt flt k (\<lambda>s. Inr (f s, s))) g)"
  using assms by (auto simp: keeps_def tx_bind_Inr stmt_Inr)

end

lemmas safe_seq_intros = safety.keeps_seq_Nil safety.keeps_seq_Cons

lemma safe_exec_targets: "safe_tx (exec_targets P f)"
  and safe_exec_operations: "safe_tx (exec_operations Q g)"
  and safe_exec_batches: "safe_tx (exec_batches Q' g')"
  and safe_exec_members: "safe_tx (exec_members Q'' g'')"
  and safe_exec_assets: "safe_tx (exec_assets Q3 g3)"
  and safe_supersede: "safe_tx (supersede_attempts b now)"
  by (auto simp: keeps_def exec_targets_def exec_operations_def exec_batches_def exec_members_def
      exec_assets_def supersede_attempts_def intro!: safe_same_queue)

lemma safe_one_target: "safe_tx (one_target P f)"
  and safe_one_operation: "safe_tx (one_operation Q g)"
  by (auto simp: keeps_def one_target_def one_operation_def exactly_one_Inr intro!: safe_same_queue)

lemma safe_one_operation_read: "safe_tx (\<lambda>db. one_operation (Q db) g db)"
  by (auto simp: keeps_def one_operation_def exactly_one_Inr intro!: safe_same_queue)

lemma safe_one_credential:
  "safe_tx (exactly_one n (\<lambda>db. db\<lparr>credentials := update_where P f (credentials db)\<rparr>) e)"
  by (auto simp: keeps_def exactly_one_Inr intro!: safe_same_queue)

lemma safe_exec_tasks:
  "(\<And>db t. P db t \<Longrightarrow> row_step f t) \<Longrightarrow> safe_tx (exec_tasks P f)"
  by (auto simp: keeps_def exec_tasks_def intro!: safe_update)

lemma safe_upsert_asset: "safe_tx (upsert_asset i now mb)"
  and safe_upsert_membership: "safe_tx (upsert_membership i now b tg ot m)"
  by (auto simp: keeps_def upsert_asset_def upsert_membership_def split: option.splits intro!: safe_same_queue)

lemma safe_returned_operation: "safe_tx (returned_operation i now)"
  and safe_returned_batch: "safe_tx (returned_batch i st now)"
  by (auto simp: keeps_def returned_operation_def returned_batch_def Let_def split: if_splits intro!: safe_same_queue)

lemma touched_step: "row_step (\<lambda>r. r\<lparr>tk_updated_at := c\<rparr>) t"
  by (auto simp: row_step_def spent_def task_ok_def task_subject_ok_def Let_def settled_same_def split: task_type.splits)

lemma safe_insert_task: "safe_tx (insert_task row)"
  by (auto simp: keeps_def insert_task_def split: if_splits intro!: append_safe)

lemma safe_upsert_task: "safe_tx (upsert_task row)"
  by (auto simp: keeps_def upsert_task_def find_None_iff list_ex_iff split: if_splits option.splits
      intro!: append_safe safe_update touched_step)

lemma safe_insert_tasks: "safe_tx (insert_tasks rows)"
  by (induction rows) (auto intro!: safe_intros safe_insert_task)

lemma safe_audit_fact: "safe_tx (audit_fact H flt k gid now ev)"
  unfolding audit_fact_def by (intro safe_intros)

lemma requeued_step:
  assumes "tk_status t = Running"
  shows "row_step (requeued now) t"
  using assms
  by (auto simp: row_step_def spent_def requeued_def task_ok_def task_subject_ok_def Let_def split: task_type.splits)

lemma requeued_retry: "(requeued now t)\<lparr>tk_status := RetryWait\<rparr> = requeued now t"
  by (simp add: requeued_def)

lemmas statement_safe =
  safe_exec_targets safe_exec_operations safe_exec_batches safe_exec_members safe_exec_assets
  safe_supersede safe_one_target safe_one_operation safe_one_operation_read safe_one_credential
  safe_upsert_asset safe_upsert_membership safe_returned_operation safe_returned_batch
  safe_insert_task safe_upsert_task safe_insert_tasks safe_audit_fact

section \<open>The parts of the operations\<close>

lemma safe_lock_join: "safe_tx (lock_join_task flt now item)"
  and safe_lock_removal: "safe_tx (lock_removal_task flt now item)"
  unfolding lock_join_task_def lock_removal_task_def by (intro safe_intros)+

lemma safe_queue_delivery: "safe_tx (queue_delivery_generation flt k gid now ws mb corr)"
  unfolding queue_delivery_generation_def by (intro safe_intros statement_safe)

lemma safe_settle_join: "safe_tx (settle_join_aggregate flt k now i b)"
  unfolding settle_join_aggregate_def refresh_join_def by (intro safe_intros statement_safe safe_seq_intros)

lemma safe_settle_removal: "safe_tx (settle_removal_aggregate flt k now i b)"
proof -
  have "row_step (released Interrupted now) t"
    if "delivery_type (tk_type t)"
      and "tk_status t = Queued \<or> tk_status t = Running \<or> tk_status t = RetryWait" for t
    using that by (intro released_step) (auto simp: spent_def)
  then show ?thesis
    unfolding settle_removal_aggregate_def
    by (auto intro!: safe_intros statement_safe safe_seq_intros safe_exec_tasks)
qed

lemma safe_settle_task: "safe_tx (update_one (fenced i tok now) (released Succeeded now))"
  "safe_tx (update_one (fenced i tok now) (if x then released Failed now else requeued now))"
  by (auto intro!: safe_tx_update_one released_step requeued_step dest: fenced_unsettled fenced_unspent fenced_running)

lemma safe_settle_removal_task:
  "safe_tx (settle_removal_task now item Succeeded False)"
  "safe_tx (settle_removal_task now item Failed False)"
  "safe_tx (settle_removal_task now item RetryWait True)"
  by (auto simp: settle_removal_task_def requeued_retry
      intro!: safe_tx_update_one released_step requeued_step dest: fenced_unsettled fenced_unspent fenced_running)

lemmas part_safe =
  safe_lock_join safe_lock_removal safe_queue_delivery safe_settle_join safe_settle_removal
  safe_settle_task safe_settle_removal_task

lemma safe_finish_target: "safe_tx (finish_target flt gid now item target st oc dg member)"
  unfolding finish_target_def by (auto intro!: safe_intros statement_safe part_safe safe_seq_intros)

lemma safe_finish_batch: "safe_tx (finish_batch now target st reason)"
  unfolding finish_batch_def by (auto intro!: statement_safe)

lemma safe_queue_reconciliation: "safe_tx (queue_join_reconciliation H flt k gid now item row stage)"
  unfolding queue_join_reconciliation_def by (intro safe_intros statement_safe)

lemma safe_reconcile:
  "safe_tx (reconcile_incomplete H flt gid now item target dg mx)"
  "safe_tx (reconcile_present flt gid now item target m)"
  "safe_tx (reconcile_absent flt now item target)"
  unfolding reconcile_incomplete_def reconcile_present_def reconcile_absent_def Let_def
  by (intro safe_intros statement_safe part_safe safe_seq_intros)+

lemma safe_resume: "safe_tx (resume_removal gid flt now item target)"
  unfolding resume_removal_def by (auto intro!: safe_intros statement_safe)

definition safe_publisher ::
  "(string \<Rightarrow> (store_error, 'z store_db_scheme, unit) tx) option \<Rightarrow> bool" where
  "safe_publisher pub \<longleftrightarrow> (case pub of None \<Rightarrow> True | Some p \<Rightarrow> publisher p)"

lemma safe_run_publisher: "safe_publisher pub \<Longrightarrow> safe_tx (run_publisher pub ws)"
  by (auto simp: safe_publisher_def run_publisher_def publisher_def split: option.splits intro: safe_intros)

section \<open>Every operation is safe\<close>

lemma mark_join_safe: "safe db (snd (mark_join_side_effect_started flt now item stage db))"
  by (auto simp: mark_join_side_effect_started_def
      intro!: safe_in_tx safe_intros statement_safe part_safe safe_seq_intros)

lemma record_join_preflight_safe: "safe db (snd (record_join_preflight U H flt gid now item res db))"
  unfolding record_join_preflight_def Let_def
  by (intro safe_in_tx safe_intros statement_safe part_safe safe_seq_intros)

lemma finish_join_safe: "safe db (snd (finish_join U H flt gid now item target st oc dg stage member db))"
  by (auto simp: finish_join_def Let_def refresh_join_def drop_join_lease_def
      intro!: safe_in_tx safe_intros statement_safe part_safe safe_seq_intros safe_finish_target
        safe_finish_batch safe_queue_reconciliation)

lemma finish_join_reconciliation_safe:
  "safe db (snd (finish_join_reconciliation U H flt gid now item target member db))"
  unfolding finish_join_reconciliation_def
  by (auto intro!: safe_in_tx safe_intros statement_safe part_safe safe_seq_intros safe_reconcile)

lemma enqueue_join_reconciliation_safe:
  "safe db (snd (enqueue_join_reconciliation H flt gid now batch key corr db))"
  unfolding enqueue_join_reconciliation_def Let_def
  by (auto intro!: safe_in_tx safe_intros statement_safe split: prod.splits)

lemma mark_removal_safe: "safe db (snd (mark_removal_side_effect_started H flt gid now item member db))"
  by (auto simp: mark_removal_side_effect_started_def
      intro!: safe_in_tx safe_intros statement_safe part_safe safe_seq_intros)

lemma finish_removal_confirmed_safe:
  assumes "safe_publisher pub"
  shows "safe db (snd (finish_removal_confirmed H flt gid now item target pub stage db))"
  unfolding finish_removal_confirmed_def release_removal_operation_lease_def
  by (auto intro!: safe_in_tx safe_intros statement_safe part_safe safe_seq_intros
      safe_run_publisher [OF assms])

lemma finish_removal_unconfirmed_safe:
  assumes "safe_publisher pub"
  shows "safe db (snd (finish_removal_unconfirmed U H flt gid now item target pub st oc dg stage retry clear db))"
  unfolding finish_removal_unconfirmed_def release_removal_operation_lease_def
  by (cases retry)
     (auto intro!: safe_in_tx safe_intros statement_safe part_safe safe_seq_intros
        safe_run_publisher [OF assms])

lemma finish_removal_reconciliation_safe:
  assumes "safe_publisher pub"
  shows "safe db (snd (finish_removal_reconciliation H flt gid now item target pub present db))"
  unfolding finish_removal_reconciliation_def release_removal_operation_lease_def
  by (auto intro!: finish_removal_confirmed_safe [OF assms] safe_in_tx safe_intros statement_safe part_safe
      safe_seq_intros safe_run_publisher [OF assms] safe_resume)

lemma enqueue_removal_reconciliation_safe:
  "safe db (snd (enqueue_removal_reconciliation flt gid now batch key corr db))"
proof -
  have "safe_tx (\<lambda>db. insert_tasks (f db) db)" for f :: "'z store_db_scheme \<Rightarrow> task_row list"
    using safe_insert_tasks unfolding keeps_def by blast
  then show ?thesis
    unfolding enqueue_removal_reconciliation_def by (auto intro!: safe_in_tx safe_intros)
qed

lemma first_lost_Some:
  assumes "first_lost now lk ty db = Some (t, r, o')"
  shows "t \<in> set (tasks db)" and "tk_status t = Running" and "tk_type t = ty" and "expired now t"
    and "operation_rows db t = Some (r, o')"
  using assms first_by_Some [of lease_order "filter (lost_attempt db now lk ty) (tasks db)" t]
  by (auto simp: first_lost_def lost_attempt_def split: option.splits)

lemma safe_exec_row:
  assumes "t \<in> set (tasks db)" and "row_step f t" and "tx_seq (stmt flt k (exec_tasks (\<lambda>_ u. tk_id u = tk_id t) f) # ms) db = Inr (x, db')"
    and "safe_tx (tx_seq ms)"
  shows "safe db db'"
proof -
  have "tx_seq ms (db\<lparr>tasks := update_where (\<lambda>u. tk_id u = tk_id t) f (tasks db)\<rparr>) = Inr (x, db')"
    using assms(3) by (simp add: tx_bind_Inr stmt_Inr exec_tasks_def)
  then show ?thesis
    using safe_row_update [OF assms(1,2)] assms(4) safe_trans unfolding keeps_def by blast
qed

lemma recover_expired_join_safe: "safe db (snd (recover_expired_join H flt lk gid now db))"
  unfolding recover_expired_join_def
proof (intro safe_in_tx safety.keeps_read, goal_cases)
  case (1 db y db')
  show ?case
  proof (cases "first_lost now lk Join db")
    case None
    then show ?thesis using 1 by (simp add: tx_return_Inr)
  next
    case (Some p)
    then obtain t r o' where f: "first_lost now lk Join db = Some (t, r, o')" by (cases p) auto
    show ?thesis
      using 1 first_lost_Some(1,2) [OF f] unfolding f
      by (auto simp: Let_def tx_bind_Inr [of "tx_seq _"] tx_return_Inr returned_item_def simp del: tx_seq.simps
          elim!: safe_exec_row [rotated 2]
          intro!: released_step safe_intros statement_safe part_safe safe_seq_intros)
  qed
qed

lemma recover_expired_removal_safe: "safe db (snd (recover_expired_removal H flt lk gid now clock db))"
  unfolding recover_expired_removal_def
proof (intro safe_in_tx safety.keeps_read, goal_cases)
  case (1 db y db')
  show ?case
  proof (cases "first_lost now lk Remove db")
    case None
    then show ?thesis using 1 by (simp add: tx_return_Inr)
  next
    case (Some p)
    then obtain t r o' where f: "first_lost now lk Remove db = Some (t, r, o')" by (cases p) auto
    have step: "row_step (\<lambda>u. u\<lparr>tk_status := (if ex then Interrupted else RetryWait), tk_available_at := now,
        tk_lease_owner := None, tk_lease_token := None, tk_lease_expires := None,
        tk_finished_at := (if ex then Some clock else None), tk_updated_at := now,
        tk_version := tk_version u + 1\<rparr>) t" for ex
      using first_lost_Some(2) [OF f]
      by (auto simp: row_step_def spent_def task_ok_def task_subject_ok_def Let_def split: task_type.splits)
    show ?thesis
      using 1 first_lost_Some(1) [OF f] unfolding f
      by (auto simp: Let_def tx_bind_Inr [of "tx_seq _"] tx_return_Inr returned_item_def simp del: tx_seq.simps
          elim!: safe_exec_row [rotated 2]
          intro!: step safe_intros statement_safe part_safe safe_seq_intros)
  qed
qed

lemma reclaim_notes_step:
  "row_step (\<lambda>t. t\<lparr>tk_reclaim_tier := a, tk_reclaim_result := b, tk_reclaim_probe := c, tk_reclaim_stage := d\<rparr>) t"
  by (auto simp: row_step_def spent_def task_ok_def task_subject_ok_def Let_def settled_same_def split: task_type.splits)

lemma safe_exhausted:
  "safe_tx (exhausted_reclaim H flt gid now item)"
  "safe_tx (exhausted_join flt now item keys)"
  "safe_tx (exhausted_removal flt now item keys)"
  "safe_tx (exhausted_probe H flt gid now clock item)"
  unfolding exhausted_reclaim_def exhausted_join_def exhausted_removal_def exhausted_probe_def
  by (auto intro!: safe_intros statement_safe part_safe safe_seq_intros safe_exec_tasks reclaim_notes_step
      safety.keeps_read simp: safety.stays safe_audit_fact [unfolded keeps_def, rule_format] tx_return_Inr
      split: option.splits if_splits)

lemma settle_exhausted_safe: "safe db (snd (settle_exhausted H flt lk gid now clock db))"
proof -
  have "safe_tx (update_one (\<lambda>u. tk_id u = i \<and> tk_status u = Running \<and> expired now u) (released Interrupted now))"
    for i
    by (intro safe_tx_update_one released_step) (auto simp: spent_def)
  then show ?thesis
    unfolding settle_exhausted_def
    by (auto intro!: safe_in_tx safe_intros safe_seq_intros safe_exhausted statement_safe
        simp: Let_def keeps_def [of safe "\<lambda>db. Inr (_ db, db)"] split: option.splits prod.splits)
qed

lemma enqueue_expired_cleanups_safe:
  "safe db (snd (enqueue_expired_cleanups flt gid binding retained now limit period db))"
proof -
  have "safe_tx (\<lambda>db. insert_tasks (f db) db)" for f :: "'z store_db_scheme \<Rightarrow> task_row list"
    using safe_insert_tasks unfolding keeps_def by blast
  then show ?thesis
    unfolding enqueue_expired_cleanups_def by (auto intro!: safe_run_tx safe_tx_stmt)
qed

section \<open>Histories of the store\<close>

inductive store_step ::
  "unicode \<Rightarrow> (string \<Rightarrow> string) \<Rightarrow> 'z store_db_scheme \<Rightarrow> 'z store_db_scheme \<Rightarrow> bool" for U H where
  claims: "store_step U H db (snd (claim H flt lk tok g now w dur ty route db))"
| rejects: "store_step U H db (snd (claim_rejected flt lk tok now w dur ty db))"
| renews: "store_step U H db (snd (renew flt now i tok dur db))"
| completes: "publisher publish \<Longrightarrow>
    store_step U H db (snd (complete_task H flt g now item code stage publish db))"
| retains: "publisher publish \<Longrightarrow>
    store_step U H db (snd (complete_retention_cleanup H flt g now item (publish []) db))"
| probes: "publisher publish \<Longrightarrow>
    store_step U H db (snd (complete_target_probe H flt g now item publish db))"
| refuses: "publisher publish \<Longrightarrow>
    store_step U H db (snd (reject_target_probe H flt g now item code stage publish db))"
| settles: "store_step U H db (snd (settle H flt g now item status ety oc code stage db))"
| interrupts: "store_step U H db (snd (record_interruption H flt g now item code stage db))"
| queues_read: "i \<notin> tk_id ` set (tasks db) \<Longrightarrow>
    store_step U H db (snd (create_workspace_read flt i now ws d c db))"
| queues_probe: "i \<notin> tk_id ` set (tasks db) \<Longrightarrow>
    store_step U H db (snd (create_target_probe flt i now tg d c db))"
| queues_retention: "i \<notin> tk_id ` set (tasks db) \<Longrightarrow>
    store_step U H db (snd (enqueue_retention_cleanup flt i now period db))"
| queues_cleanups: "store_step U H db (snd (enqueue_expired_cleanups flt gid binding retained now limit period db))"
| exhausts: "store_step U H db (snd (settle_exhausted H flt lk gid now clock db))"
| announces_join: "store_step U H db (snd (mark_join_side_effect_started flt now item stage db))"
| preflights: "store_step U H db (snd (record_join_preflight U H flt gid now item res db))"
| joins: "store_step U H db (snd (finish_join U H flt gid now item jt status oc dg stage member db))"
| reconciles_join: "store_step U H db (snd (finish_join_reconciliation U H flt gid now item jt mr db))"
| recovers_join: "store_step U H db (snd (recover_expired_join H flt lk gid now db))"
| refreshes_join: "store_step U H db (snd (enqueue_join_reconciliation H flt gid now batch key corr db))"
| announces_removal: "store_step U H db (snd (mark_removal_side_effect_started H flt gid now item live db))"
| confirms_removal: "safe_publisher pub \<Longrightarrow>
    store_step U H db (snd (finish_removal_confirmed H flt gid now item rt pub stage db))"
| retries_removal: "safe_publisher pub \<Longrightarrow>
    store_step U H db (snd (finish_removal_retry U H flt gid now item rt pub dg stage db))"
| doubts_removal: "store_step U H db (snd (finish_removal_unknown U H flt gid now item rt dg stage db))"
| blocks_removal: "safe_publisher pub \<Longrightarrow>
    store_step U H db (snd (finish_removal_blocked U H flt gid now item rt pub dg stage db))"
| reconciles_removal: "safe_publisher pub \<Longrightarrow>
    store_step U H db (snd (finish_removal_reconciliation H flt gid now item rt pub present db))"
| recovers_removal: "store_step U H db (snd (recover_expired_removal H flt lk gid now clock db))"
| refreshes_removal: "store_step U H db (snd (enqueue_removal_reconciliation flt gid now batch key corr db))"

inductive_cases store_stepE: "store_step U H db db'"

lemmas operation_safe =
  claim_safe claim_rejected_safe renew_safe settle_safe record_interruption_safe
  publisher.complete_task_safe publisher.complete_retention_cleanup_safe
  publisher.complete_target_probe_safe publisher.reject_target_probe_safe
  create_workspace_read_safe create_target_probe_safe enqueue_retention_cleanup_safe
  enqueue_expired_cleanups_safe settle_exhausted_safe mark_join_safe record_join_preflight_safe
  finish_join_safe finish_join_reconciliation_safe recover_expired_join_safe
  enqueue_join_reconciliation_safe mark_removal_safe finish_removal_confirmed_safe
  finish_removal_unconfirmed_safe finish_removal_reconciliation_safe recover_expired_removal_safe
  enqueue_removal_reconciliation_safe

lemma safe_no_publisher: "safe_publisher None"
  by (simp add: safe_publisher_def)

lemma store_step_safe: "store_step U H db db' \<Longrightarrow> safe db db'"
  by (erule store_stepE)
     (simp_all add: operation_safe safe_no_publisher finish_removal_retry_def finish_removal_unknown_def
       finish_removal_blocked_def)

lemma store_run_safe: "(store_step U H)\<^sup>*\<^sup>* db db' \<Longrightarrow> safe db db'"
  by (induction rule: rtranclp_induct) (auto intro: safe_trans store_step_safe)



end
