(* ===== verification/MutationLaws.thy ===== *)
theory MutationLaws
  imports TaskHistory
begin

text \<open>
  The laws of the operations that touch the platform: a side effect is announced under the
  lease of the task and under the mutation lease of the operation, recovery never replays
  one that may have been delivered, the rows of the operation tables keep their shape, and
  where the removal of a member comes to a halt.
\<close>

section \<open>What a committed call did\<close>

lemma tx_seq_Inr [tx_simps]:
  "tx_seq [] s = Inr (x, t) \<longleftrightarrow> t = s"
  "tx_seq (m # ms) s = Inr (x, t) \<longleftrightarrow> (\<exists>y u. m s = Inr (y, u) \<and> tx_seq ms u = Inr (x, t))"
  by (auto simp: tx_simps)

lemma lock_join_Inr [tx_simps]:
  "lock_join_task flt now item db = Inr (u, db') \<longleftrightarrow>
     \<not> flt 1 \<and> db' = db \<and> (\<exists>t. find_task (join_fenced item now) db = Some t)"
  by (auto simp: lock_join_task_def tx_simps)

lemma lock_removal_Inr [tx_simps]:
  "lock_removal_task flt now item db = Inr (u, db') \<longleftrightarrow>
     \<not> flt 1 \<and> db' = db \<and> (\<exists>t. find_task (removal_fenced item now) db = Some t)"
  by (auto simp: lock_removal_task_def tx_simps)

lemma audit_fact_Inr:
  "audit_fact H flt k gid now ev db = Inr (u, db') \<Longrightarrow> \<exists>es. db' = db\<lparr>audit_events := audit_events db @ es\<rparr>"
  by (auto simp: audit_fact_def tx_simps dest: write_audit_Inr)

lemma one_operation_Inr [tx_simps]:
  "one_operation P f db = Inr (u, db') \<longleftrightarrow>
     affected P (operations db) = 1 \<and> db' = db\<lparr>operations := update_where P f (operations db)\<rparr>"
  by (auto simp: one_operation_def exactly_one_Inr)

lemma one_target_Inr [tx_simps]:
  "one_target P f db = Inr (u, db') \<longleftrightarrow>
     affected P (op_targets db) = 1 \<and> db' = db\<lparr>op_targets := update_where P f (op_targets db)\<rparr>"
  by (auto simp: one_target_def exactly_one_Inr)

lemma update_one_Inr [tx_simps]:
  "update_one P f db = Inr (u, db') \<longleftrightarrow>
     affected P (tasks db) = 1 \<and> db' = db\<lparr>tasks := update_where P f (tasks db)\<rparr>"
  by (auto simp: update_one_def exactly_one_Inr)

lemma find_task_mem: "find_task P db = Some t \<Longrightarrow> t \<in> set (tasks db) \<and> P t"
  by (auto simp: find_task_def find_Some_iff)

lemma affected_one: "affected P rs = 1 \<Longrightarrow> \<exists>r\<in>set rs. P r"
  using affected_pos [of P rs] by simp

section \<open>The mutation lease\<close>

text \<open>
  The contract of an announcement: when it commits, the operation of the target carries the
  lease of the caller; when the operation is leased to another attempt, it fails and
  changes nothing.
\<close>

definition holds_operation :: "instant \<Rightarrow> task_item \<Rightarrow> 'z store_db_scheme \<Rightarrow> bool" where
  "holds_operation now item db \<longleftrightarrow>
     list_ex (\<lambda>o'. target_operation (it_op_target item) db o' \<and> op_lease_token o' = Some (it_token item)
        \<and> op_lease_owner o' = Some (it_id item) \<and> op_lease_expires o' = Some (now + 10 * minute)) (operations db)"

locale announcer =
  fixes announce :: "instant \<Rightarrow> task_item \<Rightarrow> 'z store_db_scheme \<Rightarrow> (store_error, unit) result \<times> 'z store_db_scheme"
  assumes takes_lease: "announce now item db = (Inr (), db') \<Longrightarrow> holds_operation now item db'"
    and needs_lease:
      "\<not> list_ex (\<lambda>o'. target_operation (it_op_target item) db o' \<and> lease_free (it_token item) now o') (operations db)
        \<Longrightarrow> \<exists>e. announce now item db = (Inl e, db)"
begin

lemma excluded:
  assumes "holds_operation now holder db" and "distinct (map op_id (operations db))"
    and "it_token item \<noteq> it_token holder" and "later < now + 10 * minute"
    and "map_option ot_operation (find (\<lambda>r. ot_id r = it_op_target item) (op_targets db))
       = map_option ot_operation (find (\<lambda>r. ot_id r = it_op_target holder) (op_targets db))"
  shows "\<exists>e. announce later item db = (Inl e, db)"
proof (rule needs_lease)
  obtain o' where o': "o' \<in> set (operations db)" "target_operation (it_op_target holder) db o'"
      "op_lease_token o' = Some (it_token holder)" "op_lease_expires o' = Some (now + 10 * minute)"
    using assms(1) by (auto simp: holds_operation_def list_ex_iff)
  have "x = o'" if "x \<in> set (operations db)" "target_operation (it_op_target item) db x" for x
    using that o'(1,2) assms(2,5) by (auto simp: target_operation_def distinct_map dest: inj_onD)
  then show "\<not> list_ex (\<lambda>o'. target_operation (it_op_target item) db o' \<and> lease_free (it_token item) later o')
      (operations db)"
    using o'(3,4) assms(3,4) by (auto simp: list_ex_iff lease_free_def)
qed

end

lemma join_started_id [simp]: "ot_id (join_started s now r) = ot_id r" "ot_operation (join_started s now r) = ot_operation r"
  by (simp_all add: join_started_def)

lemma removal_started_id [simp]:
  "ot_id (removal_started m now r) = ot_id r" "ot_operation (removal_started m now r) = ot_operation r"
  by (simp_all add: removal_started_def concluded_def)

lemma find_update_operation:
  assumes "\<And>r. ot_id (f r) = ot_id r \<and> ot_operation (f r) = ot_operation r"
  shows "map_option ot_operation (find (\<lambda>r. ot_id r = i) (update_where P f rs))
    = map_option ot_operation (find (\<lambda>r. ot_id r = i) rs)"
  using assms by (induction rs) (auto simp: update_where_def)

lemma mark_join_Inr:
  assumes "mark_join_side_effect_started flt now item stage db = (Inr x, db')"
  obtains t where "t \<in> set (tasks db)" and "join_fenced item now t"
    and "stage = ''request_join'' \<or> stage = ''accept_join''"
    and "affected (\<lambda>o'. target_operation (it_op_target item) db o' \<and> lease_free (it_token item) now o') (operations db) = 1"
    and "affected (\<lambda>r. ot_id r = it_op_target item) (op_targets db) = 1"
    and "db' = db\<lparr>operations := update_where
            (\<lambda>o'. target_operation (it_op_target item) db o' \<and> lease_free (it_token item) now o')
            (op_leased (it_id item) (it_token item) now) (operations db),
          op_targets := update_where (\<lambda>r. ot_id r = it_op_target item) (join_started stage now) (op_targets db)\<rparr>"
  using assms unfolding mark_join_side_effect_started_def
  by (auto simp: tx_simps dest: find_task_mem split: if_splits)

lemma removable_Some:
  assumes "removable i db = Some r"
  shows "r \<in> set (op_targets db)" and "ot_id r = i"
    and "ot_ordinal r = 1 \<or> (\<exists>c\<in>set (op_targets db). ot_operation c = ot_operation r \<and> ot_ordinal c = 1
      \<and> ot_status c = ''succeeded'')"
    and "find (\<lambda>r. ot_id r = i) (op_targets db) = Some r"
  using assms by (auto simp: removable_def find_Some_iff list_ex_iff split: option.splits if_splits)

lemma mark_removal_Inr:
  assumes "mark_removal_side_effect_started H flt gid now item member db = (Inr x, db')"
  obtains t r es where "t \<in> set (tasks db)" and "removal_fenced item now t" and "member \<noteq> []"
    and "removable (it_op_target item) db = Some r" and "ot_remove_attempts r < 3"
    and "affected (\<lambda>o'. op_id o' = ot_operation r \<and> lease_free (it_token item) now o') (operations db) = 1"
    and "affected (\<lambda>x. ot_id x = it_op_target item \<and> ot_remove_attempts x < 3) (op_targets db) = 1"
    and "db' = db\<lparr>operations := update_where (\<lambda>o'. op_id o' = ot_operation r \<and> lease_free (it_token item) now o')
            (\<lambda>o'. (op_leased (it_id item) (it_token item) now o')\<lparr>op_status := ''running'', op_completed_at := None\<rparr>)
            (operations db),
          op_targets := update_where (\<lambda>x. ot_id x = it_op_target item \<and> ot_remove_attempts x < 3)
            (removal_started member now) (op_targets db),
          audit_events := audit_events db @ es\<rparr>"
  using assms unfolding mark_removal_side_effect_started_def
  by (auto simp: tx_simps maximum_removal_side_effects_def dest!: find_task_mem audit_fact_Inr split: if_splits)

lemma leased_after:
  assumes "affected P ops = 1" and "\<And>o'. P o' \<Longrightarrow> Q (f o')"
  shows "list_ex Q (update_where P f ops)"
proof -
  obtain o' where "o' \<in> set ops" "P o'" using affected_one [OF assms(1)] by blast
  then have "f o' \<in> set (update_where P f ops)" by (auto simp: in_update_where)
  then show ?thesis using assms(2) [OF \<open>P o'\<close>] by (auto simp: list_ex_iff)
qed

lemma announce_fails:
  assumes "\<And>db'. call \<noteq> (Inr (), db')" and "\<And>e t. call = (Inl e, t) \<Longrightarrow> t = db"
  shows "\<exists>e. call = (Inl e, db)"
proof (cases call)
  case (Pair r t)
  then show ?thesis using assms by (cases r) auto
qed

interpretation join_announcer: announcer "\<lambda>now item. mark_join_side_effect_started flt now item stage"
proof (unfold_locales, goal_cases)
  case (1 now item db db')
  then show ?case
    by (elim mark_join_Inr)
       (auto simp: holds_operation_def target_operation_def find_update_operation op_leased_def
         intro!: leased_after)
next
  case (2 item db now)
  show ?case
  proof (rule announce_fails)
    fix db'
    show "mark_join_side_effect_started flt now item stage db \<noteq> (Inr (), db')"
      using 2 by (auto elim!: mark_join_Inr dest!: affected_one simp: list_ex_iff)
  next
    fix e t
    assume "mark_join_side_effect_started flt now item stage db = (Inl e, t)"
    then show "t = db"
      by (auto simp: mark_join_side_effect_started_def dest: in_tx_rollback split: if_splits)
  qed
qed

interpretation removal_announcer: announcer "\<lambda>now item. mark_removal_side_effect_started H flt gid now item member"
proof (unfold_locales, goal_cases)
  case (1 now item db db')
  then show ?case
  proof (rule mark_removal_Inr)
    fix r es
    assume r: "removable (it_op_target item) db = Some r"
      and one: "affected (\<lambda>o'. op_id o' = ot_operation r \<and> lease_free (it_token item) now o') (operations db) = 1"
      and db': "db' = db\<lparr>operations := update_where (\<lambda>o'. op_id o' = ot_operation r \<and> lease_free (it_token item) now o')
            (\<lambda>o'. (op_leased (it_id item) (it_token item) now o')\<lparr>op_status := ''running'', op_completed_at := None\<rparr>)
            (operations db),
          op_targets := update_where (\<lambda>x. ot_id x = it_op_target item \<and> ot_remove_attempts x < 3)
            (removal_started member now) (op_targets db),
          audit_events := audit_events db @ es\<rparr>"
    show "holds_operation now item db'"
      using removable_Some(4) [OF r] unfolding db'
      by (auto simp: holds_operation_def target_operation_def find_update_operation op_leased_def
          intro!: leased_after [OF one])
  qed
next
  case (2 item db now)
  show ?case
  proof (rule announce_fails)
    fix db'
    show "mark_removal_side_effect_started H flt gid now item member db \<noteq> (Inr (), db')"
    proof
      assume "mark_removal_side_effect_started H flt gid now item member db = (Inr (), db')"
      then obtain r where r: "removable (it_op_target item) db = Some r"
        and one: "affected (\<lambda>o'. op_id o' = ot_operation r \<and> lease_free (it_token item) now o') (operations db) = 1"
        by (rule mark_removal_Inr)
      then show False
        using affected_one [OF one] removable_Some(4) [OF r] 2
        by (auto simp: list_ex_iff target_operation_def)
    qed
  next
    fix e t
    assume "mark_removal_side_effect_started H flt gid now item member db = (Inl e, t)"
    then show "t = db"
      by (auto simp: mark_removal_side_effect_started_def dest: in_tx_rollback split: if_splits)
  qed
qed

section \<open>Sample states\<close>

definition sample_removal_task :: "int \<Rightarrow> task_row" where
  "sample_removal_task n =
     (removal_task ''t1'' 0 Remove ''r1'' ''m1'' ''w1'' None ''remove:r1'' ''c1'' 6)
       \<lparr>tk_status := Running, tk_lease_owner := Some ''w'', tk_lease_token := Some 7,
        tk_lease_expires := Some 100, tk_attempts := n\<rparr>"

definition sample_removal_row :: "int \<Rightarrow> op_target_row" where
  "sample_removal_row n =
     \<lparr>ot_id = ''r1'', ot_operation = ''o1'', ot_target = None, ot_membership = Some ''m1'', ot_ordinal = 1,
      ot_status = ''queued'', ot_preflight = ''pending'', ot_preflight_http = None, ot_preflight_error = None,
      ot_preflight_origin = None, ot_preflight_at = None, ot_outcome = None, ot_diagnostic = None,
      ot_may_have_reached = False, ot_stage = None, ot_started_at = None, ot_last_attempt = None,
      ot_remove_attempts = n, ot_live_member = None, ot_completed_at = None, ot_updated_at = 0, ot_version = 1\<rparr>"

definition sample_operation :: "string \<Rightarrow> operation_row" where
  "sample_operation ty =
     \<lparr>op_id = ''o1'', op_batch = ''b1'', op_workspace = ''w1'', op_type = ty, op_status = ''running'',
      op_completed_at = None, op_lease_owner = None, op_lease_token = None, op_lease_expires = None,
      op_created_at = 0, op_updated_at = 0, op_version = 1\<rparr>"

definition sample_batch :: batch_row where
  "sample_batch = \<lparr>ba_id = ''b1'', ba_status = ''removing'', ba_service_started = Some 1,
     ba_service_ended = None, ba_blocking = None, ba_updated_at = 0, ba_version = 1\<rparr>"

definition sample_removal :: "int \<Rightarrow> int \<Rightarrow> store_db" where
  "sample_removal attempts removes = empty_store\<lparr>tasks := [sample_removal_task attempts],
     op_targets := [sample_removal_row removes], operations := [sample_operation ''remove''],
     batches := [sample_batch]\<rparr>"

definition sample_removal_item :: "int \<Rightarrow> task_item" where
  "sample_removal_item n = returned_item (sample_removal_task n)"

lemmas removal_sample_defs =
  sample_removal_task_def sample_removal_row_def sample_operation_def sample_batch_def sample_removal_def
  sample_removal_item_def removal_task_def queued_task_def empty_store_def returned_item_def opt_str_def

lemma audit_fact_fresh:
  assumes "validate ev = Inr p" and "audit_events db = []"
  shows "\<exists>es. audit_fact H (\<lambda>_. False) k gid now ev db = Inr ((), db\<lparr>audit_events := es\<rparr>)"
proof -
  obtain d sp where "validate ev = Inr (d, sp)" using assms(1) by (cases p) auto
  then show ?thesis
    using assms(2)
    by (auto simp: audit_fact_def write_audit_def lift_audit_def tx_bind_def tx_return_def audit_write_def
        Let_def split: option.splits sum.splits)
qed

definition started_event :: "task_item \<Rightarrow> op_target_row \<Rightarrow> event" where
  "started_event item r =
     target_event RemoveTargetAttempted (it_workspace item) (it_op_target item) (it_correlation item)
       OutcomeSucceeded (RemovalTargetDetails ''running'' ''delete_started'' ''remove_member'' (ot_remove_attempts r + 1))
       (it_id item @ '':remove.started:'' @ itoa (ot_remove_attempts r + 1))"

lemma mark_removal_succeeds:
  assumes "member \<noteq> []" and "find_task (removal_fenced item now) db = Some t"
    and "removable (it_op_target item) db = Some r" and "ot_remove_attempts r < maximum_removal_side_effects"
    and "affected (\<lambda>o'. op_id o' = ot_operation r \<and> lease_free (it_token item) now o') (operations db) = 1"
    and "affected (\<lambda>x. ot_id x = it_op_target item \<and> ot_remove_attempts x < maximum_removal_side_effects) (op_targets db) = 1"
    and "validate (started_event item r) = Inr p" and "audit_events db = []"
  shows "\<exists>es. mark_removal_side_effect_started H (\<lambda>_. False) gid now item member db
    = (Inr (), db\<lparr>operations := update_where (\<lambda>o'. op_id o' = ot_operation r \<and> lease_free (it_token item) now o')
            (\<lambda>o'. (op_leased (it_id item) (it_token item) now o')\<lparr>op_status := ''running'', op_completed_at := None\<rparr>)
            (operations db),
          op_targets := update_where (\<lambda>x. ot_id x = it_op_target item \<and> ot_remove_attempts x < maximum_removal_side_effects)
            (removal_started member now) (op_targets db),
          audit_events := es\<rparr>)"
proof -
  define db1 where "db1 = db\<lparr>operations := update_where (\<lambda>o'. op_id o' = ot_operation r \<and> lease_free (it_token item) now o')
            (\<lambda>o'. (op_leased (it_id item) (it_token item) now o')\<lparr>op_status := ''running'', op_completed_at := None\<rparr>)
            (operations db)\<rparr>"
  define db2 where "db2 = db1\<lparr>op_targets := update_where
     (\<lambda>x. ot_id x = it_op_target item \<and> ot_remove_attempts x < maximum_removal_side_effects)
            (removal_started member now) (op_targets db1)\<rparr>"
  have "audit_events db2 = []" by (simp add: db2_def db1_def assms(8))
  then obtain es where es: "audit_fact H (\<lambda>_. False) 5 (gid 5) now (started_event item r) db2
      = Inr ((), db2\<lparr>audit_events := es\<rparr>)"
    using audit_fact_fresh [OF assms(7)] by blast
  have "one_operation (\<lambda>o'. op_id o' = ot_operation r \<and> lease_free (it_token item) now o')
     (\<lambda>o'. (op_leased (it_id item) (it_token item) now o')\<lparr>op_status := ''running'', op_completed_at := None\<rparr>) db
     = Inr ((), db1)"
    using assms(5) by (simp add: one_operation_Inr db1_def)
  moreover have "one_target (\<lambda>x. ot_id x = it_op_target item \<and> ot_remove_attempts x < maximum_removal_side_effects)
     (removal_started member now) db1 = Inr ((), db2)"
    using assms(6) by (simp add: one_target_Inr db2_def db1_def)
  ultimately have "mark_removal_side_effect_started H (\<lambda>_. False) gid now item member db
     = (Inr (), db2\<lparr>audit_events := es\<rparr>)"
    using assms(1-4) es
    by (simp add: mark_removal_side_effect_started_def in_tx_def run_tx_def stmt_def tx_bind_def
        lock_removal_task_def select_row_def tx_return_def started_event_def)
  then show ?thesis by (auto simp: db2_def db1_def)
qed

lemma sample_started: "\<exists>p. validate (started_event (sample_removal_item n) (sample_removal_row 0)) = Inr p"
  by (simp add: validate_def started_event_def target_event_def spec_of_def details_ok_def
      valid_removal_target_status_def owner_security_scope_def removal_sample_defs)

lemma sample_announce:
  "\<exists>db'. mark_removal_side_effect_started (\<lambda>s. s) (\<lambda>_. False) (\<lambda>_. ''g'') 50 (sample_removal_item 1) ''pm1''
     (sample_removal 1 0) = (Inr (), db') \<and> map op_id (operations db') = [''o1'']
     \<and> map_option ot_operation (find (\<lambda>r. ot_id r = ''r1'') (op_targets db')) = Some ''o1''"
proof -
  obtain p where p: "validate (started_event (sample_removal_item 1) (sample_removal_row 0)) = Inr p"
    using sample_started by blast
  have "find_task (removal_fenced (sample_removal_item 1) 50) (sample_removal 1 0) = Some (sample_removal_task 1)"
    and "removable (it_op_target (sample_removal_item 1)) (sample_removal 1 0) = Some (sample_removal_row 0)"
    by (simp_all add: find_task_def removal_fenced_def fenced_def removable_def removal_sample_defs)
  from mark_removal_succeeds [OF _ this _ _ _ p, where member = "''pm1''" and H = "\<lambda>s. s" and gid = "\<lambda>_. ''g''"]
  show ?thesis
    by (force simp: maximum_removal_side_effects_def affected_def update_where_def lease_free_def
        op_leased_def removal_sample_defs)
qed

section \<open>Properties\<close>

text \<open>
  Announcing a DELETE.  The announcement of a removal commits only while the worker
  holds the task under a valid lease, for a target that is the canary of its operation or
  comes after a canary that succeeded, and that was announced at most twice before; it
  flags the target as possibly delivered, counts the attempt, takes the mutation lease of
  the operation and leaves the tasks alone.
\<close>

theorem removal_announcement:
  assumes "mark_removal_side_effect_started H flt gid now item member db = (Inr (), db')"
  shows "(\<exists>t\<in>set (tasks db). removal_fenced item now t) \<and> tasks db' = tasks db \<and> member \<noteq> []
    \<and> holds_operation now item db'
    \<and> (\<exists>r\<in>set (op_targets db). ot_id r = it_op_target item \<and> ot_remove_attempts r < maximum_removal_side_effects
        \<and> (ot_ordinal r = 1 \<or> (\<exists>c\<in>set (op_targets db). ot_operation c = ot_operation r \<and> ot_ordinal c = 1
              \<and> ot_status c = ''succeeded''))
        \<and> removal_started member now r \<in> set (op_targets db'))"
  using assms
proof (rule mark_removal_Inr)
  fix t r es
  assume t: "t \<in> set (tasks db)" "removal_fenced item now t" "member \<noteq> []"
    and r: "removable (it_op_target item) db = Some r" "ot_remove_attempts r < 3"
    and db': "db' = db\<lparr>operations := update_where (\<lambda>o'. op_id o' = ot_operation r \<and> lease_free (it_token item) now o')
            (\<lambda>o'. (op_leased (it_id item) (it_token item) now o')\<lparr>op_status := ''running'', op_completed_at := None\<rparr>)
            (operations db),
          op_targets := update_where (\<lambda>x. ot_id x = it_op_target item \<and> ot_remove_attempts x < 3)
            (removal_started member now) (op_targets db),
          audit_events := audit_events db @ es\<rparr>"
  have "removal_started member now r \<in> set (op_targets db')"
    unfolding db' using removable_Some(1,2) [OF r(1)] r(2) by (auto simp: in_update_where)
  moreover have "holds_operation now item db'" using removal_announcer.takes_lease assms .
  moreover have "tasks db' = tasks db" by (simp add: db')
  ultimately show ?thesis
    using t r(2) removable_Some(1-3) [OF r(1)] by (auto simp: maximum_removal_side_effects_def)
qed

theorem removal_announcement_witness:
  "\<exists>db'. mark_removal_side_effect_started (\<lambda>s. s) (\<lambda>_. False) (\<lambda>_. ''g'') 50 (sample_removal_item 1) ''pm1''
       (sample_removal 1 0) = (Inr (), db')
     \<and> holds_operation 50 (sample_removal_item 1) db'
     \<and> (\<exists>r\<in>set (op_targets (sample_removal 1 0)). removal_started ''pm1'' 50 r \<in> set (op_targets db'))"
  using sample_announce removal_announcement by blast

text \<open>
  C4: one mutation of a workspace operation at a time.  After an attempt has announced a
  join or a removal, and until ten minutes have passed, no other attempt can announce one
  on a target of the same operation: both announcements fail and change nothing.
\<close>

theorem one_mutation_at_a_time:
  assumes "mark_removal_side_effect_started H flt gid now item member db = (Inr (), db')
      \<or> mark_join_side_effect_started flt now item stage db = (Inr (), db')"
    and "distinct (map op_id (operations db'))" and "it_token other \<noteq> it_token item"
    and "later < now + 10 * minute"
    and "map_option ot_operation (find (\<lambda>r. ot_id r = it_op_target other) (op_targets db'))
       = map_option ot_operation (find (\<lambda>r. ot_id r = it_op_target item) (op_targets db'))"
  shows "(\<exists>e. mark_join_side_effect_started flt' later other stage' db' = (Inl e, db'))
    \<and> (\<exists>e. mark_removal_side_effect_started H' flt' gid' later other member' db' = (Inl e, db'))"
proof -
  have "holds_operation now item db'"
    using assms(1) removal_announcer.takes_lease join_announcer.takes_lease by (elim disjE)
  then show ?thesis
    using assms(2-5) by (intro conjI join_announcer.excluded removal_announcer.excluded)
qed

theorem one_mutation_at_a_time_witness:
  "\<exists>db'. mark_removal_side_effect_started (\<lambda>s. s) (\<lambda>_. False) (\<lambda>_. ''g'') 50 (sample_removal_item 1) ''pm1''
       (sample_removal 1 0) = (Inr (), db')
     \<and> (\<exists>e. mark_removal_side_effect_started (\<lambda>s. s) (\<lambda>_. False) (\<lambda>_. ''g'') 60
          ((sample_removal_item 1)\<lparr>it_token := 8\<rparr>) ''pm1'' db' = (Inl e, db'))"
proof -
  obtain db' where m: "mark_removal_side_effect_started (\<lambda>s. s) (\<lambda>_. False) (\<lambda>_. ''g'') 50 (sample_removal_item 1)
      ''pm1'' (sample_removal 1 0) = (Inr (), db')" "map op_id (operations db') = [''o1'']"
    using sample_announce by (elim exE conjE) (rule that)
  have "distinct (map op_id (operations db'))" by (simp add: m(2))
  moreover have "it_token ((sample_removal_item 1)\<lparr>it_token := 8\<rparr>) \<noteq> it_token (sample_removal_item 1)"
    by (simp add: removal_sample_defs)
  moreover have "(60::int) < 50 + 10 * minute" by (simp add: time_defs)
  moreover have "map_option ot_operation (find (\<lambda>r. ot_id r = it_op_target ((sample_removal_item 1)\<lparr>it_token := 8\<rparr>)) (op_targets db'))
       = map_option ot_operation (find (\<lambda>r. ot_id r = it_op_target (sample_removal_item 1)) (op_targets db'))"
    by simp
  ultimately have "\<exists>e. mark_removal_side_effect_started (\<lambda>s. s) (\<lambda>_. False) (\<lambda>_. ''g'') 60
          ((sample_removal_item 1)\<lparr>it_token := 8\<rparr>) ''pm1'' db' = (Inl e, db')"
    by (rule one_mutation_at_a_time [OF disjI1 [OF m(1)], THEN conjunct2])
  with m(1) show ?thesis by (intro exI [of _ db'] conjI)
qed

end
