(* ===== verification/RecoveryLaws.thy ===== *)
theory RecoveryLaws
  imports MutationLaws
begin

text \<open>
  What becomes of a join or a removal that did not come to its end: recovery turns it into
  read-only work and never clears the mark of a possible side effect, and the two places
  where a removal is left without any task or operation that could take it up again.
\<close>

section \<open>Frames of the aggregate updates\<close>

lemma exec_tasks_Inr [tx_simps]:
  "exec_tasks P f db = Inr (u, db') \<longleftrightarrow> db' = db\<lparr>tasks := update_where (P db) f (tasks db)\<rparr>"
  by (auto simp: exec_tasks_def)

lemma exec_targets_Inr [tx_simps]:
  "exec_targets P f db = Inr (u, db') \<longleftrightarrow> db' = db\<lparr>op_targets := update_where P f (op_targets db)\<rparr>"
  by (auto simp: exec_targets_def)

lemma exec_operations_Inr [tx_simps]:
  "exec_operations P f db = Inr (u, db') \<longleftrightarrow> db' = db\<lparr>operations := update_where (P db) (f db) (operations db)\<rparr>"
  by (auto simp: exec_operations_def)

lemma exec_batches_Inr [tx_simps]:
  "exec_batches P f db = Inr (u, db') \<longleftrightarrow> db' = db\<lparr>batches := update_where (P db) (f db) (batches db)\<rparr>"
  by (auto simp: exec_batches_def)

lemma tx_seq_four:
  "tx_seq (a # b # c # d # ms) s = Inr (x, t) \<Longrightarrow>
     \<exists>s1 s2 s3 s4. a s = Inr ((), s1) \<and> b s1 = Inr ((), s2) \<and> c s2 = Inr ((), s3) \<and> d s3 = Inr ((), s4)
       \<and> tx_seq ms s4 = Inr (x, t)"
  by (auto simp: tx_bind_Inr)

lemma updated_rows:
  assumes "r \<in> set (update_where P f rs)" and "P r" and "\<And>s. Q (f s)"
  shows "Q r"
proof -
  obtain s where "r = (if P s then f s else s)" using assms(1) in_update_where by metis
  then show ?thesis using assms(2) assms(3) [of s] by (cases "P s") simp_all
qed

lemma refreshed_rows:
  assumes "row \<in> set (removal_refresh_rows gid now o' key corr db)"
  obtains r where "r \<in> set (op_targets db)" and "tk_op_target row = Some (ot_id r)" and "unresolved_target r"
proof -
  let ?rs = "filter unresolved_target (targets_of (op_id o') db)"
  obtain kr where kr: "kr \<in> set (enumerate 2 ?rs)" and row: "row = removal_refresh_row gid now o' key corr kr"
    using assms by (auto simp: removal_refresh_rows_def)
  have "tk_op_target row = Some (ot_id (snd kr))"
    by (simp add: row removal_refresh_row_def removal_task_def)
  moreover have "snd kr \<in> set ?rs"
  proof -
    have "set ?rs = snd ` set (enumerate 2 ?rs)" by (metis map_snd_enumerate list.set_map)
    then show ?thesis using imageI [OF kr, of snd] by (simp only:)
  qed
  ultimately show thesis by (intro that [of "snd kr"]) (auto simp: targets_of_def)
qed

lemma settle_join_frame:
  "settle_join_aggregate flt k now i b db = Inr (u, db') \<Longrightarrow>
     tasks db' = tasks db \<and> op_targets db' = op_targets db \<and> memberships db' = memberships db"
  by (auto simp: settle_join_aggregate_def refresh_join_def tx_simps)

lemma settle_removal_frame:
  assumes "settle_removal_aggregate flt k now i b db = Inr (u, db')"
  shows "op_targets db' = op_targets db \<and> memberships db' = memberships db
    \<and> (\<exists>P. tasks db' = update_where P (released Interrupted now) (tasks db) \<and> (\<forall>t. P t \<longrightarrow> delivery_type (tk_type t)))"
proof -
  have "\<exists>P. tasks db = update_where P f (tasks db) \<and> (\<forall>t. P t \<longrightarrow> Q t)" for f and Q :: "task_row \<Rightarrow> bool"
    by (rule exI [of _ "\<lambda>_. False"]) (simp add: update_where_def)
  then show ?thesis
    using assms unfolding settle_removal_aggregate_def
    by (auto simp: tx_simps returned_operation_def returned_batch_def supersede_attempts_def Let_def
        split: if_splits)
qed

lemma released_id [simp]: "tk_id (released st now t) = tk_id t" "tk_type (released st now t) = tk_type t"
  "tk_status (released st now t) = st"
  by (simp_all add: released_def)

lemma requeued_simps [simp]:
  "tk_id (requeued now t) = tk_id t" "tk_type (requeued now t) = tk_type t" "tk_status (requeued now t) = RetryWait"
  "tk_attempts (requeued now t) = tk_attempts t" "tk_max_attempts (requeued now t) = tk_max_attempts t"
  by (simp_all add: requeued_def)

lemma spent_stays:
  assumes "safe db db'" and "queue_ok db" and "t \<in> set (tasks db)" and "spent t"
  obtains u where "u \<in> set (tasks db')" and "tk_id u = tk_id t" and "tk_type u = tk_type t"
    and "tk_status u = tk_status t" and "tk_attempts u = tk_max_attempts u" and "spent u"
proof -
  from assms(1-3) obtain u where u: "u \<in> set (tasks db')" "row_follows t u" and ok: "queue_ok db'"
    by (auto simp: safe_def tasks_follow_def)
  then have s: "spent u" "tk_status u = tk_status t" using assms(4)
    by (auto simp: row_follows_def spent_def)
  have "task_ok u" using ok u(1) by (simp add: queue_ok_def tasks_ok_def list_all_iff)
  then have "tk_attempts u = tk_max_attempts u" using s(1) by (auto simp: task_ok_def spent_def)
  with u s show thesis by (intro that [of u]) (auto simp: row_follows_def)
qed

text \<open>How a retry commits: the row of the task is put back, and the rest of the call is safe.\<close>

lemma removal_retry_steps:
  assumes "finish_removal_retry U H flt gid now item target pub diagnostic stage db = (Inr (), db')"
  obtains t0 db1 db2 where "find_task (removal_fenced item now) db = Some t0"
    and "run_publisher pub (rm_workspace target) db = Inr ((), db1)"
    and "affected (fenced (it_id item) (it_token item) now) (tasks db1) = 1"
    and "tasks db2 = update_where (fenced (it_id item) (it_token item) now)
      (\<lambda>t. (requeued now t)\<lparr>tk_status := RetryWait\<rparr>) (tasks db1)"
    and "safe db1 db2" and "safe db2 db'"
proof -
  let ?rest = "[stmt flt 4 (release_removal_operation_lease now (rm_operation target) (it_token item)),
         tx_bind (settle_removal_aggregate flt 5 now (rm_operation target) (rm_batch target)) (\<lambda>_. tx_return ()),
         audit_fact H flt 10 (gid 10) now
           (removal_event RemoveTargetBlocked item
             OutcomeFailed ''queued'' ''remove_retry_scheduled'' stage ('':remove.unconfirmed:'' @ itoa (it_attempt item)))]"
  let ?row = "unconfirmed_row ''queued'' ''remove_retry_scheduled'' (normalize_diagnostic U diagnostic) True now"
  have rest: "safe_tx (tx_seq ?rest)"
    unfolding release_removal_operation_lease_def
    by (intro safe_seq_intros safe_intros statement_safe part_safe)
  have "finish_removal_unconfirmed U H flt gid now item target pub ''queued'' ''remove_retry_scheduled''
      diagnostic stage True True db = (Inr (), db')"
    using assms by (simp only: finish_removal_retry_def)
  then have "tx_seq (lock_removal_task flt now item # run_publisher pub (rm_workspace target)
      # stmt flt 2 (exec_targets (\<lambda>r. ot_id r = it_op_target item) ?row)
      # stmt flt 3 (settle_removal_task now item RetryWait True) # ?rest) db = Inr ((), db')"
    by (simp add: finish_removal_unconfirmed_def in_tx_Inr del: tx_seq.simps)
  from tx_seq_four [OF this] obtain t0 db1 dbt db2 where
      d: "find_task (removal_fenced item now) db = Some t0"
        "run_publisher pub (rm_workspace target) db = Inr ((), db1)"
        "dbt = db1\<lparr>op_targets := update_where (\<lambda>r. ot_id r = it_op_target item) ?row (op_targets db1)\<rparr>"
        "settle_removal_task now item RetryWait True dbt = Inr ((), db2)" "tx_seq ?rest db2 = Inr ((), db')"
    by (auto simp: lock_removal_Inr stmt_Inr exec_targets_Inr simp del: tx_seq.simps)
  have "safe db1 dbt" unfolding d(3) by (rule safe_same_queue) simp_all
  moreover have "safe dbt db2" using safe_settle_removal_task(3) d(4) unfolding keeps_def by blast
  ultimately have s: "safe db1 db2" by (rule safe_trans)
  have "safe db2 db'" using rest d(5) unfolding keeps_def by blast
  with s d(1,2,4) show thesis
    by (intro that [of t0 db1 db2]) (simp_all add: settle_removal_task_def update_one_Inr d(3))
qed

section \<open>A sample run\<close>

lemma settle_removal_open:
  assumes "affected (\<lambda>o'. op_id o' = i) (operations db) \<noteq> 0" and "affected (\<lambda>x. ba_id x = b) (batches db) \<noteq> 0"
    and "removal_status (targets_of i db) \<noteq> ''succeeded''"
  shows "\<exists>ops bs. settle_removal_aggregate (\<lambda>_. False) k now i b db = Inr (False, db\<lparr>operations := ops, batches := bs\<rparr>)"
  using assms
  by (auto simp: settle_removal_aggregate_def tx_bind_def stmt_def returned_operation_def returned_batch_def
      tx_return_def Let_def)

lemma unconfirmed_succeeds:
  assumes "find_task (removal_fenced item now) db = Some t"
    and "affected (fenced (it_id item) (it_token item) now) (tasks db) = 1"
    and "affected (\<lambda>o'. op_id o' = rm_operation target) (operations db) \<noteq> 0"
    and "affected (\<lambda>b. ba_id b = rm_batch target) (batches db) \<noteq> 0"
    and "removal_status (targets_of (rm_operation target) (db\<lparr>op_targets := update_where (\<lambda>r. ot_id r = it_op_target item)
           (unconfirmed_row status outcome (normalize_diagnostic U diagnostic) clear now) (op_targets db)\<rparr>)) \<noteq> ''succeeded''"
    and "validate (removal_event (if status = ''unknown'' then RemoveTargetUnknown else RemoveTargetBlocked) item
           OutcomeFailed status outcome stage ('':remove.unconfirmed:'' @ itoa (it_attempt item))) = Inr p"
    and "audit_events db = []"
  shows "\<exists>db'. finish_removal_unconfirmed U H (\<lambda>_. False) gid now item target None status outcome diagnostic stage retry clear db
    = (Inr (), db')"
proof -
  let ?ev = "removal_event (if status = ''unknown'' then RemoveTargetUnknown else RemoveTargetBlocked) item
           OutcomeFailed status outcome stage ('':remove.unconfirmed:'' @ itoa (it_attempt item))"
  let ?row = "unconfirmed_row status outcome (normalize_diagnostic U diagnostic) clear now"
  define db1 where "db1 = db\<lparr>op_targets := update_where (\<lambda>r. ot_id r = it_op_target item) ?row (op_targets db)\<rparr>"
  obtain f where f: "settle_removal_task now item (if retry then RetryWait else Failed) retry db1
      = Inr ((), db1\<lparr>tasks := f\<rparr>)"
    using assms(2) by (auto simp: settle_removal_task_def update_one_Inr db1_def)
  define db2 where "db2 = db1\<lparr>tasks := f\<rparr>"
  define ops where "ops = update_where (\<lambda>o'. op_id o' = rm_operation target
     \<and> (op_lease_token o' = None \<or> op_lease_token o' = Some (it_token item))) (unleased now) (operations db)"
  have r: "release_removal_operation_lease now (rm_operation target) (it_token item) db2 = Inr ((), db2\<lparr>operations := ops\<rparr>)"
    by (simp add: release_removal_operation_lease_def exec_operations_def ops_def db2_def db1_def)
  have "map op_id ops = map op_id (operations db)" by (simp add: ops_def map_update_where unleased_def)
  then have o: "affected (\<lambda>o'. op_id o' = rm_operation target) ops \<noteq> 0"
    using assms(3) unfolding affected_0 by (metis (no_types, lifting) image_iff list.set_map)
  define db3 where "db3 = db2\<lparr>operations := ops\<rparr>"
  have "\<exists>ops bs. settle_removal_aggregate (\<lambda>_. False) 5 now (rm_operation target) (rm_batch target) db3
      = Inr (False, db3\<lparr>operations := ops, batches := bs\<rparr>)"
    using assms(4,5) o by (intro settle_removal_open) (simp_all add: db3_def db2_def db1_def targets_of_def)
  then obtain ops' bs where a: "settle_removal_aggregate (\<lambda>_. False) 5 now (rm_operation target) (rm_batch target) db3
      = Inr (False, db3\<lparr>operations := ops', batches := bs\<rparr>)" by blast
  define db4 where "db4 = db3\<lparr>operations := ops', batches := bs\<rparr>"
  have "audit_events db4 = []" by (simp add: db4_def db3_def db2_def db1_def assms(7))
  then obtain es where "audit_fact H (\<lambda>_. False) 10 (gid 10) now ?ev db4 = Inr ((), db4\<lparr>audit_events := es\<rparr>)"
    using audit_fact_fresh [OF assms(6)] by blast
  then show ?thesis
    using assms(1) f r a
    by (simp add: finish_removal_unconfirmed_def in_tx_def run_tx_def stmt_def tx_bind_def tx_return_def
        lock_removal_task_def select_row_def run_publisher_def exec_targets_def
        flip: db1_def db2_def db3_def db4_def)
qed

definition sample_removal_target :: removal_target where
  "sample_removal_target =
     \<lparr>rm_operation = ''o1'', rm_batch = ''b1'', rm_workspace = ''w1'', rm_membership = ''m1'', rm_target = ''a1'',
      rm_identifier = ''x@y'', rm_platform_workspace = ''p1'', rm_owner_identifier = ''o@y'',
      rm_owner_password = [], rm_ordinal = 1, rm_may_have_reached = False, rm_remove_attempts = 0,
      rm_manifest = []\<rparr>"

section \<open>Properties\<close>

text \<open>
  C19: a removal stranded by its last retry.  When the attempt that ends with
  FinishRemovalRetry is the last one the task had, the task is put back to wait although no
  attempt is left: whatever happens afterwards, it keeps waiting, no claim of any kind
  accepts it, and neither SettleExhausted nor the recovery of expired leases, which look at
  running tasks, settles it.
\<close>

theorem removal_retry_is_stranded:
  assumes "finish_removal_retry U H flt gid now item target pub diagnostic stage db = (Inr (), db')"
    and "queue_ok db" and "safe_publisher pub" and "t \<in> set (tasks db)" and "tk_id t = it_id item"
    and "tk_attempts t = tk_max_attempts t" and "(store_step U H)\<^sup>*\<^sup>* db' db''"
  shows "\<exists>u\<in>set (tasks db''). tk_id u = it_id item \<and> tk_status u = RetryWait \<and> tk_attempts u = tk_max_attempts u
    \<and> (\<forall>later lk ty. \<not> candidate db'' later lk ty u \<and> \<not> network_candidate db'' later u
         \<and> \<not> exhausted_attempt later lk u \<and> \<not> lost_attempt db'' later lk ty u)"
proof -
  let ?f = "\<lambda>t. (requeued now t)\<lparr>tk_status := RetryWait\<rparr>"
  obtain t0 db1 db2 where lock: "find_task (removal_fenced item now) db = Some t0"
    and p: "run_publisher pub (rm_workspace target) db = Inr ((), db1)"
    and one: "affected (fenced (it_id item) (it_token item) now) (tasks db1) = 1"
    and db2: "tasks db2 = update_where (fenced (it_id item) (it_token item) now) ?f (tasks db1)"
    and s12: "safe db1 db2" and s2: "safe db2 db'"
    using assms(1) by (rule removal_retry_steps)
  have s01: "safe db db1" using safe_run_publisher [OF assms(3)] p unfolding keeps_def by blast
  have t0: "t0 \<in> set (tasks db)" "removal_fenced item now t0" using find_task_mem [OF lock] by auto
  have "t0 = t" using assms(2,4,5) t0
    by (intro unique_row [of db]) (auto simp: queue_ok_def removal_fenced_def fenced_def)
  with t0 have ty: "\<not> delivery_type (tk_type t)" by (auto simp: removal_fenced_def delivery_type_def)
  obtain u1 where u1: "u1 \<in> set (tasks db1)" "row_follows t u1" and ok1: "queue_ok db1"
    using s01 assms(2,4) by (auto simp: safe_def tasks_follow_def)
  obtain v where v: "v \<in> set (tasks db1)" "fenced (it_id item) (it_token item) now v"
    using affected_one [OF one] by blast
  have "v = u1" using ok1 v u1 assms(5)
    by (intro unique_row [of db1]) (auto simp: queue_ok_def fenced_def row_follows_def)
  then have "?f u1 \<in> set (tasks db2)" using v by (auto simp: db2 in_update_where)
  moreover have "spent (?f u1)" using u1(2) ty assms(6) by (auto simp: spent_def row_follows_def requeued_def)
  moreover have "queue_ok db2" using s12 ok1 by (simp add: safe_def)
  moreover have "safe db2 db''" using s2 store_run_safe [OF assms(7)] by (rule safe_trans)
  ultimately obtain u where "u \<in> set (tasks db'')" "tk_id u = tk_id u1" "tk_status u = RetryWait"
      "tk_attempts u = tk_max_attempts u"
    by (elim spent_stays [rotated]) (auto simp: requeued_def)
  then show ?thesis using u1(2) assms(5)
    by (intro bexI [of _ u])
       (auto simp: row_follows_def candidate_def network_candidate_def exhausted_attempt_def lost_attempt_def)
qed

lemma sample_unconfirmed_event:
  "\<exists>p. validate (removal_event RemoveTargetBlocked (sample_removal_item 6) OutcomeFailed ''queued''
     ''remove_retry_scheduled'' ''before_delete_snapshot'' ('':remove.unconfirmed:'' @ itoa (it_attempt (sample_removal_item 6)))) = Inr p"
  by (simp add: validate_def removal_event_def target_event_def spec_of_def details_ok_def
      valid_removal_target_status_def owner_security_scope_def removal_sample_defs)

definition sample_unicode :: unicode where
  "sample_unicode = \<lparr>u_lower = id, u_upper = id, u_fold = (=)\<rparr>"

theorem removal_retry_is_stranded_witness:
  "\<exists>db'. finish_removal_retry sample_unicode (\<lambda>s. s) (\<lambda>_. False) (\<lambda>_. ''g'') 50 (sample_removal_item 6) sample_removal_target None
       ''membership_snapshot_incomplete'' ''before_delete_snapshot'' (sample_removal 6 0) = (Inr (), db')
     \<and> (\<exists>u\<in>set (tasks db'). tk_status u = RetryWait \<and> (\<forall>later lk ty. \<not> candidate db' later lk ty u))"
proof -
  obtain p where p: "validate (removal_event RemoveTargetBlocked (sample_removal_item 6) OutcomeFailed ''queued''
     ''remove_retry_scheduled'' ''before_delete_snapshot''
     ('':remove.unconfirmed:'' @ itoa (it_attempt (sample_removal_item 6)))) = Inr p"
    using sample_unconfirmed_event by (elim exE)
  have "\<exists>db'. finish_removal_retry sample_unicode (\<lambda>s. s) (\<lambda>_. False) (\<lambda>_. ''g'') 50 (sample_removal_item 6) sample_removal_target None
       ''membership_snapshot_incomplete'' ''before_delete_snapshot'' (sample_removal 6 0) = (Inr (), db')"
    unfolding finish_removal_retry_def
  proof (rule unconfirmed_succeeds)
    show "find_task (removal_fenced (sample_removal_item 6) 50) (sample_removal 6 0) = Some (sample_removal_task 6)"
      by (simp add: find_task_def removal_fenced_def fenced_def removal_sample_defs)
    show "validate (removal_event (if ''queued'' = ''unknown'' then RemoveTargetUnknown else RemoveTargetBlocked)
       (sample_removal_item 6) OutcomeFailed ''queued'' ''remove_retry_scheduled'' ''before_delete_snapshot''
       ('':remove.unconfirmed:'' @ itoa (it_attempt (sample_removal_item 6)))) = Inr p"
      using p by simp
  qed (simp_all add: affected_def fenced_def targets_of_def update_where_def removal_status_def
      unconfirmed_row_def undoubted_def concluded_def sample_removal_target_def removal_sample_defs Let_def)
  then obtain db' where d: "finish_removal_retry sample_unicode (\<lambda>s. s) (\<lambda>_. False) (\<lambda>_. ''g'') 50 (sample_removal_item 6)
       sample_removal_target None ''membership_snapshot_incomplete'' ''before_delete_snapshot'' (sample_removal 6 0)
       = (Inr (), db')" by (elim exE)
  have "queue_ok (sample_removal 6 0)"
    by (simp add: queue_ok_def tasks_ok_def attempts_ok_def task_ok_def task_subject_ok_def removal_sample_defs)
  then have "\<exists>u\<in>set (tasks db'). tk_id u = it_id (sample_removal_item 6) \<and> tk_status u = RetryWait
      \<and> tk_attempts u = tk_max_attempts u
      \<and> (\<forall>later lk ty. \<not> candidate db' later lk ty u \<and> \<not> network_candidate db' later u
         \<and> \<not> exhausted_attempt later lk u \<and> \<not> lost_attempt db' later lk ty u)"
    by (rule removal_retry_is_stranded [OF d _ safe_no_publisher, of "sample_removal_task 6"])
       (simp_all add: removal_sample_defs)
  with d show ?thesis by (intro exI [of _ db'] conjI) auto
qed

lemma reconciled_present_steps:
  fixes db :: "'z store_db_scheme"
  assumes "finish_removal_reconciliation H flt gid now item target None True db = (Inr (), db')"
    and "it_type item = RemoveReconcile" and "maximum_removal_side_effects \<le> rm_remove_attempts target"
  obtains s4 es :: "'z store_db_scheme" and b where
    "op_targets s4 = update_where (\<lambda>r. ot_id r = it_op_target item)
       (\<lambda>r. undoubted (concluded ''queued'' (Some ''remove_retry_scheduled'') (Some ''reconciled_present'') None now r)) (op_targets db)"
    and "affected (fenced (it_id item) (it_token item) now) (tasks db) = 1"
    and "tasks s4 = update_where (fenced (it_id item) (it_token item) now) (released Succeeded now) (tasks db)"
    and "settle_removal_aggregate flt 5 now (rm_operation target) (rm_batch target) s4 = Inr (b, es)"
    and "tasks db' = tasks es" and "op_targets db' = op_targets es"
proof -
  let ?row = "\<lambda>r. undoubted (concluded ''queued'' (Some ''remove_retry_scheduled'') (Some ''reconciled_present'') None now r)"
  let ?fence = "fenced (it_id item) (it_token item) now"
  let ?ev = "task_event RemoveReconciliationDone (it_workspace item) item OutcomeFailed
             (RemovalTargetDetails ''queued'' ''reconciled_present'' ''reconciliation'' (it_attempt item))
             (it_id item @ '':remove.reconciled:'' @ itoa (it_attempt item))"
  let ?rest = "[tx_bind (settle_removal_aggregate flt 5 now (rm_operation target) (rm_batch target)) (\<lambda>_. tx_return ()),
         stmt flt 9 (release_removal_operation_lease now (rm_operation target) (it_token item)),
         audit_fact H flt 10 (gid 10) now ?ev]"
  have "tx_seq (lock_removal_task flt now item # run_publisher None (rm_workspace target)
      # stmt flt 2 (exec_targets (\<lambda>r. ot_id r = it_op_target item) ?row)
      # tx_seq [resume_removal gid flt now item target, stmt flt 4 (settle_removal_task now item Succeeded False)]
      # ?rest) db = Inr ((), db')"
    using assms(1,2) by (simp add: finish_removal_reconciliation_def in_tx_Inr del: tx_seq.simps)
  from tx_seq_four [OF this] obtain s3 s4 where
      s: "s3 = db\<lparr>op_targets := update_where (\<lambda>r. ot_id r = it_op_target item) ?row (op_targets db)\<rparr>"
      "affected ?fence (tasks s3) = 1" "s4 = s3\<lparr>tasks := update_where ?fence (released Succeeded now) (tasks s3)\<rparr>"
      and r: "tx_seq ?rest s4 = Inr ((), db')"
    using assms(3)
    by (auto simp: lock_removal_Inr stmt_Inr exec_targets_Inr tx_seq_Inr run_publisher_def tx_return_Inr
        resume_removal_def settle_removal_task_def update_one_Inr simp del: tx_seq.simps)
  from r obtain b and es :: "'z store_db_scheme" where
      "settle_removal_aggregate flt 5 now (rm_operation target) (rm_batch target) s4 = Inr (b, es)"
      "tasks db' = tasks es" "op_targets db' = op_targets es"
    by (auto simp: tx_simps release_removal_operation_lease_def dest!: audit_fact_Inr simp del: tx_seq.simps)
  with s show thesis by (intro that [of s4 b es]) simp_all
qed


lemma sample_reconciled_event:
  "\<exists>p. validate (task_event RemoveReconciliationDone ''w1'' ((sample_removal_item 1)\<lparr>it_type := RemoveReconcile\<rparr>) OutcomeFailed
     (RemovalTargetDetails ''queued'' ''reconciled_present'' ''reconciliation'' 1)
     (''t1'' @ '':remove.reconciled:'' @ itoa 1)) = Inr p"
  by (simp add: validate_def task_event_def spec_of_def details_ok_def
      valid_removal_target_status_def owner_security_scope_def removal_sample_defs)

lemma reconciled_present_succeeds:
  assumes "it_type item = RemoveReconcile" and "maximum_removal_side_effects \<le> rm_remove_attempts target"
    and "find_task (removal_fenced item now) db = Some t"
    and "affected (fenced (it_id item) (it_token item) now) (tasks db) = 1"
    and "affected (\<lambda>o'. op_id o' = rm_operation target) (operations db) \<noteq> 0"
    and "affected (\<lambda>b. ba_id b = rm_batch target) (batches db) \<noteq> 0"
    and "removal_status (targets_of (rm_operation target) (db\<lparr>op_targets := update_where (\<lambda>r. ot_id r = it_op_target item)
       (\<lambda>r. undoubted (concluded ''queued'' (Some ''remove_retry_scheduled'') (Some ''reconciled_present'') None now r)) (op_targets db)\<rparr>)) \<noteq> ''succeeded''"
    and "validate (task_event RemoveReconciliationDone (it_workspace item) item OutcomeFailed
             (RemovalTargetDetails ''queued'' ''reconciled_present'' ''reconciliation'' (it_attempt item))
             (it_id item @ '':remove.reconciled:'' @ itoa (it_attempt item))) = Inr p"
    and "audit_events db = []"
  shows "\<exists>db'. finish_removal_reconciliation H (\<lambda>_. False) gid now item target None True db = (Inr (), db')"
proof -
  let ?row = "\<lambda>r. undoubted (concluded ''queued'' (Some ''remove_retry_scheduled'') (Some ''reconciled_present'') None now r)"
  define db1 where "db1 = db\<lparr>op_targets := update_where (\<lambda>r. ot_id r = it_op_target item) ?row (op_targets db)\<rparr>"
  obtain f where f: "settle_removal_task now item Succeeded False db1 = Inr ((), db1\<lparr>tasks := f\<rparr>)"
    using assms(4) by (auto simp: settle_removal_task_def update_one_Inr db1_def)
  define db2 where "db2 = db1\<lparr>tasks := f\<rparr>"
  have "\<exists>ops bs. settle_removal_aggregate (\<lambda>_. False) 5 now (rm_operation target) (rm_batch target) db2
      = Inr (False, db2\<lparr>operations := ops, batches := bs\<rparr>)"
    using assms(5-7) by (intro settle_removal_open) (simp_all add: db2_def db1_def targets_of_def)
  then obtain ops bs where a: "settle_removal_aggregate (\<lambda>_. False) 5 now (rm_operation target) (rm_batch target) db2
      = Inr (False, db2\<lparr>operations := ops, batches := bs\<rparr>)" by blast
  define db3 where "db3 = db2\<lparr>operations := ops, batches := bs\<rparr>"
  obtain ops' where r: "release_removal_operation_lease now (rm_operation target) (it_token item) db3
      = Inr ((), db3\<lparr>operations := ops'\<rparr>)"
    by (auto simp: release_removal_operation_lease_def exec_operations_def)
  define db4 where "db4 = db3\<lparr>operations := ops'\<rparr>"
  have "audit_events db4 = []" by (simp add: db4_def db3_def db2_def db1_def assms(9))
  then obtain es where "audit_fact H (\<lambda>_. False) 10 (gid 10) now
      (task_event RemoveReconciliationDone (it_workspace item) item OutcomeFailed
             (RemovalTargetDetails ''queued'' ''reconciled_present'' ''reconciliation'' (it_attempt item))
             (it_id item @ '':remove.reconciled:'' @ itoa (it_attempt item))) db4 = Inr ((), db4\<lparr>audit_events := es\<rparr>)"
    using audit_fact_fresh [OF assms(8)] by blast
  then show ?thesis
    using assms(1-3) f r a
    by (simp add: finish_removal_reconciliation_def in_tx_def run_tx_def stmt_def tx_bind_def tx_return_def
        lock_removal_task_def select_row_def run_publisher_def exec_targets_def resume_removal_def
        flip: db1_def db2_def db3_def db4_def)
qed

definition sample_reconcile :: store_db where
  "sample_reconcile = (sample_removal 1 3)\<lparr>tasks := [(sample_removal_task 1)\<lparr>tk_type := RemoveReconcile\<rparr>]\<rparr>"

definition sample_reconcile_item :: task_item where
  "sample_reconcile_item = (sample_removal_item 1)\<lparr>it_type := RemoveReconcile\<rparr>"


section \<open>Doubt survives recovery\<close>

definition doubts :: "'z store_db_scheme \<Rightarrow> (string \<times> bool \<times> string option \<times> int) list" where
  "doubts db = map (\<lambda>r. (ot_id r, ot_may_have_reached r, ot_stage r, ot_remove_attempts r)) (op_targets db)"

definition same_doubts :: "'z store_db_scheme \<Rightarrow> 'z store_db_scheme \<Rightarrow> bool" where
  "same_doubts db db' \<longleftrightarrow> doubts db' = doubts db"

interpretation doubt_order: transition_order same_doubts
  by unfold_locales (simp_all add: same_doubts_def)

lemma doubts_kept [simp]: "op_targets db' = op_targets db \<Longrightarrow> same_doubts db db'"
  by (simp add: same_doubts_def doubts_def)

lemma doubts_concluded: "keeps same_doubts (exec_targets P (concluded st oc dg c now))"
  by (simp add: keeps_def exec_targets_Inr same_doubts_def doubts_def map_update_where concluded_def)

lemma doubts_statement:
  "keeps same_doubts (exec_tasks P f)" "keeps same_doubts (exec_operations Q g)"
  "keeps same_doubts (exec_assets Q' g')" "keeps same_doubts (update_one P' f')"
  "keeps same_doubts (exactly_one n (\<lambda>db. db\<lparr>credentials := c db\<rparr>) e)"
  by (auto simp: keeps_def tx_simps exec_assets_def)

lemma doubts_call:
  "keeps same_doubts (upsert_task row)" "keeps same_doubts (audit_fact H flt k gid now ev)"
  "keeps same_doubts (settle_join_aggregate flt k now i b)"
  "keeps same_doubts (settle_removal_aggregate flt k now i b)"
  by (auto simp: keeps_def upsert_task_def split: if_splits option.splits
      dest!: audit_fact_Inr settle_join_frame settle_removal_frame)

lemmas doubt_intros =
  doubt_order.keeps_in_tx doubt_order.keeps_bind doubt_order.keeps_return
  doubt_order.keeps_stmt doubt_order.keeps_seq_Nil doubt_order.keeps_seq_Cons
  doubts_concluded doubts_statement doubts_call

lemma keeps_stmt_read: "(\<And>s. R s s) \<Longrightarrow> keeps R (stmt flt k (\<lambda>s. Inr (f s, s)))"
  by (auto simp: keeps_def stmt_Inr)

lemma recovery_doubts:
  "same_doubts db (snd (recover_expired_join H flt lk gid now db))"
  "same_doubts db (snd (recover_expired_removal H flt lk gid now clock db))"
  "same_doubts db (snd (settle_exhausted H flt lk gid now clock db))"
proof -
  show "same_doubts db (snd (recover_expired_join H flt lk gid now db))"
    unfolding recover_expired_join_def
    by (rule doubt_order.keeps_in_tx, rule doubt_order.keeps_bind, rule keeps_stmt_read, simp)
       (auto simp: Let_def intro!: doubt_intros split: option.splits)
  show "same_doubts db (snd (recover_expired_removal H flt lk gid now clock db))"
    unfolding recover_expired_removal_def
    by (rule doubt_order.keeps_in_tx, rule doubt_order.keeps_bind, rule keeps_stmt_read, simp)
       (auto simp: Let_def intro!: doubt_intros split: option.splits)
  show "same_doubts db (snd (settle_exhausted H flt lk gid now clock db))"
    unfolding settle_exhausted_def
    by (rule doubt_order.keeps_in_tx, rule doubt_order.keeps_bind, rule keeps_stmt_read, simp)
       (auto simp: Let_def exhausted_reclaim_def exhausted_join_def exhausted_removal_def exhausted_probe_def
         intro!: doubt_intros keeps_stmt_read split: option.splits prod.splits)
qed

text \<open>
  Recovery keeps the doubt.  Recovering an expired join, recovering an expired removal
  and settling an exhausted task never clear or set the mark that a request may have
  reached the platform, its stage, or the number of announced removals, of any target:
  only an attempt that holds the task does.
\<close>

theorem recovery_keeps_doubt:
  "doubts (snd (recover_expired_join H flt lk gid now db)) = doubts db
   \<and> doubts (snd (recover_expired_removal H flt lk gid now clock db)) = doubts db
   \<and> doubts (snd (settle_exhausted H flt lk gid now clock db)) = doubts db"
  using recovery_doubts unfolding same_doubts_def by blast

lemma same_key_row: "same_key row t \<longleftrightarrow> tk_type t = tk_type row \<and> tk_dedupe t = tk_dedupe row"
  by (auto simp: same_key_def)

lemma upsert_task_present:
  assumes "upsert_task row db = Inr (i, db')"
  shows "\<exists>u\<in>set (tasks db'). tk_id u = i \<and> tk_type u = tk_type row \<and> tk_dedupe u = tk_dedupe row"
proof (cases "find (same_key row) (tasks db)")
  case None
  then show ?thesis using assms by (auto simp: upsert_task_def split: if_splits)
next
  case (Some t)
  then have t: "t \<in> set (tasks db)" "same_key row t" by (auto simp: find_Some_iff)
  have "db' = db\<lparr>tasks := update_where (same_key row) (\<lambda>r. r\<lparr>tk_updated_at := tk_created_at row\<rparr>) (tasks db)\<rparr>"
    "i = tk_id t"
    using assms Some by (auto simp: upsert_task_def split: if_splits)
  then have "t\<lparr>tk_updated_at := tk_created_at row\<rparr> \<in> set (tasks db')" "i = tk_id t"
    using t by (auto simp: in_update_where)
  then show ?thesis using t(2) by (intro bexI) (auto simp: same_key_row)
qed

lemma upsert_task_rows:
  assumes "upsert_task row db = Inr (i, db')" and "u \<in> set (tasks db')" and "tk_type u \<noteq> tk_type row"
  shows "u \<in> set (tasks db)"
  using assms by (auto simp: upsert_task_def in_update_where same_key_row split: if_splits option.splits)

lemma upsert_task_targets: "upsert_task row db = Inr (i, db') \<Longrightarrow> op_targets db' = op_targets db"
  by (auto simp: upsert_task_def split: if_splits option.splits)

lemma join_reconcile_task_simps [simp]:
  "tk_type (join_reconcile_task i now ot ws tg p d c) = JoinReconcile"
  "tk_dedupe (join_reconcile_task i now ot ws tg p d c) = d"
  by (simp_all add: join_reconcile_task_def queued_task_def)

lemma audit_fact_frame:
  "audit_fact H flt k gid now ev db = Inr (u, db') \<Longrightarrow> tasks db' = tasks db \<and> op_targets db' = op_targets db"
  by (auto dest: audit_fact_Inr)

lemma recover_join_steps:
  fixes db :: "'z store_db_scheme"
  assumes "recover_expired_join H flt lk gid now db = (Inr True, db')"
  obtains t r o' rid and s4 s5 :: "'z store_db_scheme" where
    "first_lost now lk Join db = Some (t, r, o')"
    and "tasks s4 = update_where (\<lambda>u. tk_id u = tk_id t) (released Interrupted now) (tasks db)"
    and "op_targets s4 = update_where (\<lambda>x. ot_id x = opt_str (tk_op_target t))
             (concluded ''unknown'' (Some ''platform_unknown'') (Some ''lease_lost'') (Some now) now) (op_targets db)"
    and "upsert_task (join_reconcile_task (gid 7) now (opt_str (tk_op_target t)) (opt_str (tk_workspace t))
             (opt_str (tk_target t)) (Some (tk_id t)) (''join-reconcile-recovery:'' @ tk_id t) (tk_correlation t)) s4
       = Inr (rid, s5)"
    and "tasks db' = tasks s5" and "op_targets db' = op_targets s5"
proof -
  have "\<exists>t r o'. first_lost now lk Join db = Some (t, r, o')"
    using assms unfolding recover_expired_join_def in_tx_Inr
    by (cases "first_lost now lk Join db") (auto simp: tx_bind_Inr stmt_Inr tx_return_Inr)
  then obtain t r o' where f: "first_lost now lk Join db = Some (t, r, o')" by blast
  from assms f show thesis
    unfolding recover_expired_join_def in_tx_Inr
    by (auto simp: tx_bind_Inr stmt_Inr tx_return_Inr tx_seq_Inr exec_tasks_Inr exec_targets_Inr
        exec_operations_Inr returned_item_def Let_def simp del: tx_seq.simps
        dest!: audit_fact_frame settle_join_frame intro!: that)
qed


lemma preimage_length:
  "length (stable_preimage ev) = length (event_name (ev_type ev)) + length (ev_owner_id ev) + length (ev_idem_key ev)
     + (if ev_scope_id ev = [] then 0 else 4 + length (ev_scope_id ev)) + 44"
  by (simp add: stable_preimage_def write_field_def be32_def)

lemma audit_fact_new:
  assumes "validate ev = Inr p" and "\<forall>r\<in>set (audit_events db). au_key r \<noteq> stable_key H ev"
  shows "\<exists>row. audit_fact H (\<lambda>_. False) k gid now ev db = Inr ((), db\<lparr>audit_events := audit_events db @ [row]\<rparr>)
    \<and> au_key row = stable_key H ev"
proof -
  obtain d sp where "validate ev = Inr (d, sp)" using assms(1) by (cases p) auto
  moreover have "list_all (\<lambda>r. au_key r \<noteq> stable_key H ev) (audit_events db)"
    using assms(2) by (simp add: list_all_iff)
  ultimately show ?thesis
    by (auto simp: audit_fact_def write_audit_def lift_audit_def tx_bind_def tx_return_def audit_write_def
        event_row_def Let_def)
qed

definition sample_join_task :: task_row where
  "sample_join_task =
     (join_reconcile_task ''t1'' 0 ''r1'' ''w1'' ''a1'' None ''join:r1'' ''c1'')
       \<lparr>tk_type := Join, tk_status := Running, tk_lease_owner := Some ''w'', tk_lease_token := Some 7,
        tk_lease_expires := Some 40, tk_attempts := 1\<rparr>"

definition sample_join :: store_db where
  "sample_join = empty_store\<lparr>tasks := [sample_join_task],
     op_targets := [(sample_removal_row 0)\<lparr>ot_target := Some ''a1'', ot_membership := None\<rparr>],
     operations := [sample_operation ''join''], batches := [sample_batch]\<rparr>"

lemmas join_sample_defs = sample_join_task_def sample_join_def join_reconcile_task_def removal_sample_defs

definition sample_lost_event :: event where
  "sample_lost_event = target_event JoinTargetUnknown ''w1'' ''r1'' ''c1'' OutcomeFailed
     (JoinTargetDetails ''unknown'' ''platform_unknown'' ''crash_recovery'' ''lease_lost'') (''t1'' @ '':join.recovered'')"

definition sample_queued_event :: event where
  "sample_queued_event = task_event JoinReconciliationQueued ''w1'' ((returned_item sample_join_task)\<lparr>it_id := ''n1''\<rparr>)
     OutcomeSucceeded (task_details 1 ''queued'' ''crash_recovery'') (''n1'' @ '':reconciliation.queued'')"

lemma sample_events:
  "\<exists>p. validate sample_lost_event = Inr p" "\<exists>p. validate sample_queued_event = Inr p"
  "stable_key (\<lambda>s. s) sample_lost_event \<noteq> stable_key (\<lambda>s. s) sample_queued_event"
proof -
  have "length (stable_preimage sample_lost_event) \<noteq> length (stable_preimage sample_queued_event)"
    by (simp add: preimage_length sample_lost_event_def sample_queued_event_def target_event_def task_event_def)
  then show "stable_key (\<lambda>s. s) sample_lost_event \<noteq> stable_key (\<lambda>s. s) sample_queued_event"
    unfolding stable_key_def by metis
qed (simp_all add: validate_def sample_lost_event_def sample_queued_event_def target_event_def task_event_def
    task_details_def spec_of_def details_ok_def valid_join_target_status_def valid_task_route_def
    owner_security_scope_def join_sample_defs)

lemma sample_first_lost:
  "first_lost 50 (\<lambda>_. False) Join sample_join
     = Some (sample_join_task, (sample_removal_row 0)\<lparr>ot_target := Some ''a1'', ot_membership := None\<rparr>, sample_operation ''join'')"
  by (simp add: first_lost_def lost_attempt_def operation_rows_def expired_def join_sample_defs)

lemma settle_join_runs:
  "\<exists>ops bs. settle_join_aggregate (\<lambda>_. False) k now i b db = Inr ((), db\<lparr>operations := ops, batches := bs\<rparr>)"
  by (auto simp: settle_join_aggregate_def refresh_join_def tx_bind_def stmt_def exec_operations_def
      exec_batches_def tx_return_def)

lemma sample_recovery:
  "\<exists>db'. recover_expired_join (\<lambda>s. s) (\<lambda>_. False) (\<lambda>_. False) (\<lambda>_. ''n1'') 50 sample_join = (Inr True, db')"
proof -
  let ?item = "returned_item sample_join_task"
  have item: "it_id ?item = ''t1''" "it_op_target ?item = ''r1''" "it_workspace ?item = ''w1''"
      "it_target ?item = ''a1''" "it_correlation ?item = ''c1''"
    by (simp_all add: join_sample_defs)
  define db3 where "db3 = sample_join\<lparr>
     tasks := update_where (\<lambda>u. tk_id u = ''t1'') (released Interrupted 50) (tasks sample_join),
     op_targets := update_where (\<lambda>x. ot_id x = ''r1'')
       (concluded ''unknown'' (Some ''platform_unknown'') (Some ''lease_lost'') (Some 50) 50) (op_targets sample_join),
     operations := update_where (\<lambda>x. op_id x = op_id (sample_operation ''join'') \<and> op_lease_owner x = Some ''t1'')
       (unleased 50) (operations sample_join)\<rparr>"
  obtain ops bs where a: "settle_join_aggregate (\<lambda>_. False) 5 50 (op_id (sample_operation ''join''))
      (op_batch (sample_operation ''join'')) db3 = Inr ((), db3\<lparr>operations := ops, batches := bs\<rparr>)"
    using settle_join_runs by blast
  define db4 where "db4 = db3\<lparr>operations := ops, batches := bs\<rparr>"
  let ?row = "join_reconcile_task ''n1'' 50 ''r1'' ''w1'' ''a1'' (Some ''t1'') (''join-reconcile-recovery:'' @ ''t1'') ''c1''"
  define db5 where "db5 = db4\<lparr>tasks := tasks db4 @ [?row]\<rparr>"
  have u: "upsert_task ?row db4 = Inr (''n1'', db5)"
    by (simp add: upsert_task_def db5_def db4_def db3_def update_where_def task_ok_def task_subject_ok_def released_def
        same_key_def join_sample_defs)
  have "audit_events db5 = []" by (simp add: db5_def db4_def db3_def sample_join_def empty_store_def)
  with sample_events(1) obtain r1 where e1: "audit_fact (\<lambda>s. s) (\<lambda>_. False) 8 ''n1'' 50 sample_lost_event db5
      = Inr ((), db5\<lparr>audit_events := [r1]\<rparr>)" and k: "au_key r1 = stable_key (\<lambda>s. s) sample_lost_event"
    using audit_fact_new [of sample_lost_event _ db5 "\<lambda>s. s" 8 "''n1''" 50] by auto
  with sample_events(2,3) obtain es where
      e2: "audit_fact (\<lambda>s. s) (\<lambda>_. False) 10 ''n1'' 50 sample_queued_event (db5\<lparr>audit_events := [r1]\<rparr>) = Inr ((), es)"
    using audit_fact_new [of sample_queued_event _ "db5\<lparr>audit_events := [r1]\<rparr>" "\<lambda>s. s" 10 "''n1''" 50] by auto
  show ?thesis
    using a u e1 e2
    by (simp add: recover_expired_join_def in_tx_def run_tx_def stmt_def tx_bind_def tx_return_def sample_first_lost
        exec_tasks_def exec_targets_def exec_operations_def item sample_lost_event_def sample_queued_event_def Let_def
        flip: db3_def db4_def)
qed


end
