(* ===== verification/Egress.thy ===== *)
theory Egress
  imports Prelude "HOL-Library.Sublist"
begin

text \<open>
  Package internal/egress, file egress.go: the routing policy of platform traffic.  The
  deployment chooses direct traffic or proxies that must pass an admission pass; the
  model covers the configuration checks, the admission of candidates by reachability and
  measured public exit address, the redacted status, and the clients the router hands out.

  Parameters: \<open>P\<close> is url.Parse, \<open>A\<close> is netip.ParseAddr, \<open>D\<close> is json.Unmarshal into
  a list of endpoints, \<open>M\<close> is HMAC-SHA-256, \<open>S\<close> is netip.Addr.String, and an
  \<open>exchange\<close> is what one GET request through a route answers.
\<close>

section \<open>Configuration\<close>

datatype mode = ModeDirect | ModeRequired

record endpoint =
  ep_id :: string
  ep_url :: string

record config =
  cf_mode :: mode
  cf_endpoints :: "endpoint list"
  cf_reach :: string
  cf_echo :: string
  cf_key :: string
  cf_key_version :: string
  cf_dial_timeout :: duration
  cf_tls_timeout :: duration
  cf_header_timeout :: duration
  cf_idle_timeout :: duration
  cf_request_timeout :: duration

datatype egress_error =
    ModeInvalid | ConfigInvalid | UnknownConfig | DirectConfigInvalid | RequiredConfigMissing
  | ReachabilityUrlInvalid | IpEchoUrlInvalid | EndpointIdInvalid | EndpointInvalid
  | SchemeUnsupported | AuthInvalid | CapacityExhausted | DirectCandidateInvalid
  | CandidateNotAdmitted | TransportInvalid | DnsFailed | IpEchoInvalid | IpEchoNonPublic

primrec error_code :: "egress_error \<Rightarrow> string" where
  "error_code ModeInvalid = ''egress_mode_invalid''"
| "error_code ConfigInvalid = ''egress_config_invalid''"
| "error_code UnknownConfig = ''egress_unknown_config''"
| "error_code DirectConfigInvalid = ''egress_direct_config_invalid''"
| "error_code RequiredConfigMissing = ''egress_required_config_missing''"
| "error_code ReachabilityUrlInvalid = ''egress_reachability_url_invalid''"
| "error_code IpEchoUrlInvalid = ''egress_ip_echo_url_invalid''"
| "error_code EndpointIdInvalid = ''egress_endpoint_id_invalid''"
| "error_code EndpointInvalid = ''egress_endpoint_invalid''"
| "error_code SchemeUnsupported = ''egress_scheme_unsupported''"
| "error_code AuthInvalid = ''egress_auth_invalid''"
| "error_code CapacityExhausted = ''proxy_capacity_exhausted''"
| "error_code DirectCandidateInvalid = ''egress_direct_candidate_invalid''"
| "error_code CandidateNotAdmitted = ''proxy_candidate_not_admitted''"
| "error_code TransportInvalid = ''proxy_transport_invalid''"
| "error_code DnsFailed = ''proxy_dns_failed''"
| "error_code IpEchoInvalid = ''proxy_ip_echo_invalid''"
| "error_code IpEchoNonPublic = ''proxy_ip_echo_non_public''"

definition parse_mode :: "unicode \<Rightarrow> string \<Rightarrow> (egress_error, mode) result" where
  "parse_mode U v =
     (let m = to_lower U (trim_space v) in
      if m = ''direct'' then Inr ModeDirect
      else if m = ''required'' then Inr ModeRequired
      else Inl ModeInvalid)"

definition plain_config :: "mode \<Rightarrow> config" where
  "plain_config m =
     \<lparr>cf_mode = m, cf_endpoints = [], cf_reach = [], cf_echo = [], cf_key = [], cf_key_version = [],
      cf_dial_timeout = 0, cf_tls_timeout = 0, cf_header_timeout = 0, cf_idle_timeout = 0,
      cf_request_timeout = 0\<rparr>"

definition config_from_env ::
  "unicode \<Rightarrow> (string \<Rightarrow> endpoint list option) \<Rightarrow> (string \<Rightarrow> string) option
    \<Rightarrow> (egress_error, config) result" where
  "config_from_env U D getenv =
    (case getenv of
       None \<Rightarrow> Inl ConfigInvalid
     | Some env \<Rightarrow>
        if env ''TSW_EGRESS_PROXY'' \<noteq> [] \<or> env ''TSW_PROXY_URL'' \<noteq> [] then Inl UnknownConfig
        else rbind (parse_mode U (env ''TSW_EGRESS_MODE'')) (\<lambda>m.
          if m = ModeDirect then
            (if env ''TSW_EGRESS_ENDPOINTS'' \<noteq> [] \<or> env ''TSW_EGRESS_REACHABILITY_URL'' \<noteq> []
                \<or> env ''TSW_EGRESS_IP_ECHO_URL'' \<noteq> [] \<or> env ''TSW_EGRESS_HMAC_KEY'' \<noteq> []
                \<or> env ''TSW_EGRESS_HMAC_KEY_VERSION'' \<noteq> []
             then Inl DirectConfigInvalid else Inr (plain_config m))
          else
            (case D (env ''TSW_EGRESS_ENDPOINTS'') of
               None \<Rightarrow> Inl RequiredConfigMissing
             | Some es \<Rightarrow>
                if es = [] then Inl RequiredConfigMissing
                else Inr ((plain_config m)
                  \<lparr>cf_endpoints := es, cf_reach := env ''TSW_EGRESS_REACHABILITY_URL'',
                   cf_echo := env ''TSW_EGRESS_IP_ECHO_URL'', cf_key := env ''TSW_EGRESS_HMAC_KEY'',
                   cf_key_version := env ''TSW_EGRESS_HMAC_KEY_VERSION''\<rparr>))))"

section \<open>URLs and endpoints\<close>

text \<open>The parts of a parsed URL the package looks at; the user is absent or has a name and maybe a password.\<close>

record url =
  url_scheme :: string
  url_host :: string
  url_hostname :: string
  url_port :: string
  url_path :: string
  url_raw_query :: string
  url_fragment :: string
  url_user :: "(string \<times> string option) option"

definition probe_url_ok :: "(string \<Rightarrow> url option) \<Rightarrow> string \<Rightarrow> bool" where
  "probe_url_ok P raw =
     (case P raw of
        None \<Rightarrow> False
      | Some u \<Rightarrow> (url_scheme u = ''http'' \<or> url_scheme u = ''https'') \<and> url_host u \<noteq> []
          \<and> url_user u = None \<and> url_raw_query u = [] \<and> url_fragment u = [])"

text \<open>strconv.Atoi: an optional sign and decimal digits, within the 64-bit range.\<close>

definition digit_value :: "char \<Rightarrow> nat option" where
  "digit_value c = (if 48 \<le> char_code c \<and> char_code c \<le> 57 then Some (char_code c - 48) else None)"

fun digits_value :: "nat \<Rightarrow> string \<Rightarrow> nat option" where
  "digits_value acc [] = Some acc"
| "digits_value acc (c # s) =
     (case digit_value c of None \<Rightarrow> None | Some d \<Rightarrow> digits_value (10 * acc + d) s)"

definition unsigned_value :: "string \<Rightarrow> nat option" where
  "unsigned_value s = (if s = [] then None else digits_value 0 s)"

definition atoi :: "string \<Rightarrow> int option" where
  "atoi s =
     (let neg = has_prefix s ''-''; body = (if neg \<or> has_prefix s ''+'' then drop 1 s else s) in
      case unsigned_value body of
        None \<Rightarrow> None
      | Some n \<Rightarrow>
         (let v = (if neg then - int n else int n) in
          if - (2 ^ 63) \<le> v \<and> v < 2 ^ 63 then Some v else None))"

definition parse_port :: "string \<Rightarrow> bool" where
  "parse_port raw = (case atoi raw of None \<Rightarrow> False | Some p \<Rightarrow> 0 < p \<and> p \<le> 65535)"

record endpoint_url =
  eu_url :: url
  eu_username :: string
  eu_password :: string
  eu_has_auth :: bool
  eu_scheme :: string

definition proxy_schemes :: "string list" where
  "proxy_schemes = [''http'', ''https'', ''socks5'', ''socks5h'']"

definition parse_endpoint ::
  "unicode \<Rightarrow> (string \<Rightarrow> url option) \<Rightarrow> string \<Rightarrow> (egress_error, endpoint_url) result" where
  "parse_endpoint U P raw =
    (case P raw of
       None \<Rightarrow> Inl EndpointInvalid
     | Some u \<Rightarrow>
        if url_host u = [] \<or> url_hostname u = [] \<or> url_port u = [] \<or> \<not> parse_port (url_port u)
           \<or> url_path u \<noteq> [] \<or> url_raw_query u \<noteq> [] \<or> url_fragment u \<noteq> []
        then Inl EndpointInvalid
        else
          (let scheme = to_lower U (url_scheme u) in
           if scheme \<notin> set proxy_schemes then Inl SchemeUnsupported
           else case url_user u of
             None \<Rightarrow> Inr \<lparr>eu_url = u, eu_username = [], eu_password = [], eu_has_auth = False, eu_scheme = scheme\<rparr>
           | Some (name, pw) \<Rightarrow>
               (case pw of
                  None \<Rightarrow> Inl AuthInvalid
                | Some p \<Rightarrow>
                   if name = [] \<or> p = [] then Inl AuthInvalid
                   else Inr \<lparr>eu_url = u, eu_username = name, eu_password = p, eu_has_auth = True,
                             eu_scheme = scheme\<rparr>)))"

section \<open>The router\<close>

type_synonym fingerprint = string

record route_candidate =
  ca_id :: string
  ca_scheme :: string
  ca_fp :: fingerprint
  ca_verified_at :: instant
  ca_endpoint :: endpoint

record router =
  ro_config :: config
  ro_candidates :: "fingerprint \<Rightarrow> route_candidate option"

definition positive_or :: "duration \<Rightarrow> duration \<Rightarrow> duration" where
  "positive_or d v = (if v \<le> 0 then d else v)"

definition with_defaults :: "config \<Rightarrow> config" where
  "with_defaults c =
     c\<lparr>cf_dial_timeout := positive_or (3 * second) (cf_dial_timeout c),
       cf_tls_timeout := positive_or (3 * second) (cf_tls_timeout c),
       cf_header_timeout := positive_or (5 * second) (cf_header_timeout c),
       cf_idle_timeout := positive_or (30 * second) (cf_idle_timeout c),
       cf_request_timeout := positive_or (10 * second) (cf_request_timeout c)\<rparr>"

text \<open>The loop over the endpoints: each has a new identifier and a valid URL.\<close>

fun check_endpoints ::
  "unicode \<Rightarrow> (string \<Rightarrow> url option) \<Rightarrow> string list \<Rightarrow> endpoint list \<Rightarrow> egress_error option" where
  "check_endpoints U P seen [] = None"
| "check_endpoints U P seen (e # es) =
     (if ep_id e = [] \<or> ep_id e \<in> set seen then Some EndpointIdInvalid
      else case parse_endpoint U P (ep_url e) of
        Inl err \<Rightarrow> Some err
      | Inr _ \<Rightarrow> check_endpoints U P (ep_id e # seen) es)"

definition new_router ::
  "unicode \<Rightarrow> (string \<Rightarrow> url option) \<Rightarrow> config \<Rightarrow> (egress_error, router) result" where
  "new_router U P c =
    (if cf_mode c = ModeDirect then
       (if cf_endpoints c \<noteq> [] \<or> cf_reach c \<noteq> [] \<or> cf_echo c \<noteq> [] \<or> cf_key c \<noteq> [] \<or> cf_key_version c \<noteq> []
        then Inl DirectConfigInvalid
        else Inr \<lparr>ro_config = with_defaults c, ro_candidates = (\<lambda>_. None)\<rparr>)
     else if cf_endpoints c = [] \<or> cf_reach c = [] \<or> cf_echo c = [] \<or> cf_key c = [] \<or> cf_key_version c = []
       then Inl RequiredConfigMissing
     else if \<not> probe_url_ok P (cf_reach c) then Inl ReachabilityUrlInvalid
     else if \<not> probe_url_ok P (cf_echo c) then Inl IpEchoUrlInvalid
     else case check_endpoints U P [] (cf_endpoints c) of
       Some err \<Rightarrow> Inl err
     | None \<Rightarrow> Inr \<lparr>ro_config = with_defaults c, ro_candidates = (\<lambda>_. None)\<rparr>)"

section \<open>Public addresses\<close>

text \<open>netip.Addr: an IPv4 or an IPv6 address, the latter with a zone (empty for none).\<close>

datatype addr = V4 "32 word" | V6 "128 word" string

definition in_prefix4 :: "32 word \<Rightarrow> 32 word \<times> nat \<Rightarrow> bool" where
  "in_prefix4 a p = (drop_bit (32 - snd p) a = drop_bit (32 - snd p) (fst p))"

definition in_prefix6 :: "128 word \<Rightarrow> 128 word \<times> nat \<Rightarrow> bool" where
  "in_prefix6 a p = (drop_bit (128 - snd p) a = drop_bit (128 - snd p) (fst p))"

definition quad :: "nat \<Rightarrow> nat \<Rightarrow> nat \<Rightarrow> nat \<Rightarrow> 32 word" where
  "quad a b c d = of_nat (((a * 256 + b) * 256 + c) * 256 + d)"

text \<open>The leading 16-bit groups of an IPv6 address, the rest zero.\<close>

definition groups :: "nat list \<Rightarrow> 128 word" where
  "groups gs = of_nat (foldl (\<lambda>n g. n * 65536 + g) 0 gs * 2 ^ (16 * (8 - length gs)))"

definition non_public4 :: "(32 word \<times> nat) list" where
  "non_public4 =
     [(quad 0 0 0 0, 8), (quad 10 0 0 0, 8), (quad 100 64 0 0, 10), (quad 127 0 0 0, 8),
      (quad 169 254 0 0, 16), (quad 172 16 0 0, 12), (quad 192 0 0 0, 24), (quad 192 0 2 0, 24),
      (quad 192 31 196 0, 24), (quad 192 52 193 0, 24), (quad 192 88 99 0, 24),
      (quad 192 168 0 0, 16), (quad 192 175 48 0, 24), (quad 198 18 0 0, 15),
      (quad 198 51 100 0, 24), (quad 203 0 113 0, 24), (quad 224 0 0 0, 4), (quad 240 0 0 0, 4)]"

definition non_public6 :: "(128 word \<times> nat) list" where
  "non_public6 =
     [(groups [], 128), (groups [0, 0, 0, 0, 0, 0, 0, 1], 128), (groups [0x64, 0xff9b], 96),
      (groups [0x64, 0xff9b, 1], 48), (groups [0x100], 64), (groups [0x100, 0, 0, 1], 64),
      (groups [0x2001], 23), (groups [0x2001, 0xdb8], 32), (groups [0x2002], 16),
      (groups [0x2620, 0x4f, 0x8000], 48), (groups [0x3fff], 20), (groups [0x5f00], 16),
      (groups [0xfc00], 7), (groups [0xfe80], 10), (groups [0xff00], 8)]"

text \<open>
  Prefix.Contains compares addresses of one family, and a prefix contains no address with
  a zone.
\<close>

definition is_non_public :: "addr \<Rightarrow> bool" where
  "is_non_public a =
     (case a of
        V4 w \<Rightarrow> list_ex (in_prefix4 w) non_public4
      | V6 w z \<Rightarrow> z = [] \<and> list_ex (in_prefix6 w) non_public6)"

definition is_4in6 :: "addr \<Rightarrow> bool" where
  "is_4in6 a = (case a of V4 _ \<Rightarrow> False | V6 w _ \<Rightarrow> drop_bit 32 w = 0xffff)"

definition unmapped :: "addr \<Rightarrow> addr" where
  "unmapped a = (case a of V4 w \<Rightarrow> V4 w | V6 w z \<Rightarrow> if is_4in6 a then V4 (ucast w) else a)"

text \<open>
  Addr.IsGlobalUnicast: not unspecified, not the IPv4 broadcast, loopback, multicast or
  link-local address.  An unspecified IPv6 address is the zero address without a zone.
\<close>

definition is_global_unicast :: "addr \<Rightarrow> bool" where
  "is_global_unicast a =
     (case a of
        V4 w \<Rightarrow> w \<noteq> 0 \<and> w \<noteq> quad 255 255 255 255 \<and> \<not> in_prefix4 w (quad 127 0 0 0, 8)
          \<and> \<not> in_prefix4 w (quad 224 0 0 0, 4) \<and> \<not> in_prefix4 w (quad 169 254 0 0, 16)
      | V6 w z \<Rightarrow> \<not> (w = 0 \<and> z = []) \<and> \<not> in_prefix6 w (groups [0xff00], 8)
          \<and> \<not> (w = 1) \<and> \<not> in_prefix6 w (groups [0xfe80], 10))"

definition normalize_public_ip ::
  "(string \<Rightarrow> addr option) \<Rightarrow> string \<Rightarrow> (egress_error, addr) result" where
  "normalize_public_ip A raw =
     (case A (trim_space raw) of
        None \<Rightarrow> Inl IpEchoInvalid
      | Some a \<Rightarrow>
         (let b = unmapped a in
          if \<not> is_global_unicast b \<or> is_non_public b then Inl IpEchoNonPublic else Inr b))"

definition fingerprint_of ::
  "(string \<Rightarrow> string \<Rightarrow> string) \<Rightarrow> (addr \<Rightarrow> string) \<Rightarrow> string \<Rightarrow> addr \<Rightarrow> fingerprint" where
  "fingerprint_of M S key a = M key (''teamseatwatch-egress-v1'' @ [char_of (0::nat)] @ S a)"

section \<open>Probing and admission\<close>

text \<open>The answer to one request: none on a transport error, else the status and the body read so far.\<close>

type_synonym exchange = "(int \<times> string option) option"

definition probe_status :: "exchange \<Rightarrow> bool" where
  "probe_status x = (case x of None \<Rightarrow> False | Some (st, _) \<Rightarrow> 200 \<le> st \<and> st < 300)"

definition probe_body :: "exchange \<Rightarrow> string option" where
  "probe_body x =
     (case x of
        Some (st, Some body) \<Rightarrow>
          (if 256 < length (take 257 body) \<or> st < 200 \<or> 300 \<le> st then None else Some (take 257 body))
      | _ \<Rightarrow> None)"

text \<open>The transport of a parsed endpoint exists, as far as the SOCKS library agrees.\<close>

definition transport_ok :: "(endpoint_url \<Rightarrow> bool) \<Rightarrow> endpoint_url \<Rightarrow> egress_error option" where
  "transport_ok K e =
     (if eu_scheme e = ''http'' \<or> eu_scheme e = ''https'' then None
      else if eu_scheme e = ''socks5'' \<or> eu_scheme e = ''socks5h'' then (if K e then None else Some TransportInvalid)
      else Some SchemeUnsupported)"

record probe_env =
  pn_unicode :: unicode
  pn_parse :: "string \<Rightarrow> url option"
  pn_addr :: "string \<Rightarrow> addr option"
  pn_socks :: "endpoint_url \<Rightarrow> bool"
  pn_mac :: "string \<Rightarrow> string \<Rightarrow> string"
  pn_show :: "addr \<Rightarrow> string"
  pn_get :: "endpoint \<Rightarrow> string \<Rightarrow> exchange"
  pn_clock :: "endpoint \<Rightarrow> instant"

definition probe_route :: "probe_env \<Rightarrow> router \<Rightarrow> endpoint \<Rightarrow> (string, route_candidate) result" where
  "probe_route N r e =
    (case parse_endpoint (pn_unicode N) (pn_parse N) (ep_url e) of
       Inl _ \<Rightarrow> Inl ''egress_endpoint_invalid''
     | Inr p \<Rightarrow>
        if transport_ok (pn_socks N) p \<noteq> None then Inl ''proxy_transport_invalid''
        else if \<not> probe_status (pn_get N e (cf_reach (ro_config r))) then Inl ''proxy_platform_unreachable''
        else case probe_body (pn_get N e (cf_echo (ro_config r))) of
          None \<Rightarrow> Inl ''proxy_ip_echo_unreachable''
        | Some body \<Rightarrow>
           (case normalize_public_ip (pn_addr N) body of
              Inl err \<Rightarrow> Inl (error_code err)
            | Inr a \<Rightarrow> Inr \<lparr>ca_id = ep_id e, ca_scheme = eu_scheme p,
                ca_fp = fingerprint_of (pn_mac N) (pn_show N) (cf_key (ro_config r)) a,
                ca_verified_at = pn_clock N e, ca_endpoint = e\<rparr>))"

record failure =
  fa_id :: string
  fa_scheme :: string
  fa_code :: string

record admission =
  ad_candidates :: "route_candidate list"
  ad_failures :: "failure list"
  ad_validated_at :: instant

definition endpoint_scheme :: "probe_env \<Rightarrow> endpoint \<Rightarrow> string" where
  "endpoint_scheme N e =
     (case parse_endpoint (pn_unicode N) (pn_parse N) (ep_url e) of Inl _ \<Rightarrow> [] | Inr p \<Rightarrow> eu_scheme p)"

text \<open>
  The loop of Admit: the candidate map grows with the first candidate of each exit; the
  admitted candidates and the failures are appended in the order of the endpoints.
\<close>

fun admit_loop ::
  "probe_env \<Rightarrow> router \<Rightarrow> endpoint list \<Rightarrow> (fingerprint \<Rightarrow> route_candidate option)
    \<Rightarrow> route_candidate list \<Rightarrow> failure list
    \<Rightarrow> (fingerprint \<Rightarrow> route_candidate option) \<times> route_candidate list \<times> failure list" where
  "admit_loop N r [] m cs fs = (m, cs, fs)"
| "admit_loop N r (e # es) m cs fs =
    (case probe_route N r e of
       Inl code \<Rightarrow>
         admit_loop N r es m cs (fs @ [\<lparr>fa_id = ep_id e, fa_scheme = endpoint_scheme N e, fa_code = code\<rparr>])
     | Inr c \<Rightarrow>
        (case m (ca_fp c) of
           Some _ \<Rightarrow> admit_loop N r es m cs
             (fs @ [\<lparr>fa_id = ep_id e, fa_scheme = ca_scheme c, fa_code = ''egress_duplicate_exit''\<rparr>])
         | None \<Rightarrow> admit_loop N r es (m(ca_fp c \<mapsto> c)) (cs @ [c]) fs))"

definition admit ::
  "probe_env \<Rightarrow> instant \<Rightarrow> router \<Rightarrow> (egress_error option \<times> admission) \<times> router" where
  "admit N now r =
    (if cf_mode (ro_config r) = ModeDirect
     then ((None, \<lparr>ad_candidates = [], ad_failures = [], ad_validated_at = now\<rparr>), r)
     else case admit_loop N r (cf_endpoints (ro_config r)) (\<lambda>_. None) [] [] of (m, cs, fs) \<Rightarrow>
       ((if cs = [] then Some CapacityExhausted else None,
         \<lparr>ad_candidates = cs, ad_failures = fs, ad_validated_at = now\<rparr>),
        r\<lparr>ro_candidates := m\<rparr>))"

definition unique_exit_count :: "admission \<Rightarrow> nat" where
  "unique_exit_count a = length (ad_candidates a)"

definition bump :: "(string \<Rightarrow> nat option) \<Rightarrow> string \<Rightarrow> string \<Rightarrow> nat option" where
  "bump m k = m(k \<mapsto> (case m k of None \<Rightarrow> 1 | Some n \<Rightarrow> n + 1))"

record status =
  st_policy :: mode
  st_by_scheme :: "string \<Rightarrow> nat option"
  st_exits :: nat
  st_failures :: "string \<Rightarrow> nat option"
  st_validated_at :: instant

definition status_of :: "router \<Rightarrow> admission \<Rightarrow> status" where
  "status_of r a =
     \<lparr>st_policy = cf_mode (ro_config r),
      st_by_scheme = foldl bump (\<lambda>k. if k \<in> set proxy_schemes then Some 0 else None)
                       (map ca_scheme (ad_candidates a)),
      st_exits = unique_exit_count a,
      st_failures = foldl bump (\<lambda>_. None) (map fa_code (ad_failures a)),
      st_validated_at = ad_validated_at a\<rparr>"

section \<open>Clients\<close>

text \<open>A client is the transport it was built on: the direct one, or the proxy of an endpoint.\<close>

datatype client = DirectClient | ProxyClient endpoint_url

definition direct_client :: "router \<Rightarrow> (egress_error, client) result" where
  "direct_client r =
     (if cf_mode (ro_config r) = ModeRequired then Inl CapacityExhausted else Inr DirectClient)"

definition client_for :: "probe_env \<Rightarrow> router \<Rightarrow> route_candidate \<Rightarrow> (egress_error, client) result" where
  "client_for N r c =
    (if cf_mode (ro_config r) \<noteq> ModeRequired then Inl DirectCandidateInvalid
     else case ro_candidates r (ca_fp c) of
       None \<Rightarrow> Inl CandidateNotAdmitted
     | Some a \<Rightarrow>
        if ca_id a \<noteq> ca_id c \<or> ca_scheme a \<noteq> ca_scheme c then Inl CandidateNotAdmitted
        else case parse_endpoint (pn_unicode N) (pn_parse N) (ep_url (ca_endpoint a)) of
          Inl _ \<Rightarrow> Inl CandidateNotAdmitted
        | Inr p \<Rightarrow> (case transport_ok (pn_socks N) p of Some err \<Rightarrow> Inl err | None \<Rightarrow> Inr (ProxyClient p)))"

text \<open>
  localSOCKSDial: a literal address is dialled as it is; a name is resolved locally and
  its addresses are tried in order.  \<open>dial\<close> is the proxied dial of one address.
\<close>

fun dial_all :: "('h \<Rightarrow> ('e, 'c) result) \<Rightarrow> 'e \<Rightarrow> 'h list \<Rightarrow> ('e, 'c) result" where
  "dial_all dial e [] = Inl e"
| "dial_all dial e (ip # ips) =
     (case dial ip of Inr c \<Rightarrow> Inr c | Inl e' \<Rightarrow> dial_all dial e' ips)"

definition socks_dial ::
  "(string \<Rightarrow> addr option) \<Rightarrow> ('e, 'h list) result \<Rightarrow> (string \<Rightarrow> 'h) \<Rightarrow> 'e
    \<Rightarrow> ('h \<Rightarrow> ('e, 'c) result) \<Rightarrow> string \<Rightarrow> ('e, 'c) result" where
  "socks_dial A lookup_ips literal dns_error dial host =
     (if A host \<noteq> None then dial (literal host)
      else case lookup_ips of
        Inl _ \<Rightarrow> Inl dns_error
      | Inr ips \<Rightarrow> if ips = [] then Inl dns_error else dial_all dial dns_error ips)"

section \<open>Laws\<close>

lemma normalize_public_ip_Inr:
  "normalize_public_ip A raw = Inr b \<longleftrightarrow>
     (\<exists>a. A (trim_space raw) = Some a \<and> b = unmapped a \<and> is_global_unicast b \<and> \<not> is_non_public b)"
  by (auto simp: normalize_public_ip_def Let_def split: option.splits)

lemma drop_bit_ucast_mapped: "drop_bit 32 (w :: 128 word) = 0xffff \<Longrightarrow> unmapped (V6 w z) = V4 (ucast w)"
  by (simp add: unmapped_def is_4in6_def)

lemma unmapped_not_mapped: "\<not> is_4in6 (unmapped a)"
  by (cases a) (simp_all add: unmapped_def is_4in6_def)

lemma unmapped_idem [simp]: "unmapped (unmapped a) = unmapped a"
  by (cases a) (simp_all add: unmapped_def is_4in6_def)

text \<open>
  C16: the measured exit.  An accepted echo body names a global unicast address, never in
  IPv4-mapped form, outside every registered special-purpose and multicast block of its
  family (for an IPv6 address: when it carries no zone), and an echo of the accepted
  address is accepted again as the same address.
\<close>

theorem accepted_exit_is_public:
  assumes "normalize_public_ip A raw = Inr a"
  shows "is_global_unicast a \<and> \<not> is_4in6 a
    \<and> (\<forall>w. a = V4 w \<longrightarrow> \<not> (\<exists>p\<in>set non_public4. in_prefix4 w p))
    \<and> (\<forall>w. a = V6 w [] \<longrightarrow> \<not> (\<exists>p\<in>set non_public6. in_prefix6 w p))
    \<and> (B (trim_space s) = Some a \<longrightarrow> normalize_public_ip B s = Inr a)"
  using assms unmapped_not_mapped
  by (auto simp: normalize_public_ip_Inr is_non_public_def list_ex_iff)

definition sample_addr :: "string \<Rightarrow> addr option" where
  "sample_addr s = (if s = ''8.8.8.8'' then Some (V4 (quad 8 8 8 8))
     else if s = ''fd00::1%e'' then Some (V6 (groups [0xfd00, 0, 0, 0, 0, 0, 0, 1]) ''e'')
     else if s = ''fd00::1'' then Some (V6 (groups [0xfd00, 0, 0, 0, 0, 0, 0, 1]) [])
     else None)"

lemma trim_samples:
  "trim_space ''8.8.8.8'' = ''8.8.8.8''" "trim_space ''fd00::1%e'' = ''fd00::1%e''"
  "trim_space ''fd00::1'' = ''fd00::1''"
  by (simp_all add: trim_space_visible visible_def char_code_def)

text \<open>Evaluation of the address tests by natural numbers.\<close>

lemma in_prefix4_nat: "in_prefix4 a p \<longleftrightarrow> unat a div 2 ^ (32 - snd p) = unat (fst p) div 2 ^ (32 - snd p)"
  by (simp only: in_prefix4_def word_unat_eq_iff unat_drop_bit_eq) (simp only: drop_bit_eq_div)

lemma in_prefix6_nat: "in_prefix6 a p \<longleftrightarrow> unat a div 2 ^ (128 - snd p) = unat (fst p) div 2 ^ (128 - snd p)"
  by (simp only: in_prefix6_def word_unat_eq_iff unat_drop_bit_eq) (simp only: drop_bit_eq_div)

lemma is_4in6_nat: "is_4in6 (V6 w z) \<longleftrightarrow> unat w div 2 ^ 32 = 65535"
proof -
  have "unat (drop_bit 32 w) = unat w div 2 ^ 32"
    by (simp only: unat_drop_bit_eq) (simp only: drop_bit_eq_div)
  moreover have "(drop_bit 32 w = 0xffff) \<longleftrightarrow> unat (drop_bit 32 w) = unat (0xffff :: 128 word)"
    by (rule word_unat_eq_iff)
  ultimately show ?thesis by (simp only: is_4in6_def addr.case) simp
qed

lemmas addr_eval = is_non_public_def is_global_unicast_def non_public4_def non_public6_def
  in_prefix4_nat in_prefix6_nat is_4in6_nat quad_def groups_def unmapped_def

lemma quad_8_ok: "normalize_public_ip sample_addr ''8.8.8.8'' = Inr (V4 (quad 8 8 8 8))"
  unfolding normalize_public_ip_Inr trim_samples by (simp add: sample_addr_def addr_eval)

theorem accepted_exit_is_public_witness:
  "is_global_unicast (V4 (quad 8 8 8 8)) \<and> \<not> (\<exists>p\<in>set non_public4. in_prefix4 (quad 8 8 8 8) p)"
  using accepted_exit_is_public [OF quad_8_ok, of sample_addr "''8.8.8.8''"] by blast

text \<open>
  C17: a zone bypasses the registry.  For every non-public block, an address of it that
  carries a zone is accepted whenever it is a unicast address outside the loopback and
  link-local ranges: the unique local address fd00::1 is refused, and fd00::1%e, the same
  address with a zone, is accepted as a public exit.
\<close>

theorem zone_bypasses_registry:
  "(A (trim_space raw) = Some (V6 w z) \<and> z \<noteq> [] \<and> \<not> is_4in6 (V6 w z) \<and> is_global_unicast (V6 w z)
     \<longrightarrow> normalize_public_ip A raw = Inr (V6 w z))
   \<and> normalize_public_ip sample_addr ''fd00::1'' = Inl IpEchoNonPublic
   \<and> normalize_public_ip sample_addr ''fd00::1%e'' = Inr (V6 (groups [0xfd00, 0, 0, 0, 0, 0, 0, 1]) ''e'')"
proof -
  let ?w = "groups [0xfd00, 0, 0, 0, 0, 0, 0, 1]"
  have "is_non_public (V6 ?w [])" "\<not> is_4in6 (V6 ?w [])" by (simp_all add: addr_eval)
  then have "normalize_public_ip sample_addr ''fd00::1'' = Inl IpEchoNonPublic"
    by (simp add: normalize_public_ip_def trim_samples sample_addr_def unmapped_def)
  moreover have gen: "normalize_public_ip A raw = Inr (V6 w z)"
    if "A (trim_space raw) = Some (V6 w z)" "z \<noteq> []" "\<not> is_4in6 (V6 w z)" "is_global_unicast (V6 w z)" for A raw w z
    using that by (simp add: normalize_public_ip_Inr unmapped_def is_non_public_def)
  moreover have "normalize_public_ip sample_addr ''fd00::1%e'' = Inr (V6 ?w ''e'')"
    by (rule gen) (simp_all add: trim_samples sample_addr_def addr_eval)
  ultimately show ?thesis by blast
qed

theorem zone_bypasses_registry_witness:
  "normalize_public_ip (\<lambda>_. Some (V6 (groups [0xfc00, 1]) ''x'')) [] = Inr (V6 (groups [0xfc00, 1]) ''x'')"
proof -
  have "\<not> is_4in6 (V6 (groups [0xfc00, 1]) ''x'')" "is_global_unicast (V6 (groups [0xfc00, 1]) ''x'')"
    by (simp_all add: addr_eval)
  then show ?thesis
    using zone_bypasses_registry [of "\<lambda>_. Some (V6 (groups [0xfc00, 1]) ''x'')" "[]" "groups [0xfc00, 1]" "''x''"]
    by simp
qed

section \<open>Router laws\<close>

lemma parse_endpoint_Inr:
  assumes "parse_endpoint U P raw = Inr p"
  shows "eu_scheme p \<in> set proxy_schemes" and "parse_port (url_port (eu_url p))"
    and "P raw = Some (eu_url p)" and "eu_has_auth p \<longleftrightarrow> url_user (eu_url p) \<noteq> None"
  using assms by (auto simp: parse_endpoint_def Let_def split: option.splits if_splits prod.splits)

lemma check_endpoints_None:
  "check_endpoints U P seen es = None \<Longrightarrow>
     distinct (map ep_id es) \<and> set seen \<inter> ep_id ` set es = {} \<and> [] \<notin> ep_id ` set es
     \<and> (\<forall>e\<in>set es. \<exists>p. parse_endpoint U P (ep_url e) = Inr p)"
proof (induction es arbitrary: seen)
  case Nil
  then show ?case by simp
next
  case (Cons e es)
  from Cons.prems have e: "ep_id e \<noteq> []" "ep_id e \<notin> set seen"
    and p: "\<exists>p. parse_endpoint U P (ep_url e) = Inr p"
    and rest: "check_endpoints U P (ep_id e # seen) es = None"
    by (auto split: if_splits sum.splits)
  from Cons.IH [OF rest] e p show ?case by auto
qed

lemma positive_or_pos: "0 < d \<Longrightarrow> 0 < positive_or d v"
  by (simp add: positive_or_def)

lemma new_router_Inr:
  assumes "new_router U P c = Inr r"
  shows "ro_config r = with_defaults c" and "ro_candidates r = (\<lambda>_. None)"
    and "cf_mode c = ModeDirect \<Longrightarrow> cf_endpoints c = [] \<and> cf_reach c = [] \<and> cf_echo c = [] \<and> cf_key c = []"
    and "cf_mode c = ModeRequired \<Longrightarrow> cf_endpoints c \<noteq> [] \<and> cf_key c \<noteq> [] \<and> check_endpoints U P [] (cf_endpoints c) = None"
  using assms by (auto simp: new_router_def split: if_splits option.splits)

text \<open>
  a constructed router.  No candidate is usable before an admission pass and every
  timeout is positive.  A direct router carries no proxy configuration; a required router
  carries at least one endpoint and key material, its endpoint identifiers are non-empty
  and pairwise different, and every endpoint URL has a supported scheme and an explicit
  port between 1 and 65535.
\<close>

theorem new_router_valid:
  assumes "new_router U P c = Inr r"
  shows "ro_candidates r = (\<lambda>_. None) \<and> 0 < cf_dial_timeout (ro_config r) \<and> 0 < cf_request_timeout (ro_config r)
    \<and> (cf_mode (ro_config r) = ModeDirect \<longrightarrow> cf_endpoints (ro_config r) = [] \<and> cf_key (ro_config r) = [])
    \<and> (cf_mode (ro_config r) = ModeRequired \<longrightarrow>
         cf_endpoints (ro_config r) \<noteq> [] \<and> cf_key (ro_config r) \<noteq> []
         \<and> distinct (map ep_id (cf_endpoints (ro_config r))) \<and> [] \<notin> ep_id ` set (cf_endpoints (ro_config r))
         \<and> (\<forall>e\<in>set (cf_endpoints (ro_config r)). \<exists>u. P (ep_url e) = Some u
              \<and> to_lower U (url_scheme u) \<in> set proxy_schemes
              \<and> (\<exists>n. atoi (url_port u) = Some n \<and> 1 \<le> n \<and> n \<le> 65535)))"
proof -
  have url: "\<exists>u. P raw = Some u \<and> to_lower U (url_scheme u) \<in> set proxy_schemes
      \<and> (\<exists>n. atoi (url_port u) = Some n \<and> 1 \<le> n \<and> n \<le> 65535)"
    if "\<exists>p. parse_endpoint U P raw = Inr p" for raw
    using that
    by (auto simp: parse_endpoint_def parse_port_def Let_def split: option.splits if_splits prod.splits)
  have eps: "distinct (map ep_id (cf_endpoints c)) \<and> [] \<notin> ep_id ` set (cf_endpoints c)
      \<and> (\<forall>e\<in>set (cf_endpoints c). \<exists>u. P (ep_url e) = Some u \<and> to_lower U (url_scheme u) \<in> set proxy_schemes
          \<and> (\<exists>n. atoi (url_port u) = Some n \<and> 1 \<le> n \<and> n \<le> 65535))" if "cf_mode c = ModeRequired"
    using check_endpoints_None [of U P "[]" "cf_endpoints c"] new_router_Inr(4) [OF assms that]
    by (simp add: url)
  show ?thesis
    using new_router_Inr [OF assms] eps
    by (simp add: with_defaults_def positive_or_pos time_defs)
qed

definition sample_parse :: "string \<Rightarrow> url option" where
  "sample_parse s = Some \<lparr>url_scheme = ''http'', url_host = ''p:80'', url_hostname = ''p'', url_port = ''80'',
     url_path = [], url_raw_query = [], url_fragment = [], url_user = None\<rparr>"

definition sample_config :: config where
  "sample_config = (plain_config ModeRequired)
     \<lparr>cf_endpoints := [\<lparr>ep_id = ''a'', ep_url = ''u1''\<rparr>, \<lparr>ep_id = ''b'', ep_url = ''u2''\<rparr>],
      cf_reach := ''r'', cf_echo := ''e'', cf_key := ''k'', cf_key_version := ''1''\<rparr>"

definition ascii_only :: unicode where
  "ascii_only = \<lparr>u_lower = id, u_upper = id, u_fold = (=)\<rparr>"

lemma sample_endpoint:
  "\<exists>p. parse_endpoint ascii_only sample_parse raw = Inr p \<and> eu_scheme p = ''http''"
  by (simp add: parse_endpoint_def sample_parse_def parse_port_def atoi_def unsigned_value_def has_prefix_def
      digit_value_def to_lower_def ascii_def ascii_char_def lower_char_def char_code_def proxy_schemes_def Let_def)

lemma new_router_sample:
  "new_router ascii_only sample_parse sample_config
    = Inr \<lparr>ro_config = with_defaults sample_config, ro_candidates = (\<lambda>_. None)\<rparr>"
proof -
  have "probe_url_ok sample_parse raw" for raw by (simp add: probe_url_ok_def sample_parse_def)
  moreover have "check_endpoints ascii_only sample_parse [] (cf_endpoints sample_config) = None"
    using sample_endpoint [of "''u1''"] sample_endpoint [of "''u2''"] by (auto simp: sample_config_def)
  ultimately show ?thesis by (simp add: new_router_def sample_config_def plain_config_def)
qed

theorem new_router_valid_witness:
  "distinct (map ep_id (cf_endpoints (with_defaults sample_config)))
   \<and> 0 < cf_dial_timeout (with_defaults sample_config)"
  using new_router_valid [OF new_router_sample]
  by (simp add: with_defaults_def sample_config_def plain_config_def)

text \<open>What a successful probe establishes.\<close>

lemma probe_route_Inr:
  assumes "probe_route N r e = Inr c"
  shows "ca_endpoint c = e" and "ca_id c = ep_id e" and "ca_scheme c \<in> set proxy_schemes"
    and "\<exists>p. parse_endpoint (pn_unicode N) (pn_parse N) (ep_url e) = Inr p \<and> eu_scheme p = ca_scheme c
           \<and> transport_ok (pn_socks N) p = None"
    and "\<exists>body a. probe_body (pn_get N e (cf_echo (ro_config r))) = Some body
           \<and> normalize_public_ip (pn_addr N) body = Inr a
           \<and> ca_fp c = fingerprint_of (pn_mac N) (pn_show N) (cf_key (ro_config r)) a"
  using assms
  by (auto simp: probe_route_def dest: parse_endpoint_Inr(1) split: sum.splits option.splits if_splits)

definition admitted_ok ::
  "probe_env \<Rightarrow> router \<Rightarrow> (fingerprint \<Rightarrow> route_candidate option) \<Rightarrow> route_candidate list \<Rightarrow> bool" where
  "admitted_ok N r m cs \<longleftrightarrow> distinct (map ca_fp cs)
     \<and> (\<forall>c\<in>set cs. m (ca_fp c) = Some c \<and> probe_route N r (ca_endpoint c) = Inr c)
     \<and> dom m = ca_fp ` set cs"

lemma admit_loop_ok:
  assumes "admit_loop N r es m cs fs = (m', cs', fs')" and "admitted_ok N r m cs"
  shows "admitted_ok N r m' cs' \<and> length cs' + length fs' = length cs + length fs + length es
    \<and> (\<exists>ds. cs' = cs @ ds \<and> subseq (map ca_endpoint ds) es)"
  using assms
proof (induction es arbitrary: m cs fs)
  case Nil
  then show ?case by simp
next
  case (Cons e es)
  show ?case
  proof (cases "probe_route N r e")
    case (Inl code)
    then show ?thesis using Cons.IH [of m cs] Cons.prems by fastforce
  next
    case (Inr c)
    note c = probe_route_Inr(1) [OF Inr]
    show ?thesis
    proof (cases "m (ca_fp c)")
      case None
      then have "\<forall>d\<in>set cs. ca_fp d \<noteq> ca_fp c" using Cons.prems(2) by (auto simp: admitted_ok_def)
      then have "admitted_ok N r (m(ca_fp c \<mapsto> c)) (cs @ [c])"
        using Cons.prems(2) Inr c by (auto simp: admitted_ok_def)
      moreover have "admit_loop N r es (m(ca_fp c \<mapsto> c)) (cs @ [c]) fs = (m', cs', fs')"
        using Cons.prems(1) Inr None by (simp del: fun_upd_apply)
      ultimately have "admitted_ok N r m' cs' \<and> length cs' + length fs' = length (cs @ [c]) + length fs + length es
          \<and> (\<exists>ds. cs' = (cs @ [c]) @ ds \<and> subseq (map ca_endpoint ds) es)"
        by (intro Cons.IH)
      then show ?thesis using c by auto
    next
      case (Some d)
      then show ?thesis using Cons.IH [of m cs] Cons.prems Inr by fastforce
    qed
  qed
qed

text \<open>
  Admission.  One pass over the endpoints of a required router sorts every endpoint
  into the admitted candidates or the failures; the candidates keep the order of the
  configuration, each was probed successfully, no two share a measured exit, and exactly
  these are what the router will build clients for from now on.  The pass reports an error
  exactly when nothing was admitted: it never falls back to direct traffic.
\<close>

theorem admission_sorts_endpoints:
  assumes "cf_mode (ro_config r) = ModeRequired" and "admit N now r = ((err, ad), r')"
  shows "length (ad_candidates ad) + length (ad_failures ad) = length (cf_endpoints (ro_config r))
    \<and> subseq (map ca_endpoint (ad_candidates ad)) (cf_endpoints (ro_config r))
    \<and> distinct (map ca_fp (ad_candidates ad))
    \<and> (\<forall>c\<in>set (ad_candidates ad). probe_route N r (ca_endpoint c) = Inr c)
    \<and> (\<forall>c. (\<exists>p. client_for N r' c = Inr p) \<longleftrightarrow>
         (\<exists>a\<in>set (ad_candidates ad). ca_fp a = ca_fp c \<and> ca_id a = ca_id c \<and> ca_scheme a = ca_scheme c))
    \<and> (err = Some CapacityExhausted \<longleftrightarrow> ad_candidates ad = []) \<and> direct_client r' = Inl CapacityExhausted"
proof -
  obtain m cs fs where l: "admit_loop N r (cf_endpoints (ro_config r)) (\<lambda>_. None) [] [] = (m, cs, fs)"
    by (metis prod_cases3)
  have res: "ad_candidates ad = cs" "ad_failures ad = fs" "r' = r\<lparr>ro_candidates := m\<rparr>"
    "err = (if cs = [] then Some CapacityExhausted else None)"
    using assms l by (auto simp: admit_def)
  have ok: "admitted_ok N r m cs" "length cs + length fs = length (cf_endpoints (ro_config r))"
    "subseq (map ca_endpoint cs) (cf_endpoints (ro_config r))"
    using admit_loop_ok [OF l] by (auto simp: admitted_ok_def)
  have cl: "(\<exists>p. client_for N r' c = Inr p) \<longleftrightarrow>
      (\<exists>a\<in>set cs. ca_fp a = ca_fp c \<and> ca_id a = ca_id c \<and> ca_scheme a = ca_scheme c)" for c
  proof (cases "m (ca_fp c)")
    case None
    then have "\<forall>d\<in>set cs. ca_fp d \<noteq> ca_fp c" using ok(1) by (auto simp: admitted_ok_def)
    then show ?thesis using None assms(1) by (auto simp: client_for_def res)
  next
    case (Some a)
    then have "ca_fp c \<in> ca_fp ` set cs" using ok(1) by (auto simp: admitted_ok_def)
    then obtain a' where "a' \<in> set cs" "ca_fp a' = ca_fp c" by auto
    then have a: "a \<in> set cs" "ca_fp a = ca_fp c" using Some ok(1) by (auto simp: admitted_ok_def)
    have one: "b = a" if "b \<in> set cs" "ca_fp b = ca_fp c" for b
      using that Some ok(1) by (auto simp: admitted_ok_def)
    obtain p where "parse_endpoint (pn_unicode N) (pn_parse N) (ep_url (ca_endpoint a)) = Inr p"
        "transport_ok (pn_socks N) p = None"
      using probe_route_Inr(4) [of N r "ca_endpoint a" a] a(1) ok(1) by (auto simp: admitted_ok_def)
    then have "(\<exists>p. client_for N r' c = Inr p) \<longleftrightarrow> ca_id a = ca_id c \<and> ca_scheme a = ca_scheme c"
      using assms(1) Some by (auto simp: client_for_def res)
    also have "\<dots> \<longleftrightarrow> (\<exists>a\<in>set cs. ca_fp a = ca_fp c \<and> ca_id a = ca_id c \<and> ca_scheme a = ca_scheme c)"
      using one a by metis
    finally show ?thesis .
  qed
  have "direct_client r' = Inl CapacityExhausted" using assms(1) by (simp add: direct_client_def res)
  moreover have "distinct (map ca_fp cs)" "\<forall>c\<in>set cs. probe_route N r (ca_endpoint c) = Inr c"
    using ok(1) by (simp_all add: admitted_ok_def)
  moreover have "err = Some CapacityExhausted \<longleftrightarrow> cs = []" by (simp add: res)
  ultimately show ?thesis
    using ok(2,3) cl unfolding res(1,2) by (intro conjI allI) assumption+
qed

definition sample_env :: probe_env where
  "sample_env = \<lparr>pn_unicode = ascii_only, pn_parse = sample_parse, pn_addr = sample_addr,
     pn_socks = (\<lambda>_. True), pn_mac = (\<lambda>k m. m), pn_show = (\<lambda>_. ''8.8.8.8''),
     pn_get = (\<lambda>e u. Some (200, Some ''8.8.8.8'')), pn_clock = (\<lambda>_. 0)\<rparr>"

theorem admission_sorts_endpoints_witness:
  "\<exists>r ad r'. new_router ascii_only sample_parse sample_config = Inr r
     \<and> fst (admit sample_env 0 r) = (None, ad)
     \<and> length (ad_candidates ad) + length (ad_failures ad) = 2 \<and> ad_candidates ad \<noteq> []"
proof -
  let ?r = "\<lparr>ro_config = with_defaults sample_config, ro_candidates = (\<lambda>_. None)\<rparr>"
  have m: "cf_mode (ro_config ?r) = ModeRequired" and n: "length (cf_endpoints (ro_config ?r)) = 2"
    by (simp_all add: with_defaults_def sample_config_def plain_config_def)
  have ex: "\<exists>c. probe_route sample_env ?r e = Inr c" for e
    using sample_endpoint [of "ep_url e"] quad_8_ok
    by (auto simp: probe_route_def sample_env_def transport_ok_def probe_status_def probe_body_def)
  obtain c1 c2 where c: "probe_route sample_env ?r \<lparr>ep_id = ''a'', ep_url = ''u1''\<rparr> = Inr c1"
      "probe_route sample_env ?r \<lparr>ep_id = ''b'', ep_url = ''u2''\<rparr> = Inr c2"
    using ex by metis
  have eps: "cf_endpoints (ro_config ?r) = [\<lparr>ep_id = ''a'', ep_url = ''u1''\<rparr>, \<lparr>ep_id = ''b'', ep_url = ''u2''\<rparr>]"
    by (simp add: with_defaults_def sample_config_def plain_config_def)
  obtain err ad r' where run: "admit sample_env 0 ?r = ((err, ad), r')" by (metis surj_pair)
  have "ad_candidates ad \<noteq> []"
    using run unfolding admit_def m eps
    by (cases "ca_fp c1 = ca_fp c2") (auto simp: c)
  then have "err = None" using run m by (auto simp: admit_def split: prod.splits if_splits)
  then show ?thesis
    using admission_sorts_endpoints [OF m run] new_router_sample run n \<open>ad_candidates ad \<noteq> []\<close> by auto
qed

lemma bump_sum:
  "finite S \<Longrightarrow> k \<in> S \<Longrightarrow> (\<forall>x\<in>S. m x \<noteq> None) \<Longrightarrow>
   (\<Sum>x\<in>S. the (bump m k x)) = Suc (\<Sum>x\<in>S. the (m x)) \<and> (\<forall>x\<in>S. bump m k x \<noteq> None)"
proof -
  assume S: "finite S" "k \<in> S" "\<forall>x\<in>S. m x \<noteq> None"
  then obtain n where n: "m k = Some n" by auto
  have "(\<Sum>x\<in>S - {k}. the (bump m k x)) = (\<Sum>x\<in>S - {k}. the (m x))"
    by (rule sum.cong) (simp_all add: bump_def)
  then show ?thesis
    using S n by (simp add: sum.remove [of S k] bump_def)
qed

lemma bump_frame: "k' \<noteq> k \<Longrightarrow> bump m k k' = m k'"
  by (simp add: bump_def)

lemma foldl_bump_sum:
  assumes "finite S" and "set ks \<subseteq> S" and "\<forall>x\<in>S. m x \<noteq> None"
  shows "(\<Sum>x\<in>S. the (foldl bump m ks x)) = length ks + (\<Sum>x\<in>S. the (m x))
    \<and> (\<forall>x. x \<notin> S \<longrightarrow> foldl bump m ks x = m x)"
  using assms
proof (induction ks arbitrary: m)
  case Nil
  then show ?case by simp
next
  case (Cons k ks)
  have "bump m k x = m x" if "x \<notin> S" for x using that Cons.prems(2) by (auto intro: bump_frame)
  then show ?case
    using Cons.prems bump_sum [of S k m] Cons.IH [of "bump m k"] by simp
qed

text \<open>
  The redacted status.  After an admission pass of a required router the status names
  no scheme beyond the four supported ones, and the admitted counts of the four add up to
  the number of unique exits.
\<close>

theorem status_counts_exits:
  assumes "cf_mode (ro_config r) = ModeRequired" and "admit N now r = ((err, ad), r')"
  shows "(\<Sum>s\<in>set proxy_schemes. the (st_by_scheme (status_of r' ad) s)) = st_exits (status_of r' ad)
    \<and> dom (st_by_scheme (status_of r' ad)) = set proxy_schemes
    \<and> st_policy (status_of r' ad) = ModeRequired"
proof -
  obtain m cs fs where l: "admit_loop N r (cf_endpoints (ro_config r)) (\<lambda>_. None) [] [] = (m, cs, fs)"
    by (metis prod_cases3)
  have res: "ad_candidates ad = cs" "cf_mode (ro_config r') = ModeRequired"
    using assms l by (auto simp: admit_def)
  have "admitted_ok N r m cs" using admit_loop_ok [OF l] by (simp add: admitted_ok_def)
  then have "set (map ca_scheme cs) \<subseteq> set proxy_schemes"
    using probe_route_Inr(3) by (fastforce simp: admitted_ok_def)
  moreover let ?m = "\<lambda>k. if k \<in> set proxy_schemes then Some (0::nat) else None"
  have "foldl bump ?m ks x \<noteq> None" if "x \<in> set proxy_schemes" for ks x
  proof -
    have "foldl bump m ks x \<noteq> None" if "m x \<noteq> None" for m
      using that by (induction ks arbitrary: m) (auto simp: bump_def)
    then show ?thesis using that by simp
  qed
  ultimately show ?thesis
    using foldl_bump_sum [of "set proxy_schemes" "map ca_scheme cs" ?m] res
    by (auto simp: status_of_def unique_exit_count_def dom_def)
qed

theorem status_counts_exits_witness:
  "\<exists>ad r'. snd (fst (admit sample_env 0 \<lparr>ro_config = with_defaults sample_config, ro_candidates = (\<lambda>_. None)\<rparr>)) = ad
     \<and> (\<Sum>s\<in>set proxy_schemes. the (st_by_scheme (status_of r' ad) s)) = st_exits (status_of r' ad)"
proof -
  let ?r = "\<lparr>ro_config = with_defaults sample_config, ro_candidates = (\<lambda>_. None)\<rparr>"
  have m: "cf_mode (ro_config ?r) = ModeRequired"
    by (simp add: with_defaults_def sample_config_def plain_config_def)
  obtain err ad r' where run: "admit sample_env 0 ?r = ((err, ad), r')" by (metis surj_pair)
  show ?thesis
    using status_counts_exits [OF m run] run by (intro exI [of _ ad] exI [of _ r']) simp
qed
end
