(* ===== verification/EgressPool.thy ===== *)
theory EgressPool
  imports Egress
begin

text \<open>
  Package internal/egress, files lease.go and manager.go: the in-process pool that binds
  each platform attempt to one admitted route.  A required-mode lease reserves a measured
  exit until it is released; a route whose exit has drifted is taken out of the pool until
  the next admission.  The mutex of the source makes each of the critical sections below
  one step; the measurement of an exit happens between them.
\<close>

section \<open>The pool\<close>

record pool =
  po_candidates :: "route_candidate list"
  po_active :: "fingerprint set"

record lease =
  le_mode :: mode
  le_candidate :: "route_candidate option"
  le_client :: client
  le_fp :: fingerprint
  le_verified_at :: instant
  le_released :: bool

datatype lease_error = ErrLeaseExhausted | ErrLeaseReleased | ErrEgressDrift | ErrRouter egress_error

definition new_pool :: "router option \<Rightarrow> admission \<Rightarrow> pool option" where
  "new_pool r ad =
     (case r of
        None \<Rightarrow> None
      | Some r \<Rightarrow> Some \<lparr>po_candidates =
          (if cf_mode (ro_config r) = ModeRequired then ad_candidates ad else []), po_active = {}\<rparr>)"

text \<open>The first candidate whose exit is not in use is reserved.\<close>

definition reserve :: "pool \<Rightarrow> (route_candidate \<times> pool) option" where
  "reserve p =
     (case find (\<lambda>c. ca_fp c \<notin> po_active p) (po_candidates p) of
        None \<Rightarrow> None
      | Some c \<Rightarrow> Some (c, p\<lparr>po_active := insert (ca_fp c) (po_active p)\<rparr>))"

fun remove_first :: "fingerprint \<Rightarrow> route_candidate list \<Rightarrow> route_candidate list" where
  "remove_first f [] = []"
| "remove_first f (c # cs) = (if ca_fp c = f then cs else c # remove_first f cs)"

definition exclude :: "fingerprint \<Rightarrow> pool \<Rightarrow> pool" where
  "exclude f p = p\<lparr>po_candidates := remove_first f (po_candidates p)\<rparr>"

definition free :: "fingerprint \<Rightarrow> pool \<Rightarrow> pool" where
  "free f p = p\<lparr>po_active := po_active p - {f}\<rparr>"

definition quarantine :: "fingerprint \<Rightarrow> pool \<Rightarrow> pool" where
  "quarantine f p = exclude f (free f p)"

definition active_count :: "pool \<Rightarrow> nat" where
  "active_count p = card (po_active p)"

section \<open>Leases\<close>

definition release :: "lease \<Rightarrow> pool \<Rightarrow> lease \<times> pool" where
  "release l p =
     (if le_released l then (l, p)
      else (l\<lparr>le_released := True\<rparr>, if le_mode l = ModeRequired then free (le_fp l) p else p))"

definition key_version :: "router \<Rightarrow> lease \<Rightarrow> string" where
  "key_version r l = (if le_mode l \<noteq> ModeRequired then [] else cf_key_version (ro_config r))"

text \<open>
  The fingerprint a measurement yields: \<open>x\<close> is the answer of the echo service through
  the lease's client.
\<close>

definition measured :: "probe_env \<Rightarrow> router \<Rightarrow> exchange \<Rightarrow> fingerprint option" where
  "measured N r x =
     (case probe_body x of
        None \<Rightarrow> None
      | Some body \<Rightarrow>
         (case normalize_public_ip (pn_addr N) body of
            Inl _ \<Rightarrow> None
          | Inr a \<Rightarrow> Some (fingerprint_of (pn_mac N) (pn_show N) (cf_key (ro_config r)) a)))"

definition remeasure ::
  "probe_env \<Rightarrow> router \<Rightarrow> exchange \<Rightarrow> instant \<Rightarrow> lease \<Rightarrow> pool \<Rightarrow> lease_error option \<times> lease \<times> pool" where
  "remeasure N r x clock l p =
    (if le_released l then (Some ErrLeaseReleased, l, p)
     else if le_mode l = ModeDirect then (None, l, p)
     else if measured N r x = Some (le_fp l) then (None, l\<lparr>le_verified_at := clock\<rparr>, p)
     else (Some ErrEgressDrift, l, exclude (le_fp l) p))"

definition route_lease :: "route_candidate \<Rightarrow> client \<Rightarrow> lease" where
  "route_lease c cl =
     \<lparr>le_mode = ModeRequired, le_candidate = Some c, le_client = cl, le_fp = ca_fp c,
      le_verified_at = ca_verified_at c, le_released = False\<rparr>"

text \<open>
  The loop of Acquire.  \<open>ms\<close> answers the measurements of this call in turn and
  \<open>clock\<close> is the time; the loop reserves, builds a client, measures, and either returns
  the lease or drops the candidate and goes on.
\<close>

lemma remove_first_shorter: "\<exists>c\<in>set cs. ca_fp c = f \<Longrightarrow> length (remove_first f cs) < length cs"
  by (induction cs) auto

lemma reserve_Some:
  assumes "reserve p = Some (c, q)"
  shows "c \<in> set (po_candidates p)" and "ca_fp c \<notin> po_active p"
    and "q = p\<lparr>po_active := insert (ca_fp c) (po_active p)\<rparr>"
  using assms by (auto simp: reserve_def find_Some_iff split: option.splits)

function acquire_loop ::
  "probe_env \<Rightarrow> router \<Rightarrow> (nat \<Rightarrow> exchange) \<Rightarrow> instant \<Rightarrow> nat \<Rightarrow> bool \<Rightarrow> pool
    \<Rightarrow> (lease_error, lease) result \<times> pool" where
  "acquire_loop N r ms clock k drifted p =
    (case reserve p of
       None \<Rightarrow> (Inl (if drifted then ErrEgressDrift else ErrLeaseExhausted), p)
     | Some (c, q) \<Rightarrow>
        (case client_for N r c of
           Inl _ \<Rightarrow> acquire_loop N r ms clock k drifted (quarantine (ca_fp c) q)
         | Inr cl \<Rightarrow>
            (case remeasure N r (ms k) clock (route_lease c cl) q of
               (None, l, q') \<Rightarrow> (Inr l, q')
             | (Some _, l, q') \<Rightarrow> acquire_loop N r ms clock (Suc k) True (snd (release l q')))))"
  by pat_completeness auto
termination
proof (relation "measure (\<lambda>(N, r, ms, clock, k, drifted, p). length (po_candidates p))", goal_cases)
  case 1
  then show ?case by simp
next
  case (2 N r ms clock k drifted p cq c q e)
  then show ?case
    using reserve_Some [of p c q]
    by (auto simp: quarantine_def exclude_def free_def intro: remove_first_shorter)
next
  case (3 N r ms clock k drifted p cq c q cl res e lq l q')
  then show ?case
    using reserve_Some [of p c q]
    by (auto simp: remeasure_def route_lease_def exclude_def release_def free_def
        split: if_splits intro: remove_first_shorter)
qed

declare acquire_loop.simps [simp del]

definition acquire ::
  "probe_env \<Rightarrow> router \<Rightarrow> (nat \<Rightarrow> exchange) \<Rightarrow> instant \<Rightarrow> pool \<Rightarrow> (lease_error, lease) result \<times> pool" where
  "acquire N r ms clock p =
    (if cf_mode (ro_config r) = ModeDirect then
       (case direct_client r of
          Inl e \<Rightarrow> (Inl (ErrRouter e), p)
        | Inr cl \<Rightarrow> (Inr \<lparr>le_mode = ModeDirect, le_candidate = None, le_client = cl, le_fp = [],
              le_verified_at = zero_time, le_released = False\<rparr>, p))
     else acquire_loop N r ms clock 0 False p)"

text \<open>The manager in front of the pool; without a pool there is no capacity.\<close>

definition manager_acquire where
  "manager_acquire N r ms clock mp =
     (case mp of
        None \<Rightarrow> (Inl ErrLeaseExhausted, None)
      | Some p \<Rightarrow> (case acquire N r ms clock p of (res, q) \<Rightarrow> (res, Some q)))"

definition manager_active_count :: "pool option \<Rightarrow> nat" where
  "manager_active_count mp = (case mp of None \<Rightarrow> 0 | Some p \<Rightarrow> active_count p)"

section \<open>The provider contract\<close>

text \<open>
  The interface a platform attempt relies on: a required lease reserves an exit no one
  holds, a failed or direct acquisition reserves nothing.  The input of an acquisition is
  what the network and the clock answer during it.
\<close>

locale lease_provider =
  fixes acq :: "'i \<Rightarrow> 's \<Rightarrow> (lease_error, lease) result \<times> 's"
    and active :: "'s \<Rightarrow> fingerprint set"
  assumes reserved: "acq i s = (Inr l, t) \<Longrightarrow> le_mode l = ModeRequired \<Longrightarrow>
      le_fp l \<notin> active s \<and> active t = insert (le_fp l) (active s)"
    and unreserved: "acq i s = (Inr l, t) \<Longrightarrow> le_mode l = ModeDirect \<Longrightarrow> active t = active s"
    and refused: "acq i s = (Inl e, t) \<Longrightarrow> active t = active s"
begin

lemma active_grows: "acq i s = (res, t) \<Longrightarrow> active s \<subseteq> active t"
proof (cases res)
  case (Inl e)
  assume "acq i s = (res, t)"
  then show ?thesis using Inl refused by simp
next
  case (Inr l)
  assume a: "acq i s = (res, t)"
  show ?thesis
  proof (cases "le_mode l")
    case ModeDirect
    then show ?thesis using a Inr unreserved by simp
  next
    case ModeRequired
    then show ?thesis using a Inr reserved by blast
  qed
qed

lemma held_exits_differ:
  assumes "acq i s = (Inr l, t)" and "le_mode l = ModeRequired" and "active t \<subseteq> active u"
    and "acq j u = (Inr l', v)" and "le_mode l' = ModeRequired"
  shows "le_fp l \<noteq> le_fp l'"
proof -
  have "le_fp l \<in> active u" using reserved [OF assms(1,2)] assms(3) by auto
  moreover have "le_fp l' \<notin> active u" using reserved [OF assms(4,5)] by simp
  ultimately show ?thesis by metis
qed

end

lemma remove_first_subset: "set (remove_first f cs) \<subseteq> set cs"
  by (induction cs) auto

lemma remove_first_keeps: "c \<in> set cs \<Longrightarrow> ca_fp c \<noteq> f \<Longrightarrow> c \<in> set (remove_first f cs)"
  by (induction cs) auto

lemma pool_simps [simp]:
  "po_active (exclude f p) = po_active p" "po_candidates (free f p) = po_candidates p"
  "po_active (free f p) = po_active p - {f}" "po_candidates (exclude f p) = remove_first f (po_candidates p)"
  by (simp_all add: exclude_def free_def)

text \<open>One turn of the loop either returns, fails, or goes on with the same exits in use.\<close>

lemma acquire_loop_cases:
  obtains (none) "reserve p = None"
      "acquire_loop N r ms clock k d p = (Inl (if d then ErrEgressDrift else ErrLeaseExhausted), p)"
  | (got) c cl where "reserve p = Some (c, p\<lparr>po_active := insert (ca_fp c) (po_active p)\<rparr>)"
      "client_for N r c = Inr cl" "measured N r (ms k) = Some (ca_fp c)"
      "acquire_loop N r ms clock k d p = (Inr (route_lease c cl \<lparr>le_verified_at := clock\<rparr>),
         p\<lparr>po_active := insert (ca_fp c) (po_active p)\<rparr>)"
  | (again) c k' d' where "reserve p = Some (c, p\<lparr>po_active := insert (ca_fp c) (po_active p)\<rparr>)"
      "acquire_loop N r ms clock k d p = acquire_loop N r ms clock k' d' (exclude (ca_fp c) p)"
proof (cases "reserve p")
  case None
  then show thesis by (intro none) (auto simp: acquire_loop.simps)
next
  case (Some cq)
  then obtain c q where r: "reserve p = Some (c, q)" by (cases cq) auto
  note q = reserve_Some [OF r]
  have undo: "po_active p \<union> {ca_fp c} - {ca_fp c} = po_active p" using q(2) by auto
  have same: "quarantine (ca_fp c) q = exclude (ca_fp c) p"
    "free (ca_fp c) (exclude (ca_fp c) q) = exclude (ca_fp c) p"
    using q(2) by (simp_all add: q(3) quarantine_def exclude_def free_def)
  show thesis
  proof (cases "client_for N r c")
    case (Inl e)
    then have "acquire_loop N r ms clock k d p = acquire_loop N r ms clock k d (exclude (ca_fp c) p)"
      by (subst acquire_loop.simps) (simp add: r same)
    with r show thesis unfolding q(3) by (rule again)
  next
    case (Inr cl)
    show thesis
    proof (cases "measured N r (ms k) = Some (ca_fp c)")
      case True
      with r Inr show thesis unfolding q(3)
        by (intro got [of c cl]) (simp_all, subst acquire_loop.simps, simp add: remeasure_def route_lease_def)
    next
      case False
      then have "acquire_loop N r ms clock k d p = acquire_loop N r ms clock (Suc k) True (exclude (ca_fp c) p)"
        using r Inr same(2)
        by (subst acquire_loop.simps) (simp add: remeasure_def route_lease_def release_def)
      with r show thesis unfolding q(3) by (rule again)
    qed
  qed
qed

lemma reserve_None: "reserve p = None \<Longrightarrow> c \<in> set (po_candidates p) \<Longrightarrow> ca_fp c \<in> po_active p"
  by (auto simp: reserve_def find_None_iff split: option.splits)

lemma acquire_loop_result:
  assumes "acquire_loop N r ms clock k d p = (res, q)"
  shows "set (po_candidates q) \<subseteq> set (po_candidates p)
    \<and> (\<forall>c\<in>set (po_candidates p). ca_fp c \<in> po_active p \<longrightarrow> c \<in> set (po_candidates q))
    \<and> (case res of
        Inl e \<Rightarrow> e \<in> {ErrLeaseExhausted, ErrEgressDrift} \<and> po_active q = po_active p
          \<and> (\<forall>c\<in>set (po_candidates q). ca_fp c \<in> po_active p)
      | Inr l \<Rightarrow> \<exists>c\<in>set (po_candidates p). \<exists>cl k. l = route_lease c cl \<lparr>le_verified_at := clock\<rparr>
          \<and> client_for N r c = Inr cl \<and> measured N r (ms k) = Some (ca_fp c)
          \<and> ca_fp c \<notin> po_active p \<and> po_active q = insert (ca_fp c) (po_active p))"
  using assms
proof (induction "length (po_candidates p)" arbitrary: p k d rule: less_induct)
  case less
  show ?case
  proof (cases rule: acquire_loop_cases [of p N r ms clock k d])
    case none
    then show ?thesis using less.prems by (auto dest: reserve_None)
  next
    case (got c cl)
    then have "c \<in> set (po_candidates p)" "ca_fp c \<notin> po_active p" by (auto dest: reserve_Some)
    with got less.prems show ?thesis by auto
  next
    case (again c k' d')
    note c = reserve_Some(1,2) [OF again(1)]
    have run: "acquire_loop N r ms clock k' d' (exclude (ca_fp c) p) = (res, q)"
      using again(2) less.prems by simp
    have "length (po_candidates (exclude (ca_fp c) p)) < length (po_candidates p)"
      using c(1) by (auto intro: remove_first_shorter)
    note IH = less.hyps [OF this run, unfolded pool_simps]
    note IH1 = IH [THEN conjunct1] and IH2 = IH [THEN conjunct2, THEN conjunct1]
      and IH3 = IH [THEN conjunct2, THEN conjunct2]
    have keep: "b \<in> set (remove_first (ca_fp c) (po_candidates p))"
      if "b \<in> set (po_candidates p)" "ca_fp b \<in> po_active p" for b
      using that c(2) by (intro remove_first_keeps) auto
    note sub = remove_first_subset [of "ca_fp c" "po_candidates p"]
    have res: "case res of
        Inl e \<Rightarrow> e \<in> {ErrLeaseExhausted, ErrEgressDrift} \<and> po_active q = po_active p
          \<and> (\<forall>c\<in>set (po_candidates q). ca_fp c \<in> po_active p)
      | Inr l \<Rightarrow> \<exists>b\<in>set (po_candidates p). \<exists>cl k. l = route_lease b cl \<lparr>le_verified_at := clock\<rparr>
          \<and> client_for N r b = Inr cl \<and> measured N r (ms k) = Some (ca_fp b)
          \<and> ca_fp b \<notin> po_active p \<and> po_active q = insert (ca_fp b) (po_active p)"
    proof (cases res)
      case (Inl e)
      with IH3 show ?thesis by simp
    next
      case (Inr l)
      from IH3 [unfolded Inr sum.case] show ?thesis
        unfolding Inr sum.case by (rule bexE) (rule bexI, assumption, erule subsetD [OF sub])
    qed
    show ?thesis
      by (intro conjI res ballI impI subset_trans [OF IH1 sub]) (rule IH2 [rule_format], rule keep)
  qed
qed

lemma acquire_direct:
  "cf_mode (ro_config r) = ModeDirect \<Longrightarrow> acquire N r ms clock p = (res, q) \<Longrightarrow>
     q = p \<and> (\<exists>l. res = Inr l \<and> le_mode l = ModeDirect)"
  by (auto simp: acquire_def direct_client_def)

lemma mode_cases: "m = ModeDirect \<or> m = ModeRequired"
  by (cases m) auto

interpretation pooled: lease_provider "\<lambda>(ms, clock). acquire N r ms clock" po_active
proof
  fix i s t l
  assume "(case i of (ms, clock) \<Rightarrow> acquire N r ms clock) s = (Inr l, t)"
  then obtain ms clock where a: "acquire N r ms clock s = (Inr l, t)" by (cases i) auto
  show "le_mode l = ModeRequired \<Longrightarrow> le_fp l \<notin> po_active s \<and> po_active t = insert (le_fp l) (po_active s)"
  proof -
    assume "le_mode l = ModeRequired"
    then have "cf_mode (ro_config r) \<noteq> ModeDirect" using acquire_direct [OF _ a] by auto
    then have "acquire_loop N r ms clock 0 False s = (Inr l, t)" using a by (simp add: acquire_def)
    from acquire_loop_result [OF this] show ?thesis by (auto simp: route_lease_def)
  qed
  show "le_mode l = ModeDirect \<Longrightarrow> po_active t = po_active s"
  proof -
    assume "le_mode l = ModeDirect"
    show ?thesis
    proof (cases "cf_mode (ro_config r) = ModeDirect")
      case True
      then show ?thesis using acquire_direct [OF True a] by simp
    next
      case False
      then have "acquire_loop N r ms clock 0 False s = (Inr l, t)" using a by (simp add: acquire_def)
      from acquire_loop_result [OF this] \<open>le_mode l = ModeDirect\<close> show ?thesis by (auto simp: route_lease_def)
    qed
  qed
next
  fix i s t e
  assume "(case i of (ms, clock) \<Rightarrow> acquire N r ms clock) s = (Inl e, t)"
  then obtain ms clock where a: "acquire N r ms clock s = (Inl e, t)" by (cases i) auto
  then have "cf_mode (ro_config r) \<noteq> ModeDirect" using acquire_direct [OF _ a] by auto
  then have "acquire_loop N r ms clock 0 False s = (Inl e, t)" using a by (simp add: acquire_def)
  from acquire_loop_result [OF this] show "po_active t = po_active s" by simp
qed

definition manager_active :: "pool option \<Rightarrow> fingerprint set" where
  "manager_active mp = (case mp of None \<Rightarrow> {} | Some p \<Rightarrow> po_active p)"

lemma manager_acquire_cases:
  assumes "manager_acquire N r ms clock mp = (res, mq)"
  obtains "mp = None" "mq = None" "res = Inl ErrLeaseExhausted"
  | p q where "mp = Some p" "mq = Some q" "acquire N r ms clock p = (res, q)"
  using assms by (auto simp: manager_acquire_def split: option.splits prod.splits)

interpretation managed: lease_provider "\<lambda>(ms, clock). manager_acquire N r ms clock" manager_active
proof
  fix i s t l
  assume "(case i of (ms, clock) \<Rightarrow> manager_acquire N r ms clock) s = (Inr l, t)"
  then obtain ms clock where "manager_acquire N r ms clock s = (Inr l, t)" by (cases i) auto
  then obtain p q where a: "s = Some p" "t = Some q" "acquire N r ms clock p = (Inr l, q)"
    by (rule manager_acquire_cases) auto
  show "le_mode l = ModeRequired \<Longrightarrow> le_fp l \<notin> manager_active s \<and> manager_active t = insert (le_fp l) (manager_active s)"
    using pooled.reserved [of N r "(ms, clock)" p l q] a by (simp add: manager_active_def)
  show "le_mode l = ModeDirect \<Longrightarrow> manager_active t = manager_active s"
    using pooled.unreserved [of N r "(ms, clock)" p l q] a by (simp add: manager_active_def)
next
  fix i s t e
  assume "(case i of (ms, clock) \<Rightarrow> manager_acquire N r ms clock) s = (Inl e, t)"
  then obtain ms clock where "manager_acquire N r ms clock s = (Inl e, t)" by (cases i) auto
  then show "manager_active t = manager_active s"
    by (rule manager_acquire_cases)
       (auto simp: manager_active_def dest: pooled.refused [of N r "(ms, clock)", simplified])
qed

section \<open>Interleavings\<close>

text \<open>
  The critical sections of concurrent Acquire, Remeasure and Release calls, in any order.
  The list holds the exits reserved by calls in progress and by leases not yet released.
\<close>

inductive pool_step :: "pool \<times> fingerprint list \<Rightarrow> pool \<times> fingerprint list \<Rightarrow> bool" where
  reserves: "reserve p = Some (c, q) \<Longrightarrow> pool_step (p, hs) (q, ca_fp c # hs)"
| excludes: "pool_step (p, hs) (exclude f p, hs)"
| frees: "f \<in> set hs \<Longrightarrow> pool_step (p, hs) (free f p, remove1 f hs)"
| quarantines: "f \<in> set hs \<Longrightarrow> pool_step (p, hs) (quarantine f p, remove1 f hs)"

definition pool_inv :: "pool \<times> fingerprint list \<Rightarrow> bool" where
  "pool_inv s \<longleftrightarrow> po_active (fst s) = set (snd s) \<and> distinct (snd s)"

lemma pool_step_inv:
  assumes "pool_step s t" and "pool_inv s"
  shows "pool_inv t \<and> set (po_candidates (fst t)) \<subseteq> set (po_candidates (fst s))"
  using assms(1)
proof (cases rule: pool_step.cases)
  case (reserves p c q hs)
  then show ?thesis using assms(2) reserve_Some [OF reserves(3)] by (auto simp: pool_inv_def)
next
  case (excludes p hs f)
  then show ?thesis
    using assms(2) remove_first_subset [of f "po_candidates p"] by (auto simp: pool_inv_def)
next
  case (frees f hs p)
  then show ?thesis using assms(2) by (auto simp: pool_inv_def)
next
  case (quarantines f hs p)
  then show ?thesis
    using assms(2) remove_first_subset [of f "po_candidates p"] by (auto simp: pool_inv_def quarantine_def)
qed


definition sample_route :: route_candidate where
  "sample_route = \<lparr>ca_id = ''a'', ca_scheme = ''http'', ca_fp = ''f'', ca_verified_at = 0,
     ca_endpoint = \<lparr>ep_id = ''a'', ep_url = ''u''\<rparr>\<rparr>"

definition sample_admission :: admission where
  "sample_admission = \<lparr>ad_candidates = [sample_route], ad_failures = [], ad_validated_at = 0\<rparr>"


text \<open>
  what Acquire returns.  In required mode it never returns a direct lease and never
  reports a router error: it returns a lease on a pool route whose exit was free and whose
  measurement, made in this call, gave the admitted fingerprint, with exactly that exit
  newly in use; or it fails because every route left in the pool is in use, with the set
  of exits in use unchanged.  Routes in use are never dropped.
\<close>

theorem acquire_returns_measured_route:
  assumes "cf_mode (ro_config r) = ModeRequired" and "acquire N r ms clock p = (res, q)"
  shows "(case res of
      Inl e \<Rightarrow> (e = ErrLeaseExhausted \<or> e = ErrEgressDrift) \<and> po_active q = po_active p
        \<and> (\<forall>c\<in>set (po_candidates q). ca_fp c \<in> po_active p)
    | Inr l \<Rightarrow> le_mode l = ModeRequired \<and> \<not> le_released l
        \<and> (\<exists>c\<in>set (po_candidates p). le_candidate l = Some c \<and> client_for N r c = Inr (le_client l) \<and> ca_fp c = le_fp l)
        \<and> (\<exists>k. measured N r (ms k) = Some (le_fp l))
        \<and> le_fp l \<notin> po_active p \<and> po_active q = insert (le_fp l) (po_active p))
    \<and> set (po_candidates q) \<subseteq> set (po_candidates p)
    \<and> (\<forall>c\<in>set (po_candidates p). ca_fp c \<in> po_active p \<longrightarrow> c \<in> set (po_candidates q))"
proof -
  have "acquire_loop N r ms clock 0 False p = (res, q)" using assms by (simp add: acquire_def)
  note r = acquire_loop_result [OF this]
  show ?thesis
  proof (cases res)
    case (Inl e)
    with r show ?thesis by simp
  next
    case (Inr l)
    from r [THEN conjunct2, THEN conjunct2, unfolded Inr sum.case] obtain c cl k where
      "c \<in> set (po_candidates p)" "l = route_lease c cl \<lparr>le_verified_at := clock\<rparr>"
      "client_for N r c = Inr cl" "measured N r (ms k) = Some (ca_fp c)"
      "ca_fp c \<notin> po_active p" "po_active q = insert (ca_fp c) (po_active p)"
      by (elim bexE exE conjE)
    then show ?thesis
      using r [THEN conjunct1] r [THEN conjunct2, THEN conjunct1]
      by (auto simp: Inr route_lease_def)
  qed
qed

theorem acquire_returns_measured_route_witness:
  "fst (acquire sample_env \<lparr>ro_config = with_defaults sample_config, ro_candidates = (\<lambda>_. None)\<rparr>
      (\<lambda>_. None) 0 \<lparr>po_candidates = [sample_route], po_active = {''f''}\<rparr>) = Inl ErrLeaseExhausted
   \<and> po_active (snd (acquire sample_env \<lparr>ro_config = with_defaults sample_config, ro_candidates = (\<lambda>_. None)\<rparr>
      (\<lambda>_. None) 0 \<lparr>po_candidates = [sample_route], po_active = {''f''}\<rparr>)) = {''f''}"
proof -
  let ?r = "\<lparr>ro_config = with_defaults sample_config, ro_candidates = (\<lambda>_. None)\<rparr>"
  let ?p = "\<lparr>po_candidates = [sample_route], po_active = {''f''}\<rparr>"
  have m: "cf_mode (ro_config ?r) = ModeRequired"
    by (simp add: with_defaults_def sample_config_def plain_config_def)
  have run: "acquire sample_env ?r (\<lambda>_. None) 0 ?p = (Inl ErrLeaseExhausted, ?p)"
    using m by (simp add: acquire_def acquire_loop.simps reserve_def sample_route_def)
  show ?thesis
    using acquire_returns_measured_route [OF m run] run by simp
qed

text \<open>
  release once.  Releasing a lease frees its exit; releasing it again, after another
  attempt has reserved the same exit, changes nothing.  A released lease can not be
  measured any more, and a direct lease never touches the pool.
\<close>

theorem release_is_idempotent:
  "(case release l p of (l', p') \<Rightarrow>
      le_released l' \<and> release l' q = (l', q) \<and> remeasure N r x clock l' q = (Some ErrLeaseReleased, l', q)
      \<and> (le_mode l = ModeRequired \<and> \<not> le_released l \<longrightarrow> le_fp l \<notin> po_active p')
      \<and> po_candidates p' = po_candidates p
      \<and> (le_mode l = ModeDirect \<longrightarrow> p' = p \<and> snd (snd (remeasure N r x clock l q)) = q))"
  by (auto simp: release_def remeasure_def)

theorem release_is_idempotent_witness:
  "le_fp (route_lease sample_route DirectClient) \<notin> po_active (snd (release (route_lease sample_route DirectClient)
     \<lparr>po_candidates = [], po_active = {''f''}\<rparr>))"
  using release_is_idempotent [where l = "route_lease sample_route DirectClient" and p = "\<lparr>po_candidates = [], po_active = {''f''}\<rparr>"]
  by (simp add: route_lease_def case_prod_unfold)

text \<open>
  the provider contract through the manager.  Two required leases taken from the same
  manager, the second while the first is still held, are bound to different exits.
\<close>

theorem manager_leases_differ:
  assumes "manager_acquire N r ms clock mp = (Inr l, mq)" and "le_mode l = ModeRequired"
    and "manager_active mq \<subseteq> manager_active mu"
    and "manager_acquire N r ms' clock' mu = (Inr l', mv)" and "le_mode l' = ModeRequired"
  shows "le_fp l \<noteq> le_fp l' \<and> {le_fp l, le_fp l'} \<subseteq> manager_active mv"
proof -
  note one = managed.reserved [of N r "(ms, clock)" mp l mq, simplified, OF assms(1,2)]
  note two = managed.reserved [of N r "(ms', clock')" mu l' mv, simplified, OF assms(4,5)]
  have "le_fp l \<noteq> le_fp l'"
    using managed.held_exits_differ [of N r "(ms, clock)" mp l mq mu "(ms', clock')" l' mv] assms by simp
  moreover have "le_fp l \<in> manager_active mu" using one assms(3) by auto
  ultimately show ?thesis using two by simp
qed

text \<open>Two routes with different exits, and a run that takes both.\<close>

definition two_env :: probe_env where
  "two_env = sample_env
     \<lparr>pn_addr := (\<lambda>s. Some (V4 (if s = ''1'' then quad 8 8 8 8 else quad 9 9 9 9))),
      pn_show := (\<lambda>a. if a = V4 (quad 8 8 8 8) then ''1'' else ''2''), pn_mac := (\<lambda>k m. drop 24 m)\<rparr>"

definition two_route :: "string \<Rightarrow> route_candidate" where
  "two_route i = sample_route\<lparr>ca_id := i, ca_fp := fingerprint_of (\<lambda>k m. drop 24 m) (\<lambda>_. i) [] (V4 0)\<rparr>"

definition two_router :: router where
  "two_router = \<lparr>ro_config = with_defaults sample_config,
     ro_candidates = (\<lambda>f. if f = ca_fp (two_route ''1'') then Some (two_route ''1'')
        else if f = ca_fp (two_route ''2'') then Some (two_route ''2'') else None)\<rparr>"

definition two_pool :: pool where
  "two_pool = \<lparr>po_candidates = [two_route ''1'', two_route ''2''], po_active = {}\<rparr>"

lemma two_fp: "ca_fp (two_route i) = i"
  by (simp add: two_route_def fingerprint_of_def)

lemma two_measured:
  "i = ''1'' \<or> i = ''2'' \<Longrightarrow> measured two_env two_router (Some (200, Some i)) = Some i"
proof -
  have q: "is_global_unicast (V4 (quad 8 8 8 8)) \<and> \<not> is_non_public (V4 (quad 8 8 8 8))"
    "is_global_unicast (V4 (quad 9 9 9 9)) \<and> \<not> is_non_public (V4 (quad 9 9 9 9))"
    "quad 8 8 8 8 \<noteq> quad 9 9 9 9"
    by (simp_all add: addr_eval)
  have t: "trim_space ''1'' = ''1''" "trim_space ''2'' = ''2''"
    by (simp_all add: trim_space_visible visible_def char_code_def)
  assume "i = ''1'' \<or> i = ''2''"
  then show ?thesis
    using q t by (auto simp: measured_def probe_body_def two_env_def normalize_public_ip_def unmapped_def
        fingerprint_of_def sample_env_def)
qed

lemma two_client:
  "i = ''1'' \<or> i = ''2'' \<Longrightarrow> \<exists>cl. client_for two_env two_router (two_route i) = Inr cl"
proof -
  obtain p where "parse_endpoint ascii_only sample_parse (ep_url (ca_endpoint (two_route i))) = Inr p" "eu_scheme p = ''http''"
    using sample_endpoint by blast
  moreover have "cf_mode (ro_config two_router) = ModeRequired"
    by (simp add: two_router_def with_defaults_def sample_config_def plain_config_def)
  moreover assume "i = ''1'' \<or> i = ''2''"
  then have "ro_candidates two_router (ca_fp (two_route i)) = Some (two_route i)"
    by (auto simp: two_router_def two_fp)
  ultimately show ?thesis
    by (simp add: client_for_def two_env_def sample_env_def transport_ok_def)
qed

lemma two_acquire:
  assumes "reserve p = Some (two_route i, q)" and "i = ''1'' \<or> i = ''2''"
  shows "\<exists>l. acquire two_env two_router (\<lambda>_. Some (200, Some i)) 0 p = (Inr l, q) \<and> le_mode l = ModeRequired \<and> le_fp l = i"
proof -
  obtain cl where "client_for two_env two_router (two_route i) = Inr cl" using two_client assms(2) by blast
  moreover have "cf_mode (ro_config two_router) = ModeRequired"
    by (simp add: two_router_def with_defaults_def sample_config_def plain_config_def)
  ultimately show ?thesis
    using assms(1) two_measured [OF assms(2)]
    by (simp add: acquire_def acquire_loop.simps remeasure_def route_lease_def two_fp)
qed

theorem manager_leases_differ_witness:
  "\<exists>l l' mq mv. manager_acquire two_env two_router (\<lambda>_. Some (200, Some ''1'')) 0 (Some two_pool) = (Inr l, mq)
     \<and> manager_acquire two_env two_router (\<lambda>_. Some (200, Some ''2'')) 0 mq = (Inr l', mv)
     \<and> le_fp l \<noteq> le_fp l'"
proof -
  let ?q = "two_pool\<lparr>po_active := {''1''}\<rparr>" and ?v = "two_pool\<lparr>po_active := {''2'', ''1''}\<rparr>"
  have r: "reserve two_pool = Some (two_route ''1'', ?q)" "reserve ?q = Some (two_route ''2'', ?v)"
    by (simp_all add: reserve_def two_pool_def two_fp)
  obtain l where l: "manager_acquire two_env two_router (\<lambda>_. Some (200, Some ''1'')) 0 (Some two_pool) = (Inr l, Some ?q)"
      "le_mode l = ModeRequired"
    using two_acquire [OF r(1)] by (auto simp: manager_acquire_def)
  obtain l' where l': "manager_acquire two_env two_router (\<lambda>_. Some (200, Some ''2'')) 0 (Some ?q) = (Inr l', Some ?v)"
      "le_mode l' = ModeRequired"
    using two_acquire [OF r(2)] by (auto simp: manager_acquire_def)
  have "le_fp l \<noteq> le_fp l'" using manager_leases_differ [OF l subset_refl l'] by blast
  with l l' show ?thesis by blast
qed

section \<open>The end of an acquisition\<close>

lemma dropped_shorter:
  assumes "reserve p = Some (c, q)"
  shows "length (po_candidates (quarantine (ca_fp c) q)) < length (po_candidates p)"
    and "remeasure N r x clock (route_lease c cl) q = (Some e, l, q')
      \<Longrightarrow> length (po_candidates (snd (release l q'))) < length (po_candidates p)"
    and "po_active (quarantine (ca_fp c) q) \<subseteq> po_active p"
    and "remeasure N r x clock (route_lease c cl) q = (Some e, l, q') \<Longrightarrow> po_active (snd (release l q')) \<subseteq> po_active p"
  using reserve_Some [OF assms] remove_first_shorter [of "po_candidates p" "ca_fp c", OF bexI [OF refl reserve_Some(1) [OF assms]]]
  by (auto simp: quarantine_def exclude_def free_def remeasure_def route_lease_def release_def split: if_splits)

lemma acquire_loop_bounded:
  assumes "\<forall>i < length (po_candidates p). ms' (k + i) = ms (k + i)"
  shows "acquire_loop N r ms' clock k drifted p = acquire_loop N r ms clock k drifted p"
  using assms
proof (induction N r ms clock k drifted p rule: acquire_loop.induct)
  case (1 N r ms clock k drifted p)
  show ?case
  proof (cases "reserve p")
    case None
    then show ?thesis by (simp add: acquire_loop.simps)
  next
    case (Some cq)
    then obtain c q where res: "reserve p = Some (c, q)" by (cases cq) auto
    note shorter = dropped_shorter [OF res]
    show ?thesis
    proof (cases "client_for N r c")
      case (Inl e)
      have "acquire_loop N r ms' clock k drifted (quarantine (ca_fp c) q) = acquire_loop N r ms clock k drifted (quarantine (ca_fp c) q)"
        by (rule "1.IH"(1) [OF res refl Inl]) (use "1.prems" shorter(1) in auto)
      then show ?thesis using res Inl by (simp add: acquire_loop.simps [of _ _ _ _ _ _ p])
    next
      case (Inr cl)
      have "0 < length (po_candidates p)" using reserve_Some(1) [OF res] by (cases "po_candidates p") auto
      then have k: "ms' k = ms k" using "1.prems" by force
      obtain e l q' where m: "remeasure N r (ms k) clock (route_lease c cl) q = (e, l, q')"
        by (cases "remeasure N r (ms k) clock (route_lease c cl) q") auto
      show ?thesis
      proof (cases e)
        case None
        then show ?thesis using res Inr m k by (simp add: acquire_loop.simps [of _ _ _ _ _ _ p])
      next
        case (Some err)
        have "acquire_loop N r ms' clock (Suc k) True (snd (release l q')) = acquire_loop N r ms clock (Suc k) True (snd (release l q'))"
        proof (rule "1.IH"(2) [OF res refl Inr m [unfolded Some, symmetric] refl refl])
          show "\<forall>i < length (po_candidates (snd (release l q'))). ms' (Suc k + i) = ms (Suc k + i)"
          proof (intro allI impI)
            fix i assume "i < length (po_candidates (snd (release l q')))"
            then have "Suc i < length (po_candidates p)" using shorter(2) [OF m [unfolded Some]] by simp
            then have "ms' (k + Suc i) = ms (k + Suc i)" using "1.prems" by blast
            then show "ms' (Suc k + i) = ms (Suc k + i)" by simp
          qed
        qed
        then show ?thesis using res Inr m k Some by (simp add: acquire_loop.simps [of _ _ _ _ _ _ p])
      qed
    qed
  qed
qed

definition leaves_none_free :: "pool \<Rightarrow> (lease_error, lease) result \<times> pool \<Rightarrow> bool" where
  "leaves_none_free p res \<longleftrightarrow> length (po_candidates (snd res)) \<le> length (po_candidates p)
     \<and> (case fst res of Inl e \<Rightarrow> list_all (\<lambda>c. ca_fp c \<in> po_active p) (po_candidates (snd res)) | Inr l \<Rightarrow> True)"

lemma acquire_loop_leaves: "leaves_none_free p (acquire_loop N r ms clock k drifted p)"
proof (induction N r ms clock k drifted p rule: acquire_loop.induct)
  case (1 N r ms clock k drifted p)
  show ?case
  proof (cases "reserve p")
    case None
    then have "list_all (\<lambda>c. ca_fp c \<in> po_active p) (po_candidates p)"
      by (auto simp: reserve_def find_None_iff list_all_iff split: option.splits)
    then show ?thesis using None by (simp add: acquire_loop.simps leaves_none_free_def)
  next
    case (Some cq)
    then obtain c q where res: "reserve p = Some (c, q)" by (cases cq) auto
    note shorter = dropped_shorter [OF res]
    have weaker: "leaves_none_free p res" if "leaves_none_free p' res" and "po_active p' \<subseteq> po_active p" and "length (po_candidates p') < length (po_candidates p)" for res p'
      using that by (auto simp: leaves_none_free_def list_all_iff split: sum.splits)
    show ?thesis
    proof (cases "client_for N r c")
      case (Inl e)
      from weaker [OF "1.IH"(1) [OF res refl Inl] shorter(3,1)] show ?thesis
        using res Inl by (simp add: acquire_loop.simps [of _ _ _ _ _ _ p])
    next
      case (Inr cl)
      obtain e l q' where m: "remeasure N r (ms k) clock (route_lease c cl) q = (e, l, q')"
        by (cases "remeasure N r (ms k) clock (route_lease c cl) q") auto
      show ?thesis
      proof (cases e)
        case None
        then have "length (po_candidates q') \<le> length (po_candidates p)"
          using m reserve_Some(3) [OF res] by (auto simp: remeasure_def split: if_splits)
        then show ?thesis using res Inr m None by (simp add: acquire_loop.simps [of _ _ _ _ _ _ p] leaves_none_free_def)
      next
        case (Some err)
        note m' = m [unfolded Some]
        from weaker [OF "1.IH"(2) [OF res refl Inr m' [symmetric] refl refl] shorter(4) [OF m'] shorter(2) [OF m']] show ?thesis
          using res Inr m Some by (simp add: acquire_loop.simps [of _ _ _ _ _ _ p])
      qed
    qed
  qed
qed

text \<open>
  C36: An acquisition ends: it asks for at most one measurement per candidate of the pool, whatever
  the network would answer to more, never adds a candidate, and when it gives up every candidate
  that is left in the pool leads to an exit another lease holds.
\<close>

theorem acquire_ends_within_candidates:
  "acquire N r (\<lambda>i. if i < length (po_candidates p) then ms i else x) clock p = acquire N r ms clock p
   \<and> length (po_candidates (snd (acquire N r ms clock p))) \<le> length (po_candidates p)
   \<and> (case acquire N r ms clock p of
        (Inl ErrLeaseExhausted, q) \<Rightarrow> list_all (\<lambda>c. ca_fp c \<in> po_active p) (po_candidates q)
      | (Inl ErrEgressDrift, q) \<Rightarrow> list_all (\<lambda>c. ca_fp c \<in> po_active p) (po_candidates q)
      | _ \<Rightarrow> True)"
proof (cases "cf_mode (ro_config r) = ModeDirect")
  case True
  then show ?thesis by (auto simp: acquire_def split: sum.splits)
next
  case False
  have "acquire_loop N r (\<lambda>i. if i < length (po_candidates p) then ms i else x) clock 0 False p = acquire_loop N r ms clock 0 False p"
    by (rule acquire_loop_bounded) simp
  then show ?thesis
    using False acquire_loop_leaves [of p N r ms clock 0 False]
    by (auto simp: acquire_def leaves_none_free_def split: sum.splits prod.splits lease_error.splits)
qed

end
