(* ===== verification/TaskWorker.thy ===== *)
theory TaskWorker
  imports RecoveryLaws EgressPool
begin

text \<open>
  Package internal/task, files worker.go, join_worker.go and removal_worker.go: what a worker
  does with one claimed task.  A worker is a program over a world: the database, a counter
  of the outside steps taken so far, and the log of the requests the platform received and
  of the side effects whose announcement was committed.  An error of Go keeps the world as
  it is at that point.  What the outside answers at a step comes from the environment:
  the commits of other processes, the clocks, the driver's faults, the network, whether the
  exit address of the lease is still the measured one, and the accounts the tables hold.
  A factory is None when the worker has none; otherwise it says which credentials it accepts.
\<close>

section \<open>Programs\<close>

datatype action = Probed | Requested | Accepted | Verified | Snapshot | Removed string | Read read_endpoint
  | Announced string | Checked string string int | Refreshed | Relogged

record 'z world =
  wd_db :: "'z store_db_scheme"
  wd_step :: nat
  wd_log :: "action list"

record 'z env =
  en_unicode :: unicode
  en_hash :: "string \<Rightarrow> string"
  en_decoders :: decoders
  en_now :: "nat \<Rightarrow> instant"
  en_clock :: "nat \<Rightarrow> instant"
  en_flt :: "nat \<Rightarrow> faults"
  en_gid :: "nat \<Rightarrow> nat \<Rightarrow> string"
  en_locked :: "nat \<Rightarrow> string \<Rightarrow> bool"
  en_token :: "nat \<Rightarrow> uuid"
  en_other :: "nat \<Rightarrow> 'z store_db_scheme \<Rightarrow> 'z store_db_scheme"
  en_net :: "nat \<Rightarrow> http_request \<Rightarrow> http_reply"
  en_config_error :: "nat \<Rightarrow> egress_error option"
  en_same_exit :: "nat \<Rightarrow> bool"
  en_accounts :: "string \<Rightarrow> (string \<times> string) option"
  en_workspaces :: "string \<Rightarrow> string option"
  en_probe_login :: "string \<Rightarrow> platform_login option"
  en_read_login :: "string \<Rightarrow> (string \<times> platform_login) option"
  en_identifiers :: "string \<Rightarrow> string option"
  en_owners :: "operation_row \<Rightarrow> (string \<times> string \<times> string) option"
  en_prober :: "(platform_login \<Rightarrow> bool) option"
  en_joiner :: "(platform_login \<Rightarrow> bool) option"
  en_remover :: "(platform_login \<Rightarrow> bool) option"
  en_reader :: "(platform_login \<Rightarrow> bool) option"
  en_facts :: "(read_result list \<Rightarrow> string \<Rightarrow> (store_error, 'z store_db_scheme, unit) tx) option"
  en_id :: string
  en_lease_time :: duration

datatype worker_error = StoreError store_error | ErrAttemptFailed | JoinTargetMissing | AcquireFailed lease_error

type_synonym ('z, 'a) prog = "'z world \<Rightarrow> (worker_error, 'a) result \<times> 'z world"

definition p_return :: "'a \<Rightarrow> ('z, 'a) prog" where
  "p_return x = (\<lambda>w. (Inr x, w))"

definition p_fail :: "worker_error \<Rightarrow> ('z, 'a) prog" where
  "p_fail e = (\<lambda>w. (Inl e, w))"

definition p_try :: "('z, 'a) prog \<Rightarrow> ((worker_error, 'a) result \<Rightarrow> ('z, 'b) prog) \<Rightarrow> ('z, 'b) prog" where
  "p_try m f = (\<lambda>w. case m w of (r, w') \<Rightarrow> f r w')"

definition p_bind :: "('z, 'a) prog \<Rightarrow> ('a \<Rightarrow> ('z, 'b) prog) \<Rightarrow> ('z, 'b) prog" where
  "p_bind m f = p_try m (\<lambda>r. case r of Inl e \<Rightarrow> p_fail e | Inr x \<Rightarrow> f x)"

text \<open>
  One call of the store: it runs against the database as the others left it, at the step's
  clock, faults and generated identifiers.
\<close>

definition store_call ::
  "'z env \<Rightarrow> (nat \<Rightarrow> 'z store_db_scheme \<Rightarrow> (store_error, 'a) result \<times> 'z store_db_scheme) \<Rightarrow> ('z, 'a) prog" where
  "store_call N f = (\<lambda>w.
     let k = wd_step w; (r, db') = f k (en_other N k (wd_db w)) in
     (map_sum StoreError id r, w\<lparr>wd_db := db', wd_step := Suc k\<rparr>))"

definition store_read ::
  "'z env \<Rightarrow> (nat \<Rightarrow> 'z store_db_scheme \<Rightarrow> (store_error, 'a) result) \<Rightarrow> ('z, 'a) prog" where
  "store_read N f = store_call N (\<lambda>k db. (f k db, db))"

definition announce ::
  "'z env \<Rightarrow> string \<Rightarrow> (nat \<Rightarrow> 'z store_db_scheme \<Rightarrow> (store_error, unit) result \<times> 'z store_db_scheme) \<Rightarrow> ('z, unit) prog" where
  "announce N stage f = p_bind (store_call N f) (\<lambda>_ w. (Inr (), w\<lparr>wd_log := wd_log w @ [Announced stage]\<rparr>))"

definition send :: "'z env \<Rightarrow> action \<Rightarrow> (nat \<Rightarrow> 'a) \<Rightarrow> ('z, 'a) prog" where
  "send N a f = (\<lambda>w. (Inr (f (wd_step w)), w\<lparr>wd_step := Suc (wd_step w), wd_log := wd_log w @ [a]\<rparr>))"

definition same_exit :: "'z env \<Rightarrow> ('z, bool) prog" where
  "same_exit N = (\<lambda>w. (Inr (en_same_exit N (wd_step w)), w\<lparr>wd_step := Suc (wd_step w)\<rparr>))"

definition worker_clock :: "'z env \<Rightarrow> ('z, instant) prog" where
  "worker_clock N = (\<lambda>w. (Inr (en_clock N (wd_step w)), w))"

definition accepts :: "(platform_login \<Rightarrow> bool) option \<Rightarrow> platform_login \<Rightarrow> bool" where
  "accepts f c \<longleftrightarrow> (case f of None \<Rightarrow> False | Some ok \<Rightarrow> ok c)"

text \<open>leaseDuration, and the renewal of a task's lease with it.\<close>

definition lease_duration :: "'z env \<Rightarrow> duration" where
  "lease_duration N = (if en_lease_time N \<le> 0 then 30 * second else en_lease_time N)"

definition renew_lease :: "'z env \<Rightarrow> task_item \<Rightarrow> ('z, unit) prog" where
  "renew_lease N item =
     store_call N (\<lambda>k. renew (en_flt N k) (en_now N k) (it_id item) (it_token item) (lease_duration N))"

section \<open>Concluding\<close>

definition fail_task :: "'z env \<Rightarrow> task_item \<Rightarrow> string \<Rightarrow> string \<Rightarrow> string \<Rightarrow> ('z, unit) prog" where
  "fail_task N item event_type code stage =
     p_bind (store_call N (\<lambda>k. settle (en_hash N) (en_flt N k) (en_gid N k 0) (en_now N k) item
       ''failed'' event_type ''failed'' code stage)) (\<lambda>_. p_fail ErrAttemptFailed)"

definition note_interruption :: "'z env \<Rightarrow> task_item \<Rightarrow> string \<Rightarrow> string \<Rightarrow> ('z, unit) prog" where
  "note_interruption N item code stage =
     p_try (store_call N (\<lambda>k. record_interruption (en_hash N) (en_flt N k) (en_gid N k 0) (en_now N k) item code stage))
       (\<lambda>_. p_return ())"

definition conclude_join ::
  "'z env \<Rightarrow> task_item \<Rightarrow> join_target \<Rightarrow> string \<Rightarrow> string \<Rightarrow> string \<Rightarrow> string \<Rightarrow> membership_result option
     \<Rightarrow> ('z, unit) prog" where
  "conclude_join N item target status outcome diagnostic stage member =
     p_bind (store_call N (\<lambda>k. finish_join (en_unicode N) (en_hash N) (en_flt N k) (en_gid N k) (en_now N k)
         item target status outcome diagnostic stage member))
       (\<lambda>_. if status \<noteq> ''succeeded'' then p_fail ErrAttemptFailed else p_return ())"

definition join_target_of :: "'z env \<Rightarrow> task_item \<Rightarrow> ('z, join_target) prog" where
  "join_target_of N item =
     store_read N (\<lambda>k. read_join_target (en_flt N k) (en_accounts N) (en_workspaces N) (it_id item))"

definition conclude_join_failure :: "'z env \<Rightarrow> task_item \<Rightarrow> string \<Rightarrow> string \<Rightarrow> string \<Rightarrow> ('z, unit) prog" where
  "conclude_join_failure N item diagnostic stage status =
     p_bind (join_target_of N item) (\<lambda>target.
       conclude_join N item target status diagnostic diagnostic stage None)"

definition no_join_target :: join_target where
  "no_join_target = \<lparr>jt_operation = [], jt_batch = [], jt_workspace = [], jt_target = [], jt_identifier = [],
     jt_password = [], jt_platform_workspace = [], jt_may_have_reached = False, jt_stage = [], jt_started_at = None\<rparr>"

definition membership_error :: "string \<Rightarrow> membership_result" where
  "membership_error code = \<lparr>mr_present = False, mr_complete = False, mr_http = 0, mr_error = code,
     mr_member_id = [], mr_observed_at = zero_time\<rparr>"

definition conclude_reconciliation ::
  "'z env \<Rightarrow> task_item \<Rightarrow> join_target \<Rightarrow> membership_result \<Rightarrow> ('z, unit) prog" where
  "conclude_reconciliation N item target m =
    (if jt_operation target = [] then p_fail JoinTargetMissing
     else store_call N (\<lambda>k. finish_join_reconciliation (en_unicode N) (en_hash N) (en_flt N k) (en_gid N k)
       (en_now N k) item target m))"

section \<open>Joins\<close>

definition join_login :: "join_target \<Rightarrow> platform_login" where
  "join_login t = \<lparr>pl_login = jt_identifier t, pl_password = jt_password t\<rparr>"

definition verify :: "'z env \<Rightarrow> join_target \<Rightarrow> ('z, request_error option \<times> membership_result) prog" where
  "verify N target = send N Verified (\<lambda>k. verify_membership (en_unicode N) (en_decoders N) (join_login target)
     (en_net N k) (en_clock N k) (jt_platform_workspace target) (jt_identifier target))"

definition run_join_reconcile :: "'z env \<Rightarrow> task_item \<Rightarrow> ('z, unit) prog" where
  "run_join_reconcile N item =
    (if en_joiner N = None then conclude_reconciliation N item no_join_target (membership_error ''platform_configuration_invalid'')
     else
       p_bind (join_target_of N item) (\<lambda>target.
       if \<not> accepts (en_joiner N) (join_login target)
       then conclude_reconciliation N item target (membership_error ''platform_configuration_invalid'')
       else
         p_bind (same_exit N) (\<lambda>ok.
         if \<not> ok then conclude_reconciliation N item target (membership_error ''proxy_egress_drift'')
         else
           p_bind (verify N target) (\<lambda>(e, m).
           p_bind (same_exit N) (\<lambda>ok.
           let m1 = (if e \<noteq> None \<or> \<not> mr_complete m then m\<lparr>mr_error := ''membership_unknown''\<rparr> else m);
               m2 = (if \<not> ok then m1\<lparr>mr_complete := False, mr_error := ''proxy_egress_drift''\<rparr> else m1) in
           conclude_reconciliation N item target m2)))))"

text \<open>The read-only confirmation at the end of a join.\<close>

definition confirm_join :: "'z env \<Rightarrow> task_item \<Rightarrow> join_target \<Rightarrow> ('z, unit) prog" where
  "confirm_join N item target =
     p_bind (verify N target) (\<lambda>(e, m).
     if e \<noteq> None \<or> \<not> mr_complete m
     then conclude_join N item target ''unknown'' ''platform_unknown'' (or_default (mr_error m) ''membership_unknown'')
       ''membership_verify'' None
     else
       p_bind (same_exit N) (\<lambda>ok.
       if \<not> ok then conclude_join N item target ''unknown'' ''platform_unknown'' ''proxy_egress_drift''
         ''after_membership_verify'' None
       else if \<not> mr_present m then conclude_join N item target ''unknown'' ''platform_unknown'' ''member_not_confirmed''
         ''membership_verify'' (Some m)
       else conclude_join N item target ''succeeded'' ''member_confirmed'' [] ''membership_verify'' (Some m)))"

definition renewed_on_exit ::
  "'z env \<Rightarrow> task_item \<Rightarrow> join_target \<Rightarrow> string \<Rightarrow> string \<Rightarrow> string \<Rightarrow> ('z, unit) prog \<Rightarrow> ('z, unit) prog" where
  "renewed_on_exit N item target status outcome stage next_step =
     p_bind (same_exit N) (\<lambda>ok.
     if \<not> ok then conclude_join N item target status outcome ''proxy_egress_drift'' stage None
     else p_bind (renew_lease N item) (\<lambda>_. next_step))"

definition accept_stage :: "'z env \<Rightarrow> task_item \<Rightarrow> join_target \<Rightarrow> ('z, unit) prog" where
  "accept_stage N item target =
     p_bind (announce N ''accept_join'' (\<lambda>k. mark_join_side_effect_started (en_flt N k) (en_now N k) item ''accept_join'')) (\<lambda>_.
     p_bind (send N Accepted (\<lambda>k. accept_join (en_unicode N) (en_decoders N) (join_login target) (en_net N k)
       (jt_platform_workspace target))) (\<lambda>(e, a).
     if e \<noteq> None \<or> (\<not> ja_success a \<and> ja_may_have_effect a)
     then conclude_join N item target ''unknown'' ''platform_unknown'' ''accept_uncertain'' ''join_accept'' None
     else if \<not> ja_success a
     then conclude_join N item target ''unknown'' ''platform_unknown'' (or_default (ja_error a) ''join_request_rejected'')
       ''join_accept'' None
     else renewed_on_exit N item target ''unknown'' ''platform_unknown'' ''membership_verify'' (confirm_join N item target)))"

definition request_stage :: "'z env \<Rightarrow> task_item \<Rightarrow> join_target \<Rightarrow> ('z, unit) prog" where
  "request_stage N item target =
     p_bind (announce N ''request_join'' (\<lambda>k. mark_join_side_effect_started (en_flt N k) (en_now N k) item ''request_join'')) (\<lambda>_.
     p_bind (send N Requested (\<lambda>k. request_join (en_unicode N) (en_decoders N) (join_login target) (en_net N k)
       (jt_platform_workspace target))) (\<lambda>(e, a).
     if e \<noteq> None then conclude_join N item target ''unknown'' ''platform_unknown'' ''join_request_failed'' ''join_request'' None
     else if \<not> ja_success a then
       (let code = or_default (ja_error a) ''join_request_rejected'' in
        if ja_may_have_effect a then conclude_join N item target ''unknown'' ''platform_unknown'' code ''join_request'' None
        else conclude_join N item target ''failed'' code code ''join_request'' None)
     else renewed_on_exit N item target ''unknown'' ''platform_unknown'' ''before_accept'' (accept_stage N item target)))"

definition preflight_result :: "request_error option \<times> probe_result \<Rightarrow> probe_result" where
  "preflight_result ep =
    (let r = snd ep;
         r1 = (if fst ep \<noteq> None \<and> pr_status r = []
               then r\<lparr>pr_status := target_status_text TargetTransientFailure, pr_error := ''preflight_transport_failure''\<rparr>
               else r)
     in if pr_status r1 = [] then r1\<lparr>pr_status := target_status_text TargetUnknown\<rparr> else r1)"

definition refused_status :: "string \<Rightarrow> string" where
  "refused_status st =
     (if st = target_status_text TargetCredentialInvalid \<or> st = target_status_text TargetDefinitelyUnavailable
      then ''failed'' else ''blocked'')"

definition fresh_join :: "'z env \<Rightarrow> task_item \<Rightarrow> join_target \<Rightarrow> ('z, unit) prog" where
  "fresh_join N item target =
    (if \<not> accepts (en_prober N) (join_login target)
     then conclude_join_failure N item ''platform_configuration_invalid'' ''preflight_prepare'' ''failed''
     else
       p_bind (send N Probed (\<lambda>k. preflight_result
         (probe_target (en_unicode N) (en_decoders N) (join_login target) (en_net N k) (en_clock N k)))) (\<lambda>pre.
       p_bind (store_call N (\<lambda>k. record_join_preflight (en_unicode N) (en_hash N) (en_flt N k) (en_gid N k)
         (en_now N k) item pre)) (\<lambda>_.
       if pr_status pre \<noteq> target_status_text TargetAvailable
       then conclude_join N item target (refused_status (pr_status pre)) (pr_status pre) (pr_error pre) ''preflight'' None
       else
         renewed_on_exit N item target ''blocked'' ''proxy_egress_drift'' ''before_join_request''
           (if \<not> accepts (en_joiner N) (join_login target)
            then conclude_join N item target ''failed'' ''platform_configuration_invalid''
              ''platform_configuration_invalid'' ''join_prepare'' None
            else request_stage N item target))))"

definition run_join :: "'z env \<Rightarrow> task_item \<Rightarrow> ('z, unit) prog" where
  "run_join N item =
    (if en_joiner N = None \<or> en_prober N = None
     then conclude_join_failure N item ''platform_configuration_invalid'' ''prepare'' ''failed''
     else
       p_try (join_target_of N item) (\<lambda>found.
       case found of
         Inl _ \<Rightarrow> conclude_join_failure N item ''platform_credential_unavailable'' ''credential_resolution'' ''failed''
       | Inr target \<Rightarrow> if jt_may_have_reached target then run_join_reconcile N item else fresh_join N item target))"

section \<open>Removals\<close>

definition member_identity :: "unicode \<Rightarrow> string \<Rightarrow> string" where
  "member_identity U s = to_lower U (trim_space s)"

definition removal_owner_role :: "unicode \<Rightarrow> string \<Rightarrow> bool" where
  "removal_owner_role U role \<longleftrightarrow>
     to_lower U (trim_space role)
       \<in> {''owner'', ''account-owner'', ''account_owner'', ''workspace-owner'', ''workspace_owner''}"

definition members_named :: "unicode \<Rightarrow> member list \<Rightarrow> string \<Rightarrow> member list" where
  "members_named U ms ident =
     filter (\<lambda>m. member_identity U (pm_identifier m) = member_identity U ident) (live_members ms)"

fun manifest_fault :: "unicode \<Rightarrow> member list \<Rightarrow> manifest_entry list \<Rightarrow> string" where
  "manifest_fault U ms [] = []"
| "manifest_fault U ms (en # ens) =
    (let found = members_named U ms (me_identifier en) in
     if 1 < length found then ''target_identity_ambiguous''
     else if length found = 1 \<and> removal_owner_role U (pm_role (found ! 0)) then ''target_is_owner''
     else manifest_fault U ms ens)"

definition resolve_removal_target ::
  "unicode \<Rightarrow> removal_target \<Rightarrow> member list \<Rightarrow> string \<times> bool \<times> string" where
  "resolve_removal_target U target ms =
    (if \<not> list_ex (\<lambda>m. removal_owner_role U (pm_role m)) (members_named U ms (rm_owner_identifier target))
     then ([], False, ''owner_missing'')
     else
       (let fault = manifest_fault U ms (rm_manifest target) in
        if fault \<noteq> [] then ([], False, fault)
        else
          (case members_named U ms (rm_identifier target) of
             [] \<Rightarrow> ([], False, [])
           | m # _ \<Rightarrow> (pm_id m, True, []))))"

definition removal_diagnostic :: "unicode \<Rightarrow> request_error option \<times> removal_answer \<Rightarrow> string" where
  "removal_diagnostic U ea =
    (if fst ea \<noteq> None then ''remove_transport_unknown''
     else if ra_error (snd ea) \<noteq> [] then normalize_diagnostic U (ra_error (snd ea))
     else if ra_accepted (snd ea) then ''remove_retry_scheduled'' else ''remove_rejected'')"

definition snapshot_publisher ::
  "'z env \<Rightarrow> read_result \<Rightarrow> string \<Rightarrow> (store_error, 'z store_db_scheme, unit) tx" where
  "snapshot_publisher N r ws = (case en_facts N of None \<Rightarrow> tx_fail ErrInvalid | Some publish_read \<Rightarrow> publish_read [r] ws)"

definition conclude_removal ::
  "'z env \<Rightarrow> (nat \<Rightarrow> 'z store_db_scheme \<Rightarrow> (store_error, unit) result \<times> 'z store_db_scheme) \<Rightarrow> ('z, unit) prog" where
  "conclude_removal N f = p_bind (store_call N f) (\<lambda>_. p_fail ErrAttemptFailed)"

definition conclude_removal_retry where
  "conclude_removal_retry N item target pub diagnostic stage =
     conclude_removal N (\<lambda>k. finish_removal_retry (en_unicode N) (en_hash N) (en_flt N k) (en_gid N k) (en_now N k)
       item target pub diagnostic stage)"

definition conclude_removal_unknown where
  "conclude_removal_unknown N item target diagnostic stage =
     conclude_removal N (\<lambda>k. finish_removal_unknown (en_unicode N) (en_hash N) (en_flt N k) (en_gid N k) (en_now N k)
       item target diagnostic stage)"

definition conclude_removal_blocked where
  "conclude_removal_blocked N item target pub diagnostic stage =
     conclude_removal N (\<lambda>k. finish_removal_blocked (en_unicode N) (en_hash N) (en_flt N k) (en_gid N k) (en_now N k)
       item target pub diagnostic stage)"

definition confirm_removal where
  "confirm_removal N item target pub stage =
     store_call N (\<lambda>k. finish_removal_confirmed (en_hash N) (en_flt N k) (en_gid N k) (en_now N k) item target pub stage)"

definition removal_login :: "removal_target \<Rightarrow> platform_login" where
  "removal_login t = \<lparr>pl_login = rm_owner_identifier t, pl_password = rm_owner_password t\<rparr>"

definition member_snapshot ::
  "'z env \<Rightarrow> removal_target \<Rightarrow> ('z, (request_error, read_result) result) prog" where
  "member_snapshot N target = send N Snapshot (\<lambda>k. snapshot_members (en_decoders N) (removal_login target) (en_net N k)
     (en_clock N k) (rm_platform_workspace target))"

text \<open>What follows the DELETE, whose answer is \<open>ea\<close>.\<close>

definition settle_delete ::
  "'z env \<Rightarrow> task_item \<Rightarrow> removal_target \<Rightarrow> request_error option \<times> removal_answer \<Rightarrow> ('z, unit) prog" where
  "settle_delete N item target ea =
     p_bind (same_exit N) (\<lambda>ok.
     if \<not> ok then conclude_removal_unknown N item target ''proxy_egress_drift'' ''after_delete_remeasure''
     else
       p_bind (renew_lease N item) (\<lambda>_.
       p_bind (member_snapshot N target) (\<lambda>after.
       case after of
         Inl _ \<Rightarrow> conclude_removal_unknown N item target
           (if fst ea \<noteq> None then ''remove_transport_unknown'' else ''membership_snapshot_incomplete'') ''after_delete_snapshot''
       | Inr r \<Rightarrow>
          (case resolve_removal_target (en_unicode N) target (rr_members r) of
             (_, present, fault) \<Rightarrow>
               if fault \<noteq> [] then conclude_removal_unknown N item target fault ''after_delete_snapshot''
               else if \<not> present
               then confirm_removal N item target (Some (snapshot_publisher N r)) ''after_delete_snapshot''
               else if fst ea \<noteq> None \<or> ra_retryable (snd ea) \<or> ra_may_have_effect (snd ea)
               then conclude_removal_retry N item target (Some (snapshot_publisher N r))
                 (removal_diagnostic (en_unicode N) ea) ''after_delete_snapshot''
               else conclude_removal_blocked N item target (Some (snapshot_publisher N r))
                 (removal_diagnostic (en_unicode N) ea) ''after_delete_snapshot''))))"

definition delete_member :: "'z env \<Rightarrow> task_item \<Rightarrow> removal_target \<Rightarrow> string \<Rightarrow> ('z, unit) prog" where
  "delete_member N item target live =
     p_bind (renew_lease N item) (\<lambda>_.
     p_bind (announce N ''remove_member'' (\<lambda>k. mark_removal_side_effect_started (en_hash N) (en_flt N k) (en_gid N k)
       (en_now N k) item live)) (\<lambda>_.
     p_bind (send N (Removed live) (\<lambda>k. remove_member (en_unicode N) (en_decoders N) (removal_login target) (en_net N k)
       (rm_platform_workspace target) live)) (\<lambda>ea.
     settle_delete N item target ea)))"

definition read_only_removal :: "task_item \<Rightarrow> removal_target \<Rightarrow> bool" where
  "read_only_removal item target \<longleftrightarrow> rm_may_have_reached target \<or> it_type item = RemoveReconcile"

text \<open>What follows the first snapshot \<open>r\<close>.\<close>

definition decide_removal :: "'z env \<Rightarrow> task_item \<Rightarrow> removal_target \<Rightarrow> read_result \<Rightarrow> ('z, unit) prog" where
  "decide_removal N item target r =
    (case resolve_removal_target (en_unicode N) target (rr_members r) of
       (live, present, fault) \<Rightarrow>
         let pub = Some (snapshot_publisher N r) in
         if fault \<noteq> [] then conclude_removal_blocked N item target pub fault ''before_delete_snapshot''
         else
           p_bind (same_exit N) (\<lambda>ok.
           if \<not> ok then conclude_removal_unknown N item target ''proxy_egress_drift'' ''before_delete_remeasure''
           else if \<not> present then confirm_removal N item target pub ''before_delete_snapshot''
           else if read_only_removal item target
           then conclude_removal N (\<lambda>k. finish_removal_reconciliation (en_hash N) (en_flt N k) (en_gid N k)
             (en_now N k) item target pub True)
           else if maximum_removal_side_effects \<le> rm_remove_attempts target
           then conclude_removal_blocked N item target pub ''remove_attempts_exhausted'' ''before_delete_snapshot''
           else delete_member N item target live))"

definition snapshot_removal :: "'z env \<Rightarrow> task_item \<Rightarrow> removal_target \<Rightarrow> ('z, unit) prog" where
  "snapshot_removal N item target =
    (if en_remover N = None \<or> en_facts N = None \<or> \<not> accepts (en_remover N) (removal_login target)
     then conclude_removal_blocked N item target None ''platform_configuration_invalid'' ''prepare''
     else
       p_bind (member_snapshot N target) (\<lambda>before.
       case before of
         Inl _ \<Rightarrow>
           if read_only_removal item target
           then conclude_removal_unknown N item target ''membership_snapshot_incomplete'' ''before_delete_snapshot''
           else conclude_removal_retry N item target None ''membership_snapshot_incomplete'' ''before_delete_snapshot''
       | Inr r \<Rightarrow> decide_removal N item target r))"

definition run_removal :: "'z env \<Rightarrow> task_item \<Rightarrow> ('z, unit) prog" where
  "run_removal N item =
     p_bind (store_read N (\<lambda>k. read_removal_target (en_flt N k) (en_identifiers N) (en_owners N) (it_id item)))
       (snapshot_removal N item)"

section \<open>Probes of target accounts\<close>

definition worker_probe :: "string \<Rightarrow> instant \<Rightarrow> probe_result" where
  "worker_probe code clock =
     \<lparr>pr_status = target_status_text TargetUnknown, pr_endpoint = ''account_usage'', pr_origin = ''worker'',
      pr_http = 0, pr_error = code, pr_observed_at = clock\<rparr>"

definition target_probe_audit_key :: "task_item \<Rightarrow> string" where
  "target_probe_audit_key item = it_id item @ '':target-account.probed:'' @ itoa (it_attempt item)"

definition probe_publication ::
  "'z env \<Rightarrow> nat \<Rightarrow> task_item \<Rightarrow> probe_result \<Rightarrow> string \<Rightarrow> (store_error, 'z store_db_scheme, unit) tx" where
  "probe_publication N k item res target =
     publish_probe (en_unicode N) (en_hash N) (en_flt N k) (en_gid N k 1) (en_now N k) (en_clock N k) res
       (it_correlation item) (target_probe_audit_key item) target"

definition refuse_target_probe :: "'z env \<Rightarrow> task_item \<Rightarrow> string \<Rightarrow> string \<Rightarrow> ('z, unit) prog" where
  "refuse_target_probe N item code stage =
     p_bind (worker_clock N) (\<lambda>clock.
     p_bind (store_call N (\<lambda>k. reject_target_probe (en_hash N) (en_flt N k) (en_gid N k 0) (en_now N k) item code stage
       (probe_publication N k item (worker_probe code clock)))) (\<lambda>_. p_fail ErrAttemptFailed))"

text \<open>
  A client that refuses its route answers with a configuration error of the egress.  The
  deployment always wires a prober; a worker without one would panic here, which the model
  does not represent.
\<close>

definition probed_result :: "egress_error option \<Rightarrow> request_error option \<times> probe_result \<Rightarrow> probe_result" where
  "probed_result config ep =
    (let r = (case (config, fst ep) of
                (Some e, Some _) \<Rightarrow> (snd ep)\<lparr>pr_status := target_status_text TargetUnknown, pr_error := error_code e\<rparr>
              | _ \<Rightarrow> snd ep) in
     r\<lparr>pr_status := or_default (pr_status r) (target_status_text TargetUnknown),
       pr_endpoint := or_default (pr_endpoint r) ''account_usage'', pr_origin := or_default (pr_origin r) ''worker''\<rparr>)"

definition run_target_probe :: "'z env \<Rightarrow> task_item \<Rightarrow> ('z, unit) prog" where
  "run_target_probe N item =
     p_try (store_read N (\<lambda>k _. if en_flt N k 0 then Inl ErrDriver
              else case en_probe_login N (it_target item) of None \<Rightarrow> Inl ErrNoRows | Some c \<Rightarrow> Inr c)) (\<lambda>found.
     case found of
       Inl _ \<Rightarrow> refuse_target_probe N item ''platform_credential_unavailable'' ''credential_resolution''
     | Inr c \<Rightarrow>
        if \<not> accepts (en_prober N) c then refuse_target_probe N item ''platform_configuration_invalid'' ''prepare''
        else
          p_bind (send N Probed (\<lambda>k. probed_result (en_config_error N k)
            (probe_target (en_unicode N) (en_decoders N) c (en_net N k) (en_clock N k)))) (\<lambda>res.
          p_try (store_call N (\<lambda>k. complete_target_probe (en_hash N) (en_flt N k) (en_gid N k 0) (en_now N k) item
            (probe_publication N k item res))) (\<lambda>done.
          case done of
            Inr _ \<Rightarrow> p_return ()
          | Inl e \<Rightarrow> p_bind (note_interruption N item ''publication_fenced'' ''publish'') (\<lambda>_. p_fail e))))"

section \<open>Reads of a workspace\<close>

definition workspace_reads :: "read_endpoint list" where
  "workspace_reads = [EndpointExchange, EndpointSubscription, EndpointCapacity, EndpointJoin, EndpointMembers,
     EndpointPendingInvite]"

definition read_transport :: "request_error option \<Rightarrow> transport_error" where
  "read_transport e = (case e of Some (Transport t) \<Rightarrow> t | _ \<Rightarrow> OtherError)"

definition observed_read :: "instant \<Rightarrow> request_error option \<times> read_result \<Rightarrow> read_result" where
  "observed_read clock er =
    (if fst er \<noteq> None
     then (snd er)\<lparr>rr_observed_at := clock, rr_outcome := Some (classify 0 [] (Some (read_transport (fst er))))\<rparr>
     else snd er)"

text \<open>The endpoints in turn: the exit is measured before every request but the first, the lease renewed after each.\<close>

fun read_all ::
  "'z env \<Rightarrow> task_item \<Rightarrow> string \<Rightarrow> platform_login \<Rightarrow> bool \<Rightarrow> read_endpoint list \<Rightarrow> read_result list
     \<Rightarrow> ('z, read_result list) prog" where
  "read_all N item ws c first [] acc = p_return (rev acc)"
| "read_all N item ws c first (ep # eps) acc =
     p_bind (if first then p_return True else same_exit N) (\<lambda>ok.
     if \<not> ok then p_bind (fail_task N item ''task.interrupted'' ''proxy_egress_drift'' ''remeasure'') (\<lambda>_. p_return [])
     else
       p_bind (send N (Read ep) (\<lambda>k. observed_read (en_clock N k)
         (read_workspace (en_decoders N) c (en_net N k) (en_clock N k) ws ep))) (\<lambda>r.
       p_try (renew_lease N item) (\<lambda>renewed.
       case renewed of
         Inl e \<Rightarrow> p_bind (note_interruption N item ''lease_lost'' ''renew'') (\<lambda>_. p_fail e)
       | Inr _ \<Rightarrow> read_all N item ws c False eps (r # acc))))"

definition run_workspace_read :: "'z env \<Rightarrow> task_item \<Rightarrow> ('z, unit) prog" where
  "run_workspace_read N item =
    (if en_reader N = None then fail_task N item ''task.rejected'' ''management_protocol_unavailable'' ''prepare''
     else
       p_try (store_read N (\<lambda>k _. if en_flt N k 0 then Inl ErrDriver
                else case en_read_login N (it_workspace item) of None \<Rightarrow> Inl ErrNoRows | Some x \<Rightarrow> Inr x)) (\<lambda>found.
       case found of
         Inl _ \<Rightarrow> fail_task N item ''task.rejected'' ''platform_credential_unavailable'' ''credential_resolution''
       | Inr (ws, c) \<Rightarrow>
          if \<not> accepts (en_reader N) c then fail_task N item ''task.rejected'' ''platform_configuration_invalid'' ''prepare''
          else
            p_bind (read_all N item ws c True workspace_reads []) (\<lambda>results.
            p_try (store_call N (\<lambda>k. complete_workspace_read (en_hash N) (en_flt N k) (en_gid N k 0) (en_now N k) item
              (\<lambda>w. case en_facts N of None \<Rightarrow> tx_fail ErrInvalid | Some publish_read \<Rightarrow> publish_read results w))) (\<lambda>done.
            case done of
              Inr _ \<Rightarrow> p_return ()
            | Inl e \<Rightarrow> p_bind (note_interruption N item ''publication_fenced'' ''publish'') (\<lambda>_. p_fail e)))))"

section \<open>No exit is available\<close>

text \<open>A handled task is reported with the error of its handling.\<close>

definition handled :: "('z, unit) prog \<Rightarrow> ('z, bool \<times> worker_error option) prog" where
  "handled m = p_try m (\<lambda>r. p_return (True, case r of Inl e \<Rightarrow> Some e | Inr _ \<Rightarrow> None))"

definition not_handled :: "worker_error option \<Rightarrow> ('z, bool \<times> worker_error option) prog" where
  "not_handled e = p_return (False, e)"

definition reject_claimed :: "'z env \<Rightarrow> string \<Rightarrow> task_item \<Rightarrow> ('z, unit) prog" where
  "reject_claimed N code item =
    (if it_type item = Remove \<or> it_type item = RemoveReconcile then
       p_bind (store_read N (\<lambda>k. read_removal_target (en_flt N k) (en_identifiers N) (en_owners N) (it_id item))) (\<lambda>target.
       conclude_removal_unknown N item target code ''egress_admission'')
     else if it_type item = Join \<or> it_type item = JoinReconcile then
       p_bind (join_target_of N item) (\<lambda>target.
       p_bind
         (if it_type item = JoinReconcile then
            store_call N (\<lambda>k. finish_join_reconciliation (en_unicode N) (en_hash N) (en_flt N k) (en_gid N k) (en_now N k)
              item target (membership_error code))
          else if jt_may_have_reached target then
            store_call N (\<lambda>k. finish_join (en_unicode N) (en_hash N) (en_flt N k) (en_gid N k) (en_now N k)
              item target ''unknown'' ''platform_unknown'' code ''reconcile_egress_admission'' None)
          else
            store_call N (\<lambda>k. finish_join (en_unicode N) (en_hash N) (en_flt N k) (en_gid N k) (en_now N k)
              item target ''blocked'' code code ''egress_admission'' None))
         (\<lambda>_. p_fail ErrAttemptFailed))
     else if it_type item = TargetAccountProbe then refuse_target_probe N item code ''egress_admission''
     else fail_task N item ''task.rejected'' code ''egress_admission'')"

definition reject_for_egress :: "'z env \<Rightarrow> task_type \<Rightarrow> lease_error \<Rightarrow> ('z, bool \<times> worker_error option) prog" where
  "reject_for_egress N ty err =
    (if err \<noteq> ErrLeaseExhausted \<and> err \<noteq> ErrEgressDrift then not_handled (Some (AcquireFailed err))
     else
       (let code = (if err = ErrEgressDrift then ''proxy_egress_drift'' else ''proxy_capacity_exhausted'') in
        p_try (store_call N (\<lambda>k. claim_rejected (en_flt N k) (en_locked N k) (en_token N k) (en_now N k) (en_id N)
            (lease_duration N) ty)) (\<lambda>claimed.
        case claimed of
          Inl (StoreError ErrNoRows) \<Rightarrow> not_handled None
        | Inl e \<Rightarrow> not_handled (Some e)
        | Inr item \<Rightarrow> handled (reject_claimed N code item))))"

end
