(* ===== verification/WorkerLaws.thy ===== *)
theory WorkerLaws
  imports TaskWorker
begin

text \<open>
  What a worker sends to the platform, and in which order.  A program speaks a set of words
  when whatever it appends to the log, with every answer of the outside and every error on
  the way, is a prefix of one of them, and a whole word when it returns without an error.
\<close>

section \<open>Words of a program\<close>

definition speaks :: "action list set \<Rightarrow> ('z, 'a) prog \<Rightarrow> bool" where
  "speaks L m \<longleftrightarrow> (\<forall>w r w'. m w = (r, w') \<longrightarrow>
     (\<exists>p. wd_log w' = wd_log w @ p \<and> (\<exists>l\<in>L. prefix p l) \<and> (\<forall>x. r = Inr x \<longrightarrow> p \<in> L)))"

definition fails :: "('z, 'a) prog \<Rightarrow> bool" where
  "fails m \<longleftrightarrow> (\<forall>w x w'. m w \<noteq> (Inr x, w'))"

lemma speaks_mono: "speaks L m \<Longrightarrow> L \<subseteq> L' \<Longrightarrow> speaks L' m"
  unfolding speaks_def by (meson subset_iff)

lemma speaks_grow: "speaks {l} m \<Longrightarrow> l \<in> L \<Longrightarrow> speaks L m"
  by (rule speaks_mono) auto

text \<open>A step that leaves the log alone says nothing.\<close>

lemma speaks_silent: "(\<And>w. wd_log (snd (m w)) = wd_log w) \<Longrightarrow> speaks {[]} m"
  unfolding speaks_def by (metis append_Nil2 prefix_order.refl singletonI snd_conv)

lemma silent_log: "speaks {[]} m \<Longrightarrow> m w = (r, w') \<Longrightarrow> wd_log w' = wd_log w"
  unfolding speaks_def by fastforce

text \<open>A step that says nothing and cannot succeed fits anywhere.\<close>

lemma speaks_fails: "speaks {[]} m \<Longrightarrow> fails m \<Longrightarrow> l \<in> L \<Longrightarrow> speaks L m"
  unfolding speaks_def fails_def by (metis Nil_prefix append_Nil2 prefix_Nil singletonD)

lemma says_return: "speaks {[]} (p_return x)"
  by (rule speaks_silent) (simp add: p_return_def)

lemma says_fail: "speaks {[]} (p_fail e)"
  by (rule speaks_silent) (simp add: p_fail_def)

lemma says_store_call: "speaks {[]} (store_call N f)"
  by (rule speaks_silent) (simp add: store_call_def Let_def split: prod.splits)

lemma says_store_read: "speaks {[]} (store_read N f)"
  unfolding store_read_def by (rule says_store_call)

lemma says_same_exit: "speaks {[]} (same_exit N)"
  by (rule speaks_silent) (simp add: same_exit_def)

lemma says_clock: "speaks {[]} (worker_clock N)"
  by (rule speaks_silent) (simp add: worker_clock_def)

lemma says_renew: "speaks {[]} (renew_lease N item)"
  unfolding renew_lease_def by (rule says_store_call)

lemma says_send: "speaks {[a]} (send N a f)"
  unfolding speaks_def send_def by auto

lemma fails_fail: "fails (p_fail e)"
  by (simp add: fails_def p_fail_def)

text \<open>Sequencing: what the first step says comes before what the rest says.\<close>

lemma p_bind_run:
  assumes "p_bind m f w = (r, w')"
  obtains x w1 where "m w = (Inr x, w1)" and "f x w1 = (r, w')"
        | e where "m w = (Inl e, w')" and "r = Inl e"
  using assms by (auto simp: p_bind_def p_try_def p_fail_def split: prod.splits sum.splits)

lemma bind_send:
  "p_bind (send N a g) f w =
     f (g (wd_step w)) (w\<lparr>wd_step := Suc (wd_step w), wd_log := wd_log w @ [a]\<rparr>)"
  by (simp add: p_bind_def p_try_def send_def)

lemma bind_store_read:
  "p_bind (store_read N g) f w =
    (let w1 = w\<lparr>wd_db := en_other N (wd_step w) (wd_db w), wd_step := Suc (wd_step w)\<rparr> in
     case g (wd_step w) (en_other N (wd_step w) (wd_db w)) of
       Inl e \<Rightarrow> (Inl (StoreError e), w1) | Inr x \<Rightarrow> f x w1)"
  by (simp add: p_bind_def p_try_def store_read_def store_call_def p_fail_def Let_def split: sum.split)

lemma fails_bind: "(\<And>x. fails (f x)) \<Longrightarrow> fails (p_bind m f)"
  unfolding fails_def by (metis p_bind_run sum.distinct(1))

lemma speaks_bind:
  assumes m: "speaks {l} m" and f: "\<And>x. speaks L (f x)"
  shows "speaks ((@) l ` L) (p_bind m f)"
  unfolding speaks_def
proof (intro allI impI)
  fix w r w' assume "p_bind m f w = (r, w')"
  then show "\<exists>p. wd_log w' = wd_log w @ p \<and> (\<exists>l'\<in>(@) l ` L. prefix p l') \<and> (\<forall>x. r = Inr x \<longrightarrow> p \<in> (@) l ` L)"
  proof (cases rule: p_bind_run)
    case (1 x w1)
    have "wd_log w1 = wd_log w @ l" using m [unfolded speaks_def, rule_format, OF 1(1)] by auto
    moreover have "\<exists>p. wd_log w' = wd_log w1 @ p \<and> (\<exists>l2\<in>L. prefix p l2) \<and> (\<forall>x. r = Inr x \<longrightarrow> p \<in> L)"
      using f [unfolded speaks_def] 1(2) by simp
    then obtain p where "wd_log w' = wd_log w1 @ p" "\<exists>l2\<in>L. prefix p l2" "\<forall>x. r = Inr x \<longrightarrow> p \<in> L"
      by (elim exE conjE)
    ultimately show ?thesis by (intro exI [of _ "l @ p"]) auto
  next
    case (2 e)
    obtain p where p: "wd_log w' = wd_log w @ p" "prefix p l"
      using m [unfolded speaks_def, rule_format, OF 2(1)] by auto
    obtain l2 where "l2 \<in> L" using f [of undefined, unfolded speaks_def] by (metis surj_pair)
    with p 2(2) show ?thesis by (intro exI [of _ p]) auto
  qed
qed

lemma speaks_after: "speaks {[]} m \<Longrightarrow> (\<And>x. speaks L (f x)) \<Longrightarrow> speaks L (p_bind m f)"
  using speaks_bind [of "[]" m L f] by simp

lemma speaks_next: "speaks {[a]} m \<Longrightarrow> (\<And>x. speaks {l} (f x)) \<Longrightarrow> speaks {a # l} (p_bind m f)"
  using speaks_bind [of "[a]" m "{l}" f] by simp

lemma speaks_try:
  assumes "speaks {[]} m" and "\<And>r. speaks L (f r)"
  shows "speaks L (p_try m f)"
  unfolding speaks_def
proof (intro allI impI)
  fix w r w' assume run: "p_try m f w = (r, w')"
  obtain r1 w1 where m: "m w = (r1, w1)" by fastforce
  with assms(1) have "wd_log w1 = wd_log w" by (rule silent_log)
  moreover have "f r1 w1 = (r, w')" using run m by (simp add: p_try_def)
  ultimately show "\<exists>p. wd_log w' = wd_log w @ p \<and> (\<exists>l\<in>L. prefix p l) \<and> (\<forall>x. r = Inr x \<longrightarrow> p \<in> L)"
    using assms(2) [of r1] unfolding speaks_def by metis
qed

lemma says_announce: "speaks {[Announced s]} (announce N s f)"
proof -
  have "speaks {[Announced s]} (\<lambda>w :: 'a world. (Inr (), w\<lparr>wd_log := wd_log w @ [Announced s]\<rparr>))"
    unfolding speaks_def by auto
  then show ?thesis unfolding announce_def by (intro speaks_after [OF says_store_call]) auto
qed

text \<open>Concluding steps send nothing; most of them end the attempt with an error.\<close>

lemma says_fail_task: "speaks {[]} (fail_task N item e c s)" and fails_fail_task: "fails (fail_task N item e c s)"
  unfolding fail_task_def by (intro speaks_after [OF says_store_call] says_fail fails_bind fails_fail)+

lemma says_conclude_join: "speaks {[]} (conclude_join N item t st oc d s m)"
  unfolding conclude_join_def by (intro speaks_after [OF says_store_call]) (simp add: says_fail says_return)

lemma fails_conclude_join: "st \<noteq> ''succeeded'' \<Longrightarrow> fails (conclude_join N item t st oc d s m)"
  unfolding conclude_join_def by (intro fails_bind) (simp add: fails_fail)

lemma says_join_target_of: "speaks {[]} (join_target_of N item)"
  unfolding join_target_of_def by (rule says_store_read)

lemma says_conclude_join_failure: "speaks {[]} (conclude_join_failure N item d s st)"
  unfolding conclude_join_failure_def by (intro speaks_after [OF says_join_target_of] says_conclude_join)

lemma fails_conclude_join_failure: "st \<noteq> ''succeeded'' \<Longrightarrow> fails (conclude_join_failure N item d s st)"
  unfolding conclude_join_failure_def by (intro fails_bind fails_conclude_join)

lemma says_conclude_reconciliation: "speaks {[]} (conclude_reconciliation N item t m)"
  unfolding conclude_reconciliation_def by (simp add: says_fail says_store_call)

lemma says_conclude_removal: "speaks {[]} (conclude_removal N f)" and fails_conclude_removal: "fails (conclude_removal N f)"
  unfolding conclude_removal_def by (intro speaks_after [OF says_store_call] says_fail fails_bind fails_fail)+

lemma says_confirm_removal: "speaks {[]} (confirm_removal N item t pub s)"
  unfolding confirm_removal_def by (rule says_store_call)

lemma says_verify: "speaks {[Verified]} (verify N t)"
  unfolding verify_def by (rule says_send)

lemma says_member_snapshot: "speaks {[Snapshot]} (member_snapshot N t)"
  unfolding member_snapshot_def by (rule says_send)

text \<open>The rules by which the words of the worker's programs are read off their text.\<close>

lemma speaks_if: "(P \<Longrightarrow> speaks L a) \<Longrightarrow> (\<not> P \<Longrightarrow> speaks L b) \<Longrightarrow> speaks L (if P then a else b)"
  by simp

lemma speaks_pair: "(\<And>a b. x = (a, b) \<Longrightarrow> speaks L (f a b)) \<Longrightarrow> speaks L (case x of (a, b) \<Rightarrow> f a b)"
  by (simp split: prod.split)

lemma speaks_sum:
  "(\<And>a. x = Inl a \<Longrightarrow> speaks L (f a)) \<Longrightarrow> (\<And>b. x = Inr b \<Longrightarrow> speaks L (g b))
     \<Longrightarrow> speaks L (case x of Inl a \<Rightarrow> f a | Inr b \<Rightarrow> g b)"
  by (simp split: sum.split)

lemma speaks_let: "speaks L (f x) \<Longrightarrow> speaks L (let y = x in f y)"
  by simp

lemmas speaks_send = speaks_next [OF says_send]
lemmas speaks_announce = speaks_next [OF says_announce]
lemmas speaks_verify = speaks_next [OF says_verify]
lemmas speaks_snapshot = speaks_next [OF says_member_snapshot]

lemmas speaks_outside =
  speaks_after [OF says_same_exit] speaks_after [OF says_renew] speaks_after [OF says_join_target_of]
  speaks_after [OF says_store_call] speaks_after [OF says_store_read] speaks_try [OF says_join_target_of]
  speaks_try [OF says_store_read]

lemma speaks_errors:
  "L \<noteq> {} \<Longrightarrow> speaks L (fail_task N item e c s)"
  "L \<noteq> {} \<Longrightarrow> st \<noteq> ''succeeded'' \<Longrightarrow> speaks L (conclude_join N item t st oc d s m)"
  "L \<noteq> {} \<Longrightarrow> st \<noteq> ''succeeded'' \<Longrightarrow> speaks L (conclude_join_failure N item d s st)"
  "L \<noteq> {} \<Longrightarrow> speaks L (conclude_removal N f)"
  "L \<noteq> {} \<Longrightarrow> speaks L (conclude_removal_retry N item rt pub d s)"
  "L \<noteq> {} \<Longrightarrow> speaks L (conclude_removal_unknown N item rt d s)"
  "L \<noteq> {} \<Longrightarrow> speaks L (conclude_removal_blocked N item rt pub d s)"
  unfolding conclude_removal_retry_def conclude_removal_unknown_def conclude_removal_blocked_def
  by (auto intro: speaks_fails [OF says_fail_task fails_fail_task] speaks_fails [OF says_conclude_join fails_conclude_join]
      speaks_fails [OF says_conclude_join_failure fails_conclude_join_failure]
      speaks_fails [OF says_conclude_removal fails_conclude_removal])

lemmas speaks_rules = speaks_if speaks_pair speaks_sum speaks_let speaks_outside speaks_send speaks_announce
  speaks_verify speaks_snapshot speaks_errors

section \<open>Joins\<close>

lemma reconcile_speaks: "[] \<in> L \<Longrightarrow> speaks L (conclude_reconciliation N item t m)"
  by (rule speaks_grow [OF says_conclude_reconciliation])

lemma verified_speaks:
  assumes "\<And>e m ok. speaks {[]} (g e m ok)"
  shows "speaks {[], [Verified]} (p_bind (verify N t) (\<lambda>(e, m). p_bind (same_exit N) (g e m)))"
proof -
  have "speaks {[Verified]} (p_bind (verify N t) (\<lambda>(e, m). p_bind (same_exit N) (g e m)))"
    by (intro speaks_rules assms)
  then show ?thesis by (rule speaks_grow) simp
qed

lemma run_join_reconcile_words: "speaks {[], [Verified]} (run_join_reconcile N item)"
  unfolding run_join_reconcile_def
  by (intro speaks_if speaks_outside verified_speaks speaks_let reconcile_speaks) simp_all

lemma confirm_join_words: "speaks {[Verified]} (confirm_join N item t)"
  unfolding confirm_join_def by (intro speaks_rules says_conclude_join) simp_all

lemma accept_stage_words: "speaks {[Announced ''accept_join'', Accepted, Verified]} (accept_stage N item t)"
  unfolding accept_stage_def renewed_on_exit_def by (intro speaks_rules confirm_join_words) simp_all

definition join_word :: "action list" where
  "join_word = [Probed, Announced ''request_join'', Requested, Announced ''accept_join'', Accepted, Verified]"

lemma request_stage_words:
  "speaks {[Announced ''request_join'', Requested, Announced ''accept_join'', Accepted, Verified]} (request_stage N item t)"
  unfolding request_stage_def renewed_on_exit_def by (intro speaks_rules accept_stage_words) simp_all

lemma refused_not_succeeded [simp]: "refused_status st \<noteq> ''succeeded''"
  by (simp add: refused_status_def)

lemma fresh_join_words: "speaks {join_word} (fresh_join N item t)"
  unfolding fresh_join_def join_word_def renewed_on_exit_def
  by (intro speaks_rules request_stage_words) simp_all

text \<open>What the first read of the target finds decides which of the two programs runs.\<close>

definition join_view :: "'z env \<Rightarrow> task_item \<Rightarrow> 'z world \<Rightarrow> (store_error, join_target) result" where
  "join_view N item w =
     read_join_target (en_flt N (wd_step w)) (en_accounts N) (en_workspaces N) (it_id item)
       (en_other N (wd_step w) (wd_db w))"

lemma join_target_of_view:
  "join_target_of N item w =
     (map_sum StoreError id (join_view N item w),
      w\<lparr>wd_db := en_other N (wd_step w) (wd_db w), wd_step := Suc (wd_step w)\<rparr>)"
  by (simp add: join_target_of_def store_read_def store_call_def join_view_def Let_def)

lemma speaks_run:
  assumes "speaks L m" and "m w = (r, w')"
  obtains p where "wd_log w' = wd_log w @ p" and "\<exists>l\<in>L. prefix p l" and "\<forall>x. r = Inr x \<longrightarrow> p \<in> L"
  using assms unfolding speaks_def by (metis (no_types, lifting))

lemma run_join_branches:
  assumes run: "run_join N item w = (r, w')"
  obtains w1 m where "wd_log w1 = wd_log w" and "m w1 = (r, w')"
    and "if \<exists>t. join_view N item w = Inr t \<and> jt_may_have_reached t
         then speaks {[], [Verified]} m else speaks {join_word} m"
proof (cases "en_joiner N = None \<or> en_prober N = None")
  case True
  let ?m = "conclude_join_failure N item ''platform_configuration_invalid'' ''prepare'' ''failed''"
  have "?m w = (r, w')" using run True unfolding run_join_def by (simp only: if_True)
  moreover have "speaks L ?m" if "L \<noteq> {}" for L using that by (intro speaks_errors) simp_all
  ultimately show thesis by (intro that [of w ?m]) simp_all
next
  case False
  let ?w = "w\<lparr>wd_db := en_other N (wd_step w) (wd_db w), wd_step := Suc (wd_step w)\<rparr>"
  let ?f = "conclude_join_failure N item ''platform_credential_unavailable'' ''credential_resolution'' ''failed''"
  let ?m = "case join_view N item w of Inl _ \<Rightarrow> ?f
     | Inr t \<Rightarrow> if jt_may_have_reached t then run_join_reconcile N item else fresh_join N item t"
  have "?m ?w = (r, w')"
    using run False unfolding run_join_def p_try_def join_target_of_view
    by (cases "join_view N item w") simp_all
  moreover have "speaks L ?f" if "L \<noteq> {}" for L using that by (intro speaks_errors) simp_all
  ultimately show thesis
    by (intro that [of ?w ?m]) (auto simp: run_join_reconcile_words fresh_join_words split: sum.split)
qed

text \<open>
  C12: what a worker sends for a claimed join, over every answer of the platform, the exit
  measurement, the driver and the other processes.  When the stored target says that a
  request may have reached the platform, nothing but one membership check is sent.
  Otherwise the requests and the committed announcements come in one fixed order: probe,
  announcement of the request, request, announcement of the acceptance, acceptance, membership
  check; any failure stops the sequence there, and the attempt counts as a success only when
  the whole sequence took place.
\<close>

theorem join_attempt_protocol:
  assumes "run_join N item w = (r, w')"
  shows "\<exists>p. wd_log w' = wd_log w @ p \<and>
    (if \<exists>t. read_join_target (en_flt N (wd_step w)) (en_accounts N) (en_workspaces N) (it_id item)
              (en_other N (wd_step w) (wd_db w)) = Inr t \<and> jt_may_have_reached t
     then p = [] \<or> p = [Verified]
     else prefix p [Probed, Announced ''request_join'', Requested, Announced ''accept_join'', Accepted, Verified]
        \<and> (r = Inr () \<longrightarrow>
             p = [Probed, Announced ''request_join'', Requested, Announced ''accept_join'', Accepted, Verified]))"
proof -
  from assms obtain w1 m where log: "wd_log w1 = wd_log w" and m: "m w1 = (r, w')"
    and sp: "if \<exists>t. join_view N item w = Inr t \<and> jt_may_have_reached t
         then speaks {[], [Verified]} m else speaks {join_word} m"
    by (rule run_join_branches)
  show ?thesis
  proof (cases "\<exists>t. join_view N item w = Inr t \<and> jt_may_have_reached t")
    case True
    with sp have "speaks {[], [Verified]} m" by simp
    from speaks_run [OF this m] obtain p where "wd_log w' = wd_log w @ p" "\<exists>l\<in>{[], [Verified]}. prefix p l"
      unfolding log by metis
    with True show ?thesis unfolding join_view_def by (intro exI [of _ p]) (auto simp: prefix_Cons)
  next
    case False
    with sp have "speaks {join_word} m" by simp
    from speaks_run [OF this m] obtain p where "wd_log w' = wd_log w @ p" "prefix p join_word" "r = Inr () \<longrightarrow> p = join_word"
      unfolding log by (metis singletonD)
    with False show ?thesis unfolding join_view_def join_word_def by (intro exI [of _ p]) auto
  qed
qed

section \<open>Removals\<close>

text \<open>The member whose removal is announced is the resolved one, and only a fresh attempt may announce.\<close>

definition removal_due :: "'z env \<Rightarrow> task_item \<Rightarrow> removal_target \<Rightarrow> read_result \<Rightarrow> string \<Rightarrow> bool" where
  "removal_due N item t r live \<longleftrightarrow>
     \<not> rm_may_have_reached t \<and> it_type item \<noteq> RemoveReconcile \<and> rm_remove_attempts t < 3
     \<and> resolve_removal_target (en_unicode N) t (rr_members r) = (live, True, [])"

lemma settle_delete_words: "speaks {[Snapshot]} (settle_delete N item t ea)"
  unfolding settle_delete_def by (intro speaks_rules says_confirm_removal) simp_all

lemma delete_member_words:
  "speaks {[Announced ''remove_member'', Removed live, Snapshot]} (delete_member N item t live)"
  unfolding delete_member_def by (intro speaks_rules settle_delete_words)

lemma decide_removal_words:
  "speaks ({[]} \<union> {[Announced ''remove_member'', Removed live, Snapshot] | live. removal_due N item t r live})
     (decide_removal N item t r)" (is "speaks ?L _")
proof -
  obtain live present fault where
    res: "resolve_removal_target (en_unicode N) t (rr_members r) = (live, present, fault)" by (metis prod.exhaust)
  have "speaks ?L (delete_member N item t live)"
    if "fault = []" "present" "\<not> read_only_removal item t" "\<not> maximum_removal_side_effects \<le> rm_remove_attempts t"
    using that res
    by (intro speaks_grow [OF delete_member_words])
      (auto simp: removal_due_def read_only_removal_def maximum_removal_side_effects_def)
  then show ?thesis
    unfolding decide_removal_def res prod.case Let_def
    by (intro speaks_if speaks_outside speaks_errors speaks_grow [OF says_confirm_removal]) simp_all
qed

definition removal_view :: "'z env \<Rightarrow> task_item \<Rightarrow> 'z world \<Rightarrow> (store_error, removal_target) result" where
  "removal_view N item w =
     read_removal_target (en_flt N (wd_step w)) (en_identifiers N) (en_owners N) (it_id item)
       (en_other N (wd_step w) (wd_db w))"

definition first_snapshot :: "'z env \<Rightarrow> removal_target \<Rightarrow> nat \<Rightarrow> (request_error, read_result) result" where
  "first_snapshot N t k =
     snapshot_members (en_decoders N) (removal_login t) (en_net N k) (en_clock N k) (rm_platform_workspace t)"

lemma snapshot_removal_run:
  assumes "snapshot_removal N item t w = (r, w')"
  obtains p where "wd_log w' = wd_log w @ p"
    and "prefix p [Snapshot] \<or> (\<exists>res live. first_snapshot N t (wd_step w) = Inr res \<and> removal_due N item t res live
           \<and> prefix p [Snapshot, Announced ''remove_member'', Removed live, Snapshot])"
    and "r = Inr () \<longrightarrow> p \<noteq> [] \<and> last p = Snapshot"
proof (cases "en_remover N = None \<or> en_facts N = None \<or> \<not> accepts (en_remover N) (removal_login t)")
  case True
  let ?m = "conclude_removal_blocked N item t None ''platform_configuration_invalid'' ''prepare''"
  have "?m w = (r, w')" using assms True unfolding snapshot_removal_def by (simp only: if_True)
  moreover have "speaks {[Snapshot]} ?m" by (rule speaks_errors) simp
  ultimately obtain p where "wd_log w' = wd_log w @ p" "prefix p [Snapshot]" "r = Inr () \<longrightarrow> p = [Snapshot]"
    using speaks_run [of "{[Snapshot]}" ?m w r w'] by (metis singletonD)
  then show thesis by (intro that [of p]) auto
next
  case False
  let ?w = "w\<lparr>wd_step := Suc (wd_step w), wd_log := wd_log w @ [Snapshot]\<rparr>"
  let ?e = "if read_only_removal item t
       then conclude_removal_unknown N item t ''membership_snapshot_incomplete'' ''before_delete_snapshot''
       else conclude_removal_retry N item t None ''membership_snapshot_incomplete'' ''before_delete_snapshot''"
  have run: "(case first_snapshot N t (wd_step w) of Inl _ \<Rightarrow> ?e | Inr res \<Rightarrow> decide_removal N item t res) ?w = (r, w')"
    using assms False
    unfolding snapshot_removal_def member_snapshot_def bind_send first_snapshot_def by simp
  show thesis
  proof (cases "first_snapshot N t (wd_step w)")
    case (Inl e)
    have "speaks {[]} ?e" by (intro speaks_if speaks_errors) simp_all
    moreover have "fails ?e"
      unfolding conclude_removal_unknown_def conclude_removal_retry_def by (simp add: fails_conclude_removal)
    ultimately have "wd_log w' = wd_log w @ [Snapshot]" "r \<noteq> Inr ()"
      using run silent_log [of ?e ?w r w'] unfolding Inl sum.case fails_def by auto
    then show thesis by (intro that [of "[Snapshot]"]) simp_all
  next
    case (Inr res)
    from run have "decide_removal N item t res ?w = (r, w')" unfolding Inr sum.case .
    then obtain p where
      p: "wd_log w' = wd_log ?w @ p" and
      l: "\<exists>l\<in>{[]} \<union> {[Announced ''remove_member'', Removed live, Snapshot] | live. removal_due N item t res live}. prefix p l"
      and ok: "\<forall>x. r = Inr x \<longrightarrow> p \<in> {[]} \<union> {[Announced ''remove_member'', Removed live, Snapshot] | live. removal_due N item t res live}"
      by (rule speaks_run [OF decide_removal_words])
    show thesis
    proof (rule that [of "Snapshot # p"])
      show "wd_log w' = wd_log w @ Snapshot # p" using p by simp
      show "prefix (Snapshot # p) [Snapshot] \<or> (\<exists>res live. first_snapshot N t (wd_step w) = Inr res \<and> removal_due N item t res live
           \<and> prefix (Snapshot # p) [Snapshot, Announced ''remove_member'', Removed live, Snapshot])"
        using l Inr by auto
      show "r = Inr () \<longrightarrow> Snapshot # p \<noteq> [] \<and> last (Snapshot # p) = Snapshot"
        using ok by auto
    qed
  qed
qed

text \<open>
  C3: what a worker sends for a claimed removal, over every answer of the platform, the exit
  measurement, the driver and the other processes: at most one snapshot, or the snapshot, the
  committed announcement, one DELETE and a second snapshot, in this order.  The DELETE is only
  ever sent by a first attempt (no earlier DELETE in doubt, not a reconciliation, fewer than
  three announced so far), and it names the member that the first snapshot resolved the
  frozen target to; the attempt succeeds only right after a snapshot.
\<close>

theorem removal_attempt_protocol:
  assumes "run_removal N item w = (r, w')"
  shows "\<exists>p. wd_log w' = wd_log w @ p
    \<and> (prefix p [Snapshot] \<or>
       (\<exists>t res live.
          read_removal_target (en_flt N (wd_step w)) (en_identifiers N) (en_owners N) (it_id item)
            (en_other N (wd_step w) (wd_db w)) = Inr t
          \<and> \<not> rm_may_have_reached t \<and> it_type item \<noteq> RemoveReconcile \<and> rm_remove_attempts t < 3
          \<and> snapshot_members (en_decoders N) (removal_login t) (en_net N (Suc (wd_step w)))
              (en_clock N (Suc (wd_step w))) (rm_platform_workspace t) = Inr res
          \<and> resolve_removal_target (en_unicode N) t (rr_members res) = (live, True, [])
          \<and> prefix p [Snapshot, Announced ''remove_member'', Removed live, Snapshot]))
    \<and> (r = Inr () \<longrightarrow> p \<noteq> [] \<and> last p = Snapshot)"
proof -
  let ?w = "w\<lparr>wd_db := en_other N (wd_step w) (wd_db w), wd_step := Suc (wd_step w)\<rparr>"
  have run: "(case removal_view N item w of Inl e \<Rightarrow> (Inl (StoreError e), ?w) | Inr t \<Rightarrow> snapshot_removal N item t ?w) = (r, w')"
    using assms unfolding run_removal_def bind_store_read removal_view_def Let_def .
  show ?thesis
  proof (cases "removal_view N item w")
    case (Inl e)
    with run show ?thesis by (intro exI [of _ "[]"]) auto
  next
    case (Inr t)
    from run have "snapshot_removal N item t ?w = (r, w')" unfolding Inr sum.case .
    from snapshot_removal_run [OF this] obtain p where
      p: "wd_log w' = wd_log ?w @ p" and
      l: "prefix p [Snapshot] \<or> (\<exists>res live. first_snapshot N t (Suc (wd_step w)) = Inr res \<and> removal_due N item t res live
           \<and> prefix p [Snapshot, Announced ''remove_member'', Removed live, Snapshot])" and
      ok: "r = Inr () \<longrightarrow> p \<noteq> [] \<and> last p = Snapshot" by auto
    from l Inr show ?thesis
      using p ok unfolding first_snapshot_def removal_due_def removal_view_def by (intro exI [of _ p]) auto
  qed
qed

section \<open>The member a DELETE names\<close>

lemma find_distinct:
  assumes "distinct (map f xs)" and "x \<in> set xs"
  shows "find (\<lambda>y. f y = f x) xs = Some x"
proof -
  have "find (\<lambda>y. f y = f x) xs \<noteq> None" using assms(2) by (auto simp: find_None_iff)
  then obtain y where y: "find (\<lambda>y. f y = f x) xs = Some y" by blast
  then have "y \<in> set xs" "f y = f x" by (auto simp: find_Some_iff in_set_conv_nth)
  with assms have "y = x" by (metis distinct_map inj_onD)
  with y show ?thesis by simp
qed

lemma read_removal_target_manifest:
  assumes read: "read_removal_target flt identifiers owners i db = Inr t"
    and keys: "distinct (map mb_id (memberships db))"
  shows "\<exists>e\<in>set (rm_manifest t). me_identifier e = rm_identifier t"
proof -
  obtain task r o' where rows: "operation_rows db task = Some (r, o')"
    and "\<exists>m. find (\<lambda>m. Some (mb_id m) = tk_membership task \<and> ot_membership r = Some (mb_id m) \<and> mb_batch m = op_batch o')
           (memberships db) = Some m \<and> identifiers (mb_target m) = Some (rm_identifier t)"
    and man: "rm_manifest t = manifest identifiers (op_id o') db"
    using read unfolding read_removal_target_def
    by (auto split: if_splits option.splits prod.splits)
  then obtain m where m: "m \<in> set (memberships db)" "ot_membership r = Some (mb_id m)"
    "identifiers (mb_target m) = Some (rm_identifier t)"
    by (auto simp: find_Some_iff in_set_conv_nth)
  have r: "r \<in> set (sort_key ot_ordinal (targets_of (op_id o') db))"
    using rows by (auto simp: operation_rows_def targets_of_def find_Some_iff in_set_conv_nth split: option.splits)
  have "find (\<lambda>x. Some (mb_id x) = ot_membership r) (memberships db) = Some m"
    using find_distinct [OF keys m(1)] m(2) by simp
  then have "\<lparr>me_membership = mb_id m, me_identifier = rm_identifier t, me_ordinal = ot_ordinal r\<rparr> \<in> set (rm_manifest t)"
    using r m(3) unfolding man manifest_def by (auto intro!: bexI [of _ r])
  then show ?thesis by (intro bexI) auto
qed

lemma manifest_fault_entry:
  assumes "manifest_fault U ms es = []" and "e \<in> set es"
  shows "length (members_named U ms (me_identifier e)) \<le> 1
    \<and> (\<forall>m\<in>set (members_named U ms (me_identifier e)). \<not> removal_owner_role U (pm_role m))"
  using assms
proof (induction U ms es rule: manifest_fault.induct)
  case (2 U ms en ens)
  let ?f = "members_named U ms (me_identifier en)"
  have le: "length ?f \<le> 1" and own: "\<not> (length ?f = 1 \<and> removal_owner_role U (pm_role (?f ! 0)))"
    and rest: "manifest_fault U ms ens = []"
    using 2(2) by (auto simp: Let_def split: if_splits)
  have "\<forall>m\<in>set ?f. \<not> removal_owner_role U (pm_role m)"
    using le own by (cases ?f) auto
  with le 2(1) [OF refl _ _ rest] 2(3) own show ?case by (auto simp: not_less)
qed simp

text \<open>
  A DELETE never names an owner or an ambiguous identity.  When the worker resolves the
  frozen target of a stored removal in a member list, the list has exactly one live member of
  that identity, the resolved id is this member's, the member has no owner role, and the
  list also has the owner the requests are sent as, as a different member.  The hypothesis on
  the rows is the primary key of the memberships.
\<close>

theorem resolved_member_is_safe:
  assumes "read_removal_target flt identifiers owners i db = Inr t"
    and "distinct (map mb_id (memberships db))"
    and "resolve_removal_target U t ms = (live, True, [])"
  shows "\<exists>m own. members_named U ms (rm_identifier t) = [m] \<and> pm_id m = live
    \<and> \<not> removal_owner_role U (pm_role m)
    \<and> own \<in> set (members_named U ms (rm_owner_identifier t)) \<and> removal_owner_role U (pm_role own) \<and> own \<noteq> m"
proof -
  from read_removal_target_manifest [OF assms(1,2)] obtain e where
    e: "e \<in> set (rm_manifest t)" "me_identifier e = rm_identifier t" by blast
  have fault: "manifest_fault U ms (rm_manifest t) = []"
    and own: "list_ex (\<lambda>m. removal_owner_role U (pm_role m)) (members_named U ms (rm_owner_identifier t))"
    and live: "\<exists>m rest. members_named U ms (rm_identifier t) = m # rest \<and> pm_id m = live"
    using assms(3) unfolding resolve_removal_target_def
    by (auto simp: Let_def split: if_splits list.splits)
  from manifest_fault_entry [OF fault e(1)] live obtain m where
    m: "members_named U ms (rm_identifier t) = [m]" "pm_id m = live" "\<not> removal_owner_role U (pm_role m)"
    unfolding e(2) by auto
  from own obtain o' where "o' \<in> set (members_named U ms (rm_owner_identifier t))" "removal_owner_role U (pm_role o')"
    by (auto simp: list_ex_iff)
  with m show ?thesis by (intro exI [of _ m] exI [of _ o']) auto
qed

section \<open>Sample runs\<close>

definition sample_membership :: membership_row where
  "sample_membership = \<lparr>mb_id = ''m1'', mb_batch = ''b1'', mb_target = ''a1'', mb_join_target = ''j1'',
     mb_member_id = None, mb_state = ''active'', mb_joined_at = 0, mb_removed_at = None, mb_service_ended = None,
     mb_retention_due = None, mb_updated_at = 0, mb_version = 1\<rparr>"

definition worker_db :: store_db where
  "worker_db = (sample_removal 1 0)\<lparr>memberships := [sample_membership]\<rparr>"

definition worker_wire :: wire_response where
  "worker_wire = sample_wire\<lparr>wi_member_count := Some 2,
     wi_members := [sample_member ''m'' ''o'' ''owner'', sample_member ''n'' ''u'' ''u'']\<rparr>"

text \<open>
  Every process restores the same rows before each call, the platform lists the owner and the
  target, and the exit is no longer the measured one after the DELETE (step 6).
\<close>

definition worker_env :: "unit env" where
  "worker_env = \<lparr>en_unicode = \<lparr>u_lower = id, u_upper = id, u_fold = (=)\<rparr>, en_hash = id,
     en_decoders = sample_decoders\<lparr>dc_wire := \<lambda>_. Some worker_wire\<rparr>, en_now = (\<lambda>_. 50), en_clock = (\<lambda>_. 50),
     en_flt = (\<lambda>_ _. False), en_gid = (\<lambda>_ _. ''g''), en_locked = (\<lambda>_ _. False), en_token = (\<lambda>_. 9),
     en_other = (\<lambda>_ _. worker_db), en_net = (\<lambda>_ _. Replied 200 (Some ''{}'')), en_config_error = (\<lambda>_. None),
     en_same_exit = (\<lambda>k. k < 6), en_accounts = (\<lambda>_. Some (''u'', ''p'')), en_workspaces = (\<lambda>_. Some ''w''),
     en_probe_login = (\<lambda>_. None), en_read_login = (\<lambda>_. None), en_identifiers = (\<lambda>_. Some ''u''),
     en_owners = (\<lambda>_. Some (''w'', ''o'', ''p'')), en_prober = Some (\<lambda>_. True), en_joiner = Some (\<lambda>_. True),
     en_remover = Some (\<lambda>_. True), en_reader = None, en_facts = Some (\<lambda>_ _. tx_return ()), en_id = ''w'',
     en_lease_time = 0\<rparr>"

definition worker_world :: "unit world" where
  "worker_world = \<lparr>wd_db = worker_db, wd_step = 0, wd_log = []\<rparr>"

definition worker_target :: removal_target where
  "worker_target = \<lparr>rm_operation = ''o1'', rm_batch = ''b1'', rm_workspace = ''w1'', rm_membership = ''m1'',
     rm_target = ''a1'', rm_identifier = ''u'', rm_platform_workspace = ''w'', rm_owner_identifier = ''o'',
     rm_owner_password = ''p'', rm_ordinal = 1, rm_may_have_reached = False, rm_remove_attempts = 0,
     rm_manifest = [\<lparr>me_membership = ''m1'', me_identifier = ''u'', me_ordinal = 1\<rparr>]\<rparr>"

lemma worker_target_read:
  "read_removal_target flt (\<lambda>_. Some ''u'') (\<lambda>_. Some (''w'', ''o'', ''p'')) ''t1'' worker_db
     = (if flt 0 \<or> flt 1 then Inl ErrDriver else Inr worker_target)"
  by (simp add: read_removal_target_def worker_db_def worker_target_def sample_membership_def operation_rows_def
      manifest_def targets_of_def removal_sample_defs)

lemma simple_identity [simp]: "simple_word s \<Longrightarrow> member_identity U s = s"
  by (simp add: member_identity_def simple_word_normal)

lemma worker_resolves:
  "resolve_removal_target U worker_target (wi_members worker_wire) = (''n'', True, [])"
proof -
  have "simple_word ''o''" "simple_word ''u''" "simple_word ''owner''"
    by (simp_all add: simple_word_def word_chars_def)
  then show ?thesis
    by (simp add: resolve_removal_target_def members_named_def live_members_def worker_wire_def sample_wire_def
        sample_member_def worker_target_def removal_owner_role_def simple_word_normal)
qed

theorem resolved_member_is_safe_witness:
  "members_named (en_unicode worker_env) (wi_members worker_wire) ''u'' = [sample_member ''n'' ''u'' ''u'']"
proof -
  have "read_removal_target (\<lambda>_. False) (\<lambda>_. Some ''u'') (\<lambda>_. Some (''w'', ''o'', ''p'')) ''t1'' worker_db = Inr worker_target"
    by (simp add: worker_target_read)
  moreover have "distinct (map mb_id (memberships worker_db))"
    by (simp add: worker_db_def)
  ultimately obtain m where m: "members_named (en_unicode worker_env) (wi_members worker_wire) (rm_identifier worker_target) = [m]"
    and i: "pm_id m = ''n''"
    using resolved_member_is_safe [OF _ _ worker_resolves] by blast
  then have "m \<in> set (members_named (en_unicode worker_env) (wi_members worker_wire) (rm_identifier worker_target))" by simp
  then have "m \<in> set (wi_members worker_wire)" by (simp add: members_named_def live_members_def)
  with i have "m = sample_member ''n'' ''u'' ''u''" by (auto simp: worker_wire_def sample_member_def)
  with m show ?thesis by (simp add: worker_target_def)
qed

lemma worker_snapshot:
  "snapshot_members (sample_decoders\<lparr>dc_wire := \<lambda>_. Some worker_wire\<rparr>) c (\<lambda>_. Replied 200 (Some ''{}'')) clock ws
     = Inr (decoded_result EndpointMembers clock 200 worker_wire)"
  "rr_members (decoded_result EndpointMembers clock 200 worker_wire) = wi_members worker_wire"
proof -
  have ok: "member_ok (sample_member ''m'' ''o'' ''owner'')" "member_ok (sample_member ''n'' ''u'' ''u'')"
    using rune_count_le_length [of "''active''"] rune_count_le_length [of "''owner''"]
    by (simp_all add: member_ok_def sample_member_def rune_count.simps [of "''active''"])
  show "snapshot_members (sample_decoders\<lparr>dc_wire := \<lambda>_. Some worker_wire\<rparr>) c (\<lambda>_. Replied 200 (Some ''{}'')) clock ws
     = Inr (decoded_result EndpointMembers clock 200 worker_wire)"
    using ok
    by (simp add: snapshot_members_def read_members_def read_workspace_def read_body_def max_response_body_def
        sample_decoders_def worker_wire_def sample_wire_def decoded_result_def valid_members_def live_members_def
        success_status_def missing_datum_def Let_def sample_member_def)
  show "rr_members (decoded_result EndpointMembers clock 200 worker_wire) = wi_members worker_wire"
    using ok by (simp add: decoded_result_def valid_members_def worker_wire_def sample_wire_def Let_def)
qed

text \<open>Single steps of a run.\<close>

lemma bind_same_exit:
  "p_bind (same_exit N) f w = f (en_same_exit N (wd_step w)) (w\<lparr>wd_step := Suc (wd_step w)\<rparr>)"
  by (simp add: p_bind_def p_try_def same_exit_def)

lemma bind_store_ok:
  assumes "g (wd_step w) (en_other N (wd_step w) (wd_db w)) = (Inr x, db')"
  shows "p_bind (store_call N g) f w = f x (w\<lparr>wd_db := db', wd_step := Suc (wd_step w)\<rparr>)"
  using assms by (simp add: p_bind_def p_try_def store_call_def Let_def)

lemma bind_announce_ok:
  assumes "g (wd_step w) (en_other N (wd_step w) (wd_db w)) = (Inr (), db')"
  shows "p_bind (announce N s g) f w
    = f () (w\<lparr>wd_db := db', wd_step := Suc (wd_step w), wd_log := wd_log w @ [Announced s]\<rparr>)"
  using assms by (simp add: announce_def p_bind_def p_try_def store_call_def Let_def)

lemma bind_store_error:
  assumes "g (wd_step w) (en_other N (wd_step w) (wd_db w)) = (Inl e, db')"
  shows "p_bind (store_call N g) f w = (Inl (StoreError e), w\<lparr>wd_db := db', wd_step := Suc (wd_step w)\<rparr>)"
  using assms by (simp add: p_bind_def p_try_def store_call_def p_fail_def Let_def)

lemma worker_renews:
  "\<exists>db'. renew (\<lambda>_. False) 50 (it_id (sample_removal_item 1)) (it_token (sample_removal_item 1)) d worker_db = (Inr (), db')"
  by (simp add: renew_def run_tx_def stmt_def update_one_def exactly_one_def affected_def fenced_def worker_db_def
      removal_sample_defs)

lemma worker_announces:
  "\<exists>db'. mark_removal_side_effect_started id (\<lambda>_. False) (\<lambda>_. ''g'') 50 (sample_removal_item 1) ''n'' worker_db = (Inr (), db')"
proof -
  obtain p where p: "validate (started_event (sample_removal_item 1) (sample_removal_row 0)) = Inr p"
    using sample_started by blast
  have "find_task (removal_fenced (sample_removal_item 1) 50) worker_db = Some (sample_removal_task 1)"
    and "removable (it_op_target (sample_removal_item 1)) worker_db = Some (sample_removal_row 0)"
    by (simp_all add: find_task_def removal_fenced_def fenced_def removable_def worker_db_def removal_sample_defs)
  from mark_removal_succeeds [OF _ this _ _ _ p, where member = "''n''" and H = id and gid = "\<lambda>_. ''g''"]
  show ?thesis
    by (force simp: maximum_removal_side_effects_def affected_def lease_free_def worker_db_def removal_sample_defs)
qed

lemma worker_run:
  "\<exists>r w'. run_removal worker_env (sample_removal_item 1) worker_world = (r, w')
     \<and> wd_log w' = [Snapshot, Announced ''remove_member'', Removed ''n'']"
proof -
  let ?N = worker_env and ?i = "sample_removal_item 1"
  obtain db1 where renew: "renew (\<lambda>_. False) 50 (it_id ?i) (it_token ?i) (lease_duration ?N) worker_db = (Inr (), db1)"
    using worker_renews by blast
  obtain db2 where mark: "mark_removal_side_effect_started id (\<lambda>_. False) (\<lambda>_. ''g'') 50 ?i ''n'' worker_db = (Inr (), db2)"
    using worker_announces by blast
  let ?w0 = "\<lparr>wd_db = worker_db, wd_step = Suc (Suc (Suc 0)), wd_log = [Snapshot]\<rparr>"
  let ?w1 = "\<lparr>wd_db = db2, wd_step = Suc (Suc (Suc (Suc (Suc (Suc (Suc 0)))))),
     wd_log = [Snapshot, Announced ''remove_member'', Removed ''n'']\<rparr>"
  have fresh: "\<not> read_only_removal ?i worker_target" "\<not> maximum_removal_side_effects \<le> rm_remove_attempts worker_target"
    by (simp_all add: read_only_removal_def worker_target_def maximum_removal_side_effects_def removal_sample_defs)
  have "run_removal ?N ?i worker_world = delete_member ?N ?i worker_target ''n'' ?w0"
    using fresh worker_resolves [of "en_unicode ?N"]
    by (simp add: run_removal_def bind_store_read worker_world_def worker_env_def worker_target_read snapshot_removal_def
        accepts_def member_snapshot_def bind_send worker_snapshot decide_removal_def bind_same_exit Let_def
        removal_sample_defs)
  moreover have "delete_member ?N ?i worker_target ''n'' ?w0
     = conclude_removal_unknown ?N ?i worker_target ''proxy_egress_drift'' ''after_delete_remeasure'' ?w1"
    unfolding delete_member_def renew_lease_def
    by (subst bind_store_ok [where db' = db1 and x = "()"], simp add: worker_env_def renew [unfolded worker_env_def],
        subst bind_announce_ok [where db' = db2], simp add: worker_env_def mark,
        simp add: bind_send settle_delete_def bind_same_exit worker_env_def)
  ultimately have eq: "run_removal ?N ?i worker_world
     = conclude_removal_unknown ?N ?i worker_target ''proxy_egress_drift'' ''after_delete_remeasure'' ?w1" by simp
  obtain r w' where run: "conclude_removal_unknown ?N ?i worker_target ''proxy_egress_drift'' ''after_delete_remeasure'' ?w1
     = (r, w')"
    by fastforce
  have "speaks {[]} (conclude_removal_unknown ?N ?i worker_target ''proxy_egress_drift'' ''after_delete_remeasure'')"
    unfolding conclude_removal_unknown_def by (rule says_conclude_removal)
  from silent_log [OF this run] eq run show ?thesis by simp
qed

theorem removal_attempt_protocol_witness:
  "\<exists>r w'. run_removal worker_env (sample_removal_item 1) worker_world = (r, w')
     \<and> Removed ''n'' \<in> set (wd_log w') \<and> r \<noteq> Inr ()"
proof -
  obtain r w' where run: "run_removal worker_env (sample_removal_item 1) worker_world = (r, w')"
    and log: "wd_log w' = [Snapshot, Announced ''remove_member'', Removed ''n'']"
    using worker_run by blast
  from removal_attempt_protocol [OF run] log have "r \<noteq> Inr ()" by (auto simp: worker_world_def)
  with run log show ?thesis by auto
qed

text \<open>A join whose preflight is answered and whose database then fails.\<close>

definition join_env :: "unit env" where
  "join_env = worker_env\<lparr>en_other := \<lambda>_ _. sample_join, en_flt := \<lambda>k _. k \<noteq> 0\<rparr>"

lemma sample_join_read:
  "\<exists>t. read_join_target (\<lambda>_. False) (\<lambda>_. Some (''u'', ''p'')) (\<lambda>_. Some ''w'') ''t1'' sample_join = Inr t
     \<and> \<not> jt_may_have_reached t"
  by (simp add: read_join_target_def operation_rows_def join_sample_defs)

lemma join_env_run:
  "\<exists>r w'. run_join join_env (returned_item sample_join_task) worker_world = (r, w') \<and> wd_log w' = [Probed]"
proof -
  let ?i = "returned_item sample_join_task"
  obtain t where t: "read_join_target (\<lambda>_. False) (\<lambda>_. Some (''u'', ''p'')) (\<lambda>_. Some ''w'') ''t1'' sample_join = Inr t"
    and fresh: "\<not> jt_may_have_reached t"
    using sample_join_read by blast
  have view: "join_view join_env ?i worker_world = Inr t"
    using t by (simp add: join_view_def join_env_def worker_env_def worker_world_def join_sample_defs)
  let ?w = "\<lparr>wd_db = sample_join, wd_step = 1, wd_log = []\<rparr> :: unit world"
  have "join_target_of join_env ?i worker_world = (Inr t, ?w)"
    unfolding join_target_of_view view by (simp add: join_env_def worker_world_def)
  moreover have "en_joiner join_env \<noteq> None" "en_prober join_env \<noteq> None"
    by (simp_all add: join_env_def worker_env_def)
  ultimately have "run_join join_env ?i worker_world = fresh_join join_env ?i t ?w"
    using fresh unfolding run_join_def p_try_def by (simp del: not_None_eq)
  moreover have "fresh_join join_env ?i t ?w
     = (Inl (StoreError ErrDriver), \<lparr>wd_db = sample_join, wd_step = Suc (Suc 1), wd_log = [Probed]\<rparr>)"
  proof -
    have "record_join_preflight U H (\<lambda>_. True) g n ?i pre db = (Inl ErrDriver, db)" for U H g n pre and db :: store_db
      by (simp add: record_join_preflight_def in_tx_def stmt_def run_tx_def Let_def)
    then have "p_bind (store_call join_env (\<lambda>k. record_join_preflight (en_unicode join_env) (en_hash join_env)
          (en_flt join_env k) (en_gid join_env k) (en_now join_env k) ?i pre)) f
        \<lparr>wd_db = sample_join, wd_step = Suc 1, wd_log = [Probed]\<rparr>
      = (Inl (StoreError ErrDriver), \<lparr>wd_db = sample_join, wd_step = Suc (Suc 1), wd_log = [Probed]\<rparr>)"
      for pre and f :: "unit \<Rightarrow> (unit, unit) prog"
      by (subst bind_store_error [where e = ErrDriver and db' = sample_join]) (simp_all add: join_env_def)
    moreover have "accepts (en_prober join_env) (join_login t)"
      by (simp add: accepts_def join_env_def worker_env_def)
    ultimately show ?thesis
      unfolding fresh_join_def bind_send by simp
  qed
  ultimately show ?thesis by simp
qed

theorem join_attempt_protocol_witness:
  "\<exists>r w'. run_join join_env (returned_item sample_join_task) worker_world = (r, w')
     \<and> wd_log w' = [Probed] \<and> r \<noteq> Inr ()"
proof -
  obtain r w' where run: "run_join join_env (returned_item sample_join_task) worker_world = (r, w')"
    and log: "wd_log w' = [Probed]"
    using join_env_run by blast
  from join_attempt_protocol [OF run] log have "r \<noteq> Inr ()"
    by (auto simp: worker_world_def split: if_splits)
  with run log show ?thesis by blast
qed

end
