(* ===== verification/Encodings.thy ===== *)
theory Encodings
  imports Prelude
begin

text \<open>
  The encodings of package encoding the program stores and compares secrets in:
  base64.RawURLEncoding and big-endian integers.  Decoding is Go's: line ends are skipped anywhere and the bits that are left over in the last
  character are not looked at.
\<close>

section \<open>Bytes\<close>

definition byte :: "nat \<Rightarrow> char" where
  "byte n = char_of n"

lemma byte_code [simp]: "byte (char_code c) = c"
  by (simp add: byte_def char_code_def)

lemma code_byte [simp]: "n < 256 \<Longrightarrow> char_code (byte n) = n"
  by (simp add: byte_def char_code_of)

definition big_endian16 :: "nat \<Rightarrow> string" where
  "big_endian16 n = [byte (n div 256 mod 256), byte (n mod 256)]"

definition from_big_endian16 :: "string \<Rightarrow> nat" where
  "from_big_endian16 s = (case s of [a, b] \<Rightarrow> 256 * char_code a + char_code b | _ \<Rightarrow> 0)"

lemma big_endian16_back: "n < 65536 \<Longrightarrow> from_big_endian16 (big_endian16 n) = n"
  by (simp add: from_big_endian16_def big_endian16_def)

lemma big_endian16_length [simp]: "length (big_endian16 n) = 2"
  by (simp add: big_endian16_def)

definition line_end :: "char \<Rightarrow> bool" where
  "line_end c \<longleftrightarrow> char_code c = 10 \<or> char_code c = 13"

section \<open>base64.RawURLEncoding\<close>

definition b64_char :: "nat \<Rightarrow> char" where
  "b64_char n =
     (if n < 26 then byte (65 + n) else if n < 52 then byte (71 + n)
      else if n < 62 then byte (n - 4) else if n = 62 then byte 45 else byte 95)"

definition b64_value :: "char \<Rightarrow> nat option" where
  "b64_value c =
     (let n = char_code c in
      if 65 \<le> n \<and> n \<le> 90 then Some (n - 65) else if 97 \<le> n \<and> n \<le> 122 then Some (n - 71)
      else if 48 \<le> n \<and> n \<le> 57 then Some (n + 4) else if n = 45 then Some 62
      else if n = 95 then Some 63 else None)"

lemma b64_value_char [simp]: "n < 64 \<Longrightarrow> b64_value (b64_char n) = Some n"
  by (auto simp: b64_value_def b64_char_def Let_def)

lemma b64_char_not_line_end [simp]: "n < 64 \<Longrightarrow> \<not> line_end (b64_char n)"
  by (auto simp: line_end_def b64_char_def)

fun b64_encode :: "string \<Rightarrow> string" where
  "b64_encode [] = []"
| "b64_encode [a] = [b64_char (char_code a div 4), b64_char (char_code a mod 4 * 16)]"
| "b64_encode [a, b] =
     [b64_char (char_code a div 4), b64_char (char_code a mod 4 * 16 + char_code b div 16),
      b64_char (char_code b mod 16 * 4)]"
| "b64_encode (a # b # c # s) =
     b64_char (char_code a div 4) # b64_char (char_code a mod 4 * 16 + char_code b div 16)
     # b64_char (char_code b mod 16 * 4 + char_code c div 64) # b64_char (char_code c mod 64) # b64_encode s"

text \<open>The digits in groups of four; the last group has none, two or three.\<close>

fun b64_digits :: "nat list \<Rightarrow> string option" where
  "b64_digits [] = Some []"
| "b64_digits [a] = None"
| "b64_digits [a, b] = Some [byte (4 * a + b div 16)]"
| "b64_digits [a, b, c] = Some [byte (4 * a + b div 16), byte (16 * (b mod 16) + c div 4)]"
| "b64_digits (a # b # c # d # ds) =
     map_option (\<lambda>s. byte (4 * a + b div 16) # byte (16 * (b mod 16) + c div 4) # byte (64 * (c mod 4) + d) # s)
       (b64_digits ds)"

fun digit_values :: "(char \<Rightarrow> nat option) \<Rightarrow> string \<Rightarrow> nat list option" where
  "digit_values v [] = Some []"
| "digit_values v (c # s) =
     (if line_end c then digit_values v s
      else (case (v c, digit_values v s) of (Some n, Some ns) \<Rightarrow> Some (n # ns) | _ \<Rightarrow> None))"

definition b64_decode :: "string \<Rightarrow> string option" where
  "b64_decode s = (case digit_values b64_value s of None \<Rightarrow> None | Some ns \<Rightarrow> b64_digits ns)"

lemma code_div_mod [simp]:
  "char_code a div 4 < 64" "char_code a mod 4 * 16 < 64" "char_code b div 16 < 16" "char_code b mod 16 * 4 < 64"
  "char_code a mod 4 * 16 + char_code b div 16 < 64" "char_code b mod 16 * 4 + char_code c div 64 < 64"
  "char_code c mod 64 < 64"
  using char_code_less [of a] char_code_less [of b] char_code_less [of c] by auto

lemma b64_roundtrip_digits:
  "\<exists>ns. digit_values b64_value (b64_encode s) = Some ns \<and> b64_digits ns = Some s"
proof (induction s rule: b64_encode.induct)
  case (4 a b c s)
  then obtain ns where "digit_values b64_value (b64_encode s) = Some ns" "b64_digits ns = Some s" by blast
  moreover have "char_code c div 64 < 4" "char_code b div 16 < 16"
    using char_code_less [of b] char_code_less [of c] by auto
  ultimately show ?case by simp
next
  case (3 a b)
  have "char_code b div 16 < 16" using char_code_less [of b] by auto
  then show ?case by simp
qed simp_all

lemma b64_decode_encode [simp]: "b64_decode (b64_encode s) = Some s"
  using b64_roundtrip_digits [of s] by (auto simp: b64_decode_def)

lemma b64_encode_inj: "b64_encode s = b64_encode t \<Longrightarrow> s = t"
  by (metis b64_decode_encode option.inject)

lemma b64_encode_length: "length (b64_encode s) = (8 * length s + 5) div 6"
  by (induction s rule: b64_encode.induct) simp_all

text \<open>Line ends anywhere in the text change nothing.\<close>

lemma digit_values_line_ends: "digit_values v (filter (\<lambda>c. \<not> line_end c) s) = digit_values v s"
  by (induction s) auto

lemma digit_values_line_end_append: "line_end c \<Longrightarrow> digit_values v (s @ [c]) = digit_values v s"
  by (induction s) auto

lemma b64_decode_line_end: "line_end c \<Longrightarrow> b64_decode (s @ [c]) = b64_decode s"
  by (simp add: b64_decode_def digit_values_line_end_append)

end
