(* ===== verification/Secrets.thy ===== *)
theory Secrets
  imports Encodings StoreDb
begin

text \<open>
  Keys and what they protect: package auth (keyring.go), package target (materials.go), package
  identity (identifier.go), package oauth (card.go, fence.go) and package publicaccess
  (token.go).  AES-GCM (\<open>seal\<close>, \<open>open\<close> of record \<open>aead\<close>), HMAC-SHA-256 (\<open>M\<close> key
  message) and SHA-256 (\<open>H\<close>) are parameters, and so are the random bytes of a call.
\<close>

section \<open>Key rings\<close>

record key_ring =
  kr_current :: nat
  kr_keys :: "nat \<Rightarrow> string option"

definition current_key :: "key_ring \<Rightarrow> nat \<times> string" where
  "current_key r = (kr_current r, case kr_keys r (kr_current r) of None \<Rightarrow> replicate 32 (byte 0) | Some k \<Rightarrow> k)"

definition lookup_key :: "key_ring \<Rightarrow> nat \<Rightarrow> string option" where
  "lookup_key r v = kr_keys r v"

text \<open>
  The cipher: seal key nonce plaintext, and open key nonce ciphertext.  A nonce has 12 bytes
  and a tag 16.
\<close>

record aead =
  ae_seal :: "string \<Rightarrow> string \<Rightarrow> string \<Rightarrow> string"
  ae_open :: "string \<Rightarrow> string \<Rightarrow> string \<Rightarrow> string option"

definition nonce_size :: nat where "nonce_size = 12"

datatype secret_error = KeyUnavailable | CiphertextInvalid | NonceFailed | MaterialInvalid

definition encrypt_secret ::
  "aead \<Rightarrow> string option \<Rightarrow> string \<Rightarrow> key_ring \<Rightarrow> (secret_error, nat \<times> string \<times> string) result" where
  "encrypt_secret C nonce secret r =
    (case nonce of
       None \<Rightarrow> Inl NonceFailed
     | Some n \<Rightarrow> Inr (fst (current_key r), n, ae_seal C (snd (current_key r)) n secret))"

definition decrypt_secret ::
  "aead \<Rightarrow> nat \<Rightarrow> string \<Rightarrow> string \<Rightarrow> key_ring \<Rightarrow> (secret_error, string) result" where
  "decrypt_secret C version nonce ciphertext r =
    (case lookup_key r version of
       None \<Rightarrow> Inl KeyUnavailable
     | Some k \<Rightarrow>
        if length nonce \<noteq> nonce_size then Inl CiphertextInvalid
        else (case ae_open C k nonce ciphertext of None \<Rightarrow> Inl CiphertextInvalid | Some p \<Rightarrow> Inr p))"

section \<open>Sealed account material\<close>

definition material_prefix :: string where
  "material_prefix = ''TSW-SEALED-01'' @ [byte 0]"

definition seal_material ::
  "aead \<Rightarrow> string option \<Rightarrow> string \<Rightarrow> key_ring \<Rightarrow> (secret_error, string) result" where
  "seal_material C nonce v r =
    (if v = [] then Inr []
     else rbind (encrypt_secret C nonce v r) (\<lambda>(version, n, ciphertext).
       Inr (material_prefix @ big_endian16 version @ n @ ciphertext)))"

definition open_material :: "aead \<Rightarrow> string \<Rightarrow> key_ring option \<Rightarrow> (secret_error, string) result" where
  "open_material C v ring =
    (if v = [] then Inr []
     else case ring of
       None \<Rightarrow> Inl MaterialInvalid
     | Some r \<Rightarrow>
        if \<not> has_prefix v material_prefix \<or> length v < length material_prefix + 2 + 12 + 16 then Inl MaterialInvalid
        else
          (let rest = drop (length material_prefix) v in
           decrypt_secret C (from_big_endian16 (take 2 rest)) (take 12 (drop 2 rest)) (drop 14 rest) r))"

definition sealed :: "string \<Rightarrow> bool" where
  "sealed v \<longleftrightarrow> has_prefix v material_prefix"

section \<open>Identifier fingerprints\<close>

datatype identifier_kind = MotherLogin | TargetLogin | WorkspaceEntry | OtherKind string

primrec kind_text :: "identifier_kind \<Rightarrow> string" where
  "kind_text MotherLogin = ''mother-login''"
| "kind_text TargetLogin = ''target-login''"
| "kind_text WorkspaceEntry = ''workspace-entry''"
| "kind_text (OtherKind s) = s"

definition identifier_preimage :: "identifier_kind \<Rightarrow> string \<Rightarrow> string" where
  "identifier_preimage kind normalized =
     ''teamseatwatch:identifier:v1'' @ [byte 0] @ kind_text kind @ [byte 0] @ normalized"

definition fingerprint_identifier ::
  "unicode \<Rightarrow> (string \<Rightarrow> string \<Rightarrow> string) \<Rightarrow> key_ring option \<Rightarrow> identifier_kind \<Rightarrow> string
     \<Rightarrow> (string \<times> nat \<times> string) option" where
  "fingerprint_identifier U M ring kind v =
    (let normalized = to_lower U (trim_space v) in
     case ring of
       None \<Rightarrow> None
     | Some r \<Rightarrow>
        if normalized = [] \<or> kind_text kind \<notin> {''mother-login'', ''target-login'', ''workspace-entry''} then None
        else Some (normalized, fst (current_key r), M (snd (current_key r)) (identifier_preimage kind normalized)))"

section \<open>Cards\<close>

definition card_prefix :: string where "card_prefix = ''TSW1-''"

definition card_valid :: "string \<Rightarrow> bool" where
  "card_valid s \<longleftrightarrow> has_prefix s card_prefix
     \<and> (case b64_decode (trim_prefix s card_prefix) of None \<Rightarrow> False | Some raw \<Rightarrow> length raw = 20)"

definition lookup_hmac_version ::
  "(string \<Rightarrow> string \<Rightarrow> string) \<Rightarrow> key_ring option \<Rightarrow> nat \<Rightarrow> string \<Rightarrow> string option" where
  "lookup_hmac_version M ring version secret =
    (case ring of
       None \<Rightarrow> None
     | Some r \<Rightarrow>
        if \<not> card_valid secret then None
        else map_option (\<lambda>k. M k (''teamseatwatch:card:v1'' @ [byte 0] @ secret)) (lookup_key r version))"

definition lookup_hmac ::
  "(string \<Rightarrow> string \<Rightarrow> string) \<Rightarrow> key_ring option \<Rightarrow> string \<Rightarrow> (nat \<times> string) option" where
  "lookup_hmac M ring secret =
    (case ring of
       None \<Rightarrow> None
     | Some r \<Rightarrow>
        if \<not> card_valid secret then None
        else map_option (Pair (fst (current_key r))) (lookup_hmac_version M ring (fst (current_key r)) secret))"

definition display_suffix :: "string \<Rightarrow> string" where
  "display_suffix secret =
    (let s = trim_space secret in if length s \<le> 8 then s else drop (length s - 8) s)"

section \<open>OAuth fences\<close>

record fence =
  fe_asset :: string
  fe_generation :: int
  fe_attempt :: string
  fe_task :: string
  fe_lease :: uuid

definition fence_valid :: "fence \<Rightarrow> bool" where
  "fence_valid f \<longleftrightarrow> fe_asset f \<noteq> [] \<and> 0 < fe_generation f \<and> fe_attempt f \<noteq> [] \<and> fe_task f \<noteq> [] \<and> fe_lease f \<noteq> uuid_nil"

definition can_publish :: "int \<Rightarrow> string \<Rightarrow> fence \<Rightarrow> uuid \<Rightarrow> bool \<Rightarrow> bool" where
  "can_publish generation attempt f task_lease lease_valid \<longleftrightarrow>
     fence_valid f \<and> lease_valid \<and> fe_lease f = task_lease \<and> generation = fe_generation f \<and> attempt = fe_attempt f"

definition probe_authoritative :: "string \<Rightarrow> int \<Rightarrow> bool" where
  "probe_authoritative status http \<longleftrightarrow>
     (status = ''ok'' \<and> 200 \<le> http \<and> http < 300) \<or> (status = ''auth_error'' \<and> http = 401)
     \<or> (status = ''deactivated_workspace'' \<and> http = 402)"

section \<open>Bearer tokens\<close>

definition new_token :: "(string \<Rightarrow> string) \<Rightarrow> string option \<Rightarrow> (string \<times> string) option" where
  "new_token H raw = map_option (\<lambda>r. (b64_encode r, H r)) raw"

definition hash_token :: "(string \<Rightarrow> string) \<Rightarrow> string \<Rightarrow> string option" where
  "hash_token H v =
    (case b64_decode v of None \<Rightarrow> None | Some raw \<Rightarrow> if length raw \<noteq> 32 then None else Some (H raw))"

definition token_fingerprint :: "(string \<Rightarrow> string) \<Rightarrow> string \<Rightarrow> string" where
  "token_fingerprint H v =
    (case hash_token H v of Some h \<Rightarrow> h | None \<Rightarrow> H (''teamseatwatch:public-token-input:v1'' @ [byte 0] @ v))"

section \<open>Laws\<close>

text \<open>What AES-GCM promises: a nonce of the right size opens what it sealed, and a tag has 16 bytes.\<close>

definition authentic :: "aead \<Rightarrow> bool" where
  "authentic C \<longleftrightarrow>
     (\<forall>k n p. length n = 12 \<longrightarrow> ae_open C k n (ae_seal C k n p) = Some p)
     \<and> (\<forall>k n p. length (ae_seal C k n p) = length p + 16)"

lemma authentic_opens: "authentic C \<Longrightarrow> length n = 12 \<Longrightarrow> ae_open C k n (ae_seal C k n p) = Some p"
  by (simp add: authentic_def)

lemma authentic_length: "authentic C \<Longrightarrow> length (ae_seal C k n p) = length p + 16"
  by (simp add: authentic_def)

lemma material_prefix_nonempty [simp]: "material_prefix \<noteq> []"
  by (simp add: material_prefix_def)

lemma decrypt_secret_Inr:
  "decrypt_secret C version nonce ct r = Inr p \<longleftrightarrow>
     (\<exists>k. kr_keys r version = Some k \<and> length nonce = 12 \<and> ae_open C k nonce ct = Some p)"
  by (auto simp: decrypt_secret_def lookup_key_def nonce_size_def split: option.splits)

text \<open>
  C24: account material is stored sealed and comes back.  With an authenticated cipher, a
  nonce of 12 bytes and a ring that holds its current key under a 16-bit version, sealing any
  text succeeds; opening the result with the same ring yields the text; a sealed text carries
  the prefix; and a stored value without the prefix is never opened.
\<close>

theorem material_round_trip:
  assumes "authentic C" and "length n = 12"
    and "kr_keys r (kr_current r) = Some key" and "kr_current r < 65536"
  shows "\<exists>s. seal_material C (Some n) v r = Inr s \<and> open_material C s (Some r) = Inr v
    \<and> (v \<noteq> [] \<longrightarrow> sealed s) \<and> (\<forall>w p. w \<noteq> [] \<and> \<not> sealed w \<longrightarrow> open_material C w (Some r) \<noteq> Inr p)"
proof (cases "v = []")
  case True
  then show ?thesis by (auto simp: seal_material_def open_material_def sealed_def)
next
  case False
  let ?ct = "ae_seal C key n v"
  let ?s = "material_prefix @ big_endian16 (kr_current r) @ n @ ?ct"
  have seal: "seal_material C (Some n) v r = Inr ?s"
    using False assms(3) by (simp add: seal_material_def encrypt_secret_def current_key_def)
  have "length ?ct = length v + 16" using assms(1) by (rule authentic_length)
  then have "\<not> length ?s < length material_prefix + 2 + 12 + 16" using assms(2) by simp
  then have "open_material C ?s (Some r) = decrypt_secret C (kr_current r) n ?ct r"
    using assms(2) big_endian16_back [OF assms(4)] by (simp add: open_material_def Let_def)
  moreover have "decrypt_secret C (kr_current r) n ?ct r = Inr v"
    using assms(2,3) authentic_opens [OF assms(1,2)] by (simp add: decrypt_secret_Inr)
  ultimately show ?thesis
    using seal by (auto simp: sealed_def open_material_def)
qed

text \<open>A cipher that satisfies the laws: the plaintext with a constant tag.\<close>

definition plain_cipher :: aead where
  "plain_cipher = \<lparr>ae_seal = (\<lambda>k n p. p @ replicate 16 (byte 0)), ae_open = (\<lambda>k n c. Some (take (length c - 16) c))\<rparr>"

lemma plain_authentic: "authentic plain_cipher"
  by (simp add: authentic_def plain_cipher_def)

definition sample_ring :: key_ring where
  "sample_ring = \<lparr>kr_current = 1, kr_keys = (\<lambda>v. if v = 1 then Some (replicate 32 (byte 7)) else None)\<rparr>"

theorem material_round_trip_witness:
  "\<exists>s. seal_material plain_cipher (Some (replicate 12 (byte 0))) ''secret'' sample_ring = Inr s
     \<and> open_material plain_cipher s (Some sample_ring) = Inr ''secret'' \<and> sealed s"
proof -
  have "\<exists>key. kr_keys sample_ring (kr_current sample_ring) = Some key" by (simp add: sample_ring_def)
  then obtain key where "kr_keys sample_ring (kr_current sample_ring) = Some key" by blast
  from material_round_trip [OF plain_authentic _ this, of "replicate 12 (byte 0)" "''secret''"]
  show ?thesis by (auto simp: sample_ring_def)
qed

text \<open>
  A bearer token of the public gateway.  The text handed out for 32 random bytes hashes
  back to exactly the stored value, different random bytes give different texts, and the text
  has 43 characters.  The check is weaker than an exact wire form: the same text with line
  ends appended is accepted as the same token.
\<close>

theorem token_round_trip:
  assumes "length raw = 32"
  shows "\<exists>t. new_token H (Some raw) = Some (t, H raw) \<and> hash_token H t = Some (H raw) \<and> length t = 43
    \<and> (\<forall>raw2 h. new_token H (Some raw2) = Some (t, h) \<longrightarrow> raw2 = raw)
    \<and> hash_token H (t @ ''\<newline>'') = Some (H raw)"
  using assms
  by (auto simp: new_token_def hash_token_def b64_encode_length b64_decode_line_end line_end_def char_code_def
      dest: b64_encode_inj)

theorem token_round_trip_witness:
  "\<exists>t. hash_token id t = Some (replicate 32 (byte 5)) \<and> length t = 43"
  using token_round_trip [of "replicate 32 (byte 5)" id] by auto

end
