(* ===== verification/OwnerAuth.thy ===== *)
theory OwnerAuth
  imports Secrets Egress
begin

text \<open>
  Package internal/auth: sessions, the double-submit check, passwords, one-time codes and the
  failure limit of the Owner.  SHA-256 (\<open>H\<close>), HMAC-SHA-1 (\<open>M1\<close>), Argon2id (\<open>K\<close>),
  url.Parse (\<open>P\<close>), net.SplitHostPort (\<open>S\<close>), base32 decoding (\<open>B32\<close>) and the random
  bytes of a call are parameters.
\<close>

section \<open>Sessions\<close>

definition session_idle_timeout :: duration where "session_idle_timeout = 8 * hour"
definition session_absolute_timeout :: duration where "session_absolute_timeout = 24 * hour"

record cookie =
  ck_name :: string
  ck_value :: string
  ck_path :: string
  ck_http_only :: bool
  ck_secure :: bool
  ck_expires :: "instant option"
  ck_max_age :: int

definition session_cookie :: "string \<Rightarrow> instant \<Rightarrow> bool \<Rightarrow> instant \<Rightarrow> cookie" where
  "session_cookie token expires secure clock =
    (let age = (if expires < clock then 0 else (expires - clock) div second) in
     \<lparr>ck_name = ''tsw_session'', ck_value = token, ck_path = ''/'', ck_http_only = True, ck_secure = secure,
      ck_expires = Some expires, ck_max_age = (if age < 1 then 1 else age)\<rparr>)"

definition cleared_session_cookie :: "bool \<Rightarrow> cookie" where
  "cleared_session_cookie secure =
     \<lparr>ck_name = ''tsw_session'', ck_value = [], ck_path = ''/'', ck_http_only = True, ck_secure = secure,
      ck_expires = None, ck_max_age = -1\<rparr>"

definition new_session_token :: "(string \<Rightarrow> string) \<Rightarrow> string option \<Rightarrow> (string \<times> string) option" where
  "new_session_token H raw = map_option (\<lambda>r. (b64_encode r, H r)) raw"

definition hash_session_token :: "(string \<Rightarrow> string) \<Rightarrow> string \<Rightarrow> string option" where
  "hash_session_token H token =
    (case b64_decode token of None \<Rightarrow> None | Some raw \<Rightarrow> if length raw \<noteq> 32 then None else Some (H raw))"

definition new_recovery_code :: "(string \<Rightarrow> string) \<Rightarrow> string option \<Rightarrow> (string \<times> string) option" where
  "new_recovery_code H raw = map_option (\<lambda>r. (b64_encode r, H (b64_encode r))) raw"

definition hash_recovery_code :: "(string \<Rightarrow> string) \<Rightarrow> string \<Rightarrow> string" where
  "hash_recovery_code H display = H display"

definition source_fingerprint ::
  "(string \<Rightarrow> string) \<Rightarrow> (string \<Rightarrow> (string \<times> string) option) \<Rightarrow> string \<Rightarrow> string \<Rightarrow> string" where
  "source_fingerprint H S remote agent =
    (let host = (case S remote of Some (h, _) \<Rightarrow> h | None \<Rightarrow> remote) in
     H (''teamseatwatch:owner-source:v1'' @ [byte 0] @ host @ [byte 0] @ agent))"

section \<open>Origins and the double-submit token\<close>

text \<open>The part of a request the checks read; a missing header is the empty text.\<close>

record owner_request =
  or_origin :: string
  or_csrf_header :: string
  or_csrf_cookie :: "string option"

definition origin_ok :: "(string \<Rightarrow> url option) \<Rightarrow> string \<Rightarrow> bool" where
  "origin_ok P origin \<longleftrightarrow>
    (case P origin of
       None \<Rightarrow> False
     | Some u \<Rightarrow> (url_scheme u = ''https'' \<or> url_scheme u = ''http'') \<and> url_host u \<noteq> [] \<and> url_user u = None
          \<and> url_path u = [] \<and> url_raw_query u = [] \<and> url_fragment u = [])"

fun add_origins :: "(string \<Rightarrow> url option) \<Rightarrow> string list \<Rightarrow> string list \<Rightarrow> string list option" where
  "add_origins P allowed [] = Some allowed"
| "add_origins P allowed (raw # raws) =
    (let origin = trim_space raw in
     if \<not> origin_ok P origin \<or> origin \<in> set allowed then None
     else add_origins P (allowed @ [origin]) raws)"

definition parse_origin_policy :: "(string \<Rightarrow> url option) \<Rightarrow> string \<Rightarrow> string list option" where
  "parse_origin_policy P v =
    (case add_origins P [] (split v '','') of
       None \<Rightarrow> None
     | Some allowed \<Rightarrow> if allowed = [] then None else Some allowed)"

definition origin_allowed :: "string list \<Rightarrow> owner_request \<Rightarrow> bool" where
  "origin_allowed policy r \<longleftrightarrow> or_origin r \<in> set policy"

definition secure_cookies :: "(string \<Rightarrow> url option) \<Rightarrow> string list \<Rightarrow> bool" where
  "secure_cookies P policy \<longleftrightarrow>
     list_ex (\<lambda>origin. case P origin of None \<Rightarrow> True | Some u \<Rightarrow> url_scheme u \<noteq> ''http'') policy"

definition valid_csrf_token :: "string \<Rightarrow> bool" where
  "valid_csrf_token v \<longleftrightarrow>
     length v = 43 \<and> (case b64_decode v of None \<Rightarrow> False | Some raw \<Rightarrow> length raw = 32)"

definition new_csrf_token :: "string option \<Rightarrow> owner_request \<Rightarrow> bool \<Rightarrow> (string \<times> cookie option) option" where
  "new_csrf_token raw r secure =
    (case (case or_csrf_cookie r of None \<Rightarrow> None | Some c \<Rightarrow> if valid_csrf_token c then Some c else None) of
       Some c \<Rightarrow> Some (c, None)
     | None \<Rightarrow>
        (case raw of
           None \<Rightarrow> None
         | Some bs \<Rightarrow> Some (b64_encode bs,
             Some \<lparr>ck_name = ''tsw_csrf'', ck_value = b64_encode bs, ck_path = ''/api/owner/v1'', ck_http_only = False,
               ck_secure = secure, ck_expires = None, ck_max_age = 0\<rparr>)))"

definition verify_csrf :: "string list \<Rightarrow> owner_request \<Rightarrow> bool" where
  "verify_csrf policy r \<longleftrightarrow>
     origin_allowed policy r
     \<and> (case or_csrf_cookie r of
          None \<Rightarrow> False
        | Some c \<Rightarrow> valid_csrf_token c \<and> valid_csrf_token (or_csrf_header r) \<and> c = or_csrf_header r)"

section \<open>Passwords\<close>

definition password_min_length :: nat where "password_min_length = 14"

definition hash_password :: "(string \<Rightarrow> string \<Rightarrow> string) \<Rightarrow> string option \<Rightarrow> string \<Rightarrow> string option" where
  "hash_password K salt password =
    (if rune_count password < password_min_length then None
     else map_option (\<lambda>s. ''argon2id$v=19$m=65536,t=3,p=4$'' @ b64_encode s @ ''$'' @ b64_encode (K password s)) salt)"

definition verify_password :: "(string \<Rightarrow> string \<Rightarrow> string) \<Rightarrow> string \<Rightarrow> string \<Rightarrow> bool" where
  "verify_password K password encoded =
    (case split encoded ''$'' of
       [alg, v, p, salt64, key64] \<Rightarrow>
         alg = ''argon2id'' \<and> v = ''v=19'' \<and> p = ''m=65536,t=3,p=4''
         \<and> (case (b64_decode salt64, b64_decode key64) of
              (Some salt, Some key) \<Rightarrow> length salt = 16 \<and> length key = 32 \<and> K password salt = key
            | _ \<Rightarrow> False)
     | _ \<Rightarrow> False)"

section \<open>One-time codes\<close>

text \<open>Go's integer division truncates toward zero.\<close>

definition quotient :: "int \<Rightarrow> int \<Rightarrow> int" where
  "quotient a b = (if a < 0 then - (- a div b) else a div b)"

definition counter_at :: "instant \<Rightarrow> int" where
  "counter_at now = quotient (now div second) 30"

fun big_endian :: "nat \<Rightarrow> nat \<Rightarrow> string" where
  "big_endian 0 n = []"
| "big_endian (Suc k) n = byte (n div 256 ^ k mod 256) # big_endian k n"

definition totp_code :: "(string \<Rightarrow> string \<Rightarrow> string) \<Rightarrow> string \<Rightarrow> nat \<Rightarrow> string" where
  "totp_code M1 secret counter =
    (let s = M1 secret (big_endian 8 counter);
         octet = (\<lambda>i. char_code (s ! i));
         i = octet (length s - 1) mod 16;
         v = octet i mod 128 * 2 ^ 24 + octet (i + 1) * 2 ^ 16 + octet (i + 2) * 2 ^ 8 + octet (i + 3) in
     pad 6 (v mod 1000000))"

definition decimal_digit :: "char \<Rightarrow> bool" where
  "decimal_digit c \<longleftrightarrow> 48 \<le> char_code c \<and> char_code c \<le> 57"

definition verify_totp ::
  "unicode \<Rightarrow> (string \<Rightarrow> string option) \<Rightarrow> (string \<Rightarrow> string \<Rightarrow> string) \<Rightarrow> string \<Rightarrow> string \<Rightarrow> instant \<Rightarrow> bool" where
  "verify_totp U B32 M1 secret code now =
    (if length code \<noteq> 6 \<or> \<not> list_all decimal_digit code then False
     else case B32 (to_upper U (trim_space secret)) of
       None \<Rightarrow> False
     | Some key \<Rightarrow>
        if key = [] then False
        else list_ex (\<lambda>off. 0 \<le> counter_at now + off \<and> totp_code M1 key (nat (counter_at now + off)) = code) [-1, 0, 1])"

definition totp_clean :: "unicode \<Rightarrow> string \<Rightarrow> string" where
  "totp_clean U secret =
     rev (dropWhile (\<lambda>c. c = CHR ''='') (rev (to_upper U (filter (\<lambda>c. c \<noteq> CHR '' '') (trim_space secret)))))"

definition totp_at ::
  "unicode \<Rightarrow> (string \<Rightarrow> string option) \<Rightarrow> (string \<Rightarrow> string \<Rightarrow> string) \<Rightarrow> string \<Rightarrow> instant \<Rightarrow> instant \<Rightarrow> string option" where
  "totp_at U B32 M1 secret now clock =
    (case B32 (totp_clean U secret) of
       None \<Rightarrow> None
     | Some key \<Rightarrow>
        if key = [] then None
        else
          (let t = (if is_zero_time now then clock else now) in
           if counter_at t < 0 then None else Some (totp_code M1 key (nat (counter_at t)))))"

section \<open>The failure limit\<close>

record rate_limit =
  rl_failures :: int
  rl_blocked_until :: instant

definition rate_limit_failures :: int where "rate_limit_failures = 5"
definition rate_limit_block :: duration where "rate_limit_block = 15 * minute"

definition rate_limited :: "rate_limit \<Rightarrow> instant \<Rightarrow> bool" where
  "rate_limited s now \<longleftrightarrow> \<not> is_zero_time (rl_blocked_until s) \<and> now < rl_blocked_until s"

definition register_failure :: "rate_limit \<Rightarrow> instant \<Rightarrow> rate_limit" where
  "register_failure s now =
    (if \<not> is_zero_time (rl_blocked_until s) \<and> now < rl_blocked_until s then s
     else
       (let s1 = s\<lparr>rl_failures := rl_failures s + 1\<rparr> in
        if rate_limit_failures \<le> rl_failures s1 then s1\<lparr>rl_blocked_until := now + rate_limit_block\<rparr> else s1))"

section \<open>Laws\<close>

lemma add_origins_step:
  "add_origins P allowed (raw # raws) = Some res \<longleftrightarrow>
     origin_ok P (trim_space raw) \<and> trim_space raw \<notin> set allowed
     \<and> add_origins P (allowed @ [trim_space raw]) raws = Some res"
  by (simp add: Let_def)

declare add_origins.simps(2) [simp del]

lemma add_origins_Some:
  assumes "add_origins P allowed raws = Some res"
  shows "set res = set allowed \<union> trim_space ` set raws \<and> (\<forall>raw\<in>set raws. origin_ok P (trim_space raw))
    \<and> (distinct allowed \<longrightarrow> distinct res)"
  using assms
proof (induction raws arbitrary: allowed)
  case (Cons raw raws)
  then have ok: "origin_ok P (trim_space raw)" "trim_space raw \<notin> set allowed"
    and rest: "add_origins P (allowed @ [trim_space raw]) raws = Some res"
    unfolding add_origins_step by auto
  from Cons.IH [OF rest] ok show ?case by simp
qed simp

lemma valid_csrf_iff: "valid_csrf_token v \<longleftrightarrow> length v = 43 \<and> (\<exists>raw. b64_decode v = Some raw \<and> length raw = 32)"
  by (cases "b64_decode v") (simp_all add: valid_csrf_token_def)

lemma verify_csrf_iff:
  "verify_csrf policy r \<longleftrightarrow> or_origin r \<in> set policy \<and> or_csrf_cookie r = Some (or_csrf_header r)
     \<and> valid_csrf_token (or_csrf_header r)"
  by (cases "or_csrf_cookie r") (auto simp: verify_csrf_def origin_allowed_def)

lemma origin_ok_Some:
  "origin_ok P origin \<Longrightarrow> \<exists>u. P origin = Some u \<and> (url_scheme u = ''https'' \<or> url_scheme u = ''http'')
     \<and> url_host u \<noteq> [] \<and> url_user u = None \<and> url_path u = [] \<and> url_raw_query u = [] \<and> url_fragment u = []"
  by (cases "P origin") (simp_all add: origin_ok_def)

lemma valid_csrf_encoded: "length raw = 32 \<Longrightarrow> valid_csrf_token (b64_encode raw)"
  by (simp add: valid_csrf_token_def b64_encode_length)

text \<open>
  the double-submit check.  A request passes exactly when its Origin is one of the
  configured origins and its header repeats the cookie, both well formed; every configured
  origin is an http or https origin without user, path, query or fragment; and the token the
  program hands out for a browser without a valid cookie passes when the browser returns it.
\<close>

theorem double_submit_check:
  assumes "parse_origin_policy P v = Some policy"
  shows "(verify_csrf policy r \<longleftrightarrow> or_origin r \<in> set policy \<and> or_csrf_cookie r = Some (or_csrf_header r)
            \<and> length (or_csrf_header r) = 43
            \<and> (\<exists>raw. b64_decode (or_csrf_header r) = Some raw \<and> length raw = 32))
    \<and> policy \<noteq> [] \<and> distinct policy
    \<and> (\<forall>origin\<in>set policy. \<exists>u. P origin = Some u \<and> (url_scheme u = ''https'' \<or> url_scheme u = ''http'')
          \<and> url_host u \<noteq> [] \<and> url_user u = None \<and> url_path u = [] \<and> url_raw_query u = [] \<and> url_fragment u = [])
    \<and> (\<forall>raw token ck q. length raw = 32 \<and> new_csrf_token (Some raw) q secure = Some (token, ck)
          \<and> or_origin r \<in> set policy
          \<longrightarrow> verify_csrf policy (r\<lparr>or_csrf_header := token, or_csrf_cookie := Some token\<rparr>))"
proof -
  have add: "add_origins P [] (split v '','') = Some policy" and "policy \<noteq> []"
    using assms by (auto simp: parse_origin_policy_def split: option.splits if_splits)
  from add_origins_Some [OF add] have "distinct policy" and mem: "set policy = trim_space ` set (split v '','')"
    and ok: "\<forall>raw\<in>set (split v '',''). origin_ok P (trim_space raw)" by simp_all
  have "\<forall>origin\<in>set policy. origin_ok P origin" using ok unfolding mem by blast
  moreover have "valid_csrf_token token"
    if "length raw = 32" "new_csrf_token (Some raw) q secure = Some (token, ck)" for raw token ck q
    using that valid_csrf_encoded [of raw] by (auto simp: new_csrf_token_def split: option.splits if_splits)
  ultimately show ?thesis
    using \<open>policy \<noteq> []\<close> \<open>distinct policy\<close> origin_ok_Some [of P]
    unfolding verify_csrf_iff valid_csrf_iff by simp blast
qed

definition sample_origin_parse :: "string \<Rightarrow> url option" where
  "sample_origin_parse s = (if s = ''http://a'' then Some \<lparr>url_scheme = ''http'', url_host = ''a'', url_hostname = ''a'',
     url_port = [], url_path = [], url_raw_query = [], url_fragment = [], url_user = None\<rparr> else None)"

lemma sample_policy: "parse_origin_policy sample_origin_parse ''http://a'' = Some [''http://a'']"
proof -
  have "trim_space ''http://a'' = ''http://a''"
    by (rule trim_space_visible) (simp_all add: visible_def char_code_def)
  moreover have "split ''http://a'' '','' = [''http://a'']"
    by (rule split_absent) simp
  ultimately show ?thesis
    by (simp add: parse_origin_policy_def sample_origin_parse_def origin_ok_def add_origins.simps(2))
qed

theorem double_submit_check_witness:
  "\<not> verify_csrf [''http://a''] \<lparr>or_origin = ''http://b'', or_csrf_header = b64_encode (replicate 32 (byte 1)),
      or_csrf_cookie = Some (b64_encode (replicate 32 (byte 1)))\<rparr>"
  using double_submit_check [OF sample_policy,
    of "\<lparr>or_origin = ''http://b'', or_csrf_header = b64_encode (replicate 32 (byte 1)),
      or_csrf_cookie = Some (b64_encode (replicate 32 (byte 1)))\<rparr>"]
  by simp

text \<open>The fifth failure blocks, and a block is never shortened.\<close>

lemma register_failure_blocks:
  assumes "rl_failures s \<ge> 4" and "\<not> rate_limited s now" and "0 \<le> now"
  shows "rate_limited (register_failure s now) now"
  using assms
  by (auto simp: register_failure_def rate_limited_def rate_limit_failures_def rate_limit_block_def
      is_zero_time_def zero_time_def second_def minute_def Let_def)

lemma register_failure_keeps_block:
  "rate_limited s now \<Longrightarrow> register_failure s now = s"
  by (auto simp: register_failure_def rate_limited_def)

end
