(* ===== verification/WorkspaceFacts.thy ===== *)
theory WorkspaceFacts
  imports TaskRecovery PlatformReads Secrets
begin

text \<open>
  Package internal/workspace: the projection of a workspace from its observations
  (workspace.go) and the publication of a read (service.go).  The tables of observations,
  member snapshots and projections extend the store, so that a publication runs inside the
  transaction that settles the task.  A CHECK constraint of the schema is a condition on the
  row a statement stores.  \<open>E\<close> marshals the digest payload, \<open>H\<close> is SHA-256, \<open>M\<close> HMAC-SHA-256.
  Rows that tie in observed_at are taken in insertion order.
\<close>

section \<open>Recompute\<close>

datatype operational_state = StateUnknown | StateOperational | StateDeactivated | StateNotFound

primrec state_text :: "operational_state \<Rightarrow> string" where
  "state_text StateUnknown = ''unknown''"
| "state_text StateOperational = ''operational''"
| "state_text StateDeactivated = ''deactivated''"
| "state_text StateNotFound = ''not_found''"

datatype source_kind = SourcePlatform | SourceOwner

record observation =
  ob_id :: string
  ob_endpoint :: string
  ob_source :: source_kind
  ob_outcome :: string
  ob_observed_at :: instant
  ob_expires_at :: instant

record projection =
  pn_state :: operational_state
  pn_conclusion :: string
  pn_evidence_expires :: instant

definition conclusion :: "operational_state \<Rightarrow> observation \<Rightarrow> projection" where
  "conclusion st o' = \<lparr>pn_state = st, pn_conclusion = ob_id o', pn_evidence_expires = ob_expires_at o'\<rparr>"

definition manual_conclusion :: "observation \<Rightarrow> bool" where
  "manual_conclusion o' \<longleftrightarrow>
     ob_source o' = SourceOwner \<and> (ob_outcome o' = ''manual_recovered'' \<or> ob_outcome o' = ''manual_deactivated'')"

definition latest_manual_conclusion :: "observation list \<Rightarrow> observation option" where
  "latest_manual_conclusion obs = find manual_conclusion obs"

definition newer_endpoint_recovery :: "observation list \<Rightarrow> observation \<Rightarrow> bool" where
  "newer_endpoint_recovery obs t \<longleftrightarrow>
     list_ex (\<lambda>o'. ob_observed_at t < ob_observed_at o' \<and> ob_endpoint o' = ob_endpoint t
                \<and> ob_outcome o' = ''operational'') obs"

definition terminal_observation :: "observation \<Rightarrow> bool" where
  "terminal_observation o' \<longleftrightarrow> ob_outcome o' = ''deactivated_workspace'' \<or> ob_outcome o' = ''workspace_not_found''"

text \<open>\<open>before\<close> are the observations in front of the rest, in order.\<close>

fun latest_unrecovered_terminal :: "observation list \<Rightarrow> observation list \<Rightarrow> observation option" where
  "latest_unrecovered_terminal before [] = None"
| "latest_unrecovered_terminal before (o' # obs) =
    (if terminal_observation o' \<and> \<not> newer_endpoint_recovery before o' then Some o'
     else latest_unrecovered_terminal (before @ [o']) obs)"

definition operational_join :: "observation \<Rightarrow> bool" where
  "operational_join o' \<longleftrightarrow> ob_endpoint o' = ''workspace_join'' \<and> ob_outcome o' = ''operational''"

definition latest_platform_conclusion :: "observation list \<Rightarrow> (observation \<times> operational_state) option" where
  "latest_platform_conclusion obs =
    (case latest_unrecovered_terminal [] obs of
       Some t \<Rightarrow> Some (t, if ob_outcome t = ''workspace_not_found'' then StateNotFound else StateDeactivated)
     | None \<Rightarrow> map_option (\<lambda>o'. (o', StateOperational)) (find operational_join obs))"

definition recompute :: "instant \<Rightarrow> observation list \<Rightarrow> projection" where
  "recompute now observations =
    (let current = sort_key (\<lambda>o'. - ob_observed_at o') (filter (\<lambda>o'. now < ob_expires_at o') observations);
         manual = latest_manual_conclusion current;
         platform = latest_platform_conclusion current;
         by_platform = (case platform of
             Some (o', st) \<Rightarrow> conclusion st o'
           | None \<Rightarrow> \<lparr>pn_state = StateUnknown, pn_conclusion = [], pn_evidence_expires = zero_time\<rparr>) in
     case manual of
       None \<Rightarrow> by_platform
     | Some m \<Rightarrow>
        (if (case platform of None \<Rightarrow> True | Some (o', _) \<Rightarrow> ob_observed_at o' < ob_observed_at m)
         then conclusion (if ob_outcome m = ''manual_recovered'' then StateOperational else StateDeactivated) m
         else by_platform))"

section \<open>The tables\<close>

record observation_row =
  ow_id :: string
  ow_workspace :: string
  ow_type :: string
  ow_source :: source_kind
  ow_owner :: "string option"
  ow_endpoint :: string
  ow_observed :: instant
  ow_expires :: instant
  ow_outcome :: string
  ow_active_until :: "instant option"
  ow_seat_limit :: "int option"
  ow_member_count :: "int option"
  ow_pending :: "int option"
  ow_hash :: "string option"

record snapshot_row =
  sn_id :: string
  sn_workspace :: string
  sn_observed :: instant
  sn_completeness :: completeness
  sn_declared :: "int option"
  sn_pending :: "int option"
  sn_hash :: string
  sn_expires :: instant

record snapshot_entry =
  se_snapshot :: string
  se_kind :: string
  se_member :: "string option"
  se_identifier :: string
  se_hmac :: string
  se_key_version :: nat
  se_status :: string
  se_role :: "string option"

record projection_row =
  pj_workspace :: string
  pj_state :: operational_state
  pj_conclusion :: "string option"
  pj_evidence :: "instant option"
  pj_active_until :: "instant option"
  pj_capacity :: "string option"
  pj_seat_limit :: "int option"
  pj_member_count :: "int option"
  pj_pending :: "int option"
  pj_snapshot :: "string option"
  pj_updated_at :: instant
  pj_version :: int

record facts_db = store_db +
  observations :: "observation_row list"
  snapshots :: "snapshot_row list"
  snapshot_entries :: "snapshot_entry list"
  projections :: "projection_row list"

definition seven_days :: duration where "seven_days = 7 * 24 * hour"

definition platform_outcomes :: "string list" where
  "platform_outcomes = [''operational'', ''deactivated_workspace'', ''workspace_not_found'', ''unauthorized'',
     ''forbidden'', ''rate_limited'', ''server_error'', ''timeout'', ''network_error'', ''incomplete'']"

definition count_ok :: "int option \<Rightarrow> bool" where
  "count_ok c \<longleftrightarrow> (case c of None \<Rightarrow> True | Some n \<Rightarrow> 0 \<le> n)"

definition observation_shape :: "observation_row \<Rightarrow> bool" where
  "observation_shape o' \<longleftrightarrow>
    (let ty = ow_type o'; oc = ow_outcome o'; op = (oc = ''operational'');
         au = (ow_active_until o' \<noteq> None); sl = (ow_seat_limit o' \<noteq> None); mc = (ow_member_count o' \<noteq> None);
         pc = (ow_pending o' \<noteq> None);
         pf = (\<lambda>ep. ow_source o' = SourcePlatform \<and> ow_owner o' = None \<and> ow_endpoint o' = ep) in
     (ty = ''subscription'' \<and> pf ''workspace_subscription'' \<and> \<not> sl \<and> \<not> mc \<and> \<not> pc \<and> op = au)
     \<or> (ty = ''capacity'' \<and> pf ''seat_counter'' \<and> \<not> au \<and> \<not> pc \<and> op = sl \<and> op = mc)
     \<or> (ty = ''join'' \<and> pf ''workspace_join'' \<and> \<not> au \<and> \<not> sl \<and> \<not> mc \<and> \<not> pc)
     \<or> (ty = ''members'' \<and> pf ''workspace_members'' \<and> \<not> au \<and> \<not> sl \<and> \<not> mc \<and> \<not> pc
         \<and> oc \<in> {''operational'', ''deactivated_workspace'', ''workspace_not_found''})
     \<or> (ty = ''pending_invites'' \<and> pf ''pending_invites'' \<and> \<not> au \<and> \<not> sl \<and> \<not> mc \<and> op = pc)
     \<or> (ty = ''exchange'' \<and> pf ''workspace_exchange'' \<and> \<not> au \<and> \<not> sl \<and> \<not> mc \<and> \<not> pc)
     \<or> (ty = ''read_error'' \<and> pf ''workspace_members'' \<and> \<not> au \<and> \<not> sl \<and> \<not> mc \<and> \<not> pc
         \<and> oc \<in> set platform_outcomes - {''operational'', ''deactivated_workspace'', ''workspace_not_found''})
     \<or> (ty = ''manual_verification'' \<and> ow_source o' = SourceOwner \<and> ow_owner o' \<noteq> None
         \<and> ow_endpoint o' \<in> {''platform_ui'', ''platform_subscription_page''}
         \<and> (oc \<in> {''manual_deactivated'', ''manual_recovered''} \<and> \<not> au \<or> oc = ''manual_expiration_corrected'' \<and> au)
         \<and> \<not> sl \<and> \<not> mc \<and> \<not> pc \<and> ow_hash o' = None))"

definition observation_ok :: "observation_row \<Rightarrow> bool" where
  "observation_ok o' \<longleftrightarrow>
     ow_outcome o' \<in> set (platform_outcomes @ [''manual_deactivated'', ''manual_recovered'', ''manual_expiration_corrected''])
     \<and> count_ok (ow_seat_limit o') \<and> count_ok (ow_member_count o') \<and> count_ok (ow_pending o') \<and> observation_shape o'"

definition projection_ok :: "projection_row \<Rightarrow> bool" where
  "projection_ok p \<longleftrightarrow>
     (if pj_state p = StateUnknown then pj_conclusion p = None \<and> pj_evidence p = None
      else pj_conclusion p \<noteq> None \<and> pj_evidence p \<noteq> None)
     \<and> (if pj_capacity p = None then pj_seat_limit p = None \<and> pj_member_count p = None
        else pj_seat_limit p \<noteq> None \<and> pj_member_count p \<noteq> None)
     \<and> count_ok (pj_seat_limit p) \<and> count_ok (pj_member_count p) \<and> count_ok (pj_pending p)"

definition entry_ok :: "snapshot_entry list \<Rightarrow> snapshot_entry \<Rightarrow> bool" where
  "entry_ok es e \<longleftrightarrow>
     (se_kind e = ''member'' \<and> se_member e \<noteq> None \<or> se_kind e = ''pending_invite'' \<and> se_member e = None)
     \<and> 1 \<le> rune_count (se_identifier e) \<and> rune_count (se_identifier e) \<le> 254
     \<and> 1 \<le> rune_count (se_status e) \<and> rune_count (se_status e) \<le> 64
     \<and> (case se_role e of None \<Rightarrow> True | Some r \<Rightarrow> 1 \<le> rune_count r \<and> rune_count r \<le> 64)
     \<and> 0 < se_key_version e
     \<and> \<not> list_ex (\<lambda>x. se_snapshot x = se_snapshot e \<and> se_kind x = se_kind e
          \<and> se_key_version x = se_key_version e \<and> se_hmac x = se_hmac e) es"

section \<open>Publishing a read\<close>

primrec outcome_text :: "read_outcome \<Rightarrow> string" where
  "outcome_text Operational = ''operational''"
| "outcome_text Deactivated = ''deactivated_workspace''"
| "outcome_text WorkspaceNotFound = ''workspace_not_found''"
| "outcome_text Unauthorized = ''unauthorized''"
| "outcome_text Forbidden = ''forbidden''"
| "outcome_text RateLimited = ''rate_limited''"
| "outcome_text ServerError = ''server_error''"
| "outcome_text Timeout = ''timeout''"
| "outcome_text NetworkError = ''network_error''"
| "outcome_text Incomplete = ''incomplete''"

primrec completeness_text :: "completeness \<Rightarrow> string" where
  "completeness_text Complete = ''complete''"
| "completeness_text Partial = ''partial''"
| "completeness_text CompletenessUnknown = ''unknown''"

definition result_text :: "read_result \<Rightarrow> string" where
  "result_text r = (case rr_outcome r of None \<Rightarrow> [] | Some oc \<Rightarrow> outcome_text oc)"

definition validated_outcome :: "read_result \<Rightarrow> string" where
  "validated_outcome r =
    (if (rr_outcome r = Some Deactivated \<and> rr_http r \<noteq> 402) \<or> (rr_outcome r = Some WorkspaceNotFound \<and> rr_http r \<noteq> 404)
     then ''incomplete'' else result_text r)"

definition members_snapshot_allowed :: "read_result \<Rightarrow> bool" where
  "members_snapshot_allowed r \<longleftrightarrow>
     rr_outcome r \<noteq> Some Deactivated \<and> rr_outcome r \<noteq> Some WorkspaceNotFound
     \<and> (rr_outcome r = Some Operational \<or> 0 < length (rr_members r) \<or> rr_completeness r \<noteq> CompletenessUnknown)"

definition optional :: "('a \<Rightarrow> json) \<Rightarrow> 'a option \<Rightarrow> json" where
  "optional f v = (case v of None \<Rightarrow> JNull | Some x \<Rightarrow> f x)"

definition digest_payload :: "read_result \<Rightarrow> json" where
  "digest_payload r = JObj
     [(''Endpoint'', JStr (endpoint_text (rr_endpoint r))), (''Outcome'', JStr (result_text r)),
      (''HTTPStatus'', json_int (rr_http r)), (''ObservedAt'', JStr (rfc3339nano (rr_observed_at r))),
      (''ActiveUntil'', optional (\<lambda>t. JStr (rfc3339nano t)) (rr_active_until r)),
      (''SeatLimit'', optional json_int (rr_seat_limit r)), (''MemberCount'', optional json_int (rr_member_count r)),
      (''PendingInviteCount'', optional json_int (rr_pending r)),
      (''Completeness'', JStr (completeness_text (rr_completeness r))),
      (''Entries'', json_int (int (length (rr_members r))))]"

record digests =
  dg_unicode :: unicode
  dg_hash :: "string \<Rightarrow> string"
  dg_marshal :: "json \<Rightarrow> string"
  dg_mac :: "string \<Rightarrow> string \<Rightarrow> string"
  dg_ring :: "key_ring option"

definition result_hash :: "digests \<Rightarrow> read_result \<Rightarrow> string" where
  "result_hash G r = dg_hash G (dg_marshal G (digest_payload r))"

primrec observation_kind :: "read_endpoint \<Rightarrow> string" where
  "observation_kind EndpointExchange = ''exchange''"
| "observation_kind EndpointSubscription = ''subscription''"
| "observation_kind EndpointCapacity = ''capacity''"
| "observation_kind EndpointJoin = ''join''"
| "observation_kind EndpointMembers = ''members''"
| "observation_kind EndpointPendingInvite = ''pending_invites''"

definition store_observation :: "observation_row \<Rightarrow> (store_error, 'z facts_db_scheme, unit) tx" where
  "store_observation o' = (\<lambda>db.
     if observation_ok o' then Inr ((), db\<lparr>observations := observations db @ [o']\<rparr>) else Inl ErrConstraint)"

definition observed_row :: "digests \<Rightarrow> string \<Rightarrow> string \<Rightarrow> read_result \<Rightarrow> observation_row" where
  "observed_row G i ws r =
    (let oc = validated_outcome r; op = (oc = ''operational'');
         keep = (\<lambda>ep v. if op \<and> rr_endpoint r = ep then v else None) in
     \<lparr>ow_id = i, ow_workspace = ws, ow_type = observation_kind (rr_endpoint r), ow_source = SourcePlatform,
      ow_owner = None, ow_endpoint = endpoint_text (rr_endpoint r), ow_observed = rr_observed_at r,
      ow_expires = rr_observed_at r + seven_days, ow_outcome = oc,
      ow_active_until = (if op \<and> rr_endpoint r = EndpointSubscription then rr_active_until r else None),
      ow_seat_limit = keep EndpointCapacity (rr_seat_limit r),
      ow_member_count = keep EndpointCapacity (rr_member_count r),
      ow_pending = keep EndpointPendingInvite (rr_pending r), ow_hash = Some (result_hash G r)\<rparr>)"

definition insert_observation ::
  "digests \<Rightarrow> string \<Rightarrow> string \<Rightarrow> read_result \<Rightarrow> (store_error, 'z facts_db_scheme, unit) tx" where
  "insert_observation G i ws r = store_observation (observed_row G i ws r)"

definition insert_member_read_error ::
  "digests \<Rightarrow> string \<Rightarrow> string \<Rightarrow> read_result \<Rightarrow> (store_error, 'z facts_db_scheme, unit) tx" where
  "insert_member_read_error G i ws r =
    (let oc = (if rr_outcome r = Some Deactivated \<or> rr_outcome r = Some WorkspaceNotFound then ''incomplete''
               else result_text r) in
     store_observation
       \<lparr>ow_id = i, ow_workspace = ws, ow_type = ''read_error'', ow_source = SourcePlatform, ow_owner = None,
        ow_endpoint = ''workspace_members'', ow_observed = rr_observed_at r, ow_expires = rr_observed_at r + seven_days,
        ow_outcome = oc, ow_active_until = None, ow_seat_limit = None, ow_member_count = None, ow_pending = None,
        ow_hash = Some (result_hash G r)\<rparr>)"

fun insert_entries :: "digests \<Rightarrow> string \<Rightarrow> member list \<Rightarrow> (store_error, 'z facts_db_scheme, unit) tx" where
  "insert_entries G sn [] = tx_return ()"
| "insert_entries G sn (m # ms) =
    (case fingerprint_identifier (dg_unicode G) (dg_mac G) (dg_ring G) WorkspaceEntry (pm_identifier m) of
       None \<Rightarrow> tx_fail ErrInvalid
     | Some (normalized, version, mac) \<Rightarrow>
        (let e = \<lparr>se_snapshot = sn, se_kind = pm_kind m, se_member = nullif [] (pm_id m), se_identifier = normalized,
                  se_hmac = mac, se_key_version = version, se_status = pm_status m, se_role = nullif [] (pm_role m)\<rparr> in
         tx_bind (\<lambda>db. if entry_ok (snapshot_entries db) e
                       then Inr ((), db\<lparr>snapshot_entries := snapshot_entries db @ [e]\<rparr>) else Inl ErrConstraint)
           (\<lambda>_. insert_entries G sn ms)))"

definition insert_snapshot ::
  "digests \<Rightarrow> string \<Rightarrow> string \<Rightarrow> read_result \<Rightarrow> (store_error, 'z facts_db_scheme, unit) tx" where
  "insert_snapshot G i ws r =
     tx_bind (\<lambda>db. if count_ok (rr_member_count r) \<and> count_ok (rr_pending r)
                   then Inr ((), db\<lparr>snapshots := snapshots db @
                     [\<lparr>sn_id = i, sn_workspace = ws, sn_observed = rr_observed_at r, sn_completeness = rr_completeness r,
                       sn_declared = rr_member_count r, sn_pending = rr_pending r, sn_hash = result_hash G r,
                       sn_expires = rr_observed_at r + seven_days\<rparr>]\<rparr>)
                   else Inl ErrConstraint)
       (\<lambda>_. insert_entries G i (rr_members r))"

section \<open>Storing the projection\<close>

definition as_observation :: "observation_row \<Rightarrow> observation" where
  "as_observation o' = \<lparr>ob_id = ow_id o', ob_endpoint = ow_endpoint o', ob_source = ow_source o',
     ob_outcome = ow_outcome o', ob_observed_at = ow_observed o', ob_expires_at = ow_expires o'\<rparr>"

definition live_observations :: "instant \<Rightarrow> string \<Rightarrow> 'z facts_db_scheme \<Rightarrow> observation_row list" where
  "live_observations now ws db =
     sort_key (\<lambda>o'. - ow_observed o') (filter (\<lambda>o'. ow_workspace o' = ws \<and> now < ow_expires o') (observations db))"

definition latest_row :: "(observation_row \<Rightarrow> bool) \<Rightarrow> instant \<Rightarrow> string \<Rightarrow> 'z facts_db_scheme \<Rightarrow> observation_row option" where
  "latest_row Q now ws db = find Q (live_observations now ws db)"

definition latest_snapshot :: "instant \<Rightarrow> string \<Rightarrow> 'z facts_db_scheme \<Rightarrow> snapshot_row option" where
  "latest_snapshot now ws db =
     first_by (\<lambda>s. - sn_observed s) (filter (\<lambda>s. sn_workspace s = ws \<and> now < sn_expires s) (snapshots db))"

definition option_or :: "'a option \<Rightarrow> 'a option \<Rightarrow> 'a option" where
  "option_or a b = (case a of None \<Rightarrow> b | Some _ \<Rightarrow> a)"

definition field_of :: "('r \<Rightarrow> 'a option) \<Rightarrow> 'r option \<Rightarrow> 'a option" where
  "field_of f r = (case r of None \<Rightarrow> None | Some x \<Rightarrow> f x)"

definition projected ::
  "instant \<Rightarrow> instant \<Rightarrow> 'z facts_db_scheme \<Rightarrow> projection_row \<Rightarrow> projection_row" where
  "projected now clock db p =
    (let ws = pj_workspace p;
         pn = recompute clock (map as_observation (live_observations now ws db));
         known = (pn_conclusion pn \<noteq> []);
         cap = latest_row (\<lambda>o'. ow_type o' = ''capacity'') now ws db;
         invites = latest_row (\<lambda>o'. ow_type o' = ''pending_invites'') now ws db;
         corrected = latest_row (\<lambda>o'. ow_outcome o' = ''manual_expiration_corrected'') now ws db;
         sub = latest_row (\<lambda>o'. ow_type o' = ''subscription'' \<and> ow_outcome o' = ''operational'') now ws db;
         snap = latest_snapshot now ws db in
     p\<lparr>pj_state := pn_state pn, pj_conclusion := (if known then Some (pn_conclusion pn) else None),
       pj_evidence := (if known then Some (pn_evidence_expires pn) else None),
       pj_active_until := option_or (field_of ow_active_until corrected) (field_of ow_active_until sub),
       pj_capacity := map_option ow_id cap, pj_seat_limit := field_of ow_seat_limit cap,
       pj_member_count := field_of ow_member_count cap,
       pj_pending := option_or (field_of ow_pending invites) (field_of sn_pending snap),
       pj_snapshot := map_option sn_id snap, pj_updated_at := now, pj_version := pj_version p + 1\<rparr>)"

definition recompute_tx :: "instant \<Rightarrow> instant \<Rightarrow> string \<Rightarrow> (store_error, 'z facts_db_scheme, unit) tx" where
  "recompute_tx now clock ws = (\<lambda>db.
     if list_all (\<lambda>p. projection_ok (projected now clock db p)) (filter (\<lambda>p. pj_workspace p = ws) (projections db))
     then Inr ((), db\<lparr>projections := update_where (\<lambda>p. pj_workspace p = ws) (projected now clock db) (projections db)\<rparr>)
     else Inl ErrConstraint)"

fun publish_results ::
  "digests \<Rightarrow> faults \<Rightarrow> nat \<Rightarrow> (nat \<Rightarrow> string) \<Rightarrow> string \<Rightarrow> read_result list \<Rightarrow> (store_error, 'z facts_db_scheme, unit) tx" where
  "publish_results G flt k gid ws [] = tx_return ()"
| "publish_results G flt k gid ws (r # rs) =
    (if is_zero_time (rr_observed_at r) then tx_fail ErrInvalid
     else
       tx_bind
         (if rr_endpoint r = EndpointMembers then
            tx_bind (stmt flt k
              (if validated_outcome r \<in> {''operational'', ''deactivated_workspace'', ''workspace_not_found''}
               then insert_observation G (gid k) ws r else insert_member_read_error G (gid k) ws r)) (\<lambda>_.
            if members_snapshot_allowed r then stmt flt (k + 1) (insert_snapshot G (gid (k + 1)) ws r) else tx_return ())
          else stmt flt k (insert_observation G (gid k) ws r))
         (\<lambda>_. publish_results G flt (k + 2) gid ws rs))"

definition publish_read ::
  "digests \<Rightarrow> faults \<Rightarrow> nat \<Rightarrow> (nat \<Rightarrow> string) \<Rightarrow> instant \<Rightarrow> instant \<Rightarrow> read_result list \<Rightarrow> string
     \<Rightarrow> (store_error, 'z facts_db_scheme, unit) tx" where
  "publish_read G flt k gid now clock rs ws =
     tx_bind (publish_results G flt k gid ws rs) (\<lambda>_. stmt flt (k + 2 * length rs) (recompute_tx now clock ws))"

section \<open>Manual evidence\<close>

record manual_verification =
  mv_workspace :: string
  mv_owner :: string
  mv_source :: string
  mv_conclusion :: string
  mv_observed_at :: instant
  mv_active_until :: "instant option"

definition manual_valid :: "instant \<Rightarrow> manual_verification \<Rightarrow> bool" where
  "manual_valid clock v \<longleftrightarrow>
    (let vc = (mv_conclusion v = ''deactivated'' \<or> mv_conclusion v = ''recovered'');
         ve = (mv_conclusion v = ''expiration_corrected'' \<and> mv_active_until v \<noteq> None) in
     mv_workspace v \<noteq> [] \<and> mv_owner v \<noteq> []
     \<and> (mv_source v = ''platform_ui'' \<or> mv_source v = ''platform_subscription_page'')
     \<and> (vc \<or> ve) \<and> (vc \<longrightarrow> mv_active_until v = None)
     \<and> \<not> is_zero_time (mv_observed_at v) \<and> mv_observed_at v \<le> clock \<and> clock - seven_days \<le> mv_observed_at v)"

definition record_manual_verification ::
  "faults \<Rightarrow> string \<Rightarrow> instant \<Rightarrow> instant \<Rightarrow> manual_verification \<Rightarrow> (store_error, 'z facts_db_scheme, string) tx" where
  "record_manual_verification flt i now clock v =
    (if \<not> manual_valid clock v then tx_fail ErrInvalid
     else
       tx_bind (stmt flt 1 (store_observation
         \<lparr>ow_id = i, ow_workspace = mv_workspace v, ow_type = ''manual_verification'', ow_source = SourceOwner,
          ow_owner = Some (mv_owner v), ow_endpoint = mv_source v, ow_observed = mv_observed_at v,
          ow_expires = mv_observed_at v + seven_days, ow_outcome = ''manual_'' @ mv_conclusion v,
          ow_active_until = mv_active_until v, ow_seat_limit = None, ow_member_count = None, ow_pending = None,
          ow_hash = None\<rparr>)) (\<lambda>_.
       tx_bind (stmt flt 2 (recompute_tx now clock (mv_workspace v))) (\<lambda>_. tx_return i)))"

end
