(* ===== verification/FactsLaws.thy ===== *)
theory FactsLaws
  imports WorkspaceFacts RecoveryLaws
begin

text \<open>
  What the projection of a workspace says about its observations, and when a publication
  cannot succeed.
\<close>

section \<open>The first row of an order\<close>

lemma find_sorted:
  assumes "sorted (map f xs)" and "find P xs = Some x"
  shows "x \<in> set xs \<and> P x \<and> (\<forall>y\<in>set xs. P y \<longrightarrow> f x \<le> f y)"
  using assms by (induction xs) (auto split: if_splits)

lemma find_none: "find P xs = None \<longleftrightarrow> (\<forall>x\<in>set xs. \<not> P x)"
  by (auto simp: find_None_iff)

text \<open>In descending order, whatever recovers an endpoint comes before the terminal observation.\<close>

lemma latest_unrecovered_find:
  assumes "sorted (map (\<lambda>o'. - ob_observed_at o') (before @ obs))"
  shows "latest_unrecovered_terminal before obs
    = find (\<lambda>t. terminal_observation t \<and> \<not> newer_endpoint_recovery (before @ obs) t) obs"
  using assms
proof (induction obs arbitrary: before)
  case (Cons o' obs)
  have "sorted (map (\<lambda>o'. - ob_observed_at o') (o' # obs))" using Cons.prems by (simp add: sorted_append)
  then have "\<not> newer_endpoint_recovery (o' # obs) o'"
    by (auto simp: newer_endpoint_recovery_def list_ex_iff)
  then have "newer_endpoint_recovery (before @ o' # obs) o' = newer_endpoint_recovery before o'"
    by (auto simp: newer_endpoint_recovery_def)
  moreover have "latest_unrecovered_terminal (before @ [o']) obs
    = find (\<lambda>t. terminal_observation t \<and> \<not> newer_endpoint_recovery ((before @ [o']) @ obs) t) obs"
    using Cons.prems by (intro Cons.IH) simp
  ultimately show ?case by simp
qed simp

section \<open>The projection\<close>

definition current :: "instant \<Rightarrow> observation list \<Rightarrow> observation list" where
  "current now obs = sort_key (\<lambda>o'. - ob_observed_at o') (filter (\<lambda>o'. now < ob_expires_at o') obs)"

definition unrecovered :: "observation list \<Rightarrow> observation \<Rightarrow> bool" where
  "unrecovered obs t \<longleftrightarrow> terminal_observation t \<and> \<not> newer_endpoint_recovery obs t"

lemma set_current [simp]: "set (current now obs) = {o' \<in> set obs. now < ob_expires_at o'}"
  by (simp add: current_def)

lemma sorted_current: "sorted (map (\<lambda>o'. - ob_observed_at o') (current now obs))"
  by (simp add: current_def)

definition platform_result :: "observation list \<Rightarrow> (observation \<times> operational_state) option" where
  "platform_result cur =
    (case find (unrecovered cur) cur of
       Some t \<Rightarrow> Some (t, if ob_outcome t = ''workspace_not_found'' then StateNotFound else StateDeactivated)
     | None \<Rightarrow> map_option (\<lambda>o'. (o', StateOperational)) (find operational_join cur))"

lemma latest_platform_current: "latest_platform_conclusion (current now obs) = platform_result (current now obs)"
  using latest_unrecovered_find [of "[]" "current now obs"] sorted_current [of now obs]
  by (simp add: latest_platform_conclusion_def platform_result_def unrecovered_def [abs_def])

lemma recompute_current:
  "recompute now obs =
    (let cur = current now obs;
         by_platform = (case platform_result cur of
             Some (o', st) \<Rightarrow> conclusion st o'
           | None \<Rightarrow> \<lparr>pn_state = StateUnknown, pn_conclusion = [], pn_evidence_expires = zero_time\<rparr>) in
     case find manual_conclusion cur of
       None \<Rightarrow> by_platform
     | Some m \<Rightarrow>
        (if (case platform_result cur of None \<Rightarrow> True | Some (o', _) \<Rightarrow> ob_observed_at o' < ob_observed_at m)
         then conclusion (if ob_outcome m = ''manual_recovered'' then StateOperational else StateDeactivated) m
         else by_platform))"
  unfolding recompute_def current_def [symmetric] latest_platform_current latest_manual_conclusion_def Let_def ..

lemma conclusion_state [simp]: "pn_state (conclusion st o') = st"
  by (simp add: conclusion_def)

text \<open>The four ways a projection comes about.\<close>

lemma recompute_cases:
  obtains
    (manual) m where "find manual_conclusion (current now obs) = Some m"
      and "\<And>x st. platform_result (current now obs) = Some (x, st) \<Longrightarrow> ob_observed_at x < ob_observed_at m"
      and "recompute now obs
        = conclusion (if ob_outcome m = ''manual_recovered'' then StateOperational else StateDeactivated) m"
  | (terminal) t where "find (unrecovered (current now obs)) (current now obs) = Some t"
      and "\<And>m. find manual_conclusion (current now obs) = Some m \<Longrightarrow> ob_observed_at m \<le> ob_observed_at t"
      and "recompute now obs
        = conclusion (if ob_outcome t = ''workspace_not_found'' then StateNotFound else StateDeactivated) t"
  | (join) j where "find (unrecovered (current now obs)) (current now obs) = None"
      and "find operational_join (current now obs) = Some j"
      and "\<And>m. find manual_conclusion (current now obs) = Some m \<Longrightarrow> ob_observed_at m \<le> ob_observed_at j"
      and "recompute now obs = conclusion StateOperational j"
  | (nothing) "find manual_conclusion (current now obs) = None"
      and "find (unrecovered (current now obs)) (current now obs) = None"
      and "find operational_join (current now obs) = None"
      and "pn_state (recompute now obs) = StateUnknown"
proof (cases "find (unrecovered (current now obs)) (current now obs)")
  case T: (Some t)
  show thesis
  proof (cases "find manual_conclusion (current now obs)")
    case None
    with T show thesis by (intro terminal [of t]) (simp_all add: recompute_current platform_result_def)
  next
    case (Some m)
    with T show thesis
      by (cases "ob_observed_at t < ob_observed_at m")
        (intro manual [of m] terminal [of t]; simp add: recompute_current platform_result_def)+
  qed
next
  case noT: None
  show thesis
  proof (cases "find operational_join (current now obs)")
    case J: (Some j)
    show thesis
    proof (cases "find manual_conclusion (current now obs)")
      case None
      with noT J show thesis by (intro join [of j]) (simp_all add: recompute_current platform_result_def)
    next
      case (Some m)
      with noT J show thesis
        by (cases "ob_observed_at j < ob_observed_at m")
          (intro manual [of m] join [of j]; simp add: recompute_current platform_result_def)+
    qed
  next
    case noJ: None
    show thesis
    proof (cases "find manual_conclusion (current now obs)")
      case noM: None
      with noT noJ have "pn_state (recompute now obs) = StateUnknown"
        by (simp add: recompute_current platform_result_def)
      with noM noT noJ show thesis by (rule nothing)
    next
      case (Some m)
      with noT noJ show thesis by (intro manual [of m]) (simp_all add: recompute_current platform_result_def)
    qed
  qed
qed

definition evidence :: "instant \<Rightarrow> (observation \<Rightarrow> bool) \<Rightarrow> observation list \<Rightarrow> observation set" where
  "evidence now Q obs = {o' \<in> set obs. now < ob_expires_at o' \<and> Q o'}"

lemma found_evidence:
  assumes "find Q (current now obs) = Some x"
  shows "x \<in> evidence now Q obs" and "\<And>y. y \<in> evidence now Q obs \<Longrightarrow> ob_observed_at y \<le> ob_observed_at x"
  using find_sorted [OF sorted_current assms] by (auto simp: evidence_def)

lemma no_evidence: "find Q (current now obs) = None \<longleftrightarrow> evidence now Q obs = {}"
  by (auto simp: find_none evidence_def)

text \<open>C22: The projected state of a workspace is decided by its unexpired evidence alone.  It is
  unknown exactly when there is no owner conclusion, no unrecovered terminal read and no successful
  join read; otherwise it carries the identifier and the expiry of one unexpired observation that
  supports it.  A terminal read is overturned only by a later success on the same endpoint or by a
  strictly later owner conclusion: a state operational beside an unrecovered terminal read is an
  owner's recovery observed after every such read.\<close>

theorem recompute_decides:
  "let p = recompute now obs; manuals = evidence now manual_conclusion obs;
       terminals = evidence now (unrecovered (current now obs)) obs; joins = evidence now operational_join obs in
   (pn_state p = StateUnknown \<longleftrightarrow> manuals = {} \<and> terminals = {} \<and> joins = {})
   \<and> (pn_state p = StateUnknown \<or>
      (\<exists>o'\<in>manuals \<union> terminals \<union> joins. pn_conclusion p = ob_id o' \<and> pn_evidence_expires p = ob_expires_at o'
         \<and> now < pn_evidence_expires p))
   \<and> (terminals = {} \<or> pn_state p \<noteq> StateOperational \<or>
      (\<exists>m\<in>manuals. ob_outcome m = ''manual_recovered'' \<and> pn_conclusion p = ob_id m
         \<and> (\<forall>t\<in>terminals. ob_observed_at t < ob_observed_at m)))
   \<and> (\<forall>t\<in>terminals. (\<exists>m\<in>manuals. ob_observed_at t < ob_observed_at m)
         \<or> pn_state p = StateDeactivated \<or> pn_state p = StateNotFound)"
proof (cases rule: recompute_cases [of now obs])
  case (manual m)
  note m = found_evidence [OF manual(1)]
  have older: "ob_observed_at t < ob_observed_at m" if t: "t \<in> evidence now (unrecovered (current now obs)) obs" for t
  proof -
    obtain t0 where t0: "find (unrecovered (current now obs)) (current now obs) = Some t0"
      using t no_evidence [of "unrecovered (current now obs)" now obs] by auto
    with manual(2) have "ob_observed_at t0 < ob_observed_at m" by (simp add: platform_result_def)
    with found_evidence(2) [OF t0 t] show ?thesis by simp
  qed
  have "now < ob_expires_at m" using m(1) by (simp add: evidence_def)
  have kind: "ob_outcome m = ''manual_recovered'' \<or> ob_outcome m \<noteq> ''manual_recovered''" by simp
  show ?thesis
    using m(1) older \<open>now < ob_expires_at m\<close> kind
    by (auto simp: Let_def manual(3) conclusion_def)
next
  case (terminal t)
  note t = found_evidence [OF terminal(1)]
  have "now < ob_expires_at t" using t(1) by (simp add: evidence_def)
  then show ?thesis
    using t(1) by (auto simp: Let_def terminal(3) conclusion_def)
next
  case (join j)
  note j = found_evidence [OF join(2)]
  have "now < ob_expires_at j" using j(1) by (simp add: evidence_def)
  then show ?thesis
    using j(1) join(1) by (auto simp: Let_def join(4) conclusion_def no_evidence)
next
  case nothing
  then show ?thesis by (simp add: Let_def no_evidence)
qed

definition sample_dead :: observation where
  "sample_dead = \<lparr>ob_id = ''d'', ob_endpoint = ''workspace_members'', ob_source = SourcePlatform,
     ob_outcome = ''deactivated_workspace'', ob_observed_at = 5, ob_expires_at = 100\<rparr>"

definition sample_joined :: observation where
  "sample_joined = \<lparr>ob_id = ''j'', ob_endpoint = ''workspace_join'', ob_source = SourcePlatform,
     ob_outcome = ''operational'', ob_observed_at = 6, ob_expires_at = 100\<rparr>"

theorem recompute_decides_witness:
  "pn_state (recompute 20 [sample_dead, sample_joined]) = StateDeactivated
   \<or> pn_state (recompute 20 [sample_dead, sample_joined]) = StateNotFound"
proof -
  let ?obs = "[sample_dead, sample_joined]"
  have "sample_dead \<in> evidence 20 (unrecovered (current 20 ?obs)) ?obs"
    by (auto simp: evidence_def unrecovered_def terminal_observation_def newer_endpoint_recovery_def list_ex_iff
        sample_dead_def sample_joined_def)
  moreover have "evidence 20 manual_conclusion ?obs = {}"
    by (auto simp: evidence_def manual_conclusion_def sample_dead_def sample_joined_def)
  ultimately show ?thesis
    using recompute_decides [of 20 ?obs] by (auto simp: Let_def)
qed

section \<open>Publishing a failed capacity read\<close>

definition capacity_row :: "observation_row \<Rightarrow> bool" where
  "capacity_row o' \<longleftrightarrow> ow_type o' = ''capacity''"

text \<open>A publication appends rows built from its results and leaves the projections to the last step.\<close>

definition published_rows :: "digests \<Rightarrow> string \<Rightarrow> read_result list \<Rightarrow> observation_row list \<Rightarrow> bool" where
  "published_rows G ws rs os \<longleftrightarrow>
     (\<forall>o'\<in>set os. capacity_row o' \<longrightarrow> (\<exists>r\<in>set rs. rr_endpoint r = EndpointCapacity \<and> (\<exists>i. o' = observed_row G i ws r)))
     \<and> (\<forall>r\<in>set rs. rr_endpoint r = EndpointCapacity \<longrightarrow> (\<exists>i. observed_row G i ws r \<in> set os))"

lemma store_observation_Inr:
  "store_observation o' db = Inr ((), db') \<longleftrightarrow> observation_ok o' \<and> db' = db\<lparr>observations := observations db @ [o']\<rparr>"
  by (auto simp: store_observation_def)

lemma insert_entries_frame:
  "insert_entries G sn ms db = Inr ((), db') \<Longrightarrow> observations db' = observations db \<and> projections db' = projections db"
proof (induction ms arbitrary: db)
  case (Cons m ms)
  obtain e where "insert_entries G sn ms (db\<lparr>snapshot_entries := snapshot_entries db @ [e]\<rparr>) = Inr ((), db')"
    using Cons.prems by (auto simp: tx_simps Let_def split: option.splits prod.splits if_splits)
  from Cons.IH [OF this] show ?case by simp
qed (simp add: tx_simps)

lemma insert_snapshot_frame:
  "insert_snapshot G i ws r db = Inr ((), db') \<Longrightarrow> observations db' = observations db \<and> projections db' = projections db"
  unfolding insert_snapshot_def tx_bind_Inr
  by (auto split: if_splits dest!: insert_entries_frame)

lemma capacity_of_observed: "ow_type (observed_row G i ws r) = ''capacity'' \<longleftrightarrow> rr_endpoint r = EndpointCapacity"
  by (cases "rr_endpoint r") (simp_all add: observed_row_def Let_def)

lemma publish_results_rows:
  "publish_results G flt k gid ws rs db = Inr ((), db') \<Longrightarrow>
     projections db' = projections db \<and> (\<exists>os. observations db' = observations db @ os \<and> published_rows G ws rs os)"
proof (induction rs arbitrary: k db)
  case Nil
  then show ?case by (simp add: tx_simps published_rows_def)
next
  case (Cons r rs)
  from Cons.prems obtain db1 where rest: "publish_results G flt (k + 2) gid ws rs db1 = Inr ((), db')"
    and one: "projections db1 = projections db
      \<and> (\<exists>o'. observations db1 = observations db @ [o']
          \<and> (capacity_row o' \<longleftrightarrow> rr_endpoint r = EndpointCapacity) \<and> (capacity_row o' \<longrightarrow> o' = observed_row G (gid k) ws r))"
    by (force simp: tx_simps capacity_row_def capacity_of_observed insert_observation_def insert_member_read_error_def
        store_observation_Inr Let_def dest: insert_snapshot_frame split: if_splits)
  then obtain o' where o': "observations db1 = observations db @ [o']"
      "capacity_row o' \<longleftrightarrow> rr_endpoint r = EndpointCapacity" "capacity_row o' \<longrightarrow> o' = observed_row G (gid k) ws r"
    by blast
  obtain os where os: "observations db' = observations db1 @ os" "published_rows G ws rs os" "projections db' = projections db1"
    using Cons.IH [OF rest] by blast
  have "published_rows G ws (r # rs) (o' # os)"
    using os(2) o'(2,3) by (auto simp: published_rows_def)
  then show ?case using os(1,3) o'(1) one by auto
qed

lemma latest_row_found:
  assumes "latest_row Q now ws db = Some c"
  shows "c \<in> set (observations db)" and "ow_workspace c = ws" and "now < ow_expires c" and "Q c"
    and "\<And>o'. o' \<in> set (observations db) \<Longrightarrow> ow_workspace o' = ws \<Longrightarrow> now < ow_expires o' \<Longrightarrow> Q o'
           \<Longrightarrow> ow_observed o' \<le> ow_observed c"
  using find_sorted [of "\<lambda>o'. - ow_observed o'" "live_observations now ws db" Q c] assms
  by (auto simp: latest_row_def live_observations_def)

lemma latest_row_none:
  "latest_row Q now ws db = None \<longleftrightarrow>
     (\<forall>o'\<in>set (observations db). ow_workspace o' = ws \<longrightarrow> now < ow_expires o' \<longrightarrow> \<not> Q o')"
  by (auto simp: latest_row_def live_observations_def find_none)

lemma recompute_needs_capacity_counts:
  assumes "recompute_tx now clock ws db = Inr ((), db')" and "p \<in> set (projections db)" and "pj_workspace p = ws"
    and "latest_row capacity_row now ws db = Some c"
  shows "ow_seat_limit c \<noteq> None"
proof -
  have "projection_ok (projected now clock db p)"
    using assms(1-3) by (auto simp: recompute_tx_def list_all_iff split: if_splits)
  then show ?thesis
    using assms(3,4) by (auto simp: projection_ok_def projected_def Let_def capacity_row_def [abs_def] field_of_def split: if_splits)
qed

lemma failed_capacity_recompute:
  assumes pub: "publish_read G flt k gid now clock rs ws db = Inr ((), db')"
    and p: "p \<in> set (projections db)" "pj_workspace p = ws"
    and r: "r \<in> set rs" "rr_endpoint r = EndpointCapacity" "validated_outcome r \<noteq> ''operational''"
    and only: "\<forall>x\<in>set rs. rr_endpoint x = EndpointCapacity \<longrightarrow> x = r"
    and live: "now < rr_observed_at r + seven_days"
    and newest: "\<forall>o'\<in>set (observations db). ow_workspace o' = ws \<longrightarrow> capacity_row o' \<longrightarrow> ow_observed o' < rr_observed_at r"
  shows False
proof -
  obtain db1 where a: "publish_results G flt k gid ws rs db = Inr ((), db1)"
    and b: "recompute_tx now clock ws db1 = Inr ((), db')"
    using pub unfolding publish_read_def by (auto simp: tx_simps)
  obtain os where os: "observations db1 = observations db @ os" "published_rows G ws rs os"
    and pj: "projections db1 = projections db"
    using publish_results_rows [OF a] by blast
  obtain i where i: "observed_row G i ws r \<in> set os" using os(2) r(1,2) unfolding published_rows_def by blast
  have cap: "capacity_row (observed_row G i ws r)" using r(2) by (simp add: capacity_row_def capacity_of_observed)
  have at_i: "ow_workspace (observed_row G i ws r) = ws" "ow_observed (observed_row G i ws r) = rr_observed_at r"
    "ow_expires (observed_row G i ws r) = rr_observed_at r + seven_days" for i
    by (simp_all add: observed_row_def Let_def)
  have in1: "observed_row G i ws r \<in> set (observations db1)" using i os(1) by simp
  obtain c where c: "latest_row capacity_row now ws db1 = Some c"
    using latest_row_none [of capacity_row now ws db1] in1 cap at_i live by (cases "latest_row capacity_row now ws db1") auto
  note found = latest_row_found [OF c]
  have "rr_observed_at r \<le> ow_observed c" using found(5) [OF in1] at_i cap live by simp
  then have "c \<in> set os" using found(1,2,4) newest os(1) by fastforce
  then obtain x j where "x \<in> set rs" "rr_endpoint x = EndpointCapacity" "c = observed_row G j ws x"
    using os(2) found(4) unfolding published_rows_def by blast
  with only have "c = observed_row G j ws r" by blast
  then have "ow_seat_limit c = None" using r(3) by (simp add: observed_row_def Let_def)
  moreover have "ow_seat_limit c \<noteq> None"
    using recompute_needs_capacity_counts [OF b, of p c] p pj c by simp
  ultimately show False by simp
qed

text \<open>C23: A read whose capacity request fails can never be published.  The failed observation is
  stored, and being the newest capacity observation it becomes the projection's capacity
  observation with no seat limit and no member count, a row the table's CHECK constraint refuses.
  So the whole publication is rolled back: the task is not settled and no observation of the read,
  the other endpoints' included, is kept.\<close>

theorem failed_capacity_blocks_publication:
  assumes "find_task (fenced (it_id item) (it_token item) now) db = Some t" and "tk_workspace t = Some ws"
    and "p \<in> set (projections db)" and "pj_workspace p = ws"
    and "r \<in> set rs" and "rr_endpoint r = EndpointCapacity" and "validated_outcome r \<noteq> ''operational''"
    and "\<forall>x\<in>set rs. rr_endpoint x = EndpointCapacity \<longrightarrow> x = r"
    and "now < rr_observed_at r + seven_days"
    and "\<forall>o'\<in>set (observations db). ow_workspace o' = ws \<longrightarrow> capacity_row o' \<longrightarrow> ow_observed o' < rr_observed_at r"
  shows "\<exists>e. complete_workspace_read H flt g now item (publish_read G flt' k gid now clock rs) db = (Inl e, db)"
proof -
  let ?run = "complete_workspace_read H flt g now item (publish_read G flt' k gid now clock rs) db"
  have "\<not> (\<exists>db'. publish_read G flt' k gid now clock rs ws db = Inr ((), db'))"
    using failed_capacity_recompute assms(3-) by blast
  then have "fst ?run \<noteq> Inr ()"
    using assms(1,2)
    by (cases ?run) (auto simp: complete_workspace_read_def complete_task_def in_tx_def run_tx_Inr tx_simps select_row_def opt_str_def)
  then obtain e where "fst ?run = Inl e" by (cases "fst ?run") auto
  moreover have "snd ?run = db"
    using \<open>fst ?run = Inl e\<close> unfolding complete_workspace_read_def complete_task_def in_tx_def by (rule run_tx_error)
  ultimately show ?thesis by (metis prod.collapse)
qed

definition sample_projection :: projection_row where
  "sample_projection =
     \<lparr>pj_workspace = ''w1'', pj_state = StateUnknown, pj_conclusion = None, pj_evidence = None, pj_active_until = None,
      pj_capacity = None, pj_seat_limit = None, pj_member_count = None, pj_pending = None, pj_snapshot = None,
      pj_updated_at = 0, pj_version = 1\<rparr>"

definition sample_limited :: read_result where
  "sample_limited =
     \<lparr>rr_endpoint = EndpointCapacity, rr_outcome = Some RateLimited, rr_http = 429, rr_observed_at = 15,
      rr_active_until = None, rr_seat_limit = None, rr_member_count = None, rr_pending = None,
      rr_completeness = CompletenessUnknown, rr_members = []\<rparr>"

definition sample_digests :: digests where
  "sample_digests = \<lparr>dg_unicode = sample_unicode, dg_hash = id, dg_marshal = (\<lambda>_. []), dg_mac = (\<lambda>_. id), dg_ring = None\<rparr>"

definition sample_facts :: facts_db where
  "sample_facts = store_db.extend (sample_store\<lparr>tasks := [leased ''w'' 7 0 100 sample_read]\<rparr>)
     (facts_db.fields [] [] [] [sample_projection])"

theorem failed_capacity_blocks_publication_witness:
  "\<exists>e. complete_workspace_read (\<lambda>s. s) (\<lambda>_. False) ''g'' 20 (returned_item (leased ''w'' 7 0 100 sample_read))
     (publish_read sample_digests (\<lambda>_. False) 0 (\<lambda>_. ''o'') 20 20 [sample_limited]) sample_facts = (Inl e, sample_facts)"
proof (rule failed_capacity_blocks_publication)
  show "find_task (fenced (it_id (returned_item (leased ''w'' 7 0 100 sample_read)))
      (it_token (returned_item (leased ''w'' 7 0 100 sample_read))) 20) sample_facts
    = Some (leased ''w'' 7 0 100 sample_read)"
    by (simp add: sample_facts_def find_task_def fenced_def returned_item_def leased_def sample_defs store_db.extend_def)
  show "tk_workspace (leased ''w'' 7 0 100 sample_read) = Some ''w1''" by (simp add: leased_def sample_defs)
  show "sample_projection \<in> set (projections sample_facts)" by (simp add: sample_facts_def store_db.defs facts_db.defs)
  show "pj_workspace sample_projection = ''w1''" by (simp add: sample_projection_def)
  show "sample_limited \<in> set [sample_limited]" by simp
  show "rr_endpoint sample_limited = EndpointCapacity" by (simp add: sample_limited_def)
  show "validated_outcome sample_limited \<noteq> ''operational''"
    by (simp add: sample_limited_def validated_outcome_def result_text_def)
  show "20 < rr_observed_at sample_limited + seven_days" by (simp add: sample_limited_def seven_days_def hour_def minute_def second_def)
qed (simp_all add: sample_facts_def store_db.defs facts_db.defs)

end
