(* ===== verification/TaskDelivery.thy ===== *)
theory TaskDelivery
  imports TaskRecovery OwnerAuth
begin

text \<open>
  Package internal/task, file oauth.go: the delivery of credentials for a membership.  An
  asset belongs to one membership; every attempt of a delivery task begins a generation of it
  and settles it through the fence of the task lease, the current generation and the current
  attempt.  A published version is immutable; the order of a customer points at one.
  The tables of accounts, bindings and workspaces are arguments (record \<open>vault\<close>), and so are
  JSON marshalling and SHA-256.  A NULL scanned into a Go string is \<open>ErrNullScan\<close>.
\<close>

section \<open>The tables\<close>

record version_row =
  vs_id :: string
  vs_asset :: string
  vs_generation :: int
  vs_payload :: json
  vs_hash :: string
  vs_subject :: string
  vs_workspace :: string

record card_row =
  cd_id :: string
  cd_membership :: string
  cd_key_version :: nat
  cd_lookup :: string
  cd_suffix :: string
  cd_active :: bool
  cd_deadline :: instant

record public_token_row =
  pt_id :: string
  pt_membership :: string
  pt_card :: string
  pt_order :: string
  pt_asset :: string
  pt_version :: string
  pt_kind :: string
  pt_hash :: string
  pt_issued_at :: instant
  pt_expires_at :: instant
  pt_used_at :: "instant option"
  pt_revoked_at :: "instant option"
  pt_reason :: "string option"

record delivery_db = store_db +
  versions :: "version_row list"
  cards :: "card_row list"
  public_tokens :: "public_token_row list"

text \<open>
  What a query reads of the other tables: the workspace of a batch's binding, its identifier
  on the platform, and the active account with complete material (identifier, sealed
  password, one-time secret and recovery, and the platform subject, which may be NULL).
  \<open>va_order\<close> is the order named in a task's input.
\<close>

record account_material =
  ac_identifier :: string
  ac_password :: string
  ac_totp :: string
  ac_recovery :: string
  ac_subject :: "string option"

record vault =
  va_binding :: "string \<Rightarrow> string option"
  va_platform :: "string \<Rightarrow> string option"
  va_account :: "string \<Rightarrow> account_material option"
  va_order :: "string \<Rightarrow> string option"
  va_cipher :: aead
  va_ring :: "key_ring option"
  va_unicode :: unicode
  va_base32 :: "string \<Rightarrow> string option"
  va_sha1 :: "string \<Rightarrow> string \<Rightarrow> string"
  va_marshal :: "json \<Rightarrow> string"
  va_hash :: "string \<Rightarrow> string"

definition text_within :: "nat \<Rightarrow> string \<Rightarrow> bool" where
  "text_within n s \<longleftrightarrow> 1 \<le> rune_count s \<and> rune_count s \<le> n"

definition opt_all :: "('a \<Rightarrow> bool) \<Rightarrow> 'a option \<Rightarrow> bool" where
  "opt_all P v \<longleftrightarrow> (case v of None \<Rightarrow> True | Some x \<Rightarrow> P x)"

definition http_code :: "int \<Rightarrow> bool" where
  "http_code n \<longleftrightarrow> 100 \<le> n \<and> n \<le> 599"

definition liveness_codes :: "string list" where
  "liveness_codes = [''ok'', ''auth_error'', ''deactivated_workspace'', ''rate_limited'', ''transient_failure'', ''unknown'']"

definition asset_ok :: "asset_row \<Rightarrow> bool" where
  "asset_ok a \<longleftrightarrow>
     as_status a \<in> {''pending'', ''generating'', ''reclaiming'', ''ready'', ''unavailable''} \<and> 0 \<le> as_generation a
     \<and> opt_all (text_within 255) (as_subject a) \<and> opt_all (\<lambda>s. s \<in> set liveness_codes) (as_liveness a)
     \<and> opt_all http_code (as_http a) \<and> opt_all (text_within 128) (as_error a)
     \<and> opt_all (\<lambda>s. s \<in> {''generation'', ''scheduled'', ''owner'', ''customer'', ''reclaim''}) (as_origin a)
     \<and> opt_all (text_within 128) (as_unavailable_reason a) \<and> 0 < as_version a"

definition oauth_attempt_ok :: "oauth_attempt_row \<Rightarrow> bool" where
  "oauth_attempt_ok x \<longleftrightarrow>
     0 < oa_generation x \<and> 0 < oa_no x \<and> oa_kind x \<in> {''generate'', ''probe'', ''reclaim''}
     \<and> oa_state x \<in> {''running'', ''published'', ''failed'', ''superseded''} \<and> opt_all (text_within 128) (oa_outcome x)
     \<and> (oa_state x = ''running'' \<longleftrightarrow> oa_finished_at x = None)"

definition reclaim_notes_ok :: "task_row \<Rightarrow> bool" where
  "reclaim_notes_ok t \<longleftrightarrow>
     opt_all (\<lambda>s. s \<in> {''probe_ok'', ''token_refresh'', ''full_relogin'', ''unrecoverable''}) (tk_reclaim_tier t)
     \<and> opt_all (text_within 128) (tk_reclaim_result t) \<and> opt_all (text_within 64) (tk_reclaim_probe t)
     \<and> opt_all http_code (tk_reclaim_http t) \<and> opt_all (text_within 64) (tk_reclaim_stage t)"

definition version_ok :: "version_row \<Rightarrow> version_row list \<Rightarrow> bool" where
  "version_ok v vs \<longleftrightarrow>
     0 < vs_generation v \<and> text_within 255 (vs_subject v)
     \<and> \<not> list_ex (\<lambda>x. vs_id x = vs_id v \<or> vs_asset x = vs_asset v \<and> vs_generation x = vs_generation v) vs"

text \<open>
  An attempt is unique by its identifier, by asset, generation and number, and by its task;
  an asset has at most one running attempt.
\<close>

definition attempt_fits :: "oauth_attempt_row \<Rightarrow> oauth_attempt_row list \<Rightarrow> bool" where
  "attempt_fits x xs \<longleftrightarrow>
     oauth_attempt_ok x
     \<and> \<not> list_ex (\<lambda>y. oa_id y = oa_id x \<or> oa_task y = oa_task x
          \<or> oa_asset y = oa_asset x \<and> oa_generation y = oa_generation x \<and> oa_no y = oa_no x
          \<or> oa_asset y = oa_asset x \<and> oa_state y = ''running'' \<and> oa_state x = ''running'') xs"

section \<open>Statements\<close>

definition checked_assets ::
  "(asset_row \<Rightarrow> bool) \<Rightarrow> (asset_row \<Rightarrow> asset_row) \<Rightarrow> (store_error, 'z store_db_scheme, unit) tx" where
  "checked_assets P f = (\<lambda>db.
     if list_all (\<lambda>a. asset_ok (f a)) (filter P (assets db))
     then Inr ((), db\<lparr>assets := update_where P f (assets db)\<rparr>) else Inl ErrConstraint)"

definition checked_attempts ::
  "(oauth_attempt_row \<Rightarrow> bool) \<Rightarrow> (oauth_attempt_row \<Rightarrow> oauth_attempt_row) \<Rightarrow> (store_error, 'z store_db_scheme, unit) tx" where
  "checked_attempts P f = (\<lambda>db.
     if list_all (\<lambda>x. oauth_attempt_ok (f x)) (filter P (oauth_attempts db))
     then Inr ((), db\<lparr>oauth_attempts := update_where P f (oauth_attempts db)\<rparr>) else Inl ErrConstraint)"

definition checked_tasks ::
  "(task_row \<Rightarrow> bool) \<Rightarrow> (task_row \<Rightarrow> task_row) \<Rightarrow> (store_error, 'z store_db_scheme, unit) tx" where
  "checked_tasks P f = (\<lambda>db.
     if list_all (\<lambda>t. reclaim_notes_ok (f t)) (filter P (tasks db))
     then Inr ((), db\<lparr>tasks := update_where P f (tasks db)\<rparr>) else Inl ErrConstraint)"

definition settled_attempt :: "string \<Rightarrow> string \<Rightarrow> instant \<Rightarrow> oauth_attempt_row \<Rightarrow> oauth_attempt_row" where
  "settled_attempt st oc now x = x\<lparr>oa_state := st, oa_outcome := Some oc, oa_finished_at := Some now\<rparr>"

definition running_attempt :: "string \<Rightarrow> oauth_attempt_row \<Rightarrow> bool" where
  "running_attempt i x \<longleftrightarrow> oa_id x = i \<and> oa_state x = ''running''"

text \<open>The end of a delivery task: a retry waits five seconds.\<close>

definition delivery_released :: "task_status \<Rightarrow> instant \<Rightarrow> task_row \<Rightarrow> task_row" where
  "delivery_released st now t =
    (if st = RetryWait then requeued now t else released st now t)"

definition delivery_event ::
  "event_type \<Rightarrow> string \<Rightarrow> string \<Rightarrow> string \<Rightarrow> outcome \<Rightarrow> string \<Rightarrow> details \<Rightarrow> string \<Rightarrow> event" where
  "delivery_event ty scope entity i oc corr d key =
     \<lparr>ev_type = ty, ev_actor = ActorSystem, ev_owner_id = [], ev_scope_id = scope,
      ev_entity_type = entity, ev_entity_id = i, ev_outcome = oc, ev_correlation = corr, ev_source_fp = [],
      ev_details = d, ev_idem_key = key, ev_occurred_at = zero_time\<rparr>"

section \<open>Targets\<close>

record delivery_target =
  dt_asset :: string
  dt_membership :: string
  dt_workspace :: string
  dt_platform_workspace :: string
  dt_target :: string
  dt_identifier :: string
  dt_password :: string
  dt_totp :: string
  dt_recovery :: string
  dt_subject :: string

record reclaim_target = delivery_target +
  rc_order :: string
  rc_version :: string
  rc_access :: string
  rc_refresh :: string
  rc_card :: string

record delivery_probe_target =
  dp_asset :: string
  dp_membership :: string
  dp_workspace :: string
  dp_platform_workspace :: string
  dp_access :: string

record delivery_attempt =
  da_id :: string
  da_generation :: int
  da_no :: int

record credential_set =
  cs_refresh :: string
  cs_access :: string
  cs_identity :: string
  cs_subject :: string
  cs_workspace :: string
  cs_expires_in :: int
  cs_scope :: string

record liveness =
  lv_status :: string
  lv_http :: int
  lv_error :: string
  lv_origin :: string
  lv_observed_at :: instant
  lv_subject :: string
  lv_workspace :: string

definition no_credentials :: credential_set where
  "no_credentials = \<lparr>cs_refresh = [], cs_access = [], cs_identity = [], cs_subject = [], cs_workspace = [],
     cs_expires_in = 0, cs_scope = []\<rparr>"

text \<open>The active membership of a batch that has not ended, and where its workspace is.\<close>

definition open_batch :: "string \<Rightarrow> 'z store_db_scheme \<Rightarrow> batch_row option" where
  "open_batch i db = find (\<lambda>b. ba_id b = i \<and> ba_status b \<noteq> ''ended'') (batches db)"

definition active_membership :: "string \<Rightarrow> 'z store_db_scheme \<Rightarrow> membership_row option" where
  "active_membership i db = find (\<lambda>m. mb_id m = i \<and> mb_state m = ''active'') (memberships db)"

definition placed ::
  "vault \<Rightarrow> string \<Rightarrow> 'z store_db_scheme \<Rightarrow> (membership_row \<times> string \<times> string) option" where
  "placed V i db =
     Option.bind (active_membership i db) (\<lambda>m.
     Option.bind (open_batch (mb_batch m) db) (\<lambda>b.
     Option.bind (va_binding V (ba_id b)) (\<lambda>ws.
     Option.bind (va_platform V ws) (\<lambda>pw. Some (m, ws, pw)))))"

definition asset_of_task :: "string \<Rightarrow> (task_type \<Rightarrow> bool) \<Rightarrow> 'z store_db_scheme \<Rightarrow> asset_row option" where
  "asset_of_task i ty db =
     Option.bind (find (\<lambda>t. tk_id t = i \<and> ty (tk_type t)) (tasks db)) (\<lambda>t.
       find (\<lambda>a. tk_asset t = Some (as_id a)) (assets db))"

definition complete_totp :: "vault \<Rightarrow> instant \<Rightarrow> string \<Rightarrow> bool" where
  "complete_totp V clock v \<longleftrightarrow>
     v \<noteq> [] \<and> totp_at (va_unicode V) (va_base32 V) (va_sha1 V) v clock clock \<noteq> None"

definition open_target_secrets ::
  "vault \<Rightarrow> instant \<Rightarrow> account_material \<Rightarrow> (store_error, string \<times> string \<times> string) result" where
  "open_target_secrets V clock ac =
    (let unseal = (\<lambda>v. open_material (va_cipher V) v (va_ring V)) in
     case unseal (ac_password ac) of
       Inl _ \<Rightarrow> Inl ErrInvalid
     | Inr pass \<Rightarrow>
        (case unseal (ac_totp ac) of
           Inl _ \<Rightarrow> Inl ErrInvalid
         | Inr secret \<Rightarrow>
            if \<not> complete_totp V clock secret then Inl ErrInvalid
            else
              (case unseal (ac_recovery ac) of Inl _ \<Rightarrow> Inl ErrInvalid | Inr recovery \<Rightarrow> Inr (pass, secret, recovery))))"

definition target_with ::
  "asset_row \<Rightarrow> membership_row \<Rightarrow> string \<Rightarrow> string \<Rightarrow> account_material \<Rightarrow> string \<Rightarrow> string \<times> string \<times> string \<Rightarrow> delivery_target" where
  "target_with a m ws pw ac subject = (\<lambda>(pass, secret, recovery).
     \<lparr>dt_asset = as_id a, dt_membership = as_membership a, dt_workspace = ws, dt_platform_workspace = pw,
      dt_target = mb_target m, dt_identifier = ac_identifier ac, dt_password = pass, dt_totp = secret,
      dt_recovery = recovery, dt_subject = subject\<rparr>)"

text \<open>DeliveryTarget: the subject is scanned into a string, so the row must have one.\<close>

definition delivery_target_of ::
  "faults \<Rightarrow> vault \<Rightarrow> instant \<Rightarrow> string \<Rightarrow> 'z store_db_scheme \<Rightarrow> (store_error, delivery_target) result" where
  "delivery_target_of flt V clock i db =
    (if flt 0 then Inl ErrDriver
     else case Option.bind (asset_of_task i (\<lambda>ty. ty = OAuthGenerate \<or> ty = OAuthProbe) db) (\<lambda>a.
            Option.bind (placed V (as_membership a) db) (\<lambda>(m, ws, pw).
            Option.bind (va_account V (mb_target m)) (\<lambda>ac. Some (a, m, ws, pw, ac)))) of
       None \<Rightarrow> Inl ErrNoRows
     | Some (a, m, ws, pw, ac) \<Rightarrow>
        (case ac_subject ac of
           None \<Rightarrow> Inl ErrNullScan
         | Some subject \<Rightarrow> map_sum id (target_with a m ws pw ac subject) (open_target_secrets V clock ac)))"

definition payload_text :: "string \<Rightarrow> json \<Rightarrow> string option" where
  "payload_text k j = (case j of JObj ms \<Rightarrow> (case obj_map ms k of Some (JStr s) \<Rightarrow> Some s | _ \<Rightarrow> None) | _ \<Rightarrow> None)"

definition reclaim_target_of ::
  "faults \<Rightarrow> vault \<Rightarrow> instant \<Rightarrow> string \<Rightarrow> 'z delivery_db_scheme \<Rightarrow> (store_error, reclaim_target) result" where
  "reclaim_target_of flt V clock i db =
    (if flt 0 then Inl ErrDriver
     else case Option.bind (asset_of_task i (\<lambda>ty. ty = OAuthReclaim) db) (\<lambda>a.
            Option.bind (placed V (as_membership a) db) (\<lambda>(m, ws, pw).
            Option.bind (va_account V (mb_target m)) (\<lambda>ac.
            Option.bind (find (\<lambda>d. od_membership d = mb_id m \<and> od_asset d = as_id a) (orders db)) (\<lambda>d.
            Option.bind (find (\<lambda>v. vs_id v = od_delivery d \<and> vs_asset v = as_id a) (versions db)) (\<lambda>v.
            Option.bind (find (\<lambda>c. cd_id c = od_card d \<and> cd_membership c = mb_id m) (cards db)) (\<lambda>c.
              Some (a, m, ws, pw, ac, d, v, c))))))) of
       None \<Rightarrow> Inl ErrNoRows
     | Some (a, m, ws, pw, ac, d, v, c) \<Rightarrow>
        (case (ac_subject ac, payload_text ''access_token'' (vs_payload v), payload_text ''refresh_token'' (vs_payload v)) of
           (Some subject, Some access, Some refresh) \<Rightarrow>
             map_sum id (\<lambda>secrets. delivery_target.extend (target_with a m ws pw ac subject secrets)
               (reclaim_target.fields (od_id d) (od_delivery d) access refresh (cd_id c)))
               (open_target_secrets V clock ac)
         | _ \<Rightarrow> Inl ErrNullScan))"

definition delivery_probe_target_of ::
  "faults \<Rightarrow> vault \<Rightarrow> string \<Rightarrow> 'z delivery_db_scheme \<Rightarrow> (store_error, delivery_probe_target) result" where
  "delivery_probe_target_of flt V i db =
    (if flt 0 then Inl ErrDriver
     else case Option.bind (asset_of_task i (\<lambda>ty. ty = OAuthProbe) db) (\<lambda>a.
            if as_status a \<notin> {''ready'', ''unavailable'', ''reclaiming''} then None
            else Option.bind (placed V (as_membership a) db) (\<lambda>(m, ws, pw).
              Option.bind (find (\<lambda>v. as_delivery a = Some (vs_id v) \<and> vs_asset v = as_id a) (versions db)) (\<lambda>v.
                Some (a, ws, pw, v)))) of
       None \<Rightarrow> Inl ErrNoRows
     | Some (a, ws, pw, v) \<Rightarrow>
        (case payload_text ''access_token'' (vs_payload v) of
           None \<Rightarrow> Inl ErrNullScan
         | Some access \<Rightarrow> Inr \<lparr>dp_asset = as_id a, dp_membership = as_membership a, dp_workspace = ws,
             dp_platform_workspace = pw, dp_access = access\<rparr>))"

section \<open>Queueing\<close>

text \<open>ON CONFLICT DO NOTHING: any unique key, the one live reclaim of an asset included.\<close>

definition live_reclaim :: "string option \<Rightarrow> task_row \<Rightarrow> bool" where
  "live_reclaim asset t \<longleftrightarrow> tk_type t = OAuthReclaim \<and> tk_asset t = asset
     \<and> (tk_status t = Queued \<or> tk_status t = Running \<or> tk_status t = RetryWait)"

definition insert_reclaim :: "task_row \<Rightarrow> (store_error, 'z store_db_scheme, bool) tx" where
  "insert_reclaim row = (\<lambda>db.
     if \<not> task_ok row then Inl ErrConstraint
     else if list_ex (\<lambda>t. same_key row t \<or> tk_id t = tk_id row \<or> live_reclaim (tk_asset row) t) (tasks db)
     then Inr (False, db)
     else Inr (True, db\<lparr>tasks := tasks db @ [row]\<rparr>))"

definition in_service :: "batch_row \<Rightarrow> bool" where
  "in_service b \<longleftrightarrow> ba_status b = ''serving'' \<or> ba_status b = ''removing''"

definition served_asset ::
  "vault \<Rightarrow> string \<Rightarrow> 'z store_db_scheme \<Rightarrow> (asset_row \<times> string) option" where
  "served_asset V asset db =
     Option.bind (find (\<lambda>a. as_id a = asset) (assets db)) (\<lambda>a.
     Option.bind (active_membership (as_membership a) db) (\<lambda>m.
     Option.bind (find (\<lambda>b. ba_id b = mb_batch m \<and> in_service b) (batches db)) (\<lambda>b.
     Option.bind (va_binding V (ba_id b)) (\<lambda>ws. Some (a, ws)))))"

definition asset_order :: "string \<Rightarrow> asset_row \<Rightarrow> 'z store_db_scheme \<Rightarrow> order_row option" where
  "asset_order i a db =
     find (\<lambda>d. od_id d = i \<and> od_asset d = as_id a \<and> od_membership d = as_membership a) (orders db)"

definition reclaim_row ::
  "vault \<Rightarrow> string \<Rightarrow> instant \<Rightarrow> string \<Rightarrow> string \<Rightarrow> string \<Rightarrow> string \<Rightarrow> 'z store_db_scheme \<Rightarrow> task_row option" where
  "reclaim_row V i now asset order sfx corr db =
     Option.bind (served_asset V asset db) (\<lambda>(a, ws).
     Option.bind (asset_order order a db) (\<lambda>d.
       if as_delivery a = Some (od_delivery d)
       then Some (delivery_task i now OAuthReclaim (as_membership a) (as_id a) ws
              (''oauth-reclaim:'' @ as_id a @ '':'' @ sfx) corr)
       else None))"

definition insert_reclaim_from :: "('z store_db_scheme \<Rightarrow> task_row option) \<Rightarrow> (store_error, 'z store_db_scheme, bool) tx" where
  "insert_reclaim_from q = (\<lambda>db. case q db of None \<Rightarrow> Inr (False, db) | Some row \<Rightarrow> insert_reclaim row db)"

definition reclaiming :: "instant \<Rightarrow> asset_row \<Rightarrow> asset_row" where
  "reclaiming now a =
     a\<lparr>as_status := ''reclaiming'', as_unavailable_reason := Some ''reclaim_in_progress'',
       as_origin := Some ''reclaim'', as_updated_at := now, as_version := as_version a + 1\<rparr>"

definition enqueue_delivery_reclaim ::
  "faults \<Rightarrow> vault \<Rightarrow> (nat \<Rightarrow> string) \<Rightarrow> instant \<Rightarrow> string \<Rightarrow> string \<Rightarrow> string \<Rightarrow> string \<Rightarrow> string
     \<Rightarrow> (store_error, 'z delivery_db_scheme, bool) tx" where
  "enqueue_delivery_reclaim flt V gid now asset order sfx corr origin =
    (if (origin \<noteq> ''customer'' \<and> origin \<noteq> ''owner'')
        \<or> trim_space asset = [] \<or> trim_space order = [] \<or> trim_space sfx = [] \<or> 64 < length sfx
     then tx_fail ErrInvalid
     else
       tx_bind (stmt flt 1 (tx_read (\<lambda>db.
         Option.bind (served_asset (V\<lparr>va_binding := Some\<rparr>) asset db) (\<lambda>(a, _).
         Option.bind (asset_order order a db) (\<lambda>d.
           find (\<lambda>c. cd_id c = od_card d \<and> cd_membership c = as_membership a) (cards db)))))) (\<lambda>cid.
       case cid of
         None \<Rightarrow> tx_return False
       | Some _ \<Rightarrow>
          tx_bind (stmt flt 2 (insert_reclaim_from (reclaim_row V (gid 2) now asset order sfx corr))) (\<lambda>created.
          if \<not> created then tx_return False
          else
            tx_bind (stmt flt 3 (checked_assets
              (\<lambda>a. as_id a = asset \<and> (as_status a = ''ready'' \<or> as_status a = ''unavailable'')) (reclaiming now)))
              (\<lambda>_. tx_return True))))"

definition enqueue_customer_reclaim ::
  "faults \<Rightarrow> vault \<Rightarrow> (nat \<Rightarrow> string) \<Rightarrow> instant \<Rightarrow> string \<Rightarrow> string \<Rightarrow> string \<Rightarrow> string
     \<Rightarrow> 'z delivery_db_scheme \<Rightarrow> (store_error, bool) result \<times> 'z delivery_db_scheme" where
  "enqueue_customer_reclaim flt V gid now asset order sfx corr =
     in_tx flt 4 (enqueue_delivery_reclaim flt V gid now asset order sfx corr ''customer'')"

definition enqueue_customer_probe ::
  "faults \<Rightarrow> vault \<Rightarrow> (nat \<Rightarrow> string) \<Rightarrow> instant \<Rightarrow> string \<Rightarrow> string \<Rightarrow> string
     \<Rightarrow> (store_error, 'z store_db_scheme, bool) tx" where
  "enqueue_customer_probe flt V gid now asset sfx corr =
    (if trim_space asset = [] \<or> trim_space sfx = [] \<or> 64 < length sfx then tx_fail ErrInvalid
     else stmt flt 1 (\<lambda>db.
       case served_asset V asset db of
         None \<Rightarrow> Inr (False, db)
       | Some (a, ws) \<Rightarrow>
          if as_delivery a = None then Inr (False, db)
          else insert_task (delivery_task (gid 1) now OAuthProbe (as_membership a) (as_id a) ws
                 (''oauth-probe:'' @ as_id a @ '':customer:'' @ sfx) corr) db))"

text \<open>One probe for every asset in service that has a version and no running attempt.\<close>

definition probe_due ::
  "vault \<Rightarrow> string \<Rightarrow> 'z delivery_db_scheme \<Rightarrow> asset_row \<Rightarrow> string option" where
  "probe_due V batch db a =
    (if (as_status a \<noteq> ''ready'' \<and> as_status a \<noteq> ''unavailable'')
        \<or> \<not> list_ex (\<lambda>v. as_delivery a = Some (vs_id v) \<and> vs_asset v = as_id a) (versions db)
        \<or> list_ex (\<lambda>x. oa_asset x = as_id a \<and> oa_state x = ''running'') (oauth_attempts db)
     then None
     else Option.bind (active_membership (as_membership a) db) (\<lambda>m.
       if batch \<noteq> [] \<and> batch \<noteq> mb_batch m then None else va_binding V (mb_batch m)))"

definition due_probes ::
  "vault \<Rightarrow> (nat \<Rightarrow> string) \<Rightarrow> instant \<Rightarrow> string \<Rightarrow> string \<Rightarrow> string \<Rightarrow> 'z delivery_db_scheme \<Rightarrow> task_row list" where
  "due_probes V gid now batch corr sfx db =
     List.map_filter (\<lambda>(k, a). map_option (\<lambda>ws. delivery_task (gid k) now OAuthProbe (as_membership a) (as_id a) ws
         (''oauth-probe:'' @ as_id a @ '':'' @ sfx) corr) (probe_due V batch db a))
       (enumerate 0 (assets db))"

definition enqueue_delivery_probes ::
  "faults \<Rightarrow> vault \<Rightarrow> (nat \<Rightarrow> string) \<Rightarrow> instant \<Rightarrow> string \<Rightarrow> string \<Rightarrow> string
     \<Rightarrow> 'z delivery_db_scheme \<Rightarrow> (store_error, nat) result \<times> 'z delivery_db_scheme" where
  "enqueue_delivery_probes flt V gid now batch corr sfx =
    (if trim_space sfx = [] then (\<lambda>db. (Inl ErrInvalid, db))
     else run_tx (stmt flt 0 (\<lambda>db. insert_tasks (due_probes V gid now batch corr sfx db) db)))"

section \<open>Attempts\<close>

text \<open>The fence: the held lease, its asset, and a membership and batch still in service.\<close>

definition delivery_fenced :: "task_item \<Rightarrow> instant \<Rightarrow> 'z store_db_scheme \<Rightarrow> asset_row option" where
  "delivery_fenced item now db =
     find (\<lambda>a. as_id a = it_asset item
         \<and> list_ex (\<lambda>t. fenced (it_id item) (it_token item) now t \<and> tk_asset t = Some (as_id a)) (tasks db)
         \<and> (case active_membership (as_membership a) db of None \<Rightarrow> False | Some m \<Rightarrow> open_batch (mb_batch m) db \<noteq> None))
       (assets db)"

definition check_current :: "delivery_attempt \<Rightarrow> asset_row \<Rightarrow> (store_error, 'z store_db_scheme, unit) tx" where
  "check_current attempt a =
    (case as_attempt a of
       None \<Rightarrow> tx_fail ErrNullScan
     | Some i \<Rightarrow>
        if as_generation a \<noteq> da_generation attempt \<or> i \<noteq> da_id attempt then tx_fail ErrSuperseded else tx_return ())"

definition current_attempt ::
  "faults \<Rightarrow> instant \<Rightarrow> task_item \<Rightarrow> delivery_attempt \<Rightarrow> (store_error, 'z store_db_scheme, asset_row) tx" where
  "current_attempt flt now item attempt =
     tx_bind (stmt flt 1 (select_row (delivery_fenced item now) ErrLeaseLost)) (\<lambda>a.
     tx_bind (check_current attempt a) (\<lambda>_. tx_return a))"

definition attempt_kind :: "task_type \<Rightarrow> string" where
  "attempt_kind ty = (if ty = OAuthProbe then ''probe'' else if ty = OAuthReclaim then ''reclaim'' else ''generate'')"

definition attempt_generation :: "task_type \<Rightarrow> int \<Rightarrow> int" where
  "attempt_generation ty g = (if ty = OAuthProbe then g else g + 1)"

definition next_attempt_no :: "string \<Rightarrow> int \<Rightarrow> 'z store_db_scheme \<Rightarrow> int" where
  "next_attempt_no asset g db =
     Max (insert 0 (oa_no ` set (filter (\<lambda>x. oa_asset x = asset \<and> oa_generation x = g) (oauth_attempts db)))) + 1"

definition new_attempt :: "string \<Rightarrow> task_item \<Rightarrow> int \<Rightarrow> int \<Rightarrow> oauth_attempt_row" where
  "new_attempt i item g n =
     \<lparr>oa_id = i, oa_asset = it_asset item, oa_task = it_id item, oa_generation = g, oa_no = n,
      oa_kind = attempt_kind (it_type item), oa_state = ''running'', oa_outcome = None, oa_published = None,
      oa_order = None, oa_finished_at = None\<rparr>"

definition insert_oauth_attempt :: "oauth_attempt_row \<Rightarrow> (store_error, 'z store_db_scheme, unit) tx" where
  "insert_oauth_attempt x = (\<lambda>db.
     if attempt_fits x (oauth_attempts db) then Inr ((), db\<lparr>oauth_attempts := oauth_attempts db @ [x]\<rparr>)
     else Inl ErrConstraint)"

definition begun :: "instant \<Rightarrow> task_type \<Rightarrow> int \<Rightarrow> string \<Rightarrow> asset_row \<Rightarrow> asset_row" where
  "begun now ty g i a =
     a\<lparr>as_generation := g, as_attempt := Some i,
       as_status := (if ty = OAuthReclaim then ''reclaiming'' else ''generating''),
       as_unavailable_reason := (if ty = OAuthReclaim then Some ''reclaim_in_progress'' else None),
       as_updated_at := now, as_version := as_version a + 1\<rparr>"

definition begin_delivery_attempt ::
  "faults \<Rightarrow> vault \<Rightarrow> (nat \<Rightarrow> string) \<Rightarrow> instant \<Rightarrow> task_item
     \<Rightarrow> 'z store_db_scheme \<Rightarrow> (store_error, delivery_attempt) result \<times> 'z store_db_scheme" where
  "begin_delivery_attempt flt V gid now item =
     in_tx flt 9
       (tx_bind (stmt flt 1 (select_row (delivery_fenced item now) ErrLeaseLost)) (\<lambda>a.
        let g = attempt_generation (it_type item) (as_generation a); i = gid 3 in
        tx_bind (stmt flt 2 (tx_read (next_attempt_no (it_asset item) g))) (\<lambda>n.
        tx_bind (stmt flt 3 (insert_oauth_attempt (new_attempt i item g n))) (\<lambda>_.
        tx_bind (if it_type item = OAuthReclaim
                 then stmt flt 4 (checked_attempts (\<lambda>x. oa_id x = i) (\<lambda>x. x\<lparr>oa_order := va_order V (oa_task x)\<rparr>))
                 else tx_return ()) (\<lambda>_.
        tx_bind (stmt flt 5 (checked_assets (\<lambda>x. as_id x = it_asset item) (begun now (it_type item) g i))) (\<lambda>_.
        tx_bind (audit_fact (va_hash V) flt 6 (gid 6) now
          (delivery_event DeliveryAttemptStarted (it_workspace item) ''oauth_attempt'' i OutcomeSucceeded (it_correlation item)
             (DeliveryAttemptDetails g (it_attempt item) ''started'' (attempt_kind (it_type item)) ''pending'' 0 [])
             (i @ '':started''))) (\<lambda>_.
        tx_return \<lparr>da_id = i, da_generation = g, da_no = n\<rparr>)))))))"

section \<open>Settling an attempt whose lease is lost\<close>

definition lost_event :: "task_item \<Rightarrow> delivery_attempt \<Rightarrow> string \<Rightarrow> event" where
  "lost_event item attempt stage =
     delivery_event DeliveryAttemptSettled (it_workspace item) ''oauth_attempt'' (da_id attempt) OutcomeFailed
       (it_correlation item)
       (DeliveryAttemptDetails (da_generation attempt) (da_no attempt) ''lease_lost'' stage ''unknown'' 0 [])
       (da_id attempt @ '':lease_lost:'' @ stage)"

text \<open>
  recordDeliveryLeaseLost and the commit after it, whose errors are ignored: a refused
  statement aborts the transaction, an error of the audit package itself does not.
\<close>

definition lease_lost ::
  "faults \<Rightarrow> vault \<Rightarrow> (nat \<Rightarrow> string) \<Rightarrow> instant \<Rightarrow> task_item \<Rightarrow> delivery_attempt \<Rightarrow> string
     \<Rightarrow> 'z store_db_scheme \<Rightarrow> 'z store_db_scheme" where
  "lease_lost flt V gid now item attempt stage db =
    (let P = running_attempt (da_id attempt);
         db1 = db\<lparr>oauth_attempts := update_where P (settled_attempt ''superseded'' ''lease_lost'' now) (oauth_attempts db)\<rparr> in
     if flt 20 \<or> flt 23 \<or> affected P (oauth_attempts db) = 0 then db
     else case audit_fact (va_hash V) flt 21 (gid 21) now (lost_event item attempt stage) db1 of
            Inr (_, db2) \<Rightarrow> db2
          | Inl e \<Rightarrow> if e = ErrAudit AuditDriver then db else db1)"

definition fence_lost :: "faults \<Rightarrow> task_item \<Rightarrow> instant \<Rightarrow> 'z store_db_scheme \<Rightarrow> bool" where
  "fence_lost flt item now db \<longleftrightarrow> \<not> flt 0 \<and> \<not> flt 1 \<and> delivery_fenced item now db = None"

section \<open>Finishing a probe\<close>

definition settled_event ::
  "task_item \<Rightarrow> delivery_attempt \<Rightarrow> outcome \<Rightarrow> string \<Rightarrow> string \<Rightarrow> string \<Rightarrow> int \<Rightarrow> string \<Rightarrow> string \<Rightarrow> event" where
  "settled_event item attempt oc result stage status http code key =
     delivery_event DeliveryAttemptSettled (it_workspace item) ''oauth_attempt'' (da_id attempt) oc (it_correlation item)
       (DeliveryAttemptDetails (da_generation attempt) (da_no attempt) result stage status http code)
       (da_id attempt @ key)"

definition card_event ::
  "event_type \<Rightarrow> task_item \<Rightarrow> string \<Rightarrow> outcome \<Rightarrow> details \<Rightarrow> string \<Rightarrow> event" where
  "card_event ty item i oc d key = delivery_event ty i ''card'' i oc (it_correlation item) d key"

definition two_hundred :: "int \<Rightarrow> bool" where
  "two_hundred http \<longleftrightarrow> 200 \<le> http \<and> http < 300"

definition retryable_status :: "string \<Rightarrow> bool" where
  "retryable_status st \<longleftrightarrow> st = ''unknown'' \<or> st = ''transient_failure'' \<or> st = ''rate_limited''"

definition customer_probe_public_result :: "string \<Rightarrow> string" where
  "customer_probe_public_result st =
    (if st = ''ok'' then ''healthy'' else if st = ''auth_error'' then ''need_reclaim''
     else if st = ''deactivated_workspace'' then ''cannot_reclaim'' else ''unknown'')"

definition probed_asset :: "instant \<Rightarrow> liveness \<Rightarrow> string \<Rightarrow> string \<Rightarrow> string \<Rightarrow> asset_row \<Rightarrow> asset_row" where
  "probed_asset now p st result origin a =
     a\<lparr>as_status := st, as_liveness := Some (lv_status p), as_http := nullif 0 (lv_http p), as_error := nullif [] result,
       as_origin := Some origin, as_probed_at := Some (lv_observed_at p),
       as_unavailable_reason := (if st = ''unavailable'' then nullif [] result else as_unavailable_reason a),
       as_updated_at := now, as_version := as_version a + 1\<rparr>"

text \<open>The active card and the order that still delivers the current version of the asset.\<close>

definition reclaimable_order :: "string \<Rightarrow> 'z delivery_db_scheme \<Rightarrow> (string \<times> string) option" where
  "reclaimable_order asset db =
     map_option (\<lambda>d. (od_card d, od_id d))
       (find (\<lambda>d. od_asset d = asset \<and> list_ex (\<lambda>c. cd_id c = od_card d \<and> cd_active c) (cards db)
            \<and> list_ex (\<lambda>a. as_id a = asset \<and> as_delivery a = Some (od_delivery d)) (assets db)) (orders db))"

definition automatic_reclaim ::
  "faults \<Rightarrow> vault \<Rightarrow> (nat \<Rightarrow> string) \<Rightarrow> instant \<Rightarrow> task_item \<Rightarrow> int \<Rightarrow> (store_error, 'z delivery_db_scheme, unit) tx" where
  "automatic_reclaim flt V gid now item generation =
     tx_bind (stmt flt 4 (tx_read (reclaimable_order (it_asset item)))) (\<lambda>found.
     case found of
       None \<Rightarrow> tx_return ()
     | Some (cid, order) \<Rightarrow>
        tx_bind (stmt flt 5 (insert_reclaim_from
          (reclaim_row V (gid 5) now (it_asset item) order (''auto:'' @ itoa generation) (it_correlation item)))) (\<lambda>queued.
        if \<not> queued then tx_return ()
        else
          tx_bind (stmt flt 6 (checked_assets (\<lambda>a. as_id a = it_asset item) (reclaiming now))) (\<lambda>_.
          audit_fact (va_hash V) flt 7 (gid 7) now
            (card_event PublicReclaimUpdated item cid OutcomeSucceeded
               (PublicAccessDetails ''reclaim_request'' ''queued'' [] ''authoritative_401'')
               (it_id item @ '':automatic-reclaim'')))))"

definition customer_status ::
  "faults \<Rightarrow> vault \<Rightarrow> (nat \<Rightarrow> string) \<Rightarrow> instant \<Rightarrow> task_item \<Rightarrow> delivery_attempt \<Rightarrow> string \<Rightarrow> liveness \<Rightarrow> outcome \<Rightarrow> string
     \<Rightarrow> (store_error, 'z delivery_db_scheme, unit) tx" where
  "customer_status flt V gid now item attempt membership p oc result =
     tx_bind (stmt flt 12 (tx_read (\<lambda>db. find (\<lambda>c. cd_membership c = membership) (cards db)))) (\<lambda>cid.
     case cid of
       None \<Rightarrow> tx_return ()
     | Some c \<Rightarrow>
        audit_fact (va_hash V) flt 13 (gid 13) now
          (card_event PublicStatusChanged item (cd_id c) oc
             (PublicAccessDetails ''status_check'' (customer_probe_public_result (lv_status p))
                (customer_probe_public_result (lv_status p)) result)
             (da_id attempt @ '':customer-status'')))"

definition finish_delivery_probe ::
  "faults \<Rightarrow> vault \<Rightarrow> (nat \<Rightarrow> string) \<Rightarrow> instant \<Rightarrow> task_item \<Rightarrow> delivery_attempt \<Rightarrow> delivery_probe_target \<Rightarrow> liveness
     \<Rightarrow> 'z delivery_db_scheme \<Rightarrow> (store_error, unit) result \<times> 'z delivery_db_scheme" where
  "finish_delivery_probe flt V gid now item attempt target p db =
    (if fence_lost flt item now db then (Inl ErrLeaseLost, lease_lost flt V gid now item attempt ''probe'' db)
     else
      (let success = (lv_status p = ''ok'' \<and> two_hundred (lv_http p));
           status = (if lv_status p = ''auth_error'' \<or> lv_status p = ''deactivated_workspace'' then ''unavailable'' else ''ready'');
           result = or_default (lv_error p) (lv_status p);
           state = (if \<not> success \<and> retryable_status (lv_status p) then ''failed'' else ''published'');
           origin = (if lv_origin p = ''customer'' then ''customer'' else ''scheduled'');
           oc = (if success then OutcomeSucceeded else OutcomeFailed) in
       in_tx flt 15
        (tx_bind (current_attempt flt now item attempt) (\<lambda>a. tx_seq
          [stmt flt 2 (checked_attempts (running_attempt (da_id attempt)) (settled_attempt state result now)),
           stmt flt 3 (checked_assets (\<lambda>x. as_id x = it_asset item) (probed_asset now p status result origin)),
           (if origin \<noteq> ''customer'' \<and> lv_status p = ''auth_error'' \<and> lv_http p = 401
            then automatic_reclaim flt V gid now item (as_generation a) else tx_return ()),
           stmt flt 9 (checked_tasks (fenced (it_id item) (it_token item) now)
             (delivery_released (if state = ''failed'' then RetryWait else Succeeded) now)),
           audit_fact (va_hash V) flt 10 (gid 10) now
             (settled_event item attempt oc result ''probe'' (lv_status p) (lv_http p) (lv_error p) '':probe-settled''),
           (if origin = ''customer''
            then customer_status flt V gid now item attempt (dp_membership target) p oc result else tx_return ())])) db))"

section \<open>Finishing a reclaim\<close>

definition reclaim_stages :: "string list" where
  "reclaim_stages = [''probe'', ''refresh'', ''relogin'', ''publish'']"

definition record_reclaim_stage ::
  "faults \<Rightarrow> vault \<Rightarrow> (nat \<Rightarrow> string) \<Rightarrow> instant \<Rightarrow> task_item \<Rightarrow> delivery_attempt \<Rightarrow> string \<Rightarrow> string
     \<Rightarrow> 'z delivery_db_scheme \<Rightarrow> (store_error, unit) result \<times> 'z delivery_db_scheme" where
  "record_reclaim_stage flt V gid now item attempt stage tier =
    (if stage \<notin> set reclaim_stages then (\<lambda>db. (Inl ErrInvalid, db))
     else in_tx flt 9
      (tx_bind (current_attempt flt now item attempt) (\<lambda>_.
       tx_bind (tx_seq
         [stmt flt 2 (checked_tasks
            (\<lambda>t. tk_id t = it_id item \<and> tk_lease_token t = Some (it_token item) \<and> tk_status t = Running)
            (\<lambda>t. t\<lparr>tk_reclaim_stage := Some stage, tk_reclaim_tier := nullif [] tier, tk_updated_at := now,
               tk_version := tk_version t + 1\<rparr>)),
          audit_fact (va_hash V) flt 3 (gid 3) now
            (settled_event item attempt OutcomeSucceeded stage ''reclaim'' ''pending'' 0 [] ('':stage:'' @ stage))]) (\<lambda>_.
       tx_bind (stmt flt 5 (select_row (\<lambda>db. map_option od_card (find (\<lambda>d. od_asset d = it_asset item) (orders db))) ErrNoRows)) (\<lambda>cid.
       audit_fact (va_hash V) flt 6 (gid 6) now
         (card_event PublicReclaimUpdated item cid OutcomeSucceeded
            (PublicAccessDetails ''reclaim_status'' ''checking'' stage []) (da_id attempt @ '':public-stage:'' @ stage)))))))"

definition payload_json :: "credential_set \<Rightarrow> json" where
  "payload_json c = JObj
     [(''access_token'', JStr (cs_access c)), (''expires_in'', json_int (cs_expires_in c)),
      (''id_token'', JStr (cs_identity c)), (''platform_subject_id'', JStr (cs_subject c)),
      (''refresh_token'', JStr (cs_refresh c)), (''scope'', JStr (cs_scope c)),
      (''workspace_id'', JStr (cs_workspace c))]"

definition insert_version :: "version_row \<Rightarrow> (store_error, 'z delivery_db_scheme, unit) tx" where
  "insert_version v = (\<lambda>db.
     if version_ok v (versions db) then Inr ((), db\<lparr>versions := versions db @ [v]\<rparr>) else Inl ErrConstraint)"

definition new_version ::
  "vault \<Rightarrow> string \<Rightarrow> task_item \<Rightarrow> delivery_attempt \<Rightarrow> credential_set \<Rightarrow> string \<Rightarrow> string \<Rightarrow> version_row" where
  "new_version V i item attempt c subject ws =
     \<lparr>vs_id = i, vs_asset = it_asset item, vs_generation = da_generation attempt, vs_payload = payload_json c,
      vs_hash = va_hash V (va_marshal V (payload_json c)), vs_subject = subject, vs_workspace = ws\<rparr>"

definition trimmed_nonempty :: "string \<Rightarrow> bool" where
  "trimmed_nonempty s \<longleftrightarrow> trim_space s \<noteq> []"

definition tokens_complete :: "credential_set \<Rightarrow> bool" where
  "tokens_complete c \<longleftrightarrow> trimmed_nonempty (cs_refresh c) \<and> trimmed_nonempty (cs_access c) \<and> trimmed_nonempty (cs_identity c)"

definition same_folded :: "unicode \<Rightarrow> string \<Rightarrow> string \<Rightarrow> bool" where
  "same_folded U a b \<longleftrightarrow> equal_fold U (trim_space a) (trim_space b)"

definition reclaim_success ::
  "unicode \<Rightarrow> 'z reclaim_target_scheme \<Rightarrow> credential_set \<Rightarrow> liveness \<Rightarrow> bool \<Rightarrow> bool" where
  "reclaim_success U target c p no_action \<longleftrightarrow>
     \<not> no_action \<and> tokens_complete c \<and> trimmed_nonempty (dt_subject target)
     \<and> same_folded U (cs_subject c) (dt_subject target)
     \<and> lv_status p = ''ok'' \<and> two_hundred (lv_http p)
     \<and> same_folded U (lv_workspace p) (dt_platform_workspace target)
     \<and> same_folded U (lv_subject p) (dt_subject target)"

definition published_asset ::
  "instant \<Rightarrow> string \<Rightarrow> string \<Rightarrow> liveness \<Rightarrow> string \<Rightarrow> asset_row \<Rightarrow> asset_row" where
  "published_asset now version subject p origin a =
     a\<lparr>as_delivery := Some version, as_status := ''ready'', as_subject := Some subject, as_liveness := Some ''ok'',
       as_http := Some (lv_http p), as_error := None, as_origin := Some origin, as_probed_at := Some (lv_observed_at p),
       as_unavailable_reason := None, as_updated_at := now, as_version := as_version a + 1\<rparr>"

text \<open>The order moves to the new version only from the one the target was read with.\<close>

definition move_order ::
  "instant \<Rightarrow> string \<Rightarrow> string \<Rightarrow> string \<Rightarrow> string \<Rightarrow> (store_error, 'z delivery_db_scheme, unit) tx" where
  "move_order now order asset old new =
     exactly_one (\<lambda>db. affected (\<lambda>d. od_id d = order \<and> od_asset d = asset \<and> od_delivery d = old) (orders db))
       (\<lambda>db. db\<lparr>orders := update_where (\<lambda>d. od_id d = order \<and> od_asset d = asset \<and> od_delivery d = old)
          (\<lambda>d. d\<lparr>od_delivery := new, od_updated_at := now, od_version := od_version d + 1\<rparr>) (orders db)\<rparr>) ErrSuperseded"

definition revoke_tokens :: "instant \<Rightarrow> string \<Rightarrow> (store_error, 'z delivery_db_scheme, unit) tx" where
  "revoke_tokens now order = (\<lambda>db. Inr ((), db\<lparr>public_tokens := update_where
     (\<lambda>t. pt_order t = order \<and> pt_revoked_at t = None)
     (\<lambda>t. t\<lparr>pt_revoked_at := Some now, pt_reason := Some ''reclaim_published''\<rparr>) (public_tokens db)\<rparr>))"

definition publish_reclaimed ::
  "faults \<Rightarrow> vault \<Rightarrow> (nat \<Rightarrow> string) \<Rightarrow> instant \<Rightarrow> task_item \<Rightarrow> delivery_attempt \<Rightarrow> 'r reclaim_target_scheme
     \<Rightarrow> credential_set \<Rightarrow> liveness \<Rightarrow> (store_error, 'z delivery_db_scheme, unit) tx" where
  "publish_reclaimed flt V gid now item attempt target c p =
     tx_seq
       [stmt flt 2 (insert_version (new_version V (gid 2) item attempt c (lv_subject p) (dt_workspace target))),
        stmt flt 3 (move_order now (rc_order target) (it_asset item) (rc_version target) (gid 2)),
        stmt flt 4 (revoke_tokens now (rc_order target)),
        stmt flt 5 (checked_attempts (\<lambda>x. oa_id x = da_id attempt) (\<lambda>x. x\<lparr>oa_published := Some (gid 2)\<rparr>)),
        stmt flt 6 (checked_assets (\<lambda>a. as_id a = it_asset item \<and> as_delivery a = Some (rc_version target))
          (published_asset now (gid 2) (dt_subject target) p ''reclaim''))]"

definition reclaim_audit_result :: "string \<Rightarrow> string \<Rightarrow> task_status \<Rightarrow> bool \<Rightarrow> string" where
  "reclaim_audit_result tier result st no_action =
    (if no_action \<or> tier = ''probe_ok'' then ''healthy''
     else if result = ''unrecoverable'' \<or> tier = ''unrecoverable'' then ''unrecoverable''
     else if st = Succeeded \<and> (tier = ''token_refresh'' \<or> tier = ''full_relogin'') then ''restored''
     else ''unknown'')"

definition unreclaimed_asset :: "instant \<Rightarrow> liveness \<Rightarrow> string \<Rightarrow> asset_row \<Rightarrow> asset_row" where
  "unreclaimed_asset now p st a =
     a\<lparr>as_status := st, as_liveness := nullif [] (lv_status p), as_http := nullif 0 (lv_http p),
       as_error := nullif [] (lv_error p), as_origin := Some ''reclaim'', as_probed_at := Some (lv_observed_at p),
       as_unavailable_reason := (if st = ''unavailable'' then nullif [] (lv_error p)
          else if st = ''reclaiming'' then Some ''reclaim_in_progress'' else None),
       as_updated_at := now, as_version := as_version a + 1\<rparr>"

text \<open>
  FinishDeliveryReclaim.  Without success nothing is published; an inconclusive probe leaves
  the asset reclaiming and the task waiting while attempts are left.
\<close>

definition finish_delivery_reclaim ::
  "faults \<Rightarrow> vault \<Rightarrow> (nat \<Rightarrow> string) \<Rightarrow> instant \<Rightarrow> task_item \<Rightarrow> delivery_attempt \<Rightarrow> 'r reclaim_target_scheme
     \<Rightarrow> credential_set \<Rightarrow> liveness \<Rightarrow> string \<Rightarrow> bool \<Rightarrow> bool
     \<Rightarrow> 'z delivery_db_scheme \<Rightarrow> (store_error, unit) result \<times> 'z delivery_db_scheme" where
  "finish_delivery_reclaim flt V gid now item attempt target c p given_tier no_action unavailable =
    (let tier = or_default given_tier ''unrecoverable'';
         success = reclaim_success (va_unicode V) target c p no_action;
         settled = (if no_action \<or> success then Succeeded else Failed);
         result = (if unavailable \<and> \<not> success then ''unrecoverable'' else if no_action then ''probe_ok'' else tier);
         retry = (\<not> success \<and> (retryable_status (lv_status p) \<or> lv_http p = 0) \<and> it_attempt item < 3);
         task_end = (if retry then RetryWait else settled);
         asset_end = (if retry then ''reclaiming'' else if no_action then ''ready'' else ''unavailable'');
         oc = (if task_end = Succeeded then OutcomeSucceeded else OutcomeFailed) in
     in_tx flt 20
      (tx_bind (current_attempt flt now item attempt) (\<lambda>_. tx_seq
        [(if success then publish_reclaimed flt V gid now item attempt target c p else tx_return ()),
         stmt flt 7 (checked_attempts (running_attempt (da_id attempt))
           (settled_attempt (if settled = Succeeded then ''published'' else ''failed'') result now)),
         (if success then tx_return ()
          else stmt flt 8 (checked_assets (\<lambda>a. as_id a = it_asset item) (unreclaimed_asset now p asset_end))),
         stmt flt 9 (checked_tasks
           (\<lambda>t. tk_id t = it_id item \<and> tk_lease_token t = Some (it_token item) \<and> tk_status t = Running)
           (\<lambda>t. (delivery_released task_end now t)
              \<lparr>tk_reclaim_tier := Some tier, tk_reclaim_result := Some result, tk_reclaim_probe := nullif [] (lv_status p),
               tk_reclaim_http := nullif 0 (lv_http p), tk_reclaim_stage := Some ''publish''\<rparr>)),
         audit_fact (va_hash V) flt 10 (gid 10) now
           (settled_event item attempt oc result ''reclaim'' (lv_status p) (lv_http p) (lv_error p) '':reclaim-settled''),
         audit_fact (va_hash V) flt 12 (gid 12) now
           (card_event PublicReclaimUpdated item (rc_card target) oc
              (PublicAccessDetails ''reclaim_status'' (reclaim_audit_result tier result task_end no_action) [] result)
              (da_id attempt @ '':public-reclaim-updated'')),
         (if task_end = Succeeded
          then audit_fact (va_hash V) flt 14 (gid 14) now
            (delivery_event DeliveryPublished (it_workspace item) ''oauth_asset'' (it_asset item) OutcomeSucceeded
               (it_correlation item)
               (DeliveryAttemptDetails (da_generation attempt) (da_no attempt) result ''reclaim'' ''ok'' (lv_http p) [])
               (it_asset item @ '':reclaim:'' @ itoa (da_generation attempt)))
          else tx_return ())])))"

section \<open>Finishing a generation\<close>

definition same_trimmed :: "string \<Rightarrow> string \<Rightarrow> bool" where
  "same_trimmed a b \<longleftrightarrow> trim_space a = trim_space b"

definition generation_success :: "'z delivery_target_scheme \<Rightarrow> credential_set \<Rightarrow> liveness \<Rightarrow> bool" where
  "generation_success target c p \<longleftrightarrow>
     tokens_complete c
     \<and> (\<not> trimmed_nonempty (dt_subject target) \<or> same_trimmed (cs_subject c) (dt_subject target))
     \<and> same_trimmed (cs_workspace c) (dt_platform_workspace target)
     \<and> same_trimmed (lv_workspace p) (dt_platform_workspace target)
     \<and> trimmed_nonempty (cs_subject c) \<and> same_trimmed (lv_subject p) (cs_subject c)
     \<and> lv_status p = ''ok'' \<and> two_hundred (lv_http p)"

definition failed_asset :: "instant \<Rightarrow> string \<Rightarrow> string \<Rightarrow> liveness \<Rightarrow> asset_row \<Rightarrow> asset_row" where
  "failed_asset now status result p a =
     a\<lparr>as_status := ''unavailable'', as_liveness := Some status, as_http := nullif 0 (lv_http p),
       as_error := nullif [] result, as_origin := Some ''generation'', as_probed_at := Some (lv_observed_at p),
       as_unavailable_reason := Some result, as_updated_at := now, as_version := as_version a + 1\<rparr>"

text \<open>
  The status the task ends in is either retry_wait or failed; the source has no branch that
  sets it to succeeded.
\<close>

definition generation_end :: "bool \<Rightarrow> liveness \<Rightarrow> task_status" where
  "generation_end success p = (if \<not> success \<and> retryable_status (lv_status p) then RetryWait else Failed)"

definition finish_delivery_attempt ::
  "faults \<Rightarrow> vault \<Rightarrow> (nat \<Rightarrow> string) \<Rightarrow> instant \<Rightarrow> task_item \<Rightarrow> delivery_attempt \<Rightarrow> 'r delivery_target_scheme
     \<Rightarrow> credential_set \<Rightarrow> liveness \<Rightarrow> 'z delivery_db_scheme \<Rightarrow> (store_error, unit) result \<times> 'z delivery_db_scheme" where
  "finish_delivery_attempt flt V gid now item attempt target c p db =
    (if fence_lost flt item now db then (Inl ErrLeaseLost, lease_lost flt V gid now item attempt ''publish'' db)
     else
      (let success = generation_success target c p;
           status = (if success then ''ok'' else or_default (lv_status p) ''unknown'');
           result = (if success then ''oauth_published'' else or_default (trim_space (lv_error p)) ''oauth_publish_blocked'');
           oc = (if success then OutcomeSucceeded else OutcomeFailed) in
       in_tx flt 20
        (tx_bind (current_attempt flt now item attempt) (\<lambda>_. tx_seq
          [(if success then tx_seq
              [stmt flt 2 (insert_version (new_version V (gid 2) item attempt c (cs_subject c) (dt_workspace target))),
               stmt flt 3 (checked_attempts (running_attempt (da_id attempt))
                 (\<lambda>x. (settled_attempt ''published'' result now x)\<lparr>oa_published := Some (gid 2)\<rparr>)),
               stmt flt 4 (checked_assets (\<lambda>a. as_id a = it_asset item)
                 (published_asset now (gid 2) (cs_subject c) p ''generation''))]
            else tx_seq
              [stmt flt 3 (checked_attempts (running_attempt (da_id attempt)) (settled_attempt ''failed'' result now)),
               stmt flt 4 (checked_assets (\<lambda>a. as_id a = it_asset item) (failed_asset now status result p))]),
           stmt flt 9 (checked_tasks (fenced (it_id item) (it_token item) now)
             (delivery_released (generation_end success p) now)),
           audit_fact (va_hash V) flt 10 (gid 10) now
             (settled_event item attempt oc result ''publish'' status (lv_http p) (lv_error p) '':settled''),
           (if success
            then audit_fact (va_hash V) flt 12 (gid 12) now
              (delivery_event DeliveryPublished (it_workspace item) ''oauth_asset'' (it_asset item) OutcomeSucceeded
                 (it_correlation item)
                 (DeliveryAttemptDetails (da_generation attempt) (da_no attempt) ''published'' ''publish'' ''ok'' (lv_http p) [])
                 (it_asset item @ '':published:'' @ itoa (da_generation attempt)))
            else tx_return ())])) db))"

end
