(* ===== verification/DeliveryReads.thy ===== *)
theory DeliveryReads
  imports TaskDelivery
begin

text \<open>
  Package internal/platform, files oauth.go and pkce.go: the identity a token claims, the
  refresh of a credential set and the liveness of an access token.  A claim is only decoded,
  not verified: it is the answer of the authenticated request that carries it.  Record
  \<open>token_decoders\<close> holds what encoding/json yields for the structs of these files.  \<open>net\<close> answers one
  request: the liveness read by its URL and bearer token, the refresh by its refresh token.
\<close>

section \<open>Token claims\<close>

record token_claims =
  tc_subject :: string
  tc_workspace :: string
  tc_user :: string

record token_decoders =
  td_syntax :: json_syntax
  td_claims :: "string \<Rightarrow> token_claims option"
  td_identity :: "string \<Rightarrow> (string \<times> string) option"
  td_credentials :: "string \<Rightarrow> credential_set option"

definition token_identity :: "token_decoders \<Rightarrow> string \<Rightarrow> string \<times> string" where
  "token_identity D token =
    (case split token ''.'' of
       _ # payload # _ \<Rightarrow>
        (case b64_decode payload of
           None \<Rightarrow> ([], [])
         | Some raw \<Rightarrow>
            (case td_claims D raw of
               None \<Rightarrow> ([], [])
             | Some c \<Rightarrow> (trim_space (tc_workspace c), or_default (trim_space (tc_user c)) (trim_space (tc_subject c)))))
     | _ \<Rightarrow> ([], []))"

definition validate_delivery_identity ::
  "unicode \<Rightarrow> token_decoders \<Rightarrow> credential_set \<Rightarrow> string \<Rightarrow> credential_set option" where
  "validate_delivery_identity U D c workspace =
    (let (actual, subject) = (if fst (token_identity D (cs_identity c)) \<noteq> [] then token_identity D (cs_identity c)
                              else token_identity D (cs_access c)) in
     if actual = [] \<or> \<not> equal_fold U actual (trim_space workspace) then None
     else if subject = [] then None
     else Some (c\<lparr>cs_workspace := actual, cs_subject := subject\<rparr>))"

section \<open>Refreshing\<close>

definition refresh_delivery_credentials ::
  "token_decoders \<Rightarrow> (string \<Rightarrow> http_reply) \<Rightarrow> string \<Rightarrow> credential_set option" where
  "refresh_delivery_credentials D net token =
    (if trim_space token = [] then None
     else case net (trim_space token) of
       Replied st body \<Rightarrow>
         if st \<noteq> 200 then None
         else
           (case read_body body of
              None \<Rightarrow> None
            | Some raw \<Rightarrow>
               (case td_credentials D raw of
                  None \<Rightarrow> None
                | Some c \<Rightarrow>
                   if trim_space (cs_access c) = [] \<or> trim_space (cs_identity c) = [] then None
                   else if trim_space (cs_refresh c) = [] then Some (c\<lparr>cs_refresh := trim_space token\<rparr>)
                   else Some c))
     | _ \<Rightarrow> None)"

section \<open>Liveness\<close>

text \<open>url.QueryEscape.\<close>

definition query_plain :: "char \<Rightarrow> bool" where
  "query_plain c \<longleftrightarrow>
     (let n = char_code c in
      (48 \<le> n \<and> n \<le> 57) \<or> (65 \<le> n \<and> n \<le> 90) \<or> (97 \<le> n \<and> n \<le> 122) \<or> c \<in> set ''-_.~'')"

definition query_escape :: "string \<Rightarrow> string" where
  "query_escape s =
     concat (map (\<lambda>c. if query_plain c then [c] else if c = CHR '' '' then ''+''
                       else [CHR ''%'', hex_digit (char_code c div 16), hex_digit (char_code c mod 16)]) s)"

definition liveness_url :: "string \<Rightarrow> string" where
  "liveness_url workspace = ''https://chatgpt.com/backend-api/wham/usage?workspace_id='' @ query_escape workspace"

definition bearer_request ::
  "(string \<Rightarrow> string \<Rightarrow> http_reply) \<Rightarrow> string \<Rightarrow> string \<Rightarrow> (string \<times> int) option" where
  "bearer_request net url token =
    (case net url token of
       Replied st body \<Rightarrow> map_option (\<lambda>s. (s, st)) (read_body body)
     | _ \<Rightarrow> None)"

definition liveness_status :: "int \<Rightarrow> string \<Rightarrow> string" where
  "liveness_status st code =
    (if 200 \<le> st \<and> st < 300 then ''ok''
     else if st = 401 then ''auth_error''
     else if st = 402 \<and> code = ''deactivated_workspace'' then ''deactivated_workspace''
     else if st = 429 then ''rate_limited''
     else if 500 \<le> st then ''transient_failure''
     else ''unknown'')"

text \<open>The first component says whether the call returned an error.\<close>

definition check_delivery_liveness ::
  "unicode \<Rightarrow> token_decoders \<Rightarrow> (string \<Rightarrow> string \<Rightarrow> http_reply) \<Rightarrow> instant \<Rightarrow> string \<Rightarrow> string \<Rightarrow> bool \<times> liveness" where
  "check_delivery_liveness U D net clock access workspace =
    (let start = \<lparr>lv_status = ''unknown'', lv_http = 0, lv_error = [], lv_origin = ''generation'',
                  lv_observed_at = clock, lv_subject = [], lv_workspace = []\<rparr>;
         token = trim_space access; ws = trim_space workspace in
     if token = [] \<or> ws = [] then (True, start\<lparr>lv_error := ''oauth_probe_input_invalid''\<rparr>)
     else
      (let (claimed, subject) = token_identity D token; named = start\<lparr>lv_workspace := claimed, lv_subject := subject\<rparr> in
       case bearer_request net (liveness_url ws) token of
         None \<Rightarrow> (True, named\<lparr>lv_status := ''transient_failure'', lv_error := ''oauth_probe_transport_failure''\<rparr>)
       | Some (body, st) \<Rightarrow>
          (let code = upstream_code U (td_syntax D) body;
               read = named\<lparr>lv_http := st, lv_error := code, lv_status := liveness_status st code\<rparr>;
               told = (case td_identity D body of
                  None \<Rightarrow> read
                | Some (s, w) \<Rightarrow> read\<lparr>lv_subject := or_default (trim_space s) (lv_subject read),
                                    lv_workspace := or_default (trim_space w) (lv_workspace read)\<rparr>) in
           if lv_workspace told \<noteq> [] \<and> \<not> equal_fold U (lv_workspace told) ws
           then (False, told\<lparr>lv_status := ''unknown'', lv_error := ''workspace_identity_mismatch''\<rparr>)
           else (False, told))))"

end
