(* ===== verification/DeliveryWorker.thy ===== *)
theory DeliveryWorker
  imports TaskWorker DeliveryReads
begin

text \<open>
  Package internal/task, files oauth_worker.go, oauth_probe_worker.go and
  oauth_reclaim_worker.go: what a worker does with a claimed delivery task, as a program over
  the world of TaskWorker.  A liveness read is logged with the status and the code it was
  answered with.  \<open>dx_login\<close> is the interactive login CreateDeliveryCredentials and
  \<open>dx_bearer\<close>, \<open>dx_token_endpoint\<close> are the network; None is an error.  A factory is None when the
  worker has none.
\<close>

record delivery_tools =
  dx_vault :: vault
  dx_tokens :: token_decoders
  dx_bearer :: "nat \<Rightarrow> string \<Rightarrow> string \<Rightarrow> http_reply"
  dx_token_endpoint :: "nat \<Rightarrow> string \<Rightarrow> http_reply"
  dx_login :: "nat \<Rightarrow> delivery_target \<Rightarrow> credential_set option"
  dx_adapter :: "(platform_login \<Rightarrow> bool) option"
  dx_prober :: "bool option"
  dx_refresher :: "(nat \<Rightarrow> string \<Rightarrow> credential_set option) option"

section \<open>Steps\<close>

definition tell :: "'z env \<Rightarrow> (nat \<Rightarrow> 'a \<times> action) \<Rightarrow> ('z, 'a) prog" where
  "tell N f = (\<lambda>w. (Inr (fst (f (wd_step w))),
     w\<lparr>wd_step := Suc (wd_step w), wd_log := wd_log w @ [snd (f (wd_step w))]\<rparr>))"

definition check_alive :: "'z env \<Rightarrow> delivery_tools \<Rightarrow> string \<Rightarrow> string \<Rightarrow> ('z, bool \<times> liveness) prog" where
  "check_alive N X access workspace =
     tell N (\<lambda>k.
       let answer = check_delivery_liveness (en_unicode N) (dx_tokens X) (dx_bearer X k) (en_clock N k) access workspace in
       (answer, Checked access (lv_status (snd answer)) (lv_http (snd answer))))"

definition unknown_liveness :: "string \<Rightarrow> string \<Rightarrow> instant \<Rightarrow> liveness" where
  "unknown_liveness origin code clock =
     \<lparr>lv_status = ''unknown'', lv_http = 0, lv_error = code, lv_origin = origin, lv_observed_at = clock,
      lv_subject = [], lv_workspace = []\<rparr>"

definition delivery_login :: "'z delivery_target_scheme \<Rightarrow> platform_login" where
  "delivery_login t = \<lparr>pl_login = dt_identifier t, pl_password = dt_password t\<rparr>"

definition begin_attempt ::
  "('y delivery_db_ext) env \<Rightarrow> delivery_tools \<Rightarrow> task_item \<Rightarrow> ('y delivery_db_ext, delivery_attempt) prog" where
  "begin_attempt N X item =
     store_call N (\<lambda>k. begin_delivery_attempt (en_flt N k) (dx_vault X) (en_gid N k) (en_now N k) item)"

text \<open>Settling: a superseded attempt counts as failed, and so does every liveness but ok.\<close>

definition settled_or_failed :: "('z, unit) prog \<Rightarrow> bool \<Rightarrow> ('z, unit) prog" where
  "settled_or_failed m ok =
     p_try m (\<lambda>r. case r of
         Inl e \<Rightarrow> p_fail (if e = StoreError ErrSuperseded then ErrAttemptFailed else e)
       | Inr _ \<Rightarrow> if ok then p_return () else p_fail ErrAttemptFailed)"

definition drifted :: "liveness \<Rightarrow> liveness" where
  "drifted p = p\<lparr>lv_status := ''transient_failure'', lv_http := 0, lv_error := ''proxy_egress_drift''\<rparr>"

section \<open>Generation\<close>

definition conclude_generation ::
  "('y delivery_db_ext) env \<Rightarrow> delivery_tools \<Rightarrow> task_item \<Rightarrow> delivery_attempt \<Rightarrow> delivery_target \<Rightarrow> credential_set
     \<Rightarrow> liveness \<Rightarrow> ('y delivery_db_ext, unit) prog" where
  "conclude_generation N X item attempt target c p =
     settled_or_failed (store_call N (\<lambda>k. finish_delivery_attempt (en_flt N k) (dx_vault X) (en_gid N k) (en_now N k)
         item attempt target c p)) (lv_status p = ''ok'')"

definition generation_failure ::
  "('y delivery_db_ext) env \<Rightarrow> delivery_tools \<Rightarrow> task_item \<Rightarrow> delivery_attempt \<Rightarrow> delivery_target \<Rightarrow> credential_set
     \<Rightarrow> string \<Rightarrow> ('y delivery_db_ext, unit) prog" where
  "generation_failure N X item attempt target c code =
     p_bind (worker_clock N) (\<lambda>clock.
       conclude_generation N X item attempt target c (unknown_liveness ''generation'' code clock))"

definition generated_liveness :: "bool \<Rightarrow> bool \<Rightarrow> instant \<Rightarrow> liveness \<Rightarrow> liveness" where
  "generated_liveness error ok clock p =
    (let p1 = (if is_zero_time (lv_observed_at p) then p\<lparr>lv_observed_at := clock\<rparr> else p);
         p2 = (if lv_origin p1 = [] then p1\<lparr>lv_origin := ''generation''\<rparr> else p1);
         p3 = (if error \<and> lv_error p2 = [] then p2\<lparr>lv_error := ''oauth_probe_failed''\<rparr> else p2) in
     if ok then p3 else drifted p3)"

definition check_generated ::
  "('y delivery_db_ext) env \<Rightarrow> delivery_tools \<Rightarrow> task_item \<Rightarrow> delivery_attempt \<Rightarrow> delivery_target \<Rightarrow> credential_set
     \<Rightarrow> ('y delivery_db_ext, unit) prog" where
  "check_generated N X item attempt target c =
     p_bind (check_alive N X (cs_access c) (dt_platform_workspace target)) (\<lambda>answer.
     p_bind (worker_clock N) (\<lambda>clock.
     p_bind (same_exit N) (\<lambda>ok.
       conclude_generation N X item attempt target c (generated_liveness (fst answer) ok clock (snd answer)))))"

definition run_delivery_generation ::
  "('y delivery_db_ext) env \<Rightarrow> delivery_tools \<Rightarrow> task_item \<Rightarrow> ('y delivery_db_ext, unit) prog" where
  "run_delivery_generation N X item =
     p_bind (store_read N (\<lambda>k. delivery_target_of (en_flt N k) (dx_vault X) (en_clock N k) (it_id item))) (\<lambda>target.
     p_bind (begin_attempt N X item) (\<lambda>attempt.
     if dx_adapter X = None
     then generation_failure N X item attempt target no_credentials ''oauth_generator_unavailable''
     else if \<not> accepts (dx_adapter X) (delivery_login target)
     then generation_failure N X item attempt target no_credentials ''oauth_configuration_invalid''
     else
       p_bind (send N Relogged (\<lambda>k. dx_login X k target)) (\<lambda>generated.
       case generated of
         None \<Rightarrow> generation_failure N X item attempt target no_credentials ''oauth_generation_failed''
       | Some c \<Rightarrow>
          p_bind (same_exit N) (\<lambda>ok.
          if \<not> ok then generation_failure N X item attempt target c ''proxy_egress_drift''
          else
            p_bind (renew_lease N item) (\<lambda>_. check_generated N X item attempt target c)))))"

section \<open>Probes\<close>

definition conclude_probe ::
  "('y delivery_db_ext) env \<Rightarrow> delivery_tools \<Rightarrow> task_item \<Rightarrow> delivery_attempt \<Rightarrow> delivery_probe_target
     \<Rightarrow> liveness \<Rightarrow> ('y delivery_db_ext, unit) prog" where
  "conclude_probe N X item attempt target p =
     settled_or_failed (store_call N (\<lambda>k. finish_delivery_probe (en_flt N k) (dx_vault X) (en_gid N k) (en_now N k)
         item attempt target p)) (lv_status p = ''ok'')"

definition probed_liveness :: "task_item \<Rightarrow> bool \<Rightarrow> bool \<Rightarrow> instant \<Rightarrow> liveness \<Rightarrow> liveness" where
  "probed_liveness item error ok clock p =
    (let p1 = (if is_zero_time (lv_observed_at p) then p\<lparr>lv_observed_at := clock\<rparr> else p);
         p2 = p1\<lparr>lv_origin := (if contains (it_dedupe item) '':customer:'' then ''customer'' else ''scheduled'')\<rparr>;
         p3 = (if error \<and> lv_error p2 = [] then p2\<lparr>lv_error := ''oauth_probe_failed''\<rparr> else p2) in
     if ok then p3 else drifted p3)"

definition run_delivery_probe ::
  "('y delivery_db_ext) env \<Rightarrow> delivery_tools \<Rightarrow> task_item \<Rightarrow> ('y delivery_db_ext, unit) prog" where
  "run_delivery_probe N X item =
    (if dx_prober X = None then fail_task N item ''task.rejected'' ''oauth_probe_unavailable'' ''prepare''
     else
       p_try (store_read N (\<lambda>k. delivery_probe_target_of (en_flt N k) (dx_vault X) (it_id item))) (\<lambda>found.
       case found of
         Inl _ \<Rightarrow> fail_task N item ''task.rejected'' ''oauth_probe_target_unavailable'' ''credential_resolution''
       | Inr target \<Rightarrow>
          p_bind (begin_attempt N X item) (\<lambda>attempt.
          if dx_prober X \<noteq> Some True
          then p_bind (worker_clock N) (\<lambda>clock. conclude_probe N X item attempt target
                 (unknown_liveness ''scheduled'' ''oauth_probe_configuration_invalid'' clock))
          else
            p_bind (check_alive N X (dp_access target) (dp_platform_workspace target)) (\<lambda>answer.
            p_bind (worker_clock N) (\<lambda>clock.
            p_bind (same_exit N) (\<lambda>ok.
              conclude_probe N X item attempt target (probed_liveness item (fst answer) ok clock (snd answer))))))))"

section \<open>Reclaims\<close>

definition note_stage ::
  "('y delivery_db_ext) env \<Rightarrow> delivery_tools \<Rightarrow> task_item \<Rightarrow> delivery_attempt \<Rightarrow> string \<Rightarrow> string
     \<Rightarrow> ('y delivery_db_ext, unit) prog" where
  "note_stage N X item attempt stage tier =
     store_call N (\<lambda>k. record_reclaim_stage (en_flt N k) (dx_vault X) (en_gid N k) (en_now N k) item attempt stage tier)"

definition conclude_reclaim ::
  "('y delivery_db_ext) env \<Rightarrow> delivery_tools \<Rightarrow> task_item \<Rightarrow> delivery_attempt \<Rightarrow> reclaim_target \<Rightarrow> credential_set
     \<Rightarrow> liveness \<Rightarrow> string \<Rightarrow> bool \<Rightarrow> bool \<Rightarrow> ('y delivery_db_ext, unit) prog" where
  "conclude_reclaim N X item attempt target c p tier no_action unavailable =
     p_bind (note_stage N X item attempt ''publish'' tier) (\<lambda>_.
     settled_or_failed
       (store_call N (\<lambda>k. finish_delivery_reclaim (en_flt N k) (dx_vault X) (en_gid N k) (en_now N k)
          item attempt target c p tier no_action unavailable))
       (no_action \<or> (tier \<noteq> ''unrecoverable'' \<and> lv_status p = ''ok'')))"

definition reclaim_failure ::
  "('y delivery_db_ext) env \<Rightarrow> delivery_tools \<Rightarrow> task_item \<Rightarrow> delivery_attempt \<Rightarrow> reclaim_target \<Rightarrow> string \<Rightarrow> bool
     \<Rightarrow> ('y delivery_db_ext, unit) prog" where
  "reclaim_failure N X item attempt target code unavailable =
     p_bind (worker_clock N) (\<lambda>clock. conclude_reclaim N X item attempt target no_credentials
       (unknown_liveness ''reclaim'' code clock) ''unrecoverable'' False unavailable)"

definition normalize_reclaim_probe :: "bool \<Rightarrow> instant \<Rightarrow> liveness \<Rightarrow> liveness" where
  "normalize_reclaim_probe error clock p =
    (let p1 = (if is_zero_time (lv_observed_at p) then p\<lparr>lv_observed_at := clock\<rparr> else p);
         p2 = p1\<lparr>lv_origin := ''reclaim''\<rparr>;
         p3 = (if error \<and> trim_space (lv_error p2) = [] then p2\<lparr>lv_error := ''oauth_reclaim_probe_failed''\<rparr> else p2) in
     if lv_status p3 = [] then p3\<lparr>lv_status := ''unknown''\<rparr> else p3)"

text \<open>A liveness read of a reclaim: the answer counts only when the exit is still the same.\<close>

definition reclaim_probe ::
  "('y delivery_db_ext) env \<Rightarrow> delivery_tools \<Rightarrow> string \<Rightarrow> reclaim_target \<Rightarrow> ('y delivery_db_ext, liveness) prog" where
  "reclaim_probe N X access target =
     p_bind (check_alive N X access (dt_platform_workspace target)) (\<lambda>answer.
     p_bind (worker_clock N) (\<lambda>clock.
     p_bind (same_exit N) (\<lambda>ok. p_return
       (if ok then normalize_reclaim_probe (fst answer) clock (snd answer)
        else unknown_liveness ''reclaim'' ''proxy_egress_drift'' clock))))"

definition alive :: "liveness \<Rightarrow> bool" where
  "alive p \<longleftrightarrow> lv_status p = ''ok'' \<and> probe_authoritative (lv_status p) (lv_http p)"

definition rejected :: "liveness \<Rightarrow> bool" where
  "rejected p \<longleftrightarrow> lv_status p = ''auth_error'' \<and> lv_http p = 401"

definition inconclusive_tier :: "liveness \<Rightarrow> string" where
  "inconclusive_tier p =
    (if retryable_status (lv_status p) \<or> lv_http p = 0 then ''token_refresh'' else ''unrecoverable'')"

text \<open>The interactive login, after which new tokens must prove alive.\<close>

definition relogin_checked ::
  "('y delivery_db_ext) env \<Rightarrow> delivery_tools \<Rightarrow> task_item \<Rightarrow> delivery_attempt \<Rightarrow> reclaim_target \<Rightarrow> credential_set
     \<Rightarrow> ('y delivery_db_ext, unit) prog" where
  "relogin_checked N X item attempt target c =
     p_bind (same_exit N) (\<lambda>ok.
     if \<not> ok then reclaim_failure N X item attempt target ''proxy_egress_drift'' True
     else
       p_bind (note_stage N X item attempt ''publish'' ''full_relogin'') (\<lambda>_.
       p_bind (reclaim_probe N X (cs_access c) target) (\<lambda>p.
       if alive p then conclude_reclaim N X item attempt target c p ''full_relogin'' False False
       else conclude_reclaim N X item attempt target no_credentials p ''full_relogin'' False True)))"

definition relogin ::
  "('y delivery_db_ext) env \<Rightarrow> delivery_tools \<Rightarrow> task_item \<Rightarrow> delivery_attempt \<Rightarrow> reclaim_target
     \<Rightarrow> ('y delivery_db_ext, unit) prog" where
  "relogin N X item attempt target =
     p_bind (note_stage N X item attempt ''relogin'' ''full_relogin'') (\<lambda>_.
     p_bind (renew_lease N item) (\<lambda>_.
     p_bind (send N Relogged (\<lambda>k. dx_login X k (delivery_target.truncate target))) (\<lambda>generated.
     case generated of
       None \<Rightarrow> reclaim_failure N X item attempt target ''full_relogin_failed'' True
     | Some c \<Rightarrow>
        (case validate_delivery_identity (en_unicode N) (dx_tokens X) c (dt_platform_workspace target) of
           None \<Rightarrow> reclaim_failure N X item attempt target ''full_relogin_identity_invalid'' True
         | Some c' \<Rightarrow> relogin_checked N X item attempt target c'))))"

definition refreshed_tokens ::
  "('y delivery_db_ext) env \<Rightarrow> delivery_tools \<Rightarrow> reclaim_target \<Rightarrow> ('y delivery_db_ext, credential_set option) prog" where
  "refreshed_tokens N X target =
     send N Refreshed (\<lambda>k. Option.bind
       (case dx_refresher X of
          Some f \<Rightarrow> f k (rc_refresh target)
        | None \<Rightarrow> refresh_delivery_credentials (dx_tokens X) (dx_token_endpoint X k) (rc_refresh target))
       (\<lambda>c. validate_delivery_identity (en_unicode N) (dx_tokens X) c (dt_platform_workspace target)))"

definition refresh_first ::
  "('y delivery_db_ext) env \<Rightarrow> delivery_tools \<Rightarrow> task_item \<Rightarrow> delivery_attempt \<Rightarrow> reclaim_target
     \<Rightarrow> ('y delivery_db_ext, unit) prog" where
  "refresh_first N X item attempt target =
     p_bind (note_stage N X item attempt ''refresh'' ''token_refresh'') (\<lambda>_.
     p_bind (refreshed_tokens N X target) (\<lambda>refreshed.
     case refreshed of
       None \<Rightarrow> relogin N X item attempt target
     | Some c \<Rightarrow>
        p_bind (same_exit N) (\<lambda>ok.
        if \<not> ok then relogin N X item attempt target
        else
          p_bind (reclaim_probe N X (cs_access c) target) (\<lambda>p.
          if alive p then conclude_reclaim N X item attempt target c p ''token_refresh'' False False
          else if \<not> rejected p
          then conclude_reclaim N X item attempt target no_credentials p ''token_refresh'' False False
          else relogin N X item attempt target))))"

definition run_delivery_reclaim ::
  "('y delivery_db_ext) env \<Rightarrow> delivery_tools \<Rightarrow> task_item \<Rightarrow> ('y delivery_db_ext, unit) prog" where
  "run_delivery_reclaim N X item =
     p_bind (store_read N (\<lambda>k. reclaim_target_of (en_flt N k) (dx_vault X) (en_clock N k) (it_id item))) (\<lambda>target.
     p_bind (begin_attempt N X item) (\<lambda>attempt.
     if dx_adapter X = None then reclaim_failure N X item attempt target ''oauth_reclaim_unavailable'' False
     else if \<not> accepts (dx_adapter X) (delivery_login target)
     then reclaim_failure N X item attempt target ''oauth_reclaim_configuration_invalid'' False
     else
       p_bind (note_stage N X item attempt ''probe'' []) (\<lambda>_.
       p_bind (reclaim_probe N X (rc_access target) target) (\<lambda>p.
       if alive p then conclude_reclaim N X item attempt target no_credentials p ''probe_ok'' True False
       else if \<not> rejected p
       then conclude_reclaim N X item attempt target no_credentials p (inconclusive_tier p) False False
       else refresh_first N X item attempt target))))"

end
