(* ===== verification/DeliveryLaws.thy ===== *)
theory DeliveryLaws
  imports DeliveryWorker WorkerLaws
begin

text \<open>
  What the delivery of credentials keeps: a stale attempt publishes nothing, a published
  version was proven alive under the identity of its target, the stored secrets are spent in
  one order only; and what it cannot do: begin a task a second time, or end a generation as
  succeeded.
\<close>

section \<open>Stale attempts\<close>

definition current_for :: "task_item \<Rightarrow> instant \<Rightarrow> delivery_attempt \<Rightarrow> 'z store_db_scheme \<Rightarrow> bool" where
  "current_for item now attempt db \<longleftrightarrow>
     (\<exists>a. delivery_fenced item now db = Some a \<and> as_attempt a = Some (da_id attempt)
        \<and> as_generation a = da_generation attempt)"

lemma current_attempt_Inr:
  "current_attempt flt now item attempt db = Inr (a, db') \<Longrightarrow>
     delivery_fenced item now db = Some a \<and> db' = db \<and> current_for item now attempt db \<and> \<not> flt 1"
  by (auto simp: current_attempt_def check_current_def tx_simps current_for_def split: option.splits if_splits)

definition delivered ::
  "'z delivery_db_scheme \<Rightarrow> version_row list \<times> order_row list \<times> asset_row list \<times> public_token_row list \<times> task_row list" where
  "delivered db = (versions db, orders db, assets db, public_tokens db, tasks db)"

lemma audit_fact_delivered:
  "audit_fact H flt k g now ev db = Inr (x, db') \<Longrightarrow> delivered db' = delivered db"
  unfolding delivered_def by (auto simp: audit_fact_def write_audit_def tx_simps dest!: audit_write_frame)

lemma lease_lost_delivered: "delivered (lease_lost flt V gid now item attempt stage db) = delivered db"
  by (auto simp: lease_lost_def Let_def delivered_def split: sum.splits dest!: audit_fact_delivered)

lemma in_tx_stale:
  assumes "\<not> current_for item now attempt db"
  shows "\<exists>e. in_tx flt c (tx_bind (current_attempt flt' now item attempt) f) db = (Inl e, db)"
proof (cases rule: in_tx_cases [of flt c "tx_bind (current_attempt flt' now item attempt) f" db])
  case (error e)
  then show ?thesis by blast
next
  case (commit x t)
  then show ?thesis using assms by (auto simp: tx_simps dest!: current_attempt_Inr)
qed

text \<open>A stale delivery attempt publishes nothing.  When the lease is lost, the membership left,
  the batch ended or another attempt or generation is current, then settling the attempt as a
  generation, a probe or a reclaim and noting a stage all fail, and no version, order, asset,
  customer token or task changes.\<close>

theorem stale_delivery_publishes_nothing:
  assumes "\<not> current_for item now attempt db"
  shows "\<forall>r\<in>{finish_delivery_attempt flt V gid now item attempt dt c p db,
               finish_delivery_probe flt V gid now item attempt dp p db,
               finish_delivery_reclaim flt V gid now item attempt rt c p tier no_action unavailable db,
               record_reclaim_stage flt V gid now item attempt stage tier db}.
           (\<exists>e. fst r = Inl e) \<and> delivered (snd r) = delivered db"
proof -
  note stale = in_tx_stale [OF assms]
  have "\<exists>e. finish_delivery_reclaim flt V gid now item attempt rt c p tier no_action unavailable db = (Inl e, db)"
    unfolding finish_delivery_reclaim_def Let_def by (rule stale)
  moreover have "\<exists>e. record_reclaim_stage flt V gid now item attempt stage tier db = (Inl e, db)"
    using stale unfolding record_reclaim_stage_def by (cases "stage \<in> set reclaim_stages") simp_all
  moreover have "(\<exists>e. fst r = Inl e) \<and> delivered (snd r) = delivered db"
    if "r = finish_delivery_attempt flt V gid now item attempt dt c p db
        \<or> r = finish_delivery_probe flt V gid now item attempt dp p db" for r
  proof (cases "fence_lost flt item now db")
    case True
    with that show ?thesis
      by (auto simp: finish_delivery_attempt_def finish_delivery_probe_def lease_lost_delivered)
  next
    case False
    have "\<exists>e. r = (Inl e, db)"
      using that stale False unfolding finish_delivery_attempt_def finish_delivery_probe_def Let_def by auto
    then show ?thesis by auto
  qed
  ultimately show ?thesis by auto
qed

definition sample_asset :: asset_row where
  "sample_asset = \<lparr>as_id = ''a1'', as_membership = ''m1'', as_status = ''generating'', as_generation = 2,
     as_attempt = Some ''x2'', as_delivery = None, as_subject = None, as_liveness = None, as_http = None,
     as_error = None, as_origin = None, as_probed_at = None, as_unavailable_reason = None, as_updated_at = 0,
     as_version = 1\<rparr>"

definition sample_delivery_task :: task_row where
  "sample_delivery_task = delivery_task ''t1'' 0 OAuthGenerate ''m1'' ''a1'' ''w1'' ''d1'' ''c1''"

definition sample_delivery :: delivery_db where
  "sample_delivery = store_db.extend
     (empty_store\<lparr>tasks := [leased ''w'' 7 0 100 sample_delivery_task], assets := [sample_asset],
        memberships := [\<lparr>mb_id = ''m1'', mb_batch = ''b1'', mb_target = ''g1'', mb_join_target = ''o1'', mb_member_id = None,
          mb_state = ''active'', mb_joined_at = 0, mb_removed_at = None, mb_service_ended = None,
          mb_retention_due = None, mb_updated_at = 0, mb_version = 1\<rparr>],
        batches := [\<lparr>ba_id = ''b1'', ba_status = ''serving'', ba_service_started = Some 0, ba_service_ended = None,
          ba_blocking = None, ba_updated_at = 0, ba_version = 1\<rparr>]\<rparr>)
     (delivery_db.fields [] [] [])"

definition sample_delivery_item :: task_item where
  "sample_delivery_item = returned_item (leased ''w'' 7 0 100 sample_delivery_task)"

definition sample_vault :: vault where
  "sample_vault = \<lparr>va_binding = (\<lambda>_. Some ''w1''), va_platform = (\<lambda>_. Some ''p1''), va_account = (\<lambda>_. None),
     va_order = (\<lambda>_. None), va_cipher = plain_cipher, va_ring = Some sample_ring, va_unicode = sample_unicode,
     va_base32 = Some, va_sha1 = (\<lambda>_. id), va_marshal = (\<lambda>_. []), va_hash = id\<rparr>"

definition sample_delivery_target :: delivery_target where
  "sample_delivery_target = \<lparr>dt_asset = ''a1'', dt_membership = ''m1'', dt_workspace = ''w1'', dt_platform_workspace = ''p1'',
     dt_target = ''g1'', dt_identifier = ''u'', dt_password = ''p'', dt_totp = ''s'', dt_recovery = [], dt_subject = []\<rparr>"

definition sample_credentials :: credential_set where
  "sample_credentials = \<lparr>cs_refresh = ''r'', cs_access = ''t'', cs_identity = ''i'', cs_subject = ''s'', cs_workspace = ''p1'',
     cs_expires_in = 3600, cs_scope = []\<rparr>"

definition sample_alive :: liveness where
  "sample_alive = \<lparr>lv_status = ''ok'', lv_http = 200, lv_error = [], lv_origin = ''generation'', lv_observed_at = 10,
     lv_subject = ''s'', lv_workspace = ''p1''\<rparr>"

lemmas delivery_sample_defs = sample_delivery_def sample_delivery_item_def sample_delivery_task_def delivery_task_def
  queued_task_def leased_def returned_item_def sample_asset_def empty_store_def store_db.defs delivery_db.defs opt_str_def

lemma sample_fenced: "delivery_fenced sample_delivery_item 20 sample_delivery = Some sample_asset"
  by (simp add: delivery_fenced_def fenced_def active_membership_def open_batch_def delivery_sample_defs)

theorem stale_delivery_publishes_nothing_witness:
  "delivered (snd (finish_delivery_attempt (\<lambda>_. False) sample_vault (\<lambda>_. ''g'') 20 sample_delivery_item
       \<lparr>da_id = ''x1'', da_generation = 1, da_no = 1\<rparr> sample_delivery_target sample_credentials sample_alive sample_delivery))
     = delivered sample_delivery"
proof -
  have "\<not> current_for sample_delivery_item 20 \<lparr>da_id = ''x1'', da_generation = 1, da_no = 1\<rparr> sample_delivery"
    using sample_fenced by (simp add: current_for_def sample_asset_def)
  then show ?thesis
    using stale_delivery_publishes_nothing [where flt = "\<lambda>_. False" and V = sample_vault and gid = "\<lambda>_. ''g''"
        and dt = sample_delivery_target and c = sample_credentials and p = sample_alive] by blast
qed

section \<open>A task has one attempt\<close>

definition same_attempts :: "'z store_db_scheme \<Rightarrow> 'z store_db_scheme \<Rightarrow> bool" where
  "same_attempts s t \<longleftrightarrow> map oa_task (oauth_attempts t) = map oa_task (oauth_attempts s)"

interpretation attempt_order: transition_order same_attempts
  by unfold_locales (simp_all add: same_attempts_def)

lemma attempts_kept [simp]: "oauth_attempts t = oauth_attempts s \<Longrightarrow> same_attempts s t"
  by (simp add: same_attempts_def)

lemma attempts_checked:
  "(\<And>x. oa_task (f x) = oa_task x) \<Longrightarrow> keeps same_attempts (checked_attempts P f)"
  by (auto simp: keeps_def checked_attempts_def same_attempts_def map_update_where split: if_splits)

lemma attempts_statement:
  "keeps same_attempts (checked_assets P' f')" "keeps same_attempts (checked_tasks P2 f2)"
  "keeps same_attempts (audit_fact H flt k gid now ev)" "keeps same_attempts (insert_reclaim_from q)"
  "keeps same_attempts (tx_read r)"
  by (auto simp: keeps_def checked_assets_def checked_tasks_def insert_reclaim_from_def insert_reclaim_def tx_simps
      split: if_splits option.splits dest!: audit_fact_Inr)

lemma attempts_delivery_statement:
  "keeps same_attempts (insert_version v)" "keeps same_attempts (move_order now i a b c)"
  "keeps same_attempts (revoke_tokens now i)"
  by (auto simp: keeps_def insert_version_def move_order_def revoke_tokens_def tx_simps split: if_splits)

lemma attempts_current: "keeps same_attempts (current_attempt flt now item attempt)"
  by (auto simp: keeps_def dest: current_attempt_Inr)

lemmas attempt_intros =
  attempt_order.keeps_in_tx attempt_order.keeps_bind attempt_order.keeps_return attempt_order.keeps_stmt
  attempt_order.keeps_seq_Nil attempt_order.keeps_seq_Cons attempt_order.keeps_select attempt_order.keeps_fail
  attempts_checked attempts_statement attempts_delivery_statement attempts_current

lemma attempts_lost: "same_attempts db (lease_lost flt V gid now item attempt stage db)"
  by (auto simp: lease_lost_def Let_def same_attempts_def map_update_where settled_attempt_def
      split: sum.splits dest!: audit_fact_Inr)

lemma attempts_of_parts:
  "keeps same_attempts (automatic_reclaim flt V gid now item g)"
  "keeps same_attempts (customer_status flt V gid now item attempt m p oc result)"
  "keeps same_attempts (publish_reclaimed flt V gid now item attempt target c p)"
  unfolding automatic_reclaim_def customer_status_def publish_reclaimed_def
  by (intro attempt_intros; auto intro!: attempt_intros split: option.splits simp: settled_attempt_def)+

lemma attempts_settled:
  "same_attempts db (snd (finish_delivery_attempt flt V gid now item attempt dt c p db))"
  "same_attempts db (snd (finish_delivery_probe flt V gid now item attempt dp p db))"
  "same_attempts db (snd (finish_delivery_reclaim flt V gid now item attempt rt c p tier no_action unavailable db))"
  "same_attempts db (snd (record_reclaim_stage flt V gid now item attempt stage tier db))"
proof -
  show "same_attempts db (snd (finish_delivery_attempt flt V gid now item attempt dt c p db))"
    unfolding finish_delivery_attempt_def Let_def
    by (auto simp: attempts_lost settled_attempt_def intro!: attempt_intros)
  show "same_attempts db (snd (finish_delivery_probe flt V gid now item attempt dp p db))"
    unfolding finish_delivery_probe_def Let_def
    by (auto simp: attempts_lost settled_attempt_def intro!: attempt_intros attempts_of_parts)
  show "same_attempts db (snd (finish_delivery_reclaim flt V gid now item attempt rt c p tier no_action unavailable db))"
    unfolding finish_delivery_reclaim_def Let_def
    by (auto simp: settled_attempt_def intro!: attempt_intros attempts_of_parts)
  show "same_attempts db (snd (record_reclaim_stage flt V gid now item attempt stage tier db))"
    unfolding record_reclaim_stage_def by (auto intro!: attempt_intros)
qed

lemma begin_Inr:
  assumes "begin_delivery_attempt flt V gid now item db = (Inr attempt, db')"
  shows "map oa_task (oauth_attempts db') = map oa_task (oauth_attempts db) @ [it_id item]
    \<and> it_id item \<notin> oa_task ` set (oauth_attempts db)"
  using assms
  by (auto simp: begin_delivery_attempt_def tx_simps Let_def insert_oauth_attempt_def checked_attempts_def
      checked_assets_def attempt_fits_def new_attempt_def list_ex_iff map_update_where
      dest!: audit_fact_Inr split: if_splits)

definition tried :: "string \<Rightarrow> 'z store_db_scheme \<Rightarrow> bool" where
  "tried i db \<longleftrightarrow> i \<in> oa_task ` set (oauth_attempts db)"

lemma tried_kept: "same_attempts s t \<Longrightarrow> tried i s \<Longrightarrow> tried i t"
  unfolding tried_def same_attempts_def by (metis image_set)

lemma begin_again:
  assumes "tried (it_id item) db"
  shows "\<exists>e. begin_delivery_attempt flt V gid now item db = (Inl e, db)"
proof (cases "begin_delivery_attempt flt V gid now item db")
  case (Pair r t)
  show ?thesis
  proof (cases r)
    case (Inl e)
    with Pair show ?thesis unfolding begin_delivery_attempt_def by (auto dest: in_tx_rollback)
  next
    case (Inr attempt)
    then show ?thesis using begin_Inr [of flt V gid now item db attempt t] Pair assms by (simp add: tried_def)
  qed
qed

text \<open>C25: A delivery task is never tried twice.  The attempts are unique by task, every settlement
  keeps the row of the attempt, also the one that sends the task back to wait for a retry, and so
  every later begin of the same task, whoever leases it and whatever happened in between, violates
  the key: it fails and changes nothing.  The retries the queue grants a delivery task cannot run.\<close>

theorem delivery_retry_never_begins:
  fixes db1 :: "'y delivery_db_scheme"
  assumes "begin_delivery_attempt flt V gid now item db = (Inr attempt, db1)"
  shows "tried (it_id item) db1
    \<and> (\<forall>db2 :: 'y delivery_db_scheme. tried (it_id item) db2 \<longrightarrow>
         (\<exists>e. begin_delivery_attempt flt' V' gid' now' (item\<lparr>it_token := tok, it_attempt := k\<rparr>) db2 = (Inl e, db2))
         \<and> tried (it_id item) (snd (finish_delivery_attempt flt' V' gid' now' item attempt dt c p db2))
         \<and> tried (it_id item) (snd (finish_delivery_probe flt' V' gid' now' item attempt dp p db2))
         \<and> tried (it_id item) (snd (finish_delivery_reclaim flt' V' gid' now' item attempt rt c p tier no_action
                                       unavailable db2)))"
proof (intro conjI allI impI)
  show "tried (it_id item) db1"
    using begin_Inr [OF assms] unfolding tried_def by (metis image_set in_set_conv_decomp)
  fix db2 :: "'y delivery_db_scheme" assume here: "tried (it_id item) db2"
  then show "\<exists>e. begin_delivery_attempt flt' V' gid' now' (item\<lparr>it_token := tok, it_attempt := k\<rparr>) db2 = (Inl e, db2)"
    by (intro begin_again) simp
qed (rule tried_kept [OF attempts_settled(1)] tried_kept [OF attempts_settled(2)] tried_kept [OF attempts_settled(3)],
    assumption)+

lemma validate_attempt_started:
  "\<exists>q. validate (delivery_event DeliveryAttemptStarted ''w1'' ''oauth_attempt'' ''x3'' OutcomeSucceeded ''c1''
     (DeliveryAttemptDetails 3 1 ''started'' ''generate'' ''pending'' 0 []) (''x3'' @ '':started'')) = Inr q"
  by (simp add: validate_def delivery_event_def spec_of_def details_ok_def valid_delivery_liveness_status_def
      owner_security_scope_def)

lemma text_short: "s \<noteq> [] \<Longrightarrow> length s \<le> n \<Longrightarrow> text_within n s"
  using rune_count_le_length [of s] by (auto simp: text_within_def rune_count.simps [of s])

lemma sample_begun_ok:
  "asset_ok (begun 20 OAuthGenerate 3 ''x3'' sample_asset)"
  "attempt_fits (new_attempt ''x3'' sample_delivery_item 3 1) []"
  by (simp_all add: asset_ok_def begun_def opt_all_def attempt_fits_def oauth_attempt_ok_def new_attempt_def
      attempt_kind_def delivery_sample_defs)

lemma sample_facts:
  "it_type sample_delivery_item = OAuthGenerate" "it_asset sample_delivery_item = ''a1''"
  "it_workspace sample_delivery_item = ''w1''" "it_correlation sample_delivery_item = ''c1''"
  "it_attempt sample_delivery_item = 1" "as_generation sample_asset = 2" "as_id sample_asset = ''a1''"
  "assets sample_delivery = [sample_asset]" "oauth_attempts sample_delivery = []"
  "va_hash sample_vault = id" "next_attempt_no ''a1'' 3 sample_delivery = 1"
  by (simp_all add: next_attempt_no_def sample_vault_def delivery_sample_defs)

lemma sample_begin:
  "\<exists>db1. begin_delivery_attempt (\<lambda>_. False) sample_vault (\<lambda>_. ''x3'') 20 sample_delivery_item sample_delivery
     = (Inr \<lparr>da_id = ''x3'', da_generation = 3, da_no = 1\<rparr>, db1)"
proof -
  obtain q where q: "validate (delivery_event DeliveryAttemptStarted ''w1'' ''oauth_attempt'' ''x3'' OutcomeSucceeded ''c1''
     (DeliveryAttemptDetails 3 1 ''started'' ''generate'' ''pending'' 0 []) (''x3'' @ '':started'')) = Inr q"
    using validate_attempt_started by blast
  let ?db1 = "sample_delivery\<lparr>oauth_attempts := [new_attempt ''x3'' sample_delivery_item 3 1],
    assets := [begun 20 OAuthGenerate 3 ''x3'' sample_asset]\<rparr>"
  have "audit_events ?db1 = []" by (simp add: delivery_sample_defs)
  from audit_fact_fresh [OF q this] obtain es where
    "audit_fact id (\<lambda>_. False) 6 ''x3'' 20 (delivery_event DeliveryAttemptStarted ''w1'' ''oauth_attempt'' ''x3''
       OutcomeSucceeded ''c1'' (DeliveryAttemptDetails 3 1 ''started'' ''generate'' ''pending'' 0 []) (''x3'' @ '':started''))
       ?db1 = Inr ((), ?db1\<lparr>audit_events := es\<rparr>)" by blast
  then have "begin_delivery_attempt (\<lambda>_. False) sample_vault (\<lambda>_. ''x3'') 20 sample_delivery_item sample_delivery
     = (Inr \<lparr>da_id = ''x3'', da_generation = 3, da_no = 1\<rparr>, ?db1\<lparr>audit_events := es\<rparr>)"
    using sample_fenced
    by (simp add: begin_delivery_attempt_def in_tx_def run_tx_def stmt_def tx_bind_def tx_return_def
        select_row_def tx_read_def Let_def insert_oauth_attempt_def checked_assets_def sample_facts sample_begun_ok
        attempt_generation_def attempt_kind_def update_where_def)
  then show ?thesis by blast
qed

theorem delivery_retry_never_begins_witness:
  "\<exists>attempt db1 e. begin_delivery_attempt (\<lambda>_. False) sample_vault (\<lambda>_. ''x3'') 20 sample_delivery_item sample_delivery
       = (Inr attempt, db1)
     \<and> begin_delivery_attempt (\<lambda>_. False) sample_vault (\<lambda>_. ''x4'') 900
         (sample_delivery_item\<lparr>it_token := 8, it_attempt := 2\<rparr>) db1 = (Inl e, db1)"
proof -
  obtain db1 where begun: "begin_delivery_attempt (\<lambda>_. False) sample_vault (\<lambda>_. ''x3'') 20 sample_delivery_item sample_delivery
     = (Inr \<lparr>da_id = ''x3'', da_generation = 3, da_no = 1\<rparr>, db1)" using sample_begin by blast
  from delivery_retry_never_begins [OF this, where flt' = "\<lambda>_. False" and V' = sample_vault and gid' = "\<lambda>_. ''x4''"
      and now' = 900 and tok = 8 and k = 2] begun show ?thesis by blast
qed

section \<open>Publication\<close>

text \<open>What the settlement of a generation writes when its transaction commits.\<close>

lemma finish_generation_run:
  assumes "finish_delivery_attempt flt V gid now item attempt dt c p db = (Inr (), db')"
  shows "current_for item now attempt db
    \<and> tasks db' = update_where (fenced (it_id item) (it_token item) now)
         (delivery_released (generation_end (generation_success dt c p) p) now) (tasks db)
    \<and> versions db' = versions db @ (if generation_success dt c p
         then [new_version V (gid 2) item attempt c (cs_subject c) (dt_workspace dt)] else [])
    \<and> orders db' = orders db \<and> public_tokens db' = public_tokens db
    \<and> (generation_success dt c p \<longrightarrow>
         version_ok (new_version V (gid 2) item attempt c (cs_subject c) (dt_workspace dt)) (versions db))"
  using assms
  by (cases "generation_success dt c p")
    (auto simp: finish_delivery_attempt_def Let_def tx_simps checked_assets_def checked_attempts_def checked_tasks_def
      insert_version_def dest!: current_attempt_Inr audit_fact_Inr split: if_splits)

text \<open>The settlement of a reclaim that succeeds also moves the order and revokes its tokens.\<close>

definition moved_order :: "instant \<Rightarrow> string \<Rightarrow> string \<Rightarrow> string \<Rightarrow> string \<Rightarrow> order_row list \<Rightarrow> order_row list" where
  "moved_order now order asset old new =
     update_where (\<lambda>d. od_id d = order \<and> od_asset d = asset \<and> od_delivery d = old)
       (\<lambda>d. d\<lparr>od_delivery := new, od_updated_at := now, od_version := od_version d + 1\<rparr>)"

lemma publish_reclaimed_run:
  assumes "publish_reclaimed flt V gid now item attempt rt c p db = Inr ((), db')"
  shows "versions db' = versions db @ [new_version V (gid 2) item attempt c (lv_subject p) (dt_workspace rt)]
    \<and> version_ok (new_version V (gid 2) item attempt c (lv_subject p) (dt_workspace rt)) (versions db)
    \<and> affected (\<lambda>d. od_id d = rc_order rt \<and> od_asset d = it_asset item \<and> od_delivery d = rc_version rt) (orders db) = 1
    \<and> orders db' = moved_order now (rc_order rt) (it_asset item) (rc_version rt) (gid 2) (orders db)
    \<and> public_tokens db' = update_where (\<lambda>t. pt_order t = rc_order rt \<and> pt_revoked_at t = None)
         (\<lambda>t. t\<lparr>pt_revoked_at := Some now, pt_reason := Some ''reclaim_published''\<rparr>) (public_tokens db)"
  using assms
  by (auto simp: publish_reclaimed_def tx_simps checked_assets_def checked_attempts_def insert_version_def
      move_order_def revoke_tokens_def moved_order_def split: if_splits)

definition same_published :: "'z delivery_db_scheme \<Rightarrow> 'z delivery_db_scheme \<Rightarrow> bool" where
  "same_published s t \<longleftrightarrow> versions t = versions s \<and> orders t = orders s \<and> public_tokens t = public_tokens s"

interpretation publication_order: transition_order same_published
  by unfold_locales (simp_all add: same_published_def)

lemma published_statement:
  "keeps same_published (checked_assets P' f')" "keeps same_published (checked_tasks P2 f2)"
  "keeps same_published (checked_attempts P3 f3)" "keeps same_published (audit_fact H flt k g now ev)"
  by (auto simp: keeps_def same_published_def checked_assets_def checked_tasks_def checked_attempts_def
      split: if_splits dest!: audit_fact_Inr)

lemma keeps_if: "keeps R a \<Longrightarrow> keeps R b \<Longrightarrow> keeps R (if P then a else b)"
  by simp

lemmas published_intros =
  publication_order.keeps_return publication_order.keeps_stmt publication_order.keeps_seq_Nil
  publication_order.keeps_seq_Cons published_statement

lemma first_then_rest:
  assumes "in_tx flt c (tx_bind (current_attempt flt' now item attempt) (\<lambda>_. tx_seq (m # ms))) db = (Inr u, db')"
    and "keeps R (tx_seq ms)"
  shows "current_for item now attempt db \<and> (\<exists>db1. m db = Inr ((), db1) \<and> R db1 db')"
proof -
  from assms(1) obtain a t where
    "current_attempt flt' now item attempt db = Inr (a, t)" and "tx_seq (m # ms) t = Inr (u, db')"
    by (auto simp: in_tx_Inr tx_bind_Inr)
  with assms(2) show ?thesis
    using current_attempt_Inr [of flt' now item attempt db a t] by (auto simp: tx_bind_Inr keeps_def)
qed

lemma finish_reclaim_run:
  assumes "finish_delivery_reclaim flt V gid now item attempt rt c p tier no_action unavailable db = (Inr (), db')"
  shows "current_for item now attempt db
    \<and> (\<exists>db1. (if reclaim_success (va_unicode V) rt c p no_action
              then publish_reclaimed flt V gid now item attempt rt c p else tx_return ()) db = Inr ((), db1)
           \<and> same_published db1 db')"
  using assms unfolding finish_delivery_reclaim_def Let_def
  by (elim first_then_rest) (intro published_intros keeps_if)

text \<open>C10: A generation publishes only what was proven.  When the settlement of a generation appends a
  version, the attempt was the current one of a held lease; the three tokens are complete; the
  credentials and the liveness read name the workspace of the target on the platform and one
  subject, the known one when the account has one; the read was answered with a 2xx; and the
  version carries the generation of the attempt, which no version of the asset had, and the hash
  of exactly the payload stored.\<close>

theorem published_version_is_proven:
  assumes "finish_delivery_attempt flt V gid now item attempt dt c p db = (Inr (), db')"
    and "v \<in> set (versions db')" and "v \<notin> set (versions db)"
  shows "current_for item now attempt db
    \<and> trim_space (cs_access c) \<noteq> [] \<and> trim_space (cs_refresh c) \<noteq> [] \<and> trim_space (cs_identity c) \<noteq> []
    \<and> trim_space (cs_workspace c) = trim_space (dt_platform_workspace dt)
    \<and> trim_space (lv_workspace p) = trim_space (dt_platform_workspace dt)
    \<and> trim_space (lv_subject p) = trim_space (cs_subject c)
    \<and> (trim_space (dt_subject dt) = [] \<or> trim_space (cs_subject c) = trim_space (dt_subject dt))
    \<and> lv_status p = ''ok'' \<and> 200 \<le> lv_http p \<and> lv_http p < 300
    \<and> vs_asset v = it_asset item \<and> vs_generation v = da_generation attempt
    \<and> (\<forall>u\<in>set (versions db). vs_asset u = it_asset item \<longrightarrow> vs_generation u \<noteq> da_generation attempt)
    \<and> vs_payload v = payload_json c \<and> vs_hash v = va_hash V (va_marshal V (vs_payload v))"
proof -
  note run = finish_generation_run [OF assms(1)]
  with assms(2,3) have ok: "generation_success dt c p"
    and v: "v = new_version V (gid 2) item attempt c (cs_subject c) (dt_workspace dt)"
    by (auto split: if_splits)
  have fields: "vs_asset v = it_asset item" "vs_generation v = da_generation attempt" "vs_payload v = payload_json c"
      "vs_hash v = va_hash V (va_marshal V (payload_json c))"
    using v by (simp_all add: new_version_def)
  have "version_ok v (versions db)" using run ok v by blast
  then have new: "\<forall>u\<in>set (versions db). vs_asset u = it_asset item \<longrightarrow> vs_generation u \<noteq> da_generation attempt"
    unfolding version_ok_def list_ex_iff fields by blast
  have "current_for item now attempt db" using run by blast
  then show ?thesis
    using ok new
    by (simp add: fields generation_success_def tokens_complete_def trimmed_nonempty_def same_trimmed_def two_hundred_def)
qed

text \<open>A generation that publishes ends its task as failed.  The status of the task is never set to
  succeeded when a generation is settled: the version is published, and the task that made it is
  finished as failed.\<close>

theorem published_generation_ends_failed:
  assumes "finish_delivery_attempt flt V gid now item attempt dt c p db = (Inr (), db')"
    and "versions db' \<noteq> versions db"
  shows "\<exists>t\<in>set (tasks db'). tk_id t = it_id item \<and> tk_status t = Failed \<and> tk_finished_at t = Some now"
proof -
  note run = finish_generation_run [OF assms(1)]
  with assms(2) have ok: "generation_success dt c p" by (auto split: if_splits)
  from run obtain t where t: "t \<in> set (tasks db)" "fenced (it_id item) (it_token item) now t"
    by (auto simp: current_for_def delivery_fenced_def find_Some_iff list_ex_iff)
  have "tasks db' = update_where (fenced (it_id item) (it_token item) now) (released Failed now) (tasks db)"
    using run ok by (simp add: generation_end_def delivery_released_def [abs_def] update_where_def)
  with t have "released Failed now t \<in> set (tasks db')" by (auto simp: in_update_where)
  moreover have "tk_id t = it_id item" using t(2) by (simp add: fenced_def)
  ultimately show ?thesis by (intro bexI [of _ "released Failed now t"]) (simp_all add: released_def)
qed


subsection \<open>A generation and a reclaim that publish\<close>

lemma audit_fact_next:
  assumes "validate ev = Inr q" and "\<forall>r\<in>set (audit_events db). au_key r \<noteq> stable_key H ev"
  shows "\<exists>row. au_key row = stable_key H ev
    \<and> audit_fact H (\<lambda>_. False) k i now ev db = Inr ((), db\<lparr>audit_events := audit_events db @ [row]\<rparr>)"
proof -
  obtain d sp where "validate ev = Inr (d, sp)" using assms(1) by (cases q) auto
  then show ?thesis
    using assms(2)
    by (intro exI [of _ "event_row H i now ev d sp"])
      (simp add: audit_fact_def write_audit_def lift_audit_def tx_bind_def tx_return_def audit_write_def
        Let_def list_all_iff event_row_def)
qed

definition sample_running :: delivery_db where
  "sample_running = sample_delivery\<lparr>oauth_attempts := [new_attempt ''x3'' sample_delivery_item 3 1],
     assets := [begun 20 OAuthGenerate 3 ''x3'' sample_asset]\<rparr>"

definition sample_attempt :: delivery_attempt where
  "sample_attempt = \<lparr>da_id = ''x3'', da_generation = 3, da_no = 1\<rparr>"

lemma generation_events:
  "\<exists>q. validate (settled_event sample_delivery_item sample_attempt OutcomeSucceeded ''oauth_published'' ''publish'' ''ok'' 200 []
     '':settled'') = Inr q"
  "\<exists>q. validate (delivery_event DeliveryPublished ''w1'' ''oauth_asset'' ''a1'' OutcomeSucceeded ''c1''
     (DeliveryAttemptDetails 3 1 ''published'' ''publish'' ''ok'' 200 []) (''a1'' @ '':published:'' @ itoa 3)) = Inr q"
  by (simp_all add: validate_def settled_event_def delivery_event_def spec_of_def details_ok_def sample_attempt_def
      valid_delivery_liveness_status_def owner_security_scope_def sample_facts)

lemma sample_keys:
  "stable_key id (settled_event sample_delivery_item sample_attempt OutcomeSucceeded ''oauth_published'' ''publish'' ''ok'' 200 []
     '':settled'')
   \<noteq> stable_key id (delivery_event DeliveryPublished ''w1'' ''oauth_asset'' ''a1'' OutcomeSucceeded ''c1''
     (DeliveryAttemptDetails 3 1 ''published'' ''publish'' ''ok'' 200 []) (''a1'' @ '':published:'' @ itoa 3))"
  by (simp add: stable_key_def stable_preimage_def write_field_def be32_def settled_event_def delivery_event_def
      char_of_def)

lemma sample_trimmed:
  "trim_space ''r'' = ''r''" "trim_space ''t'' = ''t''" "trim_space ''i'' = ''i''" "trim_space ''s'' = ''s''"
  "trim_space ''p1'' = ''p1''" "trim_space [] = []"
  by (simp_all add: trim_space_visible visible_def char_code_def) (simp add: trim_space_def trim_left.simps trim_right.simps)

lemma sample_success: "generation_success sample_delivery_target sample_credentials sample_alive"
  by (simp add: generation_success_def tokens_complete_def trimmed_nonempty_def same_trimmed_def two_hundred_def
      sample_delivery_target_def sample_credentials_def sample_alive_def sample_trimmed)

lemma sample_running_fenced:
  "delivery_fenced sample_delivery_item 20 sample_running = Some (begun 20 OAuthGenerate 3 ''x3'' sample_asset)"
  by (simp add: sample_running_def delivery_fenced_def fenced_def active_membership_def open_batch_def begun_def
      delivery_sample_defs)

lemma sample_published:
  "\<exists>db'. finish_delivery_attempt (\<lambda>_. False) sample_vault (\<lambda>_. ''v1'') 20 sample_delivery_item sample_attempt
       sample_delivery_target sample_credentials sample_alive sample_running = (Inr (), db')
     \<and> versions db' = [new_version sample_vault ''v1'' sample_delivery_item sample_attempt sample_credentials ''s'' ''w1'']"
proof -
  let ?V = sample_vault and ?c = sample_credentials and ?p = sample_alive
  let ?v = "new_version ?V ''v1'' sample_delivery_item sample_attempt ?c ''s'' ''w1''"
  let ?P = "fenced (it_id sample_delivery_item) (it_token sample_delivery_item) 20"
  let ?x = "(settled_attempt ''published'' ''oauth_published'' 20 (new_attempt ''x3'' sample_delivery_item 3 1))
    \<lparr>oa_published := Some ''v1''\<rparr>"
  let ?a = "published_asset 20 ''v1'' ''s'' ?p ''generation'' (begun 20 OAuthGenerate 3 ''x3'' sample_asset)"
  let ?ts = "update_where ?P (delivery_released Failed 20) (tasks sample_running)"
  let ?db1 = "sample_running\<lparr>versions := [?v], oauth_attempts := [?x], assets := [?a], tasks := ?ts\<rparr>"
  let ?e1 = "settled_event sample_delivery_item sample_attempt OutcomeSucceeded ''oauth_published'' ''publish'' ''ok'' 200 []
     '':settled''"
  let ?e2 = "delivery_event DeliveryPublished ''w1'' ''oauth_asset'' ''a1'' OutcomeSucceeded ''c1''
     (DeliveryAttemptDetails 3 1 ''published'' ''publish'' ''ok'' 200 []) (''a1'' @ '':published:'' @ itoa 3)"
  obtain q1 q2 where q: "validate ?e1 = Inr q1" "validate ?e2 = Inr q2" using generation_events by blast
  have "audit_events ?db1 = []" by (simp add: sample_running_def delivery_sample_defs)
  then obtain r1 where r1: "au_key r1 = stable_key id ?e1"
    and one: "audit_fact id (\<lambda>_. False) 10 ''v1'' 20 ?e1 ?db1 = Inr ((), ?db1\<lparr>audit_events := [r1]\<rparr>)"
    using audit_fact_next [OF q(1), of ?db1 id 10 "''v1''" 20] by auto
  let ?db2 = "?db1\<lparr>audit_events := [r1]\<rparr>"
  obtain r2 where two: "audit_fact id (\<lambda>_. False) 12 ''v1'' 20 ?e2 ?db2 = Inr ((), ?db2\<lparr>audit_events := [r1, r2]\<rparr>)"
    using audit_fact_next [OF q(2), of ?db2 id 12 "''v1''" 20] r1 sample_keys by auto
  have ok: "version_ok ?v []" "oauth_attempt_ok ?x" "asset_ok ?a"
    "list_all (\<lambda>t. reclaim_notes_ok (delivery_released Failed 20 t)) (filter ?P (tasks sample_running))"
    by (simp_all add: version_ok_def text_short oauth_attempt_ok_def asset_ok_def opt_all_def new_version_def
        settled_attempt_def new_attempt_def published_asset_def begun_def attempt_kind_def sample_alive_def sample_attempt_def
        http_code_def liveness_codes_def reclaim_notes_ok_def delivery_released_def released_def sample_running_def
        delivery_sample_defs)
  have rows: "running_attempt ''x3'' (new_attempt ''x3'' sample_delivery_item 3 1)"
    "as_id (begun 20 OAuthGenerate 3 ''x3'' sample_asset) = ''a1''" "as_attempt (begun 20 OAuthGenerate 3 ''x3'' sample_asset) = Some ''x3''"
    "as_generation (begun 20 OAuthGenerate 3 ''x3'' sample_asset) = 3"
    "versions sample_running = []" "oauth_attempts sample_running = [new_attempt ''x3'' sample_delivery_item 3 1]"
    "assets sample_running = [begun 20 OAuthGenerate 3 ''x3'' sample_asset]"
    by (simp_all add: running_attempt_def new_attempt_def begun_def sample_running_def delivery_sample_defs)
  have fields: "da_id sample_attempt = ''x3''" "da_generation sample_attempt = 3" "da_no sample_attempt = 1"
    "cs_subject ?c = ''s''" "dt_workspace sample_delivery_target = ''w1''" "lv_http ?p = 200" "lv_error ?p = []"
    by (simp_all add: sample_attempt_def sample_credentials_def sample_delivery_target_def sample_alive_def)
  have "finish_delivery_attempt (\<lambda>_. False) ?V (\<lambda>_. ''v1'') 20 sample_delivery_item sample_attempt
       sample_delivery_target ?c ?p sample_running = (Inr (), ?db2\<lparr>audit_events := [r1, r2]\<rparr>)"
    using one two ok
    by (simp add: finish_delivery_attempt_def fence_lost_def sample_running_fenced sample_success in_tx_def run_tx_def
        stmt_def tx_bind_def tx_return_def current_attempt_def check_current_def select_row_def Let_def insert_version_def
        checked_attempts_def checked_assets_def checked_tasks_def rows fields sample_facts generation_end_def update_where_def)
  then show ?thesis by (intro exI [of _ "?db2\<lparr>audit_events := [r1, r2]\<rparr>"]) simp
qed

theorem published_version_is_proven_witness:
  "\<exists>db' v. finish_delivery_attempt (\<lambda>_. False) sample_vault (\<lambda>_. ''v1'') 20 sample_delivery_item sample_attempt
       sample_delivery_target sample_credentials sample_alive sample_running = (Inr (), db')
     \<and> v \<in> set (versions db') \<and> current_for sample_delivery_item 20 sample_attempt sample_running
     \<and> vs_asset v = ''a1'' \<and> vs_generation v = 3"
proof -
  let ?v = "new_version sample_vault ''v1'' sample_delivery_item sample_attempt sample_credentials ''s'' ''w1''"
  obtain db' where run: "finish_delivery_attempt (\<lambda>_. False) sample_vault (\<lambda>_. ''v1'') 20 sample_delivery_item sample_attempt
       sample_delivery_target sample_credentials sample_alive sample_running = (Inr (), db')"
    and vs: "versions db' = [?v]" using sample_published by blast
  have "?v \<in> set (versions db')" "?v \<notin> set (versions sample_running)"
    using vs by (simp_all add: sample_running_def delivery_sample_defs)
  from published_version_is_proven [OF run this] run this(1) show ?thesis
    by (auto simp: sample_facts sample_attempt_def)
qed

theorem published_generation_ends_failed_witness:
  "\<exists>db'. finish_delivery_attempt (\<lambda>_. False) sample_vault (\<lambda>_. ''v1'') 20 sample_delivery_item sample_attempt
       sample_delivery_target sample_credentials sample_alive sample_running = (Inr (), db')
     \<and> (\<exists>t\<in>set (tasks db'). tk_id t = ''t1'' \<and> tk_status t = Failed)"
proof -
  obtain db' where run: "finish_delivery_attempt (\<lambda>_. False) sample_vault (\<lambda>_. ''v1'') 20 sample_delivery_item sample_attempt
       sample_delivery_target sample_credentials sample_alive sample_running = (Inr (), db')"
    and "versions db' \<noteq> versions sample_running"
    using sample_published by (auto simp: sample_running_def delivery_sample_defs)
  then have "\<exists>t\<in>set (tasks db'). tk_id t = it_id sample_delivery_item \<and> tk_status t = Failed \<and> tk_finished_at t = Some 20"
    by (rule published_generation_ends_failed)
  moreover have "it_id sample_delivery_item = ''t1''" by (simp add: delivery_sample_defs)
  ultimately show ?thesis using run by auto
qed

definition sample_order :: order_row where
  "sample_order = \<lparr>od_id = ''o1'', od_membership = ''m1'', od_asset = ''a1'', od_card = ''c1'', od_delivery = ''v0'',
     od_updated_at = 0, od_version = 1\<rparr>"

definition sample_token :: public_token_row where
  "sample_token = \<lparr>pt_id = ''p1'', pt_membership = ''m1'', pt_card = ''c1'', pt_order = ''o1'', pt_asset = ''a1'', pt_version = ''v0'',
     pt_kind = ''reclaim_status'', pt_hash = ''h'', pt_issued_at = 0, pt_expires_at = 24 * hour, pt_used_at = None, pt_revoked_at = None, pt_reason = None\<rparr>"

definition sample_reclaim :: delivery_db where
  "sample_reclaim = sample_running\<lparr>orders := [sample_order], public_tokens := [sample_token]\<rparr>"

definition sample_reclaim_target :: reclaim_target where
  "sample_reclaim_target = delivery_target.extend (sample_delivery_target\<lparr>dt_subject := ''s''\<rparr>)
     (reclaim_target.fields ''o1'' ''v0'' ''t'' ''r'' ''c1'')"

lemma equal_fold_ascii:
  "equal_fold sample_unicode ''s'' ''s''" "equal_fold sample_unicode ''p1'' ''p1''"
  by (simp_all add: equal_fold_def ascii_def ascii_char_def char_code_def)

lemma sample_reclaim_success:
  "reclaim_success sample_unicode sample_reclaim_target sample_credentials sample_alive False"
  by (simp add: reclaim_success_def tokens_complete_def trimmed_nonempty_def same_folded_def two_hundred_def equal_fold_ascii
      sample_delivery_target_def sample_reclaim_target_def sample_credentials_def sample_alive_def sample_trimmed
      delivery_target.defs reclaim_target.defs)

lemma sample_reclaim_events:
  "\<exists>q. validate (settled_event sample_delivery_item sample_attempt OutcomeSucceeded ''token_refresh'' ''reclaim'' ''ok'' 200 []
     '':reclaim-settled'') = Inr q"
  "\<exists>q. validate (card_event PublicReclaimUpdated sample_delivery_item ''c1'' OutcomeSucceeded
     (PublicAccessDetails ''reclaim_status'' ''restored'' [] ''token_refresh'') (''x3'' @ '':public-reclaim-updated'')) = Inr q"
  "\<exists>q. validate (delivery_event DeliveryPublished ''w1'' ''oauth_asset'' ''a1'' OutcomeSucceeded ''c1''
     (DeliveryAttemptDetails 3 1 ''token_refresh'' ''reclaim'' ''ok'' 200 []) (''a1'' @ '':reclaim:'' @ itoa 3)) = Inr q"
  by (simp_all add: validate_def settled_event_def card_event_def delivery_event_def spec_of_def details_ok_def sample_attempt_def
      valid_delivery_liveness_status_def valid_public_action_def valid_public_result_def owner_security_scope_def sample_facts)

lemma stable_key_type:
  assumes "length (event_name (ev_type e)) mod 256 \<noteq> length (event_name (ev_type f)) mod 256"
  shows "stable_key id e \<noteq> stable_key id f"
proof
  let ?n = "length (write_field ''teamseatwatch:audit:event:v1'') + 3"
  assume "stable_key id e = stable_key id f"
  then have "stable_key id e ! ?n = stable_key id f ! ?n" by simp
  then show False
    using assms
    by (simp add: stable_key_def stable_preimage_def write_field_def be32_def nth_append mod_mod_cancel)
qed

lemma sample_reclaimed:
  "\<exists>db'. finish_delivery_reclaim (\<lambda>_. False) sample_vault (\<lambda>_. ''v1'') 20 sample_delivery_item sample_attempt
       sample_reclaim_target sample_credentials sample_alive ''token_refresh'' False False sample_reclaim = (Inr (), db')
     \<and> versions db' \<noteq> versions sample_reclaim"
proof -
  let ?V = sample_vault and ?c = sample_credentials and ?p = sample_alive
  let ?v = "new_version ?V ''v1'' sample_delivery_item sample_attempt ?c ''s'' ''w1''"
  let ?P = "\<lambda>t. tk_id t = it_id sample_delivery_item \<and> tk_lease_token t = Some (it_token sample_delivery_item) \<and> tk_status t = Running"
  let ?f = "\<lambda>t. (delivery_released Succeeded 20 t)\<lparr>tk_reclaim_tier := Some ''token_refresh'',
    tk_reclaim_result := Some ''token_refresh'', tk_reclaim_probe := Some ''ok'', tk_reclaim_http := Some 200,
    tk_reclaim_stage := Some ''publish''\<rparr>"
  let ?x = "settled_attempt ''published'' ''token_refresh'' 20
    ((new_attempt ''x3'' sample_delivery_item 3 1)\<lparr>oa_published := Some ''v1''\<rparr>)"
  let ?d = "sample_order\<lparr>od_delivery := ''v1'', od_updated_at := 20, od_version := 2\<rparr>"
  let ?t = "sample_token\<lparr>pt_revoked_at := Some 20, pt_reason := Some ''reclaim_published''\<rparr>"
  let ?db1 = "sample_reclaim\<lparr>versions := [?v], orders := [?d], public_tokens := [?t], 
    assets := [begun 20 OAuthGenerate 3 ''x3'' sample_asset], oauth_attempts := [?x], tasks := update_where ?P ?f (tasks sample_running)\<rparr>"
  let ?e1 = "settled_event sample_delivery_item sample_attempt OutcomeSucceeded ''token_refresh'' ''reclaim'' ''ok'' 200 []
     '':reclaim-settled''"
  let ?e2 = "card_event PublicReclaimUpdated sample_delivery_item ''c1'' OutcomeSucceeded
     (PublicAccessDetails ''reclaim_status'' ''restored'' [] ''token_refresh'') (''x3'' @ '':public-reclaim-updated'')"
  let ?e3 = "delivery_event DeliveryPublished ''w1'' ''oauth_asset'' ''a1'' OutcomeSucceeded ''c1''
     (DeliveryAttemptDetails 3 1 ''token_refresh'' ''reclaim'' ''ok'' 200 []) (''a1'' @ '':reclaim:'' @ itoa 3)"
  obtain q1 q2 q3 where q: "validate ?e1 = Inr q1" "validate ?e2 = Inr q2" "validate ?e3 = Inr q3"
    using sample_reclaim_events by blast
  have keys: "stable_key id ?e1 \<noteq> stable_key id ?e2" "stable_key id ?e1 \<noteq> stable_key id ?e3"
    "stable_key id ?e2 \<noteq> stable_key id ?e3"
    by (rule stable_key_type, simp add: settled_event_def card_event_def delivery_event_def)+
  have "audit_events ?db1 = []" by (simp add: sample_reclaim_def sample_running_def delivery_sample_defs)
  then obtain r1 where r1: "au_key r1 = stable_key id ?e1"
    and one: "audit_fact id (\<lambda>_. False) 10 ''v1'' 20 ?e1 ?db1 = Inr ((), ?db1\<lparr>audit_events := [r1]\<rparr>)"
    using audit_fact_next [OF q(1), of ?db1 id 10 "''v1''" 20] by auto
  let ?db2 = "?db1\<lparr>audit_events := [r1]\<rparr>"
  obtain r2 where r2: "au_key r2 = stable_key id ?e2"
    and two: "audit_fact id (\<lambda>_. False) 12 ''v1'' 20 ?e2 ?db2 = Inr ((), ?db2\<lparr>audit_events := [r1, r2]\<rparr>)"
    using audit_fact_next [OF q(2), of ?db2 id 12 "''v1''" 20] r1 keys by auto
  let ?db3 = "?db2\<lparr>audit_events := [r1, r2]\<rparr>"
  obtain r3 where three: "audit_fact id (\<lambda>_. False) 14 ''v1'' 20 ?e3 ?db3 = Inr ((), ?db3\<lparr>audit_events := [r1, r2, r3]\<rparr>)"
    using audit_fact_next [OF q(3), of ?db3 id 14 "''v1''" 20] r1 r2 keys by auto
  have ok: "version_ok ?v []" "oauth_attempt_ok ?x"
    "oauth_attempt_ok ((new_attempt ''x3'' sample_delivery_item 3 1)\<lparr>oa_published := Some ''v1''\<rparr>)"
    "list_all (\<lambda>t. reclaim_notes_ok (?f t)) (filter ?P (tasks sample_running))"
    by (simp_all add: version_ok_def text_short oauth_attempt_ok_def opt_all_def new_version_def settled_attempt_def
        new_attempt_def attempt_kind_def sample_attempt_def http_code_def reclaim_notes_ok_def delivery_released_def
        released_def sample_running_def delivery_sample_defs)
  have rows: "running_attempt ''x3'' ((new_attempt ''x3'' sample_delivery_item 3 1)\<lparr>oa_published := Some ''v1''\<rparr>)"
    "oa_id (new_attempt ''x3'' sample_delivery_item 3 1) = ''x3''"
    "as_id (begun 20 OAuthGenerate 3 ''x3'' sample_asset) = ''a1''" "as_attempt (begun 20 OAuthGenerate 3 ''x3'' sample_asset) = Some ''x3''"
    "as_delivery (begun 20 OAuthGenerate 3 ''x3'' sample_asset) = None"
    "as_generation (begun 20 OAuthGenerate 3 ''x3'' sample_asset) = 3"
    "versions sample_reclaim = []" "oauth_attempts sample_reclaim = [new_attempt ''x3'' sample_delivery_item 3 1]"
    "assets sample_reclaim = [begun 20 OAuthGenerate 3 ''x3'' sample_asset]" "orders sample_reclaim = [sample_order]"
    "public_tokens sample_reclaim = [sample_token]" "tasks sample_reclaim = tasks sample_running"
    by (simp_all add: running_attempt_def new_attempt_def begun_def sample_running_def sample_reclaim_def delivery_sample_defs)
  have fields: "da_id sample_attempt = ''x3''" "da_generation sample_attempt = 3" "da_no sample_attempt = 1"
    "lv_http ?p = 200" "lv_error ?p = []" "lv_status ?p = ''ok''" "lv_subject ?p = ''s''" "dt_workspace sample_reclaim_target = ''w1''"
    "rc_order sample_reclaim_target = ''o1''" "rc_version sample_reclaim_target = ''v0''" "rc_card sample_reclaim_target = ''c1''"
    "od_id sample_order = ''o1''" "od_asset sample_order = ''a1''" "od_delivery sample_order = ''v0''" "od_version sample_order = 1"
    "pt_order sample_token = ''o1''" "pt_revoked_at sample_token = None" "va_unicode ?V = sample_unicode"
    by (simp_all add: sample_attempt_def sample_alive_def sample_reclaim_target_def sample_delivery_target_def sample_order_def
        sample_token_def sample_vault_def delivery_target.defs reclaim_target.defs)
  have fenced: "delivery_fenced sample_delivery_item 20 sample_reclaim = Some (begun 20 OAuthGenerate 3 ''x3'' sample_asset)"
    using sample_running_fenced
    by (simp add: sample_reclaim_def delivery_fenced_def active_membership_def open_batch_def cong: option.case_cong)
  have "finish_delivery_reclaim (\<lambda>_. False) ?V (\<lambda>_. ''v1'') 20 sample_delivery_item sample_attempt sample_reclaim_target ?c ?p
      ''token_refresh'' False False sample_reclaim = (Inr (), ?db3\<lparr>audit_events := [r1, r2, r3]\<rparr>)"
    using one two three ok
    by (simp add: finish_delivery_reclaim_def fenced sample_reclaim_success in_tx_def run_tx_def stmt_def tx_bind_def
        tx_return_def current_attempt_def check_current_def select_row_def Let_def insert_version_def publish_reclaimed_def
        move_order_def revoke_tokens_def exactly_one_def affected_def checked_attempts_def checked_assets_def checked_tasks_def
        rows fields sample_facts or_default_def nullif_def reclaim_audit_result_def update_where_def)
  then show ?thesis by (intro exI [of _ "?db3\<lparr>audit_events := [r1, r2, r3]\<rparr>"]) (simp add: rows)
qed


end
