(* ===== verification/ReclaimLaws.thy ===== *)
theory ReclaimLaws
  imports DeliveryLaws
begin

text \<open>
  What a worker sends for a delivery task, and in which order.  A program keeps to \<open>P\<close> when
  whatever it appends to the log, with every answer of the outside and every error on the way,
  satisfies \<open>P\<close>, and \<open>S\<close> when it returns without an error.  The rules read both off the text of
  a program: a request shifts them by its action.
\<close>

section \<open>Logs of a program\<close>

definition tells :: "(action list \<Rightarrow> bool) \<Rightarrow> (action list \<Rightarrow> bool) \<Rightarrow> ('z, 'a) prog \<Rightarrow> bool" where
  "tells P S m \<longleftrightarrow> (\<forall>w r w'. m w = (r, w') \<longrightarrow>
     (\<exists>q. wd_log w' = wd_log w @ q \<and> P q \<and> (\<forall>x. r = Inr x \<longrightarrow> S q)))"

lemma tells_mono: "tells P S m \<Longrightarrow> (\<And>q. P q \<Longrightarrow> P' q) \<Longrightarrow> (\<And>q. S q \<Longrightarrow> S' q) \<Longrightarrow> tells P' S' m"
  unfolding tells_def by meson

lemma tells_end:
  assumes "speaks {[]} m" and "P []" and "fails m \<or> S []"
  shows "tells P S m"
  unfolding tells_def
proof (intro allI impI)
  fix w r w' assume run: "m w = (r, w')"
  with assms(1) have "wd_log w' = wd_log w" by (rule silent_log)
  with run assms(2,3) show "\<exists>q. wd_log w' = wd_log w @ q \<and> P q \<and> (\<forall>x. r = Inr x \<longrightarrow> S q)"
    unfolding fails_def by (intro exI [of _ "[]"]) auto
qed

lemma tells_after:
  assumes "speaks {[]} m" and "P []" and "\<And>x. tells P S (f x)"
  shows "tells P S (p_bind m f)"
  unfolding tells_def
proof (intro allI impI)
  fix w r w' assume "p_bind m f w = (r, w')"
  then show "\<exists>q. wd_log w' = wd_log w @ q \<and> P q \<and> (\<forall>x. r = Inr x \<longrightarrow> S q)"
  proof (cases rule: p_bind_run)
    case (1 x w1)
    with assms(1,3) show ?thesis unfolding tells_def using silent_log by metis
  next
    case (2 e)
    with silent_log [OF assms(1) 2(1)] assms(2) show ?thesis by simp
  qed
qed

lemma tells_tell:
  assumes "\<And>k. tells (\<lambda>q. P (snd (h k) # q)) (\<lambda>q. S (snd (h k) # q)) (f (fst (h k)))"
  shows "tells P S (p_bind (tell N h) f)"
  unfolding tells_def
proof (intro allI impI)
  fix w r w' assume run: "p_bind (tell N h) f w = (r, w')"
  let ?k = "wd_step w"
  let ?w1 = "w\<lparr>wd_step := Suc ?k, wd_log := wd_log w @ [snd (h ?k)]\<rparr>"
  have "f (fst (h ?k)) ?w1 = (r, w')"
    using run by (simp add: p_bind_def p_try_def tell_def)
  with assms [of ?k, unfolded tells_def, rule_format, of ?w1 r w'] obtain q where
    "wd_log w' = wd_log ?w1 @ q" "P (snd (h ?k) # q)" "\<forall>x. r = Inr x \<longrightarrow> S (snd (h ?k) # q)"
    by auto
  then show "\<exists>q. wd_log w' = wd_log w @ q \<and> P q \<and> (\<forall>x. r = Inr x \<longrightarrow> S q)"
    by (intro exI [of _ "snd (h ?k) # q"]) simp
qed

lemma tells_send:
  assumes "\<And>x. tells (\<lambda>q. P (a # q)) (\<lambda>q. S (a # q)) (f x)"
  shows "tells P S (p_bind (send N a g) f)"
proof -
  have "send N a g = tell N (\<lambda>k. (g k, a))" by (simp add: send_def tell_def fun_eq_iff)
  then show ?thesis using assms by (simp add: tells_tell)
qed

lemma tells_if: "(c \<Longrightarrow> tells P S m) \<Longrightarrow> (\<not> c \<Longrightarrow> tells P S n) \<Longrightarrow> tells P S (if c then m else n)"
  by simp

lemma tells_option:
  "(v = None \<Longrightarrow> tells P S m) \<Longrightarrow> (\<And>x. v = Some x \<Longrightarrow> tells P S (f x)) \<Longrightarrow> tells P S (case v of None \<Rightarrow> m | Some x \<Rightarrow> f x)"
  by (cases v) simp_all

section \<open>Steps of the delivery workers\<close>

lemma says_begin: "speaks {[]} (begin_attempt N X item)"
  unfolding begin_attempt_def by (rule says_store_call)

lemma says_note: "speaks {[]} (note_stage N X item attempt stage tier)"
  unfolding note_stage_def by (rule says_store_call)

lemma says_settled: "speaks {[]} m \<Longrightarrow> speaks {[]} (settled_or_failed m ok)"
  unfolding settled_or_failed_def
  by (intro speaks_try speaks_sum) (auto intro: says_fail says_return)

lemma fails_settled: "\<not> ok \<Longrightarrow> fails (settled_or_failed m ok)"
  unfolding fails_def settled_or_failed_def
  by (auto simp: p_try_def p_fail_def split: prod.splits sum.splits)

lemma says_conclude_generation: "speaks {[]} (conclude_generation N X item attempt target c p)"
  unfolding conclude_generation_def by (intro says_settled says_store_call)

lemma says_conclude_probe: "speaks {[]} (conclude_probe N X item attempt dp p)"
  unfolding conclude_probe_def by (intro says_settled says_store_call)

lemma says_conclude_reclaim: "speaks {[]} (conclude_reclaim N X item attempt rt c p tier no_action unavailable)"
  unfolding conclude_reclaim_def by (intro speaks_after [OF says_note] says_settled says_store_call)

lemma fails_conclude_reclaim:
  "\<not> no_action \<Longrightarrow> tier = ''unrecoverable'' \<or> lv_status p \<noteq> ''ok''
     \<Longrightarrow> fails (conclude_reclaim N X item attempt rt c p tier no_action unavailable)"
  unfolding conclude_reclaim_def by (intro fails_bind fails_settled) auto

lemma says_reclaim_failure: "speaks {[]} (reclaim_failure N X item attempt rt code u)"
  and fails_reclaim_failure: "fails (reclaim_failure N X item attempt rt code u)"
  unfolding reclaim_failure_def
  by (intro speaks_after [OF says_clock] says_conclude_reclaim fails_bind fails_conclude_reclaim; simp)+

lemma says_generation_failure: "speaks {[]} (generation_failure N X item attempt target c code)"
  unfolding generation_failure_def by (intro speaks_after [OF says_clock] says_conclude_generation)

lemma fails_generation_failure: "fails (generation_failure N X item attempt target c code)"
  unfolding generation_failure_def conclude_generation_def
  by (intro fails_bind fails_settled) (simp add: unknown_liveness_def)

text \<open>A liveness read that says ok was answered with a 2xx.\<close>

lemma liveness_ok: "lv_status (snd (check_delivery_liveness U D net clock access ws)) = ''ok''
    \<Longrightarrow> two_hundred (lv_http (snd (check_delivery_liveness U D net clock access ws)))"
  by (auto simp: check_delivery_liveness_def Let_def liveness_status_def two_hundred_def
      split: if_splits option.splits prod.splits)

lemma tells_check_alive:
  assumes "\<And>e p. (lv_status p = ''ok'' \<Longrightarrow> two_hundred (lv_http p)) \<Longrightarrow>
    tells (\<lambda>q. P (Checked access (lv_status p) (lv_http p) # q)) (\<lambda>q. S (Checked access (lv_status p) (lv_http p) # q)) (f (e, p))"
  shows "tells P S (p_bind (check_alive N X access ws) f)"
  unfolding check_alive_def Let_def
proof (rule tells_tell, unfold fst_conv snd_conv)
  fix k
  let ?r = "check_delivery_liveness (en_unicode N) (dx_tokens X) (dx_bearer X k) (en_clock N k) access ws"
  obtain e p where r: "?r = (e, p)" by fastforce
  have "lv_status p = ''ok'' \<Longrightarrow> two_hundred (lv_http p)"
    using liveness_ok [of "en_unicode N" "dx_tokens X" "dx_bearer X k" "en_clock N k" access ws] r by simp
  then show "tells (\<lambda>q. P (Checked access (lv_status (snd ?r)) (lv_http (snd ?r)) # q))
      (\<lambda>q. S (Checked access (lv_status (snd ?r)) (lv_http (snd ?r)) # q)) (f ?r)"
    unfolding r snd_conv by (rule assms)
qed

text \<open>A read of a reclaim is taken as it was answered, or as unknown.\<close>

lemma normalized_status:
  "lv_status (normalize_reclaim_probe e clock p) = (if lv_status p = [] then ''unknown'' else lv_status p)"
  "lv_http (normalize_reclaim_probe e clock p) = lv_http p"
  by (simp_all add: normalize_reclaim_probe_def Let_def)

lemma p_bind_assoc: "p_bind (p_bind m f) g = p_bind m (\<lambda>x. p_bind (f x) g)"
  by (auto simp: p_bind_def p_try_def p_fail_def fun_eq_iff split: prod.split sum.split)

lemma p_bind_return: "p_bind (p_return x) f = f x"
  by (simp add: p_bind_def p_try_def p_return_def fun_eq_iff)

lemma tells_reclaim_probe:
  assumes "\<And>s h p. \<lbrakk>lv_status p = s \<and> lv_http p = h \<or> lv_status p = ''unknown''; s = ''ok'' \<Longrightarrow> two_hundred h\<rbrakk> \<Longrightarrow>
      tells (\<lambda>q. P (Checked access s h # q)) (\<lambda>q. S (Checked access s h # q)) (f p)"
    and "\<And>s h. P [Checked access s h]"
  shows "tells P S (p_bind (reclaim_probe N X access rt) f)"
  unfolding reclaim_probe_def p_bind_assoc p_bind_return
  by (intro tells_check_alive tells_after [OF says_clock] tells_after [OF says_same_exit] assms)
    (auto simp: normalized_status unknown_liveness_def split: if_splits)

section \<open>The words of the three workers\<close>

text \<open>At most one liveness read; it is proven when it was answered ok with a 2xx.\<close>

definition checks :: "action list \<Rightarrow> bool" where
  "checks q \<longleftrightarrow> q = [] \<or> (\<exists>a s h. q = [Checked a s h])"

definition proven :: "action list \<Rightarrow> bool" where
  "proven q \<longleftrightarrow> q \<noteq> [] \<and> (\<exists>a h. last q = Checked a ''ok'' h \<and> two_hundred h)"

definition login_said :: "action list \<Rightarrow> bool" where
  "login_said q \<longleftrightarrow> q = [] \<or> (\<exists>r. checks r \<and> q = Relogged # r)"

text \<open>After a refresh the new token is read; it is rejected, or the login follows at once.\<close>

definition refresh_said :: "action list \<Rightarrow> bool" where
  "refresh_said q \<longleftrightarrow> checks q \<or> login_said q \<or> (\<exists>a r. login_said r \<and> q = Checked a ''auth_error'' 401 # r)"

definition reclaim_said :: "action list \<Rightarrow> bool" where
  "reclaim_said q \<longleftrightarrow> checks q \<or> (\<exists>a r. refresh_said r \<and> q = Checked a ''auth_error'' 401 # Refreshed # r)"

lemmas said_defs = checks_def proven_def login_said_def refresh_said_def reclaim_said_def

lemma tells_conclude:
  assumes "P []" and "no_action \<or> (tier \<noteq> ''unrecoverable'' \<and> lv_status p = ''ok'') \<Longrightarrow> S []"
  shows "tells P S (conclude_reclaim N X item attempt rt c p tier no_action unavailable)"
proof (rule tells_end [OF says_conclude_reclaim])
  show "fails (conclude_reclaim N X item attempt rt c p tier no_action unavailable) \<or> S []"
    using assms(2) fails_conclude_reclaim [of no_action tier p N X item attempt rt c unavailable] by blast
qed (rule assms(1))

lemma tells_reclaim_failure: "P [] \<Longrightarrow> tells P S (reclaim_failure N X item attempt rt code u)"
  by (rule tells_end [OF says_reclaim_failure]) (simp_all add: fails_reclaim_failure)

lemma tells_relogin_checked: "tells checks proven (relogin_checked N X item attempt rt c)"
  unfolding relogin_checked_def
  by (intro tells_after [OF says_same_exit] tells_if tells_reclaim_failure tells_after [OF says_note] tells_reclaim_probe
      tells_conclude) (auto simp: said_defs)

lemma tells_relogin: "tells login_said proven (relogin N X item attempt rt)"
  unfolding relogin_def
  by (intro tells_after [OF says_note] tells_after [OF says_renew] tells_send tells_option tells_reclaim_failure
      tells_mono [OF tells_relogin_checked])
    (auto simp: said_defs)

lemma tells_refresh_first:
  "tells (\<lambda>q. q = [] \<or> (\<exists>r. refresh_said r \<and> q = Refreshed # r)) proven (refresh_first N X item attempt rt)"
  unfolding refresh_first_def refreshed_tokens_def
  by (intro tells_after [OF says_note] tells_send tells_option tells_if tells_after [OF says_same_exit]
      tells_reclaim_probe tells_conclude tells_mono [OF tells_relogin])
    (auto simp: said_defs alive_def rejected_def probe_authoritative_def two_hundred_def)

lemma tells_reclaim: "tells reclaim_said proven (run_delivery_reclaim N X item)"
  unfolding run_delivery_reclaim_def
  by (intro tells_after [OF says_store_read] tells_after [OF says_begin] tells_if tells_reclaim_failure
      tells_after [OF says_note] tells_reclaim_probe tells_conclude tells_mono [OF tells_refresh_first])
    (auto simp: said_defs alive_def rejected_def probe_authoritative_def two_hundred_def)

text \<open>A generation logs in once and reads the new token once; a probe reads the stored token once.\<close>

lemma tells_generation_failure: "P [] \<Longrightarrow> tells P S (generation_failure N X item attempt target c code)"
  by (rule tells_end [OF says_generation_failure]) (simp_all add: fails_generation_failure)

lemma tells_settlement:
  assumes "P []" and "lv_status p = ''ok'' \<Longrightarrow> S []"
  shows "tells P S (conclude_generation N X item attempt target c p)"
    and "tells P S (conclude_probe N X item attempt dp p)"
proof -
  have "fails (conclude_generation N X item attempt target c p) \<or> S []"
    "fails (conclude_probe N X item attempt dp p) \<or> S []"
    using assms(2) fails_settled unfolding conclude_generation_def conclude_probe_def by blast+
  then show "tells P S (conclude_generation N X item attempt target c p)"
    "tells P S (conclude_probe N X item attempt dp p)"
    using assms(1) by (auto intro: tells_end [OF says_conclude_generation] tells_end [OF says_conclude_probe])
qed

lemma read_status:
  "lv_status (generated_liveness e ok clock p) = ''ok'' \<Longrightarrow> lv_status p = ''ok''"
  "lv_status (probed_liveness item e ok clock p) = ''ok'' \<Longrightarrow> lv_status p = ''ok''"
  by (auto simp: generated_liveness_def probed_liveness_def drifted_def Let_def split: if_splits)

lemma tells_check_generated: "tells checks proven (check_generated N X item attempt target c)"
  unfolding check_generated_def
  by (intro tells_check_alive tells_after [OF says_clock] tells_after [OF says_same_exit] tells_settlement)
    (auto simp: said_defs dest!: read_status)

lemma tells_generation: "tells login_said proven (run_delivery_generation N X item)"
  unfolding run_delivery_generation_def
  by (intro tells_after [OF says_store_read] tells_after [OF says_begin] tells_if tells_generation_failure tells_send
      tells_option tells_after [OF says_same_exit] tells_after [OF says_renew] tells_mono [OF tells_check_generated])
    (auto simp: said_defs)

lemma tells_try:
  assumes "speaks {[]} m" and "\<And>r. tells P S (f r)"
  shows "tells P S (p_try m f)"
  unfolding tells_def
proof (intro allI impI)
  fix w r w' assume run: "p_try m f w = (r, w')"
  obtain r1 w1 where m: "m w = (r1, w1)" by fastforce
  with assms(1) have "wd_log w1 = wd_log w" by (rule silent_log)
  moreover have "f r1 w1 = (r, w')" using run m by (simp add: p_try_def)
  ultimately show "\<exists>q. wd_log w' = wd_log w @ q \<and> P q \<and> (\<forall>x. r = Inr x \<longrightarrow> S q)"
    using assms(2) [of r1] unfolding tells_def by metis
qed

lemma tells_fail_task: "P [] \<Longrightarrow> tells P S (fail_task N item e c s)"
  by (rule tells_end [OF says_fail_task]) (simp_all add: fails_fail_task)

lemma tells_sum:
  "(\<And>a. v = Inl a \<Longrightarrow> tells P S (f a)) \<Longrightarrow> (\<And>b. v = Inr b \<Longrightarrow> tells P S (g b))
     \<Longrightarrow> tells P S (case v of Inl a \<Rightarrow> f a | Inr b \<Rightarrow> g b)"
  by (cases v) simp_all

lemma tells_probe: "tells checks proven (run_delivery_probe N X item)"
  unfolding run_delivery_probe_def
  by (intro tells_if tells_fail_task tells_try [OF says_store_read] tells_sum tells_after [OF says_begin]
      tells_after [OF says_clock] tells_check_alive tells_after [OF says_same_exit] tells_settlement)
    (auto simp: said_defs unknown_liveness_def dest!: read_status)


end
