(* ===== verification/RateLimits.thy ===== *)
theory RateLimits
  imports TaskStore Encodings AuditLaws
begin

text \<open>
  Package internal/publicaccess, file ratelimit.go: the fixed-window limits of the public
  requests, on the table that also counts the failed logins of the Owner.  The clock of a
  request, SHA-256 (\<open>H\<close>) and the driver's faults are arguments.  The row lock a call takes on
  each bucket makes it one step; sort.Slice leaves the order of limits with equal kind and
  hash open, here they stay in place.
\<close>

section \<open>The table of buckets\<close>

record bucket_row =
  bk_kind :: string
  bk_hash :: string
  bk_start :: instant
  bk_end :: instant
  bk_count :: int
  bk_blocked :: "instant option"
  bk_expires :: instant

record limits_db = audit_db +
  buckets :: "bucket_row list"

definition login_kinds :: "string list" where
  "login_kinds = [''login_account'', ''login_ip'', ''recovery_account'', ''recovery_ip'']"

definition public_kinds :: "string list" where
  "public_kinds = [''public_card'', ''public_ip'', ''public_token'', ''public_token_ip'', ''public_reclaim_card'', ''public_reclaim_ip'']"

text \<open>The CHECK constraints of tsw_rate_limit_buckets.\<close>

definition bucket_ok :: "bucket_row \<Rightarrow> bool" where
  "bucket_ok b \<longleftrightarrow>
    (let until = (case bk_blocked b of None \<Rightarrow> bk_end b | Some t \<Rightarrow> t) in
     0 \<le> bk_count b
     \<and> (bk_kind b \<in> set login_kinds \<and> bk_count b \<le> 5 \<or> bk_kind b \<in> set public_kinds \<and> bk_count b \<le> 120)
     \<and> length (bk_hash b) = 32
     \<and> (bk_end b = bk_start b + minute \<or> bk_end b = bk_start b + 15 * minute)
     \<and> (case bk_blocked b of None \<Rightarrow> True | Some t \<Rightarrow> t \<le> bk_end b + 15 * minute)
     \<and> until \<le> bk_expires b \<and> bk_expires b \<le> until + 7 * 24 * hour)"

text \<open>The unique key of a bucket: kind, subject and start of its window.\<close>

type_synonym slot = "string \<times> string \<times> instant"

definition slot_of :: "bucket_row \<Rightarrow> slot" where
  "slot_of b = (bk_kind b, bk_hash b, bk_start b)"

definition bucket_at :: "slot \<Rightarrow> 'z limits_db_scheme \<Rightarrow> bucket_row option" where
  "bucket_at s db = find (\<lambda>b. slot_of b = s) (buckets db)"

text \<open>INSERT ... ON CONFLICT DO NOTHING, and UPDATE of one slot; both obey the constraints.\<close>

definition open_bucket :: "bucket_row \<Rightarrow> (store_error, 'z limits_db_scheme, unit) tx" where
  "open_bucket b = (\<lambda>db.
     if \<not> bucket_ok b then Inl ErrConstraint
     else if list_ex (\<lambda>x. slot_of x = slot_of b) (buckets db) then Inr ((), db)
     else Inr ((), db\<lparr>buckets := buckets db @ [b]\<rparr>))"

definition update_bucket ::
  "slot \<Rightarrow> (bucket_row \<Rightarrow> bucket_row) \<Rightarrow> (store_error, 'z limits_db_scheme, unit) tx" where
  "update_bucket s f = (\<lambda>db.
     if list_all (\<lambda>b. bucket_ok (f b)) (filter (\<lambda>b. slot_of b = s) (buckets db))
     then Inr ((), db\<lparr>buckets := update_where (\<lambda>b. slot_of b = s) f (buckets db)\<rparr>)
     else Inl ErrConstraint)"

section \<open>Public limits\<close>

record limit =
  li_kind :: string
  li_hash :: string
  li_window :: duration
  li_max :: int

definition subject_fingerprint :: "(string \<Rightarrow> string) \<Rightarrow> string \<Rightarrow> string \<Rightarrow> string" where
  "subject_fingerprint H kind v = H (''teamseatwatch:public-rate:v1'' @ [byte 0] @ kind @ [byte 0] @ v)"

definition limit_ok :: "limit \<Rightarrow> bool" where
  "limit_ok l \<longleftrightarrow> li_kind l \<noteq> [] \<and> 0 < li_window l \<and> 0 < li_max l \<and> li_max l \<le> 120"

definition limit_slot :: "instant \<Rightarrow> limit \<Rightarrow> slot" where
  "limit_slot now l = (li_kind l, li_hash l, truncate_time now (li_window l))"

definition fresh_bucket :: "instant \<Rightarrow> limit \<Rightarrow> bucket_row" where
  "fresh_bucket now l =
    (let start = truncate_time now (li_window l); until = start + li_window l in
     \<lparr>bk_kind = li_kind l, bk_hash = li_hash l, bk_start = start, bk_end = until, bk_count = 0,
      bk_blocked = None, bk_expires = until\<rparr>)"

definition counted :: "bucket_row \<Rightarrow> bucket_row" where
  "counted b = b\<lparr>bk_count := bk_count b + 1\<rparr>"

fun consume_limits ::
  "faults \<Rightarrow> nat \<Rightarrow> instant \<Rightarrow> limit list \<Rightarrow> (store_error, 'z limits_db_scheme, bool) tx" where
  "consume_limits flt k now [] = tx_return True"
| "consume_limits flt k now (l # ls) =
    (if \<not> limit_ok l then tx_fail ErrInvalid
     else
       tx_bind (stmt flt k (open_bucket (fresh_bucket now l))) (\<lambda>_.
       tx_bind (stmt flt (k + 1) (select_row (\<lambda>db. map_option bk_count (bucket_at (limit_slot now l) db)) ErrNoRows)) (\<lambda>n.
       if li_max l \<le> n then tx_return False
       else
         tx_bind (stmt flt (k + 2) (update_bucket (limit_slot now l) counted)) (\<lambda>_.
         consume_limits flt (k + 3) now ls))))"

definition check_limits ::
  "faults \<Rightarrow> instant \<Rightarrow> limit list \<Rightarrow> 'z limits_db_scheme \<Rightarrow> (store_error, bool) result \<times> 'z limits_db_scheme" where
  "check_limits flt now ls =
    (if ls = [] then (\<lambda>db. (Inl ErrInvalid, db))
     else in_tx flt (3 * length ls + 1) (consume_limits flt 1 now (sort_key (\<lambda>l. (li_kind l, li_hash l)) ls)))"

section \<open>The abstract quota\<close>

text \<open>
  What a caller is promised: a counter for every subject and window.  A call takes one from each
  of its counters in turn and stops at the first that is used up.
\<close>

type_synonym quota = "slot \<Rightarrow> int"

fun spend :: "instant \<Rightarrow> limit list \<Rightarrow> quota \<Rightarrow> bool \<times> quota" where
  "spend now [] q = (True, q)"
| "spend now (l # ls) q =
    (if li_max l \<le> q (limit_slot now l) then (False, q)
     else spend now ls (q(limit_slot now l := q (limit_slot now l) + 1)))"

definition used :: "'z limits_db_scheme \<Rightarrow> quota" where
  "used db s = (case bucket_at s db of None \<Rightarrow> 0 | Some b \<Rightarrow> bk_count b)"

lemma find_update_where:
  assumes "\<And>r. P r \<Longrightarrow> Q (f r) = Q r"
  shows "find Q (update_where P f rs) = map_option (\<lambda>r. if P r then f r else r) (find Q rs)"
  using assms by (induction rs) (auto simp: update_where_def)

lemma slot_counted [simp]: "slot_of (counted b) = slot_of b"
  by (simp add: slot_of_def counted_def)

lemma slot_fresh [simp]: "slot_of (fresh_bucket now l) = limit_slot now l"
  by (simp add: slot_of_def fresh_bucket_def limit_slot_def Let_def)

lemma used_open:
  assumes "open_bucket b db = Inr (u, db')" and "bk_count b = 0"
  shows "used db' = used db \<and> bucket_at (slot_of b) db' \<noteq> None"
proof (cases "list_ex (\<lambda>x. slot_of x = slot_of b) (buckets db)")
  case True
  with assms show ?thesis by (auto simp: open_bucket_def bucket_at_def find_None_iff list_ex_iff split: if_splits)
next
  case False
  have "bucket_at s db' = (case bucket_at s db of None \<Rightarrow> if slot_of b = s then Some b else None | Some x \<Rightarrow> Some x)" for s
    using assms(1) False by (auto simp: open_bucket_def bucket_at_def find_append split: if_splits option.splits)
  moreover have "bucket_at (slot_of b) db = None"
    using False by (auto simp: bucket_at_def find_None_iff list_ex_iff)
  ultimately show ?thesis using assms(2) by (auto simp: used_def fun_eq_iff split: option.splits)
qed

lemma used_counted:
  assumes "update_bucket s counted db = Inr (u, db')" and "bucket_at s db \<noteq> None"
  shows "used db' = (used db)(s := used db s + 1)"
proof -
  have "bucket_at s' db' = map_option (\<lambda>b. if slot_of b = s then counted b else b) (bucket_at s' db)" for s'
    using assms(1) by (auto simp: update_bucket_def bucket_at_def find_update_where split: if_splits)
  moreover have "bucket_at s' db = Some b \<Longrightarrow> slot_of b = s'" for s' b
    by (auto simp: bucket_at_def find_Some_iff)
  ultimately show ?thesis
    using assms(2) by (auto simp: used_def fun_eq_iff counted_def split: option.splits)
qed

lemma used_slot: "map_option bk_count (bucket_at s db) = Some n \<Longrightarrow> used db s = n \<and> bucket_at s db \<noteq> None"
  by (auto simp: used_def)

lemma consume_refines:
  "consume_limits flt k now ls db = Inr (granted, db') \<Longrightarrow> spend now ls (used db) = (granted, used db')"
proof (induction flt k now ls arbitrary: db rule: consume_limits.induct)
  case (1 flt k now)
  then show ?case by (simp add: tx_simps)
next
  case (2 flt k now l ls)
  have ok: "limit_ok l" using "2.prems" by (auto simp: tx_simps split: if_splits)
  with "2.prems" obtain db1 n where o: "open_bucket (fresh_bucket now l) db = Inr ((), db1)"
    and n: "map_option bk_count (bucket_at (limit_slot now l) db1) = Some n"
    and rest: "(if li_max l \<le> n then tx_return False
       else tx_bind (stmt flt (k + 2) (update_bucket (limit_slot now l) counted)) (\<lambda>_. consume_limits flt (k + 3) now ls)) db1
       = Inr (granted, db')"
    by (auto simp: tx_simps)
  have "used db1 = used db" using used_open [OF o] by (simp add: fresh_bucket_def Let_def)
  moreover note used_slot [OF n]
  ultimately have q: "used db = used db1" "used db (limit_slot now l) = n" "bucket_at (limit_slot now l) db1 \<noteq> None"
    by auto
  show ?case
  proof (cases "li_max l \<le> n")
    case True
    with rest q show ?thesis by (auto simp: tx_simps)
  next
    case False
    with rest obtain db2 where u: "update_bucket (limit_slot now l) counted db1 = Inr ((), db2)"
      and c: "consume_limits flt (k + 3) now ls db2 = Inr (granted, db')"
      by (auto simp: tx_simps)
    have "spend now ls (used db2) = (granted, used db')"
      using "2.IH" [OF _ _ c] ok False by simp
    with False q used_counted [OF u q(3)] show ?thesis by simp
  qed
qed


section \<open>What the quota promises\<close>

lemma spend_bounds:
  assumes "spend now ls q = (granted, q')" and "\<forall>l\<in>set ls. limit_slot now l = s \<longrightarrow> li_max l \<le> m"
  shows "q s \<le> q' s \<and> q' s \<le> max (q s) m"
  using assms
proof (induction now ls q rule: spend.induct)
  case (2 now l ls q)
  then show ?case by (cases "limit_slot now l = s") (fastforce split: if_splits)+
qed simp

lemma spend_granted:
  assumes "spend now ls q = (True, q')" and "\<forall>l\<in>set ls. limit_slot now l = s \<longrightarrow> li_max l \<le> m"
    and "\<exists>l\<in>set ls. limit_slot now l = s"
  shows "q s + 1 \<le> q' s \<and> q' s \<le> m"
  using assms
proof (induction now ls q rule: spend.induct)
  case (2 now l ls q)
  let ?q = "q(limit_slot now l := q (limit_slot now l) + 1)"
  have run: "spend now ls ?q = (True, q')" and room: "q (limit_slot now l) < li_max l"
    using "2.prems"(1) by (auto split: if_splits)
  have rest: "\<forall>l\<in>set ls. limit_slot now l = s \<longrightarrow> li_max l \<le> m" using "2.prems"(2) by simp
  show ?case
  proof (cases "limit_slot now l = s")
    case True
    then have "li_max l \<le> m" using "2.prems"(2) by simp
    with spend_bounds [OF run rest] room True show ?thesis by simp
  next
    case False
    with "2.prems"(3) have "\<exists>l\<in>set ls. limit_slot now l = s" by simp
    with "2.IH" [OF _ run rest] room False show ?thesis by simp
  qed
qed simp

type_synonym limit_call = "faults \<times> instant \<times> limit list"

fun limit_run :: "limit_call list \<Rightarrow> 'z limits_db_scheme \<Rightarrow> (limit_call \<times> bool) list \<times> 'z limits_db_scheme" where
  "limit_run [] db = ([], db)"
| "limit_run ((flt, now, ls) # calls) db =
    (let (r, db1) = check_limits flt now ls db; (outcomes, db2) = limit_run calls db1 in
     (((flt, now, ls), r = Inr True) # outcomes, db2))"

definition charges :: "slot \<Rightarrow> limit_call \<Rightarrow> bool" where
  "charges s c \<longleftrightarrow> (case c of (flt, now, ls) \<Rightarrow> \<exists>l\<in>set ls. limit_slot now l = s)"

definition within_max :: "slot \<Rightarrow> int \<Rightarrow> limit_call \<Rightarrow> bool" where
  "within_max s m c \<longleftrightarrow> (case c of (flt, now, ls) \<Rightarrow> \<forall>l\<in>set ls. limit_slot now l = s \<longrightarrow> li_max l \<le> m)"

definition grants :: "slot \<Rightarrow> (limit_call \<times> bool) list \<Rightarrow> int" where
  "grants s outcomes = int (length (filter (\<lambda>(c, granted). granted \<and> charges s c) outcomes))"

lemma grants_bounded:
  assumes "list_all (within_max s m) calls" and "limit_run calls db = (outcomes, db')"
  shows "used db s \<le> used db' s \<and> grants s outcomes + used db s \<le> max (used db s) m"
  using assms
proof (induction calls arbitrary: db outcomes)
  case Nil
  then show ?case by (simp add: grants_def)
next
  case (Cons c calls)
  obtain flt now ls where c: "c = (flt, now, ls)" by (cases c)
  obtain r db1 where one: "check_limits flt now ls db = (r, db1)" by fastforce
  obtain rest where more: "limit_run calls db1 = (rest, db')" and d: "outcomes = (c, r = Inr True) # rest"
    using Cons.prems(2) one c by (auto simp: Let_def split: prod.splits)
  have IH: "used db1 s \<le> used db' s \<and> grants s rest + used db1 s \<le> max (used db1 s) m"
    using Cons.IH [OF _ more] Cons.prems(1) by simp
  let ?ls = "sort_key (\<lambda>l. (li_kind l, li_hash l)) ls"
  have m: "\<forall>l\<in>set ?ls. limit_slot now l = s \<longrightarrow> li_max l \<le> m"
    using Cons.prems(1) c by (simp add: within_max_def)
  have "used db s \<le> used db1 s \<and> used db1 s \<le> max (used db s) m
    \<and> (r = Inr True \<and> charges s c \<longrightarrow> used db s + 1 \<le> used db1 s \<and> used db1 s \<le> m)"
  proof (cases r)
    case (Inl e)
    with one have "db1 = db" by (auto simp: check_limits_def dest: in_tx_rollback split: if_splits)
    with Inl show ?thesis by simp
  next
    case (Inr granted)
    with one have run: "spend now ?ls (used db) = (granted, used db1)"
      by (auto simp: check_limits_def in_tx_Inr dest: consume_refines split: if_splits)
    from spend_bounds [OF run m] spend_granted [of now ?ls "used db" "used db1" s m] run m Inr c show ?thesis
      by (auto simp: charges_def)
  qed
  then show ?case using IH d by (auto simp: grants_def max_def split: if_splits)
qed

text \<open>Nobody gets more than the limit.  Over any history of calls, with any clocks, orders of the
  limits and faults, the calls granted for one subject in one window are at most the largest
  maximum the calls state for it.\<close>

theorem grants_within_limit:
  assumes "list_all (within_max s m) calls" and "limit_run calls db = (outcomes, db')"
    and "list_all bucket_ok (buckets db)" and "0 \<le> m"
  shows "grants s outcomes \<le> m"
proof -
  have "0 \<le> used db s"
    using assms(3) by (auto simp: used_def bucket_at_def find_Some_iff list_all_length bucket_ok_def Let_def split: option.splits)
  with grants_bounded [OF assms(1,2)] assms(4) show ?thesis by (simp add: max_def split: if_splits)
qed

subsection \<open>An example\<close>

definition sample_limit :: limit where
  "sample_limit = \<lparr>li_kind = ''public_card'', li_hash = replicate 32 (CHR ''h''), li_window = minute, li_max = 1\<rparr>"

definition sample_call :: "instant \<Rightarrow> limit_call" where
  "sample_call now = (\<lambda>_. False, now, [sample_limit])"

definition no_buckets :: limits_db where
  "no_buckets = \<lparr>audit_events = [], buckets = []\<rparr>"

lemmas sample_limit_defs = sample_call_def no_buckets_def check_limits_def in_tx_def run_tx_def stmt_def tx_bind_def
  tx_return_def limit_ok_def open_bucket_def fresh_bucket_def bucket_ok_def login_kinds_def public_kinds_def select_row_def
  bucket_at_def limit_slot_def slot_of_def update_bucket_def update_where_def counted_def truncate_time_def time_defs Let_def

lemma sample_granted:
  "check_limits (\<lambda>_. False) 7 [sample_limit] no_buckets =
     (Inr True, no_buckets\<lparr>buckets := [counted (fresh_bucket 7 sample_limit)]\<rparr>)"
  by (simp add: sample_limit_defs sample_limit_def)

lemma sample_denied:
  "check_limits (\<lambda>_. False) 9 [sample_limit] (no_buckets\<lparr>buckets := [counted (fresh_bucket 7 sample_limit)]\<rparr>) =
     (Inr False, no_buckets\<lparr>buckets := [counted (fresh_bucket 7 sample_limit)]\<rparr>)"
  by (simp add: sample_limit_defs sample_limit_def)


theorem grants_within_limit_witness:
  "grants (limit_slot 7 sample_limit) (fst (limit_run [sample_call 7, sample_call 9] no_buckets)) \<le> 1
     \<and> fst (limit_run [sample_call 7, sample_call 9] no_buckets) = [(sample_call 7, True), (sample_call 9, False)]"
proof -
  have run: "limit_run [sample_call 7, sample_call 9] no_buckets
    = ([(sample_call 7, True), (sample_call 9, False)], no_buckets\<lparr>buckets := [counted (fresh_bucket 7 sample_limit)]\<rparr>)"
    using sample_granted sample_denied by (simp add: sample_call_def Let_def)
  have "list_all (within_max (limit_slot 7 sample_limit) 1) [sample_call 7, sample_call 9]"
    by (simp add: within_max_def sample_call_def sample_limit_def)
  from grants_within_limit [OF this run] run show ?thesis by (simp add: no_buckets_def)
qed

lemma denied_call_spends:
  assumes "q (limit_slot now a) < li_max a" and "limit_slot now a \<noteq> limit_slot now b" and "li_max b \<le> q (limit_slot now b)"
  shows "spend now [a, b] q = (False, q(limit_slot now a := q (limit_slot now a) + 1))"
  using assms by auto

end
