(* ===== verification/OwnerSessions.thy ===== *)
theory OwnerSessions
  imports RateLimits OwnerAuth TargetService
begin

text \<open>
  Package internal/runtime, file owner_auth.go: login, logout, refresh, listing and revocation
  of the sessions of the Owner.  A handler that needs a session reads it in one statement and
  then runs its transaction; \<open>mid\<close> is what other requests committed in between, \<open>now\<close> is the
  clock of the database, first of the read and then of the transaction.  The row locks on the
  buckets make the transaction of a login one step.  A JSON body is None when it can not be
  decoded; the random bytes of a call are None when the source of randomness fails.
\<close>

section \<open>The tables\<close>

record owner_row =
  ow_id :: string
  ow_username :: string
  ow_hash :: string
  ow_version :: int
  ow_changed_at :: instant

record session_row =
  se_id :: string
  se_owner :: string
  se_hash :: string
  se_version :: int
  se_created :: instant
  se_seen :: instant
  se_idle :: instant
  se_absolute :: instant
  se_revoked :: "instant option"
  se_reason :: "string option"

record owner_db = limits_db +
  owners :: "owner_row list"
  sessions :: "session_row list"

text \<open>The CHECK constraints and the unique key of tsw_owner_sessions.\<close>

definition session_ok :: "session_row \<Rightarrow> bool" where
  "session_ok s \<longleftrightarrow>
     length (se_hash s) = 32 \<and> 0 < se_version s
     \<and> se_created s \<le> se_seen s \<and> se_seen s < se_idle s \<and> se_created s < se_absolute s \<and> se_idle s \<le> se_absolute s
     \<and> (se_revoked s = None \<longleftrightarrow> se_reason s = None)"

definition insert_session_row :: "session_row \<Rightarrow> (store_error, 'z owner_db_scheme, unit) tx" where
  "insert_session_row s = (\<lambda>db.
     if \<not> session_ok s \<or> list_ex (\<lambda>x. se_id x = se_id s \<or> se_hash x = se_hash s) (sessions db) then Inl ErrConstraint
     else Inr ((), db\<lparr>sessions := sessions db @ [s]\<rparr>))"

definition update_sessions ::
  "(session_row \<Rightarrow> bool) \<Rightarrow> (session_row \<Rightarrow> session_row) \<Rightarrow> (store_error, 'z owner_db_scheme, session_row list) tx" where
  "update_sessions P f = (\<lambda>db.
     let touched = map f (filter P (sessions db)) in
     if list_all session_ok touched then Inr (touched, db\<lparr>sessions := update_where P f (sessions db)\<rparr>)
     else Inl ErrConstraint)"

section \<open>Requests and replies\<close>

record auth_tools =
  at_policy :: "string list"
  at_secure :: bool
  at_digest :: "string \<Rightarrow> string"
  at_argon :: "string \<Rightarrow> string \<Rightarrow> string"
  at_dummy :: string
  at_split :: "string \<Rightarrow> (string \<times> string) option"
  at_unicode :: unicode

record auth_request = owner_request +
  rq_session :: "string option"
  rq_remote :: string
  rq_agent :: string
  rq_correlation :: string
  rq_id :: string

datatype reply_body =
    NoBody
  | StatusBody string instant
  | SessionsBody "(session_row \<times> bool) list"

record reply =
  rp_status :: int
  rp_code :: string
  rp_retry :: int
  rp_cookie :: "cookie option"
  rp_body :: reply_body

definition problem :: "int \<Rightarrow> string \<Rightarrow> int \<Rightarrow> reply" where
  "problem st code retry = \<lparr>rp_status = st, rp_code = code, rp_retry = retry, rp_cookie = None, rp_body = NoBody\<rparr>"

definition no_content :: "cookie \<Rightarrow> reply" where
  "no_content c = \<lparr>rp_status = 204, rp_code = [], rp_retry = 0, rp_cookie = Some c, rp_body = NoBody\<rparr>"

definition answered :: "cookie \<Rightarrow> reply_body \<Rightarrow> reply" where
  "answered c b = \<lparr>rp_status = 200, rp_code = [], rp_retry = 0, rp_cookie = Some c, rp_body = b\<rparr>"

definition request_id :: "auth_request \<Rightarrow> string" where
  "request_id r = or_default (rq_id r) ''owner-auth''"

definition correlation_of :: "auth_request \<Rightarrow> string" where
  "correlation_of r = or_default (rq_correlation r) (request_id r)"

definition remote_ip :: "auth_tools \<Rightarrow> auth_request \<Rightarrow> string" where
  "remote_ip E r = (case at_split E (rq_remote r) of Some (h, _) \<Rightarrow> h | None \<Rightarrow> rq_remote r)"

definition request_source :: "auth_tools \<Rightarrow> auth_request \<Rightarrow> string" where
  "request_source E r = source_fingerprint (at_digest E) (at_split E) (rq_remote r) (rq_agent r)"

definition csrf_ok :: "auth_tools \<Rightarrow> auth_request \<Rightarrow> bool" where
  "csrf_ok E r = verify_csrf (at_policy E) (owner_request.truncate r)"

text \<open>hex.EncodeToString.\<close>

definition hex_text :: "string \<Rightarrow> string" where
  "hex_text raw = concat (map (\<lambda>c. [hex_char (char_code c div 16), hex_char (char_code c mod 16)]) raw)"

definition new_opaque_id :: "string option \<Rightarrow> string option" where
  "new_opaque_id raw = map_option (\<lambda>bs. ''tsw_'' @ hex_text bs) raw"

section \<open>Transactions whose errors are problem codes\<close>

definition coded :: "string \<Rightarrow> (store_error, 's, 'a) tx \<Rightarrow> (string, 's, 'a) tx" where
  "coded code m = (\<lambda>s. case m s of Inl _ \<Rightarrow> Inl code | Inr r \<Rightarrow> Inr r)"

lemma coded_Inr [tx_simps]: "coded code m s = Inr r \<longleftrightarrow> m s = Inr r"
  by (auto simp: coded_def split: sum.splits)

definition begin_as :: "faults \<Rightarrow> string \<Rightarrow> (string, 's, 'a) tx \<Rightarrow> 's \<Rightarrow> (string, 'a) result \<times> 's" where
  "begin_as flt code m = run_tx (tx_bind (coded code (stmt flt 0 (tx_return ()))) (\<lambda>_. m))"

definition commit_as :: "faults \<Rightarrow> string \<Rightarrow> 'a \<Rightarrow> (string, 's, 'a) tx" where
  "commit_as flt code x = coded code (stmt flt 40 (tx_return x))"

definition write_fact ::
  "auth_tools \<Rightarrow> faults \<Rightarrow> nat \<Rightarrow> string \<Rightarrow> instant \<Rightarrow> event \<Rightarrow> (store_error, 'z owner_db_scheme, unit) tx" where
  "write_fact E flt k gid now ev =
     tx_bind (lift_audit (audit_write (at_digest E) (\<lambda>i. flt (k + i)) gid now ev)) (\<lambda>_. tx_return ())"

section \<open>The failure limit\<close>

type_synonym rate_subject = "string \<times> string"

definition subject_hash :: "auth_tools \<Rightarrow> rate_subject \<Rightarrow> string" where
  "subject_hash E s = at_digest E (''teamseatwatch:rate-limit:v1'' @ [byte 0] @ fst s @ [byte 0] @ snd s)"

definition login_window :: "instant \<Rightarrow> instant" where
  "login_window now = now - now mod (15 * minute)"

definition subject_slot :: "auth_tools \<Rightarrow> instant \<Rightarrow> rate_subject \<Rightarrow> slot" where
  "subject_slot E now s = (fst s, subject_hash E s, login_window now)"

definition login_bucket :: "auth_tools \<Rightarrow> instant \<Rightarrow> rate_subject \<Rightarrow> bucket_row" where
  "login_bucket E now s =
     \<lparr>bk_kind = fst s, bk_hash = subject_hash E s, bk_start = login_window now,
      bk_end = login_window now + 15 * minute, bk_count = 0, bk_blocked = None,
      bk_expires = login_window now + 7 * 24 * hour\<rparr>"

fun lock_rate_subjects ::
  "auth_tools \<Rightarrow> faults \<Rightarrow> nat \<Rightarrow> instant \<Rightarrow> rate_subject list \<Rightarrow> (store_error, 'z limits_db_scheme, unit) tx" where
  "lock_rate_subjects E flt k now [] = tx_return ()"
| "lock_rate_subjects E flt k now (s # ss) =
     tx_bind (stmt flt k (open_bucket (login_bucket E now s))) (\<lambda>_.
     tx_bind (stmt flt (k + 1) (select_row (bucket_at (subject_slot E now s)) ErrNoRows)) (\<lambda>_.
     lock_rate_subjects E flt (k + 2) now ss))"

definition blocked_seconds :: "instant \<Rightarrow> bucket_row \<Rightarrow> int" where
  "blocked_seconds now b = (case bk_blocked b of None \<Rightarrow> 0 | Some t \<Rightarrow> max 0 (- ((now - t) div second)))"

definition blocking :: "auth_tools \<Rightarrow> instant \<Rightarrow> rate_subject \<Rightarrow> bucket_row \<Rightarrow> bool" where
  "blocking E now s b \<longleftrightarrow> bk_kind b = fst s \<and> bk_hash b = subject_hash E s
     \<and> (case bk_blocked b of None \<Rightarrow> False | Some t \<Rightarrow> now < t)"

definition subject_wait :: "auth_tools \<Rightarrow> instant \<Rightarrow> rate_subject \<Rightarrow> 'z limits_db_scheme \<Rightarrow> int" where
  "subject_wait E now s db =
     (case first_by (\<lambda>b. - bk_start b) (filter (blocking E now s) (buckets db)) of None \<Rightarrow> 0 | Some b \<Rightarrow> blocked_seconds now b)"

fun retry_after ::
  "auth_tools \<Rightarrow> faults \<Rightarrow> nat \<Rightarrow> instant \<Rightarrow> int \<Rightarrow> rate_subject list \<Rightarrow> (store_error, 'z limits_db_scheme, int) tx" where
  "retry_after E flt k now most [] = tx_return most"
| "retry_after E flt k now most (s # ss) =
     tx_bind (stmt flt k (tx_read (subject_wait E now s))) (\<lambda>w. retry_after E flt (k + 1) now (max most w) ss)"

definition failure_counted :: "instant \<Rightarrow> bucket_row \<Rightarrow> bucket_row" where
  "failure_counted now b =
     b\<lparr>bk_count := min 5 (bk_count b + 1), bk_blocked := (if 4 \<le> bk_count b then Some (now + 15 * minute) else bk_blocked b)\<rparr>"

fun count_failures ::
  "auth_tools \<Rightarrow> faults \<Rightarrow> nat \<Rightarrow> instant \<Rightarrow> rate_subject list \<Rightarrow> (store_error, 'z limits_db_scheme, unit) tx" where
  "count_failures E flt k now [] = tx_return ()"
| "count_failures E flt k now (s # ss) =
     tx_bind (stmt flt k (update_bucket (subject_slot E now s) (failure_counted now))) (\<lambda>_.
     count_failures E flt (k + 1) now ss)"

definition failure_event ::
  "auth_tools \<Rightarrow> auth_request \<Rightarrow> string \<Rightarrow> string \<Rightarrow> string \<Rightarrow> bool \<Rightarrow> event" where
  "failure_event E r owner username attempt denied =
     \<lparr>ev_type = LoginFailed, ev_actor = ActorAnonymous, ev_owner_id = owner, ev_scope_id = [], ev_entity_type = ''owner'',
      ev_entity_id = owner, ev_outcome = (if denied then OutcomeDenied else OutcomeFailed), ev_correlation = correlation_of r,
      ev_source_fp = request_source E r,
      ev_details = LoginFailureDetails ''password'' (if denied then ''login'' else []),
      ev_idem_key = ''authentication-failure:'' @ attempt @ '':'' @ hex_text (subject_hash E (''login_account'', username)),
      ev_occurred_at = zero_time\<rparr>"

definition record_authentication_failure ::
  "auth_tools \<Rightarrow> faults \<Rightarrow> (nat \<Rightarrow> string) \<Rightarrow> instant \<Rightarrow> string option \<Rightarrow> auth_request \<Rightarrow> string \<Rightarrow> rate_subject list \<Rightarrow> bool
     \<Rightarrow> (store_error, 'z owner_db_scheme, unit) tx" where
  "record_authentication_failure E flt gid now opaque r username subjects denied =
     tx_bind (stmt flt 10 (select_row (\<lambda>db. case owners db of [] \<Rightarrow> None | ow # _ \<Rightarrow> Some (ow_id ow)) ErrNoRows)) (\<lambda>owner.
     tx_bind (if denied then tx_return () else count_failures E flt 11 now subjects) (\<lambda>_.
     case new_opaque_id opaque of
       None \<Rightarrow> tx_fail ErrInvalid
     | Some attempt \<Rightarrow> write_fact E flt 15 (gid 15) now (failure_event E r owner username attempt denied)))"

section \<open>Sessions\<close>

record owner_context =
  oc_owner :: string
  oc_session :: string
  oc_username :: string
  oc_token :: string
  oc_version :: int
  oc_changed_at :: instant
  oc_idle :: instant
  oc_absolute :: instant

text \<open>The session a token names, when it is live: its owner's version, not revoked, both deadlines ahead.\<close>

definition live_session :: "instant \<Rightarrow> owner_row \<Rightarrow> session_row \<Rightarrow> bool" where
  "live_session now ow s \<longleftrightarrow> se_owner s = ow_id ow \<and> se_version s = ow_version ow \<and> se_revoked s = None
     \<and> now < se_idle s \<and> now < se_absolute s"

definition session_owner :: "'z owner_db_scheme \<Rightarrow> session_row \<Rightarrow> owner_row option" where
  "session_owner db s = find (\<lambda>ow. ow_id ow = se_owner s) (owners db)"

definition accepted :: "instant \<Rightarrow> string \<Rightarrow> 'z owner_db_scheme \<Rightarrow> session_row \<Rightarrow> bool" where
  "accepted now hash db s \<longleftrightarrow> se_hash s = hash
     \<and> (case session_owner db s of None \<Rightarrow> False | Some ow \<Rightarrow> live_session now ow s)"

definition context_of :: "string \<Rightarrow> owner_row \<Rightarrow> session_row \<Rightarrow> owner_context" where
  "context_of token ow s =
     \<lparr>oc_owner = ow_id ow, oc_session = se_id s, oc_username = ow_username ow, oc_token = token,
      oc_version = se_version s, oc_changed_at = ow_changed_at ow, oc_idle = se_idle s, oc_absolute = se_absolute s\<rparr>"

definition touched_session :: "instant \<Rightarrow> session_row \<Rightarrow> session_row" where
  "touched_session now s = s\<lparr>se_seen := now, se_idle := min (now + 8 * hour) (se_absolute s)\<rparr>"

definition context_in :: "string \<Rightarrow> 'z owner_db_scheme \<Rightarrow> session_row \<Rightarrow> owner_context option" where
  "context_in token db s = map_option (\<lambda>ow. context_of token ow s) (session_owner db s)"

text \<open>session: a read, or the refresh that moves the idle deadline; every error counts as no session.\<close>

definition read_session ::
  "auth_tools \<Rightarrow> faults \<Rightarrow> instant \<Rightarrow> bool \<Rightarrow> auth_request \<Rightarrow> 'z owner_db_scheme \<Rightarrow> owner_context option \<times> 'z owner_db_scheme" where
  "read_session E flt now refresh r db =
    (case Option.bind (rq_session r) (\<lambda>token. map_option (Pair token) (hash_session_token (at_digest E) token)) of
       None \<Rightarrow> (None, db)
     | Some (token, hash) \<Rightarrow>
        if refresh
        then (case run_tx (stmt flt 50 (update_sessions (accepted now hash db) (touched_session now))) db of
                (Inr (s # _), db') \<Rightarrow> (context_in token db' s, db')
              | (Inr [], db') \<Rightarrow> (None, db')
              | (Inl _, db') \<Rightarrow> (None, db'))
        else if flt 50 then (None, db)
        else (Option.bind (find (accepted now hash db) (sessions db)) (context_in token db), db))"

definition new_session_row :: "string \<Rightarrow> string \<Rightarrow> string \<Rightarrow> int \<Rightarrow> instant \<Rightarrow> instant \<Rightarrow> instant \<Rightarrow> session_row" where
  "new_session_row i owner hash version now idle ends =
     \<lparr>se_id = i, se_owner = owner, se_hash = hash, se_version = version, se_created = now, se_seen = now,
      se_idle = idle, se_absolute = ends, se_revoked = None, se_reason = None\<rparr>"

text \<open>insertSessionTx: a fresh session has the full lifetime, a rotated one the deadline it replaces.\<close>

definition insert_session ::
  "auth_tools \<Rightarrow> faults \<Rightarrow> (nat \<Rightarrow> string) \<Rightarrow> instant \<Rightarrow> string option \<Rightarrow> string \<Rightarrow> int \<Rightarrow> instant
     \<Rightarrow> (store_error, 'z owner_db_scheme, string \<times> string \<times> instant) tx" where
  "insert_session E flt gid now raw owner version deadline =
    (case new_session_token (at_digest E) raw of
       None \<Rightarrow> tx_fail ErrInvalid
     | Some (token, hash) \<Rightarrow>
        (let ends = (if is_zero_time deadline then now + 24 * hour else deadline);
             idle = (if is_zero_time deadline then now + 8 * hour else min (now + 8 * hour) deadline) in
         tx_bind (stmt flt 20 (insert_session_row (new_session_row (gid 20) owner hash version now idle ends))) (\<lambda>_.
         tx_return (token, gid 20, idle))))"

definition session_event ::
  "auth_tools \<Rightarrow> auth_request \<Rightarrow> event_type \<Rightarrow> actor \<Rightarrow> string \<Rightarrow> string \<Rightarrow> details \<Rightarrow> string \<Rightarrow> event" where
  "session_event E r ty actor owner i d key =
     \<lparr>ev_type = ty, ev_actor = actor, ev_owner_id = owner, ev_scope_id = [], ev_entity_type = ''owner_session'',
      ev_entity_id = i, ev_outcome = OutcomeSucceeded, ev_correlation = correlation_of r,
      ev_source_fp = request_source E r, ev_details = d, ev_idem_key = key, ev_occurred_at = zero_time\<rparr>"

definition cookie_for :: "auth_tools \<Rightarrow> instant \<Rightarrow> string \<Rightarrow> instant \<Rightarrow> cookie" where
  "cookie_for E clock token idle = session_cookie token idle (at_secure E) clock"

section \<open>Login\<close>

datatype login_result = Denied int | Refused | Admitted string instant

definition valid_login_request :: "string \<times> string \<Rightarrow> bool" where
  "valid_login_request q \<longleftrightarrow>
     1 \<le> rune_count (trim_space (fst q)) \<and> rune_count (trim_space (fst q)) \<le> 254
     \<and> 1 \<le> length (snd q) \<and> length (snd q) \<le> 1024"

definition login_subjects :: "auth_tools \<Rightarrow> auth_request \<Rightarrow> string \<Rightarrow> rate_subject list" where
  "login_subjects E r username = [(''login_account'', username), (''login_ip'', remote_ip E r)]"

definition find_owner :: "string \<Rightarrow> 'z owner_db_scheme \<Rightarrow> owner_row option" where
  "find_owner username db = find (\<lambda>ow. ow_username ow = username) (owners db)"

definition password_accepted :: "auth_tools \<Rightarrow> string \<Rightarrow> owner_row option \<Rightarrow> bool" where
  "password_accepted E password found \<longleftrightarrow>
     verify_password (at_argon E) password (case found of None \<Rightarrow> at_dummy E | Some ow \<Rightarrow> ow_hash ow) \<and> found \<noteq> None"

definition refused_login ::
  "auth_tools \<Rightarrow> faults \<Rightarrow> (nat \<Rightarrow> string) \<Rightarrow> instant \<Rightarrow> string option \<Rightarrow> auth_request \<Rightarrow> string \<Rightarrow> bool \<Rightarrow> login_result
     \<Rightarrow> (string, 'z owner_db_scheme, login_result) tx" where
  "refused_login E flt gid now opaque r username denied res =
     tx_bind (coded ''audit_failed''
       (record_authentication_failure E flt gid now opaque r username (login_subjects E r username) denied)) (\<lambda>_.
     commit_as flt ''audit_failed'' res)"

definition admit_login ::
  "auth_tools \<Rightarrow> faults \<Rightarrow> (nat \<Rightarrow> string) \<Rightarrow> instant \<Rightarrow> string option \<Rightarrow> auth_request \<Rightarrow> owner_row
     \<Rightarrow> (string, 'z owner_db_scheme, login_result) tx" where
  "admit_login E flt gid now raw r ow =
     tx_bind (coded ''session_creation_failed''
       (insert_session E flt gid now raw (ow_id ow) (ow_version ow) zero_time)) (\<lambda>(token, i, idle).
     tx_bind (coded ''audit_failed'' (write_fact E flt 22 (gid 22) now
       (session_event E r LoginSucceeded ActorAnonymous (ow_id ow) i (LoginDetails ''password'') (i @ '':login'')))) (\<lambda>_.
     commit_as flt ''session_creation_failed'' (Admitted token idle)))"

definition login_tx ::
  "auth_tools \<Rightarrow> faults \<Rightarrow> (nat \<Rightarrow> string) \<Rightarrow> instant \<Rightarrow> string option \<Rightarrow> string option \<Rightarrow> auth_request \<Rightarrow> string \<Rightarrow> string
     \<Rightarrow> 'z owner_db_scheme \<Rightarrow> (string, login_result) result \<times> 'z owner_db_scheme" where
  "login_tx E flt gid now raw opaque r username password =
    (let subjects = login_subjects E r username in
     begin_as flt ''rate_limit_unavailable''
      (tx_bind (coded ''rate_limit_unavailable'' (lock_rate_subjects E flt 1 now subjects)) (\<lambda>_.
       tx_bind (coded ''rate_limit_unavailable'' (retry_after E flt 5 now 0 subjects)) (\<lambda>retry.
       if 0 < retry then refused_login E flt gid now opaque r username True (Denied retry)
       else
         tx_bind (coded ''authentication_unavailable'' (stmt flt 7 (tx_read (find_owner username)))) (\<lambda>found.
         case found of
           Some ow \<Rightarrow> if password_accepted E password found then admit_login E flt gid now raw r ow
                      else refused_login E flt gid now opaque r username False Refused
         | None \<Rightarrow> refused_login E flt gid now opaque r username False Refused)))))"

definition login_owner ::
  "auth_tools \<Rightarrow> faults \<Rightarrow> (nat \<Rightarrow> string) \<Rightarrow> instant \<Rightarrow> instant \<Rightarrow> string option \<Rightarrow> string option \<Rightarrow> auth_request
     \<Rightarrow> (string \<times> string) option \<Rightarrow> 'z owner_db_scheme \<Rightarrow> reply \<times> 'z owner_db_scheme" where
  "login_owner E flt gid now clock raw opaque r body db =
    (if \<not> csrf_ok E r then (problem 403 ''csrf_rejected'' 0, db)
     else case body of
       None \<Rightarrow> (problem 400 ''invalid_login'' 0, db)
     | Some q \<Rightarrow>
        if \<not> valid_login_request q then (problem 400 ''invalid_login'' 0, db)
        else
          (let username = to_lower (at_unicode E) (trim_space (fst q)) in
           case login_tx E flt gid now raw opaque r username (snd q) db of
             (Inl code, db') \<Rightarrow> (problem 500 code 0, db')
           | (Inr (Denied retry), db') \<Rightarrow> (problem 429 ''authentication_rate_limited'' retry, db')
           | (Inr Refused, db') \<Rightarrow> (problem 401 ''authentication_failed'' 0, db')
           | (Inr (Admitted token idle), db') \<Rightarrow> (no_content (cookie_for E clock token idle), db')))"

section \<open>Logout, refresh and the lists\<close>

definition revoked_session :: "instant \<Rightarrow> string \<Rightarrow> session_row \<Rightarrow> session_row" where
  "revoked_session now reason s = s\<lparr>se_revoked := Some now, se_reason := Some reason\<rparr>"

definition end_session ::
  "auth_tools \<Rightarrow> faults \<Rightarrow> (nat \<Rightarrow> string) \<Rightarrow> instant \<Rightarrow> auth_request \<Rightarrow> owner_context
     \<Rightarrow> 'z owner_db_scheme \<Rightarrow> (string, unit) result \<times> 'z owner_db_scheme" where
  "end_session E flt gid now r oc =
     begin_as flt ''logout_failed''
      (tx_bind (coded ''logout_failed'' (stmt flt 1
         (update_sessions (\<lambda>s. se_id s = oc_session oc \<and> se_revoked s = None) (revoked_session now ''logout'')))) (\<lambda>ended.
       tx_bind (if length ended = 1
                then coded ''audit_failed'' (write_fact E flt 2 (gid 2) now
                  (session_event E r SessionRevoked ActorOwner (oc_owner oc) (oc_session oc) (SessionDetails ''logout'')
                     (oc_session oc @ '':logout'')))
                else tx_return ()) (\<lambda>_.
       commit_as flt ''logout_failed'' ())))"

definition logout_owner where
  "logout_owner E flt gid now0 now r mid db =
    (if \<not> csrf_ok E r then (problem 403 ''csrf_rejected'' 0, db)
     else case read_session E flt now0 False r db of
       (None, db1) \<Rightarrow> (no_content (cleared_session_cookie (at_secure E)), db1)
     | (Some oc, db1) \<Rightarrow>
        (case end_session E flt gid now r oc (mid db1) of
           (Inl code, db2) \<Rightarrow> (problem 500 code 0, db2)
         | (Inr _, db2) \<Rightarrow> (no_content (cleared_session_cookie (at_secure E)), db2)))"

definition session_expired :: reply where
  "session_expired = problem 401 ''session_expired'' 0"

definition owner_auth_status where
  "owner_auth_status E flt now0 clock r db =
    (case read_session E flt now0 False r db of
       (None, db1) \<Rightarrow> (session_expired, db1)
     | (Some oc, db1) \<Rightarrow>
        (answered (cookie_for E clock (oc_token oc) (oc_idle oc)) (StatusBody (oc_username oc) (oc_changed_at oc)), db1))"

definition refresh_owner_session where
  "refresh_owner_session E flt now0 clock r db =
    (if \<not> csrf_ok E r then (problem 403 ''csrf_rejected'' 0, db)
     else case read_session E flt now0 True r db of
       (None, db1) \<Rightarrow> (session_expired, db1)
     | (Some oc, db1) \<Rightarrow> (no_content (cookie_for E clock (oc_token oc) (oc_idle oc)), db1))"

definition listed_sessions :: "instant \<Rightarrow> owner_context \<Rightarrow> 'z owner_db_scheme \<Rightarrow> (session_row \<times> bool) list" where
  "listed_sessions now oc db =
     map (\<lambda>s. (s, se_id s = oc_session oc))
       (sort_key (\<lambda>s. - se_seen s)
         (filter (\<lambda>s. se_owner s = oc_owner oc \<and> se_version s = oc_version oc \<and> se_revoked s = None
            \<and> now < se_idle s \<and> now < se_absolute s) (sessions db)))"

definition list_owner_sessions where
  "list_owner_sessions E flt now0 now clock r mid db =
    (case read_session E flt now0 False r db of
       (None, db1) \<Rightarrow> (session_expired, db1)
     | (Some oc, db1) \<Rightarrow>
        if flt 0 then (problem 500 ''session_list_failed'' 0, mid db1)
        else (answered (cookie_for E clock (oc_token oc) (oc_idle oc)) (SessionsBody (listed_sessions now oc (mid db1))), mid db1))"

section \<open>Revocation\<close>

definition rotate_session ::
  "auth_tools \<Rightarrow> faults \<Rightarrow> (nat \<Rightarrow> string) \<Rightarrow> instant \<Rightarrow> string option \<Rightarrow> auth_request \<Rightarrow> owner_context \<Rightarrow> string
     \<Rightarrow> (store_error, 'z owner_db_scheme, string \<times> instant) tx" where
  "rotate_session E flt gid now raw r oc reason =
     tx_bind (stmt flt 4 (update_sessions (\<lambda>s. se_id s = oc_session oc \<and> se_revoked s = None) (revoked_session now ''rotation''))) (\<lambda>old.
     if length old \<noteq> 1 then tx_fail ErrInvalid
     else
       tx_bind (insert_session E flt gid now raw (oc_owner oc) (oc_version oc) (oc_absolute oc)) (\<lambda>(token, i, idle).
       tx_bind (write_fact E flt 22 (gid 22) now (session_event E r SessionRevoked ActorOwner (oc_owner oc) (oc_session oc)
         (SessionDetails ''rotation'') (oc_session oc @ '':rotation''))) (\<lambda>_.
       tx_bind (write_fact E flt 24 (gid 24) now (session_event E r SessionRotated ActorOwner (oc_owner oc) i
         (SessionDetails reason) (oc_session oc @ '':rotated:'' @ i))) (\<lambda>_.
       tx_return (token, idle)))))"

datatype revoke_result = NothingRevoked | SelfRevoked | OtherRevoked string instant

definition revoke_tx ::
  "auth_tools \<Rightarrow> faults \<Rightarrow> (nat \<Rightarrow> string) \<Rightarrow> instant \<Rightarrow> string option \<Rightarrow> auth_request \<Rightarrow> owner_context \<Rightarrow> string
     \<Rightarrow> 'z owner_db_scheme \<Rightarrow> (string, revoke_result) result \<times> 'z owner_db_scheme" where
  "revoke_tx E flt gid now raw r oc target =
     begin_as flt ''session_revoke_failed''
      (tx_bind (coded ''session_revoke_failed'' (stmt flt 1
         (update_sessions (\<lambda>s. se_owner s = oc_owner oc \<and> se_id s = target \<and> se_revoked s = None)
           (revoked_session now ''owner_request'')))) (\<lambda>ended.
       case ended of
         [] \<Rightarrow> tx_return NothingRevoked
       | s # _ \<Rightarrow>
          tx_bind (coded ''audit_failed'' (write_fact E flt 2 (gid 2) now
            (session_event E r SessionRevoked ActorOwner (oc_owner oc) (se_id s) (SessionDetails ''owner_request'')
               (se_id s @ '':owner_request'')))) (\<lambda>_.
          if se_id s = oc_session oc then commit_as flt ''session_revoke_failed'' SelfRevoked
          else
            tx_bind (coded ''session_rotation_failed'' (rotate_session E flt gid now raw r oc ''session_revocation'')) (\<lambda>(token, idle).
            commit_as flt ''session_revoke_failed'' (OtherRevoked token idle)))))"

definition revoke_owner_session where
  "revoke_owner_session E flt gid now0 now clock raw r target mid db =
    (if \<not> csrf_ok E r then (problem 403 ''csrf_rejected'' 0, db)
     else case read_session E flt now0 False r db of
       (None, db1) \<Rightarrow> (session_expired, db1)
     | (Some oc, db1) \<Rightarrow>
        (case revoke_tx E flt gid now raw r oc target (mid db1) of
           (Inl code, db2) \<Rightarrow> (problem 500 code 0, db2)
         | (Inr NothingRevoked, db2) \<Rightarrow> (no_content (cookie_for E clock (oc_token oc) (oc_idle oc)), db2)
         | (Inr SelfRevoked, db2) \<Rightarrow> (no_content (cleared_session_cookie (at_secure E)), db2)
         | (Inr (OtherRevoked token idle), db2) \<Rightarrow> (no_content (cookie_for E clock token idle), db2)))"

end
