(* ===== verification/SessionLaws.thy ===== *)
theory SessionLaws
  imports OwnerSessions
begin

text \<open>
  What the sessions of the Owner keep over every interleaving of their transactions, what a
  login may try, and what its answer tells.
\<close>

section \<open>What every transaction keeps of the sessions\<close>

definition session_follows :: "session_row \<Rightarrow> session_row \<Rightarrow> bool" where
  "session_follows a b \<longleftrightarrow> se_id b = se_id a \<and> se_hash b = se_hash a \<and> se_owner b = se_owner a \<and> se_version b = se_version a
     \<and> se_absolute b = se_absolute a \<and> (se_revoked a \<noteq> None \<longrightarrow> se_revoked b \<noteq> None)"

text \<open>A session is lawful when a login at a time of \<open>L\<close> bounds it and it idles at most eight hours.\<close>

definition lawful :: "instant set \<Rightarrow> session_row \<Rightarrow> bool" where
  "lawful L s \<longleftrightarrow> (\<exists>l\<in>L. se_absolute s = l + 24 * hour) \<and> se_idle s \<le> se_seen s + 8 * hour"

definition unique_tokens :: "'z owner_db_scheme \<Rightarrow> bool" where
  "unique_tokens db \<longleftrightarrow> distinct (map se_hash (sessions db))"

definition sessions_follow :: "instant set \<Rightarrow> 'z owner_db_scheme \<Rightarrow> 'z owner_db_scheme \<Rightarrow> bool" where
  "sessions_follow L s t \<longleftrightarrow>
     (\<forall>a\<in>set (sessions s). \<exists>b\<in>set (sessions t). session_follows a b)
     \<and> (unique_tokens s \<longrightarrow> unique_tokens t)
     \<and> (list_all (lawful L) (sessions s) \<longrightarrow> list_all (lawful L) (sessions t))"

lemma session_follows_refl [simp]: "session_follows a a"
  by (simp add: session_follows_def)

lemma session_follows_trans: "session_follows a b \<Longrightarrow> session_follows b c \<Longrightarrow> session_follows a c"
  by (auto simp: session_follows_def)

interpretation session_order: transition_order "sessions_follow L"
proof unfold_locales
  show "sessions_follow L s s" for s :: "'a owner_db_scheme"
    by (auto simp: sessions_follow_def intro: session_follows_refl)
  show "sessions_follow L s u" if "sessions_follow L s t" "sessions_follow L t u" for s t u :: "'a owner_db_scheme"
    using that session_follows_trans unfolding sessions_follow_def by blast
qed

lemma sessions_kept: "sessions t = sessions s \<Longrightarrow> sessions_follow L s t"
  by (auto simp: sessions_follow_def unique_tokens_def intro: session_follows_refl)

lemma keeps_update_sessions:
  assumes "\<And>s. session_follows s (f s)" and "\<And>s. lawful L s \<Longrightarrow> lawful L (f s)"
  shows "keeps (sessions_follow L) (update_sessions P f)"
proof -
  have "sessions_follow L db (db\<lparr>sessions := update_where P f (sessions db)\<rparr>)" for db :: "'a owner_db_scheme"
    unfolding sessions_follow_def
  proof (intro conjI impI)
    show "\<forall>a\<in>set (sessions db). \<exists>b\<in>set (sessions (db\<lparr>sessions := update_where P f (sessions db)\<rparr>)). session_follows a b"
    proof
      fix a assume "a \<in> set (sessions db)"
      then show "\<exists>b\<in>set (sessions (db\<lparr>sessions := update_where P f (sessions db)\<rparr>)). session_follows a b"
        using assms(1) by (intro bexI [of _ "if P a then f a else a"]) (auto simp: in_update_where)
    qed
    have "map se_hash (update_where P f (sessions db)) = map se_hash (sessions db)"
      using assms(1) by (intro map_update_where) (simp add: session_follows_def)
    then show "unique_tokens db \<Longrightarrow> unique_tokens (db\<lparr>sessions := update_where P f (sessions db)\<rparr>)"
      by (simp add: unique_tokens_def)
    show "list_all (lawful L) (sessions db) \<Longrightarrow> list_all (lawful L) (sessions (db\<lparr>sessions := update_where P f (sessions db)\<rparr>))"
      using assms(2) by (auto simp: list_all_iff in_update_where)
  qed
  then show ?thesis by (auto simp: keeps_def update_sessions_def Let_def split: if_splits)
qed

lemma keeps_insert_session_row:
  "lawful L s \<Longrightarrow> keeps (sessions_follow L) (insert_session_row s)"
  by (auto simp: keeps_def insert_session_row_def sessions_follow_def unique_tokens_def list_ex_iff split: if_splits
      intro: session_follows_refl bexI)

lemma keeps_buckets:
  "keeps (sessions_follow L) (open_bucket b)" "keeps (sessions_follow L) (update_bucket s f)"
  by (auto simp: keeps_def open_bucket_def update_bucket_def intro!: sessions_kept split: if_splits)

lemma keeps_fact: "keeps (sessions_follow L) (write_fact E flt k g now ev)"
  by (auto simp: keeps_def write_fact_def tx_simps dest!: audit_write_frame intro!: sessions_kept)

lemma keeps_coded: "keeps R m \<Longrightarrow> keeps R (coded c m)"
  by (simp add: keeps_def coded_Inr)

lemma sessions_read: "keeps (sessions_follow L) (tx_read f)"
  by (simp add: keeps_def tx_simps session_order.stays)

lemma keeps_commit: "keeps (sessions_follow L) (commit_as flt c x)"
  unfolding commit_as_def by (intro keeps_coded session_order.keeps_stmt session_order.keeps_return)

lemma keeps_begin: "keeps (sessions_follow L) m \<Longrightarrow> sessions_follow L db (snd (begin_as flt c m db))"
  unfolding begin_as_def
  by (intro session_order.keeps_run session_order.keeps_bind keeps_coded session_order.keeps_stmt session_order.keeps_return)

lemma keeps_case_prod: "(\<And>a b. keeps R (f a b)) \<Longrightarrow> keeps R (case x of (a, b) \<Rightarrow> f a b)"
  by (cases x) simp

lemma keeps_when: "(c \<Longrightarrow> keeps R a) \<Longrightarrow> (\<not> c \<Longrightarrow> keeps R b) \<Longrightarrow> keeps R (if c then a else b)"
  by simp

lemma keeps_option: "(x = None \<Longrightarrow> keeps R m) \<Longrightarrow> (\<And>a. x = Some a \<Longrightarrow> keeps R (f a)) \<Longrightarrow> keeps R (case x of None \<Rightarrow> m | Some a \<Rightarrow> f a)"
  by (cases x) simp_all

lemma keeps_list: "(x = [] \<Longrightarrow> keeps R m) \<Longrightarrow> (\<And>a as. x = a # as \<Longrightarrow> keeps R (f a as)) \<Longrightarrow> keeps R (case x of [] \<Rightarrow> m | a # as \<Rightarrow> f a as)"
  by (cases x) simp_all

lemmas keeps_rules =
  session_order.keeps_bind session_order.keeps_return session_order.keeps_fail session_order.keeps_stmt
  session_order.keeps_select keeps_coded sessions_read keeps_commit keeps_fact keeps_buckets
  keeps_case_prod keeps_when keeps_option keeps_list

lemma keeps_locking: "keeps (sessions_follow L) (lock_rate_subjects E flt k now ss)"
  by (induction E flt k now ss rule: lock_rate_subjects.induct) (simp_all add: keeps_rules)

lemma keeps_retry: "keeps (sessions_follow L) (retry_after E flt k now most ss)"
  by (induction E flt k now most ss rule: retry_after.induct) (simp_all add: keeps_rules)

lemma keeps_counting: "keeps (sessions_follow L) (count_failures E flt k now ss)"
  by (induction E flt k now ss rule: count_failures.induct) (simp_all add: keeps_rules)

lemma keeps_failure: "keeps (sessions_follow L) (record_authentication_failure E flt gid now opaque r u ss d)"
  unfolding record_authentication_failure_def by (intro keeps_rules keeps_counting)

lemma keeps_insert_session:
  assumes "if is_zero_time deadline then now \<in> L else \<exists>l\<in>L. deadline = l + 24 * hour"
  shows "keeps (sessions_follow L) (insert_session E flt gid now raw owner version deadline)"
proof -
  have "lawful L (new_session_row i owner hash version now
      (if is_zero_time deadline then now + 8 * hour else min (now + 8 * hour) deadline)
      (if is_zero_time deadline then now + 24 * hour else deadline))" for i hash
    using assms by (auto simp: lawful_def new_session_row_def)
  then show ?thesis
    unfolding insert_session_def Let_def by (intro keeps_rules keeps_insert_session_row)
qed

lemma login_follows:
  assumes "now \<in> L"
  shows "sessions_follow L db (snd (login_tx E flt gid now raw opaque r u p db))"
  unfolding login_tx_def Let_def refused_login_def admit_login_def
  by (intro keeps_begin keeps_rules keeps_locking keeps_retry keeps_failure keeps_insert_session)
    (use assms in \<open>simp add: is_zero_time_def\<close>)

lemma revoking:
  "session_follows s (revoked_session now reason s)" "lawful L s \<Longrightarrow> lawful L (revoked_session now reason s)"
  by (simp_all add: session_follows_def revoked_session_def lawful_def)

lemma logout_follows: "sessions_follow L db (snd (end_session E flt gid now r oc db))"
  unfolding end_session_def by (intro keeps_begin keeps_rules keeps_update_sessions revoking)

lemma revoke_follows:
  assumes "\<exists>l\<in>L. oc_absolute oc = l + 24 * hour" and "\<not> is_zero_time (oc_absolute oc)"
  shows "sessions_follow L db (snd (revoke_tx E flt gid now raw r oc target db))"
  unfolding revoke_tx_def rotate_session_def
  by (intro keeps_begin keeps_rules keeps_update_sessions revoking keeps_insert_session)
    (simp_all add: assms)

lemma touching:
  "session_follows s (touched_session now s)" "lawful L s \<Longrightarrow> lawful L (touched_session now s)"
  by (simp_all add: session_follows_def touched_session_def lawful_def)

lemma read_follows: "sessions_follow L db (snd (read_session E flt now refresh r db))"
proof -
  have run: "sessions_follow L db db'"
    if "run_tx (stmt flt 50 (update_sessions (accepted now hash db) (touched_session now))) db = (res, db')" for hash res db'
  proof -
    have "keeps (sessions_follow L) (stmt flt 50 (update_sessions (accepted now hash db) (touched_session now)))"
      by (intro keeps_rules keeps_update_sessions touching)
    from session_order.keeps_run [OF this, of db] that show ?thesis by simp
  qed
  show ?thesis
    unfolding read_session_def
    by (auto simp: session_order.stays split: option.split prod.split sum.split list.split dest: run)
qed

section \<open>Interleavings\<close>

text \<open>
  The transactions of all requests in any order, with any clocks, faults and random bytes; a
  context handed out by a read may be used by its request at any later time.  \<open>L\<close> holds the
  times at which logins ran.
\<close>

type_synonym 'z auth_state = "'z owner_db_scheme \<times> owner_context list"

inductive auth_step :: "auth_tools \<Rightarrow> instant set \<Rightarrow> 'z auth_state \<Rightarrow> 'z auth_state \<Rightarrow> bool" for E L where
  Login: "now \<in> L \<Longrightarrow> auth_step E L (db, cs) (snd (login_tx E flt gid now raw opaque r u p db), cs)"
| Read: "read_session E flt now refresh r db = (oc, db') \<Longrightarrow>
    auth_step E L (db, cs) (db', (case oc of None \<Rightarrow> cs | Some c \<Rightarrow> c # cs))"
| Logout: "oc \<in> set cs \<Longrightarrow> auth_step E L (db, cs) (snd (end_session E flt gid now r oc db), cs)"
| Revoke: "oc \<in> set cs \<Longrightarrow> auth_step E L (db, cs) (snd (revoke_tx E flt gid now raw r oc target db), cs)"

definition auth_inv :: "instant set \<Rightarrow> 'z auth_state \<Rightarrow> bool" where
  "auth_inv L st \<longleftrightarrow> list_all (lawful L) (sessions (fst st))
     \<and> (\<forall>c\<in>set (snd st). \<exists>l\<in>L. oc_absolute c = l + 24 * hour)"

lemma context_in_fields:
  "context_in token db s = Some oc \<Longrightarrow> oc_absolute oc = se_absolute s \<and> oc_session oc = se_id s"
  by (auto simp: context_in_def context_of_def)

lemma read_session_row:
  assumes "read_session E flt now refresh r db = (Some oc, db')"
  shows "\<exists>s\<in>set (sessions db). oc_absolute oc = se_absolute s \<and> oc_session oc = se_id s"
proof -
  have rows: "\<exists>s\<in>set (sessions db). se_absolute b = se_absolute s \<and> se_id b = se_id s"
    if "run_tx (stmt flt 50 (update_sessions P (touched_session now))) db = (Inr (b # bs), db1)" for P b bs db1
  proof -
    have "b # bs = map (touched_session now) (filter P (sessions db))"
      using that by (simp add: run_tx_Inr tx_simps update_sessions_def Let_def split: if_splits)
    then obtain s where "s \<in> set (filter P (sessions db))" "b = touched_session now s"
      by (cases "filter P (sessions db)") auto
    then show ?thesis by (auto simp: touched_session_def)
  qed
  obtain token hash where
    key: "Option.bind (rq_session r) (\<lambda>token. map_option (Pair token) (hash_session_token (at_digest E) token)) = Some (token, hash)"
    using assms by (auto simp: read_session_def split: option.splits)
  show ?thesis
  proof (cases refresh)
    case True
    with assms key obtain b bs where
      "run_tx (stmt flt 50 (update_sessions (accepted now hash db) (touched_session now))) db = (Inr (b # bs), db')"
      and "context_in token db' b = Some oc"
      by (auto simp: read_session_def split: prod.splits sum.splits list.splits)
    with rows [of "accepted now hash db" b bs db'] context_in_fields [of token db' b oc] show ?thesis by auto
  next
    case False
    with assms key obtain b where "find (accepted now hash db) (sessions db) = Some b" and "context_in token db b = Some oc"
      by (auto simp: read_session_def bind_eq_Some_conv split: if_splits)
    with context_in_fields [of token db b oc] show ?thesis
      by (auto simp: find_Some_iff intro!: bexI [of _ b])
  qed
qed

lemma auth_step_follows:
  assumes "auth_step E L st st'" and "auth_inv L st" and "\<forall>l\<in>L. 0 \<le> l"
  shows "sessions_follow L (fst st) (fst st')"
  using assms(1)
proof cases
  case (Revoke oc cs db flt gid now raw r target)
  from Revoke assms(2) obtain l where l: "l \<in> L" "oc_absolute oc = l + 24 * hour" by (auto simp: auth_inv_def)
  with assms(3) have "0 \<le> l" by blast
  with l(2) have "\<not> is_zero_time (oc_absolute oc)" by (simp add: time_defs)
  with l have "sessions_follow L db (snd (revoke_tx E flt gid now raw r oc target db))" by (intro revoke_follows) auto
  with Revoke show ?thesis by simp
next
  case (Read flt now refresh r db oc db' cs)
  with read_follows [of L db E flt now refresh r] show ?thesis by simp
qed (simp_all add: login_follows logout_follows)

lemma auth_step_inv:
  assumes "auth_step E L st st'" and "auth_inv L st" and "\<forall>l\<in>L. 0 \<le> l"
  shows "auth_inv L st'"
proof -
  have rows: "list_all (lawful L) (sessions (fst st'))"
    using auth_step_follows [OF assms] assms(2) by (simp add: auth_inv_def sessions_follow_def)
  moreover from assms(1) have "\<forall>c\<in>set (snd st'). \<exists>l\<in>L. oc_absolute c = l + 24 * hour"
  proof cases
    case (Read flt now refresh r db oc db' cs)
    with assms(2) show ?thesis
      by (cases oc) (auto simp: auth_inv_def list_all_iff lawful_def dest!: read_session_row)
  qed (use assms(2) in \<open>auto simp: auth_inv_def\<close>)
  ultimately show ?thesis by (simp add: auth_inv_def)
qed

lemma auth_run_follows:
  assumes "(auth_step E L)\<^sup>*\<^sup>* st st'" and "auth_inv L st" and "\<forall>l\<in>L. 0 \<le> l"
  shows "sessions_follow L (fst st) (fst st') \<and> auth_inv L st'"
  using assms(1)
proof induction
  case base
  from assms(2) show ?case by (simp add: session_order.stays)
next
  case (step y z)
  then show ?case
    using auth_step_follows [OF step.hyps(2) _ assms(3)] auth_step_inv [OF step.hyps(2) _ assms(3)]
    by (blast intro: session_order.follows)
qed

text \<open>C27: No session outlives its login.  Over every interleaving of logins, refreshes, logouts and
  revocations that starts without sessions, a session that is accepted was bounded by a login less
  than 24 hours ago and was last seen less than eight hours ago; a refresh or a rotation never
  moves the first bound.\<close>

theorem session_bounded_by_login:
  assumes "(auth_step E L)\<^sup>*\<^sup>* (db0, []) (db, cs)" and "sessions db0 = []" and "\<forall>l\<in>L. 0 \<le> l"
    and "s \<in> set (sessions db)" and "accepted now hash db s"
  shows "(\<exists>l\<in>L. se_absolute s = l + 24 * hour \<and> now < l + 24 * hour) \<and> now < se_seen s + 8 * hour"
proof -
  have "auth_inv L (db0, [])" using assms(2) by (simp add: auth_inv_def)
  from auth_run_follows [OF assms(1) this assms(3)] have "lawful L s"
    using assms(4) by (simp add: auth_inv_def list_all_iff)
  moreover have "now < se_idle s" "now < se_absolute s"
    using assms(5) by (auto simp: accepted_def live_session_def split: option.splits)
  ultimately show ?thesis by (auto simp: lawful_def)
qed

text \<open>C28: A revoked token stays dead.  Once the session of a token is revoked, by logout, by a
  revocation or by rotation, no later request with a token of the same hash finds a session, after
  any interleaving of transactions and at any clock, also when it asks for a refresh.\<close>

theorem revoked_token_stays_dead:
  assumes "(auth_step E L)\<^sup>*\<^sup>* (db, cs) (db', cs')" and "auth_inv L (db, cs)" and "\<forall>l\<in>L. 0 \<le> l"
    and "unique_tokens db" and "s \<in> set (sessions db)" and "se_revoked s \<noteq> None"
    and "rq_session r = Some token" and "hash_session_token (at_digest E) token = Some (se_hash s)"
  shows "read_session E flt now refresh r db' = (None, db')"
proof -
  from auth_run_follows [OF assms(1-3)] have f: "sessions_follow L db db'" by simp
  then obtain b where b: "b \<in> set (sessions db')" "se_hash b = se_hash s" "se_revoked b \<noteq> None"
    using assms(5,6) unfolding sessions_follow_def session_follows_def by metis
  have "distinct (map se_hash (sessions db'))" using f assms(4) by (simp add: sessions_follow_def unique_tokens_def)
  then have "x = b" if "x \<in> set (sessions db')" "se_hash x = se_hash s" for x
    using that b(1,2) by (metis distinct_map inj_onD)
  then have dead: "\<forall>x\<in>set (sessions db'). \<not> accepted now (se_hash s) db' x"
    using b(3) by (auto simp: accepted_def live_session_def split: option.splits)
  then have "filter (accepted now (se_hash s) db') (sessions db') = []" "find (accepted now (se_hash s) db') (sessions db') = None"
    by (auto simp: filter_empty_conv find_None_iff)
  moreover have "update_where (accepted now (se_hash s) db') (touched_session now) (sessions db') = sessions db'"
    using dead by (simp add: update_where_def map_idI)
  ultimately show ?thesis
    using assms(7,8) by (simp add: read_session_def run_tx_def stmt_def update_sessions_def Let_def)
qed

section \<open>Passwords\<close>

lemma split_from_at:
  "c \<notin> set a \<Longrightarrow> split_from [c] acc (a @ c # b) = (rev acc @ a) # split_from [c] [] b"
proof (induction a arbitrary: acc)
  case Nil
  show ?case by (subst split_from.simps) (simp add: has_prefix_def)
next
  case (Cons x a)
  then show ?case by (subst split_from.simps) (auto simp: has_prefix_def)
qed

lemma split_at: "c \<notin> set a \<Longrightarrow> split (a @ c # b) [c] = a # split b [c]"
  by (simp add: split_def split_from_at)

lemma b64_char_no_dollar: "CHR ''$'' \<noteq> b64_char n"
proof
  assume "CHR ''$'' = b64_char n"
  then have "b64_char n = CHR ''$''" by simp
  then have "char_code (b64_char n) = 36" by (simp only: char_code_def) simp
  then show False by (simp add: b64_char_def split: if_splits)
qed

lemma b64_no_dollar: "CHR ''$'' \<notin> set (b64_encode s)"
  by (induction s rule: b64_encode.induct) (simp_all add: b64_char_no_dollar)

lemma verify_stored_form:
  "verify_password K q (''argon2id$v=19$m=65536,t=3,p=4$'' @ b64_encode salt @ ''$'' @ b64_encode key)
     \<longleftrightarrow> length salt = 16 \<and> length key = 32 \<and> K q salt = key"
proof -
  have "''argon2id$v=19$m=65536,t=3,p=4$'' @ b64_encode salt @ ''$'' @ b64_encode key
    = ''argon2id'' @ CHR ''$'' # ''v=19'' @ CHR ''$'' # ''m=65536,t=3,p=4'' @ CHR ''$'' # b64_encode salt
      @ CHR ''$'' # b64_encode key" by simp
  moreover have "split \<dots> ''$'' = [''argon2id'', ''v=19'', ''m=65536,t=3,p=4'', b64_encode salt, b64_encode key]"
    by (subst split_at, simp)+ (simp add: split_at split_absent b64_no_dollar)
  ultimately show ?thesis by (simp add: verify_password_def b64_decode_encode)
qed

text \<open>A stored password verifies: what was hashed is exactly what is accepted.\<close>

lemma password_round_trip:
  assumes "hash_password K (Some salt) p = Some e" and "length salt = 16" and "length (K p salt) = 32"
  shows "verify_password K q e \<longleftrightarrow> K q salt = K p salt"
proof -
  have "e = ''argon2id$v=19$m=65536,t=3,p=4$'' @ b64_encode salt @ ''$'' @ b64_encode (K p salt)"
    using assms(1) by (simp add: hash_password_def split: if_splits)
  then show ?thesis using assms(2,3) by (simp only: verify_stored_form) simp
qed

section \<open>A login\<close>

definition sample_auth :: auth_tools where
  "sample_auth = \<lparr>at_policy = [''https://a''], at_secure = True, at_digest = (\<lambda>_. replicate 32 (CHR ''d'')),
     at_argon = (\<lambda>p _. p @ replicate 29 (CHR ''k'')), at_dummy = [], at_split = (\<lambda>_. None), at_unicode = \<lparr>u_lower = id, u_upper = id, u_fold = (=)\<rparr>\<rparr>"

definition sample_stored :: string where
  "sample_stored = ''argon2id$v=19$m=65536,t=3,p=4$'' @ b64_encode (replicate 16 (CHR ''a'')) @ ''$''
     @ b64_encode (''pwd'' @ replicate 29 (CHR ''k''))"

definition sample_owner :: owner_row where
  "sample_owner = \<lparr>ow_id = ''o1'', ow_username = ''owner'', ow_hash = sample_stored, ow_version = 1, ow_changed_at = 0\<rparr>"

definition sample_owner_db :: owner_db where
  "sample_owner_db = \<lparr>audit_events = [], buckets = [], owners = [sample_owner], sessions = []\<rparr>"

definition sample_raw :: string where
  "sample_raw = replicate 32 (CHR ''r'')"

definition sample_request :: auth_request where
  "sample_request = \<lparr>or_origin = ''https://a'', or_csrf_header = [], or_csrf_cookie = None, rq_session = Some (b64_encode sample_raw),
     rq_remote = ''1.2.3.4'', rq_agent = ''x'', rq_correlation = ''c'', rq_id = ''i''\<rparr>"

definition sample_session :: session_row where
  "sample_session = new_session_row ''s1'' ''o1'' (replicate 32 (CHR ''d'')) 1 10 (10 + 8 * hour) (10 + 24 * hour)"

lemma verify_stored: "verify_password (at_argon sample_auth) q sample_stored \<longleftrightarrow> q = ''pwd''"
  unfolding sample_stored_def verify_stored_form by (simp add: sample_auth_def)

lemma sample_login_event:
  "\<exists>q. validate (session_event sample_auth sample_request LoginSucceeded ActorAnonymous ''o1'' ''s1'' (LoginDetails ''password'')
     (''s1'' @ '':login'')) = Inr q"
  by (simp add: validate_def session_event_def spec_of_def details_ok_def valid_factor_def owner_security_scope_def
      request_source_def source_fingerprint_def sample_auth_def sample_request_def correlation_of_def or_default_def)

definition sample_buckets :: "bucket_row list" where
  "sample_buckets = [login_bucket sample_auth 10 (''login_account'', ''owner''), login_bucket sample_auth 10 (''login_ip'', ''1.2.3.4'')]"

lemma write_fact_fresh:
  assumes "validate ev = Inr q" and "audit_events db = []"
  shows "\<exists>es. write_fact E (\<lambda>_. False) k g now ev db = Inr ((), db\<lparr>audit_events := es\<rparr>)"
proof -
  obtain d sp where "validate ev = Inr (d, sp)" using assms(1) by (cases q) auto
  then show ?thesis
    using assms(2)
    by (auto simp: write_fact_def lift_audit_def tx_bind_def tx_return_def audit_write_def Let_def split: option.splits)
qed

lemma sample_locked:
  "lock_rate_subjects sample_auth (\<lambda>_. False) 1 10 (login_subjects sample_auth sample_request ''owner'') sample_owner_db
    = Inr ((), sample_owner_db\<lparr>buckets := sample_buckets\<rparr>)"
  by (simp add: login_subjects_def remote_ip_def tx_bind_def tx_return_def stmt_def open_bucket_def bucket_ok_def login_bucket_def
        login_kinds_def subject_hash_def sample_auth_def sample_request_def sample_owner_db_def sample_buckets_def select_row_def
        bucket_at_def slot_of_def subject_slot_def Let_def time_defs)

lemma sample_unblocked:
  "retry_after sample_auth (\<lambda>_. False) 5 10 0 (login_subjects sample_auth sample_request ''owner'')
      (sample_owner_db\<lparr>buckets := sample_buckets\<rparr>) = Inr (0, sample_owner_db\<lparr>buckets := sample_buckets\<rparr>)"
  by (simp add: login_subjects_def tx_bind_def tx_return_def stmt_def tx_read_def subject_wait_def blocking_def
        sample_buckets_def login_bucket_def)

lemma sample_login:
  "\<exists>es. login_tx sample_auth (\<lambda>_. False) (\<lambda>_. ''s1'') 10 (Some sample_raw) None sample_request ''owner'' ''pwd'' sample_owner_db
     = (Inr (Admitted (b64_encode sample_raw) (10 + 8 * hour)),
        sample_owner_db\<lparr>buckets := sample_buckets, sessions := [sample_session], audit_events := es\<rparr>)"
proof -
  let ?ev = "session_event sample_auth sample_request LoginSucceeded ActorAnonymous ''o1'' ''s1'' (LoginDetails ''password'')
     (''s1'' @ '':login'')"
  let ?db = "sample_owner_db\<lparr>buckets := sample_buckets, sessions := [sample_session]\<rparr>"
  obtain q where "validate ?ev = Inr q" using sample_login_event by blast
  from write_fact_fresh [OF this, of ?db sample_auth 22 "''s1''" 10] obtain es where
    fact: "write_fact sample_auth (\<lambda>_. False) 22 ''s1'' 10 ?ev ?db = Inr ((), ?db\<lparr>audit_events := es\<rparr>)"
    by (auto simp: sample_owner_db_def)
  have insert: "insert_session sample_auth (\<lambda>_. False) (\<lambda>_. ''s1'') 10 (Some sample_raw) ''o1'' 1 zero_time
      (sample_owner_db\<lparr>buckets := sample_buckets\<rparr>) = Inr ((b64_encode sample_raw, ''s1'', 10 + 8 * hour), ?db)"
    by (simp add: insert_session_def new_session_token_def is_zero_time_def tx_bind_def tx_return_def stmt_def insert_session_row_def
        session_ok_def sample_session_def new_session_row_def sample_auth_def sample_owner_db_def Let_def hour_def minute_def second_def)
  have owner: "find_owner ''owner'' (sample_owner_db\<lparr>buckets := sample_buckets\<rparr>) = Some sample_owner"
    "ow_id sample_owner = ''o1''" "ow_version sample_owner = 1" "ow_hash sample_owner = sample_stored"
    by (simp_all add: find_owner_def sample_owner_db_def sample_owner_def)
  show ?thesis
    using fact
    by (intro exI [of _ es])
      (simp add: login_tx_def Let_def begin_as_def run_tx_def tx_bind_def coded_def stmt_def tx_return_def tx_read_def sample_locked sample_unblocked
        owner password_accepted_def verify_stored admit_login_def insert commit_as_def del: One_nat_def)
qed

theorem session_bounded_by_login_witness:
  "\<exists>db. (auth_step sample_auth {10})\<^sup>*\<^sup>* (sample_owner_db, []) (db, []) \<and> sessions db = [sample_session]
     \<and> accepted 11 (replicate 32 (CHR ''d'')) db sample_session \<and> 11 < 10 + 24 * hour \<and> 11 < se_seen sample_session + 8 * hour"
proof -
  obtain es where run: "login_tx sample_auth (\<lambda>_. False) (\<lambda>_. ''s1'') 10 (Some sample_raw) None sample_request ''owner'' ''pwd'' sample_owner_db
     = (Inr (Admitted (b64_encode sample_raw) (10 + 8 * hour)),
        sample_owner_db\<lparr>buckets := sample_buckets, sessions := [sample_session], audit_events := es\<rparr>)"
    using sample_login by blast
  let ?db = "sample_owner_db\<lparr>buckets := sample_buckets, sessions := [sample_session], audit_events := es\<rparr>"
  have "auth_step sample_auth {10} (sample_owner_db, []) (snd (login_tx sample_auth (\<lambda>_. False) (\<lambda>_. ''s1'') 10 (Some sample_raw) None
     sample_request ''owner'' ''pwd'' sample_owner_db), [])"
    by (rule auth_step.Login) simp
  then have steps: "(auth_step sample_auth {10})\<^sup>*\<^sup>* (sample_owner_db, []) (?db, [])" unfolding run by simp
  have ok: "accepted 11 (replicate 32 (CHR ''d'')) ?db sample_session"
    by (simp add: accepted_def session_owner_def live_session_def sample_session_def new_session_row_def sample_owner_db_def
        sample_owner_def time_defs)
  from session_bounded_by_login [OF steps _ _ _ ok] have "11 < 10 + 24 * hour \<and> 11 < se_seen sample_session + 8 * hour"
    by (simp add: sample_owner_db_def)
  with steps ok show ?thesis by (intro exI [of _ ?db]) simp
qed

theorem revoked_token_stays_dead_witness:
  "read_session sample_auth (\<lambda>_. False) 12 True sample_request (sample_owner_db\<lparr>sessions := [revoked_session 11 ''logout'' sample_session]\<rparr>)
     = (None, sample_owner_db\<lparr>sessions := [revoked_session 11 ''logout'' sample_session]\<rparr>)"
proof (rule revoked_token_stays_dead [where L = "{10}" and cs = "[]" and cs' = "[]" and token = "b64_encode sample_raw"
      and s = "revoked_session 11 ''logout'' sample_session"])
  show "auth_inv {10} (sample_owner_db\<lparr>sessions := [revoked_session 11 ''logout'' sample_session]\<rparr>, [])"
    by (simp add: auth_inv_def lawful_def revoked_session_def sample_session_def new_session_row_def)
  show "hash_session_token (at_digest sample_auth) (b64_encode sample_raw)
      = Some (se_hash (revoked_session 11 ''logout'' sample_session))"
    by (simp add: hash_session_token_def sample_raw_def sample_auth_def revoked_session_def sample_session_def new_session_row_def)
qed (simp_all add: unique_tokens_def revoked_session_def sample_request_def)

end
