(* ===== verification/LoginLaws.thy ===== *)
theory LoginLaws
  imports SessionLaws
begin

text \<open>
  What a login may try and what its answer tells: the failure limit on the buckets of the
  account and of the address, and the uniform answer for an unknown account.
\<close>

section \<open>The buckets of the failure limit\<close>

text \<open>A bucket of logins spans fifteen minutes, and its fifth failure blocks at least to its end.\<close>

definition guarded :: "bucket_row \<Rightarrow> bool" where
  "guarded b \<longleftrightarrow> bk_kind b \<in> set login_kinds \<longrightarrow>
     bk_end b = bk_start b + 15 * minute \<and> bk_count b \<le> 5
     \<and> (5 \<le> bk_count b \<longrightarrow> (\<exists>t. bk_blocked b = Some t \<and> bk_end b \<le> t))"

definition limits_grow :: "'z limits_db_scheme \<Rightarrow> 'z limits_db_scheme \<Rightarrow> bool" where
  "limits_grow s t \<longleftrightarrow> list_all guarded (buckets s) \<longrightarrow>
     list_all guarded (buckets t) \<and> (\<forall>x. fst x \<in> set login_kinds \<longrightarrow> used s x \<le> used t x)"

interpretation limit_order: transition_order limits_grow
  by unfold_locales (simp add: limits_grow_def, unfold limits_grow_def, meson order_trans)

lemma limits_kept: "buckets t = buckets s \<Longrightarrow> limits_grow s t"
  by (simp add: limits_grow_def used_def bucket_at_def)

lemma login_window_bounds: "login_window now \<le> now" "now < login_window now + 15 * minute"
proof -
  have "0 < 15 * minute" by (simp add: time_defs)
  then show "login_window now \<le> now" "now < login_window now + 15 * minute"
    using pos_mod_bound [of "15 * minute" now] pos_mod_sign [of "15 * minute" now]
    by (simp_all add: login_window_def)
qed

lemma login_bucket_simps [simp]:
  "slot_of (login_bucket E now x) = subject_slot E now x" "bk_count (login_bucket E now x) = 0"
  "bk_end (login_bucket E now x) = bk_start (login_bucket E now x) + 15 * minute"
  by (simp_all add: slot_of_def login_bucket_def subject_slot_def)

lemma open_keeps_guard:
  "open_bucket (login_bucket E now x) db = Inr (u, db') \<Longrightarrow> list_all guarded (buckets db) \<Longrightarrow> list_all guarded (buckets db')"
  by (auto simp: open_bucket_def guarded_def split: if_splits)

lemma keeps_open: "keeps limits_grow (open_bucket (login_bucket E now x))"
  unfolding keeps_def limits_grow_def
  using used_open open_keeps_guard by fastforce

lemma bucket_at_update:
  assumes "\<And>b. slot_of (f b) = slot_of b"
  shows "find (\<lambda>b. slot_of b = x) (update_where (\<lambda>b. slot_of b = s) f bs)
    = map_option (\<lambda>b. if x = s then f b else b) (find (\<lambda>b. slot_of b = x) bs)"
  using assms by (induction bs) (auto simp: update_where_def)

lemma failure_counted_simps [simp]:
  "slot_of (failure_counted now b) = slot_of b" "bk_count (failure_counted now b) = min 5 (bk_count b + 1)"
  "bk_kind (failure_counted now b) = bk_kind b"
  by (simp_all add: slot_of_def failure_counted_def)

lemma used_failure:
  assumes "update_bucket s (failure_counted now) db = Inr (u, db')" and "bucket_at s db \<noteq> None"
  shows "used db' = (used db)(s := min 5 (used db s + 1))" and "bucket_at x db \<noteq> None \<Longrightarrow> bucket_at x db' \<noteq> None"
proof -
  have at: "bucket_at x db' = map_option (\<lambda>b. if x = s then failure_counted now b else b) (bucket_at x db)" for x
    using assms(1) by (auto simp: update_bucket_def bucket_at_def bucket_at_update split: if_splits)
  then show "used db' = (used db)(s := min 5 (used db s + 1))"
    using assms(2) by (auto simp: used_def fun_eq_iff split: option.splits)
  show "bucket_at x db \<noteq> None \<Longrightarrow> bucket_at x db' \<noteq> None" by (simp add: at)
qed

lemma failure_keeps_guard:
  assumes "guarded b" and "bk_start b = login_window now"
  shows "guarded (failure_counted now b)"
  using assms login_window_bounds(1) [of now]
  by (auto simp: guarded_def failure_counted_def)

lemma update_keeps_guard:
  assumes "update_bucket (subject_slot E now x) (failure_counted now) db = Inr (u, db')" and "list_all guarded (buckets db)"
  shows "list_all guarded (buckets db')"
  using assms failure_keeps_guard
  by (auto simp: update_bucket_def list_all_iff in_update_where subject_slot_def slot_of_def split: if_splits)

lemma keeps_count: "keeps limits_grow (update_bucket (subject_slot E now x) (failure_counted now))"
proof -
  have "used s y \<le> used t y" if g: "list_all guarded (buckets s)" and k: "fst y \<in> set login_kinds"
    and u: "update_bucket (subject_slot E now x) (failure_counted now) s = Inr (r, t)" for s t :: "'b limits_db_scheme" and y r
  proof (cases "bucket_at (subject_slot E now x) s = None")
    case True
    with u have "buckets t = buckets s"
      by (auto simp: update_bucket_def bucket_at_def find_None_iff update_where_def map_idI split: if_splits)
    then show ?thesis by (simp add: used_def bucket_at_def)
  next
    case False
    have "used s y \<le> 5"
      using g k by (auto simp: used_def bucket_at_def find_Some_iff list_all_length guarded_def slot_of_def split: option.splits)
    with used_failure(1) [OF u False] show ?thesis by auto
  qed
  with update_keeps_guard show ?thesis unfolding keeps_def limits_grow_def by blast
qed

lemma limits_statement:
  "keeps limits_grow (tx_read f)" "keeps limits_grow (coded c (tx_read f))" "keeps limits_grow (write_fact E flt k g now ev)"
  "keeps limits_grow (insert_session_row row)" "keeps limits_grow (commit_as flt c x)"
  by (auto simp: keeps_def tx_simps write_fact_def insert_session_row_def commit_as_def limit_order.stays
      dest!: audit_write_frame intro!: limits_kept split: if_splits)

lemmas limit_rules =
  limit_order.keeps_bind limit_order.keeps_return limit_order.keeps_fail limit_order.keeps_stmt limit_order.keeps_select
  keeps_coded limits_statement keeps_open keeps_count keeps_case_prod keeps_when keeps_option

lemma limits_locking: "keeps limits_grow (lock_rate_subjects E flt k now ss)"
  by (induction E flt k now ss rule: lock_rate_subjects.induct) (simp_all add: limit_rules)

lemma limits_retry: "keeps limits_grow (retry_after E flt k now most ss)"
  by (induction E flt k now most ss rule: retry_after.induct) (simp_all add: limit_rules)

lemma limits_counting: "keeps limits_grow (count_failures E flt k now ss)"
  by (induction E flt k now ss rule: count_failures.induct) (simp_all add: limit_rules)

lemma limits_failure: "keeps limits_grow (record_authentication_failure E flt gid now opaque r u ss d)"
  unfolding record_authentication_failure_def by (intro limit_rules limits_counting)

lemma limits_insert: "keeps limits_grow (insert_session E flt gid now raw owner version deadline)"
  unfolding insert_session_def Let_def by (intro limit_rules)

lemma login_grows: "limits_grow db (snd (login_tx E flt gid now raw opaque r u p db))"
  unfolding login_tx_def Let_def refused_login_def admit_login_def begin_as_def
  by (intro limit_order.keeps_run limit_rules limits_locking limits_retry limits_failure limits_insert)

section \<open>A refused login is counted\<close>

lemma locked_buckets:
  "lock_rate_subjects E flt k now ss db = Inr (u, db') \<Longrightarrow>
     used db' = used db \<and> (\<forall>x\<in>set ss. bucket_at (subject_slot E now x) db' \<noteq> None)
     \<and> (\<forall>s. bucket_at s db \<noteq> None \<longrightarrow> bucket_at s db' \<noteq> None)"
proof (induction ss arbitrary: db k)
  case Nil
  then show ?case by (simp add: tx_simps)
next
  case (Cons x ss)
  then obtain db1 where o: "open_bucket (login_bucket E now x) db = Inr ((), db1)"
    and rest: "lock_rate_subjects E flt (k + 2) now ss db1 = Inr (u, db')"
    by (auto simp: tx_simps)
  have kept: "bucket_at s db \<noteq> None \<Longrightarrow> bucket_at s db1 \<noteq> None" for s
    using o by (auto simp: open_bucket_def bucket_at_def find_append split: if_splits option.splits)
  have first: "used db1 = used db" "bucket_at (subject_slot E now x) db1 \<noteq> None"
    using used_open [OF o] by simp_all
  have still: "bucket_at s db1 \<noteq> None \<Longrightarrow> bucket_at s db' \<noteq> None" for s
    using Cons.IH [OF rest] by blast
  show ?case
  proof (intro conjI ballI allI impI)
    show "used db' = used db" using Cons.IH [OF rest] first(1) by simp
    show "bucket_at (subject_slot E now y) db' \<noteq> None" if "y \<in> set (x # ss)" for y
      using that Cons.IH [OF rest] still [OF first(2)] by (cases "y = x") auto
    show "bucket_at s db' \<noteq> None" if "bucket_at s db \<noteq> None" for s
      by (rule still [OF kept [OF that]])
  qed
qed

lemma waited_less:
  "retry_after E flt k now most ss db = Inr (w, db') \<Longrightarrow> db' = db \<and> most \<le> w \<and> (\<forall>x\<in>set ss. subject_wait E now x db \<le> w)"
  by (induction ss arbitrary: k most) (fastforce simp: tx_simps)+

lemma not_waiting:
  assumes "subject_wait E now x db \<le> 0" and "b \<in> set (buckets db)"
  shows "\<not> blocking E now x b"
proof
  assume "blocking E now x b"
  with assms(2) obtain c where c: "first_by (\<lambda>b. - bk_start b) (filter (blocking E now x) (buckets db)) = Some c"
    by (metis (mono_tags, lifting) filter_empty_conv first_by_None not_Some_eq)
  then have "blocking E now x c" by (auto dest: first_by_Some)
  then obtain t where "bk_blocked c = Some t" "now < t" by (auto simp: blocking_def split: option.splits)
  moreover have "(now - t) div second < 0" using \<open>now < t\<close> by (simp add: second_def)
  ultimately show False using assms(1) c by (simp add: subject_wait_def blocked_seconds_def)
qed

lemma open_below_limit:
  assumes "list_all guarded (buckets db)" and "subject_wait E now x db \<le> 0" and "fst x \<in> set login_kinds"
  shows "used db (subject_slot E now x) < 5"
proof (cases "bucket_at (subject_slot E now x) db")
  case None
  then show ?thesis by (simp add: used_def)
next
  case (Some b)
  then have b: "b \<in> set (buckets db)" "slot_of b = subject_slot E now x"
    by (auto simp: bucket_at_def find_Some_iff)
  then have "guarded b" using assms(1) by (simp add: list_all_iff)
  moreover have "\<not> blocking E now x b" by (rule not_waiting [OF assms(2) b(1)])
  ultimately have "bk_count b < 5"
    using b(2) assms(3) login_window_bounds(2) [of now]
    by (auto simp: guarded_def blocking_def slot_of_def subject_slot_def)
  with Some show ?thesis by (simp add: used_def)
qed

lemma counted_failures:
  assumes "count_failures E flt k now ss db = Inr (u, db')" and "\<forall>x\<in>set ss. bucket_at (subject_slot E now x) db \<noteq> None"
    and "x \<in> set ss" and "used db (subject_slot E now x) < 5" and "list_all guarded (buckets db)"
    and "\<forall>x\<in>set ss. fst x \<in> set login_kinds"
  shows "used db (subject_slot E now x) + 1 \<le> used db' (subject_slot E now x)"
  using assms
proof (induction ss arbitrary: db k)
  case (Cons y ss)
  from Cons.prems(1) obtain db1 where up: "update_bucket (subject_slot E now y) (failure_counted now) db = Inr ((), db1)"
    and rest: "count_failures E flt (k + 1) now ss db1 = Inr (u, db')" by (auto simp: tx_simps)
  have at: "bucket_at (subject_slot E now y) db \<noteq> None" using Cons.prems(2) by simp
  note step = used_failure(1) [OF up at]
  have there: "\<forall>x\<in>set ss. bucket_at (subject_slot E now x) db1 \<noteq> None"
    using Cons.prems(2) used_failure(2) [OF up at] by auto
  have g: "list_all guarded (buckets db1)" using update_keeps_guard [OF up Cons.prems(5)] .
  have "limits_grow db1 db'" using limits_counting rest unfolding keeps_def by blast
  then have grow: "used db1 (subject_slot E now x) \<le> used db' (subject_slot E now x)"
    using g Cons.prems(3,6) by (auto simp: limits_grow_def subject_slot_def)
  show ?case
  proof (cases "subject_slot E now x = subject_slot E now y")
    case True
    with step grow Cons.prems(4) show ?thesis by simp
  next
    case False
    then have "x \<in> set ss" using Cons.prems(3) by auto
    moreover have "used db1 (subject_slot E now x) = used db (subject_slot E now x)" using step False by simp
    ultimately show ?thesis using Cons.IH [OF rest there _ _ g] Cons.prems(4,6) by simp
  qed
qed simp

lemma refused_path:
  assumes "login_tx E flt gid now raw opaque r u p db = (Inr Refused, db')"
  shows "\<exists>db1 w. lock_rate_subjects E flt 1 now (login_subjects E r u) db = Inr ((), db1)
    \<and> retry_after E flt 5 now 0 (login_subjects E r u) db1 = Inr (w, db1) \<and> w \<le> 0
    \<and> record_authentication_failure E flt gid now opaque r u (login_subjects E r u) False db1 = Inr ((), db')"
proof -
  let ?ss = "login_subjects E r u"
  from assms have "\<exists>db1 w db2. lock_rate_subjects E flt 1 now ?ss db = Inr ((), db1)
      \<and> retry_after E flt 5 now 0 ?ss db1 = Inr (w, db2) \<and> \<not> 0 < w
      \<and> record_authentication_failure E flt gid now opaque r u ?ss False db2 = Inr ((), db')"
    by (simp add: login_tx_def Let_def begin_as_def run_tx_Inr tx_simps refused_login_def admit_login_def commit_as_def
        del: One_nat_def split: if_splits option.splits) (metis option.exhaust)
  with waited_less show ?thesis by (metis not_less)
qed

lemma refused_is_counted:
  assumes "login_tx E flt gid now raw opaque r u p db = (Inr Refused, db')" and "list_all guarded (buckets db)"
    and "x \<in> set (login_subjects E r u)"
  shows "used db (subject_slot E now x) + 1 \<le> used db' (subject_slot E now x)"
proof -
  let ?ss = "login_subjects E r u"
  from refused_path [OF assms(1)] obtain db1 w where lock: "lock_rate_subjects E flt 1 now ?ss db = Inr ((), db1)"
    and wait: "retry_after E flt 5 now 0 ?ss db1 = Inr (w, db1)" "w \<le> 0"
    and rec: "record_authentication_failure E flt gid now opaque r u ?ss False db1 = Inr ((), db')" by blast
  have kinds: "\<forall>x\<in>set ?ss. fst x \<in> set login_kinds" by (simp add: login_subjects_def login_kinds_def)
  have g: "list_all guarded (buckets db1)"
    using limits_locking lock assms(2) unfolding keeps_def limits_grow_def by blast
  from rec obtain db3 where count: "count_failures E flt 11 now ?ss db1 = Inr ((), db3)" and "buckets db' = buckets db3"
    by (auto simp: record_authentication_failure_def tx_simps write_fact_def split: option.splits dest!: audit_write_frame)
  moreover have "used db1 = used db" "\<forall>x\<in>set ?ss. bucket_at (subject_slot E now x) db1 \<noteq> None"
    using locked_buckets [OF lock] by auto
  moreover have "used db1 (subject_slot E now x) < 5"
    using waited_less [OF wait(1)] wait(2) assms(3) kinds by (intro open_below_limit [OF g]) fastforce+
  ultimately show ?thesis
    using counted_failures [OF count _ assms(3) _ g kinds] by (simp add: used_def bucket_at_def)
qed

section \<open>Five refusals a window\<close>

record login_try =
  lt_faults :: faults
  lt_ids :: "nat \<Rightarrow> string"
  lt_now :: instant
  lt_raw :: "string option"
  lt_opaque :: "string option"
  lt_request :: auth_request
  lt_username :: string
  lt_password :: string

definition try_login ::
  "auth_tools \<Rightarrow> login_try \<Rightarrow> 'z owner_db_scheme \<Rightarrow> (string, login_result) result \<times> 'z owner_db_scheme" where
  "try_login E a = login_tx E (lt_faults a) (lt_ids a) (lt_now a) (lt_raw a) (lt_opaque a) (lt_request a) (lt_username a) (lt_password a)"

fun login_run ::
  "auth_tools \<Rightarrow> login_try list \<Rightarrow> 'z owner_db_scheme \<Rightarrow> (login_try \<times> (string, login_result) result) list \<times> 'z owner_db_scheme" where
  "login_run E [] db = ([], db)"
| "login_run E (a # as) db =
    (let (r, db1) = try_login E a db; (outcomes, db2) = login_run E as db1 in ((a, r) # outcomes, db2))"

definition aims_at :: "auth_tools \<Rightarrow> slot \<Rightarrow> login_try \<Rightarrow> bool" where
  "aims_at E s a \<longleftrightarrow> s \<in> subject_slot E (lt_now a) ` set (login_subjects E (lt_request a) (lt_username a))"

definition refusals :: "auth_tools \<Rightarrow> slot \<Rightarrow> (login_try \<times> (string, login_result) result) list \<Rightarrow> int" where
  "refusals E s outcomes = int (length (filter (\<lambda>(a, r). r = Inr Refused \<and> aims_at E s a) outcomes))"

lemma refusals_counted:
  assumes "login_run E as db = (outcomes, db')" and "list_all guarded (buckets db)" and "fst s \<in> set login_kinds"
  shows "refusals E s outcomes + used db s \<le> used db' s \<and> list_all guarded (buckets db')"
  using assms
proof (induction as arbitrary: db outcomes)
  case Nil
  then show ?case by (simp add: refusals_def)
next
  case (Cons a as)
  obtain r db1 where one: "try_login E a db = (r, db1)" by fastforce
  obtain rest where more: "login_run E as db1 = (rest, db')" and d: "outcomes = (a, r) # rest"
    using Cons.prems(1) one by (auto simp: Let_def split: prod.splits)
  have "limits_grow db db1"
    using login_grows [of db E "lt_faults a" "lt_ids a" "lt_now a" "lt_raw a" "lt_opaque a" "lt_request a" "lt_username a" "lt_password a"]
      one by (simp add: try_login_def)
  with Cons.prems(2,3) have g: "list_all guarded (buckets db1)" and m: "used db s \<le> used db1 s"
    unfolding limits_grow_def by blast+
  have IH: "refusals E s rest + used db1 s \<le> used db' s \<and> list_all guarded (buckets db')"
    using Cons.IH [OF more g Cons.prems(3)] .
  show ?case
  proof (cases "r = Inr Refused \<and> aims_at E s a")
    case True
    then obtain x where "x \<in> set (login_subjects E (lt_request a) (lt_username a))" and "s = subject_slot E (lt_now a) x"
      by (auto simp: aims_at_def)
    with refused_is_counted one True Cons.prems(2) have "used db s + 1 \<le> used db1 s" by (simp add: try_login_def)
    with IH True d show ?thesis by (simp add: refusals_def)
  next
    case False
    with IH m d show ?thesis by (auto simp: refusals_def)
  qed
qed

lemma used_at_most_five:
  "list_all guarded (buckets db) \<Longrightarrow> fst s \<in> set login_kinds \<Longrightarrow> used db s \<le> 5"
  by (auto simp: used_def bucket_at_def find_Some_iff list_all_length guarded_def slot_of_def split: option.splits)

text \<open>C29: Guessing is bounded.  Over any history of logins, with any clocks, faults and random bytes, at
  most five are refused for a wrong password in one window of fifteen minutes for one account, and
  at most five for one address; whoever comes later in the window is turned away unheard.\<close>

theorem failed_logins_bounded:
  assumes "login_run E tries db = (outcomes, db')" and "list_all guarded (buckets db)"
    and "list_all bucket_ok (buckets db)" and "fst s \<in> set login_kinds"
  shows "refusals E s outcomes \<le> 5"
proof -
  have "0 \<le> used db s"
    using assms(3) by (auto simp: used_def bucket_at_def find_Some_iff list_all_length bucket_ok_def Let_def split: option.splits)
  with refusals_counted [OF assms(1,2,4)] used_at_most_five [of db' s] assms(4) show ?thesis by simp
qed

section \<open>The answer for an unknown account\<close>

definition renamed :: "(string \<Rightarrow> string) \<Rightarrow> 'z owner_db_scheme \<Rightarrow> 'z owner_db_scheme" where
  "renamed g db = db\<lparr>owners := map (\<lambda>ow. ow\<lparr>ow_username := g (ow_username ow)\<rparr>) (owners db)\<rparr>"

text \<open>A transaction that does not look at the usernames.\<close>

definition blind :: "(string \<Rightarrow> string) \<Rightarrow> ('e, 'z owner_db_scheme, 'a) tx \<Rightarrow> bool" where
  "blind g m \<longleftrightarrow> (\<forall>db. m (renamed g db) = map_sum id (map_prod id (renamed g)) (m db))"

lemma renamed_simps [simp]:
  "buckets (renamed g db) = buckets db" "audit_events (renamed g db) = audit_events db"
  "renamed g (db\<lparr>buckets := bs\<rparr>) = (renamed g db)\<lparr>buckets := bs\<rparr>"
  "renamed g (db\<lparr>audit_events := es\<rparr>) = (renamed g db)\<lparr>audit_events := es\<rparr>"
  by (simp_all add: renamed_def)

lemma blind_bind: "blind g m \<Longrightarrow> (\<And>x. blind g (f x)) \<Longrightarrow> blind g (tx_bind m f)"
  by (auto simp: blind_def tx_bind_def split: sum.splits)

lemma blind_return: "blind g (tx_return x)"
  by (simp add: blind_def tx_return_def)

lemma blind_fail: "blind g (tx_fail e)"
  by (simp add: blind_def tx_fail_def)

lemma blind_stmt: "blind g m \<Longrightarrow> blind g (stmt flt k m)"
  by (simp add: blind_def stmt_def)

lemma blind_coded: "blind g m \<Longrightarrow> blind g (coded c m)"
  by (auto simp: blind_def coded_def split: sum.splits)

lemma blind_read: "(\<And>db. f (renamed g db) = f db) \<Longrightarrow> blind g (tx_read f)"
  by (simp add: blind_def tx_read_def)

lemma blind_select: "(\<And>db. q (renamed g db) = q db) \<Longrightarrow> blind g (select_row q e)"
  by (auto simp: blind_def select_row_def split: option.splits)

lemma blind_buckets: "blind g (open_bucket b)" "blind g (update_bucket s f)"
  by (auto simp: blind_def open_bucket_def update_bucket_def)

lemma blind_write: "blind g (write_fact E flt k i now ev)"
  unfolding write_fact_def
  by (intro blind_bind blind_return) (auto simp: blind_def lift_audit_def audit_write_def Let_def split: sum.splits option.splits)

lemma blind_commit: "blind g (commit_as flt c x)"
  unfolding commit_as_def by (intro blind_coded blind_stmt blind_return)

lemma blind_when: "(c \<Longrightarrow> blind g a) \<Longrightarrow> (\<not> c \<Longrightarrow> blind g b) \<Longrightarrow> blind g (if c then a else b)"
  by simp

lemma blind_option: "(x = None \<Longrightarrow> blind g m) \<Longrightarrow> (\<And>a. x = Some a \<Longrightarrow> blind g (f a)) \<Longrightarrow> blind g (case x of None \<Rightarrow> m | Some a \<Rightarrow> f a)"
  by (cases x) simp_all

lemmas blind_rules =
  blind_bind blind_return blind_fail blind_stmt blind_coded blind_read blind_select blind_buckets blind_write blind_commit
  blind_when blind_option

lemma blind_lookups:
  "bucket_at s (renamed g db) = bucket_at s db" "subject_wait E now x (renamed g db) = subject_wait E now x db"
  by (simp_all add: bucket_at_def subject_wait_def)

lemma blind_locking: "blind g (lock_rate_subjects E flt k now ss)"
  by (induction E flt k now ss rule: lock_rate_subjects.induct) (simp_all add: blind_rules blind_lookups)

lemma blind_retry: "blind g (retry_after E flt k now most ss)"
  by (induction E flt k now most ss rule: retry_after.induct) (simp_all add: blind_rules blind_lookups)

lemma blind_counting: "blind g (count_failures E flt k now ss)"
  by (induction E flt k now ss rule: count_failures.induct) (simp_all add: blind_rules)

lemma blind_refusal: "blind g (refused_login E flt gid now opaque r u d res)"
  unfolding refused_login_def record_authentication_failure_def
  by (intro blind_rules blind_counting) (simp add: renamed_def split: list.split)

definition refusing where
  "refusing E flt gid now opaque r u =
     tx_bind (coded ''rate_limit_unavailable'' (lock_rate_subjects E flt 1 now (login_subjects E r u))) (\<lambda>_.
     tx_bind (coded ''rate_limit_unavailable'' (retry_after E flt 5 now 0 (login_subjects E r u))) (\<lambda>retry.
     if 0 < retry then refused_login E flt gid now opaque r u True (Denied retry)
     else tx_bind (coded ''authentication_unavailable'' (stmt flt 7 (tx_return ()))) (\<lambda>_.
       refused_login E flt gid now opaque r u False Refused)))"

lemma locking_keeps_owners: "lock_rate_subjects E flt k now ss db = Inr (u, db') \<Longrightarrow> owners db' = owners db"
  by (induction ss arbitrary: db k) (fastforce simp: tx_simps open_bucket_def split: if_splits)+

lemma bind_cong_at:
  "(\<And>x t. m s = Inr (x, t) \<Longrightarrow> f x t = g x t) \<Longrightarrow> tx_bind m f s = tx_bind m g s"
  by (auto simp: tx_bind_def split: sum.split)

lemma wrong_password_refuses:
  assumes "\<not> password_accepted E p (find_owner u db)"
  shows "login_tx E flt gid now raw opaque r u p db
    = run_tx (tx_bind (coded ''rate_limit_unavailable'' (stmt flt 0 (tx_return ()))) (\<lambda>_. refusing E flt gid now opaque r u)) db"
proof -
  have found: "find_owner u db2 = find_owner u db"
    if "lock_rate_subjects E flt 1 now (login_subjects E r u) db = Inr (x, db1)"
      and "retry_after E flt 5 now 0 (login_subjects E r u) db1 = Inr (w, db2)" for x db1 w db2
    using waited_less [OF that(2)] locking_keeps_owners [OF that(1)] by (simp add: find_owner_def)
  have last: "tx_bind (coded ''authentication_unavailable'' (stmt flt 7 (tx_read (find_owner u)))) (\<lambda>found.
      case found of
        Some ow \<Rightarrow> if password_accepted E p found then admit_login E flt gid now raw r ow
                   else refused_login E flt gid now opaque r u False Refused
      | None \<Rightarrow> refused_login E flt gid now opaque r u False Refused) d
    = tx_bind (coded ''authentication_unavailable'' (stmt flt 7 (tx_return ()))) (\<lambda>_.
        refused_login E flt gid now opaque r u False Refused) d"
    if "find_owner u d = find_owner u db" for d
    using that assms
    by (cases "find_owner u db") (simp_all add: tx_bind_def coded_def stmt_def tx_read_def tx_return_def)
  show ?thesis
    unfolding login_tx_def refusing_def begin_as_def Let_def run_tx_def
    by (subst bind_cong_at [OF bind_cong_at [OF bind_cong_at]])
      (auto simp: coded_Inr stmt_Inr tx_return_Inr simp del: One_nat_def intro!: last intro: found)
qed

lemma blind_refusing: "blind g (refusing E flt gid now opaque r u)"
  unfolding refusing_def by (intro blind_rules blind_locking blind_retry blind_refusal)

lemma blind_run: "blind g m \<Longrightarrow> run_tx m (renamed g db) = map_prod id (renamed g) (run_tx m db)"
  by (auto simp: blind_def run_tx_def split: sum.splits)

text \<open>C30: A login does not tell which accounts exist.  Take any database, any request and any password,
  and rename the accounts at will: if the password opens the account neither before nor after, also
  when the account is there before and unknown after, the reply is the same, and so is everything
  written to the database.\<close>

theorem unknown_account_looks_alike:
  assumes "\<not> password_accepted E p (find_owner (to_lower (at_unicode E) (trim_space name)) db)"
    and "\<not> password_accepted E p (find_owner (to_lower (at_unicode E) (trim_space name)) (renamed g db))"
  shows "login_owner E flt gid now clock raw opaque r (Some (name, p)) (renamed g db)
    = map_prod id (renamed g) (login_owner E flt gid now clock raw opaque r (Some (name, p)) db)"
proof -
  let ?u = "to_lower (at_unicode E) (trim_space name)"
  let ?run = "\<lambda>db. login_tx E flt gid now raw opaque r ?u p db"
  have "blind g (tx_bind (coded ''rate_limit_unavailable'' (stmt flt 0 (tx_return ()))) (\<lambda>_. refusing E flt gid now opaque r ?u))"
    by (intro blind_rules blind_refusing)
  then have "?run (renamed g db) = map_prod id (renamed g) (?run db)"
    unfolding wrong_password_refuses [OF assms(1)] wrong_password_refuses [OF assms(2)] by (rule blind_run)
  then show ?thesis
    by (cases "?run db") (auto simp: login_owner_def Let_def split: sum.split login_result.split)
qed

section \<open>Examples\<close>

lemma sample_refused_event:
  "\<exists>q. validate (failure_event sample_auth sample_request ''o1'' ''owner'' (''tsw_'' @ hex_text [CHR ''a'']) False) = Inr q"
  by (simp add: validate_def failure_event_def spec_of_def details_ok_def valid_factor_def owner_security_scope_def
      valid_rate_limit_kind_def request_source_def source_fingerprint_def sample_auth_def sample_request_def correlation_of_def
      or_default_def)

lemma sample_refused:
  "\<exists>es. login_tx sample_auth (\<lambda>_. False) (\<lambda>_. ''e1'') 10 None (Some [CHR ''a'']) sample_request ''owner'' ''bad'' sample_owner_db
     = (Inr Refused, sample_owner_db\<lparr>buckets := map (failure_counted 10) sample_buckets, audit_events := es\<rparr>)"
proof -
  let ?db1 = "sample_owner_db\<lparr>buckets := sample_buckets\<rparr>"
  let ?db2 = "sample_owner_db\<lparr>buckets := map (failure_counted 10) sample_buckets\<rparr>"
  obtain q where "validate (failure_event sample_auth sample_request ''o1'' ''owner'' (''tsw_'' @ hex_text [CHR ''a'']) False) = Inr q"
    using sample_refused_event by blast
  from write_fact_fresh [OF this, of ?db2 sample_auth 15 "''e1''" 10] obtain es where
    fact: "write_fact sample_auth (\<lambda>_. False) 15 ''e1'' 10 (failure_event sample_auth sample_request ''o1'' ''owner''
      (''tsw_'' @ hex_text [CHR ''a'']) False) ?db2 = Inr ((), ?db2\<lparr>audit_events := es\<rparr>)"
    by (auto simp: sample_owner_db_def)
  have count: "count_failures sample_auth (\<lambda>_. False) 11 10 (login_subjects sample_auth sample_request ''owner'') ?db1 = Inr ((), ?db2)"
    by (simp add: login_subjects_def remote_ip_def tx_bind_def tx_return_def stmt_def update_bucket_def bucket_ok_def login_bucket_def
        login_kinds_def subject_hash_def sample_auth_def sample_request_def sample_buckets_def failure_counted_def update_where_def
        slot_of_def subject_slot_def Let_def time_defs)
  have owner: "find_owner ''owner'' ?db1 = Some sample_owner" "ow_hash sample_owner = sample_stored"
    "select_row (\<lambda>db. case owners db of [] \<Rightarrow> None | ow # _ \<Rightarrow> Some (ow_id ow)) ErrNoRows ?db1 = Inr (''o1'', ?db1)"
    by (simp_all add: find_owner_def sample_owner_db_def sample_owner_def select_row_def)
  show ?thesis
    using fact
    by (intro exI [of _ es])
      (simp add: login_tx_def Let_def begin_as_def run_tx_def tx_bind_def coded_def stmt_def tx_return_def tx_read_def sample_locked
        sample_unblocked owner password_accepted_def verify_stored refused_login_def record_authentication_failure_def count
        new_opaque_id_def commit_as_def del: One_nat_def)
qed

definition sample_try :: login_try where
  "sample_try = \<lparr>lt_faults = (\<lambda>_. False), lt_ids = (\<lambda>_. ''e1''), lt_now = 10, lt_raw = None, lt_opaque = Some [CHR ''a''],
     lt_request = sample_request, lt_username = ''owner'', lt_password = ''bad''\<rparr>"

theorem failed_logins_bounded_witness:
  "refusals sample_auth (subject_slot sample_auth 10 (''login_account'', ''owner''))
     (fst (login_run sample_auth [sample_try] sample_owner_db)) \<le> 5
   \<and> fst (login_run sample_auth [sample_try] sample_owner_db) = [(sample_try, Inr Refused)]"
proof -
  obtain es where "try_login sample_auth sample_try sample_owner_db
    = (Inr Refused, sample_owner_db\<lparr>buckets := map (failure_counted 10) sample_buckets, audit_events := es\<rparr>)"
    using sample_refused by (auto simp: try_login_def sample_try_def)
  then have run: "login_run sample_auth [sample_try] sample_owner_db = ([(sample_try, Inr Refused)],
      sample_owner_db\<lparr>buckets := map (failure_counted 10) sample_buckets, audit_events := es\<rparr>)"
    by simp
  have "fst (subject_slot sample_auth 10 (''login_account'', ''owner'')) \<in> set login_kinds"
    by (simp add: subject_slot_def login_kinds_def)
  from failed_logins_bounded [OF run _ _ this] run show ?thesis by (simp add: sample_owner_db_def)
qed

theorem unknown_account_looks_alike_witness:
  "find_owner ''owner'' sample_owner_db = Some sample_owner \<and> find_owner ''owner'' (renamed (\<lambda>_. ''gone'') sample_owner_db) = None
   \<and> login_owner sample_auth (\<lambda>_. False) (\<lambda>_. ''e1'') 10 10 None (Some [CHR ''a'']) sample_request (Some (''owner'', ''bad''))
        (renamed (\<lambda>_. ''gone'') sample_owner_db)
      = map_prod id (renamed (\<lambda>_. ''gone''))
          (login_owner sample_auth (\<lambda>_. False) (\<lambda>_. ''e1'') 10 10 None (Some [CHR ''a'']) sample_request (Some (''owner'', ''bad''))
            sample_owner_db)"
proof -
  have name: "to_lower (at_unicode sample_auth) (trim_space ''owner'') = ''owner''"
    by (simp add: trim_space_visible visible_def char_code_def to_lower_def lower_char_def sample_auth_def)
  have there: "find_owner ''owner'' sample_owner_db = Some sample_owner" "find_owner ''owner'' (renamed (\<lambda>_. ''gone'') sample_owner_db) = None"
    by (simp_all add: find_owner_def renamed_def sample_owner_db_def sample_owner_def)
  have "ow_hash sample_owner = sample_stored" by (simp add: sample_owner_def)
  then have wrong: "\<not> password_accepted sample_auth ''bad'' (Some sample_owner)" "\<not> password_accepted sample_auth ''bad'' None"
    by (simp_all add: password_accepted_def verify_stored)
  show ?thesis
    using there unknown_account_looks_alike [of sample_auth "''bad''" "''owner''" sample_owner_db "\<lambda>_. ''gone''"] name wrong
    by simp
qed

end
