(* ===== verification/PublicRedeem.thy ===== *)
theory PublicRedeem
  imports DeliveryLaws LoginLaws
begin

text \<open>
  Package internal/runtime, file public_redeem_http.go: what a customer can do with a card and
  with the access token it is exchanged for.  A handler checks the public rate limits in a
  transaction of their own, reads the facts of a card, waits for its locks (\<open>mid\<close> is what others
  committed meanwhile), reads the facts again and decides.  \<open>now\<close> is the clock of the database,
  \<open>clk k\<close> the clock of the process at its k-th use.
\<close>

section \<open>State and requests\<close>

record redeem_db = delivery_db +
  redeem_buckets :: "bucket_row list"

record redeem_tools =
  rt_vault :: vault
  rt_digest :: "string \<Rightarrow> string"
  rt_mac :: "string \<Rightarrow> string \<Rightarrow> string"
  rt_split :: "string \<Rightarrow> (string \<times> string) option"
  rt_is_ip :: "string \<Rightarrow> bool"
  rt_stamp :: "instant \<Rightarrow> string"
  rt_uuid :: "string \<Rightarrow> string"
  rt_planned :: "string \<Rightarrow> instant"
  rt_material :: "string \<Rightarrow> string option"
  rt_details :: "json \<Rightarrow> string \<times> string \<times> string \<times> string"

record public_request = auth_request +
  pq_source :: string
  pq_access :: "string option"

definition public_correlation :: "public_request \<Rightarrow> string" where
  "public_correlation r = correlation_of (auth_request.truncate r)"

definition source_ip :: "redeem_tools \<Rightarrow> public_request \<Rightarrow> string" where
  "source_ip E r =
    (let v = trim_space (pq_source r) in
     if v \<noteq> [] \<and> rt_is_ip E v then v
     else case rt_split E (rq_remote r) of Some (h, _) \<Rightarrow> h | None \<Rightarrow> rq_remote r)"

section \<open>The facts of a card\<close>

text \<open>A missing order or version is the empty string, as the query coalesces it.\<close>

record redeem_facts =
  rf_card :: string
  rf_membership :: string
  rf_asset :: string
  rf_version :: string
  rf_order :: string
  rf_order_version :: string
  rf_suffix :: string
  rf_card_active :: bool
  rf_batch_status :: string
  rf_membership_state :: string
  rf_asset_status :: string
  rf_material :: string
  rf_liveness :: string
  rf_deadline :: instant
  rf_planned :: instant

definition card_order :: "string \<Rightarrow> string \<Rightarrow> 'z store_db_scheme \<Rightarrow> order_row option" where
  "card_order c m db = find (\<lambda>d. od_card d = c \<and> od_membership d = m) (orders db)"

definition facts_of_card :: "redeem_tools \<Rightarrow> 'z delivery_db_scheme \<Rightarrow> card_row \<Rightarrow> redeem_facts option" where
  "facts_of_card E db c =
     Option.bind (find (\<lambda>m. mb_id m = cd_membership c) (memberships db)) (\<lambda>m.
     Option.bind (find (\<lambda>b. ba_id b = mb_batch m) (batches db)) (\<lambda>b.
     Option.bind (find (\<lambda>a. as_membership a = mb_id m) (assets db)) (\<lambda>a.
     let d = card_order (cd_id c) (mb_id m) db in
     Some \<lparr>rf_card = cd_id c, rf_membership = mb_id m, rf_asset = as_id a, rf_version = opt_str (as_delivery a),
       rf_order = opt_str (map_option od_id d), rf_order_version = opt_str (map_option od_delivery d), rf_suffix = cd_suffix c,
       rf_card_active = cd_active c, rf_batch_status = ba_status b, rf_membership_state = mb_state m,
       rf_asset_status = as_status a,
       rf_material = (case rt_material E (mb_target m) of None \<Rightarrow> ''needs_totp'' | Some s \<Rightarrow> s),
       rf_liveness = opt_str (as_liveness a), rf_deadline = cd_deadline c, rf_planned = rt_planned E (ba_id b)\<rparr>)))"

definition facts_by_card :: "redeem_tools \<Rightarrow> nat \<Rightarrow> string \<Rightarrow> 'z delivery_db_scheme \<Rightarrow> redeem_facts option" where
  "facts_by_card E v h db =
     Option.bind (find (\<lambda>c. cd_key_version c = v \<and> cd_lookup c = h) (cards db)) (facts_of_card E db)"

definition has_order :: "redeem_facts \<Rightarrow> bool" where
  "has_order f \<longleftrightarrow> rf_order f \<noteq> []"

definition served :: "redeem_facts \<Rightarrow> bool" where
  "served f \<longleftrightarrow> rf_card_active f \<and> rf_membership_state f = ''active''
     \<and> (rf_batch_status f = ''serving'' \<or> rf_batch_status f = ''removing'')"

definition can_claim :: "instant \<Rightarrow> redeem_facts \<Rightarrow> bool" where
  "can_claim now f \<longleftrightarrow> \<not> has_order f \<and> rf_material f = ''complete'' \<and> rf_card_active f
     \<and> rf_membership_state f = ''active'' \<and> rf_batch_status f = ''serving'' \<and> now < rf_deadline f \<and> now < rf_planned f
     \<and> rf_asset_status f = ''ready'' \<and> rf_version f \<noteq> []"

definition can_access :: "redeem_facts \<Rightarrow> bool" where
  "can_access f \<longleftrightarrow> served f \<and> rf_asset_status f = ''ready'' \<and> rf_version f \<noteq> [] \<and> has_order f
     \<and> rf_order_version f = rf_version f"

definition can_credential_check :: "redeem_facts \<Rightarrow> bool" where
  "can_credential_check f \<longleftrightarrow> served f \<and> rf_asset_status f \<noteq> [] \<and> rf_version f \<noteq> []"

definition can_read_status :: "redeem_facts \<Rightarrow> bool" where
  "can_read_status f \<longleftrightarrow> served f \<and> has_order f \<and> rf_order_version f = rf_version f"

definition can_reclaim_request :: "redeem_facts \<Rightarrow> bool" where
  "can_reclaim_request f \<longleftrightarrow> can_read_status f \<and> rf_asset f \<noteq> [] \<and> rf_version f \<noteq> [] \<and> rf_order_version f \<noteq> []
     \<and> rf_order_version f = rf_version f
     \<and> (rf_asset_status f = ''ready'' \<or> rf_asset_status f = ''unavailable'' \<or> rf_asset_status f = ''reclaiming'')"

definition public_liveness :: "redeem_facts \<Rightarrow> string" where
  "public_liveness f =
    (if rf_liveness f = ''ok'' then ''healthy''
     else if rf_liveness f = ''auth_error'' then ''need_reclaim''
     else if rf_liveness f = ''deactivated_workspace'' then ''cannot_reclaim'' else ''unknown'')"

section \<open>Tokens\<close>

definition live_token :: "instant \<Rightarrow> string \<Rightarrow> string \<Rightarrow> public_token_row \<Rightarrow> bool" where
  "live_token now kind hash t \<longleftrightarrow> pt_hash t = hash \<and> pt_kind t = kind \<and> pt_revoked_at t = None \<and> now < pt_expires_at t"

definition facts_by_token ::
  "redeem_tools \<Rightarrow> string \<Rightarrow> (public_token_row \<Rightarrow> redeem_facts \<Rightarrow> bool) \<Rightarrow> string \<Rightarrow> instant \<Rightarrow> 'z delivery_db_scheme
     \<Rightarrow> redeem_facts option" where
  "facts_by_token E kind bound hash now db =
     Option.bind (find (live_token now kind hash) (public_tokens db)) (\<lambda>t.
     Option.bind (find (\<lambda>c. cd_id c = pt_card t) (cards db)) (\<lambda>c.
     Option.bind (facts_of_card E db c) (\<lambda>f.
     if has_order f \<and> rf_order f = pt_order t \<and> pt_asset t = rf_asset f \<and> bound t f then Some f else None)))"

definition names_version :: "public_token_row \<Rightarrow> redeem_facts \<Rightarrow> bool" where
  "names_version t f \<longleftrightarrow> rf_version f \<noteq> [] \<and> pt_version t = rf_version f"

definition names_membership :: "public_token_row \<Rightarrow> redeem_facts \<Rightarrow> bool" where
  "names_membership t f \<longleftrightarrow> pt_membership t = rf_membership f"

definition download_facts where
  "download_facts E = facts_by_token E ''customer_access'' names_version"

definition reading_facts where
  "reading_facts E = facts_by_token E ''customer_access'' (\<lambda>t f. names_membership t f \<and> names_version t f)"

definition reclaim_facts where
  "reclaim_facts E = facts_by_token E ''reclaim_status'' names_membership"

text \<open>The constraints of tsw_public_tokens: its hash, kind and lifetime, and what it is bound to.\<close>

definition token_fits :: "'z delivery_db_scheme \<Rightarrow> public_token_row \<Rightarrow> bool" where
  "token_fits db t \<longleftrightarrow>
     length (pt_hash t) = 32 \<and> (pt_kind t = ''customer_access'' \<or> pt_kind t = ''reclaim_status'')
     \<and> pt_issued_at t < pt_expires_at t \<and> (pt_revoked_at t = None \<longleftrightarrow> pt_reason t = None)
     \<and> \<not> list_ex (\<lambda>x. pt_id x = pt_id t \<or> pt_hash x = pt_hash t) (public_tokens db)
     \<and> list_ex (\<lambda>d. od_id d = pt_order t \<and> od_membership d = pt_membership t \<and> od_card d = pt_card t \<and> od_asset d = pt_asset t) (orders db)
     \<and> list_ex (\<lambda>v. vs_id v = pt_version t \<and> vs_asset v = pt_asset t) (versions db)"

definition new_token_row :: "string \<Rightarrow> instant \<Rightarrow> redeem_facts \<Rightarrow> string \<Rightarrow> string \<Rightarrow> public_token_row" where
  "new_token_row i now f kind hash =
     \<lparr>pt_id = i, pt_membership = rf_membership f, pt_card = rf_card f, pt_order = rf_order f, pt_asset = rf_asset f,
      pt_version = rf_version f, pt_kind = kind, pt_hash = hash, pt_issued_at = now, pt_expires_at = now + 24 * hour,
      pt_used_at = None, pt_revoked_at = None, pt_reason = None\<rparr>"

definition insert_token :: "public_token_row \<Rightarrow> (store_error, 'z delivery_db_scheme, string) tx" where
  "insert_token t = (\<lambda>db.
     if token_fits db t then Inr (pt_id t, db\<lparr>public_tokens := public_tokens db @ [t]\<rparr>) else Inl ErrConstraint)"

definition update_token_use :: "instant \<Rightarrow> string \<Rightarrow> (store_error, 'z delivery_db_scheme, unit) tx" where
  "update_token_use now hash = (\<lambda>db.
     let P = (\<lambda>t. pt_hash t = hash \<and> pt_revoked_at t = None \<and> now < pt_expires_at t) in
     if length (filter P (public_tokens db)) = 1
     then Inr ((), db\<lparr>public_tokens := update_where P (\<lambda>t. t\<lparr>pt_used_at := Some now\<rparr>) (public_tokens db)\<rparr>)
     else Inl ErrNoRows)"

section \<open>Orders\<close>

definition order_fits :: "'z delivery_db_scheme \<Rightarrow> order_row \<Rightarrow> bool" where
  "order_fits db d \<longleftrightarrow> 0 < od_version d
     \<and> \<not> list_ex (\<lambda>x. od_id x = od_id d \<or> od_membership x = od_membership d) (orders db)
     \<and> list_ex (\<lambda>c. cd_id c = od_card d \<and> cd_membership c = od_membership d) (cards db)
     \<and> list_ex (\<lambda>a. as_id a = od_asset d \<and> as_membership a = od_membership d) (assets db)
     \<and> list_ex (\<lambda>v. vs_id v = od_delivery d \<and> vs_asset v = od_asset d) (versions db)"

definition new_order :: "string \<Rightarrow> instant \<Rightarrow> redeem_facts \<Rightarrow> order_row" where
  "new_order i now f =
     \<lparr>od_id = i, od_membership = rf_membership f, od_asset = rf_asset f, od_card = rf_card f, od_delivery = rf_version f,
      od_updated_at = now, od_version = 1\<rparr>"

definition create_order :: "order_row \<Rightarrow> (store_error, 'z delivery_db_scheme, unit) tx" where
  "create_order d = (\<lambda>db.
     if list_ex (\<lambda>x. od_card x = od_card d) (orders db) then Inr ((), db)
     else if order_fits db d then Inr ((), db\<lparr>orders := orders db @ [d]\<rparr>) else Inl ErrConstraint)"

definition find_order_id :: "string \<Rightarrow> (store_error, 'z store_db_scheme, string) tx" where
  "find_order_id c = select_row (\<lambda>db. map_option od_id (find (\<lambda>d. od_card d = c) (orders db))) ErrNoRows"

section \<open>Limits\<close>

definition check_public ::
  "faults \<Rightarrow> instant \<Rightarrow> limit list \<Rightarrow> 'z redeem_db_scheme \<Rightarrow> bool \<times> 'z redeem_db_scheme" where
  "check_public flt now ls db =
    (case check_limits flt now ls \<lparr>audit_events = audit_events db, buckets = redeem_buckets db\<rparr> of
       (res, l) \<Rightarrow> (res = Inr True, db\<lparr>redeem_buckets := buckets l\<rparr>))"

definition public_limit :: "string \<Rightarrow> string \<Rightarrow> duration \<Rightarrow> int \<Rightarrow> limit" where
  "public_limit kind hash window most = \<lparr>li_kind = kind, li_hash = hash, li_window = window, li_max = most\<rparr>"

definition ip_subject :: "redeem_tools \<Rightarrow> public_request \<Rightarrow> string" where
  "ip_subject E r = subject_fingerprint (rt_digest E) ''ip'' (source_ip E r)"

definition card_limits :: "redeem_tools \<Rightarrow> public_request \<Rightarrow> string \<Rightarrow> limit list" where
  "card_limits E r secret =
     [public_limit ''public_card'' (subject_fingerprint (rt_digest E) ''card'' secret) (15 * minute) 10,
      public_limit ''public_ip'' (ip_subject E r) (15 * minute) 30]"

definition reclaim_limits :: "redeem_tools \<Rightarrow> public_request \<Rightarrow> string \<Rightarrow> limit list" where
  "reclaim_limits E r secret =
     [public_limit ''public_reclaim_card'' (subject_fingerprint (rt_digest E) ''card'' secret) (15 * minute) 10,
      public_limit ''public_reclaim_ip'' (ip_subject E r) (15 * minute) 30]"

definition token_limits :: "redeem_tools \<Rightarrow> public_request \<Rightarrow> string \<Rightarrow> limit list" where
  "token_limits E r token =
     [public_limit ''public_token'' (token_fingerprint (rt_digest E) token) minute 60,
      public_limit ''public_token_ip'' (ip_subject E r) minute 120]"

section \<open>Replies\<close>

record redeem_preview =
  rp_suffix :: string
  rp_has_order :: bool
  rp_can_claim :: bool
  rp_can_access :: bool
  rp_remaining :: int
  rp_delivery :: string
  rp_liveness :: string

record timeline_entry =
  tl_at :: instant
  tl_action :: string
  tl_result :: string
  tl_reason :: "string option"

record reclaim_status =
  rs_status :: string
  rs_delivery :: string
  rs_liveness :: string
  rs_stage :: "string option"
  rs_tier :: "string option"
  rs_result :: "string option"

datatype public_body =
    NoPublicBody
  | ConfirmationBody redeem_preview string
  | StateBody redeem_preview "timeline_entry list"
  | RecordsBody "timeline_entry list"
  | CredentialBody string bool "instant option"
  | ReclaimBody reclaim_status
  | DeliveryBody json

record public_reply =
  pb_status :: int
  pb_code :: string
  pb_retry :: int
  pb_cookie :: "(string \<times> instant) option"
  pb_body :: public_body

definition public_problem :: "int \<Rightarrow> string \<Rightarrow> int \<Rightarrow> public_reply" where
  "public_problem st code retry =
     \<lparr>pb_status = st, pb_code = code, pb_retry = retry, pb_cookie = None, pb_body = NoPublicBody\<rparr>"

definition invalid_request :: public_reply where
  "invalid_request = public_problem 400 ''public_request_invalid'' 0"

definition rate_limited :: public_reply where
  "rate_limited = public_problem 429 ''public_rate_limited'' 60"

definition request_denied :: public_reply where
  "request_denied = public_problem 404 ''public_request_denied'' 0"

definition unavailable :: public_reply where
  "unavailable = public_problem 500 ''public_unavailable'' 0"

definition replied :: "int \<Rightarrow> (string \<times> instant) option \<Rightarrow> public_body \<Rightarrow> public_reply" where
  "replied st cookie body = \<lparr>pb_status = st, pb_code = [], pb_retry = 0, pb_cookie = cookie, pb_body = body\<rparr>"

definition access_cookie :: "instant \<Rightarrow> string \<Rightarrow> (string \<times> instant) option" where
  "access_cookie clock token = Some (token, clock + 24 * hour)"

definition preview_payload :: "instant \<Rightarrow> redeem_facts \<Rightarrow> bool \<Rightarrow> bool \<Rightarrow> redeem_preview" where
  "preview_payload clock f open_now usable =
     \<lparr>rp_suffix = rf_suffix f, rp_has_order = has_order f, rp_can_claim = open_now, rp_can_access = usable,
      rp_remaining = max 0 ((rf_planned f - clock) div second),
      rp_delivery = (if rf_asset_status f = ''ready'' \<and> rf_version f \<noteq> [] then ''available'' else ''unavailable''),
      rp_liveness = public_liveness f\<rparr>"

definition timeline_of :: "redeem_tools \<Rightarrow> audit_row \<Rightarrow> timeline_entry" where
  "timeline_of E a =
    (case rt_details E (au_details a) of (action, result, status, reason) \<Rightarrow>
       \<lparr>tl_at = au_occurred_at a,
        tl_action = (if action = [] then trim_prefix (event_name (au_type a)) ''public.'' else action),
        tl_result = (if status \<noteq> [] then status else if result \<noteq> [] then result
                     else if au_outcome a = OutcomeSucceeded then ''accepted'' else ''denied''),
        tl_reason = (if reason = [] then None else Some reason)\<rparr>)"

definition load_timeline :: "redeem_tools \<Rightarrow> string \<Rightarrow> 'z audit_db_scheme \<Rightarrow> timeline_entry list" where
  "load_timeline E c db =
     map (timeline_of E) (take 100 (sort_key au_occurred_at
       (filter (\<lambda>a. au_scope_type a = ''card'' \<and> au_scope_id a = c \<and> has_prefix (event_name (au_type a)) ''public.'')
         (audit_events db))))"

section \<open>Facts of the journal\<close>

definition public_event ::
  "redeem_tools \<Rightarrow> public_request \<Rightarrow> instant \<Rightarrow> event_type \<Rightarrow> string \<Rightarrow> string \<Rightarrow> string \<Rightarrow> string \<Rightarrow> string \<Rightarrow> string \<Rightarrow> string
     \<Rightarrow> event" where
  "public_event E r clock ty entity i scope action result status reason =
     \<lparr>ev_type = ty, ev_actor = ActorAnonymous, ev_owner_id = [], ev_scope_id = scope, ev_entity_type = entity, ev_entity_id = i,
      ev_outcome = (if result = ''denied'' then OutcomeDenied else OutcomeSucceeded), ev_correlation = public_correlation r,
      ev_source_fp = source_fingerprint (rt_digest E) (rt_split E) (source_ip E r) ''public'',
      ev_details = PublicAccessDetails action result status reason,
      ev_idem_key = event_name ty @ '':'' @ i @ '':'' @ action @ '':'' @ rt_stamp E clock, ev_occurred_at = zero_time\<rparr>"

text \<open>A transaction whose error is the reply of the handler.\<close>

definition replying :: "(store_error \<Rightarrow> public_reply) \<Rightarrow> (store_error, 's, 'a) tx \<Rightarrow> (public_reply, 's, 'a) tx" where
  "replying f m = (\<lambda>s. case m s of Inl e \<Rightarrow> Inl (f e) | Inr r \<Rightarrow> Inr r)"

lemma replying_Inr [tx_simps]: "replying f m s = Inr r \<longleftrightarrow> m s = Inr r"
  by (auto simp: replying_def split: sum.splits)

definition or_unavailable :: "(store_error, 's, 'a) tx \<Rightarrow> (public_reply, 's, 'a) tx" where
  "or_unavailable = replying (\<lambda>_. unavailable)"

definition public_fact where
  "public_fact E flt k gid now ev = or_unavailable (audit_fact (rt_digest E) flt k (gid k) now ev)"

definition commit_reply :: "faults \<Rightarrow> public_reply \<Rightarrow> (public_reply, 's, public_reply) tx" where
  "commit_reply flt a = or_unavailable (stmt flt 40 (tx_return a))"

text \<open>A commit whose error is dropped: the reply is the same, the writes are not kept.\<close>

definition commit_quietly :: "faults \<Rightarrow> public_reply \<Rightarrow> (public_reply, 's, public_reply) tx" where
  "commit_quietly flt a = replying (\<lambda>_. a) (stmt flt 40 (tx_return a))"

definition settle_reply :: "(public_reply, 's, public_reply) tx \<Rightarrow> 's \<Rightarrow> public_reply \<times> 's" where
  "settle_reply m db = (case run_tx m db of (Inl a, db') \<Rightarrow> (a, db') | (Inr a, db') \<Rightarrow> (a, db'))"

section \<open>The card\<close>

text \<open>loadRedeemFactsForUpdate after its first read: the locks and the second read.\<close>

definition locked_facts ::
  "redeem_tools \<Rightarrow> faults \<Rightarrow> nat \<Rightarrow> string \<Rightarrow> redeem_facts \<Rightarrow> (store_error, 'z delivery_db_scheme, redeem_facts) tx" where
  "locked_facts E flt v h f =
     tx_bind (if has_order f then tx_return () else stmt flt 2 (tx_return ())) (\<lambda>_.
     tx_bind (stmt flt 3 (select_row (\<lambda>db. find (\<lambda>c. cd_id c = rf_card f) (cards db)) ErrNoRows)) (\<lambda>_.
     stmt flt 4 (select_row (facts_by_card E v h) ErrNoRows)))"

text \<open>The common start of the handlers that take a card; \<open>broken\<close> is the reply to a failing first read.\<close>

definition with_card where
  "with_card E flt limits (clk :: nat \<Rightarrow> instant) r broken body mid work db =
    (case body of
       None \<Rightarrow> (invalid_request, db)
     | Some secret \<Rightarrow>
        if \<not> card_valid secret then (invalid_request, db)
        else case check_public (\<lambda>k. flt (100 + k)) (clk 0) (limits secret) db of
          (False, db1) \<Rightarrow> (rate_limited, db1)
        | (True, db1) \<Rightarrow>
           (case lookup_hmac (rt_mac E) (va_ring (rt_vault E)) secret of
              None \<Rightarrow> (request_denied, db1)
            | Some (v, h) \<Rightarrow>
               if flt 0 then (unavailable, db1)
               else if flt 1 then (broken, db1)
               else case facts_by_card E v h db1 of
                 None \<Rightarrow> (request_denied, db1)
               | Some f \<Rightarrow> settle_reply (work v h f) (mid db1)))"

definition refuse_card where
  "refuse_card E flt gid now (clk :: nat \<Rightarrow> instant) r f ty action reason =
     tx_bind (public_fact E flt 10 gid now
       (public_event E r (clk 1) ty ''card'' (rf_card f) (rf_card f) action ''denied'' [] reason)) (\<lambda>_.
     commit_quietly flt request_denied)"

definition claimed_facts ::
  "redeem_tools \<Rightarrow> faults \<Rightarrow> (nat \<Rightarrow> string) \<Rightarrow> instant \<Rightarrow> redeem_facts \<Rightarrow> (public_reply, 'z delivery_db_scheme, redeem_facts) tx" where
  "claimed_facts E flt gid now f =
     tx_bind (or_unavailable (stmt flt 5 (create_order (new_order (gid 5) now f)))) (\<lambda>_.
     tx_bind (or_unavailable (stmt flt 6 (find_order_id (rf_card f)))) (\<lambda>i.
     tx_return (f\<lparr>rf_order := i\<rparr>)))"

definition issue_token where
  "issue_token E flt gid now raw f kind =
    (case new_token (rt_digest E) raw of
       None \<Rightarrow> tx_fail unavailable
     | Some (plain, hash) \<Rightarrow>
        tx_bind (or_unavailable (stmt flt 8 (insert_token (new_token_row (gid 8) now f kind hash)))) (\<lambda>i.
        tx_return (plain, i)))"

definition token_fact where
  "token_fact E flt gid now (clk :: nat \<Rightarrow> instant) r f i =
     public_fact E flt 14 gid now
       (public_event E r (clk 3) PublicTokenIssued ''public_token'' i (rf_card f) ''token_issued'' ''accepted'' [] [])"

text \<open>The accepted confirmation: the order, the token, the two facts and the reply.\<close>

definition accept_card where
  "accept_card E flt gid now (clk :: nat \<Rightarrow> instant) raw r f =
     tx_bind (if has_order f then tx_return f else claimed_facts E flt gid now f) (\<lambda>g.
     tx_bind (issue_token E flt gid now raw g ''customer_access'') (\<lambda>(plain, i).
     tx_bind (public_fact E flt 12 gid now (public_event E r (clk 4) (if has_order f then PublicOrderRestored else PublicOrderCreated)
       ''order'' (rf_order g) (rf_card g) (if has_order f then ''order_restore'' else ''first_claim'') ''accepted'' [] [])) (\<lambda>_.
     tx_bind (token_fact E flt gid now clk r g i) (\<lambda>_.
     commit_reply flt (replied 200 (access_cookie (clk 5) plain)
       (ConfirmationBody (preview_payload (clk 6) g False True) (if has_order f then ''restored'' else ''claimed'')))))))"

definition confirm_tx where
  "confirm_tx E flt gid now (clk :: nat \<Rightarrow> instant) raw r v h f0 =
     tx_bind (replying (\<lambda>e. if e = ErrNoRows then request_denied else unavailable) (locked_facts E flt v h f0)) (\<lambda>f.
     if has_order f \<and> \<not> can_access f
     then refuse_card E flt gid now clk r f PublicRestoreDenied ''order_restore'' ''delivery_unavailable''
     else if \<not> has_order f \<and> \<not> can_claim (clk 2) f
     then refuse_card E flt gid now clk r f PublicClaimDenied ''first_claim'' ''claim_unavailable''
     else accept_card E flt gid now clk raw r f)"

definition confirm_redeem where
  "confirm_redeem E flt gid now (clk :: nat \<Rightarrow> instant) raw r body mid =
     with_card E flt (card_limits E r) clk r unavailable body mid (confirm_tx E flt gid now clk raw r)"

definition check_tx where
  "check_tx E flt gid now (clk :: nat \<Rightarrow> instant) r v h f0 =
     tx_bind (replying (\<lambda>_. request_denied) (locked_facts E flt v h f0)) (\<lambda>f.
     if \<not> rf_card_active f then
       tx_bind (public_fact E flt 10 gid now (public_event E r (clk 1) PublicStatusChecked ''card'' (rf_card f) (rf_card f)
         ''status_check'' ''denied'' [] ''card_revoked'')) (\<lambda>_.
       commit_reply flt request_denied)
     else
       tx_bind (if can_credential_check f
                then or_unavailable (enqueue_customer_probe (\<lambda>k. flt (20 + k)) (rt_vault E) gid now (rf_asset f) (gid 9)
                  (public_correlation r))
                else tx_return False) (\<lambda>queued.
       tx_bind (public_fact E flt 12 gid now (public_event E r (clk 1) PublicStatusChecked ''card'' (rf_card f) (rf_card f)
         ''status_check'' (public_liveness f) (public_liveness f) [])) (\<lambda>_.
       commit_reply flt (replied 200 None (CredentialBody (public_liveness f) queued
         (if is_zero_time (rf_deadline f) then None else Some (clk 2)))))))"

definition check_credential where
  "check_credential E flt gid now (clk :: nat \<Rightarrow> instant) r body mid =
     with_card E flt (card_limits E r) clk r request_denied body mid (check_tx E flt gid now clk r)"

text \<open>The refusal of a reclaim drops the errors of its fact and of its commit.\<close>

definition refuse_reclaim where
  "refuse_reclaim E flt gid now (clk :: nat \<Rightarrow> instant) r f =
     tx_bind (replying (\<lambda>_. request_denied) (audit_fact (rt_digest E) flt 10 (gid 10) now
       (public_event E r (clk 1) PublicReclaimDenied ''card'' (rf_card f) (rf_card f) ''reclaim_request'' ''denied'' []
         ''reclaim_unavailable''))) (\<lambda>_.
     commit_quietly flt request_denied)"

definition request_reclaim_tx where
  "request_reclaim_tx E flt gid now (clk :: nat \<Rightarrow> instant) raw r v h f0 =
     tx_bind (replying (\<lambda>_. request_denied) (locked_facts E flt v h f0)) (\<lambda>f.
     if \<not> can_reclaim_request f then refuse_reclaim E flt gid now clk r f
     else
       tx_bind (or_unavailable (enqueue_delivery_reclaim (\<lambda>k. flt (20 + k)) (rt_vault E) gid now (rf_asset f) (rf_order f) (gid 9)
         (public_correlation r) ''customer'')) (\<lambda>created.
       let result = (if created then ''queued'' else ''checking'') in
       tx_bind (public_fact E flt 12 gid now (public_event E r (clk 1) PublicReclaimRequested ''card'' (rf_card f) (rf_card f)
         ''reclaim_request'' result [] [])) (\<lambda>_.
       tx_bind (issue_token E flt gid now raw f ''reclaim_status'') (\<lambda>(plain, i).
       tx_bind (token_fact E flt gid now clk r f i) (\<lambda>_.
       commit_reply flt (replied 202 (access_cookie (clk 4) plain) (ReclaimBody
         \<lparr>rs_status = (if created then ''queued'' else ''running''), rs_delivery = ''unavailable'', rs_liveness = public_liveness f,
          rs_stage = None, rs_tier = None, rs_result = Some result\<rparr>)))))))"

definition request_reclaim where
  "request_reclaim E flt gid now (clk :: nat \<Rightarrow> instant) raw r body mid =
     with_card E flt (reclaim_limits E r) clk r request_denied body mid (request_reclaim_tx E flt gid now clk raw r)"

section \<open>The token\<close>

text \<open>The entity of a denial: a download names the token, every other read the order.\<close>

definition denied_entity :: "redeem_tools \<Rightarrow> event_type \<Rightarrow> string \<Rightarrow> string \<Rightarrow> string \<times> string" where
  "denied_entity E ty hash order =
    (if ty = PublicDownloadDenied then (''public_token'', rt_uuid E hash) else (''order'', order))"

definition denied_fact where
  "denied_fact E flt gid now (clk :: nat \<Rightarrow> instant) r ty action hash order c =
     public_fact E flt 10 gid now (public_event E r (clk 1) ty (fst (denied_entity E ty hash order))
       (snd (denied_entity E ty hash order)) c action ''denied'' [] ''card_revoked'')"

definition revoked_card where
  "revoked_card E flt gid now (clk :: nat \<Rightarrow> instant) r ty action hash f =
     tx_bind (denied_fact E flt gid now clk r ty action hash (rf_order f) (rf_card f)) (\<lambda>_. commit_reply flt request_denied)"

text \<open>auditRevokedTokenDenied: a revoked token of a revoked card leaves a fact, any other none.\<close>

definition revoked_token_card :: "string \<Rightarrow> 'z delivery_db_scheme \<Rightarrow> (card_row \<times> string) option" where
  "revoked_token_card hash db =
     Option.bind (find (\<lambda>t. pt_hash t = hash \<and> pt_revoked_at t \<noteq> None) (public_tokens db)) (\<lambda>t.
     map_option (\<lambda>c. (c, pt_order t)) (find (\<lambda>c. cd_id c = pt_card t) (cards db)))"

definition unknown_token where
  "unknown_token E flt gid now (clk :: nat \<Rightarrow> instant) r ty action hash =
     tx_bind (or_unavailable (stmt flt 9 (tx_read (revoked_token_card hash)))) (\<lambda>found.
     case found of
       None \<Rightarrow> tx_fail request_denied
     | Some (c, order) \<Rightarrow>
        if cd_active c then tx_fail request_denied
        else tx_bind (denied_fact E flt gid now clk r ty action hash order (cd_id c)) (\<lambda>_. commit_reply flt request_denied))"

text \<open>The second read under the lock of the card, and the decision.\<close>

definition token_tx where
  "token_tx E flt gid now (clk :: nat \<Rightarrow> instant) r load permit ty action hash work (f0 :: redeem_facts) =
     tx_bind (replying (\<lambda>_. request_denied) (stmt flt 2 (tx_read (\<lambda>db. find (\<lambda>c. cd_id c = rf_card f0) (cards db))))) (\<lambda>locked.
     case locked of
       None \<Rightarrow> unknown_token E flt gid now clk r ty action hash
     | Some _ \<Rightarrow>
        tx_bind (replying (\<lambda>_. request_denied) (stmt flt 3 (tx_read (load hash now)))) (\<lambda>found.
        case found of
          None \<Rightarrow> unknown_token E flt gid now clk r ty action hash
        | Some f \<Rightarrow>
           if \<not> rf_card_active f then revoked_card E flt gid now clk r ty action hash f
           else if \<not> permit f then tx_fail request_denied
           else work hash f))"

definition with_token where
  "with_token E flt gid now (clk :: nat \<Rightarrow> instant) r load permit ty action mid work db =
    (case pq_access r of
       None \<Rightarrow> (request_denied, db)
     | Some token \<Rightarrow>
        (case hash_token (rt_digest E) token of
           None \<Rightarrow> (request_denied, db)
         | Some hash \<Rightarrow>
            (case check_public (\<lambda>k. flt (100 + k)) (clk 0) (token_limits E r token) db of
               (False, db1) \<Rightarrow> (request_denied, db1)
             | (True, db1) \<Rightarrow>
                if flt 0 then (unavailable, db1)
                else if flt 1 then (request_denied, db1)
                else case load hash now db1 of
                  None \<Rightarrow> settle_reply (unknown_token E flt gid now clk r ty action hash) db1
                | Some f \<Rightarrow> settle_reply (token_tx E flt gid now clk r load permit ty action hash work f) (mid db1))))"

definition order_fact where
  "order_fact E flt gid now (clk :: nat \<Rightarrow> instant) r ty action result f =
     public_fact E flt 12 gid now (public_event E r (clk 2) ty ''order'' (rf_order f) (rf_card f) action result [] [])"

definition redeem_state_work where
  "redeem_state_work E flt gid now (clk :: nat \<Rightarrow> instant) r hash f =
     tx_bind (order_fact E flt gid now clk r PublicStateRead ''state_read'' ''accepted'' f) (\<lambda>_.
     tx_bind (or_unavailable (stmt flt 16 (tx_read (load_timeline E (rf_card f))))) (\<lambda>items.
     commit_reply flt (replied 200 None (StateBody (preview_payload (clk 3) f False (can_access f)) items))))"

definition redeem_state where
  "redeem_state E flt gid now (clk :: nat \<Rightarrow> instant) r mid =
     with_token E flt gid now clk r (reading_facts E) can_read_status PublicStateRead ''state_read'' mid
       (redeem_state_work E flt gid now clk r)"

definition redeem_records_work where
  "redeem_records_work E flt gid now (clk :: nat \<Rightarrow> instant) r hash f =
     tx_bind (order_fact E flt gid now clk r PublicRecordsRead ''records_read'' ''accepted'' f) (\<lambda>_.
     tx_bind (or_unavailable (stmt flt 16 (tx_read (load_timeline E (rf_card f))))) (\<lambda>items.
     commit_reply flt (replied 200 None (RecordsBody items))))"

definition redeem_records where
  "redeem_records E flt gid now (clk :: nat \<Rightarrow> instant) r mid =
     with_token E flt gid now clk r (reading_facts E) can_read_status PublicRecordsRead ''records_read'' mid
       (redeem_records_work E flt gid now clk r)"

text \<open>The newest reclaim task of the asset, and what a customer is told of it.\<close>

definition newest_reclaim :: "string \<Rightarrow> 'z store_db_scheme \<Rightarrow> task_row option" where
  "newest_reclaim asset db =
     first_by (\<lambda>t. - tk_created_at t) (filter (\<lambda>t. tk_asset t = Some asset \<and> tk_type t = OAuthReclaim) (tasks db))"

definition visible_text :: "string option \<Rightarrow> string option" where
  "visible_text v = (if v = Some [] then None else v)"

fun reclaim_result_text :: "task_status \<Rightarrow> string option \<Rightarrow> string option \<Rightarrow> string" where
  "reclaim_result_text Queued tier result = ''queued''"
| "reclaim_result_text Running tier result = ''checking''"
| "reclaim_result_text RetryWait tier result = ''checking''"
| "reclaim_result_text Succeeded tier result = (if result = Some ''probe_ok'' then ''healthy'' else ''restored'')"
| "reclaim_result_text Failed tier result =
    (if result = Some ''unrecoverable'' \<or> tier = Some ''unrecoverable'' then ''unrecoverable'' else ''unknown'')"
| "reclaim_result_text Interrupted tier result = ''unknown''"

fun reclaim_status_text :: "task_status \<Rightarrow> string" where
  "reclaim_status_text Queued = ''queued''"
| "reclaim_status_text Running = ''running''"
| "reclaim_status_text RetryWait = ''retry_wait''"
| "reclaim_status_text Succeeded = ''succeeded''"
| "reclaim_status_text Failed = ''failed''"
| "reclaim_status_text Interrupted = ''failed''"

definition load_reclaim_status :: "redeem_facts \<Rightarrow> 'z store_db_scheme \<Rightarrow> reclaim_status" where
  "load_reclaim_status f db =
    (let s = \<lparr>rs_status = ''not_requested'',
         rs_delivery = (if rf_asset_status f = ''ready'' \<and> rf_version f \<noteq> [] then ''available'' else ''unavailable''),
         rs_liveness = public_liveness f, rs_stage = None, rs_tier = None, rs_result = None\<rparr> in
     case newest_reclaim (rf_asset f) db of
       None \<Rightarrow> s
     | Some t \<Rightarrow> s\<lparr>rs_status := reclaim_status_text (tk_status t), rs_stage := visible_text (tk_reclaim_stage t),
         rs_tier := visible_text (tk_reclaim_tier t),
         rs_result := Some (reclaim_result_text (tk_status t) (tk_reclaim_tier t) (tk_reclaim_result t))\<rparr>)"

definition reclaim_poll_result :: "reclaim_status \<Rightarrow> string" where
  "reclaim_poll_result s =
    (if rs_status s = ''queued'' then ''queued''
     else if rs_status s = ''running'' \<or> rs_status s = ''retry_wait'' then ''checking''
     else if rs_status s = ''succeeded'' then (if rs_result s = Some ''healthy'' then ''healthy'' else ''restored'')
     else if rs_status s = ''failed'' then (if rs_result s = Some ''unrecoverable'' then ''unrecoverable'' else ''unknown'')
     else ''unknown'')"

definition reclaim_status_work where
  "reclaim_status_work E flt gid now (clk :: nat \<Rightarrow> instant) r hash f =
     tx_bind (or_unavailable (stmt flt 16 (tx_read (load_reclaim_status f)))) (\<lambda>s.
     tx_bind (order_fact E flt gid now clk r PublicStateRead ''reclaim_status'' (reclaim_poll_result s) f) (\<lambda>_.
     commit_reply flt (replied 200 None (ReclaimBody s))))"

definition redeem_reclaim_status where
  "redeem_reclaim_status E flt gid now (clk :: nat \<Rightarrow> instant) r mid =
     with_token E flt gid now clk r (reclaim_facts E) can_read_status PublicStateRead ''reclaim_status'' mid
       (reclaim_status_work E flt gid now clk r)"

definition download_work where
  "download_work E flt gid now (clk :: nat \<Rightarrow> instant) r hash f =
     tx_bind (replying (\<lambda>_. request_denied) (stmt flt 16 (select_row (\<lambda>db. map_option vs_payload
       (find (\<lambda>v. vs_id v = rf_version f \<and> vs_asset v = rf_asset f) (versions db))) ErrNoRows))) (\<lambda>payload.
     tx_bind (replying (\<lambda>_. request_denied) (stmt flt 17 (update_token_use now hash))) (\<lambda>_.
     tx_bind (public_fact E flt 18 gid now (public_event E r (clk 2) PublicDownloadAuthorized ''public_token'' (rt_uuid E hash)
       (rf_card f) ''download_authorized'' ''accepted'' [] [])) (\<lambda>_.
     commit_reply flt (replied 200 None (DeliveryBody payload)))))"

definition download_delivery where
  "download_delivery E flt gid now (clk :: nat \<Rightarrow> instant) r mid =
     with_token E flt gid now clk r (download_facts E) can_access PublicDownloadDenied ''download_denied'' mid
       (download_work E flt gid now clk r)"

end
