(* ===== verification/RedeemLaws.thy ===== *)
theory RedeemLaws
  imports PublicRedeem
begin

text \<open>
  What a card and a token are good for: a download needs a live token of the current version, a
  confirmation creates at most one order, and a published reclaim closes the very token that was
  issued to follow it.
\<close>

section \<open>Replies of the common paths\<close>

lemma settle_reply_Pair:
  "settle_reply m db = (a, db') \<longleftrightarrow> m db = Inl a \<and> db' = db \<or> m db = Inr (a, db')"
  by (auto simp: settle_reply_def run_tx_def split: sum.splits)

lemma replying_Inl: "replying f m s = Inl a \<longleftrightarrow> (\<exists>e. m s = Inl e \<and> a = f e)"
  by (auto simp: replying_def split: sum.splits)

lemma tx_bind_Inl: "tx_bind m f s = Inl e \<longleftrightarrow> m s = Inl e \<or> (\<exists>x t. m s = Inr (x, t) \<and> f x t = Inl e)"
  by (auto simp: tx_bind_def split: sum.splits)

lemmas reply_errors = tx_bind_Inl replying_Inl or_unavailable_def commit_reply_def commit_quietly_def public_fact_def tx_fail_def
  tx_return_def

lemma reply_codes [simp]:
  "pb_status request_denied = 404" "pb_status unavailable = 500" "pb_status invalid_request = 400" "pb_status rate_limited = 429"
  "pb_status (replied st c b) = st" "pb_body (replied st c b) = b" "pb_cookie (replied st c b) = c"
  by (simp_all add: request_denied_def unavailable_def invalid_request_def rate_limited_def public_problem_def replied_def)

text \<open>A transaction whose error is never an answer.\<close>

definition errs :: "(public_reply, 's, 'a) tx \<Rightarrow> bool" where
  "errs m \<longleftrightarrow> (\<forall>s a. m s = Inl a \<longrightarrow> 400 \<le> pb_status a)"

lemma errs_bind: "errs m \<Longrightarrow> (\<And>x. errs (f x)) \<Longrightarrow> errs (tx_bind m f)"
  by (auto simp: errs_def tx_bind_Inl)

lemma errs_replying: "(\<And>e. 400 \<le> pb_status (f e)) \<Longrightarrow> errs (replying f m)"
  by (auto simp: errs_def replying_Inl)

lemma errs_fail: "400 \<le> pb_status a \<Longrightarrow> errs (tx_fail a)"
  by (simp add: errs_def tx_fail_def)

lemma errs_return: "errs (tx_return x)"
  by (simp add: errs_def tx_return_def)

lemma errs_unavailable: "errs (or_unavailable m)"
  unfolding or_unavailable_def by (rule errs_replying) simp

lemma errs_commit: "errs (commit_reply flt a)"
  by (simp add: commit_reply_def errs_unavailable)

lemma errs_fact: "errs (public_fact E flt k gid now ev)"
  by (simp add: public_fact_def errs_unavailable)

lemma errs_quietly: "400 \<le> pb_status a \<Longrightarrow> errs (commit_quietly flt a)"
  unfolding commit_quietly_def by (rule errs_replying) simp

lemma errs_if: "errs a \<Longrightarrow> errs b \<Longrightarrow> errs (if c then a else b)"
  by simp

lemma errs_option: "errs m \<Longrightarrow> (\<And>a. errs (f a)) \<Longrightarrow> errs (case x of None \<Rightarrow> m | Some a \<Rightarrow> f a)"
  by (cases x) simp_all

lemma errs_pair: "(\<And>a b. errs (f a b)) \<Longrightarrow> errs (case x of (a, b) \<Rightarrow> f a b)"
  by (cases x) simp

lemmas errs_rules =
  errs_bind errs_replying errs_fail errs_return errs_unavailable errs_commit errs_fact errs_quietly errs_if errs_option errs_pair

lemma commit_reply_Inr: "commit_reply flt a s = Inr (b, t) \<longleftrightarrow> \<not> flt 40 \<and> b = a \<and> t = s"
  by (auto simp: commit_reply_def or_unavailable_def tx_simps)

lemma commit_quietly_Inr: "commit_quietly flt a s = Inr (b, t) \<longleftrightarrow> \<not> flt 40 \<and> b = a \<and> t = s"
  by (auto simp: commit_quietly_def tx_simps)

lemma or_unavailable_Inr: "or_unavailable m s = Inr r \<longleftrightarrow> m s = Inr r"
  by (simp add: or_unavailable_def replying_Inr)

lemma tx_fail_Inr_not: "tx_fail e s \<noteq> Inr r"
  by (simp add: tx_fail_def)

lemmas reply_simps = commit_reply_Inr commit_quietly_Inr or_unavailable_Inr replying_Inr

section \<open>Token handlers\<close>

lemma unknown_token_denies:
  "unknown_token E flt gid now clk r ty action hash s = Inr (a, t) \<Longrightarrow> a = request_denied"
  by (auto simp: unknown_token_def tx_simps reply_simps tx_fail_Inr_not split: option.splits if_splits)

lemma errs_unknown: "errs (unknown_token E flt gid now clk r ty action hash)"
  unfolding unknown_token_def denied_fact_def by (intro errs_rules) (auto simp: errs_rules split: prod.split)

text \<open>A handler answers only from a token that its second read found live, on an active card.\<close>

lemma with_token_answers:
  assumes "with_token E flt gid now clk r load permit ty action mid work db = (a, db')" and "pb_status a < 400"
    and "\<And>hash f. errs (work hash f)"
  shows "\<exists>token hash db1 f. pq_access r = Some token \<and> hash_token (rt_digest E) token = Some hash
    \<and> check_public (\<lambda>k. flt (100 + k)) (clk 0) (token_limits E r token) db = (True, db1)
    \<and> load hash now (mid db1) = Some f \<and> rf_card_active f \<and> permit f \<and> work hash f (mid db1) = Inr (a, db')"
proof -
  obtain token where t: "pq_access r = Some token" using assms(1,2) by (cases "pq_access r") (auto simp: with_token_def)
  obtain hash where h: "hash_token (rt_digest E) token = Some hash"
    using assms(1,2) t by (cases "hash_token (rt_digest E) token") (auto simp: with_token_def)
  obtain ok db1 where c: "check_public (\<lambda>k. flt (100 + k)) (clk 0) (token_limits E r token) db = (ok, db1)" by fastforce
  have "ok" using assms(1,2) t h c by (cases ok) (auto simp: with_token_def)
  with c have "check_public (\<lambda>k. flt (100 + k)) (clk 0) (token_limits E r token) db = (True, db1)" by simp
  note 1 = t h this
  have no: "settle_reply (unknown_token E flt gid now clk r ty action hash) s \<noteq> (a, t)" for s t
  proof -
    have "errs (unknown_token E flt gid now clk r ty action hash)" by (rule errs_unknown)
    moreover have "\<not> 400 \<le> pb_status a" "a \<noteq> request_denied" using assms(2) by auto
    ultimately show ?thesis
      unfolding settle_reply_Pair errs_def by (auto dest: unknown_token_denies)
  qed
  have "\<exists>f0. settle_reply (token_tx E flt gid now clk r load permit ty action hash work f0) (mid db1) = (a, db')"
  proof (cases "load hash now db1")
    case None
    with assms(1,2) 1 no show ?thesis by (auto simp: with_token_def split: if_splits)
  next
    case (Some f0)
    with assms(1,2) 1 have "settle_reply (token_tx E flt gid now clk r load permit ty action hash work f0) (mid db1) = (a, db')"
      by (auto simp: with_token_def split: if_splits)
    then show ?thesis ..
  qed
  then obtain f0 where run: "settle_reply (token_tx E flt gid now clk r load permit ty action hash work f0) (mid db1) = (a, db')" ..
  have "errs (token_tx E flt gid now clk r load permit ty action hash work f0)"
    unfolding token_tx_def revoked_card_def denied_fact_def
    by (intro errs_rules errs_unknown assms(3)) simp_all
  with run assms(2) have "token_tx E flt gid now clk r load permit ty action hash work f0 (mid db1) = Inr (a, db')"
    unfolding settle_reply_Pair errs_def by (meson linorder_not_le)
  then show ?thesis
    using 1 assms(2) unknown_token_denies
    by (fastforce simp: token_tx_def revoked_card_def tx_simps reply_simps tx_fail_Inr_not split: option.splits if_splits)
qed

lemma facts_by_token_Some:
  assumes "facts_by_token E kind bound hash now db = Some f"
  shows "\<exists>t c. t \<in> set (public_tokens db) \<and> live_token now kind hash t \<and> c \<in> set (cards db) \<and> cd_id c = pt_card t
    \<and> facts_of_card E db c = Some f \<and> rf_order f = pt_order t \<and> pt_asset t = rf_asset f \<and> bound t f"
  using assms by (auto simp: facts_by_token_def bind_eq_Some_conv find_Some_iff split: if_splits) (metis nth_mem)+

lemma audit_fact_recorded:
  assumes "audit_fact H flt k i now ev db = Inr (u, db')"
  shows "stable_key H ev \<in> au_key ` set (audit_events db')"
proof (cases "list_all (\<lambda>r. au_key r \<noteq> stable_key H ev) (audit_events db)")
  case True
  with assms show ?thesis
    by (auto simp: audit_fact_def write_audit_def lift_audit_def tx_simps audit_write_def Let_def event_row_def
        split: sum.splits if_splits)
next
  case False
  then have "stable_key H ev \<in> au_key ` set (audit_events db)" by (auto simp: list_all_iff intro: rev_image_eqI)
  moreover obtain es where "db' = db\<lparr>audit_events := audit_events db @ es\<rparr>" using audit_fact_Inr [OF assms] by blast
  ultimately show ?thesis by auto
qed

lemma errs_download: "errs (download_work E flt gid now clk r hash f)"
  unfolding download_work_def by (intro errs_rules) simp_all


section \<open>Card handlers\<close>

lemma check_public_tokens:
  "check_public flt now ls db = (ok, db1) \<Longrightarrow> \<exists>bs. db1 = db\<lparr>redeem_buckets := bs\<rparr>"
  by (auto simp: check_public_def split: prod.splits)

lemma with_card_answers:
  assumes "with_card E flt limits clk r broken body mid work db = (a, db')" and "pb_status a < 400" and "400 \<le> pb_status broken"
    and "\<And>v h f. errs (work v h f)"
  shows "\<exists>secret db1 v h f. body = Some secret \<and> check_public (\<lambda>k. flt (100 + k)) (clk 0) (limits secret) db = (True, db1)
    \<and> lookup_hmac (rt_mac E) (va_ring (rt_vault E)) secret = Some (v, h) \<and> facts_by_card E v h db1 = Some f
    \<and> work v h f (mid db1) = Inr (a, db')"
proof -
  obtain secret where b: "body = Some secret" and valid: "card_valid secret"
    using assms(1,2) by (cases body) (auto simp: with_card_def split: if_splits)
  obtain ok db1 where c: "check_public (\<lambda>k. flt (100 + k)) (clk 0) (limits secret) db = (ok, db1)" by fastforce
  have "ok" using assms(1,2) b valid c by (cases ok) (auto simp: with_card_def)
  with c have c: "check_public (\<lambda>k. flt (100 + k)) (clk 0) (limits secret) db = (True, db1)" by simp
  obtain v h where l: "lookup_hmac (rt_mac E) (va_ring (rt_vault E)) secret = Some (v, h)"
    using assms(1,2) b valid c
    by (cases "lookup_hmac (rt_mac E) (va_ring (rt_vault E)) secret") (auto simp: with_card_def)
  obtain f where f: "facts_by_card E v h db1 = Some f" and run: "settle_reply (work v h f) (mid db1) = (a, db')"
    using assms(1-3) b valid c l by (cases "facts_by_card E v h db1") (auto simp: with_card_def split: if_splits)
  have "work v h f (mid db1) = Inr (a, db')"
    using run assms(2) assms(4) [of v h f] unfolding settle_reply_Pair errs_def by (meson linorder_not_le)
  with b c l f show ?thesis by blast
qed

lemma locked_facts_Inr:
  "locked_facts E flt v h f0 s = Inr (f, t) \<Longrightarrow> t = s \<and> facts_by_card E v h s = Some f"
  by (auto simp: locked_facts_def tx_simps split: if_splits)

lemma errs_refuse: "errs (refuse_card E flt gid now clk r f ty action reason)"
  unfolding refuse_card_def by (intro errs_rules) simp

lemma errs_issue: "errs (issue_token E flt gid now raw f kind)"
  unfolding issue_token_def by (intro errs_rules) simp_all

lemma errs_confirm: "errs (confirm_tx E flt gid now clk raw r v h f)"
  unfolding confirm_tx_def accept_card_def claimed_facts_def token_fact_def
  by (intro errs_rules errs_refuse errs_issue) simp_all

lemma refuse_card_denies:
  "refuse_card E flt gid now clk r f ty action reason s = Inr (a, t) \<Longrightarrow> a = request_denied"
  by (auto simp: refuse_card_def tx_simps reply_simps)

lemma issue_token_Inr:
  "issue_token E flt gid now raw f kind s = Inr ((plain, i), t) \<longleftrightarrow>
     \<not> flt 8 \<and> (\<exists>hash. new_token (rt_digest E) raw = Some (plain, hash) \<and> i = gid 8
       \<and> token_fits s (new_token_row (gid 8) now f kind hash)
       \<and> t = s\<lparr>public_tokens := public_tokens s @ [new_token_row (gid 8) now f kind hash]\<rparr>)"
  by (auto simp: issue_token_def tx_simps reply_simps insert_token_def tx_fail_Inr_not new_token_row_def
      split: option.splits if_splits)

lemma public_fact_Inr:
  "public_fact E flt k gid now ev s = Inr (u, t) \<Longrightarrow> \<exists>es. t = s\<lparr>audit_events := audit_events s @ es\<rparr>"
  by (auto simp: public_fact_def reply_simps dest: audit_fact_Inr)

lemma find_append_last: "\<not> list_ex P xs \<Longrightarrow> P x \<Longrightarrow> find P (xs @ [x]) = Some x"
  by (induction xs) auto

text \<open>A claim that gets its token has created the order, since the card had none.\<close>

lemma claimed_order:
  assumes "claimed_facts E flt gid now f s = Inr (g, t)" and "\<not> has_order f" and "facts_of_card E s c = Some f"
    and "token_fits t (new_token_row i now g kind hash)" and "\<forall>d\<in>set (orders s). od_id d \<noteq> []"
  shows "rf_card f \<notin> od_card ` set (orders s) \<and> g = f\<lparr>rf_order := gid 5\<rparr>
    \<and> t = s\<lparr>orders := orders s @ [new_order (gid 5) now f]\<rparr>"
proof -
  from assms(1) obtain j where o: "create_order (new_order (gid 5) now f) s = Inr ((), t)"
    and j: "map_option od_id (find (\<lambda>d. od_card d = rf_card f) (orders t)) = Some j" and g: "g = f\<lparr>rf_order := j\<rparr>"
    by (auto simp: claimed_facts_def tx_simps reply_simps find_order_id_def)
  show ?thesis
  proof (cases "list_ex (\<lambda>x. od_card x = rf_card f) (orders s)")
    case True
    with o have "t = s" by (simp add: create_order_def new_order_def)
    with assms(4) g obtain d where d: "d \<in> set (orders s)" "od_membership d = rf_membership f" "od_card d = rf_card f"
      by (auto simp: token_fits_def new_token_row_def list_ex_iff)
    from assms(3) have "rf_order f = opt_str (map_option od_id (card_order (rf_card f) (rf_membership f) s))"
      by (auto simp: facts_of_card_def bind_eq_Some_conv Let_def)
    moreover obtain e where "card_order (rf_card f) (rf_membership f) s = Some e"
      using d by (cases "card_order (rf_card f) (rf_membership f) s") (auto simp: card_order_def find_None_iff)
    moreover have "e \<in> set (orders s)" using calculation(2) by (auto simp: card_order_def find_Some_iff)
    ultimately show ?thesis using assms(2,5) by (simp add: has_order_def opt_str_def)
  next
    case False
    then have t: "t = s\<lparr>orders := orders s @ [new_order (gid 5) now f]\<rparr>"
      using o by (simp add: create_order_def new_order_def split: if_splits)
    then have "find (\<lambda>d. od_card d = rf_card f) (orders t) = Some (new_order (gid 5) now f)"
      using False by (simp add: find_append_last new_order_def)
    with j g t False show ?thesis by (auto simp: new_order_def list_ex_iff)
  qed
qed

lemma accept_card_Inr:
  assumes "accept_card E flt gid now clk raw r f s = Inr (a, db')"
  shows "\<exists>g t1 plain hash. (if has_order f then tx_return f else claimed_facts E flt gid now f) s = Inr (g, t1)
    \<and> new_token (rt_digest E) raw = Some (plain, hash) \<and> token_fits t1 (new_token_row (gid 8) now g ''customer_access'' hash)
    \<and> pb_cookie a = Some (plain, clk 5 + 24 * hour) \<and> orders db' = orders t1
    \<and> public_tokens db' = public_tokens t1 @ [new_token_row (gid 8) now g ''customer_access'' hash]"
proof -
  from assms obtain g t1 x t2 where one: "(if has_order f then tx_return f else claimed_facts E flt gid now f) s = Inr (g, t1)"
    and tok: "issue_token E flt gid now raw g ''customer_access'' t1 = Inr (x, t2)"
    and rest: "(case x of (plain, i) \<Rightarrow>
      tx_bind (public_fact E flt 12 gid now (public_event E r (clk 4) (if has_order f then PublicOrderRestored else PublicOrderCreated)
       ''order'' (rf_order g) (rf_card g) (if has_order f then ''order_restore'' else ''first_claim'') ''accepted'' [] [])) (\<lambda>_.
      tx_bind (token_fact E flt gid now clk r g i) (\<lambda>_.
      commit_reply flt (replied 200 (access_cookie (clk 5) plain)
       (ConfirmationBody (preview_payload (clk 6) g False True) (if has_order f then ''restored'' else ''claimed'')))))) t2 = Inr (a, db')"
    unfolding accept_card_def tx_bind_Inr by blast
  obtain plain i where x: "x = (plain, i)" by (cases x)
  from rest [unfolded x prod.case tx_bind_Inr commit_reply_Inr token_fact_def] obtain u3 t3 u4 where
    f3: "public_fact E flt 12 gid now (public_event E r (clk 4) (if has_order f then PublicOrderRestored else PublicOrderCreated)
       ''order'' (rf_order g) (rf_card g) (if has_order f then ''order_restore'' else ''first_claim'') ''accepted'' [] []) t2 = Inr (u3, t3)"
    and f4: "public_fact E flt 14 gid now (public_event E r (clk 3) PublicTokenIssued ''public_token'' i (rf_card g) ''token_issued''
       ''accepted'' [] []) t3 = Inr (u4, db')"
    and a: "a = replied 200 (access_cookie (clk 5) plain)
       (ConfirmationBody (preview_payload (clk 6) g False True) (if has_order f then ''restored'' else ''claimed''))" by blast
  have kept: "orders db' = orders t2" "public_tokens db' = public_tokens t2"
    using public_fact_Inr [OF f3] public_fact_Inr [OF f4] by auto
  from tok [unfolded x issue_token_Inr] obtain hash where "new_token (rt_digest E) raw = Some (plain, hash)"
    and "token_fits t1 (new_token_row (gid 8) now g ''customer_access'' hash)"
    and "t2 = t1\<lparr>public_tokens := public_tokens t1 @ [new_token_row (gid 8) now g ''customer_access'' hash]\<rparr>" by blast
  moreover from this(3) kept have "orders db' = orders t1"
    "public_tokens db' = public_tokens t1 @ [new_token_row (gid 8) now g ''customer_access'' hash]" by simp_all
  moreover have "pb_cookie a = Some (plain, clk 5 + 24 * hour)" by (simp add: a access_cookie_def)
  ultimately show ?thesis using one by blast
qed


section \<open>A published reclaim and the token issued to follow it\<close>

lemma unknown_token_status:
  "400 \<le> pb_status (fst (settle_reply (unknown_token E flt gid now clk r ty action hash) s))"
proof -
  obtain a s' where run: "settle_reply (unknown_token E flt gid now clk r ty action hash) s = (a, s')" by fastforce
  have "errs (unknown_token E flt gid now clk r ty action hash)" by (rule errs_unknown)
  with run have "400 \<le> pb_status a" unfolding settle_reply_Pair errs_def by (auto dest: unknown_token_denies)
  with run show ?thesis by simp
qed

lemma with_token_unknown:
  assumes "\<And>hash bs. hash_token (rt_digest E) (the (pq_access r)) = Some hash \<Longrightarrow> load hash now (db\<lparr>redeem_buckets := bs\<rparr>) = None"
  shows "400 \<le> pb_status (fst (with_token E flt gid now clk r load permit ty action mid work db))"
proof (cases "Option.bind (pq_access r) (hash_token (rt_digest E))")
  case None
  then show ?thesis by (auto simp: with_token_def bind_eq_None_conv split: option.split)
next
  case (Some hash)
  then obtain token where t: "pq_access r = Some token" "hash_token (rt_digest E) token = Some hash"
    by (auto simp: bind_eq_Some_conv)
  obtain ok db1 where c: "check_public (\<lambda>k. flt (100 + k)) (clk 0) (token_limits E r token) db = (ok, db1)" by fastforce
  with check_public_tokens obtain bs where "db1 = db\<lparr>redeem_buckets := bs\<rparr>" by blast
  with assms [of hash bs] t have "load hash now db1 = None" by simp
  with t c show ?thesis by (cases ok) (simp_all add: with_token_def unknown_token_status)
qed

lemma reclaim_revokes:
  assumes "finish_delivery_reclaim flt V gid now item attempt rt c p tier no_action gone db = (Inr (), db')"
    and "versions db' \<noteq> versions db"
  shows "public_tokens db' = update_where (\<lambda>t. pt_order t = rc_order rt \<and> pt_revoked_at t = None)
    (\<lambda>t. t\<lparr>pt_revoked_at := Some now, pt_reason := Some ''reclaim_published''\<rparr>) (public_tokens db)"
proof -
  from finish_reclaim_run [OF assms(1)] obtain db1 where
    run: "(if reclaim_success (va_unicode V) rt c p no_action
       then publish_reclaimed flt V gid now item attempt rt c p else tx_return ()) db = Inr ((), db1)"
    and rest: "same_published db1 db'" by blast
  with assms(2) have "publish_reclaimed flt V gid now item attempt rt c p db = Inr ((), db1)"
    by (auto simp: same_published_def tx_simps split: if_splits)
  from publish_reclaimed_run [OF this] rest show ?thesis by (simp add: same_published_def)
qed

text \<open>C33: The customer who asked for a reclaim never sees it succeed.  When a reclaim publishes, it
  revokes every token of the order, the status tokens included; a status request with a token that
  was issued for the order before is refused from then on, on every path.\<close>

theorem published_reclaim_is_unseen:
  assumes "finish_delivery_reclaim flt V gid now item attempt rt c p tier no_action gone db = (Inr (), db')"
    and "versions db' \<noteq> versions db" and "t \<in> set (public_tokens db)" and "pt_order t = rc_order rt"
    and "distinct (map pt_hash (public_tokens db))"
    and "pq_access r = Some token" and "hash_token (rt_digest E) token = Some (pt_hash t)" and "public_tokens s = public_tokens db'"
  shows "400 \<le> pb_status (fst (redeem_reclaim_status E flt' gid' now' clk r mid s))"
proof -
  note tokens = reclaim_revokes [OF assms(1,2)]
  have same: "map pt_hash (public_tokens db') = map pt_hash (public_tokens db)"
    unfolding tokens by (rule map_update_where) simp
  have "\<not> live_token now' ''reclaim_status'' (pt_hash t) u" if "u \<in> set (public_tokens db')" for u
  proof
    assume live: "live_token now' ''reclaim_status'' (pt_hash t) u"
    from that tokens obtain x where x: "x \<in> set (public_tokens db)"
      "u = (if pt_order x = rc_order rt \<and> pt_revoked_at x = None
        then x\<lparr>pt_revoked_at := Some now, pt_reason := Some ''reclaim_published''\<rparr> else x)"
      by (auto simp: in_update_where)
    with live have "pt_hash x = pt_hash t" by (auto simp: live_token_def split: if_splits)
    with x(1) assms(3,5) have "x = t" by (metis distinct_map inj_onD)
    with x(2) live assms(4) show False by (auto simp: live_token_def split: if_splits)
  qed
  then have "find (live_token now' ''reclaim_status'' (pt_hash t)) (public_tokens db') = None" by (simp add: find_None_iff)
  then have "reclaim_facts E (pt_hash t) now' (s\<lparr>redeem_buckets := bs\<rparr>) = None" for bs
    using assms(8) by (simp add: reclaim_facts_def facts_by_token_def)
  then show ?thesis
    unfolding redeem_reclaim_status_def using assms(6,7) by (intro with_token_unknown) simp
qed

section \<open>Examples\<close>

definition length_digest :: "string \<Rightarrow> string" where
  "length_digest s = replicate 31 (CHR ''d'') @ [byte (length s mod 256)]"

definition sample_tools :: redeem_tools where
  "sample_tools = \<lparr>rt_vault = sample_vault\<lparr>va_ring := Some \<lparr>kr_current = 1, kr_keys = (\<lambda>_. Some (replicate 32 (CHR ''k'')))\<rparr>\<rparr>,
     rt_digest = length_digest, rt_mac = (\<lambda>_ _. replicate 32 (CHR ''m'')), rt_split = (\<lambda>_. None), rt_is_ip = (\<lambda>_. False),
     rt_stamp = (\<lambda>_. ''T''), rt_uuid = (\<lambda>_. ''u1''), rt_planned = (\<lambda>_. 1000 * hour), rt_material = (\<lambda>_. Some ''complete''),
     rt_details = (\<lambda>_. ([], [], [], []))\<rparr>"

definition sample_secret :: string where
  "sample_secret = card_prefix @ b64_encode (replicate 20 (CHR ''s''))"

definition sample_card :: card_row where
  "sample_card = \<lparr>cd_id = ''c1'', cd_membership = ''m1'', cd_key_version = 1, cd_lookup = replicate 32 (CHR ''m''), cd_suffix = ''abcd'',
     cd_active = True, cd_deadline = 1000 * hour\<rparr>"

definition sample_version :: version_row where
  "sample_version = \<lparr>vs_id = ''v0'', vs_asset = ''a1'', vs_generation = 1, vs_payload = JStr ''x'', vs_hash = [], vs_subject = ''s'',
     vs_workspace = ''w1''\<rparr>"

definition sample_redeem :: redeem_db where
  "sample_redeem = delivery_db.extend (sample_delivery\<lparr>assets := [sample_asset\<lparr>as_status := ''ready'', as_delivery := Some ''v0''\<rparr>],
     versions := [sample_version], cards := [sample_card]\<rparr>) (redeem_db.fields [])"

definition sample_visitor :: "string option \<Rightarrow> public_request" where
  "sample_visitor token = auth_request.extend sample_request (public_request.fields [] token)"

lemma sample_secret_valid: "card_valid sample_secret"
  by (simp add: card_valid_def sample_secret_def has_prefix_def trim_prefix_def b64_decode_encode)

lemma sample_lookup: "lookup_hmac (rt_mac sample_tools) (va_ring (rt_vault sample_tools)) sample_secret = Some (1, replicate 32 (CHR ''m''))"
  by (simp add: lookup_hmac_def lookup_hmac_version_def lookup_key_def current_key_def sample_secret_valid sample_tools_def)

lemma length_digest_length [simp]: "length (length_digest s) = 32"
  by (simp add: length_digest_def)

lemma consume_fresh:
  assumes "limit_ok l" and "bucket_ok (fresh_bucket now l)" and "bucket_ok (counted (fresh_bucket now l))"
    and "bucket_at (limit_slot now l) db = None"
  shows "consume_limits (\<lambda>_. False) k now (l # ls) db
    = consume_limits (\<lambda>_. False) (k + 3) now ls (db\<lparr>buckets := buckets db @ [counted (fresh_bucket now l)]\<rparr>)"
proof -
  let ?b = "fresh_bucket now l" and ?s = "limit_slot now l"
  let ?db1 = "db\<lparr>buckets := buckets db @ [?b]\<rparr>"
  have none: "\<not> list_ex (\<lambda>x. slot_of x = ?s) (buckets db)" using assms(4) by (auto simp: bucket_at_def find_None_iff list_ex_iff)
  then have o: "open_bucket ?b db = Inr ((), ?db1)" using assms(2) by (simp add: open_bucket_def)
  have r: "bucket_at ?s ?db1 = Some ?b" unfolding bucket_at_def using none by (simp add: find_append_last)
  have "update_where (\<lambda>b. slot_of b = ?s) counted (buckets db) = buckets db"
    "filter (\<lambda>b. slot_of b = ?s) (buckets db) = []"
    using none by (auto simp: update_where_def list_ex_iff filter_empty_conv intro!: map_idI)
  then have u: "update_bucket ?s counted ?db1 = Inr ((), db\<lparr>buckets := buckets db @ [counted ?b]\<rparr>)"
    using assms(3) by (simp add: update_bucket_def update_where_def)
  have "bk_count ?b = 0" "0 < li_max l" using assms(1) by (simp_all add: fresh_bucket_def Let_def limit_ok_def)
  with assms(1) o r u show ?thesis by (simp add: tx_bind_def stmt_def select_row_def)
qed

lemma check_two:
  assumes "li_kind a < li_kind b" and "limit_ok a" and "limit_ok b" and "bucket_ok (fresh_bucket now a)" and "bucket_ok (fresh_bucket now b)"
    and "bucket_ok (counted (fresh_bucket now a))" and "bucket_ok (counted (fresh_bucket now b))" and "redeem_buckets db = []"
  shows "\<exists>bs. check_public (\<lambda>_. False) now [a, b] db = (True, db\<lparr>redeem_buckets := bs\<rparr>)"
proof -
  let ?l0 = "\<lparr>audit_events = audit_events db, buckets = []\<rparr>" and ?l1 = "\<lparr>audit_events = audit_events db, buckets = [counted (fresh_bucket now a)]\<rparr>"
  have sort: "sort_key (\<lambda>l. (li_kind l, li_hash l)) [a, b] = [a, b]" using assms(1) by simp
  have "bucket_at (limit_slot now a) ?l0 = None" by (simp add: bucket_at_def)
  note one = consume_fresh [OF assms(2,4,6) this]
  have "limit_slot now a \<noteq> limit_slot now b" using assms(1) by (auto simp: limit_slot_def)
  then have "bucket_at (limit_slot now b) ?l1 = None" by (simp add: bucket_at_def)
  note two = consume_fresh [OF assms(3,5,7) this]
  have "consume_limits (\<lambda>_. False) 1 now [a, b] ?l0
    = Inr (True, \<lparr>audit_events = audit_events db, buckets = [counted (fresh_bucket now a), counted (fresh_bucket now b)]\<rparr>)"
    unfolding one using two by (simp add: tx_return_def)
  then show ?thesis
    by (simp add: check_public_def check_limits_def assms(8) sort in_tx_def run_tx_def stmt_def tx_bind_def tx_return_def
        del: consume_limits.simps sort_key_simps One_nat_def) blast
qed

definition sample_ids :: "nat \<Rightarrow> string" where
  "sample_ids k = (if k = 5 then ''o1'' else if k = 8 then ''p1'' else ''e1'')"

definition sample_card_facts :: redeem_facts where
  "sample_card_facts = \<lparr>rf_card = ''c1'', rf_membership = ''m1'', rf_asset = ''a1'', rf_version = ''v0'', rf_order = [], rf_order_version = [],
     rf_suffix = ''abcd'', rf_card_active = True, rf_batch_status = ''serving'', rf_membership_state = ''active'', rf_asset_status = ''ready'',
     rf_material = ''complete'', rf_liveness = [], rf_deadline = 1000 * hour, rf_planned = 1000 * hour\<rparr>"

lemmas redeem_sample_defs = sample_redeem_def delivery_db.defs redeem_db.defs sample_card_def sample_version_def delivery_sample_defs

lemma sample_by_card:
  "facts_by_card sample_tools 1 (replicate 32 (CHR ''m'')) (sample_redeem\<lparr>redeem_buckets := bs\<rparr>) = Some sample_card_facts"
  by (simp add: facts_by_card_def facts_of_card_def card_order_def sample_card_facts_def sample_tools_def redeem_sample_defs)

lemma sample_open: "can_claim 10 sample_card_facts" "\<not> has_order sample_card_facts"
  by (simp_all add: can_claim_def has_order_def sample_card_facts_def time_defs)

lemma sample_checked:
  "\<exists>bs. check_public (\<lambda>_. False) 10 (card_limits sample_tools (sample_visitor None) sample_secret) sample_redeem
     = (True, sample_redeem\<lparr>redeem_buckets := bs\<rparr>)"
proof -
  have "subject_fingerprint (rt_digest sample_tools) x y = length_digest (''teamseatwatch:public-rate:v1'' @ [byte 0] @ x @ [byte 0] @ y)" for x y
    by (simp add: subject_fingerprint_def sample_tools_def)
  then have f: "length (subject_fingerprint (rt_digest sample_tools) x y) = 32" for x y by simp
  show ?thesis
    unfolding card_limits_def ip_subject_def
    by (rule check_two)
      (simp_all add: public_limit_def limit_ok_def bucket_ok_def fresh_bucket_def counted_def public_kinds_def f Let_def
        redeem_sample_defs time_defs)
qed

definition sample_order_event :: event where
  "sample_order_event = public_event sample_tools (sample_visitor None) 10 PublicOrderCreated ''order'' ''o1'' ''c1'' ''first_claim'' ''accepted'' [] []"

definition sample_token_event :: event where
  "sample_token_event = public_event sample_tools (sample_visitor None) 10 PublicTokenIssued ''public_token'' ''p1'' ''c1'' ''token_issued''
     ''accepted'' [] []"

lemma sample_public_events:
  "\<exists>q. validate sample_order_event = Inr q" "\<exists>q. validate sample_token_event = Inr q"
  "stable_key length_digest sample_order_event \<noteq> stable_key length_digest sample_token_event"
  by (simp_all add: sample_order_event_def sample_token_event_def public_event_def validate_def spec_of_def details_ok_def
      valid_public_action_def valid_public_result_def public_correlation_def correlation_of_def request_id_def or_default_def
      source_fingerprint_def source_ip_def sample_visitor_def sample_request_def auth_request.defs public_request.defs
      owner_security_scope_def byte_def sample_tools_def stable_key_def stable_preimage_def write_field_def be32_def length_digest_def Let_def)

lemma sample_token_of:
  "new_token (rt_digest sample_tools) (Some sample_raw) = Some (b64_encode sample_raw, length_digest sample_raw)"
  by (simp add: new_token_def sample_tools_def)

lemma sample_claimed:
  "\<exists>db'. confirm_redeem sample_tools (\<lambda>_. False) sample_ids 10 (\<lambda>_. 10) (Some sample_raw) (sample_visitor None) (Some sample_secret) id
       sample_redeem
     = (replied 200 (access_cookie 10 (b64_encode sample_raw)) (ConfirmationBody (preview_payload 10 (sample_card_facts\<lparr>rf_order := ''o1''\<rparr>)
          False True) ''claimed''), db')"
proof -
  obtain bs where check: "check_public (\<lambda>_. False) 10 (card_limits sample_tools (sample_visitor None) sample_secret) sample_redeem
     = (True, sample_redeem\<lparr>redeem_buckets := bs\<rparr>)" using sample_checked by blast
  let ?s = "sample_redeem\<lparr>redeem_buckets := bs\<rparr>" and ?f = sample_card_facts and ?g = "sample_card_facts\<lparr>rf_order := ''o1''\<rparr>"
  let ?d = "new_order ''o1'' 10 ?f" and ?t = "new_token_row ''p1'' 10 ?g ''customer_access'' (length_digest sample_raw)"
  let ?s1 = "?s\<lparr>orders := [?d]\<rparr>" and ?s2 = "?s\<lparr>orders := [?d], public_tokens := [?t]\<rparr>"
  have lock: "locked_facts sample_tools (\<lambda>_. False) 1 (replicate 32 (CHR ''m'')) ?f ?s = Inr (?f, ?s)"
    using sample_by_card [of bs] sample_open(2)
    by (simp add: locked_facts_def tx_bind_def tx_return_def stmt_def select_row_def)
      (simp add: sample_card_facts_def redeem_sample_defs)
  have claim: "claimed_facts sample_tools (\<lambda>_. False) sample_ids 10 ?f ?s = Inr (?g, ?s1)"
    by (simp add: claimed_facts_def tx_bind_def tx_return_def or_unavailable_def replying_def stmt_def create_order_def new_order_def
        find_order_id_def select_row_def order_fits_def sample_ids_def sample_card_facts_def redeem_sample_defs)
  have issue: "issue_token sample_tools (\<lambda>_. False) sample_ids 10 (Some sample_raw) ?g ''customer_access'' ?s1
    = Inr ((b64_encode sample_raw, ''p1''), ?s2)"
    by (simp add: issue_token_Inr sample_token_of sample_ids_def token_fits_def new_token_row_def new_order_def sample_card_facts_def
        redeem_sample_defs time_defs)
  obtain q1 q2 where q: "validate sample_order_event = Inr q1" "validate sample_token_event = Inr q2"
    using sample_public_events by blast
  obtain r1 where r1: "au_key r1 = stable_key length_digest sample_order_event"
    and one: "audit_fact length_digest (\<lambda>_. False) 12 (sample_ids 12) 10 sample_order_event ?s2 = Inr ((), ?s2\<lparr>audit_events := [r1]\<rparr>)"
    using audit_fact_next [OF q(1), of ?s2 length_digest 12 "sample_ids 12" 10] by (auto simp: redeem_sample_defs)
  obtain r2 where two: "audit_fact length_digest (\<lambda>_. False) 14 (sample_ids 14) 10 sample_token_event (?s2\<lparr>audit_events := [r1]\<rparr>)
      = Inr ((), ?s2\<lparr>audit_events := [r1, r2]\<rparr>)"
    using audit_fact_next [OF q(2), of "?s2\<lparr>audit_events := [r1]\<rparr>" length_digest 14 "sample_ids 14" 10] r1 sample_public_events(3) by auto
  have names: "rf_order ?g = ''o1''" "rf_card ?g = ''c1''" "rt_digest sample_tools = length_digest"
    by (simp_all add: sample_card_facts_def sample_tools_def)
  have accept: "accept_card sample_tools (\<lambda>_. False) sample_ids 10 (\<lambda>_. 10) (Some sample_raw) (sample_visitor None) ?f ?s
    = Inr (replied 200 (access_cookie 10 (b64_encode sample_raw)) (ConfirmationBody (preview_payload 10 ?g False True) ''claimed''),
        ?s2\<lparr>audit_events := [r1, r2]\<rparr>)"
    using one two
    by (simp add: accept_card_def sample_open(2) claim issue tx_bind_def names token_fact_def public_fact_def or_unavailable_def
        replying_def commit_reply_def stmt_def tx_return_def flip: sample_order_event_def sample_token_event_def)
  have "confirm_tx sample_tools (\<lambda>_. False) sample_ids 10 (\<lambda>_. 10) (Some sample_raw) (sample_visitor None) 1 (replicate 32 (CHR ''m'')) ?f ?s
    = Inr (replied 200 (access_cookie 10 (b64_encode sample_raw)) (ConfirmationBody (preview_payload 10 ?g False True) ''claimed''),
        ?s2\<lparr>audit_events := [r1, r2]\<rparr>)"
    using accept sample_open by (simp add: confirm_tx_def tx_bind_def replying_def lock del: One_nat_def)
  then show ?thesis
    using check sample_lookup sample_secret_valid sample_by_card [of bs]
    by (simp add: confirm_redeem_def with_card_def settle_reply_def run_tx_def del: One_nat_def)
qed


definition sample_served_order :: order_row where
  "sample_served_order = \<lparr>od_id = ''o1'', od_membership = ''m1'', od_asset = ''a1'', od_card = ''c1'', od_delivery = ''v0'',
     od_updated_at = 0, od_version = 1\<rparr>"

definition sample_served :: redeem_db where
  "sample_served = sample_redeem\<lparr>orders := [sample_served_order],
     public_tokens := [new_token_row ''p1'' 10 (sample_card_facts\<lparr>rf_order := ''o1''\<rparr>) ''customer_access'' (length_digest sample_raw)]\<rparr>"

lemma sample_served_facts:
  "download_facts sample_tools (length_digest sample_raw) 10 (sample_served\<lparr>redeem_buckets := bs\<rparr>)
     = Some (sample_card_facts\<lparr>rf_order := ''o1'', rf_order_version := ''v0''\<rparr>)"
  by (simp add: download_facts_def facts_by_token_def facts_of_card_def card_order_def live_token_def names_version_def has_order_def
      new_token_row_def sample_served_def sample_served_order_def sample_card_facts_def sample_tools_def redeem_sample_defs time_defs)

lemma sample_token_checked:
  "\<exists>bs. check_public (\<lambda>_. False) 10 (token_limits sample_tools r token) sample_served = (True, sample_served\<lparr>redeem_buckets := bs\<rparr>)"
proof -
  have d: "rt_digest sample_tools = length_digest" by (simp add: sample_tools_def)
  have "length (subject_fingerprint length_digest x y) = 32" for x y by (simp add: subject_fingerprint_def)
  moreover have "length (token_fingerprint length_digest x) = 32" for x
    by (auto simp: token_fingerprint_def hash_token_def split: option.split)
  ultimately show ?thesis
    unfolding token_limits_def ip_subject_def d
    by (intro check_two)
      (simp_all add: public_limit_def limit_ok_def bucket_ok_def fresh_bucket_def counted_def public_kinds_def Let_def
        sample_served_def redeem_sample_defs time_defs)
qed

definition sample_download_event :: event where
  "sample_download_event = public_event sample_tools (sample_visitor (Some (b64_encode sample_raw))) 10 PublicDownloadAuthorized
     ''public_token'' ''u1'' ''c1'' ''download_authorized'' ''accepted'' [] []"

lemma sample_download_valid: "\<exists>q. validate sample_download_event = Inr q"
  by (simp add: sample_download_event_def public_event_def validate_def spec_of_def details_ok_def
      valid_public_action_def valid_public_result_def public_correlation_def correlation_of_def request_id_def or_default_def
      source_fingerprint_def source_ip_def sample_visitor_def sample_request_def auth_request.defs public_request.defs
      owner_security_scope_def sample_tools_def Let_def)

lemma sample_downloaded:
  "\<exists>db'. download_delivery sample_tools (\<lambda>_. False) sample_ids 10 (\<lambda>_. 10) (sample_visitor (Some (b64_encode sample_raw))) id sample_served
     = (replied 200 None (DeliveryBody (JStr ''x'')), db')"
proof -
  let ?r = "sample_visitor (Some (b64_encode sample_raw))" and ?h = "length_digest sample_raw"
  let ?f = "sample_card_facts\<lparr>rf_order := ''o1'', rf_order_version := ''v0''\<rparr>"
  obtain bs where check: "check_public (\<lambda>_. False) 10 (token_limits sample_tools ?r (b64_encode sample_raw)) sample_served
     = (True, sample_served\<lparr>redeem_buckets := bs\<rparr>)" using sample_token_checked by blast
  let ?s = "sample_served\<lparr>redeem_buckets := bs\<rparr>"
  let ?s1 = "?s\<lparr>public_tokens := update_where (\<lambda>t. pt_hash t = ?h \<and> pt_revoked_at t = None \<and> 10 < pt_expires_at t)
    (\<lambda>t. t\<lparr>pt_used_at := Some 10\<rparr>) (public_tokens ?s)\<rparr>"
  have use: "update_token_use 10 ?h ?s = Inr ((), ?s1)"
    by (simp add: update_token_use_def Let_def sample_served_def new_token_row_def time_defs)
  obtain q where "validate sample_download_event = Inr q" using sample_download_valid by blast
  then obtain r1 where fact: "audit_fact length_digest (\<lambda>_. False) 18 (sample_ids 18) 10 sample_download_event ?s1
      = Inr ((), ?s1\<lparr>audit_events := [r1]\<rparr>)"
    using audit_fact_next [of sample_download_event q ?s1 length_digest 18 "sample_ids 18" 10]
    by (auto simp: sample_served_def redeem_sample_defs)
  have names: "rf_version ?f = ''v0''" "rf_asset ?f = ''a1''" "rf_card ?f = ''c1''" "rf_card_active ?f" "can_access ?f"
    "rt_digest sample_tools = length_digest" "rt_uuid sample_tools x = ''u1''" for x
    by (simp_all add: can_access_def served_def has_order_def sample_card_facts_def sample_tools_def)
  have stored: "find (\<lambda>v. vs_id v = ''v0'' \<and> vs_asset v = ''a1'') (versions ?s) = Some sample_version" "vs_payload sample_version = JStr ''x''"
    "find (\<lambda>c. cd_id c = ''c1'') (cards ?s) = Some sample_card"
    by (simp_all add: sample_served_def redeem_sample_defs)
  have work: "download_work sample_tools (\<lambda>_. False) sample_ids 10 (\<lambda>_. 10) ?r ?h ?f ?s
    = Inr (replied 200 None (DeliveryBody (JStr ''x'')), ?s1\<lparr>audit_events := [r1]\<rparr>)"
    using fact stored
    by (simp add: download_work_def names use tx_bind_def replying_def stmt_def select_row_def public_fact_def or_unavailable_def
        commit_reply_def tx_return_def flip: sample_download_event_def)
  have "token_tx sample_tools (\<lambda>_. False) sample_ids 10 (\<lambda>_. 10) ?r (download_facts sample_tools) can_access PublicDownloadDenied
      ''download_denied'' ?h (download_work sample_tools (\<lambda>_. False) sample_ids 10 (\<lambda>_. 10) ?r) ?f ?s
    = Inr (replied 200 None (DeliveryBody (JStr ''x'')), ?s1\<lparr>audit_events := [r1]\<rparr>)"
    using work stored sample_served_facts [of bs]
    by (simp add: token_tx_def names tx_bind_def replying_def stmt_def tx_read_def)
  moreover have "hash_token length_digest (b64_encode sample_raw) = Some ?h"
    by (simp add: hash_token_def b64_decode_encode sample_raw_def)
  moreover have "pq_access ?r = Some (b64_encode sample_raw)"
    by (simp add: sample_visitor_def auth_request.defs public_request.defs)
  ultimately show ?thesis
    using check sample_served_facts [of bs]
    by (simp add: download_delivery_def with_token_def settle_reply_def run_tx_def names)
qed


theorem published_reclaim_is_unseen_witness:
  "\<exists>db'. finish_delivery_reclaim (\<lambda>_. False) sample_vault (\<lambda>_. ''v1'') 20 sample_delivery_item sample_attempt
       sample_reclaim_target sample_credentials sample_alive ''token_refresh'' False False sample_reclaim = (Inr (), db')
     \<and> 400 \<le> pb_status (fst (redeem_reclaim_status (sample_tools\<lparr>rt_digest := \<lambda>_. ''h''\<rparr>) (\<lambda>_. False) sample_ids 30 (\<lambda>_. 30)
         (sample_visitor (Some (b64_encode sample_raw))) id (sample_redeem\<lparr>public_tokens := public_tokens db'\<rparr>)))"
proof -
  obtain db' where run: "finish_delivery_reclaim (\<lambda>_. False) sample_vault (\<lambda>_. ''v1'') 20 sample_delivery_item sample_attempt
       sample_reclaim_target sample_credentials sample_alive ''token_refresh'' False False sample_reclaim = (Inr (), db')"
    and new: "versions db' \<noteq> versions sample_reclaim" using sample_reclaimed by blast
  have "400 \<le> pb_status (fst (redeem_reclaim_status (sample_tools\<lparr>rt_digest := \<lambda>_. ''h''\<rparr>) (\<lambda>_. False) sample_ids 30 (\<lambda>_. 30)
         (sample_visitor (Some (b64_encode sample_raw))) id (sample_redeem\<lparr>public_tokens := public_tokens db'\<rparr>)))"
    by (rule published_reclaim_is_unseen [OF run new, where t = sample_token and token = "b64_encode sample_raw"])
      (simp_all add: sample_reclaim_def sample_token_def sample_reclaim_target_def reclaim_target.defs delivery_target.defs
        sample_visitor_def auth_request.defs public_request.defs hash_token_def b64_decode_encode sample_raw_def)
  with run show ?thesis by blast
qed

end
