(* ===== verification/TaskDispatch.thy ===== *)
theory TaskDispatch
  imports DeliveryWorker
begin

text \<open>
  Package internal/task, file worker.go: RunOnce, one turn of the worker.  A turn looks at the
  recovery gate, recovers what expired, cleans up every five seconds, advances the personal
  probes and then claims and runs one network task.  \<open>prev\<close> is the time of the last cleanup;
  a turn returns it with the answer of RunOnce.  \<open>di_gate\<close> is the row of the recovery gate,
  \<open>di_acquire\<close> the egress provider, \<open>di_personal\<close> a slice of the personal probes, \<open>di_retention\<close> and
  \<open>di_expired\<close> the deletions of the two cleanups.
\<close>

record 'z dispatch =
  di_gate :: "nat \<Rightarrow> string option"
  di_router :: router
  di_acquire :: "nat \<Rightarrow> (lease_error, lease) result"
  di_personal :: "nat \<Rightarrow> bool \<times> store_error option"
  di_retention :: "string \<Rightarrow> (store_error, 'z store_db_scheme, unit) tx"
  di_expired :: "string \<Rightarrow> (store_error, 'z store_db_scheme, unit) tx"

type_synonym turn = "(bool \<times> worker_error option) \<times> instant"

definition ask :: "(nat \<Rightarrow> 'a) \<Rightarrow> ('z, 'a) prog" where
  "ask f = (\<lambda>w. (Inr (f (wd_step w)), w\<lparr>wd_step := Suc (wd_step w)\<rparr>))"

definition ends_with :: "bool \<Rightarrow> worker_error option \<Rightarrow> instant \<Rightarrow> ('z, turn) prog" where
  "ends_with worked e prev = p_return ((worked, e), prev)"

section \<open>Recovery\<close>

text \<open>A recovery whose commit fails answers true together with the error.\<close>

definition recovering ::
  "'z env \<Rightarrow> (nat \<Rightarrow> faults \<Rightarrow> 'z store_db_scheme \<Rightarrow> (store_error, bool) result \<times> 'z store_db_scheme)
     \<Rightarrow> instant \<Rightarrow> ('z, turn) prog \<Rightarrow> ('z, turn) prog" where
  "recovering N call prev rest =
     p_bind (store_call N (\<lambda>k db.
       case call k (en_flt N k) db of
         (Inr b, db') \<Rightarrow> (Inr (b, None), db')
       | (Inl e, db') \<Rightarrow> (Inr (fst (call k ((en_flt N k)(30 := False)) db) = Inr True, Some e), db'))) (\<lambda>(recovered, e).
     if e \<noteq> None \<or> recovered then ends_with recovered (map_option StoreError e) prev else rest)"

definition recover_first :: "'z env \<Rightarrow> instant \<Rightarrow> ('z, turn) prog \<Rightarrow> ('z, turn) prog" where
  "recover_first N prev rest =
     recovering N (\<lambda>k flt. recover_expired_join (en_hash N) flt (en_locked N k) (en_gid N k) (en_now N k)) prev
    (recovering N (\<lambda>k flt. recover_expired_removal (en_hash N) flt (en_locked N k) (en_gid N k) (en_now N k) (en_clock N k)) prev
    (recovering N (\<lambda>k flt. settle_exhausted (en_hash N) flt (en_locked N k) (en_gid N k) (en_now N k) (en_clock N k)) prev rest))"

section \<open>Cleanups\<close>

definition cleanup_due :: "instant \<Rightarrow> instant \<Rightarrow> bool" where
  "cleanup_due prev clock \<longleftrightarrow> is_zero_time prev \<or> 5 * second \<le> clock - prev"

definition failure_of :: "(worker_error, 'a) result \<Rightarrow> worker_error option" where
  "failure_of r = (case r of Inl e \<Rightarrow> Some e | Inr _ \<Rightarrow> None)"

definition retention_turn :: "'z env \<Rightarrow> 'z dispatch \<Rightarrow> task_item \<Rightarrow> ('z, turn) prog" where
  "retention_turn N D item =
     p_try (store_call N (\<lambda>k. complete_retention_cleanup (en_hash N) (en_flt N k) (en_gid N k 0) (en_now N k) item
       (di_retention D (it_dedupe item)))) (\<lambda>r.
     p_bind (worker_clock N) (\<lambda>clock. ends_with True (failure_of r) clock))"

definition expired_turn :: "'z env \<Rightarrow> 'z dispatch \<Rightarrow> task_item \<Rightarrow> instant \<Rightarrow> ('z, turn) prog" where
  "expired_turn N D item prev =
     p_try (store_call N (\<lambda>k. complete_cleanup (en_hash N) (en_flt N k) (en_gid N k 0) (en_now N k) item (di_expired D))) (\<lambda>r.
     p_bind (if failure_of r = None then p_return () else note_interruption N item ''cleanup_fenced'' ''retention_cleanup'') (\<lambda>_.
     ends_with True (failure_of r) prev))"

definition cleaning :: "'z env \<Rightarrow> 'z dispatch \<Rightarrow> (instant \<Rightarrow> ('z, turn) prog) \<Rightarrow> instant \<Rightarrow> ('z, turn) prog" where
  "cleaning N D rest prev =
     p_try (store_call N (\<lambda>k. claim_retention_cleanup (en_hash N) (en_flt N k) (en_locked N k) (en_token N k) (en_gid N k 0)
       (en_now N k) (en_id N) (lease_duration N))) (\<lambda>retention.
     case retention of
       Inr item \<Rightarrow> retention_turn N D item
     | Inl e \<Rightarrow>
        if e \<noteq> StoreError ErrNoRows then ends_with False (Some e) prev
        else
          p_try (store_call N (\<lambda>k. claim_cleanup (en_hash N) (en_flt N k) (en_locked N k) (en_token N k) (en_gid N k 0)
            (en_now N k) (en_id N) (lease_duration N))) (\<lambda>cleanup.
          p_bind (worker_clock N) (\<lambda>clock.
          case cleanup of
            Inr item \<Rightarrow> expired_turn N D item clock
          | Inl e \<Rightarrow> if e \<noteq> StoreError ErrNoRows then ends_with False (Some e) clock else rest clock)))"

section \<open>The network task\<close>

text \<open>At most ten slices of the personal probes.\<close>

fun personal_slices :: "'z dispatch \<Rightarrow> nat \<Rightarrow> bool \<Rightarrow> ('z, bool \<times> store_error option) prog" where
  "personal_slices D 0 processed = p_return (processed, None)"
| "personal_slices D (Suc n) processed =
     p_bind (ask (di_personal D)) (\<lambda>(more, e).
     if e \<noteq> None then p_return (processed \<or> more, e)
     else if \<not> more then p_return (processed, None) else personal_slices D n True)"

definition route_of :: "router \<Rightarrow> lease \<Rightarrow> attempt_route" where
  "route_of R l =
    (if le_mode l = ModeRequired then
       \<lparr>rt_mode = ''required'', rt_scheme = Some (case le_candidate l of None \<Rightarrow> [] | Some c \<Rightarrow> ca_scheme c),
        rt_key_version = Some (key_version R l), rt_fingerprint = le_fp l, rt_verified_at = Some (le_verified_at l),
        rt_stage = Some ''remeasured''\<rparr>
     else direct_route)"

definition claim_network ::
  "(string \<Rightarrow> string) \<Rightarrow> faults \<Rightarrow> (string \<Rightarrow> bool) \<Rightarrow> uuid \<Rightarrow> string \<Rightarrow> instant \<Rightarrow> string \<Rightarrow> duration \<Rightarrow> task_type
     \<Rightarrow> attempt_route \<Rightarrow> 'z store_db_scheme \<Rightarrow> (store_error, task_item) result \<times> 'z store_db_scheme" where
  "claim_network H flt lk tok gid now worker dur ty route =
    (if ty = TargetAccountProbe then claim H flt lk tok gid now worker dur TargetAccountProbe route
     else if ty = Join then claim_join H flt lk tok gid now worker dur route
     else if ty = JoinReconcile then claim_join_reconcile H flt lk tok gid now worker dur route
     else if ty = Remove then claim_removal H flt lk tok gid now worker dur route
     else if ty = RemoveReconcile then claim_removal_reconciliation H flt lk tok gid now worker dur route
     else if ty = OAuthGenerate \<or> ty = OAuthProbe \<or> ty = OAuthReclaim
     then claim_delivery H flt lk tok gid now worker dur ty route
     else claim H flt lk tok gid now worker dur WorkspaceRead route)"

definition run_item ::
  "('y delivery_db_ext) env \<Rightarrow> delivery_tools \<Rightarrow> task_item \<Rightarrow> ('y delivery_db_ext, unit) prog" where
  "run_item N X item =
    (case it_type item of
       TargetAccountProbe \<Rightarrow> run_target_probe N item
     | Join \<Rightarrow> run_join N item
     | JoinReconcile \<Rightarrow> run_join_reconcile N item
     | Remove \<Rightarrow> run_removal N item
     | RemoveReconcile \<Rightarrow> run_removal N item
     | OAuthGenerate \<Rightarrow> run_delivery_generation N X item
     | OAuthProbe \<Rightarrow> run_delivery_probe N X item
     | OAuthReclaim \<Rightarrow> run_delivery_reclaim N X item
     | _ \<Rightarrow> run_workspace_read N item)"

definition run_leased ::
  "('y delivery_db_ext) env \<Rightarrow> delivery_tools \<Rightarrow> task_type \<Rightarrow> attempt_route
     \<Rightarrow> ('y delivery_db_ext, bool \<times> worker_error option) prog" where
  "run_leased N X ty route =
     p_try (store_call N (\<lambda>k. claim_network (en_hash N) (en_flt N k) (en_locked N k) (en_token N k) (en_gid N k 0)
       (en_now N k) (en_id N) (lease_duration N) ty route)) (\<lambda>claimed.
     case claimed of
       Inr item \<Rightarrow> handled (run_item N X item)
     | Inl e \<Rightarrow> not_handled (if e = StoreError ErrNoRows then None else Some e))"

definition network_turn ::
  "('y delivery_db_ext) env \<Rightarrow> delivery_tools \<Rightarrow> ('y delivery_db_ext) dispatch \<Rightarrow> instant
     \<Rightarrow> ('y delivery_db_ext, turn) prog" where
  "network_turn N X D prev =
     p_bind (personal_slices D 10 False) (\<lambda>(processed, e).
     if e \<noteq> None then ends_with processed (map_option StoreError e) prev
     else
       p_try (store_read N (\<lambda>k. next_network_task_type (en_flt N k) (en_now N k))) (\<lambda>next_type.
       case next_type of
         Inl e \<Rightarrow> if e = StoreError ErrNoRows then ends_with processed None prev else ends_with False (Some e) prev
       | Inr ty \<Rightarrow>
          p_bind (ask (di_acquire D)) (\<lambda>l.
          p_bind (case l of Inl err \<Rightarrow> reject_for_egress N ty err | Inr l \<Rightarrow> run_leased N X ty (route_of (di_router D) l)) (\<lambda>answer.
          p_return (answer, prev)))))"

section \<open>One turn\<close>

definition run_once ::
  "('y delivery_db_ext) env \<Rightarrow> delivery_tools \<Rightarrow> ('y delivery_db_ext) dispatch \<Rightarrow> instant
     \<Rightarrow> ('y delivery_db_ext, turn) prog" where
  "run_once N X D prev =
     p_try (store_read N (\<lambda>k _. recovery_open (en_flt N k) (di_gate D k))) (\<lambda>gate.
     case gate of
       Inl e \<Rightarrow> ends_with False (Some e) prev
     | Inr False \<Rightarrow> ends_with False None prev
     | Inr True \<Rightarrow>
        recover_first N prev
          (p_bind (worker_clock N) (\<lambda>clock.
           if cleanup_due prev clock then cleaning N D (network_turn N X D) prev
           else network_turn N X D prev)))"

end
