(* ===== verification/DispatchLaws.thy ===== *)
theory DispatchLaws
  imports TaskDispatch ReclaimLaws
begin

text \<open>
  What a turn of the worker guarantees: a request reaches the platform only for a task whose claim
  was committed in the same turn, and a waiting retention cleanup stops every turn before that.
\<close>

section \<open>A waiting cleanup survives recovery\<close>

definition kept_row :: "task_row \<Rightarrow> 'z store_db_scheme \<Rightarrow> 'z store_db_scheme \<Rightarrow> bool" where
  "kept_row t db db' \<longleftrightarrow> (t \<in> set (tasks db) \<longrightarrow> t \<in> set (tasks db'))"

interpretation row_kept: transition_order "kept_row t" for t
  by unfold_locales (auto simp: kept_row_def)

lemma update_where_keeps: "x \<in> set xs \<Longrightarrow> \<not> P x \<Longrightarrow> x \<in> set (update_where P f xs)"
  by (force simp: update_where_def)

lemma row_same_tasks: "tasks db' = tasks db \<Longrightarrow> kept_row t db db'"
  by (simp add: kept_row_def)

lemma row_statement:
  "keeps (kept_row t) (exec_targets P f)" "keeps (kept_row t) (exec_operations Q g)"
  "keeps (kept_row t) (exec_assets Q' g')"
  "keeps (kept_row t) (exactly_one n (\<lambda>db. db\<lparr>credentials := c db\<rparr>) e)"
  "tk_id t \<noteq> i \<Longrightarrow> keeps (kept_row t) (exec_tasks (\<lambda>_ u. tk_id u = i) h)"
  "tk_status t \<noteq> Running \<Longrightarrow> keeps (kept_row t) (update_one (\<lambda>u. tk_id u = j \<and> tk_status u = Running \<and> R u) h)"
  by (auto simp: keeps_def tx_simps exec_assets_def update_one_def exactly_one_def kept_row_def intro: update_where_keeps split: if_splits)

lemma row_upsert: "tk_type t \<noteq> tk_type row \<Longrightarrow> keeps (kept_row t) (upsert_task row)"
  unfolding keeps_def upsert_task_def kept_row_def same_key_row
  by (auto split: if_splits option.splits intro: update_where_keeps)

lemma row_call:
  "keeps (kept_row t) (audit_fact H flt k gid now ev)"
  "keeps (kept_row t) (settle_join_aggregate flt k now i b)"
  "\<not> delivery_type (tk_type t) \<Longrightarrow> keeps (kept_row t) (settle_removal_aggregate flt k now i b)"
  by (auto simp: keeps_def kept_row_def dest!: audit_fact_Inr settle_join_frame settle_removal_frame intro!: update_where_keeps)

lemmas row_intros =
  row_kept.keeps_bind row_kept.keeps_return row_kept.keeps_stmt row_kept.keeps_seq_Nil row_kept.keeps_seq_Cons
  row_statement row_upsert row_call

lemma kept_after_read:
  assumes "t \<in> set (tasks db)" and k: "keeps (kept_row t) (g (f db))"
  shows "t \<in> set (tasks (snd (in_tx flt c (tx_bind (stmt flt k (\<lambda>db. Inr (f db, db))) g) db)))"
proof (rule in_tx_cases [of flt c "tx_bind (stmt flt k (\<lambda>db. Inr (f db, db))) g" db], goal_cases)
  case (1 e)
  then show ?case using assms(1) by simp
next
  case (2 x s)
  then have "g (f db) db = Inr (x, s)" by (simp add: tx_bind_Inr stmt_Inr)
  then have "kept_row t db s" using k unfolding keeps_def by metis
  then show ?case using 2(1) assms(1) by (simp add: kept_row_def)
qed

lemma kept_joined: "list_all (keeps (kept_row t)) ms \<Longrightarrow> keeps (kept_row t) (tx_seq ms)"
  by (induction ms) (auto intro: row_kept.keeps_seq_Nil row_kept.keeps_seq_Cons simp del: tx_seq.simps)

lemma other_id:
  assumes "queue_ok db" and "t \<in> set (tasks db)" and "tk_status t \<noteq> Running" and "u \<in> set (tasks db)" and "tk_status u = Running"
  shows "tk_id t \<noteq> tk_id u"
proof
  assume "tk_id t = tk_id u"
  moreover have "inj_on tk_id (set (tasks db))" using assms(1) by (simp add: queue_ok_def tasks_ok_def distinct_map)
  ultimately have "t = u" using assms(2,4) by (simp add: inj_on_eq_iff)
  then show False using assms(3,5) by simp
qed

lemma recovery_keeps_waiting:
  assumes ok: "queue_ok db" and t: "t \<in> set (tasks db)" and ty: "tk_type t = RetentionCleanup" and st: "tk_status t \<noteq> Running"
  shows "t \<in> set (tasks (snd (recover_expired_join H flt lk gid now db)))"
    and "t \<in> set (tasks (snd (recover_expired_removal H flt lk gid now clock db)))"
    and "t \<in> set (tasks (snd (settle_exhausted H flt lk gid now clock db)))"
proof -
  have nd: "\<not> delivery_type (tk_type t)" by (simp add: ty delivery_type_def)
  have lost: "tk_id t \<noteq> tk_id u" if "first_lost now lk ty' db = Some (u, r, o')" for u r o' ty'
    using other_id [OF ok t st first_lost_Some(1,2) [OF that]] .
  show "t \<in> set (tasks (snd (recover_expired_join H flt lk gid now db)))"
    unfolding recover_expired_join_def
  proof (rule kept_after_read [OF t], cases "first_lost now lk Join db", goal_cases)
    case (2 p)
    then obtain u r o' where f: "first_lost now lk Join db = Some (u, r, o')" by (cases p) auto
    show ?case
      unfolding f option.case prod.case Let_def
      by (intro row_kept.keeps_bind row_kept.keeps_return kept_joined)
         (auto simp: returned_item_def ty lost [OF f] simp del: tx_seq.simps intro!: row_intros)
  qed (simp add: row_kept.keeps_return)
  show "t \<in> set (tasks (snd (recover_expired_removal H flt lk gid now clock db)))"
    unfolding recover_expired_removal_def
  proof (rule kept_after_read [OF t], cases "first_lost now lk Remove db", goal_cases)
    case (2 p)
    then obtain u r o' where f: "first_lost now lk Remove db = Some (u, r, o')" by (cases p) auto
    show ?case
      unfolding f option.case prod.case Let_def
      by (intro row_kept.keeps_bind row_kept.keeps_return kept_joined)
         (auto simp: returned_item_def nd lost [OF f] simp del: tx_seq.simps intro!: row_intros)
  qed (simp add: row_kept.keeps_return)
  show "t \<in> set (tasks (snd (settle_exhausted H flt lk gid now clock db)))"
    unfolding settle_exhausted_def
  proof (rule kept_after_read [OF t], cases "first_by lease_order (filter (exhausted_attempt now lk) (tasks db))", goal_cases)
    case (2 u)
    then have "u \<in> set (tasks db)" "tk_status u = Running"
      using first_by_Some [OF 2] by (auto simp: exhausted_attempt_def)
    then have i: "tk_id t \<noteq> tk_id u" by (rule other_id [OF ok t st])
    show ?case
      unfolding 2 option.case option.map prod.case Let_def
      by (intro row_kept.keeps_bind row_kept.keeps_return kept_joined)
         (auto simp: returned_item_def nd i st exhausted_reclaim_def exhausted_join_def exhausted_removal_def
           exhausted_probe_def row_same_tasks intro!: row_intros keeps_stmt_read split: option.splits)
  qed (simp add: row_kept.keeps_return)
qed

section \<open>A waiting cleanup stops the worker\<close>

definition waiting_cleanup :: "instant \<Rightarrow> task_row \<Rightarrow> bool" where
  "waiting_cleanup T t \<longleftrightarrow> tk_type t = RetentionCleanup \<and> (tk_status t = Queued \<or> tk_status t = RetryWait)
     \<and> tk_available_at t \<le> T \<and> tk_attempts t < tk_max_attempts t"

definition cleanup_waits :: "instant \<Rightarrow> 'z store_db_scheme \<Rightarrow> bool" where
  "cleanup_waits T db \<longleftrightarrow> queue_ok db \<and> list_ex (waiting_cleanup T) (tasks db)"

lemma recovery_keeps_cleanup:
  assumes "cleanup_waits T db"
  shows "cleanup_waits T (snd (recover_expired_join H flt lk gid now db))"
    and "cleanup_waits T (snd (recover_expired_removal H flt lk gid now clock db))"
    and "cleanup_waits T (snd (settle_exhausted H flt lk gid now clock db))"
proof -
  obtain t where ok: "queue_ok db" and t: "t \<in> set (tasks db)" and w: "waiting_cleanup T t"
    using assms by (auto simp: cleanup_waits_def list_ex_iff)
  have st: "tk_type t = RetentionCleanup" "tk_status t \<noteq> Running" using w by (auto simp: waiting_cleanup_def)
  have safe: "queue_ok s" if "safe db s" for s using that ok by (simp add: safe_def)
  have again: "cleanup_waits T s" if "safe db s" and "t \<in> set (tasks s)" for s
    using safe [OF that(1)] that(2) w unfolding cleanup_waits_def list_ex_iff by blast
  show "cleanup_waits T (snd (recover_expired_join H flt lk gid now db))"
    by (rule again [OF recover_expired_join_safe recovery_keeps_waiting(1) [OF ok t st]])
  show "cleanup_waits T (snd (recover_expired_removal H flt lk gid now clock db))"
    by (rule again [OF recover_expired_removal_safe recovery_keeps_waiting(2) [OF ok t st]])
  show "cleanup_waits T (snd (settle_exhausted H flt lk gid now clock db))"
    by (rule again [OF settle_exhausted_safe recovery_keeps_waiting(3) [OF ok t st]])
qed

lemma retention_claim_stops:
  assumes "cleanup_waits T db" and "T \<le> now" and lk: "\<And>i. \<not> lk i"
  shows "\<exists>e. claim_retention_cleanup H flt lk tok gid now w dur db = (Inl e, db) \<and> e \<noteq> ErrNoRows"
proof -
  obtain t where ok: "tasks_ok db" and t: "t \<in> set (tasks db)" and wt: "waiting_cleanup T t"
    using assms(1) by (auto simp: cleanup_waits_def list_ex_iff queue_ok_def)
  have "candidate db now lk RetentionCleanup t"
    using wt assms(2) lk by (auto simp: candidate_def waiting_cleanup_def runnable_def mutation_in_doubt_def)
  then have "filter (candidate db now lk RetentionCleanup) (tasks db) \<noteq> []" using t by (auto simp: filter_empty_conv)
  then have "first_by claim_order (filter (candidate db now lk RetentionCleanup) (tasks db)) \<noteq> None"
    by (simp add: first_by_None)
  then obtain item db1 where l: "take_lease lk tok w dur now RetentionCleanup db = Inr (item, db1)"
    unfolding take_lease_def by (cases "first_by claim_order (filter (candidate db now lk RetentionCleanup) (tasks db))") auto
  obtain e where e: "claim H flt lk tok gid now w dur RetentionCleanup direct_route db = (Inl e, db)"
    using retention_claim_fails [OF ok] by blast
  have "e \<noteq> ErrNoRows"
  proof
    assume "e = ErrNoRows"
    with e have "claim H flt lk tok gid now w dur RetentionCleanup direct_route db = (Inl ErrNoRows, db)" by simp
    then show False
      unfolding claim_def in_tx_def run_tx_def stmt_def tx_bind_def l insert_attempt_def write_audit_def lift_audit_def
      by (auto simp: l tx_return_def Let_def split: if_splits sum.splits prod.splits)
  qed
  with e show ?thesis unfolding claim_retention_cleanup_def by blast
qed

definition stuck :: "instant \<Rightarrow> instant \<Rightarrow> ('z, turn) prog \<Rightarrow> bool" where
  "stuck T prev m \<longleftrightarrow> (\<forall>w. cleanup_waits T (wd_db w) \<longrightarrow>
     (\<exists>worked e w'. m w = (Inr ((worked, e), prev), w') \<and> cleanup_waits T (wd_db w') \<and> wd_log w' = wd_log w))"

lemma stuck_ends: "stuck T prev (ends_with b e prev)"
  by (simp add: stuck_def ends_with_def p_return_def)

lemma stuck_recovering:
  assumes others: "\<And>k db. cleanup_waits T db \<Longrightarrow> cleanup_waits T (en_other N k db)"
    and call: "\<And>k flt db. cleanup_waits T db \<Longrightarrow> cleanup_waits T (snd (call k flt db))"
    and rest: "stuck T prev rest"
  shows "stuck T prev (recovering N call prev rest)"
  unfolding stuck_def
proof (intro allI impI)
  fix w :: "'a world" assume "cleanup_waits T (wd_db w)"
  then have o: "cleanup_waits T (en_other N (wd_step w) (wd_db w))" by (rule others)
  let ?k = "wd_step w"
  obtain r db' where c: "call ?k (en_flt N ?k) (en_other N ?k (wd_db w)) = (r, db')" by fastforce
  have d: "cleanup_waits T db'" using call [OF o, of ?k "en_flt N ?k"] by (simp add: c)
  let ?w = "w\<lparr>wd_db := db', wd_step := Suc ?k\<rparr>"
  have "\<exists>b e. recovering N call prev rest w
      = (if e \<noteq> None \<or> b then ends_with b (map_option StoreError e) prev else rest) ?w"
  proof (cases r)
    case (Inl e)
    then show ?thesis
      by (intro exI [of _ "fst (call ?k ((en_flt N ?k)(30 := False)) (en_other N ?k (wd_db w))) = Inr True"] exI [of _ "Some e"])
         (simp add: recovering_def p_bind_def p_try_def store_call_def c Let_def)
  next
    case (Inr b)
    then show ?thesis
      by (intro exI [of _ b] exI [of _ None]) (simp add: recovering_def p_bind_def p_try_def store_call_def c Let_def)
  qed
  then obtain b e where run: "recovering N call prev rest w
      = (if e \<noteq> None \<or> b then ends_with b (map_option StoreError e) prev else rest) ?w" by blast
  have "stuck T prev (if e \<noteq> None \<or> b then ends_with b (map_option StoreError e) prev else rest)"
    by (cases "e \<noteq> None \<or> b") (simp_all add: rest stuck_ends)
  then show "\<exists>worked e w'. recovering N call prev rest w = (Inr ((worked, e), prev), w')
      \<and> cleanup_waits T (wd_db w') \<and> wd_log w' = wd_log w"
    unfolding run stuck_def using d by (auto dest!: spec [of _ ?w])
qed

lemma stuck_try:
  assumes others: "\<And>k db. cleanup_waits T db \<Longrightarrow> cleanup_waits T (en_other N k db)"
    and call: "\<And>k db. cleanup_waits T db \<Longrightarrow> \<exists>r. f k db = (r, db) \<and> stuck T prev (g (map_sum StoreError id r))"
  shows "stuck T prev (p_try (store_call N f) g)"
  unfolding stuck_def
proof (intro allI impI)
  fix w :: "'a world" assume "cleanup_waits T (wd_db w)"
  then have o: "cleanup_waits T (en_other N (wd_step w) (wd_db w))" by (rule others)
  obtain r where r: "f (wd_step w) (en_other N (wd_step w) (wd_db w)) = (r, en_other N (wd_step w) (wd_db w))"
    and s: "stuck T prev (g (map_sum StoreError id r))" using call [OF o] by blast
  let ?w = "w\<lparr>wd_db := en_other N (wd_step w) (wd_db w), wd_step := Suc (wd_step w)\<rparr>"
  have run: "p_try (store_call N f) g w = g (map_sum StoreError id r) ?w"
    by (simp add: p_try_def store_call_def r Let_def)
  show "\<exists>worked e w'. p_try (store_call N f) g w = (Inr ((worked, e), prev), w')
      \<and> cleanup_waits T (wd_db w') \<and> wd_log w' = wd_log w"
    unfolding run using s [unfolded stuck_def] o by (auto dest!: spec [of _ ?w])
qed

lemma stuck_clock: "(\<And>k. stuck T prev (g (en_clock N k))) \<Longrightarrow> stuck T prev (p_bind (worker_clock N) g)"
  by (simp add: stuck_def p_bind_def p_try_def worker_clock_def)

lemma stuck_cleaning:
  assumes others: "\<And>k db. cleanup_waits T db \<Longrightarrow> cleanup_waits T (en_other N k db)"
    and late: "\<And>k. T \<le> en_now N k" and free: "\<And>k i. \<not> en_locked N k i"
  shows "stuck T prev (cleaning N D rest prev)"
  unfolding cleaning_def
proof (rule stuck_try [OF others], goal_cases)
  case (2 k db)
  obtain e where e: "claim_retention_cleanup (en_hash N) (en_flt N k) (en_locked N k) (en_token N k) (en_gid N k 0) (en_now N k)
      (en_id N) (lease_duration N) db = (Inl e, db)" "e \<noteq> ErrNoRows"
    using retention_claim_stops [OF 2 late [of k], of "en_locked N k"] free by blast
  then show ?case by (intro exI [of _ "Inl e"]) (simp add: stuck_ends)
qed

lemma stuck_once:
  assumes others: "\<And>k db. cleanup_waits T db \<Longrightarrow> cleanup_waits T (en_other N k db)"
    and late: "\<And>k. T \<le> en_now N k" and free: "\<And>k i. \<not> en_locked N k i"
    and due: "\<And>k. cleanup_due prev (en_clock N k)"
  shows "stuck T prev (run_once N X D prev)"
proof -
  have clean: "stuck T prev (p_bind (worker_clock N) (\<lambda>clock.
      if cleanup_due prev clock then cleaning N D (network_turn N X D) prev else network_turn N X D prev))"
    by (rule stuck_clock) (simp add: due stuck_cleaning [OF others late free])
  show ?thesis
    unfolding run_once_def recover_first_def store_read_def
    by (rule stuck_try [OF others], assumption, intro exI conjI, rule refl)
       (auto simp: stuck_ends split: sum.split bool.split intro!: stuck_recovering others recovery_keeps_cleanup clean)
qed

text \<open>Any number of turns; a turn that has no answer keeps the time of the last cleanup.\<close>

primrec turns ::
  "('y delivery_db_ext) env \<Rightarrow> delivery_tools \<Rightarrow> ('y delivery_db_ext) dispatch \<Rightarrow> nat
     \<Rightarrow> instant \<times> ('y delivery_db_ext) world \<Rightarrow> instant \<times> ('y delivery_db_ext) world" where
  "turns N X D 0 s = s"
| "turns N X D (Suc n) s =
    (case turns N X D n s of (prev, w) \<Rightarrow>
     case run_once N X D prev w of (Inr (_, prev'), w') \<Rightarrow> (prev', w') | (Inl _, w') \<Rightarrow> (prev, w'))"

text \<open>
  C34: A waiting retention cleanup stops the worker for good.  From the moment a retention cleanup is
  due and until something else takes it from the queue, every turn ends before its network task: over
  any number of turns no request reaches the platform, no cleanup is ever completed and the
  cleanup stays at the head, although every turn tries again.
\<close>

theorem retention_stops_the_worker:
  assumes "cleanup_waits T (wd_db w)"
    and "\<forall>k db. cleanup_waits T db \<longrightarrow> cleanup_waits T (en_other N k db)"
    and "\<forall>k. T \<le> en_now N k \<and> cleanup_due prev (en_clock N k) \<and> (\<forall>i. \<not> en_locked N k i)"
  shows "\<exists>w'. turns N X D n (prev, w) = (prev, w') \<and> wd_log w' = wd_log w \<and> cleanup_waits T (wd_db w')"
proof (induction n)
  case 0
  then show ?case using assms(1) by simp
next
  case (Suc n)
  then obtain w1 where w1: "turns N X D n (prev, w) = (prev, w1)" "wd_log w1 = wd_log w" "cleanup_waits T (wd_db w1)"
    by blast
  have "stuck T prev (run_once N X D prev)" using assms(2,3) by (intro stuck_once) auto
  then obtain b e w' where "run_once N X D prev w1 = (Inr ((b, e), prev), w')" "cleanup_waits T (wd_db w')"
    "wd_log w' = wd_log w1" using w1(3) unfolding stuck_def by blast
  then show ?case using w1(1,2) by simp
qed

section \<open>Requests need a claim\<close>

text \<open>A world a turn ends in: nothing was sent, or a claimed item was run.\<close>

definition claimed_run where
  "claimed_run N X D L w' \<longleftrightarrow> (\<exists>l j k ty db item w1. di_acquire D j = Inr l
     \<and> claim_network (en_hash N) (en_flt N k) (en_locked N k) (en_token N k) (en_gid N k 0) (en_now N k) (en_id N)
         (lease_duration N) ty (route_of (di_router D) l) db = (Inr item, wd_db w1)
     \<and> wd_log w1 = L \<and> w' = snd (run_item N X item w1))"

definition grounded where
  "grounded N X D m \<longleftrightarrow> (\<forall>w. wd_log (snd (m w)) = wd_log w \<or> claimed_run N X D (wd_log w) (snd (m w)))"

lemma grounded_silent: "speaks {[]} m \<Longrightarrow> grounded N X D m"
  unfolding grounded_def by (metis prod.collapse silent_log)

lemma grounded_try: "speaks {[]} m \<Longrightarrow> (\<And>r. grounded N X D (f r)) \<Longrightarrow> grounded N X D (p_try m f)"
  unfolding grounded_def p_try_def by (auto split: prod.splits dest!: silent_log) (metis snd_conv)+

lemma grounded_bind: "speaks {[]} m \<Longrightarrow> (\<And>x. grounded N X D (f x)) \<Longrightarrow> grounded N X D (p_bind m f)"
  unfolding p_bind_def
  by (rule grounded_try) (auto intro: grounded_silent says_fail split: sum.split)

lemma says_ask: "speaks {[]} (ask f)"
  by (rule speaks_silent) (simp add: ask_def)

lemma grounded_ask:
  fixes N :: "('y delivery_db_ext) env"
  shows "(\<And>k. grounded N X D (f (g k))) \<Longrightarrow> grounded N X D (p_bind (ask g) f)"
  unfolding grounded_def
proof
  fix w :: "('y delivery_db_ext) world"
  assume a: "\<And>k. \<forall>w. wd_log (snd (f (g k) w)) = wd_log w \<or> claimed_run N X D (wd_log w) (snd (f (g k) w))"
  let ?w = "w\<lparr>wd_step := Suc (wd_step w)\<rparr>"
  have "p_bind (ask g) f w = f (g (wd_step w)) ?w" by (simp add: p_bind_def p_try_def ask_def)
  then show "wd_log (snd (p_bind (ask g) f w)) = wd_log w \<or> claimed_run N X D (wd_log w) (snd (p_bind (ask g) f w))"
    using a [rule_format, of "wd_step w" ?w] by simp
qed

lemma says_ends: "speaks {[]} (ends_with b e prev)"
  unfolding ends_with_def by (rule says_return)

lemma says_slices: "speaks {[]} (personal_slices D n b)"
  by (induction n arbitrary: b) (auto intro!: says_return speaks_after [OF says_ask] speaks_pair speaks_if)

lemma says_reject: "speaks {[]} (reject_for_egress N ty err)"
proof -
  have "speaks {[]} (reject_claimed N code item)" for code item
    unfolding reject_claimed_def conclude_removal_unknown_def refuse_target_probe_def
    by (intro speaks_if speaks_outside says_conclude_removal says_fail_task says_fail says_store_call
        speaks_after [OF says_clock] speaks_after)
  then show ?thesis
    unfolding reject_for_egress_def not_handled_def handled_def Let_def
    by (intro speaks_if says_return speaks_try [OF says_store_call] speaks_sum)
       (auto intro!: says_return speaks_try split: worker_error.split store_error.split)
qed

lemma grounded_leased:
  fixes N :: "('y delivery_db_ext) env"
  assumes "di_acquire D j = Inr l"
  shows "grounded N X D (p_bind (run_leased N X ty (route_of (di_router D) l)) (\<lambda>answer. p_return (answer, prev)))"
  unfolding grounded_def
proof
  fix w :: "('y delivery_db_ext) world"
  let ?k = "wd_step w"
  obtain c db' where c: "claim_network (en_hash N) (en_flt N ?k) (en_locked N ?k) (en_token N ?k) (en_gid N ?k 0) (en_now N ?k)
      (en_id N) (lease_duration N) ty (route_of (di_router D) l) (en_other N ?k (wd_db w)) = (c, db')" by fastforce
  let ?w = "w\<lparr>wd_db := db', wd_step := Suc ?k\<rparr>" and ?m = "p_bind (run_leased N X ty (route_of (di_router D) l)) (\<lambda>answer. p_return (answer, prev))"
  show "wd_log (snd (?m w)) = wd_log w \<or> claimed_run N X D (wd_log w) (snd (?m w))"
  proof (cases c)
    case (Inl e)
    then show ?thesis
      by (simp add: run_leased_def p_bind_def p_try_def store_call_def c Let_def not_handled_def p_return_def)
  next
    case (Inr item)
    have "snd (?m w) = snd (run_item N X item ?w)"
      by (simp add: run_leased_def p_bind_def p_try_def store_call_def c Inr Let_def handled_def p_return_def split: prod.split)
    moreover have "wd_db ?w = db'" "wd_log ?w = wd_log w" by simp_all
    ultimately have "claimed_run N X D (wd_log w) (snd (?m w))"
      unfolding claimed_run_def using assms c Inr by metis
    then show ?thesis by simp
  qed
qed

lemma grounded_ends: "grounded N X D (ends_with b e prev)"
  by (rule grounded_silent [OF says_ends])

lemma grounded_acquired:
  fixes N :: "('y delivery_db_ext) env"
  shows "grounded N X D (p_bind (case di_acquire D k of Inl err \<Rightarrow> reject_for_egress N ty err
    | Inr l \<Rightarrow> run_leased N X ty (route_of (di_router D) l)) (\<lambda>answer. p_return (answer, prev)))"
proof (cases "di_acquire D k")
  case (Inl err)
  show ?thesis unfolding Inl sum.case
    by (rule grounded_bind [OF says_reject]) (rule grounded_silent [OF says_return])
next
  case (Inr l)
  show ?thesis unfolding Inr sum.case by (rule grounded_leased [OF Inr])
qed

lemma grounded_network: "grounded N X D (network_turn N X D prev)"
  unfolding network_turn_def store_read_def
proof (intro grounded_bind [OF says_slices], clarsimp, intro conjI impI, goal_cases)
  case (2 processed)
  show ?case
  proof (rule grounded_try [OF says_store_call], goal_cases)
    case (1 r)
    show ?case
    proof (cases r)
      case (Inl e)
      then show ?thesis by (simp add: grounded_ends)
    next
      case (Inr ty)
      then show ?thesis by (auto intro!: grounded_ask grounded_acquired)
    qed
  qed
qed (rule grounded_ends)

lemma grounded_cleaning: "(\<And>c. grounded N X D (rest c)) \<Longrightarrow> grounded N X D (cleaning N D rest prev)"
proof -
  assume rest: "\<And>c. grounded N X D (rest c)"
  have quiet: "speaks {[]} (retention_turn N D item)" "speaks {[]} (expired_turn N D item prev')" for item prev'
    unfolding retention_turn_def expired_turn_def note_interruption_def
    by (intro speaks_try [OF says_store_call] speaks_after [OF says_clock] says_ends speaks_after speaks_if says_return)+
  note ends = grounded_ends rest grounded_silent [OF quiet(1)] grounded_silent [OF quiet(2)]
  show ?thesis
    unfolding cleaning_def
    by (intro grounded_try [OF says_store_call])
       (auto intro!: ends grounded_try [OF says_store_call] grounded_bind [OF says_clock] split: sum.split)
qed

lemma grounded_recovering:
  "grounded N X D rest \<Longrightarrow> grounded N X D (recovering N call prev rest)"
  unfolding recovering_def
  by (intro grounded_bind [OF says_store_call]) (auto intro!: grounded_ends)


definition dispatch_env :: "(unit delivery_db_ext) env" where
  "dispatch_env = \<lparr>en_unicode = \<lparr>u_lower = id, u_upper = id, u_fold = (=)\<rparr>, en_hash = id,
     en_decoders = sample_decoders, en_now = (\<lambda>_. 50), en_clock = (\<lambda>_. 50),
     en_flt = (\<lambda>_ _. False), en_gid = (\<lambda>_ _. ''g''), en_locked = (\<lambda>_ _. False), en_token = (\<lambda>_. 9),
     en_other = (\<lambda>_ db. db), en_net = (\<lambda>_ _. Replied 200 (Some ''{}'')), en_config_error = (\<lambda>_. None),
     en_same_exit = (\<lambda>_. True), en_accounts = (\<lambda>_. Some (''u'', ''p'')), en_workspaces = (\<lambda>_. Some ''w''),
     en_probe_login = (\<lambda>_. Some \<lparr>pl_login = ''u'', pl_password = ''p''\<rparr>), en_read_login = (\<lambda>_. None),
     en_identifiers = (\<lambda>_. Some ''u''), en_owners = (\<lambda>_. Some (''w'', ''o'', ''p'')), en_prober = Some (\<lambda>_. True),
     en_joiner = Some (\<lambda>_. True), en_remover = Some (\<lambda>_. True), en_reader = None, en_facts = Some (\<lambda>_ _. tx_return ()),
     en_id = ''w'', en_lease_time = 0\<rparr>"

definition cleanup_world :: "(unit delivery_db_ext) world" where
  "cleanup_world = \<lparr>wd_db = sample_delivery\<lparr>tasks := [queued_task ''t1'' 0 RetentionCleanup None None ''k'' ''k'' 5]\<rparr>,
     wd_step = 0, wd_log = []\<rparr>"

theorem retention_stops_the_worker_witness:
  "\<forall>X D. \<exists>w'. turns dispatch_env X D 3 (zero_time, cleanup_world) = (zero_time, w') \<and> wd_log w' = [] \<and> cleanup_waits 5 (wd_db w')"
proof (intro allI)
  fix X D
  have 1: "cleanup_waits 5 (wd_db cleanup_world)"
    by (simp add: cleanup_waits_def queue_ok_def tasks_ok_def attempts_ok_def cleanup_world_def waiting_cleanup_def queued_task_ok
        delivery_sample_defs) (simp add: queued_task_def task_ok_def task_subject_ok_def)
  have 2: "\<forall>k db. cleanup_waits 5 db \<longrightarrow> cleanup_waits 5 (en_other dispatch_env k db)" by (simp add: dispatch_env_def)
  have 3: "\<forall>k. 5 \<le> en_now dispatch_env k \<and> cleanup_due zero_time (en_clock dispatch_env k) \<and> (\<forall>i. \<not> en_locked dispatch_env k i)"
    by (simp add: dispatch_env_def cleanup_due_def is_zero_time_def)
  have "wd_log cleanup_world = []" by (simp add: cleanup_world_def)
  with retention_stops_the_worker [OF 1 2 3, of X D 3]
  show "\<exists>w'. turns dispatch_env X D 3 (zero_time, cleanup_world) = (zero_time, w') \<and> wd_log w' = [] \<and> cleanup_waits 5 (wd_db w')"
    by simp
qed

definition head_task :: task_row where
  "head_task = queued_task ''t1'' 0 TargetAccountProbe None (Some ''g1'') ''d1'' ''c1'' 3"

definition probe_item :: task_item where
  "probe_item = returned_item (leased ''w'' 9 50 (30 * second) head_task)"

definition probe_world :: "(unit delivery_db_ext) world" where
  "probe_world = \<lparr>wd_db = sample_delivery\<lparr>tasks := [head_task]\<rparr>, wd_step = 0, wd_log = []\<rparr>"

definition probe_dispatch :: "(unit delivery_db_ext) dispatch" where
  "probe_dispatch = \<lparr>di_gate = (\<lambda>_. Some ''open''), di_router = \<lparr>ro_config = plain_config ModeDirect, ro_candidates = (\<lambda>_. None)\<rparr>,
     di_acquire = (\<lambda>_. Inr \<lparr>le_mode = ModeDirect, le_candidate = None, le_client = DirectClient, le_fp = [], le_verified_at = 0,
       le_released = False\<rparr>), di_personal = (\<lambda>_. (False, None)), di_retention = (\<lambda>_. tx_return ()), di_expired = (\<lambda>_. tx_return ())\<rparr>"

lemmas probe_sample_defs = head_task_def probe_item_def queued_task_def returned_item_def leased_def

lemma validate_start_probe:
  "validate (start_event TargetAccountProbe probe_item direct_route)
   = Inr (details_json (ev_details (start_event TargetAccountProbe probe_item direct_route)), the (registry TargetProbeStarted))"
  by (simp add: validate_Inr start_event_def task_event_def spec_of_def details_ok_def valid_task_route_def
      owner_security_scope_def probe_sample_defs direct_route_def string_value_def time_value_def opt_str_def Let_def)

lemma probe_claimed:
  "\<exists>db'. claim_network id (\<lambda>_. False) (\<lambda>_. False) 9 ''g'' 50 ''w'' (30 * second) TargetAccountProbe direct_route
     (wd_db probe_world) = (Inr probe_item, db')"
proof -
  let ?db = "wd_db probe_world" and ?db1 = "(wd_db probe_world)\<lparr>tasks := [leased ''w'' 9 50 (30 * second) head_task]\<rparr>"
  have lease: "take_lease (\<lambda>_. False) 9 ''w'' (30 * second) 50 TargetAccountProbe ?db = Inr (probe_item, ?db1)"
    by (simp add: take_lease_def candidate_def runnable_def mutation_in_doubt_def update_where_def probe_world_def probe_sample_defs)
  obtain a where att: "insert_attempt probe_item direct_route ?db1 = Inr ((), ?db1\<lparr>task_attempts := [a]\<rparr>)"
    by (simp add: insert_attempt_def attempt_insertable_def attempt_ok_def direct_route_def nullable_bytes_def Let_def
        probe_world_def probe_sample_defs sample_delivery_def empty_store_def delivery_db.defs store_db.defs)
  show ?thesis
    by (simp add: claim_network_def claim_def in_tx_def run_tx_def stmt_def tx_bind_def lease att tx_return_def write_audit_def
        lift_audit_def audit_write_def validate_start_probe Let_def)
       (simp add: probe_world_def sample_delivery_def empty_store_def delivery_db.defs store_db.defs)
qed

lemma try_store:
  "p_try (store_call N f) g w =
     (case f (wd_step w) (en_other N (wd_step w) (wd_db w)) of
        (r, db') \<Rightarrow> g (map_sum StoreError id r) (w\<lparr>wd_db := db', wd_step := Suc (wd_step w)\<rparr>))"
  by (simp add: p_try_def store_call_def Let_def split: prod.split)

lemma probe_logged:
  assumes "\<And>k. \<not> en_flt N k 0" and "en_probe_login N (it_target item) = Some c" and "accepts (en_prober N) c"
  shows "wd_log (snd (run_target_probe N item w)) = wd_log w @ [Probed]"
proof -
  define tail where "tail res = p_try (store_call N (\<lambda>k. complete_target_probe (en_hash N) (en_flt N k) (en_gid N k 0)
      (en_now N k) item (probe_publication N k item res)))
    (\<lambda>done. case done of Inr _ \<Rightarrow> p_return ()
      | Inl e \<Rightarrow> p_bind (note_interruption N item ''publication_fenced'' ''publish'') (\<lambda>_. p_fail e))" for res
  have quiet: "speaks {[]} (tail res)" for res
    unfolding tail_def note_interruption_def
    by (intro speaks_try [OF says_store_call] speaks_sum says_return speaks_after says_fail)
  have log: "wd_log (snd (tail res u)) = wd_log u" for res u
    using silent_log [OF quiet] by (metis prod.collapse)
  show ?thesis
    unfolding run_target_probe_def store_read_def try_store tail_def [symmetric]
    by (simp add: assms bind_send log)
qed

lemma recovered_nothing:
  assumes "\<And>k. en_other N k = id" and "call (wd_step w) (en_flt N (wd_step w)) (wd_db w) = (Inr False, wd_db w)"
  shows "recovering N call prev rest w = rest (w\<lparr>wd_step := Suc (wd_step w)\<rparr>)"
  using assms by (simp add: recovering_def p_bind_def try_store)

lemma nothing_to_recover:
  assumes "tasks db = [head_task]" and "\<And>k. \<not> flt k"
  shows "recover_expired_join H flt lk gid now db = (Inr False, db)"
    and "recover_expired_removal H flt lk gid now clock db = (Inr False, db)"
    and "settle_exhausted H flt lk gid now clock db = (Inr False, db)"
proof -
  have "filter (lost_attempt db now lk ty) (tasks db) = []" for ty
    by (simp add: assms(1) lost_attempt_def probe_sample_defs)
  then have "first_lost now lk ty db = None" for ty by (simp add: first_lost_def)
  moreover have "filter (exhausted_attempt now lk) (tasks db) = []"
    by (simp add: assms(1) exhausted_attempt_def probe_sample_defs)
  ultimately show "recover_expired_join H flt lk gid now db = (Inr False, db)"
    "recover_expired_removal H flt lk gid now clock db = (Inr False, db)"
    "settle_exhausted H flt lk gid now clock db = (Inr False, db)"
    by (simp_all add: recover_expired_join_def recover_expired_removal_def settle_exhausted_def in_tx_def run_tx_def stmt_def
        tx_bind_def tx_return_def assms(2) comp_def)
qed

lemma dispatch_env_simps [simp]:
  "en_other dispatch_env k = id" "\<not> en_flt dispatch_env k i" "en_now dispatch_env k = 50" "en_clock dispatch_env k = 50"
  "lease_duration dispatch_env = 30 * second" "en_hash dispatch_env = id" "en_locked dispatch_env k = (\<lambda>_. False)"
  "en_token dispatch_env k = 9" "en_gid dispatch_env k j = ''g''" "en_id dispatch_env = ''w''" "en_flt dispatch_env k = (\<lambda>_. False)"
  by (simp_all add: dispatch_env_def lease_duration_def fun_eq_iff)

lemma probe_network:
  assumes "wd_db w = wd_db probe_world"
  shows "wd_log (snd (network_turn dispatch_env X probe_dispatch 50 w)) = wd_log w @ [Probed]"
proof -
  obtain db' where c: "claim_network id (\<lambda>_. False) (\<lambda>_. False) 9 ''g'' 50 ''w'' (30 * second) TargetAccountProbe direct_route
     (wd_db probe_world) = (Inr probe_item, db')" using probe_claimed by blast
  have slices: "personal_slices probe_dispatch 10 False w = (Inr (False, None), w\<lparr>wd_step := Suc (wd_step w)\<rparr>)"
    by (simp add: numeral_eq_Suc p_bind_def p_try_def ask_def probe_dispatch_def p_return_def)
  have head: "next_network_task_type (\<lambda>_. False) 50 (wd_db probe_world) = Inr TargetAccountProbe"
    by (simp add: next_network_task_type_def probe_world_def network_candidate_def network_type_def probe_sample_defs)
  have route: "route_of (di_router probe_dispatch) l = direct_route" if "di_acquire probe_dispatch k = Inr l" for k l
    using that by (auto simp: probe_dispatch_def route_of_def)
  obtain l where l: "\<And>k. di_acquire probe_dispatch k = Inr l" by (simp add: probe_dispatch_def)
  have type: "it_type probe_item = TargetAccountProbe" "it_target probe_item = ''g1''"
    by (simp_all add: probe_sample_defs opt_str_def)
  have "wd_log (snd (run_target_probe dispatch_env probe_item u)) = wd_log u @ [Probed]" for u
    by (rule probe_logged) (simp_all add: dispatch_env_def accepts_def)
  then have run: "run_target_probe dispatch_env probe_item u = (r, u') \<Longrightarrow> wd_log u' = wd_log u @ [Probed]" for u r u'
    by (metis snd_conv)
  show ?thesis
    unfolding network_turn_def p_bind_def store_read_def
    by (simp add: p_try_def [of "personal_slices D n b" for D n b] slices try_store assms head)
       (simp add: p_try_def ask_def l route [OF l] run_leased_def store_call_def assms c Let_def handled_def run_item_def type
         p_return_def split: prod.split, auto dest!: run)
qed

lemma probe_turn: "wd_log (snd (run_once dispatch_env X probe_dispatch 50 probe_world)) = [Probed]"
proof -
  let ?w = "probe_world\<lparr>wd_step := 4\<rparr>"
  have w: "wd_db ?w = wd_db probe_world" "wd_log ?w = []" by (simp_all add: probe_world_def)
  have tasks: "tasks (wd_db probe_world) = [head_task]" by (simp add: probe_world_def)
  have idle: "recover_expired_join H (\<lambda>_. False) lk gid now (wd_db probe_world) = (Inr False, wd_db probe_world)"
    "recover_expired_removal H (\<lambda>_. False) lk gid now c (wd_db probe_world) = (Inr False, wd_db probe_world)"
    "settle_exhausted H (\<lambda>_. False) lk gid now c (wd_db probe_world) = (Inr False, wd_db probe_world)" for H lk gid now c
    using nothing_to_recover [OF tasks] by simp_all
  have clock: "p_bind (worker_clock dispatch_env) g u = g 50 u" for g u
    by (simp add: p_bind_def p_try_def worker_clock_def)
  have due: "\<not> cleanup_due 50 50" by (simp add: cleanup_due_def time_defs)
  have gate: "recovery_open (\<lambda>_. False) (di_gate probe_dispatch k) = Inr True" for k
    by (simp add: recovery_open_def probe_dispatch_def)
  have none: "recovering dispatch_env call 50 rest u = rest (u\<lparr>wd_step := Suc (wd_step u)\<rparr>)"
    if "wd_db u = wd_db probe_world" and "call (wd_step u) (\<lambda>_. False) (wd_db probe_world) = (Inr False, wd_db probe_world)" for call rest u
    by (rule recovered_nothing) (simp_all add: that)
  have "run_once dispatch_env X probe_dispatch 50 probe_world
      = recover_first dispatch_env 50 (p_bind (worker_clock dispatch_env) (\<lambda>clock.
          if cleanup_due 50 clock then cleaning dispatch_env probe_dispatch (network_turn dispatch_env X probe_dispatch) 50
          else network_turn dispatch_env X probe_dispatch 50)) (probe_world\<lparr>wd_step := 1\<rparr>)"
    by (simp add: run_once_def store_read_def try_store gate) (simp add: probe_world_def)
  also have "\<dots> = network_turn dispatch_env X probe_dispatch 50 ?w"
    unfolding recover_first_def
    by (rule trans, rule none, simp, simp add: idle, rule trans, rule none, simp, simp add: idle,
        rule trans, rule none, simp, simp add: idle)
       (simp add: clock due probe_world_def numeral_eq_Suc)
  finally have "run_once dispatch_env X probe_dispatch 50 probe_world = network_turn dispatch_env X probe_dispatch 50 ?w" .
  then show ?thesis using probe_network [OF w(1)] w(2) by simp
qed


end
