(* ===== verification/WriterFence.thy ===== *)
theory WriterFence
  imports StoreDb "HOL-Library.Product_Lexorder" "HOL-Library.Multiset"
begin

text \<open>
  Package internal/writerfence, file epoch.go: the epochs that fence the writers of a fact.  A key
  is a kind and an identifier; a transaction locks its keys in one order before it reads their
  versions.
\<close>

type_synonym fence_key = "string \<times> string"
type_synonym fence_version = "fence_key \<times> int"

definition nil_id :: string where
  "nil_id = ''00000000-0000-0000-0000-000000000000''"

definition fence_kinds :: "string list" where
  "fence_kinds = [''owner'', ''workspace'', ''mother'', ''target_account'', ''standby_batch'', ''destination'',
     ''target_identity'', ''standby_membership'']"

definition target_identity_id :: string where
  "target_identity_id = ''00000000-0000-0000-0000-000000000001''"

definition standby_membership_id :: string where
  "standby_membership_id = ''00000000-0000-0000-0000-000000000002''"

text \<open>The check of the ordered keys: a known kind, an identifier, and no key twice in a row.\<close>

fun fence_refused :: "fence_key option \<Rightarrow> fence_key list \<Rightarrow> bool" where
  "fence_refused prev [] \<longleftrightarrow> False"
| "fence_refused prev (x # xs) \<longleftrightarrow>
     fst x \<notin> set fence_kinds \<or> snd x = nil_id \<or> prev = Some x \<or> fence_refused (Some x) xs"

text \<open>The locks, one statement each: what is read is the committed version of a row.\<close>

fun read_epochs :: "faults \<Rightarrow> nat \<Rightarrow> fence_key list \<Rightarrow> fence_version list \<Rightarrow> (store_error, fence_version list) result" where
  "read_epochs flt k [] rows = Inr []"
| "read_epochs flt k (x # xs) rows =
    (if flt k then Inl ErrDriver
     else case map_of rows x of
       None \<Rightarrow> Inl ErrNoRows
     | Some v \<Rightarrow> (case read_epochs flt (Suc k) xs rows of Inl e \<Rightarrow> Inl e | Inr vs \<Rightarrow> Inr ((x, v) # vs)))"

definition begin_locked :: "faults \<Rightarrow> fence_key list \<Rightarrow> fence_version list \<Rightarrow> (store_error, fence_version list) result" where
  "begin_locked flt keys rows =
    (if keys = [] \<or> fence_refused None (sort keys) then Inl ErrInvalid
     else if flt 0 then Inl ErrDriver
     else read_epochs flt 1 (sort keys) rows)"

lemma fence_refused_iff:
  "sorted xs \<Longrightarrow> fence_refused p xs \<longleftrightarrow>
     (\<exists>x\<in>set xs. fst x \<notin> set fence_kinds \<or> snd x = nil_id) \<or> \<not> distinct xs \<or> (xs \<noteq> [] \<and> p = Some (hd xs))"
proof (induction xs arbitrary: p)
  case (Cons x xs)
  then have "sorted xs" and le: "\<And>y. y \<in> set xs \<Longrightarrow> x \<le> y" by auto
  have "x \<in> set xs \<longleftrightarrow> xs \<noteq> [] \<and> x = hd xs"
  proof
    assume x: "x \<in> set xs"
    then obtain y ys where xs: "xs = y # ys" by (cases xs) auto
    have "y \<le> x" using \<open>sorted xs\<close> x by (auto simp: xs)
    moreover have "x \<le> y" using le by (simp add: xs)
    ultimately show "xs \<noteq> [] \<and> x = hd xs" by (simp add: xs)
  qed auto
  then show ?case using Cons.IH [OF \<open>sorted xs\<close>, of "Some x"] by auto
qed simp

lemma read_epochs_Inr:
  "read_epochs flt k xs rows = Inr vs \<Longrightarrow> map fst vs = xs \<and> (\<forall>p\<in>set vs. map_of rows (fst p) = Some (snd p))"
proof (induction xs arbitrary: k vs)
  case (Cons x xs)
  then obtain v ws where "map_of rows x = Some v" and ws: "read_epochs flt (Suc k) xs rows = Inr ws" and "vs = (x, v) # ws"
    by (cases "map_of rows x"; cases "read_epochs flt (Suc k) xs rows") (simp_all split: if_splits)
  then show ?case using Cons.IH [OF ws] by simp
qed simp

text \<open>
  What is locked, and in which order, depends on the set of the keys alone; so no two
  transactions can hold one key of another while they wait for a key of it.
\<close>

lemma begin_locked_order: "mset keys = mset keys' \<Longrightarrow> begin_locked flt keys rows = begin_locked flt keys' rows"
proof -
  assume a: "mset keys = mset keys'"
  then have "sort keys = sort keys'" by (metis properties_for_sort mset_sort sorted_sort)
  moreover have "keys = [] \<longleftrightarrow> keys' = []" using a by auto
  ultimately show ?thesis by (simp add: begin_locked_def)
qed

lemma begin_locked_Inr:
  assumes "begin_locked flt keys rows = Inr vs"
  shows "map fst vs = sort keys" and "distinct keys" and "keys \<noteq> []"
    and "\<forall>x\<in>set keys. fst x \<in> set fence_kinds \<and> snd x \<noteq> nil_id"
    and "\<forall>p\<in>set vs. map_of rows (fst p) = Some (snd p)"
proof -
  have r: "read_epochs flt 1 (sort keys) rows = Inr vs" and n: "keys \<noteq> []" and ok: "\<not> fence_refused None (sort keys)"
    using assms by (auto simp: begin_locked_def split: if_splits)
  show "map fst vs = sort keys" "\<forall>p\<in>set vs. map_of rows (fst p) = Some (snd p)" using read_epochs_Inr [OF r] by auto
  show "keys \<noteq> []" by (rule n)
  have "sorted (sort keys)" by simp
  from ok [unfolded fence_refused_iff [OF this]] show "distinct keys"
    "\<forall>x\<in>set keys. fst x \<in> set fence_kinds \<and> snd x \<noteq> nil_id" by auto
qed

end
