(* ===== verification/RotationRemoval.thy ===== *)
theory RotationRemoval
  imports WriterFence TaskWorker
begin

text \<open>
  Package internal/runtime, file rotation_removal.go, with the tables and triggers of migration
  00029: the confirmed removal of the members an owner authorised, one original slot at a time.  A
  handler claims a slot under the epochs of the authorisation, reserves the one request the slot
  ever gets, sends it and releases the slot only on a complete member list without the member.
  The programs and the world are those of TaskWorker.  Columns that are only displayed (times of
  creation and update, the text of the last error) are left out.
\<close>

section \<open>Tables\<close>

datatype slot_state = SlotPending | LeaseAcquired | RemoveRequested | ResultUncertain | VerificationPending
  | AbsentVerified | SlotBlocked | SlotStopped

record rotation_slot =
  sl_id :: string
  sl_preview :: string
  sl_workspace :: string
  sl_member :: string
  sl_original :: string
  sl_candidate :: string
  sl_identifier :: string
  sl_seat :: string
  sl_state :: slot_state
  sl_owner :: "string option"
  sl_token :: "string option"
  sl_epoch :: int
  sl_expires :: "instant option"
  sl_attempts :: int
  sl_request :: "string option"
  sl_requested_at :: "instant option"
  sl_http :: "int option"
  sl_verification :: "string option"
  sl_absent_at :: "instant option"
  sl_obligation :: bool
  sl_error :: string

record rotation_scope =
  rv_preview :: string
  rv_workspace :: string
  rv_owner :: string
  rv_digest :: string
  rv_key :: string
  rv_session :: string
  rv_stopped_at :: "instant option"

record rotation_evidence =
  ve_id :: string
  ve_slot :: string
  ve_epoch :: int
  ve_digest :: string
  ve_exchange :: string
  ve_owner_evidence :: string
  ve_observed_at :: instant
  ve_members :: "member list"
  ve_absent :: bool

record rotation_preview =
  pv_id :: string
  pv_owner :: string
  pv_workspace :: string
  pv_status :: string
  pv_revoked_at :: "instant option"
  pv_expires_at :: instant
  pv_epochs :: "fence_version list"

text \<open>A member of the frozen verification.\<close>

record frozen_member =
  fz_verification :: string
  fz_kind :: string
  fz_id :: string
  fz_identifier :: string
  fz_role :: string
  fz_seat :: string

record rotation_db = store_db +
  rotation_epochs :: "fence_version list"
  rotation_previews :: "rotation_preview list"
  rotation_scopes :: "rotation_scope list"
  rotation_slots :: "rotation_slot list"
  rotation_evidences :: "rotation_evidence list"
  rotation_frozen :: "frozen_member list"

section \<open>Constraints\<close>

definition slot_ok :: "rotation_slot \<Rightarrow> bool" where
  "slot_ok s \<longleftrightarrow>
     1 \<le> length (sl_member s) \<and> length (sl_member s) \<le> 255 \<and> sl_seat s = ''prolite'' \<and> 0 \<le> sl_epoch s \<and> 0 \<le> sl_attempts s
     \<and> (sl_request s = None \<longleftrightarrow> sl_requested_at s = None) \<and> (sl_obligation s \<longrightarrow> sl_request s \<noteq> None)
     \<and> (sl_state s = AbsentVerified \<longrightarrow> sl_verification s \<noteq> None \<and> sl_absent_at s \<noteq> None \<and> \<not> sl_obligation s)
     \<and> ((sl_owner s = None \<and> sl_token s = None \<and> sl_expires s = None)
        \<or> (sl_owner s \<noteq> None \<and> sl_token s \<noteq> None \<and> sl_expires s \<noteq> None))"

definition preview_active :: "instant \<Rightarrow> rotation_preview \<Rightarrow> bool" where
  "preview_active now p \<longleftrightarrow> pv_status p = ''authorized'' \<and> pv_revoked_at p = None \<and> now < pv_expires_at p"

definition same_slot :: "rotation_slot \<Rightarrow> rotation_slot \<Rightarrow> bool" where
  "same_slot s t \<longleftrightarrow> sl_id t = sl_id s \<and> sl_preview t = sl_preview s \<and> sl_workspace t = sl_workspace s \<and> sl_member t = sl_member s
     \<and> sl_original t = sl_original s \<and> sl_candidate t = sl_candidate s \<and> sl_identifier t = sl_identifier s \<and> sl_seat t = sl_seat s"

definition absence_proven :: "instant \<Rightarrow> 'z rotation_db_scheme \<Rightarrow> rotation_slot \<Rightarrow> bool" where
  "absence_proven clock db t \<longleftrightarrow>
     list_ex (\<lambda>e. Some (ve_id e) = sl_verification t \<and> ve_slot e = sl_id t \<and> ve_epoch e = sl_epoch t \<and> ve_absent e
       \<and> list_ex (\<lambda>r. rv_preview r = sl_preview t \<and> ve_digest e = rv_digest r \<and> rv_stopped_at r = None
            \<and> list_ex (\<lambda>p. pv_id p = rv_preview r \<and> preview_active clock p) (rotation_previews db)) (rotation_scopes db))
       (rotation_evidences db)"

text \<open>The trigger tsw_rotation_removal_immutable on an update of a slot.\<close>

definition slot_change_ok :: "instant \<Rightarrow> 'z rotation_db_scheme \<Rightarrow> rotation_slot \<Rightarrow> rotation_slot \<Rightarrow> bool" where
  "slot_change_ok clock db s t \<longleftrightarrow>
     same_slot s t \<and> sl_epoch s \<le> sl_epoch t \<and> sl_attempts s \<le> sl_attempts t
     \<and> (sl_request s \<noteq> None \<longrightarrow> sl_request t = sl_request s \<and> sl_requested_at t = sl_requested_at s)
     \<and> (sl_state s = SlotStopped \<longrightarrow> sl_state t = SlotStopped)
     \<and> (sl_state s = AbsentVerified \<longrightarrow> sl_state t = AbsentVerified \<or> sl_state t = SlotStopped \<or> sl_state t = VerificationPending)
     \<and> (sl_state s = AbsentVerified \<and> sl_state t = VerificationPending \<longrightarrow>
          sl_epoch t = sl_epoch s + 1 \<and> sl_owner t \<noteq> None \<and> sl_token t \<noteq> None
          \<and> (case sl_expires t of None \<Rightarrow> True | Some e \<Rightarrow> clock < e) \<and> sl_obligation t \<and> sl_attempts t = sl_attempts s + 1)
     \<and> (sl_state t = AbsentVerified \<longrightarrow> absence_proven clock db t)"

text \<open>An update of slots: every changed row meets its constraints and the trigger, requests are unique.\<close>

definition update_slots ::
  "instant \<Rightarrow> (rotation_slot \<Rightarrow> bool) \<Rightarrow> (rotation_slot \<Rightarrow> rotation_slot) \<Rightarrow> (store_error, 'z rotation_db_scheme, nat) tx" where
  "update_slots clock P f = (\<lambda>db.
     let ts = update_where P f (rotation_slots db) in
     if list_all (\<lambda>s. P s \<longrightarrow> slot_ok (f s) \<and> slot_change_ok clock db s (f s)
           \<and> (case sl_verification (f s) of None \<Rightarrow> True | Some i \<Rightarrow> list_ex (\<lambda>e. ve_id e = i) (rotation_evidences db)))
         (rotation_slots db)
       \<and> distinct (map the (filter (\<lambda>x. x \<noteq> None) (map sl_request ts)))
     then Inr (length (filter P (rotation_slots db)), db\<lparr>rotation_slots := ts\<rparr>) else Inl ErrConstraint)"

definition insert_slot :: "rotation_slot \<Rightarrow> (store_error, 'z rotation_db_scheme, unit) tx" where
  "insert_slot s = (\<lambda>db.
     if slot_ok s \<and> sl_request s = None
       \<and> \<not> list_ex (\<lambda>t. sl_id t = sl_id s \<or> sl_preview t = sl_preview s \<and> (sl_member t = sl_member s \<or> sl_candidate t = sl_candidate s))
            (rotation_slots db)
       \<and> list_ex (\<lambda>r. rv_preview r = sl_preview s) (rotation_scopes db)
     then Inr ((), db\<lparr>rotation_slots := rotation_slots db @ [s]\<rparr>) else Inl ErrConstraint)"

definition insert_scope :: "rotation_scope \<Rightarrow> (store_error, 'z rotation_db_scheme, unit) tx" where
  "insert_scope r = (\<lambda>db.
     if length (rv_digest r) = 64 \<and> \<not> list_ex (\<lambda>x. rv_preview x = rv_preview r \<or> rv_key x = rv_key r) (rotation_scopes db)
       \<and> list_ex (\<lambda>p. pv_id p = rv_preview r) (rotation_previews db)
     then Inr ((), db\<lparr>rotation_scopes := rotation_scopes db @ [r]\<rparr>) else Inl ErrConstraint)"

definition insert_evidence :: "rotation_evidence \<Rightarrow> (store_error, 'z rotation_db_scheme, unit) tx" where
  "insert_evidence e = (\<lambda>db.
     if length (ve_digest e) = 64 \<and> length (ve_owner_evidence e) = 64 \<and> \<not> list_ex (\<lambda>x. ve_id x = ve_id e) (rotation_evidences db)
       \<and> list_ex (\<lambda>s. sl_id s = ve_slot e) (rotation_slots db)
     then Inr ((), db\<lparr>rotation_evidences := rotation_evidences db @ [e]\<rparr>) else Inl ErrConstraint)"

text \<open>A removal is stopped at most once.\<close>

definition stop_scope :: "string \<Rightarrow> instant \<Rightarrow> (store_error, 'z rotation_db_scheme, unit) tx" where
  "stop_scope p clock = (\<lambda>db.
     if list_ex (\<lambda>r. rv_preview r = p \<and> rv_stopped_at r \<noteq> None) (rotation_scopes db) then Inl ErrConstraint
     else Inr ((), db\<lparr>rotation_scopes := update_where (\<lambda>r. rv_preview r = p) (\<lambda>r. r\<lparr>rv_stopped_at := Some clock\<rparr>) (rotation_scopes db)\<rparr>))"

section \<open>Authorisations\<close>

record removal_authorization =
  az_preview :: string
  az_workspace :: string
  az_owner :: string
  az_mother :: string
  az_batch :: string
  az_destination :: string
  az_verification :: string
  az_slots :: "(string \<times> string \<times> string \<times> string) list"
  az_candidates :: "string list"
  az_assignments :: "(string \<times> string) list"
  az_expires :: instant
  az_epochs :: "fence_version list"
  az_digest :: string
  az_session :: string
  az_active :: bool
  az_reconcile :: bool

definition authorization_keys :: "removal_authorization \<Rightarrow> fence_key list" where
  "authorization_keys a = remdups
     ([(''owner'', az_owner a), (''workspace'', az_workspace a), (''mother'', az_mother a), (''standby_batch'', az_batch a),
       (''destination'', az_destination a), (''target_identity'', target_identity_id),
       (''standby_membership'', standby_membership_id)]
      @ map (\<lambda>i. (''target_account'', i)) (filter (\<lambda>i. i \<noteq> nil_id) (map (\<lambda>(_, i, _, _). i) (az_slots a) @ az_candidates a)))"

datatype rotation_error = RotationStore store_error | RotationFailure string

record access_binding =
  bi_mother :: string
  bi_workspace :: string
  bi_run :: string
  bi_generation :: string
  bi_exchange :: string
  bi_revision :: int
  bi_attempt :: int

record local_facts =
  lf_platform :: string
  lf_access_expires :: instant
  lf_binding :: access_binding

record exact_snapshot =
  es_fact :: read_result
  es_declared :: int

record discovered_workspace =
  dw_id :: string
  dw_name :: string
  dw_access :: string
  dw_role :: string

record owner_discovery =
  dv_status :: string
  dv_workspaces :: "discovered_workspace list"

text \<open>
  What a removal takes from outside and from the rest of the package at a step: the stored
  authorisation with its digests, the source facts behind it, the earliest end of the sessions,
  the clock of the database at a statement, and the platform.
\<close>

record 'z rotation_tools =
  rx_load :: "nat \<Rightarrow> 'z store_db_scheme \<Rightarrow> (rotation_error, removal_authorization) result"
  rx_live :: "nat \<Rightarrow> 'z store_db_scheme \<Rightarrow> removal_authorization \<Rightarrow> (rotation_error, local_facts) result"
  rx_read_only :: "nat \<Rightarrow> 'z store_db_scheme \<Rightarrow> removal_authorization \<Rightarrow> (rotation_error, local_facts) result"
  rx_sessions_end :: "nat \<Rightarrow> string list \<Rightarrow> instant option"
  rx_clock :: "nat \<Rightarrow> nat \<Rightarrow> instant"
  rx_gate :: "nat \<Rightarrow> rotation_error option"
  rx_remover :: bool
  rx_discoverer :: bool
  rx_hash :: "owner_discovery \<Rightarrow> string"
  rx_discovery :: "nat \<Rightarrow> owner_discovery option"
  rx_members :: "nat \<Rightarrow> exact_snapshot option"
  rx_delete :: "nat \<Rightarrow> bool \<times> int \<times> bool"

section \<open>Transactions\<close>

definition stored :: "(store_error, 's, 'a) tx \<Rightarrow> (rotation_error, 's, 'a) tx" where
  "stored m = (\<lambda>s. case m s of Inl e \<Rightarrow> Inl (RotationStore e) | Inr r \<Rightarrow> Inr r)"

lemma stored_Inr [tx_simps]: "stored m s = Inr r \<longleftrightarrow> m s = Inr r"
  by (auto simp: stored_def split: sum.splits)

definition refuse :: "string \<Rightarrow> (rotation_error, 's, 'a) tx" where
  "refuse c = tx_fail (RotationFailure c)"

lemma refuse_Inr [tx_simps]: "refuse c s = Inr r \<longleftrightarrow> False"
  by (simp add: refuse_def tx_fail_def)

definition rotation_row :: "faults \<Rightarrow> nat \<Rightarrow> ('s \<Rightarrow> 'a option) \<Rightarrow> (rotation_error, 's, 'a) tx" where
  "rotation_row flt k f = stored (stmt flt k (select_row f ErrNoRows))"

definition rotation_commit :: "faults \<Rightarrow> 'a \<Rightarrow> (rotation_error, 's, 'a) tx" where
  "rotation_commit flt x = stored (stmt flt 240 (tx_return x))"

text \<open>The source facts, read after the epochs are locked.\<close>

definition removal_facts ::
  "'z rotation_tools \<Rightarrow> nat \<Rightarrow> removal_authorization \<Rightarrow> fence_version list \<Rightarrow> (rotation_error, 'z store_db_scheme, local_facts) tx" where
  "removal_facts X k a versions = (\<lambda>db.
     case rx_load X k db of
       Inl e \<Rightarrow> Inl e
     | Inr c \<Rightarrow>
        let found = (if az_digest c \<noteq> az_digest a then Inl (RotationFailure ''authorization_corrupt'')
             else if az_reconcile a then rx_read_only X k db a
             else if \<not> az_active c then Inl (RotationFailure ''authorization_inactive'')
             else if az_epochs c \<noteq> az_epochs a \<or> versions \<noteq> az_epochs a then Inl (RotationFailure ''writer_epoch_changed'')
             else rx_live X k db a) in
        case found of Inl e \<Rightarrow> Inl e | Inr f \<Rightarrow> Inr (f, db))"

definition fenced_facts ::
  "('y rotation_db_ext) rotation_tools \<Rightarrow> faults \<Rightarrow> nat \<Rightarrow> removal_authorization \<Rightarrow> (rotation_error, 'y rotation_db_scheme, local_facts) tx" where
  "fenced_facts X flt k a =
     tx_bind (\<lambda>db. case begin_locked flt (authorization_keys a) (rotation_epochs db) of
         Inl e \<Rightarrow> Inl (RotationStore e) | Inr vs \<Rightarrow> Inr (vs, db)) (removal_facts X k a)"

definition rotation_fact where
  "rotation_fact H flt gid now owner ty entity i corr key workspace d =
     stored (audit_fact H flt 230 gid now
       \<lparr>ev_type = ty, ev_actor = ActorOwner, ev_owner_id = owner, ev_scope_id = workspace, ev_entity_type = entity, ev_entity_id = i,
        ev_outcome = OutcomeSucceeded, ev_correlation = corr, ev_source_fp = [], ev_details = d, ev_idem_key = key,
        ev_occurred_at = zero_time\<rparr>)"

section \<open>Starting and stopping\<close>

definition slot_outstanding :: "string \<Rightarrow> string \<Rightarrow> rotation_slot \<Rightarrow> bool" where
  "slot_outstanding workspace m s \<longleftrightarrow> sl_workspace s = workspace \<and> sl_member s = m
     \<and> (sl_obligation s \<or> sl_state s \<in> {SlotPending, LeaseAcquired, RemoveRequested, VerificationPending})"

definition fresh_slot :: "removal_authorization \<Rightarrow> string \<Rightarrow> string \<times> string \<Rightarrow> rotation_slot" where
  "fresh_slot a i assignment =
    (let original = find (\<lambda>(m, _). m = fst assignment) (az_slots a) in
     \<lparr>sl_id = i, sl_preview = az_preview a, sl_workspace = az_workspace a, sl_member = fst assignment,
      sl_original = (case original of None \<Rightarrow> nil_id | Some (_, acc, _) \<Rightarrow> acc), sl_candidate = snd assignment,
      sl_identifier = (case original of None \<Rightarrow> [] | Some (_, _, ident, _) \<Rightarrow> ident),
      sl_seat = (case original of None \<Rightarrow> [] | Some (_, _, _, seat) \<Rightarrow> seat),
      sl_state = SlotPending, sl_owner = None, sl_token = None, sl_epoch = 0, sl_expires = None, sl_attempts = 0,
      sl_request = None, sl_requested_at = None, sl_http = None, sl_verification = None, sl_absent_at = None,
      sl_obligation = False, sl_error = []\<rparr>)"

fun start_slots ::
  "faults \<Rightarrow> (nat \<Rightarrow> string) \<Rightarrow> removal_authorization \<Rightarrow> nat \<Rightarrow> (string \<times> string) list
     \<Rightarrow> (rotation_error, 'y rotation_db_scheme, unit) tx" where
  "start_slots flt gid a k [] = tx_return ()"
| "start_slots flt gid a k (x # xs) =
     tx_bind (stored (stmt flt (210 + k) (tx_read (\<lambda>db. list_ex (slot_outstanding (az_workspace a) (fst x)) (rotation_slots db))))) (\<lambda>busy.
     if busy then refuse ''original_slot_obligation_exists''
     else tx_bind (stored (stmt flt (211 + k) (insert_slot (fresh_slot a (gid (210 + k)) x)))) (\<lambda>_.
          start_slots flt gid a (k + 2) xs))"

definition start_tx where
  "start_tx H (X :: ('y rotation_db_ext) rotation_tools) flt k (gid :: nat \<Rightarrow> string) now owner session corr key (a :: removal_authorization) =
     tx_bind (fenced_facts X flt k a) (\<lambda>_.
     tx_bind (stored (stmt flt 209 (insert_scope \<lparr>rv_preview = az_preview a, rv_workspace = az_workspace a, rv_owner = owner,
       rv_digest = az_digest a, rv_key = key, rv_session = session, rv_stopped_at = None\<rparr>))) (\<lambda>_.
     tx_bind (start_slots flt gid a 0 (az_assignments a)) (\<lambda>_.
     tx_bind (rotation_fact H flt (gid 230) now owner RotationRemovalStarted ''rotation_removal'' (az_preview a) corr
       (az_preview a @ '':removal-start'') (az_workspace a) (RotationRemovalDetails (az_digest a) 0 False)) (\<lambda>_.
     rotation_commit flt ()))))"

definition stopped_slot :: "rotation_slot \<Rightarrow> rotation_slot" where
  "stopped_slot s = s\<lparr>sl_state := SlotStopped, sl_epoch := sl_epoch s + 1, sl_owner := None, sl_token := None, sl_expires := None,
     sl_error := ''owner_stopped''\<rparr>"

definition stop_tx where
  "stop_tx H (X :: ('y rotation_db_ext) rotation_tools) flt k (gid :: nat \<Rightarrow> string) now owner corr workspace p =
     tx_bind (rotation_row flt 200 (\<lambda>db. find (\<lambda>r. rv_preview r = p \<and> rv_owner r = owner) (rotation_scopes db))) (\<lambda>r.
     if rv_stopped_at r \<noteq> None then rotation_commit flt ()
     else
       tx_bind (stored (stmt flt 201 (stop_scope p (rx_clock X k 201)))) (\<lambda>_.
       tx_bind (stored (stmt flt 202 (update_slots (rx_clock X k 202) (\<lambda>s. sl_preview s = p \<and> sl_state s \<noteq> SlotStopped) stopped_slot))) (\<lambda>_.
       tx_bind (rotation_fact H flt (gid 230) now owner RotationRemovalStopped ''rotation_removal'' p corr (p @ '':removal-stop'')
         workspace (RotationRemovalDetails (rv_digest r) 0 False)) (\<lambda>_.
       rotation_commit flt ()))))"

section \<open>The lease of a slot\<close>

record removal_lease =
  ln_slot :: string
  ln_token :: string
  ln_owner :: string
  ln_epoch :: int
  ln_expires :: instant
  ln_requested :: bool
  ln_member :: string
  ln_identifier :: string
  ln_seat :: string
  ln_request :: "string option"
  ln_read_only :: bool

definition lease_valid :: "instant \<Rightarrow> rotation_slot \<Rightarrow> bool" where
  "lease_valid clock s \<longleftrightarrow> (case sl_expires s of None \<Rightarrow> False | Some e \<Rightarrow> clock < e)"

definition slot_authorized :: "removal_authorization \<Rightarrow> rotation_slot \<Rightarrow> bool" where
  "slot_authorized a s \<longleftrightarrow> list_ex (\<lambda>(m, acc). m = sl_member s \<and> acc = sl_candidate s) (az_assignments a)
     \<and> list_ex (\<lambda>(m, acc, ident, seat). m = sl_member s \<and> acc = sl_original s \<and> ident = sl_identifier s \<and> seat = sl_seat s) (az_slots a)"

definition earliest :: "instant \<Rightarrow> instant option \<Rightarrow> instant" where
  "earliest t o' = (case o' of None \<Rightarrow> t | Some u \<Rightarrow> min t u)"

definition claimed_slot :: "bool \<Rightarrow> string \<Rightarrow> string \<Rightarrow> instant \<Rightarrow> rotation_slot \<Rightarrow> rotation_slot" where
  "claimed_slot reconcile owner token expires s =
     s\<lparr>sl_state := (if reconcile then SlotStopped else if sl_request s = None then LeaseAcquired else VerificationPending),
       sl_obligation := (sl_request s \<noteq> None), sl_absent_at := None, sl_owner := Some owner, sl_token := Some token,
       sl_epoch := sl_epoch s + 1, sl_expires := Some expires, sl_attempts := sl_attempts s + 1, sl_error := []\<rparr>"

definition scope_of_slot :: "string \<Rightarrow> string \<Rightarrow> string \<Rightarrow> 'y rotation_db_scheme \<Rightarrow> (rotation_slot \<times> rotation_scope) option" where
  "scope_of_slot i p digest db =
     Option.bind (find (\<lambda>s. sl_id s = i \<and> sl_preview s = p) (rotation_slots db)) (\<lambda>s.
     map_option (\<lambda>r. (s, r)) (find (\<lambda>r. rv_preview r = p \<and> rv_digest r = digest) (rotation_scopes db)))"

definition claim_refusal :: "removal_authorization \<Rightarrow> bool \<Rightarrow> instant \<Rightarrow> rotation_slot \<times> rotation_scope \<Rightarrow> string option" where
  "claim_refusal a observing clock sr =
    (let s = fst sr in
     if \<not> slot_authorized a s then Some ''slot_not_authorized''
     else if (rv_stopped_at (snd sr) \<noteq> None \<or> sl_state s = SlotStopped) \<and> \<not> az_reconcile a then Some ''removal_stopped''
     else if sl_state s = AbsentVerified \<and> \<not> observing then Some ''slot_already_verified''
     else if lease_valid clock s then Some ''slot_lease_busy''
     else None)"

definition take_slot where
  "take_slot (X :: ('y rotation_db_ext) rotation_tools) flt k (gid :: nat \<Rightarrow> string) process session (a :: removal_authorization)
      (s :: rotation_slot) (f :: local_facts) =
    (let sessions = (if \<not> az_reconcile a \<and> az_session a \<noteq> session then [session, az_session a] else [session]);
         expires = earliest (min (rx_clock X k 202 + 60 * second)
           (min (if az_reconcile a then process + 60 * second else az_expires a) (lf_access_expires f))) (rx_sessions_end X k sessions) in
     tx_bind (stored (stmt flt 202 (update_slots (rx_clock X k 202) (\<lambda>t. sl_id t = sl_id s)
       (claimed_slot (az_reconcile a) (gid 1) (gid 0) expires)))) (\<lambda>_.
     rotation_commit flt (\<lparr>ln_slot = sl_id s, ln_token = gid 0, ln_owner = gid 1, ln_epoch = sl_epoch s + 1, ln_expires = expires,
       ln_requested = (sl_request s \<noteq> None), ln_member = sl_member s, ln_identifier = sl_identifier s, ln_seat = sl_seat s,
       ln_request = sl_request s, ln_read_only = az_reconcile a\<rparr>, f)))"

definition claim_removal_slot where
  "claim_removal_slot (X :: ('y rotation_db_ext) rotation_tools) flt k (gid :: nat \<Rightarrow> string) process session slot observing (a :: removal_authorization) =
     tx_bind (fenced_facts X flt k a) (\<lambda>f.
     tx_bind (rotation_row flt 200 (scope_of_slot slot (az_preview a) (az_digest a))) (\<lambda>sr.
     case claim_refusal a observing (rx_clock X k 200) sr of
       Some c \<Rightarrow> refuse c
     | None \<Rightarrow>
        tx_bind (stored (stmt flt 201 (tx_read (\<lambda>db. list_ex (\<lambda>t. sl_workspace t = az_workspace a \<and> sl_id t \<noteq> slot
          \<and> lease_valid (rx_clock X k 201) t) (rotation_slots db))))) (\<lambda>busy.
        if busy then refuse ''workspace_removal_busy''
        else if (observing \<or> az_reconcile a) \<and> sl_request (fst sr) = None then refuse ''slot_not_requested''
        else take_slot X flt k gid process session a (fst sr) f)))"

text \<open>removalLeaseTx: the epochs, the source facts and the lease, all still valid.\<close>

definition lease_held :: "removal_authorization \<Rightarrow> removal_lease \<Rightarrow> instant \<Rightarrow> 'y rotation_db_scheme \<Rightarrow> rotation_slot \<Rightarrow> bool" where
  "lease_held a l clock db s \<longleftrightarrow>
     sl_id s = ln_slot l \<and> sl_preview s = az_preview a \<and> sl_owner s = Some (ln_owner l) \<and> sl_token s = Some (ln_token l)
     \<and> sl_epoch s = ln_epoch l \<and> lease_valid clock s \<and> sl_state s \<noteq> AbsentVerified
     \<and> list_ex (\<lambda>r. rv_preview r = sl_preview s
          \<and> (az_reconcile a \<or> sl_state s \<noteq> SlotStopped \<and> rv_stopped_at r = None)) (rotation_scopes db)"

definition removal_lease_tx where
  "removal_lease_tx (X :: ('y rotation_db_ext) rotation_tools) flt k (a :: removal_authorization) (l :: removal_lease) =
     tx_bind (fenced_facts X flt k a) (\<lambda>f.
     tx_bind (stored (stmt flt 200 (tx_read (\<lambda>db. list_ex (lease_held a l (rx_clock X k 200) db) (rotation_slots db))))) (\<lambda>valid.
     if valid then tx_return f else refuse ''slot_lease_stale''))"

section \<open>The request\<close>

definition requested_slot :: "string \<Rightarrow> instant \<Rightarrow> rotation_slot \<Rightarrow> rotation_slot" where
  "requested_slot i clock s =
     s\<lparr>sl_state := RemoveRequested, sl_request := Some i, sl_requested_at := Some clock, sl_obligation := True\<rparr>"

definition reserve_request where
  "reserve_request H (X :: ('y rotation_db_ext) rotation_tools) flt k (gid :: nat \<Rightarrow> string) now owner (a :: removal_authorization) (l :: removal_lease) =
     tx_bind (removal_lease_tx X flt k a l) (\<lambda>_.
     tx_bind (stored (stmt flt 201 (update_slots (rx_clock X k 201) (\<lambda>s. sl_id s = ln_slot l \<and> sl_request s = None)
       (requested_slot (gid 2) (rx_clock X k 201))))) (\<lambda>n.
     if n \<noteq> 1 then refuse ''request_already_reserved''
     else
       tx_bind (rotation_fact H flt (gid 230) now owner RotationRemovalRequested ''rotation_slot'' (ln_slot l) (gid 2) (gid 2)
         (az_workspace a) (RotationRemovalDetails (az_digest a) (ln_epoch l) False)) (\<lambda>_.
       rotation_commit flt (l\<lparr>ln_request := Some (gid 2), ln_requested := True\<rparr>))))"

definition receipt_slot :: "int \<Rightarrow> string \<Rightarrow> rotation_slot \<Rightarrow> rotation_slot" where
  "receipt_slot status code s =
     s\<lparr>sl_state := (if code \<noteq> [] then ResultUncertain else VerificationPending), sl_http := (if status = 0 then None else Some status),
       sl_error := code\<rparr>"

definition removal_receipt where
  "removal_receipt (X :: ('y rotation_db_ext) rotation_tools) flt k (a :: removal_authorization) (l :: removal_lease) status code =
     tx_bind (removal_lease_tx X flt k a l) (\<lambda>_.
     tx_bind (stored (stmt flt 201 (update_slots (rx_clock X k 201) (\<lambda>s. sl_id s = ln_slot l) (receipt_slot status code)))) (\<lambda>_.
     rotation_commit flt ()))"

definition failed_slot :: "bool \<Rightarrow> string \<Rightarrow> rotation_slot \<Rightarrow> rotation_slot" where
  "failed_slot read_only code s =
     s\<lparr>sl_state := (if read_only then sl_state s else if sl_request s = None then SlotBlocked else ResultUncertain),
       sl_error := code, sl_owner := None, sl_token := None, sl_expires := None\<rparr>"

definition failure_open :: "removal_lease \<Rightarrow> instant \<Rightarrow> 'y rotation_db_scheme \<Rightarrow> rotation_slot \<Rightarrow> bool" where
  "failure_open l clock db s \<longleftrightarrow>
     sl_id s = ln_slot l \<and> sl_owner s = Some (ln_owner l) \<and> sl_token s = Some (ln_token l) \<and> sl_epoch s = ln_epoch l
     \<and> lease_valid clock s \<and> sl_state s \<noteq> AbsentVerified
     \<and> (ln_read_only l \<or> sl_state s \<noteq> SlotStopped
          \<and> list_ex (\<lambda>r. rv_preview r = sl_preview s \<and> rv_stopped_at r = None) (rotation_scopes db))"

definition finish_failure where
  "finish_failure (X :: ('y rotation_db_ext) rotation_tools) flt k (l :: removal_lease) code =
     tx_bind (stored (stmt flt 0 (\<lambda>db. update_slots (rx_clock X k 0) (failure_open l (rx_clock X k 0) db)
       (failed_slot (ln_read_only l) code) db))) (\<lambda>n.
     if n \<noteq> 1 then refuse ''slot_lease_stale'' else tx_return ())"

section \<open>Evidence\<close>

definition verified_slot :: "bool \<Rightarrow> bool \<Rightarrow> string \<Rightarrow> instant \<Rightarrow> rotation_slot \<Rightarrow> rotation_slot" where
  "verified_slot reconcile absent i clock s =
    (let released = (absent \<and> \<not> reconcile) in
     s\<lparr>sl_state := (if reconcile then SlotStopped else if absent then AbsentVerified else ResultUncertain),
       sl_verification := Some i, sl_absent_at := (if released then Some clock else None), sl_obligation := \<not> released,
       sl_error := (if reconcile then ''authorization_inactive'' else if absent then [] else ''member_still_present''),
       sl_owner := None, sl_token := None, sl_expires := None\<rparr>)"

definition commit_evidence where
  "commit_evidence H (X :: ('y rotation_db_ext) rotation_tools) flt k (gid :: nat \<Rightarrow> string) now owner (a :: removal_authorization) (l :: removal_lease) (b :: access_binding) (snapshot :: exact_snapshot) evidence absent =
     tx_bind (removal_lease_tx X flt k a l) (\<lambda>f.
     if lf_binding f \<noteq> b then refuse ''workspace_token_changed''
     else
       tx_bind (stored (stmt flt 201 (insert_evidence
         \<lparr>ve_id = gid 3, ve_slot = ln_slot l, ve_epoch = ln_epoch l, ve_digest = az_digest a, ve_exchange = bi_exchange b,
          ve_owner_evidence = evidence, ve_observed_at = rr_observed_at (es_fact snapshot), ve_members = rr_members (es_fact snapshot),
          ve_absent = absent\<rparr>))) (\<lambda>_.
       tx_bind (stored (stmt flt 202 (update_slots (rx_clock X k 202) (\<lambda>s. sl_id s = ln_slot l)
         (verified_slot (az_reconcile a) absent (gid 3) (rx_clock X k 202))))) (\<lambda>_.
       tx_bind (rotation_fact H flt (gid 230) now owner RotationRemovalVerified ''rotation_slot'' (ln_slot l) (gid 3) (gid 3)
         (az_workspace a) (RotationRemovalDetails (az_digest a) (ln_epoch l) absent)) (\<lambda>_.
       rotation_commit flt ()))))"

section \<open>The checks against the platform\<close>

fun discovery_fault :: "string list \<Rightarrow> discovered_workspace list \<Rightarrow> bool" where
  "discovery_fault seen [] \<longleftrightarrow> False"
| "discovery_fault seen (x # xs) \<longleftrightarrow>
     trim_space (dw_id x) = [] \<or> 255 < length (dw_id x) \<or> trim_space (dw_name x) = [] \<or> 120 < length (dw_name x)
     \<or> dw_access x \<notin> {''readable'', ''permission_denied'', ''unknown''}
     \<or> dw_role x \<notin> {[], ''owner'', ''admin'', ''member'', ''unknown''} \<or> dw_id x \<in> set seen
     \<or> discovery_fault (dw_id x # seen) xs"

definition valid_discovery :: "owner_discovery \<Rightarrow> bool" where
  "valid_discovery d \<longleftrightarrow> length (dv_workspaces d) \<le> 1000 \<and>
     (if dv_status d \<noteq> ''discovered''
      then dv_workspaces d = [] \<and> dv_status d \<in> {''session_expired'', ''discovery_failed'', ''permission_denied''}
      else \<not> discovery_fault [] (dv_workspaces d))"

definition removal_role :: "(owner_discovery \<Rightarrow> string) \<Rightarrow> string \<Rightarrow> owner_discovery option \<Rightarrow> string option" where
  "removal_role hash workspace answer =
    (case answer of
       None \<Rightarrow> None
     | Some d \<Rightarrow>
        if valid_discovery d \<and> dv_status d = ''discovered''
          \<and> list_ex (\<lambda>x. dw_id x = workspace \<and> dw_access x = ''readable'' \<and> dw_role x = ''owner'') (dv_workspaces d)
        then Some (hash d) else None)"

definition snapshot_current :: "instant \<Rightarrow> exact_snapshot \<Rightarrow> bool" where
  "snapshot_current clock s \<longleftrightarrow>
    (let f = es_fact s in
     rr_outcome f = Some Operational \<and> rr_completeness f = Complete \<and> rr_member_count f = Some (int (length (rr_members f)))
     \<and> es_declared s = int (length (rr_members f)) \<and> \<not> is_zero_time (rr_observed_at f)
     \<and> rr_observed_at f \<le> clock + second \<and> clock - 30 * second \<le> rr_observed_at f)"

text \<open>The observation after a stop: one account per alias, and whether any of them is the member.\<close>

fun claim_aliases ::
  "removal_lease \<Rightarrow> string \<Rightarrow> string list \<Rightarrow> (string \<times> string) list \<Rightarrow> bool \<Rightarrow> ((string \<times> string) list \<times> bool) option" where
  "claim_aliases l ident [] known present = Some (known, present)"
| "claim_aliases l ident (i # is) known present =
    (if i = [] then claim_aliases l ident is known present
     else if map_of known i \<notin> {None, Some ident} then None
     else if i = ln_member l \<and> ident \<noteq> ln_identifier l then None
     else claim_aliases l ident is ((i, ident) # known) (present \<or> i = ln_member l))"

fun observe_members ::
  "unicode \<Rightarrow> removal_lease \<Rightarrow> string list \<Rightarrow> (string \<times> string) list \<Rightarrow> bool \<Rightarrow> member list \<Rightarrow> bool option" where
  "observe_members U l names known present [] = Some present"
| "observe_members U l names known present (m # ms) =
    (let ident = member_identity U (pm_identifier m) in
     if pm_id m = [] \<or> ident = [] \<or> ident \<in> set names then None
     else case claim_aliases l ident [pm_id m, pm_account_user m] known present of
       None \<Rightarrow> None
     | Some (known', present') \<Rightarrow> observe_members U l (ident # names) known' (present' \<or> ident = ln_identifier l) ms)"

text \<open>The frozen roster without the slots this authorisation has released.\<close>

definition unreleased_roster :: "removal_authorization \<Rightarrow> 'y rotation_db_scheme \<Rightarrow> frozen_member list" where
  "unreleased_roster a db = filter (\<lambda>f. fz_verification f = az_verification a \<and> fz_kind f = ''member''
     \<and> \<not> list_ex (\<lambda>s. sl_preview s = az_preview a \<and> sl_member s = fz_id f \<and> sl_state s = AbsentVerified \<and> sl_verification s \<noteq> None)
          (rotation_slots db)) (rotation_frozen db)"

definition roster_conflict :: "frozen_member list \<Rightarrow> bool" where
  "roster_conflict fs \<longleftrightarrow> list_ex (\<lambda>f. fz_id f = []) fs \<or> \<not> distinct (map fz_id fs)"

fun match_members ::
  "unicode \<Rightarrow> removal_lease \<Rightarrow> string list \<Rightarrow> string list \<Rightarrow> frozen_member list \<Rightarrow> bool \<Rightarrow> member list
     \<Rightarrow> (string, frozen_member list \<times> bool) result" where
  "match_members U l names ids roster present [] = Inr (roster, present)"
| "match_members U l names ids roster present (m # ms) =
    (let ident = member_identity U (pm_identifier m); i = pm_id m; user = pm_account_user m in
     if pm_kind m \<noteq> ''member'' \<or> i = [] \<or> ident = [] \<or> ident \<in> set names \<or> i \<in> set ids \<or> (user \<noteq> [] \<and> user \<in> set ids)
     then Inl ''member_identity_conflict''
     else
       (case find (\<lambda>f. fz_id f = i) roster of
          None \<Rightarrow> Inl ''member_identity_or_seat_changed''
        | Some f \<Rightarrow>
           if ident \<noteq> fz_identifier f \<or> pm_seat_type m \<noteq> fz_seat f \<or> pm_role m \<noteq> fz_role f
           then Inl ''member_identity_or_seat_changed''
           else
             let target = (i = ln_member l \<or> user = ln_member l \<or> ident = ln_identifier l) in
             if target \<and> (i \<noteq> ln_member l \<or> ident \<noteq> ln_identifier l \<or> pm_seat_type m \<noteq> ln_seat l
                \<or> pm_role m \<in> {''owner'', ''admin''})
             then Inl ''member_identity_conflict''
             else match_members U l (ident # names) ((if user = [] then [] else [user]) @ i # ids)
               (filter (\<lambda>f. fz_id f \<noteq> i) roster) (present \<or> target) ms))"

definition check_roster :: "unicode \<Rightarrow> removal_lease \<Rightarrow> frozen_member list \<Rightarrow> member list \<Rightarrow> bool \<Rightarrow> (string, bool) result" where
  "check_roster U l roster ms allow_absent =
    (if roster_conflict roster then Inl ''member_identity_conflict''
     else case match_members U l [] [] roster False ms of
       Inl c \<Rightarrow> Inl c
     | Inr (left, present) \<Rightarrow>
        let left = (if allow_absent \<and> \<not> present then filter (\<lambda>f. fz_id f \<noteq> ln_member l) left else left) in
        if left \<noteq> [] \<or> (\<not> allow_absent \<and> \<not> present) then Inl ''frozen_roster_changed'' else Inr (\<not> present))"

definition check_snapshot ::
  "unicode \<Rightarrow> instant \<Rightarrow> bool \<Rightarrow> removal_authorization \<Rightarrow> removal_lease \<Rightarrow> exact_snapshot \<Rightarrow> bool \<Rightarrow> 'y rotation_db_scheme
     \<Rightarrow> (rotation_error, bool) result" where
  "check_snapshot U clock fault a l snapshot allow_absent db =
    (if \<not> snapshot_current clock snapshot then Inl (RotationFailure ''membership_snapshot_incomplete'')
     else if az_reconcile a then
       (case observe_members U l [] [] False (rr_members (es_fact snapshot)) of
          None \<Rightarrow> Inl (RotationFailure ''identity_conflict'') | Some present \<Rightarrow> Inr (\<not> present))
     else if fault then Inl (RotationStore ErrDriver)
     else
       (case check_roster U l (unreleased_roster a db) (rr_members (es_fact snapshot)) allow_absent of
          Inl c \<Rightarrow> Inl (RotationFailure c) | Inr absent \<Rightarrow> Inr absent))"

section \<open>One run of a slot\<close>

text \<open>
  The handler behind runRotationRemovalSlot, once its request is authenticated.  The log gets
  \<open>Verified\<close> for a read of the owner's role, \<open>Snapshot\<close> for one of the members,
  \<open>Announced\<close> for the committed reservation of the request and \<open>Removed\<close> for the request.
\<close>

datatype removal_reply = RemovalShown | RemovalRefused rotation_error | RemovalUnconfirmed

type_synonym 'y removal_prog = "('y rotation_db_ext, removal_reply) prog"

definition rotation_call ::
  "'z env \<Rightarrow> (nat \<Rightarrow> (rotation_error, 'z store_db_scheme, 'a) tx) \<Rightarrow> ('z, (rotation_error, 'a) result) prog" where
  "rotation_call N f = store_call N (\<lambda>k db. case f k db of Inl e \<Rightarrow> (Inr (Inl e), db) | Inr (x, db') \<Rightarrow> (Inr (Inr x), db'))"

text \<open>Go on with a result, or answer its error.\<close>

definition or_refuse ::
  "('z, (rotation_error, 'a) result) prog \<Rightarrow> ('a \<Rightarrow> ('z, removal_reply) prog) \<Rightarrow> ('z, removal_reply) prog" where
  "or_refuse m f = p_bind m (\<lambda>r. case r of Inl e \<Rightarrow> p_return (RemovalRefused e) | Inr x \<Rightarrow> f x)"

definition gate_step :: "'z rotation_tools \<Rightarrow> ('z, (rotation_error, unit) result) prog" where
  "gate_step X = (\<lambda>w. (Inr (case rx_gate X (wd_step w) of None \<Rightarrow> Inr () | Some e \<Rightarrow> Inl e), w\<lparr>wd_step := Suc (wd_step w)\<rparr>))"

definition fail_slot :: "('y rotation_db_ext) env \<Rightarrow> ('y rotation_db_ext) rotation_tools \<Rightarrow> removal_lease \<Rightarrow> string \<Rightarrow> 'y removal_prog" where
  "fail_slot N X l code =
     or_refuse (rotation_call N (\<lambda>k. finish_failure X (en_flt N k) k l code)) (\<lambda>_. p_return RemovalShown)"

definition owner_role ::
  "('y rotation_db_ext) env \<Rightarrow> ('y rotation_db_ext) rotation_tools \<Rightarrow> removal_lease \<Rightarrow> local_facts
     \<Rightarrow> (string \<Rightarrow> 'y removal_prog) \<Rightarrow> 'y removal_prog" where
  "owner_role N X l f rest =
     p_bind (if rx_discoverer X then send N Verified (\<lambda>k. removal_role (rx_hash X) (lf_platform f) (rx_discovery X k))
             else p_return None) (\<lambda>role.
     case role of None \<Rightarrow> fail_slot N X l ''workspace_owner_required'' | Some evidence \<Rightarrow> rest evidence)"

definition member_list ::
  "('y rotation_db_ext) env \<Rightarrow> ('y rotation_db_ext) rotation_tools \<Rightarrow> removal_lease
     \<Rightarrow> (exact_snapshot \<Rightarrow> 'y removal_prog) \<Rightarrow> 'y removal_prog" where
  "member_list N X l rest =
     p_bind (send N Snapshot (rx_members X)) (\<lambda>answer.
     case answer of None \<Rightarrow> fail_slot N X l ''membership_snapshot_incomplete'' | Some snapshot \<Rightarrow> rest snapshot)"

definition checked ::
  "('y rotation_db_ext) env \<Rightarrow> removal_authorization \<Rightarrow> removal_lease \<Rightarrow> exact_snapshot \<Rightarrow> bool
     \<Rightarrow> ('y rotation_db_ext, (rotation_error, bool) result) prog" where
  "checked N a l snapshot allow_absent =
     store_call N (\<lambda>k db. (Inr (check_snapshot (en_unicode N) (en_clock N k) (en_flt N k 0) a l snapshot allow_absent db), db))"

definition conclude_slot where
  "conclude_slot (N :: ('y rotation_db_ext) env) (X :: ('y rotation_db_ext) rotation_tools) owner (a :: removal_authorization) (l :: removal_lease) (f :: local_facts) (snapshot :: exact_snapshot) evidence absent =
     or_refuse (gate_step X) (\<lambda>_.
     or_refuse (rotation_call N (\<lambda>k. commit_evidence (en_hash N) X (en_flt N k) k (en_gid N k) (en_now N k) owner a l
       (lf_binding f) snapshot evidence absent)) (\<lambda>_.
     p_return RemovalShown))"

text \<open>After the request: its receipt, and a second look at the role and the members.\<close>

definition after_request where
  "after_request (N :: ('y rotation_db_ext) env) (X :: ('y rotation_db_ext) rotation_tools) owner (a :: removal_authorization) (l :: removal_lease) (f :: local_facts) answer =
    (let (failed, status, accepted) = answer;
         code = (if failed \<or> \<not> accepted then ''remote_result_uncertain'' else []) in
     or_refuse (rotation_call N (\<lambda>k. removal_receipt X (en_flt N k) k a l status code)) (\<lambda>_.
     if code \<noteq> [] then fail_slot N X l code
     else
       or_refuse (gate_step X) (\<lambda>_.
       owner_role N X l f (\<lambda>evidence.
       member_list N X l (\<lambda>snapshot.
       p_bind (checked N a l snapshot True) (\<lambda>r.
       case r of
         Inl _ \<Rightarrow> fail_slot N X l ''membership_verification_failed''
       | Inr absent \<Rightarrow> conclude_slot N X owner a l f snapshot evidence absent))))))"

definition dispatch_request where
  "dispatch_request (N :: ('y rotation_db_ext) env) (X :: ('y rotation_db_ext) rotation_tools) owner (a :: removal_authorization) (l :: removal_lease) (f :: local_facts) =
     or_refuse (gate_step X) (\<lambda>_.
     or_refuse (rotation_call N (\<lambda>k. reserve_request (en_hash N) X (en_flt N k) k (en_gid N k) (en_now N k) owner a l)) (\<lambda>l.
     p_bind (\<lambda>w. (Inr (), w\<lparr>wd_log := wd_log w @ [Announced ''remove_requested'']\<rparr>)) (\<lambda>_.
     p_bind (gate_step X) (\<lambda>probe.
     case probe of
       Inl _ \<Rightarrow> fail_slot N X l ''dispatch_gate_lost''
     | Inr _ \<Rightarrow> p_bind (send N (Removed (ln_member l)) (rx_delete X)) (after_request N X owner a l f)))))"

definition failure_code :: "rotation_error \<Rightarrow> string" where
  "failure_code e = (case e of RotationFailure c \<Rightarrow> c | RotationStore _ \<Rightarrow> ''membership_verification_failed'')"

definition run_lease where
  "run_lease (N :: ('y rotation_db_ext) env) (X :: ('y rotation_db_ext) rotation_tools) owner (a :: removal_authorization) (l :: removal_lease) (f :: local_facts) =
     or_refuse (gate_step X) (\<lambda>_.
     owner_role N X l f (\<lambda>evidence.
     member_list N X l (\<lambda>snapshot.
     p_bind (checked N a l snapshot (ln_requested l)) (\<lambda>r.
     case r of
       Inl e \<Rightarrow> fail_slot N X l (failure_code e)
     | Inr absent \<Rightarrow>
        if ln_requested l then conclude_slot N X owner a l f snapshot evidence absent
        else dispatch_request N X owner a l f))))"

definition observation_only :: "instant \<Rightarrow> string \<Rightarrow> 'y rotation_db_scheme \<Rightarrow> bool option" where
  "observation_only clock p db =
     Option.bind (find (\<lambda>r. rv_preview r = p) (rotation_scopes db)) (\<lambda>r.
     map_option (\<lambda>q. rv_stopped_at r \<noteq> None \<or> \<not> preview_active clock q
         \<or> list_ex (\<lambda>(x, v). map_of (rotation_epochs db) x \<noteq> Some v) (pv_epochs q))
       (find (\<lambda>q. pv_id q = rv_preview r) (rotation_previews db)))"

definition authorization_mode where
  "authorization_mode (N :: ('y rotation_db_ext) env) (X :: ('y rotation_db_ext) rotation_tools) p observing (a :: removal_authorization) =
    (if observing
     then rotation_call N (\<lambda>k. tx_bind (rotation_row (en_flt N k) 0 (observation_only (rx_clock X k 0) p)) (\<lambda>b.
       tx_return (a\<lparr>az_reconcile := b\<rparr>)))
     else p_return (Inr a))"

definition run_removal_slot where
  "run_removal_slot (N :: ('y rotation_db_ext) env) (X :: ('y rotation_db_ext) rotation_tools) owner session confirmed p slot observing =
    (if \<not> confirmed then p_return RemovalUnconfirmed
     else
       or_refuse (rotation_call N (\<lambda>k db. case rx_load X k db of Inl e \<Rightarrow> Inl e | Inr a \<Rightarrow> Inr (a, db))) (\<lambda>a.
       if \<not> rx_remover X then p_return (RemovalRefused (RotationFailure ''removal_adapter_unavailable''))
       else
         or_refuse (gate_step X) (\<lambda>_.
         or_refuse (authorization_mode N X p observing a) (\<lambda>a.
         p_bind (rotation_call N (\<lambda>k. claim_removal_slot X (en_flt N k) k (en_gid N k) (en_clock N k) session slot observing a)) (\<lambda>r.
         case r of
           Inl e \<Rightarrow> p_return (if e = RotationFailure ''slot_already_verified'' then RemovalShown else RemovalRefused e)
         | Inr (l, f) \<Rightarrow> run_lease N X owner a l f)))))"

section \<open>Starting and stopping a removal\<close>

text \<open>The handlers behind StartRotationRemoval and StopRotationRemoval, once their requests are authenticated.\<close>

definition start_removal where
  "start_removal (N :: ('y rotation_db_ext) env) (X :: ('y rotation_db_ext) rotation_tools) owner session corr confirmed key digest p =
    (if \<not> confirmed \<or> key = nil_id \<or> length digest \<noteq> 64 then p_return RemovalUnconfirmed
     else
       or_refuse (rotation_call N (\<lambda>k db. case rx_load X k db of Inl e \<Rightarrow> Inl e | Inr a \<Rightarrow> Inr (a, db))) (\<lambda>a.
       if az_digest a \<noteq> digest then p_return (RemovalRefused (RotationFailure ''authorization_digest_changed''))
       else
         or_refuse (gate_step X) (\<lambda>_.
         or_refuse (rotation_call N (\<lambda>k. stored (stmt (en_flt N k) 0 (tx_read (\<lambda>db. find (\<lambda>r. rv_preview r = p) (rotation_scopes db)))))) (\<lambda>found.
         case found of
           Some r \<Rightarrow> p_return (if rv_key r \<noteq> key then RemovalRefused (RotationFailure ''idempotency_conflict'') else RemovalShown)
         | None \<Rightarrow>
            or_refuse (rotation_call N (\<lambda>k. start_tx (en_hash N) X (en_flt N k) k (en_gid N k) (en_now N k) owner session corr key a))
              (\<lambda>_. p_return RemovalShown)))))"

definition stop_removal where
  "stop_removal (N :: ('y rotation_db_ext) env) (X :: ('y rotation_db_ext) rotation_tools) owner corr confirmed p =
    (if \<not> confirmed then p_return RemovalUnconfirmed
     else
       or_refuse (rotation_call N (\<lambda>k. rotation_row (en_flt N k) 0
         (\<lambda>db. find (\<lambda>q. pv_id q = p \<and> pv_owner q = owner) (rotation_previews db)))) (\<lambda>q.
       or_refuse (gate_step X) (\<lambda>_.
       or_refuse (rotation_call N (\<lambda>k. stop_tx (en_hash N) X (en_flt N k) k (en_gid N k) (en_now N k) owner corr (pv_workspace q) p))
         (\<lambda>_. p_return RemovalShown))))"

end
