(* ===== verification/RotationLaws.thy ===== *)
theory RotationLaws
  imports RotationRemoval WorkerLaws
begin

text \<open>
  What the removal of the authorised members guarantees: a member list that passes the check is the
  frozen roster, a slot gets one request whoever runs it and however often, a slot is released on
  evidence only, and a request leaves a run only behind the reservation.
\<close>

section \<open>The roster\<close>

definition live_key :: "unicode \<Rightarrow> member \<Rightarrow> string \<times> string \<times> string \<times> string" where
  "live_key U m = (pm_id m, member_identity U (pm_identifier m), pm_seat_type m, pm_role m)"

definition frozen_key :: "frozen_member \<Rightarrow> string \<times> string \<times> string \<times> string" where
  "frozen_key f = (fz_id f, fz_identifier f, fz_seat f, fz_role f)"

definition names_member :: "unicode \<Rightarrow> removal_lease \<Rightarrow> member \<Rightarrow> bool" where
  "names_member U l m \<longleftrightarrow>
     pm_id m = ln_member l \<or> pm_account_user m = ln_member l \<or> member_identity U (pm_identifier m) = ln_identifier l"

definition is_removable :: "unicode \<Rightarrow> removal_lease \<Rightarrow> member \<Rightarrow> bool" where
  "is_removable U l m \<longleftrightarrow> pm_id m = ln_member l \<and> member_identity U (pm_identifier m) = ln_identifier l
     \<and> pm_seat_type m = ln_seat l \<and> pm_role m \<notin> {''owner'', ''admin''}"

lemma match_step:
  assumes "match_members U l names ids roster present (m # ms) = Inr (left, p)"
  obtains f where "find (\<lambda>f. fz_id f = pm_id m) roster = Some f" and "frozen_key f = live_key U m"
    and "pm_kind m = ''member''" and "pm_id m \<notin> set ids" and "names_member U l m \<Longrightarrow> is_removable U l m"
    and "match_members U l (member_identity U (pm_identifier m) # names)
           ((if pm_account_user m = [] then [] else [pm_account_user m]) @ pm_id m # ids)
           (filter (\<lambda>f. fz_id f \<noteq> pm_id m) roster) (present \<or> names_member U l m) ms = Inr (left, p)"
proof -
  obtain f where f: "find (\<lambda>f. fz_id f = pm_id m) roster = Some f"
    using assms by (cases "find (\<lambda>f. fz_id f = pm_id m) roster") (auto simp: Let_def split: if_splits)
  then have i: "fz_id f = pm_id m" by (auto simp: find_Some_iff)
  show thesis
    using assms i by (intro that [of f]) (auto simp: f Let_def frozen_key_def live_key_def names_member_def is_removable_def split: if_splits)
qed

lemma match_members_exact:
  assumes "match_members U l names ids roster present ms = Inr (left, p)"
  shows "left = filter (\<lambda>f. fz_id f \<notin> pm_id ` set ms) roster"
    and "p \<longleftrightarrow> present \<or> (\<exists>m\<in>set ms. names_member U l m)"
    and "\<forall>m\<in>set ms. pm_kind m = ''member'' \<and> (names_member U l m \<longrightarrow> is_removable U l m)"
    and "distinct (map pm_id ms)" and "\<forall>m\<in>set ms. pm_id m \<notin> set ids"
    and "\<forall>m\<in>set ms. \<exists>f\<in>set roster. frozen_key f = live_key U m"
  using assms
proof (induction ms arbitrary: names ids roster present)
  case (Cons m ms)
  {
    case 1
    show ?case by (rule match_step [OF 1], drule Cons.IH(1), simp)
  next
    case 2
    show ?case by (rule match_step [OF 2], drule Cons.IH(2), auto)
  next
    case 3
    show ?case by (rule match_step [OF 3], drule Cons.IH(3), simp)
  next
    case 4
    show ?case by (rule match_step [OF 4], frule Cons.IH(4), drule Cons.IH(5), auto)
  next
    case 5
    show ?case by (rule match_step [OF 5], drule Cons.IH(5), simp)
  next
    case 6
    show ?case by (rule match_step [OF 6], drule Cons.IH(6)) (auto simp: find_Some_iff)
  }
qed simp_all

lemma check_roster_exact:
  assumes "check_roster U l roster ms allow = Inr absent"
  shows "live_key U ` set ms = frozen_key ` {f \<in> set roster. absent \<longrightarrow> fz_id f \<noteq> ln_member l}" (is ?same)
    and "distinct (map pm_id ms)" (is ?once)
    and "absent \<Longrightarrow> allow" (is "_ \<Longrightarrow> ?allowed")
    and "absent \<longleftrightarrow> \<not> (\<exists>m\<in>set ms. names_member U l m)" (is ?gone)
    and "\<forall>m\<in>set ms. names_member U l m \<longrightarrow> is_removable U l m" (is ?proper)
proof -
  obtain left p where m: "match_members U l [] [] roster False ms = Inr (left, p)" and ids: "distinct (map fz_id roster)"
    and a: "absent \<longleftrightarrow> \<not> p" and al: "absent \<Longrightarrow> allow"
    and none: "(if allow \<and> \<not> p then filter (\<lambda>f. fz_id f \<noteq> ln_member l) left else left) = []"
    using assms by (auto simp: check_roster_def roster_conflict_def Let_def split: sum.splits if_splits prod.splits)
  note x = match_members_exact [OF m]
  show ?once by (rule x(4))
  show ?gone using a x(2) by simp
  show ?proper using x(3) by blast
  show "absent \<Longrightarrow> ?allowed" by (rule al)
  have id_of: "pm_id m = fz_id f" if "frozen_key f = live_key U m" for f m using that by (simp add: frozen_key_def live_key_def)
  have found: "fz_id f \<in> pm_id ` set ms" if "f \<in> set roster" and n: "absent \<longrightarrow> fz_id f \<noteq> ln_member l" for f
  proof (rule ccontr)
    assume "\<not> ?thesis"
    then have f: "f \<in> set left" using that(1) unfolding x(1) by simp
    have "f \<in> set (if allow \<and> \<not> p then filter (\<lambda>f. fz_id f \<noteq> ln_member l) left else left)"
      using f n a by simp
    then show False unfolding none by simp
  qed
  show ?same
  proof (rule set_eqI, rule iffI)
    fix y assume "y \<in> live_key U ` set ms"
    then obtain m where m: "m \<in> set ms" "y = live_key U m" by blast
    moreover then obtain f where f: "f \<in> set roster" "frozen_key f = live_key U m" using x(6) by blast
    moreover have "absent \<longrightarrow> fz_id f \<noteq> ln_member l"
      using m(1) id_of [OF f(2)] \<open>?gone\<close> by (auto simp: names_member_def)
    ultimately show "y \<in> frozen_key ` {f \<in> set roster. absent \<longrightarrow> fz_id f \<noteq> ln_member l}" by force
  next
    fix y assume "y \<in> frozen_key ` {f \<in> set roster. absent \<longrightarrow> fz_id f \<noteq> ln_member l}"
    then obtain f where f: "f \<in> set roster" "absent \<longrightarrow> fz_id f \<noteq> ln_member l" "y = frozen_key f" by blast
    then obtain m where m: "m \<in> set ms" "pm_id m = fz_id f" using found by force
    then obtain g where g: "g \<in> set roster" "frozen_key g = live_key U m" using x(6) by blast
    then have "fz_id g = fz_id f" using id_of m(2) by metis
    then have "g = f" using ids f(1) g(1) by (auto simp: distinct_map dest: inj_onD)
    then show "y \<in> live_key U ` set ms" using g(2) m(1) f(3) by (metis image_eqI)
  qed
qed

text \<open>
  C35: A member list passes the strict check only if it is the frozen roster: its members' ids,
  identities, seats and roles are those of the members not yet released, each once, except for the
  member of the slot when it is found absent; absence is found only where it is allowed and no alias
  of the member is left; and whatever names the member is the removable member itself.
\<close>

theorem accepted_snapshot_is_frozen_roster:
  assumes "check_snapshot U clock fault a l snapshot allow db = Inr absent" and "\<not> az_reconcile a"
  shows "live_key U ` set (rr_members (es_fact snapshot))
      = frozen_key ` {f \<in> set (unreleased_roster a db). absent \<longrightarrow> fz_id f \<noteq> ln_member l}
    \<and> distinct (map pm_id (rr_members (es_fact snapshot)))
    \<and> (absent \<longleftrightarrow> allow \<and> \<not> (\<exists>m\<in>set (rr_members (es_fact snapshot)). names_member U l m))
    \<and> (\<forall>m\<in>set (rr_members (es_fact snapshot)). names_member U l m \<longrightarrow> is_removable U l m)
    \<and> snapshot_current clock snapshot"
proof -
  have c: "check_roster U l (unreleased_roster a db) (rr_members (es_fact snapshot)) allow = Inr absent"
    and "snapshot_current clock snapshot"
    using assms by (auto simp: check_snapshot_def split: if_splits sum.splits)
  with check_roster_exact [OF c] show ?thesis by metis
qed

section \<open>What every transaction keeps\<close>

definition evidence_of_absence :: "'y rotation_db_scheme \<Rightarrow> rotation_slot \<Rightarrow> bool" where
  "evidence_of_absence db s \<longleftrightarrow> (\<exists>e\<in>set (rotation_evidences db). ve_slot e = sl_id s \<and> ve_absent e)"

definition discharged :: "rotation_slot \<Rightarrow> bool" where
  "discharged s \<longleftrightarrow> sl_state s = AbsentVerified \<or> (sl_request s \<noteq> None \<and> \<not> sl_obligation s)"

definition slots_sound :: "'y rotation_db_scheme \<Rightarrow> bool" where
  "slots_sound db \<longleftrightarrow> distinct (map sl_id (rotation_slots db)) \<and> list_all slot_ok (rotation_slots db)
     \<and> (\<forall>s\<in>set (rotation_slots db). discharged s \<longrightarrow> evidence_of_absence db s)"

definition slots_follow :: "'y rotation_db_scheme \<Rightarrow> 'y rotation_db_scheme \<Rightarrow> bool" where
  "slots_follow db db' \<longleftrightarrow> set (rotation_evidences db) \<subseteq> set (rotation_evidences db')
     \<and> (slots_sound db \<longrightarrow> slots_sound db' \<and> (\<forall>s\<in>set (rotation_slots db). \<exists>t\<in>set (rotation_slots db').
          same_slot s t \<and> (sl_request s \<noteq> None \<longrightarrow> sl_request t = sl_request s)))"

lemma same_slot_trans: "same_slot s t \<Longrightarrow> same_slot t u \<Longrightarrow> same_slot s u"
  by (simp add: same_slot_def)

lemma slots_follow_trans: "slots_follow s t \<Longrightarrow> slots_follow t u \<Longrightarrow> slots_follow s u"
proof -
  assume a: "slots_follow s t" and b: "slots_follow t u"
  have "\<exists>z\<in>set (rotation_slots u). same_slot x z \<and> (sl_request x \<noteq> None \<longrightarrow> sl_request z = sl_request x)"
    if x: "slots_sound s" "x \<in> set (rotation_slots s)" for x
  proof -
    obtain y where y: "y \<in> set (rotation_slots t)" "same_slot x y" "sl_request x \<noteq> None \<longrightarrow> sl_request y = sl_request x"
      using a x by (fastforce simp: slots_follow_def)
    moreover obtain z where "z \<in> set (rotation_slots u)" "same_slot y z" "sl_request y \<noteq> None \<longrightarrow> sl_request z = sl_request y"
      using a b x(1) y(1) by (fastforce simp: slots_follow_def)
    ultimately show ?thesis using same_slot_trans by (metis option.distinct(1))
  qed
  then show ?thesis using a b by (auto simp: slots_follow_def)
qed

interpretation slot_order: transition_order slots_follow
proof
  show "slots_follow s s" for s :: "'y rotation_db_scheme"
    by (auto simp: slots_follow_def same_slot_def)
qed (rule slots_follow_trans)

lemma slots_follow_frame:
  "rotation_slots db' = rotation_slots db \<Longrightarrow> set (rotation_evidences db) \<subseteq> set (rotation_evidences db') \<Longrightarrow> slots_follow db db'"
  by (simp add: slots_follow_def slots_sound_def evidence_of_absence_def same_slot_def) blast

text \<open>An update is honest if it discharges a slot only by calling it absent.\<close>

definition honest :: "(rotation_slot \<Rightarrow> rotation_slot) \<Rightarrow> bool" where
  "honest f \<longleftrightarrow> (\<forall>s. discharged (f s) \<longrightarrow> sl_state (f s) = AbsentVerified \<or> (sl_request s \<noteq> None \<and> \<not> sl_obligation s))"

lemma honest_updates:
  "honest stopped_slot" "honest (claimed_slot r own tok e)" "honest (requested_slot i clock)" "honest (receipt_slot status code)"
  "honest (failed_slot ro code)" "honest (verified_slot rec absent i clock)"
  by (auto simp: honest_def discharged_def stopped_slot_def claimed_slot_def requested_slot_def receipt_slot_def failed_slot_def
      verified_slot_def Let_def)

lemma update_slots_follow:
  assumes "honest f" and run: "update_slots clock P f db = Inr (n, db')"
  shows "slots_follow db db'"
proof -
  let ?f = "\<lambda>s. if P s then f s else s"
  have db': "db' = db\<lparr>rotation_slots := map ?f (rotation_slots db)\<rparr>"
    and each: "\<And>s. s \<in> set (rotation_slots db) \<Longrightarrow> P s \<Longrightarrow> slot_ok (f s) \<and> slot_change_ok clock db s (f s)"
    using run by (auto simp: update_slots_def update_where_def list_all_iff Let_def split: if_splits)
  have same: "same_slot s (?f s)" "sl_request s \<noteq> None \<Longrightarrow> sl_request (?f s) = sl_request s" if "s \<in> set (rotation_slots db)" for s
    using each [OF that] by (auto simp: slot_change_ok_def same_slot_def)
  have proven: "evidence_of_absence db' (?f s)"
    if sound: "slots_sound db" and s: "s \<in> set (rotation_slots db)" and d: "discharged (?f s)" for s
  proof (cases "P s \<and> sl_state (f s) = AbsentVerified")
    case True
    then have "absence_proven clock db (f s)" using each [OF s] by (simp add: slot_change_ok_def)
    then show ?thesis using True by (auto simp: absence_proven_def evidence_of_absence_def list_ex_iff db')
  next
    case False
    then have "discharged s" using d assms by (auto simp: honest_def discharged_def split: if_splits)
    then have "evidence_of_absence db s" using sound s by (simp add: slots_sound_def)
    moreover have "sl_id (?f s) = sl_id s" using same(1) [OF s] by (simp add: same_slot_def)
    ultimately show ?thesis by (simp add: evidence_of_absence_def db')
  qed
  have ids: "map sl_id (map ?f (rotation_slots db)) = map sl_id (rotation_slots db)"
    using same(1) by (auto simp: same_slot_def)
  have "slots_sound db'" if sound: "slots_sound db"
    unfolding slots_sound_def
  proof (intro conjI)
    show "distinct (map sl_id (rotation_slots db'))" using sound ids by (simp add: slots_sound_def db' del: map_map)
    show "list_all slot_ok (rotation_slots db')" using sound each by (auto simp: slots_sound_def db' list_all_iff)
    show "\<forall>s\<in>set (rotation_slots db'). discharged s \<longrightarrow> evidence_of_absence db' s"
    proof (intro ballI impI)
      fix t assume "t \<in> set (rotation_slots db')" and d: "discharged t"
      then obtain s where "s \<in> set (rotation_slots db)" and t: "t = ?f s" by (auto simp: db')
      then show "evidence_of_absence db' t" using proven [OF sound, of s] d by simp
    qed
  qed
  moreover have "\<exists>t\<in>set (rotation_slots db'). same_slot s t \<and> (sl_request s \<noteq> None \<longrightarrow> sl_request t = sl_request s)"
    if s: "s \<in> set (rotation_slots db)" for s
    using same [OF s] s by (intro bexI [of _ "?f s"]) (simp_all add: db')
  ultimately show ?thesis by (auto simp: slots_follow_def db')
qed

lemma keeps_update_slots: "honest f \<Longrightarrow> keeps slots_follow (update_slots clock P f)"
  unfolding keeps_def by (metis update_slots_follow)

lemma insert_slot_follow:
  assumes "\<not> discharged s" and run: "insert_slot s db = Inr (u, db')"
  shows "slots_follow db db'"
proof -
  have db': "db' = db\<lparr>rotation_slots := rotation_slots db @ [s]\<rparr>" and ok: "slot_ok s"
    and new: "sl_id s \<notin> sl_id ` set (rotation_slots db)"
    using run by (auto simp: insert_slot_def list_ex_iff split: if_splits)
  have "evidence_of_absence db' t \<longleftrightarrow> evidence_of_absence db t" for t by (simp add: db' evidence_of_absence_def)
  then have "slots_sound db \<Longrightarrow> slots_sound db'" using assms(1) ok new by (auto simp: slots_sound_def db')
  then show ?thesis by (auto simp: slots_follow_def db' same_slot_def)
qed

lemma keeps_insert_slot: "\<not> discharged s \<Longrightarrow> keeps slots_follow (insert_slot s)"
  unfolding keeps_def by (metis insert_slot_follow)

lemma keeps_frame:
  assumes "\<And>db x db'. m db = Inr (x, db') \<Longrightarrow>
     rotation_slots db' = rotation_slots db \<and> set (rotation_evidences db) \<subseteq> set (rotation_evidences db')"
  shows "keeps slots_follow m"
  using assms slots_follow_frame unfolding keeps_def by blast

lemma fenced_facts_Inr: "fenced_facts X flt k a db = Inr (f, db') \<Longrightarrow> db' = db"
  by (auto simp: fenced_facts_def removal_facts_def tx_simps Let_def split: sum.splits if_splits)

lemma keeps_reads:
  "keeps slots_follow (fenced_facts X flt k a)" "keeps slots_follow (tx_read g)" "keeps slots_follow (refuse c)"
  "keeps slots_follow (rotation_row flt k q)" "keeps slots_follow (rotation_commit flt x)"
  by (rule keeps_frame; auto simp: rotation_row_def rotation_commit_def tx_simps select_row_Inr stmt_Inr dest: fenced_facts_Inr)+

lemma keeps_writes:
  "keeps slots_follow (insert_scope r)" "keeps slots_follow (stop_scope p clock)" "keeps slots_follow (insert_evidence e)"
  by (rule keeps_frame; auto simp: insert_scope_def stop_scope_def insert_evidence_def split: if_splits)+

lemma slots_fact: "keeps slots_follow (rotation_fact H flt gid now owner ty entity i corr key workspace d)"
  by (rule keeps_frame) (auto simp: rotation_fact_def tx_simps dest!: audit_fact_Inr)

lemma keeps_stored: "keeps R m \<Longrightarrow> keeps R (stored m)"
  by (simp add: keeps_def stored_Inr)

lemmas slots_intros =
  slot_order.keeps_bind slot_order.keeps_return slot_order.keeps_stmt keeps_stored keeps_reads keeps_writes slots_fact
  keeps_update_slots honest_updates keeps_insert_slot

lemma slots_failure: "keeps slots_follow (finish_failure X flt k l code)"
proof -
  have "keeps slots_follow (\<lambda>db. update_slots clock (failure_open l clock db) (failed_slot ro code) db)" for clock ro
    unfolding keeps_def by (metis update_slots_follow honest_updates(5))
  then show ?thesis
    unfolding finish_failure_def by (intro slot_order.keeps_bind keeps_stored slot_order.keeps_stmt) (auto intro: keeps_reads slot_order.keeps_return)
qed

lemma fresh_not_discharged: "\<not> discharged (fresh_slot a i x)"
  by (simp add: discharged_def fresh_slot_def Let_def)

lemma keeps_start_slots: "keeps slots_follow (start_slots flt gid a k xs)"
  by (induction xs arbitrary: k) (auto intro!: slots_intros fresh_not_discharged)

lemma keeps_lease_tx: "keeps slots_follow (removal_lease_tx X flt k a l)"
  unfolding removal_lease_tx_def by (auto intro!: slots_intros)

lemma keeps_take_slot: "keeps slots_follow (take_slot X flt k gid process session a s f)"
  unfolding take_slot_def Let_def by (auto intro!: slots_intros)

lemma keeps_operations:
  "keeps slots_follow (start_tx H X flt k gid now owner session corr key a)"
  "keeps slots_follow (stop_tx H X flt k gid now owner corr workspace p)"
  "keeps slots_follow (claim_removal_slot X flt k gid process session slot observing a)"
  "keeps slots_follow (reserve_request H X flt k gid now owner a l)"
  "keeps slots_follow (removal_receipt X flt k a l status code)"
  "keeps slots_follow (commit_evidence H X flt k gid now owner a l b snapshot evidence absent)"
  unfolding start_tx_def stop_tx_def claim_removal_slot_def reserve_request_def removal_receipt_def commit_evidence_def
  by (auto intro!: slots_intros keeps_start_slots keeps_take_slot keeps_lease_tx split: option.split simp: Let_def)

section \<open>Every interleaving of the operations\<close>

text \<open>
  A step is one committed transaction of the package, with whatever the outside gave it, or a
  change of another table by anyone else.
\<close>

datatype rotation_event = Reserving string | Quiet

inductive rotation_step :: "'y rotation_db_scheme \<Rightarrow> rotation_event \<Rightarrow> 'y rotation_db_scheme \<Rightarrow> bool" where
  starting: "start_tx H (X :: ('y rotation_db_ext) rotation_tools) flt k gid now owner session corr key a db = Inr (u, db') \<Longrightarrow> rotation_step db Quiet db'"
| stopping: "stop_tx H (X :: ('y rotation_db_ext) rotation_tools) flt k gid now owner corr workspace p db = Inr (u, db') \<Longrightarrow> rotation_step db Quiet db'"
| claiming: "claim_removal_slot (X :: ('y rotation_db_ext) rotation_tools) flt k gid process session slot observing a db = Inr (c, db') \<Longrightarrow> rotation_step db Quiet db'"
| reserving: "reserve_request H (X :: ('y rotation_db_ext) rotation_tools) flt k gid now owner a l db = Inr (l', db') \<Longrightarrow> rotation_step db (Reserving (ln_slot l)) db'"
| receiving: "removal_receipt (X :: ('y rotation_db_ext) rotation_tools) flt k a l status code db = Inr (u, db') \<Longrightarrow> rotation_step db Quiet db'"
| failing: "finish_failure (X :: ('y rotation_db_ext) rotation_tools) flt k l code db = Inr (u, db') \<Longrightarrow> rotation_step db Quiet db'"
| proving: "commit_evidence H (X :: ('y rotation_db_ext) rotation_tools) flt k gid now owner a l b snapshot evidence absent db = Inr (u, db') \<Longrightarrow> rotation_step db Quiet db'"
| outside: "rotation_slots db' = rotation_slots db \<Longrightarrow> set (rotation_evidences db) \<subseteq> set (rotation_evidences db') \<Longrightarrow> rotation_step db Quiet db'"

inductive rotation_trace :: "'y rotation_db_scheme \<Rightarrow> rotation_event list \<Rightarrow> 'y rotation_db_scheme \<Rightarrow> bool" where
  trace_none: "rotation_trace db [] db"
| trace_more: "rotation_trace db es db1 \<Longrightarrow> rotation_step db1 e db2 \<Longrightarrow> rotation_trace db (es @ [e]) db2"

inductive_cases rotation_stepE: "rotation_step db e db'"

lemma keepsD: "keeps R m \<Longrightarrow> m db = Inr (x, db') \<Longrightarrow> R db db'"
  by (simp add: keeps_def)

lemma step_follows: "rotation_step db e db' \<Longrightarrow> slots_follow db db'"
  by (induction rule: rotation_step.induct) (auto dest: keeps_operations [THEN keepsD] slots_failure [THEN keepsD] intro: slots_follow_frame)

lemma trace_follows: "rotation_trace db es db' \<Longrightarrow> slots_follow db db'"
  by (induction rule: rotation_trace.induct) (auto intro: slot_order.stays slots_follow_trans step_follows)

lemma removal_lease_tx_Inr:
  "removal_lease_tx X flt k a l db = Inr (f, db') \<Longrightarrow> db' = db \<and> list_ex (lease_held a l (rx_clock X k 200) db) (rotation_slots db)"
  by (auto simp: removal_lease_tx_def tx_simps stored_Inr stmt_Inr refuse_Inr dest: fenced_facts_Inr split: if_splits)

lemma reserve_request_Inr:
  assumes "reserve_request H X flt k gid now owner a l db = Inr (l', db')"
  shows "length (filter (\<lambda>s. sl_id s = ln_slot l \<and> sl_request s = None) (rotation_slots db)) = 1"
    and "list_ex (lease_held a l (rx_clock X k 200) db) (rotation_slots db)"
    and "rotation_slots db' = update_where (\<lambda>s. sl_id s = ln_slot l \<and> sl_request s = None)
           (requested_slot (gid 2) (rx_clock X k 201)) (rotation_slots db)"
    and "l' = l\<lparr>ln_request := Some (gid 2), ln_requested := True\<rparr>"
  using assms
  by (auto simp: reserve_request_def rotation_commit_def rotation_fact_def tx_simps stored_Inr stmt_Inr refuse_Inr update_slots_def
      Let_def dest!: removal_lease_tx_Inr audit_fact_Inr split: if_splits)

definition requested :: "string \<Rightarrow> 'y rotation_db_scheme \<Rightarrow> bool" where
  "requested i db \<longleftrightarrow> (\<exists>s\<in>set (rotation_slots db). sl_id s = i \<and> sl_request s \<noteq> None)"

lemma requested_follows: "slots_follow db db' \<Longrightarrow> slots_sound db \<Longrightarrow> requested i db \<Longrightarrow> requested i db'"
  unfolding requested_def slots_follow_def same_slot_def by fastforce

lemma reserving_requests:
  assumes "rotation_step db (Reserving i) db'" and sound: "slots_sound db"
  shows "\<not> requested i db" and "requested i db'"
proof -
  from assms(1) obtain H X flt k gid now owner a l l' where i: "i = ln_slot l"
    and run: "reserve_request H X flt k gid now owner a l db = Inr (l', db')" by (auto elim: rotation_stepE)
  note r = reserve_request_Inr [OF run]
  obtain s where s: "s \<in> set (rotation_slots db)" "sl_id s = i" "sl_request s = None"
    using r(1) i by (metis (mono_tags, lifting) One_nat_def filter_False length_0_conv list.size(3) n_not_Suc_n)
  then show "\<not> requested i db" using sound by (force simp: requested_def slots_sound_def distinct_map dest: inj_onD)
  let ?t = "requested_slot (gid 2) (rx_clock X k 201) s"
  have t: "?t \<in> set (rotation_slots db')" using s by (auto simp: r(3) update_where_def i)
  have "sl_id ?t = i \<and> sl_request ?t \<noteq> None" using s(2) by (simp add: requested_slot_def)
  with t show "requested i db'" unfolding requested_def by blast
qed

lemma requests_counted:
  assumes "rotation_trace db es db'" and "slots_sound db"
  shows "count_list es (Reserving i) \<le> (if requested i db' \<and> \<not> requested i db then 1 else 0)"
  using assms
proof (induction rule: rotation_trace.induct)
  case (trace_more db es db1 e db2)
  have sound: "slots_sound db1" using trace_follows [OF trace_more.hyps(1)] trace_more.prems by (simp add: slots_follow_def)
  have kept: "requested i db1 \<Longrightarrow> requested i db2" using step_follows [OF trace_more.hyps(2)] sound by (rule requested_follows)
  have before: "requested i db \<Longrightarrow> requested i db1"
    using trace_follows [OF trace_more.hyps(1)] trace_more.prems by (rule requested_follows)
  note IH = trace_more.IH [OF trace_more.prems]
  show ?case
  proof (cases "e = Reserving i")
    case True
    then show ?thesis using reserving_requests [of db1 i db2] trace_more.hyps(2) sound IH before by auto
  next
    case False
    then show ?thesis using IH kept by (auto split: if_splits)
  qed
qed simp

text \<open>
  C7: Whatever transactions of whatever runs are committed and in whatever order, with anything
  else the outside writes between them, at most one request is ever reserved for a slot, and none
  for a slot that already had one.
\<close>

theorem slot_requested_once:
  assumes "rotation_trace db es db'" and "slots_sound db"
  shows "count_list es (Reserving i) \<le> 1 \<and> (requested i db \<longrightarrow> count_list es (Reserving i) = 0)"
  using requests_counted [OF assms, of i] by (auto split: if_splits)


section \<open>What a run sends\<close>

definition removals :: "'z world \<Rightarrow> string list" where
  "removals w = List.map_filter (\<lambda>a. case a of Removed m \<Rightarrow> Some m | _ \<Rightarrow> None) (wd_log w)"

definition calm :: "('z, 'a) prog \<Rightarrow> bool" where
  "calm m \<longleftrightarrow> (\<forall>w. removals (snd (m w)) = removals w)"

lemma removals_more [simp]:
  "removals (w\<lparr>wd_step := n\<rparr>) = removals w" "removals (w\<lparr>wd_db := db\<rparr>) = removals w"
  "removals (w\<lparr>wd_log := wd_log v @ [a]\<rparr>) = removals v @ (case a of Removed m \<Rightarrow> [m] | _ \<Rightarrow> [])"
  by (simp_all add: removals_def List.map_filter_def split: action.splits)

lemma calm_return: "calm (p_return x)"
  by (simp add: calm_def p_return_def)

lemma calm_bind: "calm m \<Longrightarrow> (\<And>x. calm (f x)) \<Longrightarrow> calm (p_bind m f)"
  unfolding calm_def by (auto simp: p_bind_def p_try_def p_fail_def split: prod.split sum.split) (metis snd_conv)+

lemma calm_store: "calm (store_call N f)"
  by (simp add: calm_def store_call_def Let_def split: prod.split)

lemma calm_rotation_call: "calm (rotation_call N f)"
  unfolding rotation_call_def by (rule calm_store)

lemma calm_or_refuse: "calm m \<Longrightarrow> (\<And>x. calm (f x)) \<Longrightarrow> calm (or_refuse m f)"
  unfolding or_refuse_def by (intro calm_bind) (auto split: sum.split intro: calm_return)

lemma calm_gate: "calm (gate_step X)"
  by (simp add: calm_def gate_step_def)

lemma calm_read: "calm (send N Verified g)" "calm (send N Snapshot h)"
  by (simp_all add: calm_def send_def)

lemmas calm_intros = calm_return calm_bind calm_rotation_call calm_or_refuse calm_gate calm_read

lemma calm_fail_slot: "calm (fail_slot N X l code)"
  unfolding fail_slot_def by (intro calm_intros)

lemma calm_owner_role: "(\<And>e. calm (rest e)) \<Longrightarrow> calm (owner_role N X l f rest)"
  unfolding owner_role_def by (auto intro!: calm_intros calm_fail_slot split: option.split)

lemma calm_member_list: "(\<And>s. calm (rest s)) \<Longrightarrow> calm (member_list N X l rest)"
  unfolding member_list_def by (auto intro!: calm_intros calm_fail_slot split: option.split)

lemma calm_checked: "calm (checked N a l s b)"
  unfolding checked_def by (rule calm_store)

lemma calm_conclude: "calm (conclude_slot N X owner a l f s e b)"
  unfolding conclude_slot_def by (intro calm_intros)

lemma calm_after: "calm (after_request N X owner a l f answer)"
  unfolding after_request_def Let_def
  by (auto intro!: calm_intros calm_fail_slot calm_owner_role calm_member_list calm_checked calm_conclude split: prod.split sum.split)

text \<open>What a program removes comes from its parts.\<close>

lemma or_refuse_run:
  assumes "or_refuse m f w = (r, w')"
  obtains x w1 where "m w = (Inr (Inr x), w1)" and "f x w1 = (r, w')"
        | o' where "m w = (o', w')"
  using assms by (auto simp: or_refuse_def p_return_def elim!: p_bind_run split: sum.splits)

lemma or_refuse_removes:
  assumes "or_refuse m f w = (r, w')" and "calm m" and "removals w' \<noteq> removals w"
  obtains x w1 where "m w = (Inr (Inr x), w1)" and "f x w1 = (r, w')" and "removals w1 = removals w"
  using or_refuse_run [OF assms(1)] assms(2,3) unfolding calm_def by (metis snd_conv)

lemma bind_removes:
  assumes "p_bind m f w = (r, w')" and "calm m" and "removals w' \<noteq> removals w"
  obtains x w1 where "m w = (Inr x, w1)" and "f x w1 = (r, w')" and "removals w1 = removals w"
  using p_bind_run [OF assms(1)] assms(2,3) unfolding calm_def by (metis snd_conv)

lemma calm_run: "calm m \<Longrightarrow> m w = (r, w') \<Longrightarrow> removals w' = removals w"
  unfolding calm_def by (metis snd_conv)

lemma rotation_call_run:
  assumes "rotation_call N f w = (Inr (Inr x), w')"
  shows "f (wd_step w) (en_other N (wd_step w) (wd_db w)) = Inr (x, wd_db w')"
  using assms by (auto simp: rotation_call_def store_call_def Let_def split: sum.splits prod.splits)

lemma owner_role_removes:
  assumes "owner_role N X l f rest w = (r, w')" and "removals w' \<noteq> removals w"
  obtains k evidence w1 where "removal_role (rx_hash X) (lf_platform f) (rx_discovery X k) = Some evidence"
    and "rest evidence w1 = (r, w')" and "removals w1 = removals w"
proof (cases "rx_discoverer X")
  case True
  then show thesis
    using assms that by (auto simp: owner_role_def bind_send dest!: calm_run [OF calm_fail_slot] split: option.splits)
next
  case False
  then show thesis
    using assms by (auto simp: owner_role_def p_bind_def p_try_def p_return_def dest!: calm_run [OF calm_fail_slot])
qed

lemma member_list_removes:
  assumes "member_list N X l rest w = (r, w')" and "removals w' \<noteq> removals w"
  obtains k snapshot w1 where "rx_members X k = Some snapshot" and "rest snapshot w1 = (r, w')" and "removals w1 = removals w"
  using assms that by (auto simp: member_list_def bind_send dest!: calm_run [OF calm_fail_slot] split: option.splits)

lemma checked_run:
  assumes "checked N a l snapshot allow w = (Inr x, w1)"
  shows "x = check_snapshot (en_unicode N) (en_clock N (wd_step w)) (en_flt N (wd_step w) 0) a l snapshot allow (wd_db w1)"
  using assms by (auto simp: checked_def store_call_def Let_def)

lemma dispatch_removes:
  assumes "dispatch_request N X owner a l f w = (r, w')" and moved: "removals w' \<noteq> removals w"
  obtains k l' db v where "reserve_request (en_hash N) X (en_flt N k) k (en_gid N k) (en_now N k) owner a l db = Inr (l', wd_db v)"
    and "p_bind (send N (Removed (ln_member l')) (rx_delete X)) (after_request N X owner a l' f) v = (r, w')"
    and "removals w' = removals w @ [ln_member l]"
proof -
  obtain w1 where w1: "or_refuse (rotation_call N (\<lambda>k. reserve_request (en_hash N) X (en_flt N k) k (en_gid N k) (en_now N k) owner a l))
      (\<lambda>l'. p_bind (\<lambda>w. (Inr (), w\<lparr>wd_log := wd_log w @ [Announced ''remove_requested'']\<rparr>)) (\<lambda>_.
        p_bind (gate_step X) (\<lambda>probe. case probe of
          Inl _ \<Rightarrow> fail_slot N X l' ''dispatch_gate_lost''
        | Inr _ \<Rightarrow> p_bind (send N (Removed (ln_member l')) (rx_delete X)) (after_request N X owner a l' f)))) w1 = (r, w')"
    and q1: "removals w1 = removals w"
    by (rule or_refuse_removes [OF assms(1) [unfolded dispatch_request_def] calm_gate moved]) blast
  have "removals w' \<noteq> removals w1" using moved q1 by simp
  from or_refuse_removes [OF w1 calm_rotation_call this] obtain l' w2
    where res: "rotation_call N (\<lambda>k. reserve_request (en_hash N) X (en_flt N k) k (en_gid N k) (en_now N k) owner a l) w1 = (Inr (Inr l'), w2)"
      and rest: "p_bind (\<lambda>w. (Inr (), w\<lparr>wd_log := wd_log w @ [Announced ''remove_requested'']\<rparr>)) (\<lambda>_.
        p_bind (gate_step X) (\<lambda>probe. case probe of
          Inl _ \<Rightarrow> fail_slot N X l' ''dispatch_gate_lost''
        | Inr _ \<Rightarrow> p_bind (send N (Removed (ln_member l')) (rx_delete X)) (after_request N X owner a l' f))) w2 = (r, w')"
      and q2: "removals w2 = removals w1" by blast
  let ?w3 = "w2\<lparr>wd_log := wd_log w2 @ [Announced ''remove_requested'']\<rparr>" and ?v = "w2\<lparr>wd_log := wd_log w2 @ [Announced ''remove_requested''], wd_step := Suc (wd_step w2)\<rparr>"
  note run = rotation_call_run [OF res]
  have l': "ln_member l' = ln_member l" using reserve_request_Inr(4) [OF run] by simp
  have sent: "p_bind (send N (Removed (ln_member l')) (rx_delete X)) (after_request N X owner a l' f) ?v = (r, w')"
  proof (cases "rx_gate X (wd_step w2)")
    case None
    then show ?thesis using rest by (simp add: p_bind_def p_try_def gate_step_def)
  next
    case (Some e)
    then have "fail_slot N X l' ''dispatch_gate_lost'' ?v = (r, w')" using rest by (simp add: p_bind_def p_try_def gate_step_def)
    from calm_run [OF calm_fail_slot this] have "removals w' = removals w" using q1 q2 by simp
    then show ?thesis using moved by simp
  qed
  have "removals w' = removals w @ [ln_member l]"
    using calm_run [OF calm_after sent [unfolded bind_send]] q1 q2 l'
    by (simp add: removals_def List.map_filter_def)
  then show thesis using that [OF _ sent] run by simp
qed

lemma take_slot_Inr:
  "take_slot X flt k gid process session a s f db = Inr ((l, f'), db') \<Longrightarrow> ln_slot l = sl_id s \<and> (ln_requested l \<longleftrightarrow> sl_request s \<noteq> None)"
  by (auto simp: take_slot_def rotation_commit_def tx_simps stored_Inr stmt_Inr Let_def)

lemma scope_of_slot_Some: "scope_of_slot i p digest db = Some (s, r) \<Longrightarrow> sl_id s = i"
  by (auto simp: scope_of_slot_def find_Some_iff split: bind_splits)

lemma claim_removal_slot_Inr:
  assumes "claim_removal_slot X flt k gid process session slot observing a db = Inr ((l, f), db')"
  shows "ln_slot l = slot \<and> (observing \<or> az_reconcile a \<longrightarrow> ln_requested l)"
proof -
  note top = assms [unfolded claim_removal_slot_def tx_bind_Inr]
  then obtain f' db1 sr db2 where row: "rotation_row flt 200 (scope_of_slot slot (az_preview a) (az_digest a)) db1 = Inr (sr, db2)"
    and rest: "(case claim_refusal a observing (rx_clock X k 200) sr of Some c \<Rightarrow> refuse c
     | None \<Rightarrow> tx_bind (stored (stmt flt 201 (tx_read (\<lambda>db. list_ex (\<lambda>t. sl_workspace t = az_workspace a \<and> sl_id t \<noteq> slot
          \<and> lease_valid (rx_clock X k 201) t) (rotation_slots db))))) (\<lambda>busy.
        if busy then refuse ''workspace_removal_busy''
        else if (observing \<or> az_reconcile a) \<and> sl_request (fst sr) = None then refuse ''slot_not_requested''
        else take_slot X flt k gid process session a (fst sr) f')) db2 = Inr ((l, f), db')" by blast
  have s: "sl_id (fst sr) = slot"
    using row scope_of_slot_Some by (cases sr) (fastforce simp: rotation_row_def stored_Inr stmt_Inr select_row_Inr)
  show ?thesis
  proof (cases "claim_refusal a observing (rx_clock X k 200) sr")
    case None
    then obtain busy db3 where "(if busy then refuse ''workspace_removal_busy''
        else if (observing \<or> az_reconcile a) \<and> sl_request (fst sr) = None then refuse ''slot_not_requested''
        else take_slot X flt k gid process session a (fst sr) f') db3 = Inr ((l, f), db')"
      using rest by (auto simp only: option.case tx_bind_Inr)
    then have "\<not> ((observing \<or> az_reconcile a) \<and> sl_request (fst sr) = None)"
      and t: "take_slot X flt k gid process session a (fst sr) f' db3 = Inr ((l, f), db')"
      by (simp_all add: refuse_Inr split: if_splits)
    then show ?thesis using take_slot_Inr [OF t] s by auto
  qed (use rest in \<open>simp add: refuse_Inr\<close>)
qed

lemma calm_mode: "calm (authorization_mode N X p observing a)"
  unfolding authorization_mode_def by (auto intro: calm_intros)

lemma run_lease_removes:
  assumes run: "run_lease N X owner a l f w = (r, w')" and moved: "removals w' \<noteq> removals w"
  obtains k evidence k' snapshot t fault allow absent u
    where "removal_role (rx_hash X) (lf_platform f) (rx_discovery X k) = Some evidence" and "rx_members X k' = Some snapshot"
      and "check_snapshot (en_unicode N) t fault a l snapshot False (wd_db u) = Inr absent" and "\<not> ln_requested l"
      and "dispatch_request N X owner a l f u = (r, w')" and "removals u = removals w"
proof -
  obtain w1 where w1: "owner_role N X l f (\<lambda>evidence. member_list N X l (\<lambda>snapshot.
      p_bind (checked N a l snapshot (ln_requested l)) (\<lambda>r. case r of
        Inl e \<Rightarrow> fail_slot N X l (failure_code e)
      | Inr absent \<Rightarrow> if ln_requested l then conclude_slot N X owner a l f snapshot evidence absent
          else dispatch_request N X owner a l f))) w1 = (r, w')" and q1: "removals w1 = removals w"
    by (rule or_refuse_removes [OF run [unfolded run_lease_def] calm_gate moved]) blast
  have "removals w' \<noteq> removals w1" using moved q1 by simp
  from owner_role_removes [OF w1 this] obtain k evidence w2
    where role: "removal_role (rx_hash X) (lf_platform f) (rx_discovery X k) = Some evidence"
      and w2: "member_list N X l (\<lambda>snapshot.
      p_bind (checked N a l snapshot (ln_requested l)) (\<lambda>r. case r of
        Inl e \<Rightarrow> fail_slot N X l (failure_code e)
      | Inr absent \<Rightarrow> if ln_requested l then conclude_slot N X owner a l f snapshot evidence absent
          else dispatch_request N X owner a l f)) w2 = (r, w')" and q2: "removals w2 = removals w1" by blast
  have "removals w' \<noteq> removals w2" using moved q1 q2 by simp
  from member_list_removes [OF w2 this] obtain k' snapshot w3
    where list: "rx_members X k' = Some snapshot"
      and w3: "p_bind (checked N a l snapshot (ln_requested l)) (\<lambda>r. case r of
        Inl e \<Rightarrow> fail_slot N X l (failure_code e)
      | Inr absent \<Rightarrow> if ln_requested l then conclude_slot N X owner a l f snapshot evidence absent
          else dispatch_request N X owner a l f) w3 = (r, w')" and q3: "removals w3 = removals w2" by blast
  have "removals w' \<noteq> removals w3" using moved q1 q2 q3 by simp
  from bind_removes [OF w3 calm_checked this] obtain x w4
    where c: "checked N a l snapshot (ln_requested l) w3 = (Inr x, w4)"
      and w4: "(case x of Inl e \<Rightarrow> fail_slot N X l (failure_code e)
      | Inr absent \<Rightarrow> if ln_requested l then conclude_slot N X owner a l f snapshot evidence absent
          else dispatch_request N X owner a l f) w4 = (r, w')" and q4: "removals w4 = removals w3" by blast
  have "removals w' \<noteq> removals w4" using moved q1 q2 q3 q4 by simp
  then obtain absent where x: "x = Inr absent" and n: "\<not> ln_requested l" and d: "dispatch_request N X owner a l f w4 = (r, w')"
    using w4 by (cases x) (auto dest: calm_run [OF calm_fail_slot] calm_run [OF calm_conclude] split: if_splits)
  have "check_snapshot (en_unicode N) (en_clock N (wd_step w3)) (en_flt N (wd_step w3) 0) a l snapshot False (wd_db w4) = Inr absent"
    using checked_run [OF c] x n by simp
  then show thesis using that role list n d q1 q2 q3 q4 by metis
qed

text \<open>
  C6: A run asks the platform to remove a member only as an action, never as a verification, and only
  once.  By then the run has claimed the slot, the session's own role was read as owner, the list
  of members passed the strict check with the member in it, and the reservation of the request is
  committed in the database the request is sent from.
\<close>

theorem request_behind_reservation:
  assumes run: "run_removal_slot N X owner session confirmed p slot observing w = (r, w')"
    and moved: "removals w' \<noteq> removals w"
  shows "confirmed \<and> \<not> observing \<and>
    (\<exists>a l l' f k db db' k' evidence k'' snapshot t u fault k3 db3 v.
       claim_removal_slot X (en_flt N k) k (en_gid N k) (en_clock N k) session slot False a db = Inr ((l, f), db') \<and> \<not> az_reconcile a
     \<and> removal_role (rx_hash X) (lf_platform f) (rx_discovery X k') = Some evidence
     \<and> rx_members X k'' = Some snapshot \<and> check_snapshot (en_unicode N) t fault a l snapshot False (wd_db u) = Inr False
     \<and> dispatch_request N X owner a l f u = (r, w')
     \<and> reserve_request (en_hash N) X (en_flt N k3) k3 (en_gid N k3) (en_now N k3) owner a l db3 = Inr (l', wd_db v)
     \<and> p_bind (send N (Removed (ln_member l)) (rx_delete X)) (after_request N X owner a l' f) v = (r, w')
     \<and> removals w' = removals w @ [ln_member l])"
proof -
  have c: "confirmed" using run moved by (auto simp: run_removal_slot_def p_return_def split: if_splits)
  obtain a0 w1 where "rx_remover X" and q1: "removals w1 = removals w" and r1: "or_refuse (gate_step X) (\<lambda>_.
         or_refuse (authorization_mode N X p observing a0) (\<lambda>a.
         p_bind (rotation_call N (\<lambda>k. claim_removal_slot X (en_flt N k) k (en_gid N k) (en_clock N k) session slot observing a)) (\<lambda>r.
         case r of
           Inl e \<Rightarrow> p_return (if e = RotationFailure ''slot_already_verified'' then RemovalShown else RemovalRefused e)
         | Inr (l, f) \<Rightarrow> run_lease N X owner a l f))) w1 = (r, w')"
    using run moved c unfolding run_removal_slot_def
    by (auto elim!: or_refuse_removes [OF _ calm_rotation_call] simp: p_return_def split: if_splits)
  have "removals w' \<noteq> removals w1" using moved q1 by simp
  from or_refuse_removes [OF r1 calm_gate this] obtain w2 where q2: "removals w2 = removals w1"
    and r2: "or_refuse (authorization_mode N X p observing a0) (\<lambda>a.
         p_bind (rotation_call N (\<lambda>k. claim_removal_slot X (en_flt N k) k (en_gid N k) (en_clock N k) session slot observing a)) (\<lambda>r.
         case r of
           Inl e \<Rightarrow> p_return (if e = RotationFailure ''slot_already_verified'' then RemovalShown else RemovalRefused e)
         | Inr (l, f) \<Rightarrow> run_lease N X owner a l f)) w2 = (r, w')" by blast
  have "removals w' \<noteq> removals w2" using moved q1 q2 by simp
  from or_refuse_removes [OF r2 calm_mode this] obtain a w3 where q3: "removals w3 = removals w2"
    and r3: "p_bind (rotation_call N (\<lambda>k. claim_removal_slot X (en_flt N k) k (en_gid N k) (en_clock N k) session slot observing a)) (\<lambda>r.
         case r of
           Inl e \<Rightarrow> p_return (if e = RotationFailure ''slot_already_verified'' then RemovalShown else RemovalRefused e)
         | Inr (l, f) \<Rightarrow> run_lease N X owner a l f) w3 = (r, w')" by blast
  have "removals w' \<noteq> removals w3" using moved q1 q2 q3 by simp
  from bind_removes [OF r3 calm_rotation_call this] obtain c w4 where q4: "removals w4 = removals w3"
    and claim: "rotation_call N (\<lambda>k. claim_removal_slot X (en_flt N k) k (en_gid N k) (en_clock N k) session slot observing a) w3 = (Inr c, w4)"
    and r4: "(case c of
           Inl e \<Rightarrow> p_return (if e = RotationFailure ''slot_already_verified'' then RemovalShown else RemovalRefused e)
         | Inr (l, f) \<Rightarrow> run_lease N X owner a l f) w4 = (r, w')" by blast
  have m4: "removals w' \<noteq> removals w4" using moved q1 q2 q3 q4 by simp
  then obtain l f where lf: "c = Inr (l, f)" and lease: "run_lease N X owner a l f w4 = (r, w')"
    using r4 by (auto simp: p_return_def split: sum.splits prod.splits)
  note claimed = rotation_call_run [OF claim [unfolded lf]]
  obtain k evidence k' snapshot t fault absent u where role: "removal_role (rx_hash X) (lf_platform f) (rx_discovery X k) = Some evidence"
    and list: "rx_members X k' = Some snapshot"
    and check: "check_snapshot (en_unicode N) t fault a l snapshot False (wd_db u) = Inr absent" and new: "\<not> ln_requested l"
    and d: "dispatch_request N X owner a l f u = (r, w')" and qu: "removals u = removals w4"
    by (rule run_lease_removes [OF lease m4])
  have acts: "\<not> observing" "\<not> az_reconcile a" using claim_removal_slot_Inr [OF claimed] new by simp_all
  then have "\<not> absent"
    using check check_roster_exact(3) by (fastforce simp: check_snapshot_def split: if_splits sum.splits)
  then have c2: "check_snapshot (en_unicode N) t fault a l snapshot False (wd_db u) = Inr False" using check by simp
  have mu: "removals w' \<noteq> removals u" using m4 qu by simp
  obtain k3 l' db3 v where res: "reserve_request (en_hash N) X (en_flt N k3) k3 (en_gid N k3) (en_now N k3) owner a l db3 = Inr (l', wd_db v)"
    and sent: "p_bind (send N (Removed (ln_member l')) (rx_delete X)) (after_request N X owner a l' f) v = (r, w')"
    and one: "removals w' = removals u @ [ln_member l]"
    by (rule dispatch_removes [OF d mu])
  have l': "ln_member l' = ln_member l" using reserve_request_Inr(4) [OF res] by simp
  have one': "removals w' = removals w @ [ln_member l]" using one q1 q2 q3 q4 qu by simp
  have obs: "observing = False" using acts(1) by simp
  show ?thesis
    using c acts claimed [unfolded obs] role list c2 d res sent [unfolded l'] one' by blast
qed

section \<open>A run\<close>

definition rotation_keys :: "fence_key list" where
  "rotation_keys = [(''destination'', ''d''), (''mother'', ''m''), (''owner'', ''o''), (''standby_batch'', ''b''),
     (''standby_membership'', standby_membership_id), (''target_account'', ''a1''), (''target_account'', ''c1''),
     (''target_identity'', target_identity_id), (''workspace'', ''w'')]"

definition removal_az :: removal_authorization where
  "removal_az = \<lparr>az_preview = ''p'', az_workspace = ''w'', az_owner = ''o'', az_mother = ''m'', az_batch = ''b'', az_destination = ''d'',
     az_verification = ''v'', az_slots = [(''pm1'', ''a1'', ''u'', ''prolite'')], az_candidates = [''c1''],
     az_assignments = [(''pm1'', ''c1'')], az_expires = 1000 * second, az_epochs = map (\<lambda>k. (k, 1)) rotation_keys,
     az_digest = replicate 64 (CHR ''0''), az_session = ''s'', az_active = True, az_reconcile = False\<rparr>"

definition removal_scope :: rotation_scope where
  "removal_scope = \<lparr>rv_preview = ''p'', rv_workspace = ''w'', rv_owner = ''o'', rv_digest = az_digest removal_az, rv_key = ''k'',
     rv_session = ''s'', rv_stopped_at = None\<rparr>"

definition removal_facts_sample :: local_facts where
  "removal_facts_sample = \<lparr>lf_platform = ''pw'', lf_access_expires = 1000 * second,
     lf_binding = \<lparr>bi_mother = ''m'', bi_workspace = ''w'', bi_run = ''r'', bi_generation = ''g'', bi_exchange = ''x'', bi_revision = 1, bi_attempt = 1\<rparr>\<rparr>"

definition target_member :: member where
  "target_member = \<lparr>pm_kind = ''member'', pm_id = ''pm1'', pm_account_user = [], pm_identifier = ''u'', pm_status = [],
     pm_role = ''member'', pm_seat_type = ''prolite''\<rparr>"

definition removal_snapshot :: exact_snapshot where
  "removal_snapshot = \<lparr>es_fact = \<lparr>rr_endpoint = EndpointMembers, rr_outcome = Some Operational, rr_http = 200, rr_observed_at = 50,
     rr_active_until = None, rr_seat_limit = None, rr_member_count = Some 1, rr_pending = None, rr_completeness = Complete,
     rr_members = [target_member]\<rparr>, es_declared = 1\<rparr>"

definition removal_db :: rotation_db where
  "removal_db = store_db.extend empty_store \<lparr>rotation_epochs = az_epochs removal_az,
     rotation_previews = [\<lparr>pv_id = ''p'', pv_owner = ''o'', pv_workspace = ''w'', pv_status = ''authorized'', pv_revoked_at = None, pv_expires_at = 1000 * second,
       pv_epochs = az_epochs removal_az\<rparr>],
     rotation_scopes = [removal_scope], rotation_slots = [fresh_slot removal_az ''sl'' (''pm1'', ''c1'')], rotation_evidences = [],
     rotation_frozen = [\<lparr>fz_verification = ''v'', fz_kind = ''member'', fz_id = ''pm1'', fz_identifier = ''u'', fz_role = ''member'',
       fz_seat = ''prolite''\<rparr>]\<rparr>"

definition removal_tools :: "(unit rotation_db_ext) rotation_tools" where
  "removal_tools = \<lparr>rx_load = (\<lambda>_ _. Inr removal_az), rx_live = (\<lambda>_ _ _. Inr removal_facts_sample),
     rx_read_only = (\<lambda>_ _ _. Inr removal_facts_sample), rx_sessions_end = (\<lambda>_ _. None), rx_clock = (\<lambda>_ _. 50), rx_gate = (\<lambda>_. None),
     rx_remover = True, rx_discoverer = True, rx_hash = (\<lambda>_. replicate 64 (CHR ''0'')),
     rx_discovery = (\<lambda>_. Some \<lparr>dv_status = ''discovered'',
       dv_workspaces = [\<lparr>dw_id = ''pw'', dw_name = ''n'', dw_access = ''readable'', dw_role = ''owner''\<rparr>]\<rparr>),
     rx_members = (\<lambda>_. Some removal_snapshot), rx_delete = (\<lambda>_. (False, 200, True))\<rparr>"

lemmas removal_samples = removal_az_def removal_scope_def removal_facts_sample_def target_member_def removal_snapshot_def
  removal_tools_def

lemma removal_keys_sorted: "sort (authorization_keys removal_az) = rotation_keys"
  by code_simp

lemma removal_begin:
  assumes "rotation_epochs db = az_epochs removal_az"
  shows "begin_locked (\<lambda>_. False) (authorization_keys removal_az) (rotation_epochs db) = Inr (az_epochs removal_az)"
proof -
  have "authorization_keys removal_az \<noteq> []" using removal_keys_sorted by (auto simp: rotation_keys_def)
  moreover have "\<not> fence_refused None rotation_keys" by code_simp
  moreover have "read_epochs (\<lambda>_. False) 1 rotation_keys (az_epochs removal_az) = Inr (az_epochs removal_az)" by code_simp
  ultimately show ?thesis by (simp add: begin_locked_def removal_keys_sorted assms)
qed

lemma removal_fenced:
  assumes "rotation_epochs db = az_epochs removal_az"
  shows "fenced_facts removal_tools (\<lambda>_. False) k removal_az db = Inr (removal_facts_sample, db)"
  by (simp add: fenced_facts_def tx_bind_def removal_begin [OF assms] removal_facts_def Let_def)
     (simp add: removal_samples)

abbreviation removal_env :: "(unit rotation_db_ext) env" where
  "removal_env \<equiv> \<lparr>en_unicode = \<lparr>u_lower = id, u_upper = id, u_fold = (=)\<rparr>, en_hash = id,
     en_decoders = sample_decoders, en_now = (\<lambda>_. 50), en_clock = (\<lambda>_. 50),
     en_flt = (\<lambda>_ _. False), en_gid = (\<lambda>_ k. if k = 2 then ''rq'' else ''g''), en_locked = (\<lambda>_ _. False), en_token = (\<lambda>_. 9),
     en_other = (\<lambda>_ db. db), en_net = (\<lambda>_ _. Replied 200 (Some ''{}'')), en_config_error = (\<lambda>_. None),
     en_same_exit = (\<lambda>_. True), en_accounts = (\<lambda>_. None), en_workspaces = (\<lambda>_. None), en_probe_login = (\<lambda>_. None),
     en_read_login = (\<lambda>_. None), en_identifiers = (\<lambda>_. None), en_owners = (\<lambda>_. None), en_prober = None, en_joiner = None,
     en_remover = None, en_reader = None, en_facts = None, en_id = ''w'', en_lease_time = 0\<rparr>"

definition removal_lease_sample :: removal_lease where
  "removal_lease_sample = \<lparr>ln_slot = ''sl'', ln_token = ''g'', ln_owner = ''g'', ln_epoch = 1, ln_expires = 50 + 60 * second,
     ln_requested = False, ln_member = ''pm1'', ln_identifier = ''u'', ln_seat = ''prolite'', ln_request = None, ln_read_only = False\<rparr>"

definition leased_db :: rotation_db where
  "leased_db = removal_db\<lparr>rotation_slots := [claimed_slot False ''g'' ''g'' (50 + 60 * second) (fresh_slot removal_az ''sl'' (''pm1'', ''c1''))]\<rparr>"

lemma fresh_sample:
  "fresh_slot removal_az ''sl'' (''pm1'', ''c1'') = \<lparr>sl_id = ''sl'', sl_preview = ''p'', sl_workspace = ''w'', sl_member = ''pm1'',
      sl_original = ''a1'', sl_candidate = ''c1'', sl_identifier = ''u'', sl_seat = ''prolite'',
      sl_state = SlotPending, sl_owner = None, sl_token = None, sl_epoch = 0, sl_expires = None, sl_attempts = 0,
      sl_request = None, sl_requested_at = None, sl_http = None, sl_verification = None, sl_absent_at = None,
      sl_obligation = False, sl_error = []\<rparr>"
  by (simp add: fresh_slot_def removal_az_def)

lemma sample_simps [simp]:
  "rx_clock removal_tools k j = 50" "rx_sessions_end removal_tools k x = None" "az_reconcile removal_az = False"
  "az_session removal_az = ''s''" "az_expires removal_az = 1000 * second" "lf_access_expires removal_facts_sample = 1000 * second"
  by (simp_all add: removal_samples)

lemma removal_claimed:
  "claim_removal_slot removal_tools (\<lambda>_. False) k (\<lambda>k. if k = 2 then ''rq'' else ''g'') 50 ''s'' ''sl'' False removal_az removal_db
   = Inr ((removal_lease_sample, removal_facts_sample), leased_db)"
proof -
  let ?s = "fresh_slot removal_az ''sl'' (''pm1'', ''c1'')"
  have f: "fenced_facts removal_tools (\<lambda>_. False) k removal_az removal_db = Inr (removal_facts_sample, removal_db)"
    by (rule removal_fenced) (simp add: removal_db_def store_db.defs)
  have slots: "rotation_slots removal_db = [?s]" "rotation_scopes removal_db = [removal_scope]"
    by (simp_all add: removal_db_def store_db.defs)
  have row: "scope_of_slot ''sl'' (az_preview removal_az) (az_digest removal_az) removal_db = Some (?s, removal_scope)"
    by (simp add: scope_of_slot_def slots fresh_sample) (simp add: removal_az_def removal_scope_def)
  have refusal: "claim_refusal removal_az False 50 (?s, removal_scope) = None"
    by (simp add: claim_refusal_def slot_authorized_def lease_valid_def fresh_sample Let_def) (simp add: removal_az_def removal_scope_def)
  have cols: "sl_id ?s = ''sl''" by (simp add: fresh_sample)
  have take: "take_slot removal_tools (\<lambda>_. False) k (\<lambda>k. if k = 2 then ''rq'' else ''g'') 50 ''s'' removal_az ?s removal_facts_sample removal_db
    = Inr ((removal_lease_sample, removal_facts_sample), leased_db)"
  proof -
    let ?e = "50 + 60 * second"
    have e: "earliest (min ?e (1000 * second)) None = ?e" by (simp add: earliest_def time_defs)
    have ok: "slot_ok (claimed_slot False ''g'' ''g'' ?e ?s)" "slot_change_ok 50 removal_db ?s (claimed_slot False ''g'' ''g'' ?e ?s)"
      by (simp_all add: slot_ok_def slot_change_ok_def same_slot_def claimed_slot_def fresh_sample)
    have cols: "sl_verification (claimed_slot False ''g'' ''g'' ?e ?s) = None" "sl_request (claimed_slot False ''g'' ''g'' ?e ?s) = None"
      "sl_id ?s = ''sl''"
      by (simp_all add: claimed_slot_def fresh_sample)
    have upd: "update_slots 50 (\<lambda>t. sl_id t = ''sl'') (claimed_slot False ''g'' ''g'' ?e) removal_db = Inr (1, leased_db)"
      by (simp add: update_slots_def slots update_where_def leased_db_def ok cols)
    show ?thesis
      by (simp add: take_slot_def tx_bind_def stored_def stmt_def rotation_commit_def tx_return_def Let_def e upd)
        (simp add: fresh_sample removal_lease_sample_def upd)
  qed
  show ?thesis
    by (simp add: claim_removal_slot_def tx_bind_def f rotation_row_def stored_def stmt_def select_row_def row tx_read_def refusal
        slots cols take)
qed

definition requested_db :: rotation_db where
  "requested_db = leased_db\<lparr>rotation_slots := [requested_slot ''rq'' 50
     (claimed_slot False ''g'' ''g'' (50 + 60 * second) (fresh_slot removal_az ''sl'' (''pm1'', ''c1'')))]\<rparr>"

lemma leased_sample:
  "claimed_slot False ''g'' ''g'' (50 + 60 * second) (fresh_slot removal_az ''sl'' (''pm1'', ''c1'')) =
     \<lparr>sl_id = ''sl'', sl_preview = ''p'', sl_workspace = ''w'', sl_member = ''pm1'',
      sl_original = ''a1'', sl_candidate = ''c1'', sl_identifier = ''u'', sl_seat = ''prolite'',
      sl_state = LeaseAcquired, sl_owner = Some ''g'', sl_token = Some ''g'', sl_epoch = 1, sl_expires = Some (50 + 60 * second),
      sl_attempts = 1, sl_request = None, sl_requested_at = None, sl_http = None, sl_verification = None, sl_absent_at = None,
      sl_obligation = False, sl_error = []\<rparr>"
  by (simp add: fresh_sample claimed_slot_def)

lemma removal_reserved:
  "\<exists>db'. reserve_request id removal_tools (\<lambda>_. False) k (\<lambda>k. if k = 2 then ''rq'' else ''g'') 50 ''o'' removal_az removal_lease_sample leased_db
     = Inr (removal_lease_sample\<lparr>ln_request := Some ''rq'', ln_requested := True\<rparr>, db')
     \<and> rotation_slots db' = rotation_slots requested_db \<and> rotation_epochs db' = rotation_epochs leased_db
     \<and> rotation_scopes db' = rotation_scopes leased_db"
proof -
  let ?s = "claimed_slot False ''g'' ''g'' (50 + 60 * second) (fresh_slot removal_az ''sl'' (''pm1'', ''c1''))"
  have f: "fenced_facts removal_tools (\<lambda>_. False) k removal_az leased_db = Inr (removal_facts_sample, leased_db)"
    by (rule removal_fenced) (simp add: leased_db_def removal_db_def store_db.defs)
  have slots: "rotation_slots leased_db = [?s]" and scopes: "rotation_scopes leased_db = [removal_scope]"
    by (simp_all add: leased_db_def removal_db_def store_db.defs)
  have held: "lease_held removal_az removal_lease_sample 50 leased_db ?s"
    by (simp add: lease_held_def leased_sample scopes lease_valid_def removal_lease_sample_def)
       (simp add: removal_scope_def removal_az_def time_defs)
  have lease: "removal_lease_tx removal_tools (\<lambda>_. False) k removal_az removal_lease_sample leased_db = Inr (removal_facts_sample, leased_db)"
    by (simp add: removal_lease_tx_def tx_bind_def f stored_def stmt_def tx_read_def slots held tx_return_def)
  have ok: "slot_ok (requested_slot ''rq'' 50 ?s)" "slot_change_ok 50 leased_db ?s (requested_slot ''rq'' 50 ?s)"
    by (simp_all add: slot_ok_def slot_change_ok_def same_slot_def requested_slot_def leased_sample)
  have cols: "sl_verification (requested_slot ''rq'' 50 ?s) = None" "sl_request (requested_slot ''rq'' 50 ?s) = Some ''rq''"
      "sl_id ?s = ''sl''" "sl_request ?s = None"
    by (simp_all add: requested_slot_def leased_sample)
  have upd: "update_slots 50 (\<lambda>s. sl_id s = ''sl'' \<and> sl_request s = None) (requested_slot ''rq'' 50) leased_db = Inr (1, requested_db)"
    by (simp add: update_slots_def slots update_where_def requested_db_def ok cols)
  have digest: "length (az_digest removal_az) = 64" "az_workspace removal_az = ''w''" by (simp_all add: removal_az_def)
  have lease_cols: "ln_slot removal_lease_sample = ''sl''" "ln_epoch removal_lease_sample = 1" by (simp_all add: removal_lease_sample_def)
  let ?ev = "\<lparr>ev_type = RotationRemovalRequested, ev_actor = ActorOwner, ev_owner_id = ''o'', ev_scope_id = ''w'', ev_entity_type = ''rotation_slot'',
        ev_entity_id = ''sl'', ev_outcome = OutcomeSucceeded, ev_correlation = ''rq'', ev_source_fp = [],
        ev_details = RotationRemovalDetails (az_digest removal_az) 1 False, ev_idem_key = ''rq'', ev_occurred_at = zero_time\<rparr>"
  have valid: "validate ?ev = Inr (details_json (ev_details ?ev), the (registry RotationRemovalRequested))"
    by (simp add: validate_Inr spec_of_def details_ok_def digest owner_security_scope_def Let_def)
  have "audit_events requested_db = []"
    by (simp add: requested_db_def leased_db_def removal_db_def empty_store_def store_db.defs)
  then obtain es where fact: "rotation_fact id (\<lambda>_. False) ''g'' 50 ''o'' RotationRemovalRequested ''rotation_slot'' ''sl'' ''rq'' ''rq'' ''w''
      (RotationRemovalDetails (az_digest removal_az) 1 False) requested_db = Inr ((), requested_db\<lparr>audit_events := es\<rparr>)"
    by (simp add: rotation_fact_def stored_def audit_fact_def tx_bind_def write_audit_def lift_audit_def audit_write_def valid tx_return_def Let_def)
  show ?thesis
    by (simp add: reserve_request_def tx_bind_def lease stored_def stmt_def upd fact lease_cols digest rotation_commit_def tx_return_def)
       (simp add: requested_db_def)
qed

definition removal_world :: "(unit rotation_db_ext) world" where
  "removal_world = \<lparr>wd_db = removal_db, wd_step = 0, wd_log = []\<rparr>"

lemma removal_role_sample:
  "removal_role (rx_hash removal_tools) (lf_platform removal_facts_sample) (rx_discovery removal_tools k) = Some (replicate 64 (CHR ''0''))"
  by (simp add: removal_role_def removal_tools_def removal_facts_sample_def valid_discovery_def trim_space_visible visible_def char_code_def)

lemma removal_check_sample:
  assumes "rotation_slots db = rotation_slots leased_db" and "rotation_frozen db = rotation_frozen removal_db"
  shows "check_snapshot \<lparr>u_lower = id, u_upper = id, u_fold = (=)\<rparr> 50 False removal_az removal_lease_sample removal_snapshot False db = Inr False"
proof -
  let ?U = "\<lparr>u_lower = id, u_upper = id, u_fold = (=)\<rparr> :: unicode"
  have roster: "unreleased_roster removal_az db = rotation_frozen removal_db"
    by (simp add: unreleased_roster_def assms leased_db_def leased_sample) (simp add: removal_db_def store_db.defs removal_az_def)
  have name: "member_identity ?U ''u'' = ''u''"
    by (simp add: member_identity_def trim_space_visible visible_def char_code_def to_lower_def lower_char_def ascii_def ascii_char_def)
  have "check_roster ?U removal_lease_sample (rotation_frozen removal_db) [target_member] False = Inr False"
    by (simp add: check_roster_def removal_db_def store_db.defs roster_conflict_def target_member_def name removal_lease_sample_def Let_def)
  moreover have "snapshot_current 50 removal_snapshot"
    by (simp add: snapshot_current_def removal_snapshot_def is_zero_time_def zero_time_def time_defs Let_def)
  moreover have "rr_members (es_fact removal_snapshot) = [target_member]" by (simp add: removal_snapshot_def)
  ultimately show ?thesis by (simp add: check_snapshot_def roster)
qed

theorem accepted_snapshot_is_frozen_roster_witness:
  "live_key \<lparr>u_lower = id, u_upper = id, u_fold = (=)\<rparr> ` set (rr_members (es_fact removal_snapshot))
   = frozen_key ` {f \<in> set (unreleased_roster removal_az leased_db). False \<longrightarrow> fz_id f \<noteq> ln_member removal_lease_sample}"
proof -
  have "rotation_frozen leased_db = rotation_frozen removal_db" by (simp add: leased_db_def)
  from accepted_snapshot_is_frozen_roster [OF removal_check_sample [OF refl this]] show ?thesis by simp
qed

lemma or_refuse_call:
  assumes "en_other N (wd_step w) = (\<lambda>db. db)" and "f (wd_step w) (wd_db w) = Inr (x, db')"
  shows "or_refuse (rotation_call N f) g w = g x (w\<lparr>wd_db := db', wd_step := Suc (wd_step w)\<rparr>)"
  using assms by (simp add: or_refuse_def p_bind_def p_try_def rotation_call_def store_call_def)

lemma or_refuse_gate: "rx_gate X (wd_step w) = None \<Longrightarrow> or_refuse (gate_step X) g w = g () (w\<lparr>wd_step := Suc (wd_step w)\<rparr>)"
  by (simp add: or_refuse_def p_bind_def p_try_def gate_step_def)

lemma bind_checked:
  assumes "en_other N (wd_step w) = (\<lambda>db. db)"
  shows "p_bind (checked N a l s b) g w =
    g (check_snapshot (en_unicode N) (en_clock N (wd_step w)) (en_flt N (wd_step w) 0) a l s b (wd_db w)) (w\<lparr>wd_step := Suc (wd_step w)\<rparr>)"
  using assms by (simp add: checked_def p_bind_def p_try_def store_call_def Let_def)

lemma bind_gate: "rx_gate X (wd_step w) = None \<Longrightarrow> p_bind (gate_step X) g w = g (Inr ()) (w\<lparr>wd_step := Suc (wd_step w)\<rparr>)"
  by (simp add: p_bind_def p_try_def gate_step_def)

lemma bind_log: "p_bind (\<lambda>w. (Inr (), w\<lparr>wd_log := wd_log w @ [x]\<rparr>)) g w = g () (w\<lparr>wd_log := wd_log w @ [x]\<rparr>)"
  by (simp add: p_bind_def p_try_def)

lemma removal_dispatch:
  assumes "wd_db w = leased_db" and "removals w = []"
  shows "removals (snd (dispatch_request removal_env removal_tools ''o'' removal_az removal_lease_sample removal_facts_sample w)) = [''pm1'']"
proof -
  let ?l = "removal_lease_sample\<lparr>ln_request := Some ''rq'', ln_requested := True\<rparr>"
  obtain db' where r: "reserve_request id removal_tools (\<lambda>_. False) (Suc (wd_step w)) (\<lambda>k. if k = 2 then ''rq'' else ''g'') 50 ''o''
      removal_az removal_lease_sample leased_db = Inr (?l, db')"
    using removal_reserved by blast
  have gate: "rx_gate removal_tools k = None" for k by (simp add: removal_tools_def)
  have after: "removals (snd (after_request removal_env removal_tools ''o'' removal_az ?l removal_facts_sample x u)) = removals u" for x u
    by (rule calm_after [unfolded calm_def, rule_format])
  have member: "ln_member removal_lease_sample = ''pm1''" by (simp add: removal_lease_sample_def)
  let ?w1 = "w\<lparr>wd_step := Suc (wd_step w)\<rparr>"
  let ?w2 = "?w1\<lparr>wd_db := db', wd_step := Suc (wd_step ?w1)\<rparr>"
  have call: "or_refuse (rotation_call removal_env (\<lambda>k. reserve_request (en_hash removal_env) removal_tools (en_flt removal_env k) k
      (en_gid removal_env k) (en_now removal_env k) ''o'' removal_az removal_lease_sample)) g ?w1 = g ?l ?w2" for g
    by (rule or_refuse_call) (simp_all add: assms(1) r)
  let ?rest = "p_bind (\<lambda>w. (Inr (), w\<lparr>wd_log := wd_log w @ [Announced ''remove_requested'']\<rparr>)) (\<lambda>_.
        p_bind (gate_step removal_tools) (\<lambda>probe. case probe of
          Inl _ \<Rightarrow> fail_slot removal_env removal_tools ?l ''dispatch_gate_lost''
        | Inr _ \<Rightarrow> p_bind (send removal_env (Removed (ln_member ?l)) (rx_delete removal_tools))
            (after_request removal_env removal_tools ''o'' removal_az ?l removal_facts_sample))) ?w2"
  have run: "dispatch_request removal_env removal_tools ''o'' removal_az removal_lease_sample removal_facts_sample w = ?rest"
    unfolding dispatch_request_def by (rule trans, rule or_refuse_gate, rule gate, rule call)
  have "removals (snd ?rest) = removals w @ [''pm1'']"
    by (simp add: bind_log bind_gate gate bind_send after member) (simp add: removals_def List.map_filter_def)
  then show ?thesis unfolding run by (simp only: assms(2) append_Nil)
qed

lemma removal_run:
  "removals (snd (run_removal_slot removal_env removal_tools ''o'' ''s'' True ''p'' ''sl'' False removal_world)) = [''pm1'']"
proof -
  have gate: "rx_gate removal_tools k = None" for k by (simp add: removal_tools_def)
  let ?w = "\<lambda>n db. \<lparr>wd_db = db, wd_step = n, wd_log = []\<rparr> :: (unit rotation_db_ext) world"
  have load: "or_refuse (rotation_call removal_env (\<lambda>k db. case rx_load removal_tools k db of Inl e \<Rightarrow> Inl e | Inr a \<Rightarrow> Inr (a, db))) g
      (?w 0 removal_db) = g removal_az (?w 1 removal_db)" for g
    by (rule trans, rule or_refuse_call) (simp_all add: removal_tools_def)
  have remover: "rx_remover removal_tools" by (simp add: removal_tools_def)
  have or_refuse_return: "or_refuse (p_return (Inr x)) g w = g x w" for x and g :: "_ \<Rightarrow> unit removal_prog" and w
    by (simp add: or_refuse_def p_bind_def p_try_def p_return_def)
  have claim: "p_bind (rotation_call removal_env (\<lambda>k. claim_removal_slot removal_tools (en_flt removal_env k) k (en_gid removal_env k)
      (en_clock removal_env k) ''s'' ''sl'' False removal_az)) g (?w (Suc (Suc 0)) removal_db)
      = g (Inr (removal_lease_sample, removal_facts_sample)) (?w 3 leased_db)" for g
    by (simp add: p_bind_def p_try_def rotation_call_def store_call_def removal_claimed numeral_3_eq_3)
  have lease: "run_lease removal_env removal_tools ''o'' removal_az removal_lease_sample removal_facts_sample (?w 3 leased_db)
      = dispatch_request removal_env removal_tools ''o'' removal_az removal_lease_sample removal_facts_sample
          \<lparr>wd_db = leased_db, wd_step = 7, wd_log = [Verified, Snapshot]\<rparr>"
  proof -
    have n: "\<not> ln_requested removal_lease_sample" by (simp add: removal_lease_sample_def)
    have tools: "rx_discoverer removal_tools" "rx_members removal_tools k = Some removal_snapshot" for k
      by (simp_all add: removal_tools_def)
    have "rotation_frozen leased_db = rotation_frozen removal_db" by (simp add: leased_db_def)
    note check = removal_check_sample [OF refl this]
    show ?thesis
      unfolding run_lease_def
      by (rule trans, rule or_refuse_gate, rule gate)
         (simp add: owner_role_def member_list_def tools bind_send removal_role_sample bind_checked check n)
  qed
  have "run_removal_slot removal_env removal_tools ''o'' ''s'' True ''p'' ''sl'' False removal_world
      = dispatch_request removal_env removal_tools ''o'' removal_az removal_lease_sample removal_facts_sample
          \<lparr>wd_db = leased_db, wd_step = 7, wd_log = [Verified, Snapshot]\<rparr>"
    unfolding run_removal_slot_def removal_world_def
    by (simp add: load) (simp add: remover or_refuse_gate gate authorization_mode_def or_refuse_return claim [simplified] lease)
  moreover have "removals \<lparr>wd_db = leased_db, wd_step = 7, wd_log = [Verified, Snapshot]\<rparr> = []"
    by (simp add: removals_def List.map_filter_def)
  ultimately show ?thesis by (simp add: removal_dispatch)
qed

theorem request_behind_reservation_witness:
  "\<exists>r w' a (l :: removal_lease) f (u :: (unit rotation_db_ext) world).
     run_removal_slot removal_env removal_tools ''o'' ''s'' True ''p'' ''sl'' False removal_world = (r, w')
     \<and> removals removal_world = [] \<and> removals w' = [''pm1''] \<and> ln_member l = ''pm1''
     \<and> dispatch_request removal_env removal_tools ''o'' a l f u = (r, w')"
proof -
  obtain r w' where run: "run_removal_slot removal_env removal_tools ''o'' ''s'' True ''p'' ''sl'' False removal_world = (r, w')"
    by fastforce
  have none: "removals removal_world = []" by (simp add: removal_world_def removals_def List.map_filter_def)
  have one: "removals w' = [''pm1'']" using removal_run run by simp
  then have "removals w' \<noteq> removals removal_world" by (simp add: none)
  from request_behind_reservation [OF run this] obtain a and l :: removal_lease and f and u :: "(unit rotation_db_ext) world"
    where d: "dispatch_request removal_env removal_tools ''o'' a l f u = (r, w')"
      and l: "removals w' = removals removal_world @ [ln_member l]" by blast
  have "ln_member l = ''pm1''" using l one none by simp
  then show ?thesis using run one none d by blast
qed

lemma leased_sound: "slots_sound leased_db"
  by (simp add: slots_sound_def leased_db_def leased_sample slot_ok_def discharged_def)

theorem slot_requested_once_witness:
  "\<exists>db'. rotation_trace leased_db [Reserving ''sl''] db' \<and> count_list [Reserving ''sl''] (Reserving ''sl'') \<le> 1 \<and> requested ''sl'' db'"
proof -
  obtain l' db' where r: "reserve_request id removal_tools (\<lambda>_. False) 0 (\<lambda>k. if k = 2 then ''rq'' else ''g'') 50 ''o'' removal_az
      removal_lease_sample leased_db = Inr (l', db')"
    using removal_reserved by blast
  have "rotation_step leased_db (Reserving ''sl'') db'" using reserving [OF r] by (simp add: removal_lease_sample_def)
  then have t: "rotation_trace leased_db [Reserving ''sl''] db'" and q: "requested ''sl'' db'"
    using trace_more [OF trace_none] reserving_requests(2) leased_sound by fastforce+
  from slot_requested_once [OF t leased_sound, of "''sl''"] show ?thesis using t q by blast
qed

definition unstarted_db :: rotation_db where
  "unstarted_db = removal_db\<lparr>rotation_slots := [], rotation_scopes := []\<rparr>"

lemma removal_started:
  "\<exists>db'. start_tx id removal_tools (\<lambda>_. False) k (\<lambda>_. ''sl'') 50 ''o'' ''s'' ''c'' ''k'' removal_az unstarted_db = Inr ((), db')
     \<and> rotation_slots db' = [fresh_slot removal_az ''sl'' (''pm1'', ''c1'')]"
proof -
  let ?s = "fresh_slot removal_az ''sl'' (''pm1'', ''c1'')" and ?db1 = "unstarted_db\<lparr>rotation_scopes := [removal_scope]\<rparr>"
  let ?db2 = "?db1\<lparr>rotation_slots := [?s]\<rparr>"
  have f: "fenced_facts removal_tools (\<lambda>_. False) k removal_az unstarted_db = Inr (removal_facts_sample, unstarted_db)"
    by (rule removal_fenced) (simp add: unstarted_db_def removal_db_def store_db.defs)
  have az: "az_preview removal_az = ''p''" "az_workspace removal_az = ''w''" "length (az_digest removal_az) = 64"
      "az_assignments removal_az = [(''pm1'', ''c1'')]"
    by (simp_all add: removal_az_def)
  have scope: "insert_scope \<lparr>rv_preview = ''p'', rv_workspace = ''w'', rv_owner = ''o'', rv_digest = az_digest removal_az, rv_key = ''k'',
      rv_session = ''s'', rv_stopped_at = None\<rparr> unstarted_db = Inr ((), ?db1)"
    by (simp add: insert_scope_def az removal_scope_def) (simp add: unstarted_db_def removal_db_def store_db.defs)
  have slot: "insert_slot ?s ?db1 = Inr ((), ?db2)"
    by (simp add: insert_slot_def fresh_sample slot_ok_def removal_scope_def unstarted_db_def)
  have slots: "start_slots (\<lambda>_. False) (\<lambda>_. ''sl'') removal_az 0 [(''pm1'', ''c1'')] ?db1 = Inr ((), ?db2)"
    by (simp add: tx_bind_def stored_def stmt_def tx_read_def slot tx_return_def) (simp add: unstarted_db_def)
  let ?ev = "\<lparr>ev_type = RotationRemovalStarted, ev_actor = ActorOwner, ev_owner_id = ''o'', ev_scope_id = ''w'', ev_entity_type = ''rotation_removal'',
        ev_entity_id = ''p'', ev_outcome = OutcomeSucceeded, ev_correlation = ''c'', ev_source_fp = [],
        ev_details = RotationRemovalDetails (az_digest removal_az) 0 False, ev_idem_key = ''p:removal-start'', ev_occurred_at = zero_time\<rparr>"
  have valid: "validate ?ev = Inr (details_json (ev_details ?ev), the (registry RotationRemovalStarted))"
    by (simp add: validate_Inr spec_of_def details_ok_def az owner_security_scope_def Let_def)
  have "audit_events ?db2 = []"
    by (simp add: unstarted_db_def removal_db_def empty_store_def store_db.defs)
  then obtain es where fact: "rotation_fact id (\<lambda>_. False) ''sl'' 50 ''o'' RotationRemovalStarted ''rotation_removal'' ''p'' ''c''
      ''p:removal-start'' ''w'' (RotationRemovalDetails (az_digest removal_az) 0 False) ?db2 = Inr ((), ?db2\<lparr>audit_events := es\<rparr>)"
    by (simp add: rotation_fact_def stored_def audit_fact_def tx_bind_def write_audit_def lift_audit_def audit_write_def valid tx_return_def Let_def)
  show ?thesis
    by (simp add: start_tx_def tx_bind_def f stored_def stmt_def az scope slots fact rotation_commit_def tx_return_def del: start_slots.simps)
qed


end
