(* ===== verification/RotationLedger.thy ===== *)
theory RotationLedger
  imports WriterFence
begin

text \<open>
  Package internal/rotationledger, file ledger.go, with the tables and triggers of migration 00028:
  what is known of the use of an account in a workspace, and the protection of an account against
  being rotated.  A report of use is merged into the one row of its account and workspace, a
  protection replaces the one row of its account.
\<close>

section \<open>Tables\<close>

record usage_evidence =
  ue_account :: string
  ue_workspace :: string
  ue_state :: string
  ue_source :: string
  ue_id :: string
  ue_observed_at :: instant
  ue_expires_at :: instant

record usage_row = usage_evidence +
  ur_ever_used :: bool
  ur_version :: int

record protection_evidence =
  pe_account :: string
  pe_status :: string
  pe_source :: string
  pe_id :: string
  pe_observed_at :: instant

record protection_row = protection_evidence +
  pr_version :: int

record ledger_db =
  ledger_usages :: "usage_row list"
  ledger_protections :: "protection_row list"
  ledger_accounts :: "string list"
  ledger_workspaces :: "string list"

definition usage_states :: "string list" where
  "usage_states = [''unknown'', ''never_used'', ''used'']"

definition protection_statuses :: "string list" where
  "protection_statuses = [''none'', ''suspected_sold'', ''sale_reserved'', ''delivery_pending'', ''delivered'', ''canceled_retired'']"

definition usage_row_ok :: "usage_row \<Rightarrow> bool" where
  "usage_row_ok r \<longleftrightarrow> ue_state r \<in> set usage_states \<and> 1 \<le> length (ue_source r) \<and> length (ue_source r) \<le> 128
     \<and> length (ue_id r) = 64 \<and> 0 < ur_version r \<and> ue_observed_at r < ue_expires_at r
     \<and> ue_expires_at r \<le> ue_observed_at r + 300 * second \<and> (ue_state r = ''used'' \<longleftrightarrow> ur_ever_used r)"

text \<open>The trigger tsw_rotation_usage_guard.\<close>

definition usage_change_ok :: "usage_row \<Rightarrow> usage_row \<Rightarrow> bool" where
  "usage_change_ok r r' \<longleftrightarrow>
     ue_account r' = ue_account r \<and> ue_workspace r' = ue_workspace r \<and> ur_version r' = ur_version r + 1
     \<and> (ur_ever_used r \<longrightarrow> ur_ever_used r') \<and> (ue_state r = ''used'' \<longrightarrow> ue_state r' = ''used'')
     \<and> \<not> (ue_state r = ''never_used'' \<and> ue_state r' = ''unknown'')"

definition protection_row_ok :: "protection_row \<Rightarrow> bool" where
  "protection_row_ok r \<longleftrightarrow> pe_status r \<in> set protection_statuses \<and> 1 \<le> length (pe_source r) \<and> length (pe_source r) \<le> 128
     \<and> length (pe_id r) = 64 \<and> 0 < pr_version r"

text \<open>The trigger tsw_rotation_protection_guard.\<close>

definition protection_change_ok :: "protection_row \<Rightarrow> protection_row \<Rightarrow> bool" where
  "protection_change_ok r r' \<longleftrightarrow> pe_account r' = pe_account r \<and> pr_version r' = pr_version r + 1
     \<and> (pe_status r \<in> {''delivered'', ''canceled_retired''} \<longrightarrow> pe_status r' = pe_status r)"

section \<open>Operations\<close>

definition valid_evidence :: "instant \<Rightarrow> string \<Rightarrow> string \<Rightarrow> instant \<Rightarrow> bool" where
  "valid_evidence clock source i observed \<longleftrightarrow>
     trim_space source \<noteq> [] \<and> length source \<le> 128 \<and> length i = 64 \<and> \<not> is_zero_time observed \<and> observed \<le> clock + 60 * second"

definition usage_acceptable :: "instant \<Rightarrow> usage_evidence \<Rightarrow> bool" where
  "usage_acceptable clock e \<longleftrightarrow> ue_account e \<noteq> nil_id \<and> ue_workspace e \<noteq> nil_id \<and> ue_state e \<in> set usage_states
     \<and> valid_evidence clock (ue_source e) (ue_id e) (ue_observed_at e) \<and> ue_observed_at e < ue_expires_at e
     \<and> ue_expires_at e \<le> ue_observed_at e + 300 * second"

definition stronger_state :: "string \<Rightarrow> string \<Rightarrow> string" where
  "stronger_state s t =
     (if s = ''used'' \<or> t = ''used'' then ''used'' else if s = ''never_used'' \<or> t = ''never_used'' then ''never_used'' else ''unknown'')"

definition fresh_usage :: "usage_evidence \<Rightarrow> usage_row" where
  "fresh_usage e = \<lparr>ue_account = ue_account e, ue_workspace = ue_workspace e, ue_state = ue_state e, ue_source = trim_space (ue_source e),
     ue_id = ue_id e, ue_observed_at = ue_observed_at e, ue_expires_at = ue_expires_at e, ur_ever_used = (ue_state e = ''used''),
     ur_version = 1\<rparr>"

definition merged_usage :: "usage_row \<Rightarrow> usage_row \<Rightarrow> usage_row" where
  "merged_usage r x =
    (let known = (ue_state x \<noteq> ''unknown'') in
     r\<lparr>ue_state := stronger_state (ue_state r) (ue_state x), ur_ever_used := ur_ever_used r \<or> ur_ever_used x,
       ue_source := (if known then ue_source x else ue_source r), ue_id := (if known then ue_id x else ue_id r),
       ue_observed_at := (if known then ue_observed_at x else ue_observed_at r),
       ue_expires_at := (if known then ue_expires_at x else ue_expires_at r), ur_version := ur_version r + 1\<rparr>)"

definition usage_of :: "string \<Rightarrow> string \<Rightarrow> ledger_db \<Rightarrow> usage_row option" where
  "usage_of a w db = find (\<lambda>r. ue_account r = a \<and> ue_workspace r = w) (ledger_usages db)"

definition record_usage ::
  "faults \<Rightarrow> instant \<Rightarrow> usage_evidence \<Rightarrow> ledger_db \<Rightarrow> (store_error, usage_row) result \<times> ledger_db" where
  "record_usage flt clock e db =
    (if \<not> usage_acceptable clock e then (Inl ErrInvalid, db)
     else if flt 0 then (Inl ErrDriver, db)
     else
       (case usage_of (ue_account e) (ue_workspace e) db of
          None \<Rightarrow>
            let x = fresh_usage e in
            if usage_row_ok x \<and> ue_account e \<in> set (ledger_accounts db) \<and> ue_workspace e \<in> set (ledger_workspaces db)
            then (Inr x, db\<lparr>ledger_usages := ledger_usages db @ [x]\<rparr>) else (Inl ErrConstraint, db)
        | Some r \<Rightarrow>
            let x = merged_usage r (fresh_usage e) in
            if usage_row_ok (fresh_usage e) \<and> usage_row_ok x \<and> usage_change_ok r x
            then (Inr x, db\<lparr>ledger_usages := update_where (\<lambda>y. ue_account y = ue_account e \<and> ue_workspace y = ue_workspace e)
                   (\<lambda>_. x) (ledger_usages db)\<rparr>)
            else (Inl ErrConstraint, db)))"

definition get_usage :: "faults \<Rightarrow> string \<Rightarrow> string \<Rightarrow> ledger_db \<Rightarrow> (store_error, usage_row option) result" where
  "get_usage flt a w db =
    (if a = nil_id \<or> w = nil_id then Inl ErrInvalid else if flt 0 then Inl ErrDriver else Inr (usage_of a w db))"

definition protection_of :: "string \<Rightarrow> ledger_db \<Rightarrow> protection_row option" where
  "protection_of a db = find (\<lambda>r. pe_account r = a) (ledger_protections db)"

definition protection_acceptable :: "instant \<Rightarrow> protection_evidence \<Rightarrow> bool" where
  "protection_acceptable clock e \<longleftrightarrow> pe_account e \<noteq> nil_id \<and> valid_evidence clock (pe_source e) (pe_id e) (pe_observed_at e)
     \<and> pe_status e \<in> set protection_statuses"

definition fresh_protection :: "protection_evidence \<Rightarrow> int \<Rightarrow> protection_row" where
  "fresh_protection e v = \<lparr>pe_account = pe_account e, pe_status = pe_status e, pe_source = trim_space (pe_source e), pe_id = pe_id e,
     pe_observed_at = pe_observed_at e, pr_version = v\<rparr>"

definition set_protection ::
  "faults \<Rightarrow> instant \<Rightarrow> protection_evidence \<Rightarrow> ledger_db \<Rightarrow> (store_error, protection_row) result \<times> ledger_db" where
  "set_protection flt clock e db =
    (if \<not> protection_acceptable clock e then (Inl ErrInvalid, db)
     else if flt 0 then (Inl ErrDriver, db)
     else
       (case protection_of (pe_account e) db of
          None \<Rightarrow>
            let x = fresh_protection e 1 in
            if protection_row_ok x \<and> pe_account e \<in> set (ledger_accounts db)
            then (Inr x, db\<lparr>ledger_protections := ledger_protections db @ [x]\<rparr>) else (Inl ErrConstraint, db)
        | Some r \<Rightarrow>
            let x = fresh_protection e (pr_version r + 1) in
            if protection_row_ok x \<and> protection_change_ok r x
            then (Inr x, db\<lparr>ledger_protections := update_where (\<lambda>y. pe_account y = pe_account e) (\<lambda>_. x) (ledger_protections db)\<rparr>)
            else (Inl ErrConstraint, db)))"

definition get_protection :: "faults \<Rightarrow> string \<Rightarrow> ledger_db \<Rightarrow> (store_error, protection_row option) result" where
  "get_protection flt a db =
    (if a = nil_id then Inl ErrInvalid else if flt 0 then Inl ErrDriver else Inr (protection_of a db))"

section \<open>What the ledger says after any reports\<close>

text \<open>Any sequence of reports; the accepted ones are returned in order.\<close>

fun ledger_run :: "ledger_db \<Rightarrow> (faults \<times> instant \<times> usage_evidence) list \<Rightarrow> usage_evidence list \<times> ledger_db" where
  "ledger_run db [] = ([], db)"
| "ledger_run db ((flt, clock, e) # rs) =
    (case record_usage flt clock e db of
       (Inl _, db') \<Rightarrow> ledger_run db' rs
     | (Inr _, db') \<Rightarrow> (case ledger_run db' rs of (es, db'') \<Rightarrow> (e # es, db'')))"

definition reports_on :: "string \<Rightarrow> string \<Rightarrow> usage_evidence \<Rightarrow> bool" where
  "reports_on a w e \<longleftrightarrow> ue_account e = a \<and> ue_workspace e = w"

definition absorb :: "usage_row option \<Rightarrow> usage_evidence \<Rightarrow> usage_row option" where
  "absorb r e = Some (case r of None \<Rightarrow> fresh_usage e | Some r \<Rightarrow> merged_usage r (fresh_usage e))"

definition strongest :: "string set \<Rightarrow> string" where
  "strongest S = (if ''used'' \<in> S then ''used'' else if ''never_used'' \<in> S then ''never_used'' else ''unknown'')"

lemma usage_key [simp]:
  "ue_account (fresh_usage e) = ue_account e" "ue_workspace (fresh_usage e) = ue_workspace e"
  "ue_account (merged_usage r x) = ue_account r" "ue_workspace (merged_usage r x) = ue_workspace r"
  by (simp_all add: fresh_usage_def merged_usage_def Let_def)

lemma account_after_update:
  assumes "\<And>y. P y \<Longrightarrow> P (f y)"
  shows "find P (update_where P f xs) = map_option f (find P xs)"
  by (induction xs) (auto simp: update_where_def assms)

lemma find_update_other:
  assumes "\<And>y. P y \<Longrightarrow> \<not> Q y" and "\<And>y. P y \<Longrightarrow> \<not> Q (f y)"
  shows "find Q (update_where P f xs) = find Q xs"
  by (induction xs) (auto simp: update_where_def assms)

lemma find_snoc: "find P (xs @ [x]) = (case find P xs of None \<Rightarrow> if P x then Some x else None | Some y \<Rightarrow> Some y)"
  by (induction xs) auto

lemma record_usage_step:
  assumes "record_usage flt clock e db = (res, db')"
  shows "case res of
      Inl _ \<Rightarrow> db' = db
    | Inr x \<Rightarrow> usage_acceptable clock e \<and> Some x = absorb (usage_of (ue_account e) (ue_workspace e) db) e
        \<and> usage_of a w db' = (if reports_on a w e then Some x else usage_of a w db)"
proof (cases res)
  case (Inr x)
  show ?thesis
  proof (cases "usage_of (ue_account e) (ue_workspace e) db")
    case None
    then have ok: "usage_acceptable clock e" and x: "x = fresh_usage e" and db': "ledger_usages db' = ledger_usages db @ [x]"
      using assms Inr by (auto simp: record_usage_def Let_def split: if_splits)
    have "usage_of a w db' = (if reports_on a w e then Some x else usage_of a w db)"
      using None by (auto simp: usage_of_def db' x find_snoc reports_on_def split: option.splits)
    then show ?thesis using Inr None ok x by (simp add: absorb_def)
  next
    case (Some r)
    let ?P = "\<lambda>y. ue_account y = ue_account e \<and> ue_workspace y = ue_workspace e"
    have r: "ue_account r = ue_account e" "ue_workspace r = ue_workspace e"
      using Some by (auto simp: usage_of_def find_Some_iff)
    have ok: "usage_acceptable clock e" and x: "x = merged_usage r (fresh_usage e)"
      and db': "ledger_usages db' = update_where ?P (\<lambda>_. x) (ledger_usages db)"
      using assms Inr Some by (auto simp: record_usage_def Let_def split: if_splits)
    have key: "ue_account x = ue_account e" "ue_workspace x = ue_workspace e" by (simp_all add: x r)
    have "usage_of a w db' = (if reports_on a w e then Some x else usage_of a w db)"
    proof (cases "reports_on a w e")
      case True
      then have "usage_of a w db' = map_option (\<lambda>_. x) (usage_of a w db)"
        unfolding usage_of_def db' using account_after_update [of ?P "\<lambda>_. x"] key by (simp add: reports_on_def)
      then show ?thesis using True Some by (simp add: reports_on_def)
    next
      case False
      then show ?thesis unfolding usage_of_def db' by (auto simp: reports_on_def key intro!: find_update_other)
    qed
    then show ?thesis using Inr Some ok x by (simp add: absorb_def)
  qed
qed (use assms in \<open>auto simp: record_usage_def Let_def split: if_splits option.splits\<close>)

lemma ledger_run_usage:
  "ledger_run db rs = (es, db') \<Longrightarrow>
     usage_of a w db' = foldl absorb (usage_of a w db) (filter (reports_on a w) es) \<and> (\<forall>e\<in>set es. ue_state e \<in> set usage_states)"
proof (induction db rs arbitrary: es rule: ledger_run.induct)
  case (2 db flt clock e rs)
  obtain res db1 where step: "record_usage flt clock e db = (res, db1)" by fastforce
  note s = record_usage_step [OF step, of a w]
  show ?case
  proof (cases res)
    case (Inl err)
    then show ?thesis using "2.IH"(1) [OF step [symmetric] Inl, of es] "2.prems" step s by simp
  next
    case (Inr x)
    obtain es1 where es1: "ledger_run db1 rs = (es1, db')" and es: "es = e # es1"
      using "2.prems" step Inr by (auto split: prod.splits)
    have x: "Some x = absorb (usage_of (ue_account e) (ue_workspace e) db) e" "usage_acceptable clock e"
      and u: "usage_of a w db1 = (if reports_on a w e then Some x else usage_of a w db)" using s Inr by auto
    have "usage_of a w db1 = (if reports_on a w e then absorb (usage_of a w db) e else usage_of a w db)"
      using u x(1) by (auto simp: reports_on_def)
    then show ?thesis using "2.IH"(2) [OF step [symmetric] Inr es1] x(2) by (auto simp: es usage_acceptable_def)
  qed
qed simp

lemma stronger_strongest:
  assumes "s \<in> set usage_states"
  shows "stronger_state (strongest S) s = strongest (insert s S)"
proof -
  consider "s = ''unknown''" | "s = ''never_used''" | "s = ''used''" using assms by (auto simp: usage_states_def)
  then show ?thesis by cases (simp_all add: stronger_state_def strongest_def)
qed

lemma strongest_single: "s \<in> set usage_states \<Longrightarrow> strongest {s} = s"
  using stronger_strongest [of s "{}"] by (auto simp: strongest_def usage_states_def)

lemma merged_columns:
  "ue_state (merged_usage r (fresh_usage e)) = stronger_state (ue_state r) (ue_state e)"
  "ur_ever_used (merged_usage r (fresh_usage e)) \<longleftrightarrow> ur_ever_used r \<or> ue_state e = ''used''"
  "ur_version (merged_usage r (fresh_usage e)) = ur_version r + 1"
  "ue_state (fresh_usage e) = ue_state e" "ur_ever_used (fresh_usage e) \<longleftrightarrow> ue_state e = ''used''" "ur_version (fresh_usage e) = 1"
  by (simp_all add: merged_usage_def fresh_usage_def Let_def)

lemma absorbed:
  assumes "\<forall>e\<in>set es. ue_state e \<in> set usage_states"
    and "ue_state r = strongest S" and "ur_ever_used r \<longleftrightarrow> ''used'' \<in> S"
  shows "\<exists>r'. foldl absorb (Some r) es = Some r' \<and> ue_state r' = strongest (S \<union> ue_state ` set es)
    \<and> (ur_ever_used r' \<longleftrightarrow> ''used'' \<in> S \<union> ue_state ` set es) \<and> ur_version r' = ur_version r + int (length es)"
  using assms
proof (induction es arbitrary: r S)
  case (Cons e es)
  let ?r = "merged_usage r (fresh_usage e)"
  have "ue_state ?r = strongest (insert (ue_state e) S)" "ur_ever_used ?r \<longleftrightarrow> ''used'' \<in> insert (ue_state e) S"
    "ur_version ?r = ur_version r + 1"
    using Cons.prems stronger_strongest [of "ue_state e" S] by (auto simp: merged_columns)
  moreover have "\<forall>e\<in>set es. ue_state e \<in> set usage_states" using Cons.prems by simp
  ultimately show ?case using Cons.IH [of ?r "insert (ue_state e) S"] by (auto simp: absorb_def)
qed simp

text \<open>
  C37: The row of an account in a workspace says the strongest thing any accepted report on it ever
  said, whatever their order and however many reports on others or rejected ones came between:
  used if one said used, else never used if one said so; it was ever used just if one report said
  so, and its version counts the reports.
\<close>

theorem usage_is_strongest_report:
  assumes "ledger_run db rs = (es, db')" and "ledger_usages db = []"
  shows "case usage_of a w db' of
      None \<Rightarrow> filter (reports_on a w) es = []
    | Some r \<Rightarrow> ue_state r = strongest (ue_state ` set (filter (reports_on a w) es))
        \<and> (ur_ever_used r \<longleftrightarrow> ''used'' \<in> ue_state ` set (filter (reports_on a w) es))
        \<and> ur_version r = int (length (filter (reports_on a w) es))"
proof -
  let ?es = "filter (reports_on a w) es"
  have u: "usage_of a w db' = foldl absorb None ?es" and ok: "\<forall>e\<in>set ?es. ue_state e \<in> set usage_states"
    using ledger_run_usage [OF assms(1), of a w] assms(2) by (auto simp: usage_of_def)
  show ?thesis
  proof (cases ?es)
    case (Cons e fs)
    have fresh: "ue_state (fresh_usage e) = strongest {ue_state e}" "ur_ever_used (fresh_usage e) \<longleftrightarrow> ''used'' \<in> {ue_state e}"
      "ur_version (fresh_usage e) = 1"
      using ok Cons strongest_single [of "ue_state e"] by (auto simp: merged_columns)
    obtain r where "foldl absorb (Some (fresh_usage e)) fs = Some r" and "ue_state r = strongest ({ue_state e} \<union> ue_state ` set fs)"
      and "ur_ever_used r \<longleftrightarrow> ''used'' \<in> {ue_state e} \<union> ue_state ` set fs" and "ur_version r = 1 + int (length fs)"
      using absorbed [of fs "fresh_usage e" "{ue_state e}"] ok fresh Cons by auto
    then show ?thesis unfolding u Cons by (simp add: absorb_def)
  qed (simp add: u)
qed


definition use_report :: "string \<Rightarrow> usage_evidence" where
  "use_report s = \<lparr>ue_account = ''a'', ue_workspace = ''w'', ue_state = s, ue_source = ''p'', ue_id = replicate 64 (CHR ''0''),
     ue_observed_at = 0, ue_expires_at = 60 * second\<rparr>"

definition sample_ledger :: ledger_db where
  "sample_ledger = \<lparr>ledger_usages = [], ledger_protections = [], ledger_accounts = [''a''], ledger_workspaces = [''w'']\<rparr>"

definition sample_reports :: "(faults \<times> instant \<times> usage_evidence) list" where
  "sample_reports = [(\<lambda>_. False, 100, use_report ''used''), (\<lambda>_. False, 100, use_report ''never_used'')]"

definition used_row :: usage_row where
  "used_row = \<lparr>ue_account = ''a'', ue_workspace = ''w'', ue_state = ''used'', ue_source = ''p'', ue_id = replicate 64 (CHR ''0''),
     ue_observed_at = 0, ue_expires_at = 60 * second, ur_ever_used = True, ur_version = 1\<rparr>"

lemma sample_account_trimmed: "trim_space ''p'' = ''p''"
  by (simp add: trim_space_visible visible_def char_code_def)

lemma sample_acceptable: "s \<in> set usage_states \<Longrightarrow> usage_acceptable 100 (use_report s)"
  by (simp add: usage_acceptable_def valid_evidence_def use_report_def sample_account_trimmed nil_id_def time_defs)

lemma sample_fresh: "fresh_usage (use_report ''used'') = used_row"
  by (simp add: fresh_usage_def use_report_def sample_account_trimmed used_row_def)

lemma used_row_fine: "usage_row_ok used_row"
  by (simp add: usage_row_ok_def used_row_def usage_states_def time_defs)

lemma sample_used: "record_usage (\<lambda>_. False) 100 (use_report ''used'') sample_ledger = (Inr used_row, sample_ledger\<lparr>ledger_usages := [used_row]\<rparr>)"
proof -
  have "usage_acceptable 100 (use_report ''used'')" by (rule sample_acceptable) (simp add: usage_states_def)
  moreover have "usage_of a w sample_ledger = None" for a w by (simp add: usage_of_def sample_ledger_def)
  moreover have "ue_account (use_report ''used'') = ''a''" "ue_workspace (use_report ''used'') = ''w''" by (simp_all add: use_report_def)
  ultimately show ?thesis by (simp add: record_usage_def sample_fresh used_row_fine Let_def) (simp add: sample_ledger_def)
qed

lemma sample_never:
  "\<exists>x db'. record_usage (\<lambda>_. False) 100 (use_report ''never_used'') (sample_ledger\<lparr>ledger_usages := [used_row]\<rparr>) = (Inr x, db')
     \<and> usage_of ''a'' ''w'' db' = Some x"
proof -
  let ?e = "use_report ''never_used''" and ?db = "sample_ledger\<lparr>ledger_usages := [used_row]\<rparr>"
  let ?x = "merged_usage used_row (fresh_usage ?e)"
  have ok: "usage_acceptable 100 ?e" by (rule sample_acceptable) (simp add: usage_states_def)
  have found: "usage_of ''a'' ''w'' ?db = Some used_row" by (simp add: usage_of_def used_row_def)
  have key: "ue_account ?e = ''a''" "ue_workspace ?e = ''w''" by (simp_all add: use_report_def)
  have rows: "usage_row_ok (fresh_usage ?e)" "usage_row_ok ?x" "usage_change_ok used_row ?x"
    by (simp_all add: usage_row_ok_def usage_change_ok_def merged_usage_def fresh_usage_def use_report_def sample_account_trimmed used_row_def
        usage_states_def stronger_state_def time_defs Let_def)
  show ?thesis
    by (simp add: record_usage_def ok key found rows Let_def)
       (simp add: usage_of_def update_where_def merged_usage_def used_row_def Let_def)
qed

lemma sample_ledger_run:
  "fst (ledger_run sample_ledger sample_reports) = [use_report ''used'', use_report ''never_used'']"
  "usage_of ''a'' ''w'' (snd (ledger_run sample_ledger sample_reports)) \<noteq> None"
  using sample_never by (auto simp: sample_reports_def sample_used)

theorem usage_is_strongest_report_witness:
  "case usage_of ''a'' ''w'' (snd (ledger_run sample_ledger sample_reports)) of
     None \<Rightarrow> False | Some r \<Rightarrow> ue_state r = ''used'' \<and> ur_ever_used r \<and> ur_version r = 2"
proof -
  obtain db' where run: "ledger_run sample_ledger sample_reports = ([use_report ''used'', use_report ''never_used''], db')"
    using sample_ledger_run(1) by (cases "ledger_run sample_ledger sample_reports") simp
  have f: "filter (reports_on ''a'' ''w'') [use_report ''used'', use_report ''never_used''] = [use_report ''used'', use_report ''never_used'']"
    by (simp add: reports_on_def use_report_def)
  have states: "ue_state ` set [use_report ''used'', use_report ''never_used''] = {''used'', ''never_used''}"
    by (simp add: use_report_def)
  have "ledger_usages sample_ledger = []" by (simp add: sample_ledger_def)
  from usage_is_strongest_report [OF run this, of "''a''" "''w''", unfolded f states] sample_ledger_run(2)
  show ?thesis by (auto simp: run strongest_def split: option.splits)
qed


end
