(* ===== verification/TargetImport.thy ===== *)
theory TargetImport
  imports Prelude
begin

text \<open>
  Package internal/target, file import.go: the list of accounts an owner pastes, one account per
  line, its fields separated by four dashes.  A malformed line refuses the whole list.  A Go map
  used as a set is the list of identifiers of the rows so far.
\<close>

section \<open>Parsing\<close>

record import_row =
  ir_line :: nat
  ir_identifier :: string
  ir_label :: string
  ir_password :: string
  ir_totp :: string
  ir_recovery :: string
  ir_subject :: string
  ir_existing :: bool

datatype import_error = FieldsExpected nat | IdentifierRequired nat | DuplicateAccount nat | TooManyRows | NoAccounts

definition max_import_rows :: nat where
  "max_import_rows = 10000"

definition newline :: string where
  "newline = [CHR 0x0A]"

definition carriage_return :: string where
  "carriage_return = [CHR 0x0D]"

definition default_string :: "string \<Rightarrow> string \<Rightarrow> string" where
  "default_string v fallback = (if v = [] then fallback else v)"

definition field_at :: "string list \<Rightarrow> nat \<Rightarrow> string" where
  "field_at parts i = (if i < length parts then trim_space (parts ! i) else [])"

definition row_of :: "unicode \<Rightarrow> nat \<Rightarrow> string list \<Rightarrow> import_row" where
  "row_of U n parts =
    (let ident = to_lower U (field_at parts 0) in
     \<lparr>ir_line = n, ir_identifier = ident, ir_label = default_string (field_at parts 3) ident, ir_password = field_at parts 1,
      ir_totp = field_at parts 2, ir_recovery = field_at parts 4, ir_subject = field_at parts 5, ir_existing = False\<rparr>)"

fun parse_lines :: "unicode \<Rightarrow> nat \<Rightarrow> import_row list \<Rightarrow> string list \<Rightarrow> (import_error, import_row list) result" where
  "parse_lines U n rows [] = Inr rows"
| "parse_lines U n rows (raw # rest) =
    (let line = trim_space (trim_suffix raw carriage_return); parts = split line ''----''; row = row_of U n parts in
     if line = [] \<or> has_prefix line ''#'' then parse_lines U (Suc n) rows rest
     else if length parts < 3 then Inl (FieldsExpected n)
     else if ir_identifier row = [] \<or> ir_password row = [] then Inl (IdentifierRequired n)
     else if ir_identifier row \<in> set (map ir_identifier rows) then Inl (DuplicateAccount n)
     else if max_import_rows < Suc (length rows) then Inl TooManyRows
     else parse_lines U (Suc n) (rows @ [row]) rest)"

definition parse_import :: "unicode \<Rightarrow> string \<Rightarrow> (import_error, import_row list) result" where
  "parse_import U content =
     rbind (parse_lines U 1 [] (split content newline)) (\<lambda>rows. if rows = [] then Inl NoAccounts else Inr rows)"

section \<open>What an accepted list holds\<close>

definition row_ok :: "import_row \<Rightarrow> bool" where
  "row_ok r \<longleftrightarrow> ir_identifier r \<noteq> [] \<and> ir_password r \<noteq> [] \<and> ir_label r \<noteq> [] \<and> 0 < ir_line r \<and> \<not> ir_existing r"

definition rows_ok :: "nat \<Rightarrow> import_row list \<Rightarrow> bool" where
  "rows_ok n rows \<longleftrightarrow> list_all row_ok rows \<and> distinct (map ir_identifier rows) \<and> length rows \<le> max_import_rows
     \<and> sorted_wrt (<) (map ir_line rows) \<and> list_all (\<lambda>r. ir_line r < n) rows"

lemma rows_ok_later: "rows_ok n rows \<Longrightarrow> rows_ok (Suc n) rows"
  by (auto simp: rows_ok_def list_all_iff less_Suc_eq)

lemma rows_ok_snoc:
  assumes "rows_ok n rows" and "0 < n" and "ir_identifier (row_of U n parts) \<noteq> []" and "ir_password (row_of U n parts) \<noteq> []"
    and "ir_identifier (row_of U n parts) \<notin> set (map ir_identifier rows)" and "Suc (length rows) \<le> max_import_rows"
  shows "rows_ok (Suc n) (rows @ [row_of U n parts])"
  using assms
  by (auto simp: rows_ok_def row_ok_def list_all_iff sorted_wrt_append row_of_def default_string_def Let_def less_Suc_eq)

lemma parse_lines_ok:
  "parse_lines U n rows lines = Inr rows' \<Longrightarrow> rows_ok n rows \<Longrightarrow> 0 < n \<Longrightarrow> rows_ok (n + length lines) rows'"
proof (induction lines arbitrary: n rows)
  case (Cons raw rest)
  define parts where "parts = split (trim_space (trim_suffix raw carriage_return)) ''----''"
  consider "parse_lines U (Suc n) rows rest = Inr rows'"
    | "parse_lines U (Suc n) (rows @ [row_of U n parts]) rest = Inr rows'" "ir_identifier (row_of U n parts) \<noteq> []"
      "ir_password (row_of U n parts) \<noteq> []" "ir_identifier (row_of U n parts) \<notin> set (map ir_identifier rows)"
      "Suc (length rows) \<le> max_import_rows"
    using Cons.prems(1) by (auto simp: Let_def parts_def [symmetric] split: if_splits)
  then show ?case
  proof cases
    case 1
    from Cons.IH [OF this rows_ok_later [OF Cons.prems(2)]] show ?thesis by simp
  next
    case 2
    from Cons.IH [OF 2(1) rows_ok_snoc [OF Cons.prems(2,3) 2(2-5)]] show ?thesis by simp
  qed
qed simp

text \<open>
  C39: Every row of an accepted list is complete: it has an identifier, a password and a label, no
  identifier occurs twice, the rows stand in the order of their lines, and there are between one
  and ten thousand of them.
\<close>

theorem accepted_import_is_well_formed:
  assumes "parse_import U content = Inr rows"
  shows "rows \<noteq> [] \<and> length rows \<le> 10000 \<and> list_all row_ok rows \<and> distinct (map ir_identifier rows)
    \<and> sorted_wrt (<) (map ir_line rows)"
proof -
  have "parse_lines U 1 [] (split content newline) = Inr rows" and "rows \<noteq> []"
    using assms by (auto simp: parse_import_def rbind_eq_Inr split: if_splits)
  moreover have "rows_ok 1 []" by (simp add: rows_ok_def)
  ultimately show ?thesis using parse_lines_ok [of U 1 "[]" _ rows] by (auto simp: rows_ok_def max_import_rows_def)
qed

section \<open>Printing\<close>

fun joined :: "string \<Rightarrow> string list \<Rightarrow> string" where
  "joined sep [] = []"
| "joined sep [x] = x"
| "joined sep (x # y # zs) = x @ sep @ joined sep (y # zs)"

definition print_row :: "import_row \<Rightarrow> string" where
  "print_row r = joined ''----'' [ir_identifier r, ir_password r, ir_totp r, ir_label r, ir_recovery r, ir_subject r]"

definition print_import :: "import_row list \<Rightarrow> string" where
  "print_import rows = joined newline (map print_row rows)"

definition clean :: "string \<Rightarrow> bool" where
  "clean f \<longleftrightarrow> CHR ''-'' \<notin> set f \<and> hd newline \<notin> set f \<and> (f = [] \<or> visible (hd f) \<and> visible (last f))"

definition printable :: "unicode \<Rightarrow> import_row \<Rightarrow> bool" where
  "printable U r \<longleftrightarrow> list_all clean [ir_identifier r, ir_password r, ir_totp r, ir_label r, ir_recovery r, ir_subject r]
     \<and> ir_identifier r \<noteq> [] \<and> ir_password r \<noteq> [] \<and> ir_label r \<noteq> [] \<and> to_lower U (ir_identifier r) = ir_identifier r
     \<and> hd (ir_identifier r) \<noteq> CHR ''#'' \<and> \<not> ir_existing r"

lemma split_from_skip:
  assumes "hd sep \<notin> set f" and "sep \<noteq> []"
  shows "split_from sep acc (f @ sep @ s) = (rev acc @ f) # split_from sep [] s"
  using assms(1)
proof (induction f arbitrary: acc)
  case Nil
  show ?case using assms(2) by (subst split_from.simps) simp
next
  case (Cons c f)
  have "\<not> has_prefix ((c # f) @ sep @ s) sep" using Cons.prems has_prefix_hd [of "(c # f) @ sep @ s" sep] assms(2) by auto
  then show ?case using Cons by (subst split_from.simps) simp
qed

lemma split_from_last:
  assumes "hd sep \<notin> set f" and "sep \<noteq> []"
  shows "split_from sep acc f = [rev acc @ f]"
  using assms(1)
proof (induction f arbitrary: acc)
  case Nil
  show ?case by (subst split_from.simps) simp
next
  case (Cons c f)
  have "\<not> has_prefix (c # f) sep" using Cons.prems has_prefix_hd [of "c # f" sep] assms(2) by auto
  then show ?case using Cons by (subst split_from.simps) simp
qed

lemma split_joined:
  assumes "list_all (\<lambda>x. hd sep \<notin> set x) xs" and "xs \<noteq> []" and "sep \<noteq> []"
  shows "split (joined sep xs) sep = xs"
  using assms unfolding split_def
  by (induction sep xs rule: joined.induct) (simp_all add: split_from_last split_from_skip)

lemma trim_space_empty: "trim_space [] = []"
proof -
  have "trim_left [] = []" by (subst trim_left.simps) simp
  moreover have "trim_right [] = []" by (subst trim_right.simps) simp
  ultimately show ?thesis by (simp add: trim_space_def)
qed

lemma clean_trim: "clean f \<Longrightarrow> trim_space f = f"
  by (cases "f = []") (auto simp: clean_def trim_space_visible trim_space_empty)

lemma last_char:
  assumes "f = [] \<or> visible (last f)"
  shows "visible (last (s @ ''----'' @ f))"
  using assms by (cases "f = []") (simp_all add: visible_def char_code_def)

lemma print_row_edges:
  assumes "printable U r"
  shows "visible (hd (print_row r))" and "visible (last (print_row r))" and "hd (print_row r) = hd (ir_identifier r)"
    and "print_row r \<noteq> []" and "hd newline \<notin> set (print_row r)"
proof -
  have clean: "clean (ir_identifier r)" "clean (ir_subject r)" and n: "ir_identifier r \<noteq> []" using assms by (simp_all add: printable_def)
  show h: "hd (print_row r) = hd (ir_identifier r)" using n by (simp add: print_row_def)
  show "visible (hd (print_row r))" using clean n by (simp add: h clean_def)
  show "print_row r \<noteq> []" by (simp add: print_row_def)
  have p: "print_row r = (ir_identifier r @ ''----'' @ ir_password r @ ''----'' @ ir_totp r @ ''----'' @ ir_label r @ ''----'' @ ir_recovery r)
      @ ''----'' @ ir_subject r"
    by (simp add: print_row_def)
  show "visible (last (print_row r))" unfolding p using clean(2) by (intro last_char) (auto simp: clean_def)
  have "hd newline \<noteq> CHR ''-''" by (simp add: newline_def)
  then show "hd newline \<notin> set (print_row r)" using assms by (auto simp: p printable_def clean_def)
qed

lemma parse_printed_line:
  assumes "printable U r" and "ir_line r = n"
  shows "trim_space (trim_suffix (print_row r) carriage_return) = print_row r" and "\<not> has_prefix (print_row r) ''#''"
    and "row_of U n (split (print_row r) ''----'') = r" and "3 \<le> length (split (print_row r) ''----'')"
proof -
  note e = print_row_edges [OF assms(1)]
  have "\<not> has_suffix (print_row r) carriage_return"
    using e(2) has_suffix_last [of "print_row r" carriage_return] by (auto simp: carriage_return_def visible_def char_code_def)
  then show "trim_space (trim_suffix (print_row r) carriage_return) = print_row r"
    using trim_space_visible [OF e(1,2)] by (simp add: trim_suffix_def)
  show "\<not> has_prefix (print_row r) ''#''" using has_prefix_hd [of "print_row r" "''#''"] e(3) assms(1) by (auto simp: printable_def)
  let ?fs = "[ir_identifier r, ir_password r, ir_totp r, ir_label r, ir_recovery r, ir_subject r]"
  have clean: "list_all clean ?fs" using assms(1) by (simp add: printable_def)
  have parts: "split (print_row r) ''----'' = ?fs"
    unfolding print_row_def by (rule split_joined) (use clean in \<open>auto simp: list_all_iff clean_def\<close>)
  then show "3 \<le> length (split (print_row r) ''----'')" by simp
  have fields: "field_at ?fs 0 = ir_identifier r" "field_at ?fs 1 = ir_password r" "field_at ?fs 2 = ir_totp r"
      "field_at ?fs 3 = ir_label r" "field_at ?fs 4 = ir_recovery r" "field_at ?fs 5 = ir_subject r"
    using clean by (simp_all add: field_at_def clean_trim)
  show "row_of U n (split (print_row r) ''----'') = r"
    unfolding parts row_of_def fields using assms by (cases r) (simp add: printable_def default_string_def Let_def)
qed

lemma parse_printed_lines:
  assumes "list_all (printable U) rs" and "map ir_line rs = [n..<n + length rs]"
    and "distinct (map ir_identifier (rows @ rs))" and "length (rows @ rs) \<le> max_import_rows"
  shows "parse_lines U n rows (map print_row rs) = Inr (rows @ rs)"
  using assms
proof (induction rs arbitrary: n rows)
  case (Cons r rs)
  have n: "ir_line r = n" and ns: "map ir_line rs = [Suc n..<Suc n + length rs]" using Cons.prems(2) by (simp_all add: upt_rec)
  have pr: "printable U r" using Cons.prems(1) by simp
  note line = parse_printed_line [OF pr n]
  have "parse_lines U (Suc n) (rows @ [r]) (map print_row rs) = Inr ((rows @ [r]) @ rs)"
    by (rule Cons.IH) (use Cons.prems ns in auto)
  then show ?case
    using Cons.prems(3,4) pr line print_row_edges(4) [OF pr] by (auto simp: Let_def printable_def)
qed simp

text \<open>
  C40: What is printed is read back: a list of one to ten thousand rows numbered by their lines, with
  different identifiers and fields free of dashes, line ends and outer blanks, is the result of
  parsing its own text.
\<close>

theorem import_round_trip:
  assumes "list_all (printable U) rows" and "map ir_line rows = [1..<Suc (length rows)]" and "distinct (map ir_identifier rows)"
    and "rows \<noteq> []" and "length rows \<le> 10000"
  shows "parse_import U (print_import rows) = Inr rows"
proof -
  have "split (print_import rows) newline = map print_row rows"
    unfolding print_import_def
    by (rule split_joined) (use assms(1,4) print_row_edges(5) in \<open>auto simp: list_all_iff newline_def\<close>)
  moreover have "parse_lines U 1 [] (map print_row rows) = Inr ([] @ rows)"
    by (rule parse_printed_lines) (use assms in \<open>auto simp: max_import_rows_def\<close>)
  ultimately show ?thesis using assms(4) by (simp add: parse_import_def)
qed

definition sample_import :: "import_row list" where
  "sample_import = [\<lparr>ir_line = 1, ir_identifier = ''u'', ir_label = ''l'', ir_password = ''p'', ir_totp = [], ir_recovery = [],
     ir_subject = ''s'', ir_existing = False\<rparr>]"

lemma sample_printable: "list_all (printable \<lparr>u_lower = id, u_upper = id, u_fold = (=)\<rparr>) sample_import"
  by (simp add: sample_import_def printable_def clean_def newline_def visible_def char_code_def to_lower_def lower_char_def
      ascii_def ascii_char_def)

theorem import_round_trip_witness:
  "parse_import \<lparr>u_lower = id, u_upper = id, u_fold = (=)\<rparr> (print_import sample_import) = Inr sample_import"
  by (rule import_round_trip [OF sample_printable]) (simp_all add: sample_import_def)

theorem accepted_import_is_well_formed_witness:
  "\<exists>content rows. parse_import \<lparr>u_lower = id, u_upper = id, u_fold = (=)\<rparr> content = Inr rows \<and> rows \<noteq> [] \<and> list_all row_ok rows"
proof -
  let ?U = "\<lparr>u_lower = id, u_upper = id, u_fold = (=)\<rparr> :: unicode"
  have "parse_lines ?U 1 [] (map print_row sample_import) = Inr ([] @ sample_import)"
    by (rule parse_printed_lines [OF sample_printable]) (simp_all add: sample_import_def max_import_rows_def)
  moreover have "split (print_import sample_import) newline = map print_row sample_import"
    unfolding print_import_def
    by (rule split_joined) (use sample_printable print_row_edges(5) in \<open>auto simp: list_all_iff newline_def sample_import_def\<close>)
  ultimately have "parse_import ?U (print_import sample_import) = Inr sample_import"
    by (simp add: parse_import_def) (simp add: sample_import_def)
  from accepted_import_is_well_formed [OF this] this show ?thesis by blast
qed

end
