(* ===== verification/Spec2Isabelle.thy ===== *)
theory Spec2Isabelle
  imports RecoveryLaws Egress EgressPool WorkerLaws OwnerAuth FactsLaws ReclaimLaws LoginLaws RedeemLaws DispatchLaws RotationLaws
    RotationLedger TargetImport
begin

text \<open>
  TeamSeatWatch: one control process that watches the workspaces of an external platform for its
  Owner, moves the seats of accounts between them and hands credentials to customers.

  \<^bold>\<open>The program.\<close>  The Owner logs in over HTTP (src/internal/runtime/owner_auth.go) and authorises
  operations, which become rows of a durable task queue (src/internal/task).  A single worker takes one
  task per turn (worker.go), leases an exit to the network (src/internal/egress), talks to the platform
  (src/internal/platform) and settles the task in the transaction that publishes what it found: a
  probe of an account (src/internal/target), the facts of a workspace (src/internal/workspace), the
  end of a join or a removal, or a version of delivered credentials (task/oauth.go).  Every such
  transaction also writes a fact into an append-only journal (src/internal/audit).  Customers exchange
  a card for an order and a token (runtime/public_redeem_http.go) within public rate limits
  (src/internal/publicaccess).  An expired seat is rotated out slot by slot
  (runtime/rotation_removal.go) under fenced epochs (src/internal/writerfence).

  \<^bold>\<open>How it is modelled.\<close>  A table is the list of its rows, a row a record with the columns the
  statements name, a nullable column an option, a CHECK, UNIQUE or foreign key constraint and a trigger a
  condition on what a statement may store.  A transaction (Prelude, StoreDb) is a function from the
  database to an error or to a value and the next database, so a failed one changes nothing; each
  statement has a number and \<open>flt\<close> says which of them the driver fails, the commit among them.
  Identifiers that are generated, clocks, the rows locked by others and the commits of other processes
  between two transactions are arguments.  What spans several transactions and requests (workers,
  deliveries, turns, a run of a removal) is a program over a world (TaskWorker): the database, a
  counter of the steps taken outside and a log of the requests the platform received; an error keeps
  the world as it is at that point.  HTTP handlers return their status and code as a datatype.

  \<^bold>\<open>The theories.\<close>
  \<^item> Prelude, Json, Encodings: package strings, time and encoding as far as used; byte strings are
    strings of 8-bit characters, instants are nanoseconds.
  \<^item> AuditRegistry, AuditLaws (audit.go): the registry of facts, validation, the stable key of an event
    and the idempotent insert; the key is injective on the registered events.
  \<^item> StoreDb, TaskStore, TaskOps, TaskRecovery, TaskJoin, TaskRemoval (task.go, join.go, removal.go): the
    tables, the queue and its leases, the boundary of joins and removals, recovery.  TaskLaws proves what
    a lease excludes and that a claim makes progress, TaskHistory the invariant of every history of store
    operations, MutationLaws and RecoveryLaws what is announced, what recovery keeps, and two places where
    a removal is stranded.
  \<^item> PlatformOutcomes, PlatformReads (platform.go, http.go, join.go, removal.go, target.go): the reduction
    of answers to bounded vocabularies and the requests themselves.
  \<^item> Egress, EgressPool (egress.go, lease.go, manager.go): the admission of exits and their exclusive leases;
    the acquisition loop ends within the number of its candidates.
  \<^item> TaskWorker, WorkerLaws (join_worker.go, removal_worker.go, worker.go): the attempts, and the words of
    requests and announcements they can produce.  TaskDispatch, DispatchLaws: a whole turn (RunOnce).
  \<^item> TargetService, WorkspaceFacts, FactsLaws: the publications behind a settlement.
  \<^item> TaskDelivery, DeliveryReads, DeliveryWorker, DeliveryLaws, ReclaimLaws (oauth.go and its workers,
    platform/oauth.go, pkce.go): generations, probes and reclaims of credentials, and what a
    published version proves.
  \<^item> Secrets, OwnerAuth (auth, identity, oauth, target): sealing, cards, tokens, passwords, one-time codes.
    OwnerSessions, SessionLaws, LoginLaws, RateLimits (owner_auth.go, ratelimit.go): the sessions of the
    Owner, the limit on failures, and the windows of public requests as a refinement of a quota.
  \<^item> PublicRedeem, RedeemLaws (public_redeem_http.go): what a card and a token are good for.
  \<^item> WriterFence, RotationRemoval, RotationLaws (epoch.go, rotation_removal.go): the confirmed removals of a
    rotation; the laws are about every interleaving of its transactions (\<open>rotation_trace\<close>) and about one
    run of its handler.  RotationLedger (ledger.go): the evidence of use a rotation rests on.
  \<^item> TargetImport (import.go): the list of accounts an owner pastes.

  \<^bold>\<open>Interfaces.\<close>  \<open>atomic_call\<close> (a call that fails changes nothing), \<open>transition_order\<close> (a relation
  every statement and so every transaction keeps), \<open>publisher\<close> (the callback of a settlement),
  \<open>lease_guarded\<close> (an operation behind the fence of a lease), \<open>announcer\<close> (a committed announcement) and
  \<open>lease_provider\<close> (an exclusive exit) are locales; each is interpreted on the definitions of the code, and
  the properties rest on the facts of the interpretations.

  \<^bold>\<open>Parameters.\<close>  Hash, HMAC, AEAD, Argon2 and random sources, the JSON syntax and the struct decoders of
  encoding/json, url.Parse and netip, the case tables of unicode, the transport of net/http, and the tables
  a component only looks up (accounts, bindings, credentials) are arguments of the definitions.  Where a
  property needs more of one (an AEAD that opens what it sealed, a MAC without collisions) it is a
  hypothesis of the property, and its witness gives a concrete instance.

  \<^bold>\<open>Bounds and recursion.\<close>  There is no fuel: the loops of the source end because a list or a string
  becomes shorter (the loops of package strings, the candidates of an acquisition, the rows of a result)
  or because they count (ten slices of personal probes in a turn, three announcements of a removal), and
  the recursions are over exactly these.  An endless worker is any sequence of its turns.

  \<^bold>\<open>Not modelled.\<close>  Generated API code, start-up, TLS, static files, metrics and health checks are calls of
  libraries.  The logins and exchanges that drive a browser session (platform/oauth.go, workspace_exchange.go,
  selected_workspace_http.go) depend on pages and cookies outside the repository: an interactive login
  is a parameter of a delivery.  The Owner's handlers over workspaces, batches, drafts, materials and destinations
  fill tables that are inputs here.  Of expiry_rotation.go only the epoch keys are modelled, with the
  digests of a stored authorisation and the source facts behind it as parameters of a removal; the join side
  of a rotation, the retention deletions and the periodic probes of personal accounts are not modelled.
  Columns and messages that are only displayed are left out, and so is the text of an error beyond its code.
\<close>

end
